(* ===== verification/Prelude.thy ===== *)
theory Prelude
  imports Complex_Main
begin

text \<open>
  What every component shares: the exceptions the services throw and the result type that carries
  them, \<open>await\<close> (the sequencing of a call that may throw with the rest of the function), the
  loops over lists that stop at the first exception, the string operations of the language the
  source uses (\<open>trim\<close>, \<open>toUpperCase\<close>, \<open>toLowerCase\<close>, decimal printing of integers) and the
  de-duplication \<open>[...new Set(xs)]\<close>.  Strings are lists of ASCII characters.
\<close>

named_theorems res_simps \<open>how a call that may throw unfolds\<close>

section \<open>Exceptions and results\<close>

text \<open>
  The HTTP exceptions of the framework with the message the source gives them; \<open>TypeErr\<close> is the
  language's own error for reading a property of \<open>null\<close> or \<open>undefined\<close>, \<open>Failure\<close> a plain
  \<open>new Error(message)\<close>.
\<close>

datatype exc =
    BadRequest string
  | NotFound string
  | Conflict string
  | Forbidden string
  | Unauthorized string
  | TypeErr
  | Failure string

type_synonym 'a res = "exc + 'a"

definition await :: "'a res \<Rightarrow> ('a \<Rightarrow> 'b res) \<Rightarrow> 'b res" where
  "await m k = (case m of Inl e \<Rightarrow> Inl e | Inr x \<Rightarrow> k x)"

definition ensure :: "bool \<Rightarrow> exc \<Rightarrow> unit res" where
  "ensure ok e = (if ok then Inr () else Inl e)"

lemma await_simps [simp]:
  "await (Inl e) k = Inl e"
  "await (Inr x) k = k x"
  by (simp_all add: await_def)

lemma await_Inr_iff [res_simps]: "await m k = Inr y \<longleftrightarrow> (\<exists>x. m = Inr x \<and> k x = Inr y)"
  by (cases m) auto

lemma await_Inl_iff:
  "await m k = Inl e \<longleftrightarrow> m = Inl e \<or> (\<exists>x. m = Inr x \<and> k x = Inl e)"
  by (cases m) auto

lemma await_InrE:
  assumes "await m k = Inr y"
  obtains x where "m = Inr x" and "k x = Inr y"
  using assms by (auto simp: await_Inr_iff)

lemma await_assoc: "await (await m k) l = await m (\<lambda>x. await (k x) l)"
  by (cases m) auto

lemma await_cong [fundef_cong]:
  assumes "m = m'" and "\<And>x. m' = Inr x \<Longrightarrow> k x = k' x"
  shows "await m k = await m' k'"
  using assms by (cases m') auto

lemma ensure_simps [simp]:
  "ensure True e = Inr ()"
  "ensure False e = Inl e"
  by (simp_all add: ensure_def)

lemma ensure_Inr_iff [simp]: "ensure b e = Inr u \<longleftrightarrow> b"
  by (simp add: ensure_def)

lemma if_Inl_Inr_iff [res_simps]: "(if b then Inl e else m) = Inr y \<longleftrightarrow> \<not> b \<and> m = Inr y"
  by simp

lemma if_Inr_Inl_iff [res_simps]: "(if b then m else Inl e) = Inr y \<longleftrightarrow> b \<and> m = Inr y"
  by simp

lemma if_InlE:
  assumes "(if b then Inl e else m) = Inr y"
  obtains "\<not> b" and "m = Inr y"
  using assms by (simp add: if_Inl_Inr_iff)

lemma sum_case_Inr_iff:
  "(case m of Inl e \<Rightarrow> f e | Inr x \<Rightarrow> g x) = y \<longleftrightarrow>
   (\<exists>e. m = Inl e \<and> f e = y) \<or> (\<exists>x. m = Inr x \<and> g x = y)"
  by (cases m) auto

section \<open>Loops that stop at the first exception\<close>

text \<open>
  \<open>xs.map((x, index) => f(index, x))\<close> where the callback may throw: the elements are visited in
  order and the first exception leaves the loop.
\<close>

fun map_resi :: "(nat \<Rightarrow> 'a \<Rightarrow> 'b res) \<Rightarrow> nat \<Rightarrow> 'a list \<Rightarrow> 'b list res" where
  "map_resi f i [] = Inr []"
| "map_resi f i (x # xs) =
     await (f i x) (\<lambda>y. await (map_resi f (Suc i) xs) (\<lambda>ys. Inr (y # ys)))"

definition map_res :: "('a \<Rightarrow> 'b res) \<Rightarrow> 'a list \<Rightarrow> 'b list res" where
  "map_res f xs = map_resi (\<lambda>_. f) 0 xs"

fun filter_res :: "('a \<Rightarrow> bool res) \<Rightarrow> 'a list \<Rightarrow> 'a list res" where
  "filter_res f [] = Inr []"
| "filter_res f (x # xs) =
     await (f x) (\<lambda>b. await (filter_res f xs) (\<lambda>ys. Inr (if b then x # ys else ys)))"

lemma map_resi_Inr_conv:
  "map_resi f i xs = Inr ys \<longleftrightarrow>
     length ys = length xs \<and> (\<forall>j < length xs. f (i + j) (xs ! j) = Inr (ys ! j))"
proof (induction xs arbitrary: i ys)
  case Nil
  then show ?case by auto
next
  case (Cons x xs)
  show ?case
  proof (cases ys)
    case Nil
    then show ?thesis by (auto simp: await_Inr_iff)
  next
    case (Cons z zs)
    have "(\<forall>j < Suc (length xs). f (i + j) ((x # xs) ! j) = Inr ((z # zs) ! j)) \<longleftrightarrow>
          f i x = Inr z \<and> (\<forall>j < length xs. f (Suc i + j) (xs ! j) = Inr (zs ! j))"
      by (auto simp: less_Suc_eq_0_disj)
    then show ?thesis using Cons.IH[of "Suc i" zs] Cons by (auto simp: await_Inr_iff)
  qed
qed

lemma map_resi_length: "map_resi f i xs = Inr ys \<Longrightarrow> length ys = length xs"
  by (simp add: map_resi_Inr_conv)

lemma map_resi_all:
  assumes "map_resi f i xs = Inr ys" and "\<And>j x y. f j x = Inr y \<Longrightarrow> P y"
  shows "\<forall>y \<in> set ys. P y"
  using assms by (fastforce simp: map_resi_Inr_conv in_set_conv_nth)

lemma map_res_Inr_conv:
  "map_res f xs = Inr ys \<longleftrightarrow>
     length ys = length xs \<and> (\<forall>j < length xs. f (xs ! j) = Inr (ys ! j))"
  by (simp add: map_res_def map_resi_Inr_conv)

lemma map_res_all:
  assumes "map_res f xs = Inr ys" and "\<And>x y. f x = Inr y \<Longrightarrow> P y"
  shows "\<forall>y \<in> set ys. P y"
  using map_resi_all[of "\<lambda>_. f" 0 xs ys P] assms by (simp add: map_res_def)

lemma map_res_each:
  assumes m: "map_res f xs = Inr ys" and x: "x \<in> set xs"
  shows "\<exists>y \<in> set ys. f x = Inr y"
proof -
  from x obtain j where j: "j < length xs" "x = xs ! j" by (auto simp: in_set_conv_nth)
  with m have "f x = Inr (ys ! j)" "ys ! j \<in> set ys" by (auto simp: map_res_Inr_conv)
  then show ?thesis by blast
qed

lemma map_res_back:
  assumes m: "map_res f xs = Inr ys" and y: "y \<in> set ys"
  shows "\<exists>x \<in> set xs. f x = Inr y"
proof -
  from y obtain j where j: "j < length ys" "y = ys ! j" by (auto simp: in_set_conv_nth)
  with m have "f (xs ! j) = Inr y" "xs ! j \<in> set xs" by (auto simp: map_res_Inr_conv)
  then show ?thesis by blast
qed

lemma map_resi_map: "map_resi f i (map g xs) = map_resi (\<lambda>j x. f j (g x)) i xs"
  by (induction xs arbitrary: i) auto

lemma map_resi_id:
  assumes "\<And>j. j < length xs \<Longrightarrow> f (i + j) (xs ! j) = Inr (g (xs ! j))"
  shows "map_resi f i xs = Inr (map g xs)"
  using assms by (simp add: map_resi_Inr_conv)

lemma map_res_id:
  assumes "\<And>x. x \<in> set xs \<Longrightarrow> f x = Inr (g x)"
  shows "map_res f xs = Inr (map g xs)"
  using assms by (simp add: map_res_Inr_conv)

lemma filter_res_total:
  assumes "\<And>x. x \<in> set xs \<Longrightarrow> f x = Inr (p x)"
  shows "filter_res f xs = Inr (filter p xs)"
  using assms by (induction xs) auto

lemma filter_res_Inr_subset: "filter_res f xs = Inr ys \<Longrightarrow> set ys \<subseteq> {x \<in> set xs. f x = Inr True}"
proof (induction xs arbitrary: ys)
  case (Cons x xs)
  then show ?case by (fastforce simp: await_Inr_iff split: if_splits)
qed simp

section \<open>Strings\<close>

definition is_space :: "char \<Rightarrow> bool" where
  "is_space c = (let n = of_char c :: nat in n = 32 \<or> (9 \<le> n \<and> n \<le> 13))"

definition trim :: "string \<Rightarrow> string" where
  "trim s = rev (dropWhile is_space (rev (dropWhile is_space s)))"

definition is_digit :: "char \<Rightarrow> bool" where
  "is_digit c = (let n = of_char c :: nat in 48 \<le> n \<and> n \<le> 57)"

definition is_upper :: "char \<Rightarrow> bool" where
  "is_upper c = (let n = of_char c :: nat in 65 \<le> n \<and> n \<le> 90)"

definition is_lower :: "char \<Rightarrow> bool" where
  "is_lower c = (let n = of_char c :: nat in 97 \<le> n \<and> n \<le> 122)"

definition up_char :: "char \<Rightarrow> char" where
  "up_char c = (if is_lower c then char_of ((of_char c :: nat) - 32) else c)"

definition low_char :: "char \<Rightarrow> char" where
  "low_char c = (if is_upper c then char_of ((of_char c :: nat) + 32) else c)"

definition upper :: "string \<Rightarrow> string" where
  "upper s = map up_char s"

definition lower :: "string \<Rightarrow> string" where
  "lower s = map low_char s"

definition digit_val :: "char \<Rightarrow> nat" where
  "digit_val c = (of_char c :: nat) - 48"

definition digit_char :: "nat \<Rightarrow> char" where
  "digit_char n = char_of (n + 48)"

fun nat_str :: "nat \<Rightarrow> string" where
  "nat_str n = (if n < 10 then [digit_char n] else nat_str (n div 10) @ [digit_char (n mod 10)])"

declare nat_str.simps [simp del]

definition int_str :: "int \<Rightarrow> string" where
  "int_str i = (if i < 0 then CHR ''-'' # nat_str (nat (- i)) else nat_str (nat i))"

text \<open>\<open>xs.join(sep)\<close>.\<close>

fun join :: "string \<Rightarrow> string list \<Rightarrow> string" where
  "join sep [] = []"
| "join sep [s] = s"
| "join sep (s # t # ss) = s @ sep @ join sep (t # ss)"

lemma up_char_idem [simp]: "up_char (up_char c) = up_char c"
  by (auto simp: up_char_def is_lower_def Let_def)

lemma upper_idem [simp]: "upper (upper s) = upper s"
  by (simp add: upper_def)

lemma length_upper [simp]: "length (upper s) = length s"
  by (simp add: upper_def)

lemma upper_Nil_iff [simp]: "upper s = [] \<longleftrightarrow> s = []"
  by (simp add: upper_def)

lemma is_space_up_char [simp]: "is_space (up_char c) = is_space c"
  by (auto simp: up_char_def is_space_def is_lower_def Let_def)

lemma dropWhile_map_up: "dropWhile is_space (map up_char s) = map up_char (dropWhile is_space s)"
  by (induction s) auto

lemma trim_upper: "trim (upper s) = upper (trim s)"
  by (simp add: trim_def upper_def dropWhile_map_up rev_map)

lemma dropWhile_idem: "dropWhile P (dropWhile P xs) = dropWhile P xs"
  by (induction xs) auto

lemma dropWhile_rev_idem:
  assumes "dropWhile P xs = xs"
  shows "dropWhile P (rev (dropWhile P (rev xs))) = rev (dropWhile P (rev xs))"
proof (cases "rev (dropWhile P (rev xs))")
  case Nil
  then show ?thesis by (simp only: dropWhile.simps)
next
  case (Cons y ys)
  have "xs = rev (dropWhile P (rev xs)) @ rev (takeWhile P (rev xs))"
    by (metis rev_append rev_rev_ident takeWhile_dropWhile_id)
  with Cons have "xs = y # ys @ rev (takeWhile P (rev xs))" by simp
  with assms have "\<not> P y" by (metis dropWhile.simps(2) dropWhile_eq_self_iff list.sel(1) list.distinct(1))
  with Cons show ?thesis by simp
qed

lemma trim_idem [simp]: "trim (trim s) = trim s"
  by (simp add: trim_def dropWhile_rev_idem dropWhile_idem)

lemma trim_Nil [simp]: "trim [] = []"
  by (simp add: trim_def)

section \<open>De-duplication\<close>

text \<open>
  \<open>[...new Set(xs)]\<close>: a set keeps its elements in the order of their first insertion, so the
  first occurrence of each element stays.
\<close>

fun js_set :: "'a list \<Rightarrow> 'a list" where
  "js_set [] = []"
| "js_set (x # xs) = x # js_set (filter (\<lambda>y. y \<noteq> x) xs)"

lemma set_js_set [simp]: "set (js_set xs) = set xs"
  by (induction xs rule: js_set.induct) auto

lemma distinct_js_set [simp]: "distinct (js_set xs)"
  by (induction xs rule: js_set.induct) auto

lemma js_set_Nil_iff [simp]: "js_set xs = [] \<longleftrightarrow> xs = []"
  by (cases xs) auto

lemma js_set_distinct: "distinct xs \<Longrightarrow> js_set xs = xs"
proof (induction xs rule: js_set.induct)
  case (2 x xs)
  then have "filter (\<lambda>y. y \<noteq> x) xs = xs" by (auto simp: filter_id_conv)
  with 2 show ?case by simp
qed simp

lemma js_set_size_iff: "length (js_set xs) = length xs \<longleftrightarrow> distinct xs"
  by (metis card_distinct distinct_card distinct_js_set js_set_distinct set_js_set)

section \<open>Lists\<close>

text \<open>\<open>xs.findIndex(p)\<close>, \<open>None\<close> standing for -1.\<close>

fun find_index :: "('a \<Rightarrow> bool) \<Rightarrow> 'a list \<Rightarrow> nat option" where
  "find_index p [] = None"
| "find_index p (x # xs) = (if p x then Some 0 else map_option Suc (find_index p xs))"

lemma find_index_Some:
  "find_index p xs = Some i \<Longrightarrow> i < length xs \<and> p (xs ! i) \<and> (\<forall>j < i. \<not> p (xs ! j))"
proof (induction xs arbitrary: i)
  case (Cons x xs)
  show ?case
  proof (cases "p x")
    case False
    with Cons.prems obtain k where k: "find_index p xs = Some k" and i: "i = Suc k" by auto
    from Cons.IH[OF k] False i show ?thesis by (auto simp: less_Suc_eq_0_disj)
  qed (use Cons.prems in auto)
qed simp

lemma find_index_None: "find_index p xs = None \<longleftrightarrow> (\<forall>x \<in> set xs. \<not> p x)"
  by (induction xs) auto

section \<open>Machines and their invariants\<close>

text \<open>
  The states a machine reaches from \<open>init\<close> by its steps, and the contract under which a property
  holds in all of them.
\<close>

inductive reach :: "('s \<Rightarrow> 's \<Rightarrow> bool) \<Rightarrow> 's \<Rightarrow> 's \<Rightarrow> bool" for step :: "'s \<Rightarrow> 's \<Rightarrow> bool" and init :: 's where
  reach_init: "reach step init init"
| reach_step: "reach step init s \<Longrightarrow> step s t \<Longrightarrow> reach step init t"

locale machine =
  fixes step :: "'s \<Rightarrow> 's \<Rightarrow> bool" and init :: 's and inv :: "'s \<Rightarrow> bool"
  assumes inv_init: "inv init"
    and inv_step: "inv s \<Longrightarrow> step s t \<Longrightarrow> inv t"
begin

lemma reach_inv: "reach step init s \<Longrightarrow> inv s"
  by (induction rule: reach.induct) (auto intro: inv_init inv_step)

end

lemma reach_trans:
  assumes "reach step s t" and "reach step i s"
  shows "reach step i t"
  using assms by (induction rule: reach.induct) (auto intro: reach_step)

lemma find_distinct: "distinct (map f xs) \<Longrightarrow> q \<in> set xs \<Longrightarrow> find (\<lambda>r. f r = f q) xs = Some q"
  by (induction xs) (auto simp: image_iff)

lemma map_update_id:
  "(\<And>x. f (g x) = f x) \<Longrightarrow> map f (map (\<lambda>x. if P x then g x else x) xs) = map f xs"
  by (induction xs) auto

end
