(* ===== verification/JsValues.thy ===== *)
theory JsValues
  imports Prelude
begin

text \<open>
  The dynamically typed values a request body or a JSON column holds, and the operations of the
  language the services apply to them: truthiness, \<open>||\<close>, \<open>??\<close>, property reads with and without
  \<open>?.\<close>, \<open>String(v)\<close> and \<open>Number(v)\<close>.  A finite number is the decimal its printed form denotes
  (the shortest decimal that reads back as the same double): comparing two numbers, testing a
  number for an integer and handing it to the decimal library depend on nothing else.  Literals
  with more digits than a double holds are not rounded.
\<close>

section \<open>Values\<close>

datatype jsnum = NumFin rat | NumNaN | NumInf | NumNegInf

datatype jsval =
    JUndef
  | JNull
  | JBool bool
  | JNum jsnum
  | JStr string
  | JArr "jsval list"
  | JObj "(string \<times> jsval) list"

abbreviation JInt :: "int \<Rightarrow> jsval" where
  "JInt i \<equiv> JNum (NumFin (of_int i))"

abbreviation JRat :: "rat \<Rightarrow> jsval" where
  "JRat q \<equiv> JNum (NumFin q)"

fun truthy :: "jsval \<Rightarrow> bool" where
  "truthy JUndef = False"
| "truthy JNull = False"
| "truthy (JBool b) = b"
| "truthy (JNum n) = (case n of NumFin q \<Rightarrow> q \<noteq> 0 | NumNaN \<Rightarrow> False | _ \<Rightarrow> True)"
| "truthy (JStr s) = (s \<noteq> [])"
| "truthy (JArr xs) = True"
| "truthy (JObj fs) = True"

text \<open>\<open>a || b\<close> and \<open>a ?? b\<close>.\<close>

definition js_or :: "jsval \<Rightarrow> jsval \<Rightarrow> jsval" where
  "js_or a b = (if truthy a then a else b)"

definition js_nullish :: "jsval \<Rightarrow> bool" where
  "js_nullish v = (v = JUndef \<or> v = JNull)"

definition js_coalesce :: "jsval \<Rightarrow> jsval \<Rightarrow> jsval" where
  "js_coalesce a b = (if js_nullish a then b else a)"

text \<open>
  \<open>o.k\<close> raises a TypeError on \<open>null\<close> and \<open>undefined\<close>; \<open>o?.k\<close> reads as \<open>undefined\<close> there.  A
  primitive or an array has none of the properties the services ask for.
\<close>

definition prop_of :: "jsval \<Rightarrow> string \<Rightarrow> jsval" where
  "prop_of v k = (case v of
     JObj fs \<Rightarrow> (case map_of fs k of None \<Rightarrow> JUndef | Some w \<Rightarrow> w)
   | _ \<Rightarrow> JUndef)"

definition js_get :: "jsval \<Rightarrow> string \<Rightarrow> jsval res" where
  "js_get v k = (if js_nullish v then Inl TypeErr else Inr (prop_of v k))"

definition js_opt :: "jsval \<Rightarrow> string \<Rightarrow> jsval" where
  "js_opt v k = prop_of v k"

text \<open>\<open>Array.isArray(v)\<close> together with the elements.\<close>

definition js_array :: "jsval \<Rightarrow> jsval list option" where
  "js_array v = (case v of JArr xs \<Rightarrow> Some xs | _ \<Rightarrow> None)"

section \<open>Printing numbers\<close>

text \<open>
  \<open>places d\<close> is the number of decimals of a fraction whose denominator in lowest terms is \<open>d\<close>
  (a product of twos and fives, as for every decimal).
\<close>

fun places :: "nat \<Rightarrow> nat" where
  "places d =
     (if d \<le> 1 then 0
      else if 10 dvd d then Suc (places (d div 10))
      else if 2 dvd d then Suc (places (d div 2))
      else if 5 dvd d then Suc (places (d div 5))
      else 0)"

declare places.simps [simp del]

definition exponent_str :: "int \<Rightarrow> string" where
  "exponent_str e = CHR ''e'' # (if e < 0 then CHR ''-'' # nat_str (nat (- e)) else CHR ''+'' # nat_str (nat e))"

definition pos_num_str :: "rat \<Rightarrow> string" where
  "pos_num_str q =
     (let (a, b) = quotient_of q;
          k = places (nat b);
          m = nat (a * 10 ^ k div b);
          full = nat_str m;
          n = int (length full) - int k;
          ds = rev (dropWhile (\<lambda>c. c = CHR ''0'') (rev full));
          kk = int (length ds)
      in if kk \<le> n \<and> n \<le> 21 then ds @ replicate (nat (n - kk)) (CHR ''0'')
         else if 0 < n \<and> n \<le> 21 then take (nat n) ds @ CHR ''.'' # drop (nat n) ds
         else if - 6 < n \<and> n \<le> 0 then ''0.'' @ replicate (nat (- n)) (CHR ''0'') @ ds
         else if kk = 1 then ds @ exponent_str (n - 1)
         else take 1 ds @ CHR ''.'' # drop 1 ds @ exponent_str (n - 1))"

fun num_str :: "jsnum \<Rightarrow> string" where
  "num_str NumNaN = ''NaN''"
| "num_str NumInf = ''Infinity''"
| "num_str NumNegInf = ''-Infinity''"
| "num_str (NumFin q) =
     (if q = 0 then ''0'' else if q < 0 then CHR ''-'' # pos_num_str (- q) else pos_num_str q)"

text \<open>\<open>String(v)\<close>.  Inside an array \<open>null\<close> and \<open>undefined\<close> print as nothing.\<close>

fun js_string :: "jsval \<Rightarrow> string" and js_elem_str :: "jsval \<Rightarrow> string" where
  "js_string JUndef = ''undefined''"
| "js_string JNull = ''null''"
| "js_string (JBool b) = (if b then ''true'' else ''false'')"
| "js_string (JNum n) = num_str n"
| "js_string (JStr s) = s"
| "js_string (JArr xs) = join '','' (map js_elem_str xs)"
| "js_string (JObj fs) = ''[object Object]''"
| "js_elem_str JUndef = []"
| "js_elem_str JNull = []"
| "js_elem_str (JBool b) = (if b then ''true'' else ''false'')"
| "js_elem_str (JNum n) = num_str n"
| "js_elem_str (JStr s) = s"
| "js_elem_str (JArr xs) = join '','' (map js_elem_str xs)"
| "js_elem_str (JObj fs) = ''[object Object]''"

section \<open>Reading numbers\<close>

definition digits_nat :: "string \<Rightarrow> nat" where
  "digits_nat s = foldl (\<lambda>a c. 10 * a + digit_val c) 0 s"

text \<open>An exponent part \<open>e[+-]digits\<close>, or nothing.\<close>

definition exponent_part :: "string \<Rightarrow> int option" where
  "exponent_part s = (case s of
     [] \<Rightarrow> Some 0
   | c # r \<Rightarrow>
       if c \<noteq> CHR ''e'' \<and> c \<noteq> CHR ''E'' then None
       else (let neg = (case r of [] \<Rightarrow> False | d # _ \<Rightarrow> d = CHR ''-'');
                 ds = (case r of [] \<Rightarrow> [] | d # t \<Rightarrow> if d = CHR ''-'' \<or> d = CHR ''+'' then t else r)
             in if ds = [] \<or> \<not> list_all is_digit ds then None
                else Some (if neg then - int (digits_nat ds) else int (digits_nat ds))))"

definition pow10 :: "int \<Rightarrow> rat" where
  "pow10 e = (if 0 \<le> e then 10 ^ nat e else 1 / 10 ^ nat (- e))"

text \<open>\<open>digits[.digits][exponent]\<close> or \<open>.digits[exponent]\<close>, without a sign.\<close>

definition unsigned_literal :: "string \<Rightarrow> rat option" where
  "unsigned_literal s =
     (let ip = takeWhile is_digit s;
          r1 = dropWhile is_digit s;
          dot = (case r1 of [] \<Rightarrow> False | c # _ \<Rightarrow> c = CHR ''.'');
          fp = (if dot then takeWhile is_digit (tl r1) else []);
          r2 = (if dot then dropWhile is_digit (tl r1) else r1)
      in if ip = [] \<and> fp = [] then None
         else (case exponent_part r2 of
             None \<Rightarrow> None
           | Some e \<Rightarrow> Some (of_nat (digits_nat (ip @ fp)) / 10 ^ length fp * pow10 e)))"

text \<open>The same with an optional sign.\<close>

definition decimal_literal :: "string \<Rightarrow> rat option" where
  "decimal_literal s = (case s of
     [] \<Rightarrow> None
   | c # r \<Rightarrow>
       if c = CHR ''-'' then map_option uminus (unsigned_literal r)
       else if c = CHR ''+'' then unsigned_literal r
       else unsigned_literal s)"

definition radix_digit :: "char \<Rightarrow> nat option" where
  "radix_digit c =
     (if is_digit c then Some (digit_val c)
      else if is_lower c then Some ((of_char c :: nat) - 87)
      else if is_upper c then Some ((of_char c :: nat) - 55)
      else None)"

fun radix_nat :: "nat \<Rightarrow> nat \<Rightarrow> string \<Rightarrow> nat option" where
  "radix_nat b a [] = Some a"
| "radix_nat b a (c # cs) = (case radix_digit c of
     Some d \<Rightarrow> if d < b then radix_nat b (b * a + d) cs else None
   | None \<Rightarrow> None)"

definition radix_literal :: "string \<Rightarrow> nat option" where
  "radix_literal s = (case s of
     z # x # d # ds \<Rightarrow>
       if z \<noteq> CHR ''0'' then None
       else if x = CHR ''x'' \<or> x = CHR ''X'' then radix_nat 16 0 (d # ds)
       else if x = CHR ''o'' \<or> x = CHR ''O'' then radix_nat 8 0 (d # ds)
       else if x = CHR ''b'' \<or> x = CHR ''B'' then radix_nat 2 0 (d # ds)
       else None
   | _ \<Rightarrow> None)"

definition string_number :: "string \<Rightarrow> jsnum" where
  "string_number s0 =
     (let s = trim s0 in
      if s = [] then NumFin 0
      else if s = ''Infinity'' \<or> s = ''+Infinity'' then NumInf
      else if s = ''-Infinity'' then NumNegInf
      else (case radix_literal s of
          Some n \<Rightarrow> NumFin (of_nat n)
        | None \<Rightarrow> (case decimal_literal s of Some q \<Rightarrow> NumFin q | None \<Rightarrow> NumNaN)))"

text \<open>\<open>Number(v)\<close>: an array is read through its printed form, as the language does.\<close>

fun js_number :: "jsval \<Rightarrow> jsnum" where
  "js_number JUndef = NumNaN"
| "js_number JNull = NumFin 0"
| "js_number (JBool b) = NumFin (if b then 1 else 0)"
| "js_number (JNum n) = n"
| "js_number (JStr s) = string_number s"
| "js_number (JArr xs) = string_number (js_string (JArr xs))"
| "js_number (JObj fs) = NumNaN"

definition num_is_integer :: "jsnum \<Rightarrow> bool" where
  "num_is_integer n = (case n of NumFin q \<Rightarrow> of_int \<lfloor>q\<rfloor> = q | _ \<Rightarrow> False)"

lemma num_is_integer_of_int [simp]: "num_is_integer (NumFin (of_int i))"
  by (simp add: num_is_integer_def)

lemma num_is_integerD:
  assumes "num_is_integer n"
  shows "\<exists>i. n = NumFin (of_int i)"
proof (cases n)
  case (NumFin q)
  with assms have "of_int \<lfloor>q\<rfloor> = q" by (simp add: num_is_integer_def)
  with NumFin show ?thesis by metis
qed (use assms in \<open>simp_all add: num_is_integer_def\<close>)

lemma prop_of_Cons [simp]:
  "prop_of (JObj ((k, v) # fs)) k' = (if k' = k then v else prop_of (JObj fs) k')"
  by (simp add: prop_of_def)

lemma prop_of_Nil [simp]: "prop_of (JObj []) k = JUndef"
  by (simp add: prop_of_def)

lemma prop_of_prim [simp]:
  "prop_of JUndef k = JUndef" "prop_of JNull k = JUndef" "prop_of (JBool b) k = JUndef"
  "prop_of (JNum n) k = JUndef" "prop_of (JStr s) k = JUndef" "prop_of (JArr xs) k = JUndef"
  by (simp_all add: prop_of_def)

lemma js_opt_simp [simp]: "js_opt v k = prop_of v k"
  by (simp add: js_opt_def)

lemma js_nullish_simps [simp]:
  "js_nullish JUndef" "js_nullish JNull" "\<not> js_nullish (JBool b)" "\<not> js_nullish (JNum n)"
  "\<not> js_nullish (JStr s)" "\<not> js_nullish (JArr xs)" "\<not> js_nullish (JObj fs)"
  by (simp_all add: js_nullish_def)

lemma js_array_simps [simp]:
  "js_array (JArr xs) = Some xs" "js_array (JObj fs) = None" "js_array JUndef = None"
  "js_array JNull = None" "js_array (JStr s) = None" "js_array (JNum n) = None"
  "js_array (JBool b) = None"
  by (simp_all add: js_array_def)

section \<open>Identifiers\<close>

text \<open>What the database makes of a text where it needs a \<open>bigint\<close>.\<close>

definition bigint :: "string \<Rightarrow> int res" where
  "bigint s = (if s = [] \<or> \<not> list_all is_digit s then Inl (Failure ''invalid input syntax for type bigint'')
     else if 2 ^ 63 \<le> digits_nat s then Inl (Failure ''value out of range for type bigint'')
     else Inr (int (digits_nat s)))"

end
