(* ===== verification/Decimals.thy ===== *)
theory Decimals
  imports JsValues
begin

text \<open>
  Decimal arithmetic.  The services compute money with the package decimal.js, which is not part
  of the repository: it is the record \<open>decimal_lib\<close>, an argument of every definition that computes
  with decimals, and the locale \<open>decimal\<close> states what its documentation promises of the calls the
  code makes, under the configuration the code sets (\<open>precision: 30, rounding: ROUND_HALF_UP\<close>).
  The first section gives the two roundings as functions on rationals: to two decimal places and to
  thirty significant digits.  The last one is an implementation of the promises, with which
  concrete runs evaluate.
\<close>

section \<open>Rounding half away from zero\<close>

definition round_half :: "rat \<Rightarrow> int" where
  "round_half x = (if x < 0 then - \<lfloor>- x + 1 / 2\<rfloor> else \<lfloor>x + 1 / 2\<rfloor>)"

definition round2 :: "rat \<Rightarrow> rat" where
  "round2 x = of_int (round_half (x * 100)) / 100"

lemma round_half_of_int [simp]: "round_half (of_int i) = i"
proof (cases "of_int i < (0::rat)")
  case True
  have "\<lfloor>- of_int i + 1 / 2 :: rat\<rfloor> = - i" by (simp add: floor_eq_iff)
  with True show ?thesis by (simp add: round_half_def)
next
  case False
  have "\<lfloor>of_int i + 1 / 2 :: rat\<rfloor> = i" by (simp add: floor_eq_iff)
  with False show ?thesis by (simp add: round_half_def)
qed

lemma round_half_0 [simp]: "round_half 0 = 0"
  using round_half_of_int[of 0] by simp

lemma round_half_minus: "round_half (- x) = - round_half x"
  by (cases "x = 0") (auto simp: round_half_def floor_eq_iff)

lemma round_half_nonneg: "0 \<le> x \<Longrightarrow> 0 \<le> round_half x"
  by (simp add: round_half_def)

lemma round_half_mono: "x \<le> y \<Longrightarrow> round_half x \<le> round_half y"
proof -
  assume le: "x \<le> y"
  consider "0 \<le> x" | "x < 0" "0 \<le> y" | "y < 0" using le by linarith
  then show ?thesis
  proof cases
    case 1
    with le show ?thesis by (auto simp: round_half_def intro: floor_mono)
  next
    case 2
    have "round_half x \<le> 0" using 2 by (simp add: round_half_def)
    with round_half_nonneg[OF 2(2)] show ?thesis by simp
  next
    case 3
    with le show ?thesis by (auto simp: round_half_def intro: floor_mono)
  qed
qed

lemma round_half_error: "\<bar>of_int (round_half x) - x\<bar> \<le> 1 / 2"
proof (cases "x < 0")
  case True
  have "of_int \<lfloor>- x + 1 / 2\<rfloor> \<le> - x + 1 / 2" "- x + 1 / 2 < of_int \<lfloor>- x + 1 / 2\<rfloor> + 1"
    by linarith+
  then show ?thesis unfolding round_half_def if_P[OF True] of_int_minus by linarith
next
  case False
  have "of_int \<lfloor>x + 1 / 2\<rfloor> \<le> x + 1 / 2" "x + 1 / 2 < of_int \<lfloor>x + 1 / 2\<rfloor> + 1"
    by linarith+
  then show ?thesis unfolding round_half_def if_not_P[OF False] by linarith
qed

text \<open>A number of cents: what two decimal places represent.\<close>

definition is_cents :: "rat \<Rightarrow> bool" where
  "is_cents x = (of_int \<lfloor>x * 100\<rfloor> = x * 100)"

lemma is_centsE:
  assumes "is_cents x"
  obtains n where "x = of_int n / 100"
  using assms by (metis is_cents_def nonzero_mult_div_cancel_right zero_neq_numeral)

lemma is_cents_of_int [simp]: "is_cents (of_int n / 100)"
  by (simp add: is_cents_def)

lemma is_cents_plus [intro]:
  assumes "is_cents x" and "is_cents y"
  shows "is_cents (x + y)"
proof -
  obtain a b where "x = of_int a / 100" "y = of_int b / 100" using assms by (metis is_centsE)
  then have "x + y = of_int (a + b) / 100" by simp
  then show ?thesis by (simp only: is_cents_of_int)
qed

lemma is_cents_mult_100:
  assumes "is_cents x"
  shows "is_cents (x * 100)"
proof -
  obtain a where "x = of_int a / 100" using assms by (metis is_centsE)
  then have "x * 100 = of_int (a * 100) / 100" by simp
  then show ?thesis by (simp only: is_cents_of_int)
qed

lemma is_cents_uminus [intro]:
  assumes "is_cents x"
  shows "is_cents (- x)"
proof -
  obtain a where "x = of_int a / 100" using assms by (metis is_centsE)
  then have "- x = of_int (- a) / 100" by simp
  then show ?thesis by (simp only: is_cents_of_int)
qed

lemma is_cents_minus [intro]: "is_cents x \<Longrightarrow> is_cents y \<Longrightarrow> is_cents (x - y)"
  using is_cents_plus[of x "- y"] is_cents_uminus[of y] by simp

lemma is_cents_round2 [simp]: "is_cents (round2 x)"
  by (simp add: round2_def)

lemma round2_cents [simp]: "is_cents x \<Longrightarrow> round2 x = x"
  by (auto simp: round2_def elim!: is_centsE)

lemma round2_idem [simp]: "round2 (round2 x) = round2 x"
  by simp

lemma round2_0 [simp]: "round2 0 = 0"
  by (simp add: round2_def)

lemma round2_mono: "x \<le> y \<Longrightarrow> round2 x \<le> round2 y"
  by (simp add: round2_def divide_right_mono round_half_mono)

lemma round2_nonneg: "0 \<le> x \<Longrightarrow> 0 \<le> round2 x"
  using round2_mono[of 0 x] by simp

lemma round2_error: "\<bar>round2 x - x\<bar> \<le> 1 / 200"
proof -
  have "\<bar>of_int (round_half (x * 100)) - x * 100\<bar> \<le> 1 / 2" by (rule round_half_error)
  then show ?thesis unfolding round2_def by (simp add: abs_le_iff field_simps)
qed

section \<open>Thirty significant digits\<close>

text \<open>
  The decimal exponent of a positive rational, \<open>10 ^ mag x \<le> x < 10 ^ (mag x + 1)\<close>, by counting
  multiplications and divisions by ten.
\<close>

function up_steps :: "rat \<Rightarrow> nat" where
  "up_steps x = (if x \<le> 0 \<or> 1 \<le> x then 0 else Suc (up_steps (10 * x)))"
  by pat_completeness auto
termination
proof (relation "measure (\<lambda>x. nat \<lfloor>1 / x\<rfloor>)")
  fix x :: rat
  assume "\<not> (x \<le> 0 \<or> 1 \<le> x)"
  then have x: "0 < x" "x < 1" by auto
  define y where "y = 1 / x"
  have one: "1 \<le> \<lfloor>y\<rfloor>" using x by (simp add: y_def le_floor_iff)
  have "y / 10 < of_int \<lfloor>y\<rfloor>" using one by linarith
  then have "\<lfloor>1 / (10 * x)\<rfloor> < \<lfloor>y\<rfloor>" by (simp add: floor_less_iff y_def)
  then show "(10 * x, x) \<in> measure (\<lambda>x. nat \<lfloor>1 / x\<rfloor>)" using one by (simp add: y_def)
qed simp

function down_steps :: "rat \<Rightarrow> nat" where
  "down_steps x = (if x < 10 then 0 else Suc (down_steps (x / 10)))"
  by pat_completeness auto
termination
proof (relation "measure (\<lambda>x. nat \<lfloor>x\<rfloor>)")
  fix x :: rat
  assume "\<not> x < 10"
  then have "10 \<le> \<lfloor>x\<rfloor>" by (simp add: le_floor_iff)
  moreover from this have "x / 10 < of_int \<lfloor>x\<rfloor>" by linarith
  then have "\<lfloor>x / 10\<rfloor> < \<lfloor>x\<rfloor>" by (simp only: floor_less_iff)
  ultimately show "(x / 10, x) \<in> measure (\<lambda>x. nat \<lfloor>x\<rfloor>)" by auto
qed simp

declare up_steps.simps [simp del] down_steps.simps [simp del]

definition mag :: "rat \<Rightarrow> int" where
  "mag x = (if 1 \<le> x then int (down_steps x) else - int (up_steps x))"

definition sig30 :: "rat \<Rightarrow> rat" where
  "sig30 x =
     (if x = 0 then 0
      else (let p = 29 - mag \<bar>x\<bar> in of_int (round_half (x * pow10 p)) / pow10 p))"

lemma pow10_powi: "pow10 e = 10 powi e"
  by (simp add: pow10_def power_int_def power_one_over inverse_eq_divide)

lemma pow10_pos [simp]: "0 < pow10 e"
  by (simp add: pow10_powi)

lemma pow10_nonzero [simp]: "pow10 e \<noteq> 0"
  using pow10_pos[of e] by linarith

lemma pow10_add: "pow10 (a + b) = pow10 a * pow10 b"
  by (simp add: pow10_powi power_int_add)

lemma pow10_0 [simp]: "pow10 0 = 1"
  by (simp add: pow10_def)

lemma pow10_1 [simp]: "pow10 1 = 10"
  by (simp add: pow10_def)

lemma pow10_mono: "a \<le> b \<Longrightarrow> pow10 a \<le> pow10 b"
  by (simp add: pow10_powi power_int_increasing)

lemma pow10_less_iff: "pow10 a < pow10 b \<longleftrightarrow> a < b"
proof
  assume "pow10 a < pow10 b"
  then show "a < b" by (meson not_le pow10_mono)
next
  assume "a < b"
  then show "pow10 a < pow10 b"
    using power_int_strict_increasing[of a b "10::rat"] by (simp add: pow10_powi)
qed

lemma pow10_of_nat: "pow10 (int k) = of_int (10 ^ k)"
  by (simp add: pow10_def)

lemma up_steps_bounds:
  "0 < x \<Longrightarrow> x < 1 \<Longrightarrow> pow10 (- int (up_steps x)) \<le> x \<and> x < pow10 (1 - int (up_steps x))"
proof (induction x rule: up_steps.induct)
  case (1 x)
  have steps: "up_steps x = Suc (up_steps (10 * x))" using "1.prems" by (subst up_steps.simps) simp
  show ?case
  proof (cases "10 * x < 1")
    case True
    with 1 have "pow10 (- int (up_steps (10 * x))) \<le> 10 * x" "10 * x < pow10 (1 - int (up_steps (10 * x)))"
      by auto
    then show ?thesis
      unfolding steps using pow10_add[of "- int (Suc (up_steps (10 * x)))" 1]
        pow10_add[of "1 - int (Suc (up_steps (10 * x)))" 1] by (simp add: algebra_simps)
  next
    case False
    then have "up_steps (10 * x) = 0" by (subst up_steps.simps) simp
    with steps False "1.prems" show ?thesis by (simp add: pow10_def)
  qed
qed

lemma down_steps_bounds:
  "1 \<le> x \<Longrightarrow> pow10 (int (down_steps x)) \<le> x \<and> x < pow10 (int (down_steps x) + 1)"
proof (induction x rule: down_steps.induct)
  case (1 x)
  show ?case
  proof (cases "x < 10")
    case True
    then have "down_steps x = 0" by (subst down_steps.simps) simp
    with True "1.prems" show ?thesis by simp
  next
    case False
    then have steps: "down_steps x = Suc (down_steps (x / 10))" by (subst down_steps.simps) simp
    from False 1 have "pow10 (int (down_steps (x / 10))) \<le> x / 10"
        "x / 10 < pow10 (int (down_steps (x / 10)) + 1)"
      by auto
    then show ?thesis
      unfolding steps using pow10_add[of "int (down_steps (x / 10))" 1]
        pow10_add[of "int (down_steps (x / 10)) + 1" 1] by (simp add: algebra_simps)
  qed
qed

lemma mag_bounds: "0 < x \<Longrightarrow> pow10 (mag x) \<le> x \<and> x < pow10 (mag x + 1)"
  using up_steps_bounds[of x] down_steps_bounds[of x] by (auto simp: mag_def not_le algebra_simps)

lemma mag_less: "0 < x \<Longrightarrow> x < pow10 e \<Longrightarrow> mag x < e"
  using mag_bounds[of x] by (meson le_less_trans pow10_less_iff)

lemma mag_mono:
  assumes "0 < x" and "x \<le> y"
  shows "mag x \<le> mag y"
proof -
  have "pow10 (mag x) < pow10 (mag y + 1)"
    using mag_bounds[of x] mag_bounds[of y] assms by linarith
  then show ?thesis by (simp add: pow10_less_iff)
qed

text \<open>A decimal of at most thirty digits is its own rounding.\<close>

lemma sig30_exact:
  assumes x: "x = of_int n / 10 ^ k" and n: "\<bar>n\<bar> < 10 ^ 30"
  shows "sig30 x = x"
proof (cases "x = 0")
  case False
  define p where "p = 29 - mag \<bar>x\<bar>"
  have "\<bar>x\<bar> = of_int \<bar>n\<bar> / 10 ^ k" by (simp add: x)
  also have "\<dots> < 10 ^ 30 / 10 ^ k"
    using n by (intro divide_strict_right_mono) (simp_all flip: of_int_less_iff[where 'a = rat])
  also have "\<dots> = pow10 (30 - int k)"
    using pow10_add[of "30 - int k" "int k"] by (simp add: pow10_def[of "int k"] pow10_def[of 30] field_simps)
  finally have "mag \<bar>x\<bar> < 30 - int k" using False by (intro mag_less) auto
  then have "int k \<le> p" by (simp add: p_def)
  then have p: "p = int (nat (p - int k)) + int k" by simp
  define m where "m = nat (p - int k)"
  have scaled: "x * pow10 p = of_int (n * 10 ^ m)"
    by (subst p) (simp add: pow10_add x pow10_of_nat m_def[symmetric])
  have "of_int (round_half (x * pow10 p)) = x * pow10 p"
    unfolding scaled by (simp only: round_half_of_int)
  with False show ?thesis by (simp add: sig30_def p_def Let_def)
qed (simp add: sig30_def)

lemma sig30_0 [simp]: "sig30 0 = 0"
  by (simp add: sig30_def)

lemma sig30_minus: "sig30 (- x) = - sig30 x"
  by (simp add: sig30_def Let_def round_half_minus)

lemma sig30_nonneg: "0 \<le> x \<Longrightarrow> 0 \<le> sig30 x"
  by (auto simp: sig30_def Let_def pow10_pos less_imp_le intro!: divide_nonneg_pos round_half_nonneg mult_nonneg_nonneg)

lemma sig30_bounds:
  assumes "0 < x"
  shows "pow10 (mag x) \<le> sig30 x" and "sig30 x \<le> pow10 (mag x + 1)"
proof -
  let ?p = "29 - mag x"
  have s: "sig30 x = of_int (round_half (x * pow10 ?p)) / pow10 ?p"
    using assms by (simp add: sig30_def Let_def)
  have e: "pow10 (mag x) * pow10 ?p = of_int (10 ^ 29)" "pow10 (mag x + 1) * pow10 ?p = of_int (10 ^ 30)"
    using pow10_add[of "mag x" ?p] pow10_add[of "mag x + 1" ?p] pow10_of_nat[of 29] pow10_of_nat[of 30]
    by simp_all
  have "pow10 (mag x) * pow10 ?p \<le> x * pow10 ?p" "x * pow10 ?p \<le> pow10 (mag x + 1) * pow10 ?p"
    using mag_bounds[OF assms] by (simp_all add: less_imp_le)
  then have "round_half (of_int (10 ^ 29)) \<le> round_half (x * pow10 ?p)"
    "round_half (x * pow10 ?p) \<le> round_half (of_int (10 ^ 30))"
    unfolding e by (simp_all only: round_half_mono)
  then have "of_int (10 ^ 29) \<le> (of_int (round_half (x * pow10 ?p)) :: rat)"
    "(of_int (round_half (x * pow10 ?p)) :: rat) \<le> of_int (10 ^ 30)"
    by (simp_all only: round_half_of_int of_int_le_iff)
  then show "pow10 (mag x) \<le> sig30 x" and "sig30 x \<le> pow10 (mag x + 1)"
    unfolding s by (simp_all only: e[symmetric] pow10_pos pos_le_divide_eq pos_divide_le_eq)
qed

lemma sig30_mono_pos:
  assumes "0 < x" and "x \<le> y"
  shows "sig30 x \<le> sig30 y"
proof (cases "mag x = mag y")
  case True
  with assms show ?thesis
    by (simp add: sig30_def Let_def divide_right_mono less_imp_le round_half_mono mult_right_mono)
next
  case False
  with mag_mono[OF assms] have "pow10 (mag x + 1) \<le> pow10 (mag y)" by (intro pow10_mono) simp
  then show ?thesis using sig30_bounds[of x] sig30_bounds[of y] assms by linarith
qed

lemma sig30_mono:
  assumes "x \<le> y"
  shows "sig30 x \<le> sig30 y"
proof -
  consider "0 < x" | "x \<le> 0" "0 \<le> y" | "y < 0" using assms by linarith
  then show ?thesis
  proof cases
    case 2
    then show ?thesis using sig30_nonneg[of "- x"] sig30_nonneg[of y] by (simp add: sig30_minus)
  next
    case 3
    then show ?thesis using sig30_mono_pos[of "- y" "- x"] assms by (simp add: sig30_minus)
  qed (use assms in \<open>simp add: sig30_mono_pos\<close>)
qed

text \<open>Amounts of money of less than \<open>10 ^ 28\<close> are exact.\<close>

lemma sig30_cents:
  assumes "is_cents x" and "\<bar>x\<bar> < 10 ^ 28"
  shows "sig30 x = x"
proof -
  obtain n where n: "x = of_int n / 100" using assms(1) by (rule is_centsE)
  with assms(2) have "of_int \<bar>n\<bar> < (of_int (10 ^ 30) :: rat)" by (simp add: field_simps)
  then have "\<bar>n\<bar> < 10 ^ 30" by (simp only: of_int_less_iff)
  moreover have "x = of_int n / 10 ^ 2" using n by simp
  ultimately show ?thesis by (rule sig30_exact[rotated])
qed

section \<open>The decimal package\<close>

text \<open>A value of the package: a finite decimal, or one of the three special ones.\<close>

datatype dec = Fin rat | DNaN | DInf | DNegInf

text \<open>The calls the services make: the constructor on a text (\<open>None\<close>: it throws) and on a number,
  the tests, the arithmetic, \<open>toDecimalPlaces(2)\<close> and \<open>toFixed(2)\<close>.\<close>

record decimal_lib =
  d_new :: "string \<Rightarrow> dec option"
  d_num :: "rat \<Rightarrow> dec"
  d_isNegative :: "dec \<Rightarrow> bool"
  d_isZero :: "dec \<Rightarrow> bool"
  d_gt :: "dec \<Rightarrow> dec \<Rightarrow> bool"
  d_ge :: "dec \<Rightarrow> dec \<Rightarrow> bool"
  d_le :: "dec \<Rightarrow> dec \<Rightarrow> bool"
  d_plus :: "dec \<Rightarrow> dec \<Rightarrow> dec"
  d_minus :: "dec \<Rightarrow> dec \<Rightarrow> dec"
  d_times :: "dec \<Rightarrow> dec \<Rightarrow> dec"
  d_div :: "dec \<Rightarrow> dec \<Rightarrow> dec"
  d_max :: "dec \<Rightarrow> dec \<Rightarrow> dec"
  d_min :: "dec \<Rightarrow> dec \<Rightarrow> dec"
  d_dp2 :: "dec \<Rightarrow> dec"
  d_fixed2 :: "dec \<Rightarrow> string"

text \<open>The text of an amount with two decimals.\<close>

definition two_digits :: "nat \<Rightarrow> string" where
  "two_digits n = [digit_char (n div 10), digit_char (n mod 10)]"

definition money_text :: "rat \<Rightarrow> string" where
  "money_text x =
     (let n = round_half (x * 100);
          m = nat \<bar>n\<bar>
      in (if n < 0 then ''-'' else []) @ nat_str (m div 100) @ CHR ''.'' # two_digits (m mod 100))"

locale decimal =
  fixes D :: decimal_lib
  assumes new_literal: "decimal_literal s = Some q \<Longrightarrow> d_new D s = Some (Fin q)"
    and new_NaN: "d_new D ''NaN'' = Some DNaN"
    and num: "d_num D q = Fin q"
    and isNegative: "d_isNegative D (Fin a) = (a < 0)"
    and isNegative_NaN: "\<not> d_isNegative D DNaN"
    and isZero: "d_isZero D (Fin a) = (a = 0)"
    and isZero_NaN: "\<not> d_isZero D DNaN"
    and gt: "d_gt D (Fin a) (Fin b) = (a > b)"
    and ge: "d_ge D (Fin a) (Fin b) = (a \<ge> b)"
    and le: "d_le D (Fin a) (Fin b) = (a \<le> b)"
    and cmp_NaN: "\<not> d_gt D DNaN x" "\<not> d_ge D DNaN x" "\<not> d_le D DNaN x"
      "\<not> d_gt D x DNaN" "\<not> d_ge D x DNaN" "\<not> d_le D x DNaN"
    and plus: "d_plus D (Fin a) (Fin b) = Fin (sig30 (a + b))"
    and minus: "d_minus D (Fin a) (Fin b) = Fin (sig30 (a - b))"
    and times: "d_times D (Fin a) (Fin b) = Fin (sig30 (a * b))"
    and div: "b \<noteq> 0 \<Longrightarrow> d_div D (Fin a) (Fin b) = Fin (sig30 (a / b))"
    and dmax: "d_max D (Fin a) (Fin b) = Fin (max a b)"
    and dmin: "d_min D (Fin a) (Fin b) = Fin (min a b)"
    and dp2: "d_dp2 D (Fin a) = Fin (round2 a)"
    and dp2_NaN: "d_dp2 D DNaN = DNaN"
    and fixed2: "d_fixed2 D (Fin a) = money_text a"
    and fixed2_NaN: "d_fixed2 D DNaN = ''NaN''"
begin

lemmas d_simps = num isNegative isNegative_NaN isZero isZero_NaN gt ge le cmp_NaN plus minus times
  div dmax dmin dp2 dp2_NaN fixed2 fixed2_NaN

end

subsection \<open>An implementation of the promises\<close>

fun dec_lt :: "dec \<Rightarrow> dec \<Rightarrow> bool" where
  "dec_lt (Fin a) (Fin b) = (a < b)"
| "dec_lt DNegInf y = (case y of Fin _ \<Rightarrow> True | DInf \<Rightarrow> True | _ \<Rightarrow> False)"
| "dec_lt x DInf = (case x of Fin _ \<Rightarrow> True | _ \<Rightarrow> False)"
| "dec_lt _ _ = False"

definition dec_le :: "dec \<Rightarrow> dec \<Rightarrow> bool" where
  "dec_le x y = (dec_lt x y \<or> (x = y \<and> x \<noteq> DNaN))"

fun dec_lift2 :: "(rat \<Rightarrow> rat \<Rightarrow> dec) \<Rightarrow> dec \<Rightarrow> dec \<Rightarrow> dec" where
  "dec_lift2 f (Fin a) (Fin b) = f a b"
| "dec_lift2 f _ _ = DNaN"

fun dec_text :: "dec \<Rightarrow> string" where
  "dec_text (Fin a) = money_text a"
| "dec_text DNaN = ''NaN''"
| "dec_text DInf = ''Infinity''"
| "dec_text DNegInf = ''-Infinity''"

definition decimal_ref :: decimal_lib where
  "decimal_ref =
     \<lparr>d_new = (\<lambda>s. if s = ''NaN'' then Some DNaN else if s = ''Infinity'' then Some DInf
        else if s = ''-Infinity'' then Some DNegInf else map_option Fin (decimal_literal s)),
      d_num = Fin,
      d_isNegative = (\<lambda>x. dec_lt x (Fin 0)),
      d_isZero = (\<lambda>x. x = Fin 0),
      d_gt = (\<lambda>x y. dec_lt y x),
      d_ge = (\<lambda>x y. dec_le y x),
      d_le = dec_le,
      d_plus = dec_lift2 (\<lambda>a b. Fin (sig30 (a + b))),
      d_minus = dec_lift2 (\<lambda>a b. Fin (sig30 (a - b))),
      d_times = dec_lift2 (\<lambda>a b. Fin (sig30 (a * b))),
      d_div = dec_lift2 (\<lambda>a b. if b = 0 then DNaN else Fin (sig30 (a / b))),
      d_max = dec_lift2 (\<lambda>a b. Fin (max a b)),
      d_min = dec_lift2 (\<lambda>a b. Fin (min a b)),
      d_dp2 = (\<lambda>x. case x of Fin a \<Rightarrow> Fin (round2 a) | _ \<Rightarrow> x),
      d_fixed2 = dec_text\<rparr>"

interpretation dref: decimal decimal_ref
proof
  show "d_new decimal_ref s = Some (Fin q)" if "decimal_literal s = Some q" for s q
  proof -
    have "s \<noteq> ''NaN''" "s \<noteq> ''Infinity''" "s \<noteq> ''-Infinity''"
      using that by (auto simp: decimal_literal_def unsigned_literal_def is_digit_def Let_def)
    with that show ?thesis by (simp add: decimal_ref_def)
  qed
  show "\<not> d_gt decimal_ref DNaN x" "\<not> d_gt decimal_ref x DNaN" "\<not> d_ge decimal_ref DNaN x"
    "\<not> d_ge decimal_ref x DNaN" "\<not> d_le decimal_ref DNaN x" "\<not> d_le decimal_ref x DNaN" for x
    by (cases x; simp add: decimal_ref_def dec_le_def)+
qed (auto simp: decimal_ref_def dec_le_def)

end
