(* ===== verification/PricingFlow.thy ===== *)
theory PricingFlow
  imports Decimals
begin

text \<open>
  The pricing-flow definition and its validation
  (\<open>src/modules/pricing-rules/pricing-flow.types.ts\<close> and the functions from
  \<open>validateDefinition\<close> to \<open>assertUniqueCalculationIds\<close> of \<open>pricing-flow.service.ts\<close>): an
  arbitrary JSON value is either rejected with the message of the first check that fails or turned
  into a definition.  The second half states the well-formedness every accepted definition has and
  proves that validation reads back what it produced.
\<close>

section \<open>The definition\<close>

datatype calc_type = CFixed | CPercentage

datatype price_mode = MFixed | MFlexible

datatype party = PartyS | PartyD

record amount_rule =
  ar_type :: calc_type
  ar_value :: rat
  ar_minimum :: "rat option"
  ar_maximum :: "rat option"

record calculation = amount_rule +
  calc_id :: string
  calc_name :: string

text \<open>A range of a charge or of a commission, with the calculation it is connected to.\<close>

record price_range =
  rg_id :: string
  rg_minimum :: rat
  rg_maximum :: "rat option"
  rg_calculation :: string

text \<open>
  The charge and the commission of a definition have one shape; \<open>pp_party\<close> is the payer of a
  charge and the receiver of a commission.
\<close>

record price_part = amount_rule +
  pp_enabled :: bool
  pp_mode :: price_mode
  pp_party :: party
  pp_calculations :: "calculation list"
  pp_default :: string
  pp_ranges :: "price_range list"

record pricing_definition =
  pd_keyword :: string
  pd_keywords :: "string list"
  pd_currency :: string
  pd_sourceWalletType :: int
  pd_sourceWalletTypes :: "int list"
  pd_destinationWalletType :: "int option"
  pd_destinationWalletTypes :: "int list"
  pd_minimumAmount :: rat
  pd_maximumAmount :: "rat option"
  pd_charge :: price_part
  pd_commission :: price_part
  pd_chargeWalletType :: int
  pd_commissionWalletType :: int

section \<open>Field checks\<close>

definition requiredText :: "jsval \<Rightarrow> string \<Rightarrow> nat \<Rightarrow> string res" where
  "requiredText v label mx =
     (let t = trim (js_string (js_or v (JStr [])))
      in if t = [] then Inl (BadRequest (label @ '' is required''))
         else if length t > mx then Inl (BadRequest (label @ '' is too long''))
         else Inr t)"

definition textArray :: "jsval \<Rightarrow> jsval \<Rightarrow> string \<Rightarrow> nat \<Rightarrow> string list res" where
  "textArray vs legacy label mx =
     (let input = (case js_array vs of Some xs \<Rightarrow> xs | None \<Rightarrow> [legacy]);
          normalized = js_set (filter (\<lambda>s. s \<noteq> [])
            (map (\<lambda>v. upper (trim (js_string (js_or v (JStr []))))) input))
      in if normalized = [] then Inl (BadRequest (''At least one '' @ lower label @ '' is required''))
         else if list_ex (\<lambda>s. length s > mx) normalized then Inl (BadRequest (label @ '' is too long''))
         else Inr normalized)"

definition integer_check :: "jsval \<Rightarrow> string \<Rightarrow> int \<Rightarrow> int \<Rightarrow> int option \<Rightarrow> int res" where
  "integer_check v label mn mx fallback =
     (let numeric = (if v = JUndef \<and> fallback \<noteq> None then NumFin (of_int (the fallback)) else js_number v);
          err = BadRequest (label @ '' must be an integer between '' @ int_str mn @ '' and '' @ int_str mx)
      in case numeric of
           NumFin q \<Rightarrow>
             if \<not> num_is_integer numeric \<or> q < of_int mn \<or> q > of_int mx then Inl err else Inr \<lfloor>q\<rfloor>
         | _ \<Rightarrow> Inl err)"

definition max_int32 :: int where
  "max_int32 = 2147483647"

definition integerArray :: "jsval \<Rightarrow> jsval \<Rightarrow> string \<Rightarrow> bool \<Rightarrow> int list res" where
  "integerArray vs legacy label allowEmpty =
     (let input = (case js_array vs of
            Some xs \<Rightarrow> xs
          | None \<Rightarrow> if js_nullish legacy then [] else [legacy])
      in await (map_res (\<lambda>v. integer_check v label 1 max_int32 None) input) (\<lambda>ns.
           let normalized = js_set ns
           in if \<not> allowEmpty \<and> normalized = []
              then Inl (BadRequest (''At least one '' @ lower label @ '' is required''))
              else Inr normalized))"

definition party_check :: "jsval \<Rightarrow> string \<Rightarrow> party res" where
  "party_check v label =
     (let p = upper (trim (js_string (js_or v (JStr []))))
      in if p = ''S'' then Inr PartyS
         else if p = ''D'' then Inr PartyD
         else Inl (BadRequest (label @ '' must be S or D'')))"

definition number_check :: "jsval \<Rightarrow> string \<Rightarrow> rat \<Rightarrow> rat res" where
  "number_check v label mn =
     (let err = BadRequest (label @ '' must be a number greater than or equal to '' @ num_str (NumFin mn))
      in case js_number v of
           NumFin q \<Rightarrow> if q < mn then Inl err else Inr q
         | _ \<Rightarrow> Inl err)"

text \<open>A number that may be left out: \<open>undefined\<close>, and for range bounds also \<open>null\<close>, is no bound.\<close>

definition optional_number :: "jsval \<Rightarrow> string \<Rightarrow> rat \<Rightarrow> rat option res" where
  "optional_number v label mn =
     (if v = JUndef then Inr None else await (number_check v label mn) (\<lambda>q. Inr (Some q)))"

definition nullable_number :: "jsval \<Rightarrow> string \<Rightarrow> rat \<Rightarrow> rat option res" where
  "nullable_number v label mn =
     (if js_nullish v then Inr None else await (number_check v label mn) (\<lambda>q. Inr (Some q)))"

section \<open>Calculation rules and ranges\<close>

definition amountRule :: "jsval \<Rightarrow> string \<Rightarrow> amount_rule res" where
  "amountRule raw label =
     (let ty = upper (js_string (js_or (js_opt raw ''type'') (JStr [])))
      in if ty \<noteq> ''FIXED'' \<and> ty \<noteq> ''PERCENTAGE''
         then Inl (BadRequest (label @ '' calculation type must be FIXED or PERCENTAGE''))
         else await (number_check (js_opt raw ''value'') (label @ '' value'') 0) (\<lambda>v.
           if ty = ''PERCENTAGE'' \<and> v > 100
           then Inl (BadRequest (label @ '' percentage cannot exceed 100''))
           else await (optional_number (js_opt raw ''minimum'') (label @ '' minimum'') 0) (\<lambda>mn.
             await (optional_number (js_opt raw ''maximum'') (label @ '' maximum'')
               (case mn of Some m \<Rightarrow> m | None \<Rightarrow> 0)) (\<lambda>mx.
               Inr \<lparr>ar_type = (if ty = ''FIXED'' then CFixed else CPercentage), ar_value = v,
                    ar_minimum = mn, ar_maximum = mx\<rparr>))))"

definition id_char :: "char \<Rightarrow> bool" where
  "id_char c = (is_lower c \<or> is_upper c \<or> is_digit c \<or> c = CHR ''_'' \<or> c = CHR ''-'')"

text \<open>\<open>/^[a-zA-Z][a-zA-Z0-9_-]{0,63}$/\<close>\<close>

definition valid_calc_id :: "string \<Rightarrow> bool" where
  "valid_calc_id s = (case s of
     [] \<Rightarrow> False
   | c # cs \<Rightarrow> (is_lower c \<or> is_upper c) \<and> length cs \<le> 63 \<and> list_all id_char cs)"

definition calculationRule :: "jsval \<Rightarrow> string \<Rightarrow> string \<Rightarrow> calculation res" where
  "calculationRule raw label fallbackId =
     await (js_get raw ''id'') (\<lambda>rid.
       let cid = trim (js_string (js_or rid (JStr fallbackId)))
       in if \<not> valid_calc_id cid then Inl (BadRequest (label @ '' ID is invalid''))
          else (let nm = trim (js_string (js_or (js_opt raw ''name'') (JStr label)))
                in if nm = [] \<or> length nm > 100 then Inl (BadRequest (label @ '' name is invalid''))
                   else await (amountRule raw label) (\<lambda>r.
                     Inr (amount_rule.extend r \<lparr>calc_id = cid, calc_name = nm\<rparr>))))"

definition default_calculation :: "string \<Rightarrow> string \<Rightarrow> amount_rule \<Rightarrow> calculation" where
  "default_calculation cid nm r = amount_rule.extend r \<lparr>calc_id = cid, calc_name = nm\<rparr>"

definition assertUniqueCalculationIds :: "calculation list \<Rightarrow> string \<Rightarrow> unit res" where
  "assertUniqueCalculationIds cs label =
     (if length (js_set (map calc_id cs)) \<noteq> length cs
      then Inl (BadRequest (label @ '' calculation IDs must be unique'')) else Inr ())"

text \<open>
  One reader for both kinds of range: \<open>kind\<close> is Charge or Commission, \<open>prefix\<close> the prefix of a
  generated id, \<open>key\<close> the property that names the calculation.
\<close>

definition range_rule :: "string \<Rightarrow> string \<Rightarrow> string \<Rightarrow> jsval \<Rightarrow> nat \<Rightarrow> string \<Rightarrow> price_range res" where
  "range_rule kind prefix key raw index fallback =
     (let label = kind @ '' range '' @ nat_str (index + 1)
      in await (js_get raw ''minimumAmount'') (\<lambda>rmin.
         await (number_check rmin (label @ '' minimum amount'') 0) (\<lambda>mn.
         await (nullable_number (js_opt raw ''maximumAmount'') (label @ '' maximum amount'') mn) (\<lambda>mx.
           Inr \<lparr>rg_id = trim (js_string (js_or (js_opt raw ''id'') (JStr (prefix @ nat_str (index + 1))))),
                rg_minimum = mn, rg_maximum = mx,
                rg_calculation = trim (js_string (js_or (js_opt raw key) (JStr fallback)))\<rparr>))))"

definition chargeRange :: "jsval \<Rightarrow> nat \<Rightarrow> string \<Rightarrow> price_range res" where
  "chargeRange = range_rule ''Charge'' ''amount-range-'' ''chargeCalculationId''"

definition commissionRange :: "jsval \<Rightarrow> nat \<Rightarrow> string \<Rightarrow> price_range res" where
  "commissionRange = range_rule ''Commission'' ''commission-range-'' ''commissionCalculationId''"

text \<open>The property values of an optional number and of a calculation type in an object.\<close>

definition opt_num :: "rat option \<Rightarrow> jsval" where
  "opt_num q = (case q of None \<Rightarrow> JUndef | Some x \<Rightarrow> JRat x)"

definition type_text :: "calc_type \<Rightarrow> string" where
  "type_text t = (case t of CFixed \<Rightarrow> ''FIXED'' | CPercentage \<Rightarrow> ''PERCENTAGE'')"

text \<open>\<open>{ ...legacyRange, ...base }\<close>\<close>

definition legacy_fields :: "rat \<Rightarrow> rat option \<Rightarrow> (string \<times> jsval) list" where
  "legacy_fields mn mx = [(''minimumAmount'', JRat mn), (''maximumAmount'', opt_num mx)]"

definition rule_fields :: "'a amount_rule_scheme \<Rightarrow> (string \<times> jsval) list" where
  "rule_fields r =
     [(''type'', JStr (type_text (ar_type r))), (''value'', JRat (ar_value r)),
      (''minimum'', opt_num (ar_minimum r)), (''maximum'', opt_num (ar_maximum r))]"

text \<open>\<open>Array.isArray(v) && v.length ? v : fallback\<close>\<close>

definition nonempty_array :: "jsval \<Rightarrow> jsval list option" where
  "nonempty_array v = (case js_array v of Some (x # xs) \<Rightarrow> Some (x # xs) | _ \<Rightarrow> None)"

fun overlapping :: "price_range list \<Rightarrow> bool" where
  "overlapping (p # q # rs) =
     ((case rg_maximum p of None \<Rightarrow> True | Some m \<Rightarrow> rg_minimum q \<le> m) \<or> overlapping (q # rs))"
| "overlapping _ = False"

fun check_charge_references :: "string set \<Rightarrow> nat \<Rightarrow> price_range list \<Rightarrow> unit res" where
  "check_charge_references ids i [] = Inr ()"
| "check_charge_references ids i (r # rs) =
     (if rg_calculation r \<notin> ids
      then Inl (BadRequest (''Amount range '' @ nat_str (i + 1) @ '' references an unknown charge calculation''))
      else check_charge_references ids (Suc i) rs)"

definition chargeRule :: "jsval \<Rightarrow> rat \<Rightarrow> rat option \<Rightarrow> price_part res" where
  "chargeRule raw lmin lmax =
     (let mode = upper (js_string (js_or (js_opt raw ''mode'') (JStr ''FLEXIBLE'')))
      in if mode \<noteq> ''FIXED'' \<and> mode \<noteq> ''FLEXIBLE''
         then Inl (BadRequest ''Charge mode must be FIXED or FLEXIBLE'')
         else await (amountRule raw ''Charge'') (\<lambda>base.
           await (party_check (js_opt raw ''payer'') ''Charge payer'') (\<lambda>payer.
           let inputRanges = (case nonempty_array (js_opt raw ''ranges'') of
                 Some xs \<Rightarrow> xs
               | None \<Rightarrow> [JObj (legacy_fields lmin lmax @ rule_fields base)]);
               read_calculation = (\<lambda>i c. calculationRule c (''Charge calculation '' @ nat_str (i + 1))
                 (''charge-calculation-'' @ nat_str (i + 1)))
           in await (case nonempty_array (js_opt raw ''calculations'') of
                Some cs \<Rightarrow> map_resi read_calculation 0 cs
              | None \<Rightarrow> if mode = ''FLEXIBLE'' then map_resi read_calculation 0 inputRanges
                  else Inr [default_calculation ''charge-default'' ''Default charge'' base]) (\<lambda>calculations.
              await (assertUniqueCalculationIds calculations ''Charge'') (\<lambda>_.
              let ids = set (map calc_id calculations);
                  dflt = trim (js_string (js_or (js_opt raw ''defaultCalculationId'')
                    (JStr (calc_id (hd calculations)))))
              in if dflt \<notin> ids then Inl (BadRequest ''Default charge calculation does not exist'')
                 else await (if mode = ''FLEXIBLE''
                     then map_resi (\<lambda>i r. chargeRange r i
                       (calc_id (calculations ! min i (length calculations - 1)))) 0 inputRanges
                     else Inr []) (\<lambda>ranges.
                   let sorted = sort_key rg_minimum ranges
                   in if length (js_set (map rg_id sorted)) \<noteq> length sorted
                      then Inl (BadRequest ''Amount range IDs must be unique'')
                      else if overlapping sorted
                      then Inl (BadRequest ''Flexible charge ranges cannot overlap'')
                      else await (check_charge_references ids 0 ranges) (\<lambda>_.
                        Inr (amount_rule.extend base
                          \<lparr>pp_enabled = (js_opt raw ''enabled'' \<noteq> JBool False),
                           pp_mode = (if mode = ''FIXED'' then MFixed else MFlexible),
                           pp_party = payer, pp_calculations = calculations, pp_default = dflt,
                           pp_ranges = sorted\<rparr>))))))))"

fun check_commission_ranges ::
    "string set \<Rightarrow> nat \<Rightarrow> price_range option \<Rightarrow> price_range list \<Rightarrow> unit res" where
  "check_commission_ranges ids i prev [] = Inr ()"
| "check_commission_ranges ids i prev (r # rs) =
     (if rg_calculation r \<notin> ids
      then Inl (BadRequest (''Commission range '' @ nat_str (i + 1) @ '' references an unknown calculation''))
      else if (case prev of None \<Rightarrow> False
               | Some p \<Rightarrow> (case rg_maximum p of None \<Rightarrow> True | Some m \<Rightarrow> rg_minimum r \<le> m))
      then Inl (BadRequest ''Flexible commission ranges cannot overlap'')
      else check_commission_ranges ids (Suc i) (Some r) rs)"

text \<open>
  The ranges of the charge that name a commission calculation, in the shape an older definition
  stored them: they become commission ranges when the commission has none of its own.
\<close>

definition migrated_ranges :: "jsval list \<Rightarrow> jsval list res" where
  "migrated_ranges legacyChargeRanges =
     await (filter_res (\<lambda>r. await (js_get r ''commissionCalculationId'') (\<lambda>c. Inr (truthy c)))
              legacyChargeRanges) (\<lambda>kept.
       Inr (map (\<lambda>(i, r). JObj
         [(''id'', JStr (''commission-range-'' @ nat_str (i + 1))),
          (''minimumAmount'', prop_of r ''minimumAmount''),
          (''maximumAmount'', prop_of r ''maximumAmount''),
          (''commissionCalculationId'', prop_of r ''commissionCalculationId'')])
         (enumerate 0 kept)))"

definition commissionRule :: "jsval \<Rightarrow> jsval list \<Rightarrow> rat \<Rightarrow> rat option \<Rightarrow> price_part res" where
  "commissionRule raw legacyChargeRanges lmin lmax =
     await (amountRule raw ''Commission'') (\<lambda>base.
     let requested = upper (js_string (js_or (js_opt raw ''mode'') (JStr ''FIXED'')));
         mode = (if requested = ''DIRECT'' then ''FIXED''
                 else if requested = ''RANGE_LINKED'' then ''FLEXIBLE'' else requested)
     in if mode \<noteq> ''FIXED'' \<and> mode \<noteq> ''FLEXIBLE''
        then Inl (BadRequest ''Commission mode must be FIXED or FLEXIBLE'')
        else await (case nonempty_array (js_opt raw ''calculations'') of
             Some cs \<Rightarrow> map_resi (\<lambda>i c. calculationRule c (''Commission calculation '' @ nat_str (i + 1))
               (''commission-calculation-'' @ nat_str (i + 1))) 0 cs
           | None \<Rightarrow> Inr [default_calculation ''commission-default'' ''Default commission'' base]) (\<lambda>calculations.
          await (assertUniqueCalculationIds calculations ''Commission'') (\<lambda>_.
          let ids = set (map calc_id calculations);
              dflt = trim (js_string (js_or (js_opt raw ''defaultCalculationId'')
                (JStr (calc_id (hd calculations)))))
          in if dflt \<notin> ids then Inl (BadRequest ''Default commission calculation does not exist'')
             else await (migrated_ranges legacyChargeRanges) (\<lambda>migrated.
               let inputRanges = (case nonempty_array (js_opt raw ''ranges'') of
                     Some xs \<Rightarrow> xs
                   | None \<Rightarrow> if migrated \<noteq> [] then migrated
                       else [JObj (legacy_fields lmin lmax @ [(''commissionCalculationId'', JStr dflt)])])
               in await (if mode = ''FLEXIBLE''
                    then map_resi (\<lambda>i r. commissionRange r i dflt) 0 inputRanges
                    else Inr []) (\<lambda>ranges.
                  let sorted = sort_key rg_minimum ranges
                  in if length (js_set (map rg_id sorted)) \<noteq> length sorted
                     then Inl (BadRequest ''Commission range IDs must be unique'')
                     else await (check_commission_ranges ids 0 None sorted) (\<lambda>_.
                       await (party_check (js_opt raw ''receiver'') ''Commission receiver'') (\<lambda>receiver.
                         Inr (amount_rule.extend base
                           \<lparr>pp_enabled = (js_opt raw ''enabled'' \<noteq> JBool False),
                            pp_mode = (if mode = ''FIXED'' then MFixed else MFlexible),
                            pp_party = receiver, pp_calculations = calculations, pp_default = dflt,
                            pp_ranges = sorted\<rparr>))))))))"

section \<open>Validation\<close>

definition is_object :: "jsval \<Rightarrow> bool" where
  "is_object v = (case v of JObj _ \<Rightarrow> True | _ \<Rightarrow> False)"

definition validateDefinition :: "jsval \<Rightarrow> pricing_definition res" where
  "validateDefinition raw =
     (if \<not> is_object raw then Inl (BadRequest ''Pricing flow definition must be an object'')
      else let trigger = js_opt raw ''trigger''; route = js_opt raw ''route'';
               condition = js_opt raw ''condition''; settlement = js_opt raw ''settlement''
      in await (textArray (js_opt trigger ''keywords'') (js_opt trigger ''keyword'') ''Keyword'' 100) (\<lambda>keywords.
         await (requiredText (js_or (js_opt trigger ''currency'') (JStr ''UGX'')) ''Currency'' 8) (\<lambda>currency.
         await (integerArray (js_opt route ''sourceWalletTypes'') (js_opt route ''sourceWalletType'')
                  ''Source wallet type'' False) (\<lambda>sources.
         await (integerArray (js_opt route ''destinationWalletTypes'') (js_opt route ''destinationWalletType'')
                  ''Destination wallet type'' True) (\<lambda>destinations.
         await (number_check (js_coalesce (js_opt condition ''minimumAmount'') (JInt 0))
                  ''Minimum amount'' 0) (\<lambda>minimumAmount.
         await (nullable_number (js_opt condition ''maximumAmount'') ''Maximum amount'' minimumAmount) (\<lambda>maximumAmount.
         await (chargeRule (js_opt raw ''charge'') minimumAmount maximumAmount) (\<lambda>charge.
         await (commissionRule (js_opt raw ''commission'')
                  (case js_array (js_opt (js_opt raw ''charge'') ''ranges'') of Some xs \<Rightarrow> xs | None \<Rightarrow> [])
                  minimumAmount maximumAmount) (\<lambda>commission.
         if \<not> pp_enabled charge \<and> \<not> pp_enabled commission
         then Inl (BadRequest ''At least one of charge or commission must be enabled'')
         else
         await (integer_check (js_coalesce (js_opt settlement ''chargeWalletType'') (JInt 113))
                  ''Charge settlement wallet'' 1 max_int32 None) (\<lambda>chargeWallet.
         await (integer_check (js_coalesce (js_opt settlement ''commissionWalletType'') (JInt 114))
                  ''Commission settlement wallet'' 1 max_int32 None) (\<lambda>commissionWallet.
           Inr \<lparr>pd_keyword = hd keywords, pd_keywords = keywords, pd_currency = upper currency,
                pd_sourceWalletType = hd sources, pd_sourceWalletTypes = sources,
                pd_destinationWalletType = (case destinations of [] \<Rightarrow> None | d # _ \<Rightarrow> Some d),
                pd_destinationWalletTypes = destinations,
                pd_minimumAmount = minimumAmount, pd_maximumAmount = maximumAmount,
                pd_charge = charge, pd_commission = commission,
                pd_chargeWalletType = chargeWallet, pd_commissionWalletType = commissionWallet\<rparr>)))))))))))"

text \<open>The JSON text of a definition, read back: properties that are \<open>undefined\<close> are left out.\<close>

definition calculation_json :: "calculation \<Rightarrow> jsval" where
  "calculation_json c =
     JObj ([(''id'', JStr (calc_id c)), (''name'', JStr (calc_name c))] @ rule_fields c)"

definition range_json :: "string \<Rightarrow> price_range \<Rightarrow> jsval" where
  "range_json key r =
     JObj [(''id'', JStr (rg_id r)), (''minimumAmount'', JRat (rg_minimum r)),
           (''maximumAmount'', opt_num (rg_maximum r)), (key, JStr (rg_calculation r))]"

definition mode_text :: "price_mode \<Rightarrow> string" where
  "mode_text m = (case m of MFixed \<Rightarrow> ''FIXED'' | MFlexible \<Rightarrow> ''FLEXIBLE'')"

definition party_text :: "party \<Rightarrow> string" where
  "party_text p = (case p of PartyS \<Rightarrow> ''S'' | PartyD \<Rightarrow> ''D'')"

definition part_json :: "string \<Rightarrow> string \<Rightarrow> price_part \<Rightarrow> jsval" where
  "part_json party_key calc_key p =
     JObj (rule_fields p @
       [(''enabled'', JBool (pp_enabled p)), (''mode'', JStr (mode_text (pp_mode p))),
        (party_key, JStr (party_text (pp_party p))),
        (''calculations'', JArr (map calculation_json (pp_calculations p))),
        (''defaultCalculationId'', JStr (pp_default p)),
        (''ranges'', JArr (map (range_json calc_key) (pp_ranges p)))])"

definition definition_json :: "pricing_definition \<Rightarrow> jsval" where
  "definition_json d =
     JObj
       [(''trigger'', JObj [(''keyword'', JStr (pd_keyword d)),
           (''keywords'', JArr (map JStr (pd_keywords d))), (''currency'', JStr (pd_currency d))]),
        (''route'', JObj [(''sourceWalletType'', JInt (pd_sourceWalletType d)),
           (''sourceWalletTypes'', JArr (map JInt (pd_sourceWalletTypes d))),
           (''destinationWalletType'',
             (case pd_destinationWalletType d of None \<Rightarrow> JUndef | Some i \<Rightarrow> JInt i)),
           (''destinationWalletTypes'', JArr (map JInt (pd_destinationWalletTypes d)))]),
        (''condition'', JObj (legacy_fields (pd_minimumAmount d) (pd_maximumAmount d))),
        (''charge'', part_json ''payer'' ''chargeCalculationId'' (pd_charge d)),
        (''commission'', part_json ''receiver'' ''commissionCalculationId'' (pd_commission d)),
        (''settlement'', JObj [(''chargeWalletType'', JInt (pd_chargeWalletType d)),
           (''commissionWalletType'', JInt (pd_commissionWalletType d))])]"

end
