(* ===== verification/PricingWf.thy ===== *)
theory PricingWf
  imports PricingFlow
begin

text \<open>
  What every definition accepted by \<open>validateDefinition\<close> satisfies, and that a stored definition
  is read back unchanged.
\<close>

section \<open>Well-formed definitions\<close>

definition wf_rule :: "'a amount_rule_scheme \<Rightarrow> bool" where
  "wf_rule r \<longleftrightarrow>
     0 \<le> ar_value r \<and> (ar_type r = CPercentage \<longrightarrow> ar_value r \<le> 100) \<and>
     (\<forall>m. ar_minimum r = Some m \<longrightarrow> 0 \<le> m) \<and>
     (\<forall>m. ar_maximum r = Some m \<longrightarrow> (case ar_minimum r of None \<Rightarrow> 0 | Some l \<Rightarrow> l) \<le> m)"

definition wf_calculation :: "calculation \<Rightarrow> bool" where
  "wf_calculation c \<longleftrightarrow>
     wf_rule c \<and> valid_calc_id (calc_id c) \<and> trim (calc_id c) = calc_id c \<and>
     calc_name c \<noteq> [] \<and> trim (calc_name c) = calc_name c \<and> length (calc_name c) \<le> 100"

definition wf_range :: "price_range \<Rightarrow> bool" where
  "wf_range r \<longleftrightarrow>
     0 \<le> rg_minimum r \<and> (\<forall>m. rg_maximum r = Some m \<longrightarrow> rg_minimum r \<le> m) \<and>
     trim (rg_id r) = rg_id r \<and> trim (rg_calculation r) = rg_calculation r"

definition wf_part :: "price_part \<Rightarrow> bool" where
  "wf_part p \<longleftrightarrow>
     wf_rule p \<and> pp_calculations p \<noteq> [] \<and> list_all wf_calculation (pp_calculations p) \<and>
     distinct (map calc_id (pp_calculations p)) \<and>
     pp_default p \<in> calc_id ` set (pp_calculations p) \<and>
     list_all wf_range (pp_ranges p) \<and> distinct (map rg_id (pp_ranges p)) \<and>
     sorted (map rg_minimum (pp_ranges p)) \<and> \<not> overlapping (pp_ranges p) \<and>
     (\<forall>r \<in> set (pp_ranges p). rg_calculation r \<in> calc_id ` set (pp_calculations p)) \<and>
     (pp_mode p = MFixed \<longleftrightarrow> pp_ranges p = [])"

definition wallet_type_ok :: "int \<Rightarrow> bool" where
  "wallet_type_ok i \<longleftrightarrow> 1 \<le> i \<and> i \<le> max_int32"

definition wf_definition :: "pricing_definition \<Rightarrow> bool" where
  "wf_definition d \<longleftrightarrow>
     pd_keywords d \<noteq> [] \<and> pd_keyword d = hd (pd_keywords d) \<and> distinct (pd_keywords d) \<and>
     (\<forall>k \<in> set (pd_keywords d). k \<noteq> [] \<and> length k \<le> 100 \<and> upper k = k \<and> trim k = k) \<and>
     pd_currency d \<noteq> [] \<and> length (pd_currency d) \<le> 8 \<and> upper (pd_currency d) = pd_currency d \<and>
     trim (pd_currency d) = pd_currency d \<and>
     pd_sourceWalletTypes d \<noteq> [] \<and> pd_sourceWalletType d = hd (pd_sourceWalletTypes d) \<and>
     distinct (pd_sourceWalletTypes d) \<and> (\<forall>i \<in> set (pd_sourceWalletTypes d). wallet_type_ok i) \<and>
     distinct (pd_destinationWalletTypes d) \<and>
     (\<forall>i \<in> set (pd_destinationWalletTypes d). wallet_type_ok i) \<and>
     pd_destinationWalletType d =
       (case pd_destinationWalletTypes d of [] \<Rightarrow> None | i # _ \<Rightarrow> Some i) \<and>
     0 \<le> pd_minimumAmount d \<and> (\<forall>m. pd_maximumAmount d = Some m \<longrightarrow> pd_minimumAmount d \<le> m) \<and>
     wf_part (pd_charge d) \<and> wf_part (pd_commission d) \<and>
     (pp_enabled (pd_charge d) \<or> pp_enabled (pd_commission d)) \<and>
     wallet_type_ok (pd_chargeWalletType d) \<and> wallet_type_ok (pd_commissionWalletType d)"

section \<open>Validation establishes it\<close>

lemma number_check_Inr [res_simps]:
  "number_check v label mn = Inr q \<longleftrightarrow> js_number v = NumFin q \<and> mn \<le> q"
  by (auto simp: number_check_def Let_def split: jsnum.splits)

lemma optional_number_Inr [res_simps]:
  "optional_number v label mn = Inr x \<longleftrightarrow>
     (v = JUndef \<and> x = None) \<or> (v \<noteq> JUndef \<and> (\<exists>q. x = Some q \<and> js_number v = NumFin q \<and> mn \<le> q))"
  by (auto simp: optional_number_def res_simps)

lemma nullable_number_Inr [res_simps]:
  "nullable_number v label mn = Inr x \<longleftrightarrow>
     (js_nullish v \<and> x = None) \<or> (\<not> js_nullish v \<and> (\<exists>q. x = Some q \<and> js_number v = NumFin q \<and> mn \<le> q))"
  by (auto simp: nullable_number_def res_simps)

lemma integer_check_Inr:
  "integer_check v label mn mx None = Inr i \<longleftrightarrow>
     js_number v = NumFin (of_int i) \<and> mn \<le> i \<and> i \<le> mx"
proof
  assume "integer_check v label mn mx None = Inr i"
  then show "js_number v = NumFin (of_int i) \<and> mn \<le> i \<and> i \<le> mx"
    by (auto simp: integer_check_def Let_def num_is_integer_def not_less le_floor_iff floor_le_iff
        split: jsnum.splits if_splits)
next
  assume "js_number v = NumFin (of_int i) \<and> mn \<le> i \<and> i \<le> mx"
  then show "integer_check v label mn mx None = Inr i"
    by (auto simp: integer_check_def Let_def not_less)
qed

lemma amountRule_Inr:
  assumes "amountRule raw label = Inr r"
  obtains ty where "ty = upper (js_string (js_or (prop_of raw ''type'') (JStr [])))"
    and "ty = ''FIXED'' \<or> ty = ''PERCENTAGE''"
    and "ar_type r = (if ty = ''FIXED'' then CFixed else CPercentage)"
    and "js_number (prop_of raw ''value'') = NumFin (ar_value r)" and "0 \<le> ar_value r"
    and "ty = ''PERCENTAGE'' \<longrightarrow> ar_value r \<le> 100"
    and "optional_number (prop_of raw ''minimum'') (label @ '' minimum'') 0 = Inr (ar_minimum r)"
    and "optional_number (prop_of raw ''maximum'') (label @ '' maximum'')
           (case ar_minimum r of Some m \<Rightarrow> m | None \<Rightarrow> 0) = Inr (ar_maximum r)"
proof -
  let ?ty = "upper (js_string (js_or (prop_of raw ''type'') (JStr [])))"
  have ty: "?ty = ''FIXED'' \<or> ?ty = ''PERCENTAGE''"
    using assms by (auto simp only: amountRule_def Let_def js_opt_simp if_Inl_Inr_iff de_Morgan_conj not_not)
  obtain v where v: "js_number (prop_of raw ''value'') = NumFin v" "0 \<le> v"
    and r1: "(if ?ty = ''PERCENTAGE'' \<and> v > 100
           then Inl (BadRequest (label @ '' percentage cannot exceed 100''))
           else await (optional_number (prop_of raw ''minimum'') (label @ '' minimum'') 0) (\<lambda>mn.
             await (optional_number (prop_of raw ''maximum'') (label @ '' maximum'')
               (case mn of Some m \<Rightarrow> m | None \<Rightarrow> 0)) (\<lambda>mx.
               Inr \<lparr>ar_type = (if ?ty = ''FIXED'' then CFixed else CPercentage), ar_value = v,
                    ar_minimum = mn, ar_maximum = mx\<rparr>))) = Inr r"
    using assms ty by (fastforce simp only: amountRule_def Let_def js_opt_simp if_Inl_Inr_iff
        number_check_Inr elim: await_InrE)
  have pc: "\<not> (?ty = ''PERCENTAGE'' \<and> v > 100)" using r1 unfolding if_Inl_Inr_iff by (rule conjunct1)
  obtain mn mx where
    "optional_number (prop_of raw ''minimum'') (label @ '' minimum'') 0 = Inr mn"
    "optional_number (prop_of raw ''maximum'') (label @ '' maximum'')
       (case mn of Some m \<Rightarrow> m | None \<Rightarrow> 0) = Inr mx"
    "r = \<lparr>ar_type = (if ?ty = ''FIXED'' then CFixed else CPercentage), ar_value = v,
          ar_minimum = mn, ar_maximum = mx\<rparr>"
    using r1 unfolding if_Inl_Inr_iff by (elim conjE await_InrE) (metis sum.inject(2))
  with that[of ?ty] ty v pc show thesis by auto
qed

lemma amountRule_wf:
  assumes "amountRule raw label = Inr r"
  shows "wf_rule r"
  using assms
proof (rule amountRule_Inr)
  fix ty
  assume "ty = ''FIXED'' \<or> ty = ''PERCENTAGE''"
    and "ar_type r = (if ty = ''FIXED'' then CFixed else CPercentage)"
    and "ty = ''PERCENTAGE'' \<longrightarrow> ar_value r \<le> 100" and "0 \<le> ar_value r"
    and mn: "optional_number (prop_of raw ''minimum'') (label @ '' minimum'') 0 = Inr (ar_minimum r)"
    and mx: "optional_number (prop_of raw ''maximum'') (label @ '' maximum'')
           (case ar_minimum r of Some m \<Rightarrow> m | None \<Rightarrow> 0) = Inr (ar_maximum r)"
  then have "0 \<le> ar_value r" "ar_type r = CPercentage \<longrightarrow> ar_value r \<le> 100" by auto
  moreover have "\<forall>m. ar_minimum r = Some m \<longrightarrow> 0 \<le> m"
    using mn by (auto simp: optional_number_Inr)
  moreover have "\<forall>m. ar_maximum r = Some m \<longrightarrow> (case ar_minimum r of None \<Rightarrow> 0 | Some l \<Rightarrow> l) \<le> m"
    using mx by (auto simp: optional_number_Inr)
  ultimately show ?thesis by (simp only: wf_rule_def)
qed

lemma wf_rule_extend [simp]: "wf_rule (amount_rule.extend r x) = wf_rule r"
  by (simp add: wf_rule_def amount_rule.extend_def)

lemma calculationRule_wf: "calculationRule raw label fb = Inr c \<Longrightarrow> wf_calculation c"
  by (auto simp: calculationRule_def Let_def res_simps wf_calculation_def amount_rule.extend_def
      wf_rule_def dest!: amountRule_wf split: if_splits)

lemma range_rule_wf: "range_rule kind pre key raw i fb = Inr r \<Longrightarrow> wf_range r"
  by (auto simp: range_rule_def Let_def res_simps wf_range_def)

lemma chargeRange_wf: "chargeRange raw i fb = Inr r \<Longrightarrow> wf_range r"
  by (simp add: chargeRange_def range_rule_wf)

lemma commissionRange_wf: "commissionRange raw i fb = Inr r \<Longrightarrow> wf_range r"
  by (simp add: commissionRange_def range_rule_wf)

lemma nonempty_array_Some: "nonempty_array v = Some xs \<Longrightarrow> xs \<noteq> [] \<and> js_array v = Some xs"
  by (auto simp: nonempty_array_def split: option.splits list.splits)

lemma assertUnique_Inr [res_simps]:
  "assertUniqueCalculationIds cs label = Inr u \<longleftrightarrow> distinct (map calc_id cs)"
  using js_set_size_iff[of "map calc_id cs"] by (simp add: assertUniqueCalculationIds_def)

lemma check_charge_references_Inr [res_simps]:
  "check_charge_references ids i rs = Inr u \<longleftrightarrow> (\<forall>r \<in> set rs. rg_calculation r \<in> ids)"
  by (induction rs arbitrary: i) auto

lemma check_commission_ranges_Inr:
  "check_commission_ranges ids i prev rs = Inr u \<longleftrightarrow>
     (\<forall>r \<in> set rs. rg_calculation r \<in> ids) \<and>
     \<not> overlapping (case prev of None \<Rightarrow> rs | Some p \<Rightarrow> p # rs)"
proof (induction rs arbitrary: i prev)
  case Nil
  then show ?case by (cases prev) auto
next
  case (Cons r rs)
  then show ?case by (cases prev) (auto split: option.splits)
qed

lemma default_calculation_wf:
  "wf_rule base \<Longrightarrow> valid_calc_id cid \<Longrightarrow> trim cid = cid \<Longrightarrow> nm \<noteq> [] \<Longrightarrow> trim nm = nm \<Longrightarrow>
   length nm \<le> 100 \<Longrightarrow> wf_calculation (default_calculation cid nm base)"
  by (simp add: default_calculation_def wf_calculation_def amount_rule.extend_def wf_rule_def)

lemmas char_defs = is_space_def is_digit_def is_lower_def is_upper_def id_char_def trim_def

lemma charge_default_wf: "wf_rule base \<Longrightarrow> wf_calculation (default_calculation ''charge-default'' ''Default charge'' base)"
  by (rule default_calculation_wf) (simp_all add: valid_calc_id_def char_defs)

lemma commission_default_wf:
  "wf_rule base \<Longrightarrow> wf_calculation (default_calculation ''commission-default'' ''Default commission'' base)"
  by (rule default_calculation_wf) (simp_all add: valid_calc_id_def char_defs)

text \<open>The last step of both rules: the parts put together from checked pieces.\<close>

lemma wf_part_intro:
  assumes "wf_rule base" "calcs \<noteq> []" "\<forall>c \<in> set calcs. wf_calculation c" "distinct (map calc_id calcs)"
    and "dflt \<in> set (map calc_id calcs)" "\<forall>r \<in> set ranges. wf_range r"
    and "length (js_set (map rg_id (sort_key rg_minimum ranges))) = length (sort_key rg_minimum ranges)"
    and "\<not> overlapping (sort_key rg_minimum ranges)"
    and "\<forall>r \<in> set ranges. rg_calculation r \<in> set (map calc_id calcs)"
    and "m = MFixed \<longleftrightarrow> ranges = []"
  shows "wf_part (amount_rule.extend base
           \<lparr>pp_enabled = en, pp_mode = m, pp_party = pa, pp_calculations = calcs,
            pp_default = dflt, pp_ranges = sort_key rg_minimum ranges\<rparr>)"
proof -
  have "sort_key rg_minimum ranges = [] \<longleftrightarrow> ranges = []"
    by (metis length_0_conv length_sort)
  moreover have "distinct (map rg_id (sort_key rg_minimum ranges))"
    using assms(7) by (metis js_set_size_iff length_map)
  ultimately show ?thesis
    using assms by (auto simp: wf_part_def amount_rule.extend_def wf_rule_def list_all_iff)
qed

lemma map_resi_Nil_iff: "map_resi f i xs = Inr ys \<Longrightarrow> (ys = []) = (xs = [])"
  using map_resi_length[of f i xs ys] by auto

lemma calculations_ok:
  assumes "(case nonempty_array v of
         Some cs \<Rightarrow> map_resi (\<lambda>i c. calculationRule c (f i) (g i)) 0 cs
       | None \<Rightarrow> if b then map_resi (\<lambda>i c. calculationRule c (f i) (g i)) 0 input else Inr [d]) = Inr calcs"
    and "b \<Longrightarrow> input \<noteq> []" and "wf_calculation d"
  shows "calcs \<noteq> [] \<and> (\<forall>c \<in> set calcs. wf_calculation c)"
  using assms
  by (auto split: option.splits if_splits dest: map_resi_Nil_iff nonempty_array_Some
      map_resi_all[where P = wf_calculation, OF _ calculationRule_wf])

lemma ranges_ok:
  assumes "(if b then map_resi (\<lambda>i r. range_rule kind pre key r i (h i)) 0 input else Inr []) = Inr ranges"
    and "input \<noteq> []"
  shows "(\<forall>r \<in> set ranges. wf_range r) \<and> (ranges = [] \<longleftrightarrow> \<not> b)"
  using assms
  by (auto split: if_splits dest: map_resi_Nil_iff map_resi_all[where P = wf_range, OF _ range_rule_wf])

lemma array_or_nonempty:
  "zs \<noteq> [] \<Longrightarrow> (case nonempty_array v of Some xs \<Rightarrow> xs | None \<Rightarrow> zs) \<noteq> []"
  by (auto split: option.splits dest: nonempty_array_Some)

lemma not_both_modes:
  "\<not> (m \<noteq> ''FIXED'' \<and> m \<noteq> ''FLEXIBLE'') \<Longrightarrow>
   (ranges = [] \<longleftrightarrow> m \<noteq> ''FLEXIBLE'') \<Longrightarrow> (if m = ''FIXED'' then MFixed else MFlexible) = MFixed \<longleftrightarrow> ranges = []"
  by auto

lemma chargeRule_wf:
  assumes "chargeRule raw lmin lmax = Inr p"
  shows "wf_part p"
  using assms
  unfolding chargeRule_def Let_def js_opt_simp chargeRange_def
  apply (elim await_InrE if_InlE)
  apply (drule Inr_inject, hypsubst)
  apply (frule ranges_ok, rule array_or_nonempty, simp)
  apply (frule calculations_ok, rule array_or_nonempty, simp, erule charge_default_wf[OF amountRule_wf])
  apply (unfold assertUnique_Inr check_charge_references_Inr not_not)
  apply (intro wf_part_intro not_both_modes)
            apply (erule amountRule_wf | assumption | elim conjE, assumption)+
  done

lemma commission_input_nonempty:
  "(case nonempty_array v of Some xs \<Rightarrow> xs | None \<Rightarrow> if m \<noteq> [] then m else [z]) \<noteq> []"
  by (auto split: option.splits dest: nonempty_array_Some)

lemma commission_calculations_ok:
  assumes "(case nonempty_array v of
         Some cs \<Rightarrow> map_resi (\<lambda>i c. calculationRule c (f i) (g i)) 0 cs
       | None \<Rightarrow> Inr [d]) = Inr calcs"
    and "wf_calculation d"
  shows "calcs \<noteq> [] \<and> (\<forall>c \<in> set calcs. wf_calculation c)"
  using calculations_ok[where b = False and input = "[]" and v = v and f = f and g = g and d = d and calcs = calcs] assms
  by simp

lemma check_commission_sorted:
  "check_commission_ranges ids 0 None (sort_key rg_minimum rs) = Inr u \<longleftrightarrow>
     (\<forall>r \<in> set rs. rg_calculation r \<in> ids) \<and> \<not> overlapping (sort_key rg_minimum rs)"
  by (simp add: check_commission_ranges_Inr)

lemma commissionRule_wf:
  assumes "commissionRule raw legacy lmin lmax = Inr p"
  shows "wf_part p"
  using assms
  unfolding commissionRule_def Let_def js_opt_simp commissionRange_def
  apply (elim await_InrE if_InlE)
  apply (drule Inr_inject, hypsubst)
  apply (frule ranges_ok, rule commission_input_nonempty)
  apply (frule commission_calculations_ok, erule commission_default_wf[OF amountRule_wf])
  apply (unfold assertUnique_Inr check_commission_sorted not_not)
  apply (elim conjE)
  apply (intro wf_part_intro not_both_modes)
            apply (erule amountRule_wf | assumption)+
  done

lemma textArray_wf:
  assumes "textArray vs legacy label mx = Inr ks"
  shows "ks \<noteq> [] \<and> distinct ks \<and> (\<forall>k \<in> set ks. k \<noteq> [] \<and> length k \<le> mx \<and> upper k = k \<and> trim k = k)"
  using assms
  unfolding textArray_def Let_def
  by (elim if_InlE) (fastforce simp: list_ex_iff not_less trim_upper)

lemma requiredText_wf:
  "requiredText v label mx = Inr t \<Longrightarrow> t \<noteq> [] \<and> length t \<le> mx \<and> trim t = t"
  unfolding requiredText_def Let_def by (elim if_InlE) auto

lemma integers_ok:
  "map_res (\<lambda>v. integer_check v label 1 max_int32 None) xs = Inr ns \<Longrightarrow> \<forall>i \<in> set ns. wallet_type_ok i"
  by (erule map_res_all) (simp add: integer_check_Inr wallet_type_ok_def)

lemma integerArray_wf:
  assumes "integerArray vs legacy label ae = Inr ns"
  shows "distinct ns \<and> (\<forall>i \<in> set ns. wallet_type_ok i) \<and> (ae \<or> ns \<noteq> [])"
  using assms
  unfolding integerArray_def Let_def
  by (elim await_InrE if_InlE) (drule integers_ok, auto)

text \<open>Every accepted definition is well-formed.\<close>

lemma validateDefinition_wf:
  assumes "validateDefinition raw = Inr d"
  shows "wf_definition d"
  using assms
  unfolding validateDefinition_def Let_def js_opt_simp
  apply (elim await_InrE if_InlE)
  apply (drule Inr_inject, hypsubst)
  apply (frule chargeRule_wf, frule commissionRule_wf)
  apply (drule textArray_wf, drule requiredText_wf)
  apply (drule integerArray_wf, drule integerArray_wf)
  apply (simp add: wf_definition_def integer_check_Inr wallet_type_ok_def trim_upper res_simps)
  apply blast
  done

section \<open>A stored definition is read back unchanged\<close>

lemma js_or_JStr [simp]: "s \<noteq> [] \<Longrightarrow> js_or (JStr s) z = JStr s"
  by (simp add: js_or_def)

lemma opt_num_simps [simp]:
  "opt_num None = JUndef" "opt_num (Some q) = JRat q"
  by (simp_all add: opt_num_def)

lemma optional_number_opt_num:
  "(\<forall>q. x = Some q \<longrightarrow> mn \<le> q) \<Longrightarrow> optional_number (opt_num x) label mn = Inr x"
  by (cases x) (simp_all add: optional_number_def number_check_def)

lemma nullable_number_opt_num:
  "(\<forall>q. x = Some q \<longrightarrow> mn \<le> q) \<Longrightarrow> nullable_number (opt_num x) label mn = Inr x"
  by (cases x) (simp_all add: nullable_number_def number_check_def)

lemma number_check_JRat [simp]: "mn \<le> q \<Longrightarrow> number_check (JRat q) label mn = Inr q"
  by (simp add: number_check_def)

lemma upper_type_text: "upper (type_text t) = type_text t" and type_text_nonempty: "type_text t \<noteq> []"
  by (cases t; simp add: type_text_def upper_def up_char_def is_lower_def)+

lemma type_text_cases:
  "type_text t = ''FIXED'' \<longleftrightarrow> t = CFixed" "type_text t = ''PERCENTAGE'' \<longleftrightarrow> t = CPercentage"
  by (cases t; simp add: type_text_def)+

lemma amountRule_json:
  assumes "prop_of raw ''type'' = JStr (type_text (ar_type r))"
    and "prop_of raw ''value'' = JRat (ar_value r)"
    and "prop_of raw ''minimum'' = opt_num (ar_minimum r)"
    and "prop_of raw ''maximum'' = opt_num (ar_maximum r)" and "wf_rule r"
  shows "amountRule raw label = Inr (amount_rule.truncate r)"
proof -
  have "0 \<le> ar_value r" "ar_type r = CPercentage \<Longrightarrow> \<not> 100 < ar_value r"
    "\<forall>m. ar_minimum r = Some m \<longrightarrow> 0 \<le> m"
    "\<forall>m. ar_maximum r = Some m \<longrightarrow> (case ar_minimum r of Some m \<Rightarrow> m | None \<Rightarrow> 0) \<le> m"
    using assms(5) by (auto simp: wf_rule_def)
  then show ?thesis
    using calc_type.exhaust[of "ar_type r"]
    by (auto simp: amountRule_def Let_def assms(1-4) type_text_nonempty upper_type_text
        type_text_cases optional_number_opt_num amount_rule.truncate_def)
qed

lemma calculation_eta:
  "amount_rule.extend (amount_rule.truncate c) \<lparr>calc_id = calc_id c, calc_name = calc_name c\<rparr> = (c::calculation)"
  by (cases c) (simp add: amount_rule.extend_def amount_rule.truncate_def)

lemma part_eta:
  "amount_rule.extend (amount_rule.truncate p)
     \<lparr>pp_enabled = pp_enabled p, pp_mode = pp_mode p, pp_party = pp_party p,
      pp_calculations = pp_calculations p, pp_default = pp_default p, pp_ranges = pp_ranges p\<rparr>
   = (p::price_part)"
  by (cases p) (simp add: amount_rule.extend_def amount_rule.truncate_def)

lemma valid_calc_id_nonempty: "valid_calc_id s \<Longrightarrow> s \<noteq> []"
  by (auto simp: valid_calc_id_def)

lemma calculationRule_json:
  assumes "wf_calculation c"
  shows "calculationRule (calculation_json c) label fb = Inr c"
proof -
  have "amountRule (calculation_json c) label = Inr (amount_rule.truncate c)"
    using assms by (intro amountRule_json) (simp_all add: calculation_json_def rule_fields_def wf_calculation_def)
  then show ?thesis
    using assms valid_calc_id_nonempty[of "calc_id c"]
    by (simp add: calculationRule_def js_get_def wf_calculation_def calculation_eta)
       (simp add: calculation_json_def calculation_eta)
qed

lemma calculations_json:
  assumes "\<forall>c \<in> set cs. wf_calculation c"
  shows "map_resi (\<lambda>i c. calculationRule c (f i) (g i)) j (map calculation_json cs) = Inr cs"
  using assms by (simp add: map_resi_map map_resi_id[where g = id, simplified] calculationRule_json)

lemma range_rule_json:
  assumes "wf_range r" "rg_id r \<noteq> []" "rg_calculation r \<noteq> []"
    and "key \<noteq> ''id''" "key \<noteq> ''minimumAmount''" "key \<noteq> ''maximumAmount''"
  shows "range_rule kind pre key (range_json key r) i fb = Inr r"
  using assms
  by (simp add: range_rule_def range_json_def js_get_def wf_range_def nullable_number_opt_num)

lemma ranges_json:
  assumes "\<forall>r \<in> set rs. wf_range r \<and> rg_id r \<noteq> [] \<and> rg_calculation r \<noteq> []"
    and "key \<noteq> ''id''" "key \<noteq> ''minimumAmount''" "key \<noteq> ''maximumAmount''"
  shows "map_resi (\<lambda>i r. range_rule kind pre key r i (h i)) j (map (range_json key) rs) = Inr rs"
  using assms by (simp add: map_resi_map map_resi_id[where g = id, simplified] range_rule_json)

lemma mode_text_simps:
  "upper (mode_text m) = mode_text m" "mode_text m \<noteq> []"
  "mode_text m = ''FIXED'' \<longleftrightarrow> m = MFixed" "mode_text m = ''FLEXIBLE'' \<longleftrightarrow> m = MFlexible"
  "mode_text m \<noteq> ''DIRECT''" "mode_text m \<noteq> ''RANGE_LINKED''"
  by (cases m; simp add: mode_text_def upper_def up_char_def is_lower_def)+

lemma party_check_json [simp]: "party_check (JStr (party_text p)) label = Inr p"
  by (cases p) (simp_all add: party_check_def party_text_def js_or_def upper_def up_char_def char_defs)

lemma mode_eta: "(if m = MFixed then MFixed else MFlexible) = m"
  by (cases m) simp_all

lemma nonempty_array_map:
  "nonempty_array (JArr (map f xs)) = (if xs = [] then None else Some (map f xs))"
  by (cases xs) (simp_all add: nonempty_array_def)

text \<open>The facts of a well-formed part that its reader asks for.\<close>

lemma wf_partD:
  assumes "wf_part p"
  shows "wf_rule p" "pp_calculations p \<noteq> []" "\<forall>c \<in> set (pp_calculations p). wf_calculation c"
    "distinct (map calc_id (pp_calculations p))" "pp_default p \<in> calc_id ` set (pp_calculations p)"
    "pp_default p \<noteq> []" "trim (pp_default p) = pp_default p"
    "sort_key rg_minimum (pp_ranges p) = pp_ranges p"
    "length (js_set (map rg_id (pp_ranges p))) = length (pp_ranges p)"
    "\<not> overlapping (pp_ranges p)"
    "\<forall>r \<in> set (pp_ranges p). rg_calculation r \<in> calc_id ` set (pp_calculations p)"
    "\<forall>r \<in> set (pp_ranges p). wf_range r \<and> rg_calculation r \<noteq> []"
    "pp_mode p = MFixed \<longleftrightarrow> pp_ranges p = []"
proof -
  have ids: "\<And>s. s \<in> calc_id ` set (pp_calculations p) \<Longrightarrow> s \<noteq> [] \<and> trim s = s"
    using assms by (auto simp: wf_part_def list_all_iff wf_calculation_def dest: valid_calc_id_nonempty)
  show "length (js_set (map rg_id (pp_ranges p))) = length (pp_ranges p)"
    using assms js_set_size_iff[of "map rg_id (pp_ranges p)"] by (simp add: wf_part_def)
  show "sort_key rg_minimum (pp_ranges p) = pp_ranges p"
    using assms by (simp add: wf_part_def sort_key_id_if_sorted)
  show "pp_default p \<noteq> []" "trim (pp_default p) = pp_default p"
    "\<forall>r \<in> set (pp_ranges p). wf_range r \<and> rg_calculation r \<noteq> []"
    using assms ids by (auto simp: wf_part_def list_all_iff)
qed (use assms in \<open>auto simp: wf_part_def list_all_iff\<close>)

lemma part_json_props [simp]:
  "prop_of (part_json pk ck p) ''type'' = JStr (type_text (ar_type p))"
  "prop_of (part_json pk ck p) ''value'' = JRat (ar_value p)"
  "prop_of (part_json pk ck p) ''minimum'' = opt_num (ar_minimum p)"
  "prop_of (part_json pk ck p) ''maximum'' = opt_num (ar_maximum p)"
  "prop_of (part_json pk ck p) ''enabled'' = JBool (pp_enabled p)"
  "prop_of (part_json pk ck p) ''mode'' = JStr (mode_text (pp_mode p))"
  by (simp_all add: part_json_def rule_fields_def)

lemma part_json_arrays:
  assumes "pk = ''payer'' \<or> pk = ''receiver''"
  shows "prop_of (part_json pk ck p) pk = JStr (party_text (pp_party p))"
    "prop_of (part_json pk ck p) ''calculations'' = JArr (map calculation_json (pp_calculations p))"
    "prop_of (part_json pk ck p) ''defaultCalculationId'' = JStr (pp_default p)"
    "prop_of (part_json pk ck p) ''ranges'' = JArr (map (range_json ck) (pp_ranges p))"
  using assms by (auto simp: part_json_def rule_fields_def)

definition named_ranges :: "price_part \<Rightarrow> bool" where
  "named_ranges p \<longleftrightarrow> (\<forall>r \<in> set (pp_ranges p). rg_id r \<noteq> [])"

lemma chargeRule_json:
  assumes wf: "wf_part p" and named: "named_ranges p"
  shows "chargeRule (part_json ''payer'' ''chargeCalculationId'' p) lmin lmax = Inr p"
proof -
  note w = wf_partD[OF wf]
  let ?raw = "part_json ''payer'' ''chargeCalculationId'' p"
  have base: "amountRule ?raw ''Charge'' = Inr (amount_rule.truncate p)"
    by (rule amountRule_json) (simp_all add: w)
  have ranges: "map_resi (\<lambda>i r. chargeRange r i (h i)) 0 (map (range_json ''chargeCalculationId'') (pp_ranges p))
      = Inr (pp_ranges p)" for h
    unfolding chargeRange_def using w named by (intro ranges_json) (auto simp: named_ranges_def)
  have u: "assertUniqueCalculationIds (pp_calculations p) ''Charge'' = Inr ()"
    using w by (simp add: assertUnique_Inr)
  have refs: "check_charge_references (calc_id ` set (pp_calculations p)) 0 (pp_ranges p) = Inr ()"
    using w by (simp add: check_charge_references_Inr)
  show ?thesis
    using w(2,5-10,13) refs
    by (cases "pp_mode p")
       (simp_all add: chargeRule_def Let_def base part_json_arrays mode_text_simps nonempty_array_map
         calculations_json w(3) u ranges part_eta[of p, unfolded mode_eta] del: upt_Suc,
        (metis part_eta)+)
qed

lemma migrated_ranges_json:
  "migrated_ranges (map (range_json ''chargeCalculationId'') rs) = Inr []"
proof -
  have "filter_res (\<lambda>r. await (js_get r ''commissionCalculationId'') (\<lambda>c. Inr (truthy c)))
      (map (range_json ''chargeCalculationId'') rs) = Inr []"
    by (subst filter_res_total[where p = "\<lambda>_. False"]) (auto simp: js_get_def range_json_def)
  then show ?thesis by (simp add: migrated_ranges_def)
qed

lemma commissionRule_json:
  assumes wf: "wf_part p" and named: "named_ranges p"
  shows "commissionRule (part_json ''receiver'' ''commissionCalculationId'' p)
           (map (range_json ''chargeCalculationId'') rs) lmin lmax = Inr p"
proof -
  note w = wf_partD[OF wf]
  let ?raw = "part_json ''receiver'' ''commissionCalculationId'' p"
  have base: "amountRule ?raw ''Commission'' = Inr (amount_rule.truncate p)"
    by (rule amountRule_json) (simp_all add: w)
  have ranges: "map_resi (\<lambda>i r. commissionRange r i (h i)) 0
        (map (range_json ''commissionCalculationId'') (pp_ranges p)) = Inr (pp_ranges p)" for h
    unfolding commissionRange_def using w named by (intro ranges_json) (auto simp: named_ranges_def)
  have u: "assertUniqueCalculationIds (pp_calculations p) ''Commission'' = Inr ()"
    using w by (simp add: assertUnique_Inr)
  have refs: "check_commission_ranges (calc_id ` set (pp_calculations p)) 0 None (pp_ranges p) = Inr ()"
    using w by (simp add: check_commission_ranges_Inr)
  show ?thesis
    using w(2,5-10,13) refs
    by (cases "pp_mode p")
       (simp_all add: commissionRule_def Let_def base part_json_arrays mode_text_simps nonempty_array_map
         calculations_json w(3) u ranges migrated_ranges_json,
        (metis part_eta)+)
qed

lemma textArray_json:
  assumes "ks \<noteq> []" "distinct ks"
    and "\<forall>k \<in> set ks. k \<noteq> [] \<and> length k \<le> mx \<and> upper k = k \<and> trim k = k"
  shows "textArray (JArr (map JStr ks)) legacy label mx = Inr ks"
proof -
  have "map (\<lambda>v. upper (trim (js_string (js_or v (JStr []))))) (map JStr ks) = ks"
    using assms(3) by (simp add: map_idI)
  moreover have "filter (\<lambda>s. s \<noteq> []) ks = ks" using assms(3) by (simp add: filter_id_conv)
  ultimately show ?thesis
    using assms by (auto simp: textArray_def Let_def js_set_distinct list_ex_iff simp del: map_map)
qed

lemma integerArray_json:
  assumes "distinct ns" "\<forall>i \<in> set ns. wallet_type_ok i" "ae \<or> ns \<noteq> []"
  shows "integerArray (JArr (map JInt ns)) legacy label ae = Inr ns"
proof -
  have "map_res (\<lambda>v. integer_check v label 1 max_int32 None) (map JInt ns) = Inr ns"
    using assms(2) by (simp add: map_res_Inr_conv integer_check_Inr wallet_type_ok_def)
  then show ?thesis using assms by (simp add: integerArray_def js_set_distinct)
qed

lemma requiredText_json:
  "t \<noteq> [] \<Longrightarrow> length t \<le> mx \<Longrightarrow> trim t = t \<Longrightarrow> requiredText (JStr t) label mx = Inr t"
  by (simp add: requiredText_def)

text \<open>
  Reading a stored definition back: every definition whose ranges all carry an id is a fixed point
  of validation.
\<close>

lemma validateDefinition_json:
  assumes wf: "wf_definition d"
    and named: "named_ranges (pd_charge d)" "named_ranges (pd_commission d)"
  shows "validateDefinition (definition_json d) = Inr d"
proof -
  have c: "chargeRule (part_json ''payer'' ''chargeCalculationId'' (pd_charge d)) a b = Inr (pd_charge d)" for a b
    using wf named by (simp add: chargeRule_json wf_definition_def)
  have m: "commissionRule (part_json ''receiver'' ''commissionCalculationId'' (pd_commission d))
      (map (range_json ''chargeCalculationId'') rs) a b = Inr (pd_commission d)" for rs a b
    using wf named by (simp add: commissionRule_json wf_definition_def)
  have k: "textArray (JArr (map JStr (pd_keywords d))) legacy ''Keyword'' 100 = Inr (pd_keywords d)" for legacy
    using wf by (intro textArray_json) (auto simp: wf_definition_def)
  have cu: "requiredText (JStr (pd_currency d)) ''Currency'' 8 = Inr (pd_currency d)"
    using wf by (simp add: requiredText_json wf_definition_def)
  have si: "integerArray (JArr (map JInt (pd_sourceWalletTypes d))) legacy lab False
      = Inr (pd_sourceWalletTypes d)" for legacy lab
    using wf by (intro integerArray_json) (auto simp: wf_definition_def)
  have di: "integerArray (JArr (map JInt (pd_destinationWalletTypes d))) legacy lab True
      = Inr (pd_destinationWalletTypes d)" for legacy lab
    using wf by (intro integerArray_json) (auto simp: wf_definition_def)
  have ws: "integer_check (JInt (pd_chargeWalletType d)) lab 1 max_int32 None = Inr (pd_chargeWalletType d)"
    "integer_check (JInt (pd_commissionWalletType d)) lab 1 max_int32 None = Inr (pd_commissionWalletType d)" for lab
    using wf by (simp_all add: integer_check_Inr wf_definition_def wallet_type_ok_def)
  have mx: "nullable_number (opt_num (pd_maximumAmount d)) lab (pd_minimumAmount d) = Inr (pd_maximumAmount d)" for lab
    using wf by (simp add: nullable_number_opt_num wf_definition_def)
  show ?thesis
    using wf
    by (simp add: validateDefinition_def definition_json_def is_object_def Let_def k cu si di c m ws mx
        legacy_fields_def js_coalesce_def part_json_arrays wf_definition_def)
qed

end
