(* ===== verification/PricingLifecycle.thy ===== *)
theory PricingLifecycle
  imports PricingWf
begin

text \<open>
  The table \<open>pricing_rule_flows\<close> with its audit table, and the operations of
  \<open>PricingFlowService\<close> on them (\<open>src/modules/pricing-rules/pricing-flow.service.ts\<close>): \<open>list\<close>,
  \<open>get\<close>, \<open>create\<close>, \<open>update\<close>, \<open>transition\<close> and \<open>findActive\<close>.  An operation runs in a database
  transaction: it returns the new tables, or an exception and then the tables are unchanged.
  \<open>now\<close> is CURRENT_TIMESTAMP.
\<close>

section \<open>Tables\<close>

datatype flow_status = Draft | Submitted | Approved | Active | Retired | Rejected

record flow_row =
  fr_id :: nat
  fr_ruleCode :: string
  fr_version :: nat
  fr_name :: string
  fr_keyword :: string
  fr_sourceWalletType :: int
  fr_destinationWalletType :: "int option"
  fr_currency :: string
  fr_priority :: int
  fr_status :: flow_status
  fr_definition :: jsval
  fr_createdBy :: string
  fr_modifiedBy :: "string option"
  fr_approvedBy :: "string option"
  fr_createdAt :: nat
  fr_updatedAt :: nat
  fr_approvedAt :: "nat option"
  fr_activatedAt :: "nat option"

text \<open>A normalized row: the columns with the definition validation reads from its JSON column.\<close>

type_synonym flow_record = "flow_row \<times> pricing_definition"

datatype flow_action = CreateA | UpdateA | SubmitA | ApproveA | ActivateA | RetireA | RejectA

record flow_audit =
  fa_flow :: nat
  fa_action :: flow_action
  fa_previous :: "flow_record option"
  fa_next :: flow_record
  fa_reason :: "string option"
  fa_actor :: string

record pricing_db =
  db_rows :: "flow_row list"
  db_audit :: "flow_audit list"
  db_nextId :: nat

definition status_text :: "flow_status \<Rightarrow> string" where
  "status_text s = (case s of Draft \<Rightarrow> ''DRAFT'' | Submitted \<Rightarrow> ''SUBMITTED'' | Approved \<Rightarrow> ''APPROVED''
     | Active \<Rightarrow> ''ACTIVE'' | Retired \<Rightarrow> ''RETIRED'' | Rejected \<Rightarrow> ''REJECTED'')"

definition action_text :: "flow_action \<Rightarrow> string" where
  "action_text a = (case a of CreateA \<Rightarrow> ''create'' | UpdateA \<Rightarrow> ''update'' | SubmitA \<Rightarrow> ''submit''
     | ApproveA \<Rightarrow> ''approve'' | ActivateA \<Rightarrow> ''activate'' | RetireA \<Rightarrow> ''retire'' | RejectA \<Rightarrow> ''reject'')"

section \<open>Reading\<close>

text \<open>\<open>/^[1-9][0-9]*$/\<close>\<close>

definition valid_flow_id :: "string \<Rightarrow> bool" where
  "valid_flow_id s = (case s of [] \<Rightarrow> False
   | c # cs \<Rightarrow> is_digit c \<and> c \<noteq> CHR ''0'' \<and> list_all is_digit cs)"

definition assertId :: "string \<Rightarrow> nat res" where
  "assertId s = (if valid_flow_id s then Inr (digits_nat s) else Inl (BadRequest ''Pricing flow ID is invalid''))"

definition normalizeRow :: "flow_row \<Rightarrow> flow_record res" where
  "normalizeRow r = await (validateDefinition (fr_definition r)) (\<lambda>d. Inr (r, d))"

definition find_row :: "pricing_db \<Rightarrow> nat \<Rightarrow> flow_row option" where
  "find_row db i = find (\<lambda>r. fr_id r = i) (db_rows db)"

text \<open>\<open>getForUpdate\<close> and \<open>getWithManager\<close>: one row by its id, normalized.\<close>

definition get_row :: "pricing_db \<Rightarrow> nat \<Rightarrow> flow_record res" where
  "get_row db i = (case find_row db i of
     None \<Rightarrow> Inl (NotFound ''Pricing flow was not found'')
   | Some r \<Rightarrow> normalizeRow r)"

definition get_flow :: "pricing_db \<Rightarrow> string \<Rightarrow> flow_record res" where
  "get_flow db s = await (assertId s) (get_row db)"

text \<open>\<open>definition -> a -> b ? text\<close>, \<open>... @> [n]\<close> and \<open>jsonb_array_length\<close> on a stored definition.\<close>

definition json_path :: "jsval \<Rightarrow> string \<Rightarrow> string \<Rightarrow> jsval" where
  "json_path d a b = prop_of (prop_of d a) b"

definition json_elems :: "jsval \<Rightarrow> jsval list" where
  "json_elems v = (case v of JArr xs \<Rightarrow> xs | _ \<Rightarrow> [])"

definition active_match :: "string \<Rightarrow> int \<Rightarrow> string \<Rightarrow> int option \<Rightarrow> flow_row \<Rightarrow> bool" where
  "active_match keyword source currency destination r \<longleftrightarrow>
     fr_status r = Active \<and>
     (fr_keyword r = upper keyword \<or>
      JStr (upper keyword) \<in> set (json_elems (json_path (fr_definition r) ''trigger'' ''keywords''))) \<and>
     (fr_sourceWalletType r = source \<or>
      JInt source \<in> set (json_elems (json_path (fr_definition r) ''route'' ''sourceWalletTypes''))) \<and>
     fr_currency r = upper currency \<and>
     (case destination of None \<Rightarrow> True
      | Some t \<Rightarrow>
          json_elems (json_path (fr_definition r) ''route'' ''destinationWalletTypes'') = [] \<or>
          fr_destinationWalletType r = Some t \<or>
          JInt t \<in> set (json_elems (json_path (fr_definition r) ''route'' ''destinationWalletTypes'')))"

text \<open>\<open>ORDER BY priority ASC, id DESC\<close>: both sorts are stable.\<close>

definition by_priority :: "flow_row list \<Rightarrow> flow_row list" where
  "by_priority rs = sort_key fr_priority (sort_key (\<lambda>r. - int (fr_id r)) rs)"

definition findActive ::
    "pricing_db \<Rightarrow> string \<Rightarrow> int \<Rightarrow> string option \<Rightarrow> int option \<Rightarrow> flow_record option res" where
  "findActive db keyword source currency destination =
     (let cur = (case currency of None \<Rightarrow> ''UGX'' | Some c \<Rightarrow> if c = [] then ''UGX'' else c);
          dest = (case destination of None \<Rightarrow> None | Some t \<Rightarrow> if t = 0 then None else Some t)
      in case by_priority (filter (active_match keyword source cur dest) (db_rows db)) of
           [] \<Rightarrow> Inr None
         | r # _ \<Rightarrow> await (normalizeRow r) (\<lambda>n. Inr (Some n)))"

text \<open>\<open>Math.min(Math.max(Number(limit) || 100, 1), 200)\<close> rows, the most recently updated
  first; the database refuses a LIMIT that is not an integer.\<close>

definition list_limit :: "jsval \<Rightarrow> nat res" where
  "list_limit v =
     (let n = (case js_number v of NumFin q \<Rightarrow> if q = 0 then 100 else min (max q 1) 200
        | NumNaN \<Rightarrow> 100 | NumInf \<Rightarrow> 200 | NumNegInf \<Rightarrow> 1)
      in if of_int \<lfloor>n\<rfloor> = n then Inr (nat \<lfloor>n\<rfloor>)
         else Inl (Failure ''invalid input syntax for type bigint''))"

definition list_match :: "string option \<Rightarrow> string option \<Rightarrow> flow_row \<Rightarrow> bool" where
  "list_match status keyword r \<longleftrightarrow>
     (case status of None \<Rightarrow> True
      | Some s \<Rightarrow> trim s = [] \<or> status_text (fr_status r) = upper (trim s)) \<and>
     (case keyword of None \<Rightarrow> True
      | Some k \<Rightarrow> trim k = [] \<or> fr_keyword r = upper (trim k) \<or>
          JStr (upper (trim k)) \<in> set (json_elems (json_path (fr_definition r) ''trigger'' ''keywords'')))"

definition list_flows ::
    "pricing_db \<Rightarrow> string option \<Rightarrow> string option \<Rightarrow> jsval \<Rightarrow> flow_record list res" where
  "list_flows db status keyword limit =
     await (list_limit limit) (\<lambda>n.
       map_res normalizeRow (take n
         (sort_key (\<lambda>r. - int (fr_updatedAt r)) (sort_key (\<lambda>r. - int (fr_id r))
           (filter (list_match status keyword) (db_rows db))))))"

section \<open>Writing\<close>

definition valid_rule_code :: "string \<Rightarrow> bool" where
  "valid_rule_code s = (case s of [] \<Rightarrow> False
   | c # cs \<Rightarrow> is_upper c \<and> list_all (\<lambda>x. is_upper x \<or> is_digit x \<or> x = CHR ''_'') cs)"

definition ruleCode :: "jsval \<Rightarrow> string res" where
  "ruleCode v = await (requiredText v ''Rule code'' 64) (\<lambda>t.
     if valid_rule_code (upper t) then Inr (upper t)
     else Inl (BadRequest ''Rule code must contain uppercase letters, numbers, and underscores''))"

definition update_row :: "nat \<Rightarrow> (flow_row \<Rightarrow> flow_row) \<Rightarrow> pricing_db \<Rightarrow> pricing_db" where
  "update_row i f db = db\<lparr>db_rows := map (\<lambda>r. if fr_id r = i then f r else r) (db_rows db)\<rparr>"

definition add_audit :: "nat \<Rightarrow> flow_action \<Rightarrow> flow_record option \<Rightarrow> flow_record \<Rightarrow> string option \<Rightarrow>
    string \<Rightarrow> pricing_db \<Rightarrow> pricing_db" where
  "add_audit i a prev nxt reason actor db = db\<lparr>db_audit := db_audit db @
     [\<lparr>fa_flow = i, fa_action = a, fa_previous = prev, fa_next = nxt, fa_reason = reason, fa_actor = actor\<rparr>]\<rparr>"

definition next_version :: "pricing_db \<Rightarrow> string \<Rightarrow> nat" where
  "next_version db code =
     Suc (foldr max (map fr_version (filter (\<lambda>r. fr_ruleCode r = code) (db_rows db))) 0)"

text \<open>The columns an INSERT or UPDATE derives from the definition.\<close>

definition definition_columns :: "pricing_definition \<Rightarrow> flow_row \<Rightarrow> flow_row" where
  "definition_columns d r = r\<lparr>fr_keyword := pd_keyword d, fr_sourceWalletType := pd_sourceWalletType d,
     fr_destinationWalletType := pd_destinationWalletType d, fr_currency := pd_currency d,
     fr_definition := definition_json d\<rparr>"

definition create_flow :: "nat \<Rightarrow> jsval \<Rightarrow> string \<Rightarrow> pricing_db \<Rightarrow> (flow_record \<times> pricing_db) res" where
  "create_flow now body actor db =
     await (validateDefinition (js_opt body ''definition'')) (\<lambda>d.
     await (ruleCode (js_opt body ''ruleCode'')) (\<lambda>code.
     await (requiredText (js_opt body ''name'') ''Pricing flow name'' 160) (\<lambda>nm.
     await (integer_check (js_opt body ''priority'') ''Priority'' 1 10000 (Some 100)) (\<lambda>priority.
       let i = db_nextId db;
           row = definition_columns d
             \<lparr>fr_id = i, fr_ruleCode = code, fr_version = next_version db code, fr_name = nm,
              fr_keyword = [], fr_sourceWalletType = 0, fr_destinationWalletType = None, fr_currency = [],
              fr_priority = priority, fr_status = Draft, fr_definition = JNull, fr_createdBy = actor,
              fr_modifiedBy = None, fr_approvedBy = None, fr_createdAt = now, fr_updatedAt = now,
              fr_approvedAt = None, fr_activatedAt = None\<rparr>;
           db1 = db\<lparr>db_rows := db_rows db @ [row], db_nextId := Suc i\<rparr>
       in await (get_row db1 i) (\<lambda>n. Inr (n, add_audit i CreateA None n None actor db1))))))"

definition update_flow ::
    "nat \<Rightarrow> string \<Rightarrow> jsval \<Rightarrow> string \<Rightarrow> pricing_db \<Rightarrow> (flow_record \<times> pricing_db) res" where
  "update_flow now fid body actor db =
     await (assertId fid) (\<lambda>i.
     await (get_row db i) (\<lambda>current.
     if fr_status (fst current) \<noteq> Draft \<and> fr_status (fst current) \<noteq> Rejected
     then Inl (Conflict ''Only draft or rejected pricing flows can be edited'')
     else
     await (validateDefinition (js_coalesce (js_opt body ''definition'') (definition_json (snd current)))) (\<lambda>d.
     await (if js_opt body ''name'' = JUndef then Inr (fr_name (fst current))
            else requiredText (js_opt body ''name'') ''Pricing flow name'' 160) (\<lambda>nm.
     await (if js_opt body ''priority'' = JUndef then Inr (fr_priority (fst current))
            else integer_check (js_opt body ''priority'') ''Priority'' 1 10000
              (Some (fr_priority (fst current)))) (\<lambda>priority.
       let db1 = update_row i (\<lambda>r. (definition_columns d r)\<lparr>fr_name := nm, fr_priority := priority,
             fr_status := Draft, fr_modifiedBy := Some actor, fr_updatedAt := now,
             fr_approvedBy := None, fr_approvedAt := None, fr_activatedAt := None\<rparr>) db
       in await (get_row db1 i) (\<lambda>n.
            Inr (n, add_audit i UpdateA (Some current) n None actor db1)))))))"

definition transition_from :: "flow_action \<Rightarrow> flow_status list" where
  "transition_from a = (case a of SubmitA \<Rightarrow> [Draft, Rejected] | ApproveA \<Rightarrow> [Submitted]
     | ActivateA \<Rightarrow> [Approved] | RetireA \<Rightarrow> [Active, Approved] | RejectA \<Rightarrow> [Submitted] | _ \<Rightarrow> [])"

definition transition_to :: "flow_action \<Rightarrow> flow_status" where
  "transition_to a = (case a of SubmitA \<Rightarrow> Submitted | ApproveA \<Rightarrow> Approved | ActivateA \<Rightarrow> Active
     | RetireA \<Rightarrow> Retired | _ \<Rightarrow> Rejected)"

text \<open>\<open>String(current.modifiedBy || current.createdBy)\<close>, and how two actors are compared.\<close>

definition last_maker :: "flow_row \<Rightarrow> string" where
  "last_maker r = (case fr_modifiedBy r of None \<Rightarrow> fr_createdBy r
     | Some m \<Rightarrow> if m = [] then fr_createdBy r else m)"

definition same_actor :: "string \<Rightarrow> string \<Rightarrow> bool" where
  "same_actor a b = (lower (trim a) = lower (trim b))"

definition conflicts_with :: "pricing_definition \<Rightarrow> pricing_definition \<Rightarrow> bool" where
  "conflicts_with d e \<longleftrightarrow>
     list_ex (\<lambda>k. k \<in> set (pd_keywords d)) (pd_keywords e) \<and>
     list_ex (\<lambda>w. w \<in> set (pd_sourceWalletTypes d)) (pd_sourceWalletTypes e)"

definition retire_conflicts :: "nat \<Rightarrow> flow_record \<Rightarrow> nat \<Rightarrow> pricing_db \<Rightarrow> pricing_db res" where
  "retire_conflicts now current i db =
     await (map_res normalizeRow (filter (\<lambda>r. fr_status r = Active \<and>
         fr_currency r = fr_currency (fst current) \<and> fr_id r \<noteq> i) (db_rows db))) (\<lambda>active.
       let ids = map (fr_id \<circ> fst) (filter (\<lambda>n. conflicts_with (snd current) (snd n)) active)
       in Inr (db\<lparr>db_rows := map (\<lambda>r. if fr_id r \<in> set ids
            then r\<lparr>fr_status := Retired, fr_updatedAt := now\<rparr> else r) (db_rows db)\<rparr>))"

definition transition_flow ::
    "nat \<Rightarrow> string \<Rightarrow> flow_action \<Rightarrow> string \<Rightarrow> string option \<Rightarrow> bool \<Rightarrow> pricing_db \<Rightarrow>
     (flow_record \<times> pricing_db) res" where
  "transition_flow now fid action actor reason bypass db =
     await (assertId fid) (\<lambda>i.
     await (get_row db i) (\<lambda>current.
     if fr_status (fst current) \<notin> set (transition_from action)
     then Inl (Conflict (''Cannot '' @ action_text action @ '' a pricing flow in '' @
            status_text (fr_status (fst current)) @ '' status''))
     else if action = ApproveA \<and> \<not> bypass \<and> same_actor actor (last_maker (fst current))
     then Inl (Forbidden ''Maker and checker must be different administrators'')
     else if action = RejectA \<and> (case reason of None \<Rightarrow> True | Some t \<Rightarrow> trim t = [])
     then Inl (BadRequest ''A rejection reason is required'')
     else
     await (if action = ActivateA then retire_conflicts now current i db else Inr db) (\<lambda>db1.
       let db2 = update_row i (\<lambda>r.
             let r1 = r\<lparr>fr_status := transition_to action, fr_updatedAt := now\<rparr>;
                 r2 = (if action = ApproveA
                       then r1\<lparr>fr_approvedBy := Some actor, fr_approvedAt := Some now\<rparr> else r1)
             in if action = ActivateA then r2\<lparr>fr_activatedAt := Some now\<rparr> else r2) db1
       in await (get_row db2 i) (\<lambda>n.
            Inr (n, add_audit i action (Some current) n reason actor db2)))))"

section \<open>What a row holds\<close>

definition row_keyword :: "flow_row \<Rightarrow> string \<Rightarrow> bool" where
  "row_keyword r k \<longleftrightarrow> JStr k \<in> set (json_elems (json_path (fr_definition r) ''trigger'' ''keywords''))"

definition row_source :: "flow_row \<Rightarrow> int \<Rightarrow> bool" where
  "row_source r w \<longleftrightarrow> JInt w \<in> set (json_elems (json_path (fr_definition r) ''route'' ''sourceWalletTypes''))"

text \<open>Two flows compete: one currency, a common keyword and a common source wallet type.\<close>

definition competes :: "flow_row \<Rightarrow> flow_row \<Rightarrow> bool" where
  "competes r s \<longleftrightarrow> fr_currency r = fr_currency s \<and> (\<exists>k. row_keyword r k \<and> row_keyword s k) \<and>
     (\<exists>w. row_source r w \<and> row_source s w)"

text \<open>
  A stored row is the JSON of a well-formed definition that validation accepts again, and its
  columns are those of the definition.
\<close>

definition row_ok :: "flow_row \<Rightarrow> bool" where
  "row_ok r \<longleftrightarrow> (\<exists>d e. wf_definition d \<and> fr_definition r = definition_json d \<and>
     validateDefinition (fr_definition r) = Inr e \<and> fr_keyword r = pd_keyword d \<and>
     fr_sourceWalletType r = pd_sourceWalletType d \<and>
     fr_destinationWalletType r = pd_destinationWalletType d \<and> fr_currency r = pd_currency d)"

definition pricing_inv :: "pricing_db \<Rightarrow> bool" where
  "pricing_inv db \<longleftrightarrow>
     (\<forall>r \<in> set (db_rows db). row_ok r \<and> fr_id r < db_nextId db) \<and>
     distinct (map fr_id (db_rows db)) \<and>
     distinct (map (\<lambda>r. (fr_ruleCode r, fr_version r)) (db_rows db)) \<and>
     (\<forall>r \<in> set (db_rows db). \<forall>s \<in> set (db_rows db).
        fr_status r = Active \<longrightarrow> fr_status s = Active \<longrightarrow> competes r s \<longrightarrow> r = s)"

lemma definition_json_props:
  "prop_of (prop_of (definition_json d) ''trigger'') ''keywords'' = JArr (map JStr (pd_keywords d))"
  "prop_of (prop_of (definition_json d) ''trigger'') ''currency'' = JStr (pd_currency d)"
  "prop_of (prop_of (definition_json d) ''route'') ''sourceWalletTypes'' = JArr (map JInt (pd_sourceWalletTypes d))"
  "prop_of (prop_of (definition_json d) ''route'') ''destinationWalletTypes'' = JArr (map JInt (pd_destinationWalletTypes d))"
  by (simp_all add: definition_json_def)

lemma row_keyword_json:
  "fr_definition r = definition_json d \<Longrightarrow> row_keyword r k \<longleftrightarrow> k \<in> set (pd_keywords d)"
  by (auto simp: row_keyword_def json_path_def json_elems_def definition_json_props)

lemma row_source_json:
  "fr_definition r = definition_json d \<Longrightarrow> row_source r w \<longleftrightarrow> w \<in> set (pd_sourceWalletTypes d)"
  by (auto simp: row_source_def json_path_def json_elems_def definition_json_props)

lemma readback_same:
  assumes wf: "wf_definition d" and e: "validateDefinition (definition_json d) = Inr e"
  shows "pd_keywords e = pd_keywords d" "pd_currency e = pd_currency d"
    "pd_sourceWalletTypes e = pd_sourceWalletTypes d"
proof -
  have k: "textArray (JArr (map JStr (pd_keywords d))) legacy ''Keyword'' 100 = Inr (pd_keywords d)" for legacy
    using wf by (intro textArray_json) (auto simp: wf_definition_def)
  have cu: "requiredText (js_or (JStr (pd_currency d)) z) ''Currency'' 8 = Inr (pd_currency d)" for z
    using wf by (simp add: requiredText_json wf_definition_def)
  have si: "integerArray (JArr (map JInt (pd_sourceWalletTypes d))) legacy lab False
      = Inr (pd_sourceWalletTypes d)" for legacy lab
    using wf by (intro integerArray_json) (auto simp: wf_definition_def)
  have "pd_keywords e = pd_keywords d \<and> pd_currency e = pd_currency d
      \<and> pd_sourceWalletTypes e = pd_sourceWalletTypes d"
    using e wf
    unfolding validateDefinition_def Let_def js_opt_simp definition_json_props k cu si await_simps
    by (elim await_InrE if_InlE) (drule Inr_inject, hypsubst, simp add: wf_definition_def)
  then show "pd_keywords e = pd_keywords d" "pd_currency e = pd_currency d"
    "pd_sourceWalletTypes e = pd_sourceWalletTypes d" by auto
qed

lemma row_ok_read:
  assumes "row_ok r" and "validateDefinition (fr_definition r) = Inr e"
  shows "row_keyword r k \<longleftrightarrow> k \<in> set (pd_keywords e)" "row_source r w \<longleftrightarrow> w \<in> set (pd_sourceWalletTypes e)"
  using assms readback_same by (auto simp: row_ok_def row_keyword_json row_source_json)

lemma conflicts_with_rows:
  assumes "row_ok r" "row_ok s" "validateDefinition (fr_definition r) = Inr d"
    "validateDefinition (fr_definition s) = Inr e"
  shows "conflicts_with d e \<longleftrightarrow> (\<exists>k. row_keyword r k \<and> row_keyword s k) \<and> (\<exists>w. row_source r w \<and> row_source s w)"
  using row_ok_read[OF assms(1,3)] row_ok_read[OF assms(2,4)]
  by (auto simp: conflicts_with_def list_ex_iff)

lemma find_row_SomeD: "find_row db i = Some r \<Longrightarrow> r \<in> set (db_rows db) \<and> fr_id r = i"
  by (auto simp: find_row_def find_Some_iff)

lemma get_rowD:
  "get_row db i = Inr n \<Longrightarrow> fst n \<in> set (db_rows db) \<and> fr_id (fst n) = i \<and>
     validateDefinition (fr_definition (fst n)) = Inr (snd n)"
  by (auto simp: get_row_def normalizeRow_def res_simps split: option.splits dest: find_row_SomeD)

section \<open>Every operation keeps the invariant\<close>

lemma foldr_max_ge: "x \<in> set xs \<Longrightarrow> x \<le> foldr max xs (0::nat)"
  by (induction xs) auto

lemma next_version_fresh:
  "r \<in> set (db_rows db) \<Longrightarrow> fr_ruleCode r = code \<Longrightarrow> fr_version r < next_version db code"
  using foldr_max_ge[of "fr_version r" "map fr_version (filter (\<lambda>r. fr_ruleCode r = code) (db_rows db))"]
  by (auto simp: next_version_def)

lemma create_flowD:
  assumes "create_flow now body actor db = Inr (n, db')"
  obtains d row where "wf_definition d" "fr_definition row = definition_json d"
    "fr_keyword row = pd_keyword d" "fr_sourceWalletType row = pd_sourceWalletType d"
    "fr_destinationWalletType row = pd_destinationWalletType d" "fr_currency row = pd_currency d"
    "fr_status row = Draft" "fr_id row = db_nextId db" "fr_version row = next_version db (fr_ruleCode row)"
    "fr_createdBy row = actor" "fr_modifiedBy row = None"
    "db_rows db' = db_rows db @ [row]" "db_nextId db' = Suc (db_nextId db)"
    "get_row (db\<lparr>db_rows := db_rows db @ [row], db_nextId := Suc (db_nextId db)\<rparr>) (db_nextId db) = Inr n"
    "db_audit db' = db_audit db @ [\<lparr>fa_flow = fr_id row, fa_action = CreateA, fa_previous = None,
       fa_next = n, fa_reason = None, fa_actor = actor\<rparr>]"
  using assms
  unfolding create_flow_def Let_def
  apply (elim await_InrE)
  subgoal for d code nm pr n'
    apply (drule Inr_inject)
    apply (drule validateDefinition_wf)
    by (rule that[of d "definition_columns d
             \<lparr>fr_id = db_nextId db, fr_ruleCode = code, fr_version = next_version db code, fr_name = nm,
              fr_keyword = [], fr_sourceWalletType = 0, fr_destinationWalletType = None, fr_currency = [],
              fr_priority = pr, fr_status = Draft, fr_definition = JNull, fr_createdBy = actor,
              fr_modifiedBy = None, fr_approvedBy = None, fr_createdAt = now, fr_updatedAt = now,
              fr_approvedAt = None, fr_activatedAt = None\<rparr>"])
       (auto simp: definition_columns_def add_audit_def)
  done

lemma update_flowD:
  assumes "update_flow now fid body actor db = Inr (n, db')"
  obtains i current d f where "get_row db i = Inr current" "wf_definition d"
    "fr_status (fst current) = Draft \<or> fr_status (fst current) = Rejected"
    "\<And>r. fr_id (f r) = fr_id r \<and> fr_ruleCode (f r) = fr_ruleCode r \<and> fr_version (f r) = fr_version r
       \<and> fr_createdBy (f r) = fr_createdBy r"
    "\<And>r. fr_status (f r) = Draft \<and> fr_modifiedBy (f r) = Some actor \<and> fr_approvedBy (f r) = None
       \<and> fr_definition (f r) = definition_json d \<and> fr_keyword (f r) = pd_keyword d
       \<and> fr_sourceWalletType (f r) = pd_sourceWalletType d
       \<and> fr_destinationWalletType (f r) = pd_destinationWalletType d \<and> fr_currency (f r) = pd_currency d"
    "get_row (update_row i f db) i = Inr n"
    "db' = add_audit i UpdateA (Some current) n None actor (update_row i f db)"
  using assms
  unfolding update_flow_def Let_def
  apply (elim await_InrE if_InlE)
  subgoal for i current d nm pr n'
    apply (drule Inr_inject)
    apply (drule validateDefinition_wf)
    by (rule that[of i current d "\<lambda>r. (definition_columns d r)\<lparr>fr_name := nm, fr_priority := pr,
             fr_status := Draft, fr_modifiedBy := Some actor, fr_updatedAt := now,
             fr_approvedBy := None, fr_approvedAt := None, fr_activatedAt := None\<rparr>"])
       (auto simp: definition_columns_def)
  done

lemma transition_flowD:
  assumes "transition_flow now fid a actor reason bypass db = Inr (n, db')"
  obtains i current db1 f where "get_row db i = Inr current"
    "fr_status (fst current) \<in> set (transition_from a)"
    "a = ApproveA \<Longrightarrow> bypass \<or> \<not> same_actor actor (last_maker (fst current))"
    "(if a = ActivateA then retire_conflicts now current i db else Inr db) = Inr db1"
    "\<And>r. fr_id (f r) = fr_id r \<and> fr_ruleCode (f r) = fr_ruleCode r \<and> fr_version (f r) = fr_version r
       \<and> fr_createdBy (f r) = fr_createdBy r \<and> fr_modifiedBy (f r) = fr_modifiedBy r
       \<and> fr_definition (f r) = fr_definition r \<and> fr_keyword (f r) = fr_keyword r
       \<and> fr_sourceWalletType (f r) = fr_sourceWalletType r
       \<and> fr_destinationWalletType (f r) = fr_destinationWalletType r \<and> fr_currency (f r) = fr_currency r"
    "\<And>r. fr_status (f r) = transition_to a \<and>
       fr_approvedBy (f r) = (if a = ApproveA then Some actor else fr_approvedBy r)"
    "get_row (update_row i f db1) i = Inr n"
    "db' = add_audit i a (Some current) n reason actor (update_row i f db1)"
    "a = RejectA \<Longrightarrow> \<exists>t. reason = Some t \<and> trim t \<noteq> []"
  using assms
  unfolding transition_flow_def Let_def
  apply (elim await_InrE if_InlE)
  subgoal for i current db1 n'
    apply (drule Inr_inject)
    by (rule that[of i current db1 "\<lambda>r.
             let r1 = r\<lparr>fr_status := transition_to a, fr_updatedAt := now\<rparr>;
                 r2 = (if a = ApproveA
                       then r1\<lparr>fr_approvedBy := Some actor, fr_approvedAt := Some now\<rparr> else r1)
             in if a = ActivateA then r2\<lparr>fr_activatedAt := Some now\<rparr> else r2"])
       (auto simp: Let_def split: option.splits)
  done

lemma retire_conflictsD:
  assumes "retire_conflicts now current i db = Inr db1"
  obtains ids where "db1 = db\<lparr>db_rows := map (\<lambda>r. if fr_id r \<in> ids
        then r\<lparr>fr_status := Retired, fr_updatedAt := now\<rparr> else r) (db_rows db)\<rparr>"
    "i \<notin> ids"
    "\<And>r. r \<in> set (db_rows db) \<Longrightarrow> fr_status r = Active \<Longrightarrow> fr_currency r = fr_currency (fst current) \<Longrightarrow>
       fr_id r \<noteq> i \<Longrightarrow>
       \<exists>e. validateDefinition (fr_definition r) = Inr e \<and> (conflicts_with (snd current) e \<longrightarrow> fr_id r \<in> ids)"
proof -
  let ?P = "\<lambda>r. fr_status r = Active \<and> fr_currency r = fr_currency (fst current) \<and> fr_id r \<noteq> i"
  obtain active where act: "map_res normalizeRow (filter ?P (db_rows db)) = Inr active"
    using assms by (auto simp: retire_conflicts_def res_simps)
  let ?ids = "set (map (fr_id \<circ> fst) (filter (\<lambda>n. conflicts_with (snd current) (snd n)) active))"
  have each: "\<exists>n \<in> set active. normalizeRow r = Inr n" if "r \<in> set (filter ?P (db_rows db))" for r
    by (rule map_res_each[OF act that])
  have kept: "fst n \<in> set (filter ?P (db_rows db))" if "n \<in> set active" for n
  proof -
    from map_res_back[OF act that] obtain r where "r \<in> set (filter ?P (db_rows db))" "normalizeRow r = Inr n" by blast
    then show ?thesis by (auto simp: normalizeRow_def res_simps)
  qed
  show thesis
  proof (rule that[of ?ids])
    show "db1 = db\<lparr>db_rows := map (\<lambda>r. if fr_id r \<in> ?ids
        then r\<lparr>fr_status := Retired, fr_updatedAt := now\<rparr> else r) (db_rows db)\<rparr>"
      using assms act by (simp add: retire_conflicts_def Let_def)
    show "i \<notin> ?ids" using kept by auto
    show "\<exists>e. validateDefinition (fr_definition r) = Inr e \<and> (conflicts_with (snd current) e \<longrightarrow> fr_id r \<in> ?ids)"
      if "r \<in> set (db_rows db)" "fr_status r = Active" "fr_currency r = fr_currency (fst current)" "fr_id r \<noteq> i" for r
    proof -
      from that each[of r] obtain n where n: "n \<in> set active" "normalizeRow r = Inr n" by auto
      from n(2) have v: "validateDefinition (fr_definition r) = Inr (snd n)" and f: "fst n = r"
        by (auto simp: normalizeRow_def res_simps)
      have "conflicts_with (snd current) (snd n) \<longrightarrow> fr_id r \<in> ?ids"
        unfolding f[symmetric] using n(1) by (auto intro!: image_eqI[of _ "\<lambda>x. fr_id (fst x)" n])
      with v show ?thesis by blast
    qed
  qed
qed

lemma pricing_inv_map:
  assumes inv: "pricing_inv db" and rows: "db_rows db' = map g (db_rows db)"
    and nxt: "db_nextId db' = db_nextId db"
    and same: "\<And>r. fr_id (g r) = fr_id r \<and> fr_ruleCode (g r) = fr_ruleCode r \<and> fr_version (g r) = fr_version r"
    and ok: "\<And>r. r \<in> set (db_rows db) \<Longrightarrow> row_ok (g r)"
    and act: "\<And>r s. r \<in> set (db_rows db) \<Longrightarrow> s \<in> set (db_rows db) \<Longrightarrow> fr_status (g r) = Active \<Longrightarrow>
       fr_status (g s) = Active \<Longrightarrow> competes (g r) (g s) \<Longrightarrow> r = s"
  shows "pricing_inv db'"
proof -
  have "map fr_id (map g (db_rows db)) = map fr_id (db_rows db)"
    "map (\<lambda>r. (fr_ruleCode r, fr_version r)) (map g (db_rows db))
       = map (\<lambda>r. (fr_ruleCode r, fr_version r)) (db_rows db)"
    using same by simp_all
  then show ?thesis
    using inv same ok act unfolding pricing_inv_def rows nxt by (auto simp del: map_map)
qed

lemma row_ok_cong:
  "fr_definition r = fr_definition s \<Longrightarrow> fr_keyword r = fr_keyword s \<Longrightarrow>
   fr_sourceWalletType r = fr_sourceWalletType s \<Longrightarrow>
   fr_destinationWalletType r = fr_destinationWalletType s \<Longrightarrow> fr_currency r = fr_currency s \<Longrightarrow>
   row_ok r = row_ok s"
  by (simp add: row_ok_def)

lemma competes_cong:
  "fr_definition r = fr_definition r' \<Longrightarrow> fr_currency r = fr_currency r' \<Longrightarrow>
   fr_definition s = fr_definition s' \<Longrightarrow> fr_currency s = fr_currency s' \<Longrightarrow>
   competes r s = competes r' s'"
  by (simp add: competes_def row_keyword_def row_source_def)

lemma create_flow_inv:
  assumes inv: "pricing_inv db" and c: "create_flow now body actor db = Inr (n, db')"
  shows "pricing_inv db'"
  using c
proof (rule create_flowD)
  fix d row
  assume a: "wf_definition d" "fr_definition row = definition_json d"
    "fr_keyword row = pd_keyword d" "fr_sourceWalletType row = pd_sourceWalletType d"
    "fr_destinationWalletType row = pd_destinationWalletType d" "fr_currency row = pd_currency d"
    "fr_status row = Draft" "fr_id row = db_nextId db" "fr_version row = next_version db (fr_ruleCode row)"
    and rows: "db_rows db' = db_rows db @ [row]" "db_nextId db' = Suc (db_nextId db)"
    and g: "get_row (db\<lparr>db_rows := db_rows db @ [row], db_nextId := Suc (db_nextId db)\<rparr>) (db_nextId db) = Inr n"
  from get_rowD[OF g] have "fst n \<in> set (db_rows db @ [row])" "fr_id (fst n) = db_nextId db"
    and v: "validateDefinition (fr_definition (fst n)) = Inr (snd n)" by auto
  moreover have old: "\<forall>r \<in> set (db_rows db). fr_id r < db_nextId db"
    using inv by (simp add: pricing_inv_def)
  ultimately have "fst n = row" by auto
  with a v have "row_ok row" by (auto simp: row_ok_def)
  moreover have "\<forall>r \<in> set (db_rows db). fr_ruleCode r = fr_ruleCode row \<longrightarrow> fr_version r \<noteq> fr_version row"
    using next_version_fresh[of _ db] a by fastforce
  ultimately show ?thesis
    using inv a old unfolding pricing_inv_def rows by (auto simp: less_SucI)
qed

lemma db_update_row [simp]:
  "db_rows (update_row i f db) = map (\<lambda>r. if fr_id r = i then f r else r) (db_rows db)"
  "db_nextId (update_row i f db) = db_nextId db" "db_audit (update_row i f db) = db_audit db"
  by (simp_all add: update_row_def)

lemma get_row_updated:
  assumes "get_row (update_row i f db) i = Inr n" "\<And>r. fr_id (f r) = fr_id r"
  shows "\<exists>r \<in> set (db_rows db). fr_id r = i \<and> fst n = f r \<and> validateDefinition (fr_definition (f r)) = Inr (snd n)"
proof -
  from get_rowD[OF assms(1)] obtain r where r: "r \<in> set (db_rows db)"
    "fst n = (if fr_id r = i then f r else r)" and i: "fr_id (fst n) = i"
    and v: "validateDefinition (fr_definition (fst n)) = Inr (snd n)"
    unfolding db_update_row set_map by blast
  have "fr_id r = i"
  proof (rule ccontr)
    assume "fr_id r \<noteq> i"
    with r(2) i show False by simp
  qed
  with r v show ?thesis by (intro bexI[of _ r]) simp_all
qed

lemma update_flow_inv:
  assumes inv: "pricing_inv db" and u: "update_flow now fid body actor db = Inr (n, db')"
  shows "pricing_inv db'"
  using u
proof (rule update_flowD)
  fix i current d f
  assume wf: "wf_definition d"
    and same: "\<And>r. fr_id (f r) = fr_id r \<and> fr_ruleCode (f r) = fr_ruleCode r \<and> fr_version (f r) = fr_version r
       \<and> fr_createdBy (f r) = fr_createdBy r"
    and new: "\<And>r. fr_status (f r) = Draft \<and> fr_modifiedBy (f r) = Some actor \<and> fr_approvedBy (f r) = None
       \<and> fr_definition (f r) = definition_json d \<and> fr_keyword (f r) = pd_keyword d
       \<and> fr_sourceWalletType (f r) = pd_sourceWalletType d
       \<and> fr_destinationWalletType (f r) = pd_destinationWalletType d \<and> fr_currency (f r) = pd_currency d"
    and g: "get_row (update_row i f db) i = Inr n"
    and db': "db' = add_audit i UpdateA (Some current) n None actor (update_row i f db)"
  from get_row_updated[OF g] same new obtain e where "validateDefinition (definition_json d) = Inr e" by auto
  with wf new have "row_ok (f r)" for r by (auto simp: row_ok_def)
  with inv same new show ?thesis
    by (intro pricing_inv_map[OF inv, of _ "\<lambda>r. if fr_id r = i then f r else r"])
       (auto simp: db' add_audit_def update_row_def pricing_inv_def split: if_splits)
qed

lemma add_audit_rows [simp]:
  "db_rows (add_audit i a p n reason actor db) = db_rows db"
  "db_nextId (add_audit i a p n reason actor db) = db_nextId db"
  by (simp_all add: add_audit_def)

lemma transition_to_Active: "transition_to a = Active \<longleftrightarrow> a = ActivateA"
  by (cases a) (simp_all add: transition_to_def)

lemma transition_flow_inv:
  assumes inv: "pricing_inv db" and t: "transition_flow now fid a actor reason bypass db = Inr (n, db')"
  shows "pricing_inv db'"
  using t
proof (rule transition_flowD)
  fix i current db1 f
  assume cur: "get_row db i = Inr current"
    and db1: "(if a = ActivateA then retire_conflicts now current i db else Inr db) = Inr db1"
    and same: "\<And>r. fr_id (f r) = fr_id r \<and> fr_ruleCode (f r) = fr_ruleCode r \<and> fr_version (f r) = fr_version r
       \<and> fr_createdBy (f r) = fr_createdBy r \<and> fr_modifiedBy (f r) = fr_modifiedBy r
       \<and> fr_definition (f r) = fr_definition r \<and> fr_keyword (f r) = fr_keyword r
       \<and> fr_sourceWalletType (f r) = fr_sourceWalletType r
       \<and> fr_destinationWalletType (f r) = fr_destinationWalletType r \<and> fr_currency (f r) = fr_currency r"
    and new: "\<And>r. fr_status (f r) = transition_to a \<and>
       fr_approvedBy (f r) = (if a = ApproveA then Some actor else fr_approvedBy r)"
    and db': "db' = add_audit i a (Some current) n reason actor (update_row i f db1)"
  note c = get_rowD[OF cur]
  have dist: "r = s" if "r \<in> set (db_rows db)" "s \<in> set (db_rows db)" "fr_id r = fr_id s" for r s
    using inv that by (auto simp: pricing_inv_def distinct_map inj_on_def)
  obtain ids where rows1: "db_rows db1 = map (\<lambda>r. if fr_id r \<in> ids
        then r\<lparr>fr_status := Retired, fr_updatedAt := now\<rparr> else r) (db_rows db)"
    and nxt: "db_nextId db1 = db_nextId db" and ni: "i \<notin> ids"
    and conf: "\<And>r. a = ActivateA \<Longrightarrow> r \<in> set (db_rows db) \<Longrightarrow> fr_status r = Active \<Longrightarrow>
       fr_currency r = fr_currency (fst current) \<Longrightarrow> fr_id r \<noteq> i \<Longrightarrow>
       \<exists>e. validateDefinition (fr_definition r) = Inr e \<and> (conflicts_with (snd current) e \<longrightarrow> fr_id r \<in> ids)"
  proof (cases "a = ActivateA")
    case True
    with db1 have "retire_conflicts now current i db = Inr db1" by simp
    then show ?thesis by (rule retire_conflictsD) (rule that, auto)
  next
    case False
    with db1 show ?thesis by (intro that[of "{}"]) auto
  qed
  define g where "g r = (if fr_id r = i then f r else if fr_id r \<in> ids
        then r\<lparr>fr_status := Retired, fr_updatedAt := now\<rparr> else r)" for r
  have rows: "db_rows db' = map g (db_rows db)"
    by (auto simp: db' rows1 g_def ni)
  have g: "fr_id (g r) = fr_id r" "fr_ruleCode (g r) = fr_ruleCode r" "fr_version (g r) = fr_version r"
    "fr_definition (g r) = fr_definition r" "fr_keyword (g r) = fr_keyword r"
    "fr_sourceWalletType (g r) = fr_sourceWalletType r"
    "fr_destinationWalletType (g r) = fr_destinationWalletType r" "fr_currency (g r) = fr_currency r" for r
    using same by (simp_all add: g_def)
  have gact: "fr_status (g r) = Active \<Longrightarrow> (fr_id r = i \<and> a = ActivateA) \<or>
      (fr_id r \<noteq> i \<and> fr_id r \<notin> ids \<and> fr_status r = Active)" for r
    using new by (auto simp: g_def transition_to_Active split: if_splits)
  have okrow: "row_ok r" if "r \<in> set (db_rows db)" for r using inv that by (simp add: pricing_inv_def)
  have no: False if r: "r \<in> set (db_rows db)" "fr_id r = i" "a = ActivateA"
    and s: "s \<in> set (db_rows db)" "fr_id s \<noteq> i" "fr_id s \<notin> ids" "fr_status s = Active" "competes r s" for r s
  proof -
    have rc: "r = fst current" using dist r c by auto
    with s have "fr_currency s = fr_currency (fst current)" by (simp add: competes_def)
    with conf[OF r(3) s(1,4) _ s(2)] s obtain e where
      e: "validateDefinition (fr_definition s) = Inr e" "\<not> conflicts_with (snd current) e" by auto
    from conflicts_with_rows[OF okrow[OF r(1)] okrow[OF s(1)] _ e(1), of "snd current"] c rc e(2) s(5)
    show False by (auto simp: competes_def)
  qed
  show "pricing_inv db'"
  proof (rule pricing_inv_map[OF inv rows])
    show "db_nextId db' = db_nextId db" by (simp add: db' nxt)
    show "fr_id (g r) = fr_id r \<and> fr_ruleCode (g r) = fr_ruleCode r \<and> fr_version (g r) = fr_version r" for r
      by (simp add: g)
    show "row_ok (g r)" if "r \<in> set (db_rows db)" for r
      using okrow[OF that] g row_ok_cong[of "g r" r] by simp
    show "r = s" if "r \<in> set (db_rows db)" "s \<in> set (db_rows db)" "fr_status (g r) = Active"
      "fr_status (g s) = Active" "competes (g r) (g s)" for r s
    proof -
      have comp: "competes r s" "competes s r"
        using that(5) competes_cong[of "g r" r "g s" s] g by (auto simp: competes_def)
      from gact[OF that(3)] gact[OF that(4)] show ?thesis
        using no[of r s] no[of s r] dist that(1,2) comp inv by (auto simp: pricing_inv_def)
    qed
  qed
qed

section \<open>The machine\<close>

definition empty_pricing_db :: pricing_db where
  "empty_pricing_db = \<lparr>db_rows = [], db_audit = [], db_nextId = 1\<rparr>"

text \<open>One committed operation; \<open>allow\<close> says whether an approval may bypass the maker-checker rule.\<close>

inductive pricing_step :: "bool \<Rightarrow> pricing_db \<Rightarrow> pricing_db \<Rightarrow> bool" for allow :: bool where
  step_create: "create_flow now body actor db = Inr (n, db') \<Longrightarrow> pricing_step allow db db'"
| step_update: "update_flow now fid body actor db = Inr (n, db') \<Longrightarrow> pricing_step allow db db'"
| step_transition: "transition_flow now fid a actor reason bypass db = Inr (n, db') \<Longrightarrow>
     (bypass \<longrightarrow> allow) \<Longrightarrow> pricing_step allow db db'"

inductive_cases pricing_stepE: "pricing_step allow db db'"

interpretation pricing_machine: machine "pricing_step allow" empty_pricing_db pricing_inv for allow
proof
  show "pricing_inv empty_pricing_db" by (simp add: pricing_inv_def empty_pricing_db_def)
  show "pricing_inv db'" if "pricing_inv db" "pricing_step allow db db'" for db db'
    using that(2) create_flow_inv[OF that(1)] update_flow_inv[OF that(1)] transition_flow_inv[OF that(1)]
    by (cases rule: pricing_stepE) auto
qed

section \<open>How one row moves\<close>

text \<open>
  A row after a step against the same row before it: unchanged, edited back to a draft, or moved
  along an edge of the status machine.
\<close>

definition row_edited :: "flow_row \<Rightarrow> flow_row \<Rightarrow> bool" where
  "row_edited r r' \<longleftrightarrow> (fr_status r = Draft \<or> fr_status r = Rejected) \<and> fr_status r' = Draft \<and>
     fr_modifiedBy r' \<noteq> None \<and> fr_approvedBy r' = None"

definition row_moved :: "bool \<Rightarrow> flow_action \<Rightarrow> flow_row \<Rightarrow> flow_row \<Rightarrow> bool" where
  "row_moved allow a r r' \<longleftrightarrow> fr_status r \<in> set (transition_from a) \<and> fr_status r' = transition_to a \<and>
     fr_modifiedBy r' = fr_modifiedBy r \<and> fr_definition r' = fr_definition r \<and>
     (if a = ApproveA
      then \<exists>actor. fr_approvedBy r' = Some actor \<and> (allow \<or> \<not> same_actor actor (last_maker r))
      else fr_approvedBy r' = fr_approvedBy r)"

definition row_step :: "bool \<Rightarrow> flow_row \<Rightarrow> flow_row \<Rightarrow> bool" where
  "row_step allow r r' \<longleftrightarrow>
     fr_id r' = fr_id r \<and> fr_ruleCode r' = fr_ruleCode r \<and> fr_version r' = fr_version r \<and>
     fr_createdBy r' = fr_createdBy r \<and>
     (r' = r \<or> row_edited r r' \<or> (\<exists>a. row_moved allow a r r'))"

lemma row_step_refl [simp]: "row_step allow r r"
  by (simp add: row_step_def)

text \<open>Every step rewrites the rows one by one and may add one draft.\<close>

definition rows_step :: "bool \<Rightarrow> pricing_db \<Rightarrow> pricing_db \<Rightarrow> bool" where
  "rows_step allow db db' \<longleftrightarrow> (\<exists>g new. db_rows db' = map g (db_rows db) @ new \<and>
     (\<forall>r \<in> set (db_rows db). row_step allow r (g r)) \<and>
     (\<forall>r \<in> set new. fr_status r = Draft \<and> fr_id r = db_nextId db))"

lemma create_flow_rows:
  "create_flow now body actor db = Inr (n, db') \<Longrightarrow> rows_step allow db db'"
  unfolding rows_step_def
  by (erule create_flowD) (intro exI[of _ id], auto)

lemma update_flow_rows:
  assumes inv: "pricing_inv db" and u: "update_flow now fid body actor db = Inr (n, db')"
  shows "rows_step allow db db'"
  using u
proof (rule update_flowD)
  fix i current d f
  assume cur: "get_row db i = Inr current" and st: "fr_status (fst current) = Draft \<or> fr_status (fst current) = Rejected"
    and same: "\<And>r. fr_id (f r) = fr_id r \<and> fr_ruleCode (f r) = fr_ruleCode r \<and> fr_version (f r) = fr_version r
       \<and> fr_createdBy (f r) = fr_createdBy r"
    and new: "\<And>r. fr_status (f r) = Draft \<and> fr_modifiedBy (f r) = Some actor \<and> fr_approvedBy (f r) = None
       \<and> fr_definition (f r) = definition_json d \<and> fr_keyword (f r) = pd_keyword d
       \<and> fr_sourceWalletType (f r) = pd_sourceWalletType d
       \<and> fr_destinationWalletType (f r) = pd_destinationWalletType d \<and> fr_currency (f r) = pd_currency d"
    and db': "db' = add_audit i UpdateA (Some current) n None actor (update_row i f db)"
  note c = get_rowD[OF cur]
  have "r = fst current" if "r \<in> set (db_rows db)" "fr_id r = i" for r
    using inv that c by (auto simp: pricing_inv_def distinct_map inj_on_def)
  with st same new have "\<forall>r \<in> set (db_rows db). row_step allow r (if fr_id r = i then f r else r)"
    by (auto simp: row_step_def row_edited_def)
  then show ?thesis unfolding rows_step_def
    by (intro exI[of _ "\<lambda>r. if fr_id r = i then f r else r"] exI[of _ "[]"]) (simp add: db')
qed

lemma transition_flow_rows:
  assumes inv: "pricing_inv db" and t: "transition_flow now fid a actor reason bypass db = Inr (n, db')"
    and allow: "bypass \<longrightarrow> allow"
  shows "rows_step allow db db'"
  using t
proof (rule transition_flowD)
  fix i current db1 f
  assume cur: "get_row db i = Inr current" and frm: "fr_status (fst current) \<in> set (transition_from a)"
    and four: "a = ApproveA \<Longrightarrow> bypass \<or> \<not> same_actor actor (last_maker (fst current))"
    and db1: "(if a = ActivateA then retire_conflicts now current i db else Inr db) = Inr db1"
    and same: "\<And>r. fr_id (f r) = fr_id r \<and> fr_ruleCode (f r) = fr_ruleCode r \<and> fr_version (f r) = fr_version r
       \<and> fr_createdBy (f r) = fr_createdBy r \<and> fr_modifiedBy (f r) = fr_modifiedBy r
       \<and> fr_definition (f r) = fr_definition r \<and> fr_keyword (f r) = fr_keyword r
       \<and> fr_sourceWalletType (f r) = fr_sourceWalletType r
       \<and> fr_destinationWalletType (f r) = fr_destinationWalletType r \<and> fr_currency (f r) = fr_currency r"
    and new: "\<And>r. fr_status (f r) = transition_to a \<and>
       fr_approvedBy (f r) = (if a = ApproveA then Some actor else fr_approvedBy r)"
    and db': "db' = add_audit i a (Some current) n reason actor (update_row i f db1)"
  note c = get_rowD[OF cur]
  have the: "r = fst current" if "r \<in> set (db_rows db)" "fr_id r = i" for r
    using inv that c by (auto simp: pricing_inv_def distinct_map inj_on_def)
  obtain h where rows1: "db_rows db1 = map h (db_rows db)"
    and h: "\<And>r. r \<in> set (db_rows db) \<Longrightarrow> row_step allow r (h r) \<and> (fr_id r = i \<longrightarrow> h r = r)"
  proof (cases "a = ActivateA")
    case True
    with db1 have "retire_conflicts now current i db = Inr db1" by simp
    then obtain active where act: "map_res normalizeRow (filter (\<lambda>r. fr_status r = Active \<and>
           fr_currency r = fr_currency (fst current) \<and> fr_id r \<noteq> i) (db_rows db)) = Inr active"
      and db1': "db1 = db\<lparr>db_rows := map (\<lambda>r. if fr_id r \<in> set (map (fr_id \<circ> fst)
           (filter (\<lambda>n. conflicts_with (snd current) (snd n)) active))
           then r\<lparr>fr_status := Retired, fr_updatedAt := now\<rparr> else r) (db_rows db)\<rparr>"
      by (auto simp: retire_conflicts_def res_simps Let_def)
    have kept: "fst m \<in> set (db_rows db) \<and> fr_status (fst m) = Active \<and> fr_id (fst m) \<noteq> i" if "m \<in> set active" for m
      using map_res_back[OF act that] by (auto simp: normalizeRow_def res_simps)
    have uniq: "r = s" if "r \<in> set (db_rows db)" "s \<in> set (db_rows db)" "fr_id r = fr_id s" for r s
      using inv that by (auto simp: pricing_inv_def distinct_map inj_on_def)
    show ?thesis
    proof (rule that)
      show "db_rows db1 = map (\<lambda>r. if fr_id r \<in> set (map (fr_id \<circ> fst)
           (filter (\<lambda>n. conflicts_with (snd current) (snd n)) active))
           then r\<lparr>fr_status := Retired, fr_updatedAt := now\<rparr> else r) (db_rows db)" by (simp add: db1')
      show "row_step allow r (if fr_id r \<in> set (map (fr_id \<circ> fst)
           (filter (\<lambda>n. conflicts_with (snd current) (snd n)) active))
           then r\<lparr>fr_status := Retired, fr_updatedAt := now\<rparr> else r) \<and>
         (fr_id r = i \<longrightarrow> (if fr_id r \<in> set (map (fr_id \<circ> fst)
           (filter (\<lambda>n. conflicts_with (snd current) (snd n)) active))
           then r\<lparr>fr_status := Retired, fr_updatedAt := now\<rparr> else r) = r)" if "r \<in> set (db_rows db)" for r
      proof (cases "fr_id r \<in> set (map (fr_id \<circ> fst) (filter (\<lambda>n. conflicts_with (snd current) (snd n)) active))")
        case True
        then obtain m where m: "m \<in> set active" "fr_id r = fr_id (fst m)" by auto
        with uniq[OF that] kept[OF m(1)] have "fr_status r = Active" "fr_id r \<noteq> i" by auto
        then have "row_moved allow RetireA r (r\<lparr>fr_status := Retired, fr_updatedAt := now\<rparr>)" "fr_id r \<noteq> i"
          by (simp_all add: row_moved_def transition_from_def transition_to_def)
        then show ?thesis by (auto simp: row_step_def)
      next
        case False
        then show ?thesis by (simp only: if_False row_step_refl simp_thms)
      qed
    qed
  next
    case False
    with db1 show ?thesis by (intro that[of id]) auto
  qed
  have "row_moved allow a (fst current) (f (fst current))"
    using frm four same new allow by (auto simp: row_moved_def)
  with same have cs: "row_step allow (fst current) (f (fst current))" by (auto simp: row_step_def)
  have "\<forall>r \<in> set (db_rows db). row_step allow r (if fr_id r = i then f r else h r)"
    using the cs h by auto
  moreover have "fr_id (h r) = fr_id r" if "r \<in> set (db_rows db)" for r
    using h[OF that] by (simp add: row_step_def)
  then have "db_rows db' = map (\<lambda>r. if fr_id r = i then f r else h r) (db_rows db)"
    using h by (auto simp: db' rows1)
  ultimately show ?thesis unfolding rows_step_def
    by (intro exI[of _ "\<lambda>r. if fr_id r = i then f r else h r"] exI[of _ "[]"]) simp
qed

lemma pricing_step_rows:
  "pricing_inv db \<Longrightarrow> pricing_step allow db db' \<Longrightarrow> rows_step allow db db'"
  by (erule pricing_stepE) (auto intro: create_flow_rows update_flow_rows transition_flow_rows)

section \<open>Four eyes\<close>

text \<open>An approved or active row was approved by somebody else than the last who edited it.\<close>

definition four_eyes :: "flow_row \<Rightarrow> bool" where
  "four_eyes r \<longleftrightarrow> fr_status r \<in> {Approved, Active} \<longrightarrow>
     (\<exists>actor. fr_approvedBy r = Some actor \<and> \<not> same_actor actor (last_maker r))"

lemma four_eyes_step: "row_step False r r' \<Longrightarrow> four_eyes r \<Longrightarrow> four_eyes r'"
  unfolding row_step_def
proof (elim conjE disjE exE)
  fix a
  assume "fr_createdBy r' = fr_createdBy r" and m: "row_moved False a r r'" "four_eyes r"
  then have "last_maker r' = last_maker r" by (auto simp: row_moved_def last_maker_def split: option.splits)
  with m show "four_eyes r'"
    by (cases a) (auto simp: row_moved_def four_eyes_def transition_from_def transition_to_def)
qed (auto simp: row_edited_def four_eyes_def)

definition four_eyes_inv :: "pricing_db \<Rightarrow> bool" where
  "four_eyes_inv db \<longleftrightarrow> pricing_inv db \<and> (\<forall>r \<in> set (db_rows db). four_eyes r)"

interpretation checked_machine: machine "pricing_step False" empty_pricing_db four_eyes_inv
proof
  show "four_eyes_inv empty_pricing_db"
    using pricing_machine.inv_init by (simp add: four_eyes_inv_def empty_pricing_db_def)
  show "four_eyes_inv db'" if "four_eyes_inv db" "pricing_step False db db'" for db db'
  proof -
    have inv: "pricing_inv db" "pricing_inv db'"
      using that pricing_machine.inv_step by (auto simp: four_eyes_inv_def)
    from pricing_step_rows[OF inv(1) that(2)] obtain g new where
      "db_rows db' = map g (db_rows db) @ new" "\<forall>r \<in> set (db_rows db). row_step False r (g r)"
      "\<forall>r \<in> set new. fr_status r = Draft" unfolding rows_step_def by blast
    then show ?thesis
      using inv that(1) four_eyes_step by (auto simp: four_eyes_inv_def four_eyes_def[of "_::flow_row"])
  qed
qed

section \<open>The flow a transaction is priced with\<close>

lemma active_match_competes:
  assumes "row_ok r" "row_ok s" "active_match k w c t r" "active_match k w c t s"
  shows "competes r s"
proof -
  have "row_keyword r (upper k)" "row_source r w" if "row_ok r" "active_match k w c t r" for r
    using that by (auto simp: row_ok_def active_match_def row_keyword_def row_source_def json_path_def
        json_elems_def definition_json_props wf_definition_def)
  with assms have "row_keyword r (upper k)" "row_source r w" "row_keyword s (upper k)" "row_source s w"
    by blast+
  with assms show ?thesis unfolding competes_def active_match_def by auto
qed

lemma by_priority_set [simp]: "set (by_priority rs) = set rs"
  by (simp add: by_priority_def)

text \<open>The arguments \<open>findActive\<close> searches with, after its defaults.\<close>

definition matching_rows :: "pricing_db \<Rightarrow> string \<Rightarrow> int \<Rightarrow> string option \<Rightarrow> int option \<Rightarrow> flow_row set" where
  "matching_rows db k w cur dest = {r \<in> set (db_rows db). active_match k w
     (case cur of None \<Rightarrow> ''UGX'' | Some c \<Rightarrow> if c = [] then ''UGX'' else c)
     (case dest of None \<Rightarrow> None | Some t \<Rightarrow> if t = 0 then None else Some t) r}"

lemma matching_rows_unique:
  assumes inv: "pricing_inv db"
    and r: "r \<in> matching_rows db k w cur dest" and s: "s \<in> matching_rows db k w cur dest"
  shows "r = s"
proof -
  obtain c t where m: "active_match k w c t r" "active_match k w c t s"
    and mem: "r \<in> set (db_rows db)" "s \<in> set (db_rows db)"
    using r s unfolding matching_rows_def by blast
  have "row_ok r" "row_ok s" using inv mem by (simp_all add: pricing_inv_def)
  then have "competes r s" by (rule active_match_competes) (rule m)+
  moreover have "fr_status r = Active" "fr_status s = Active" using m by (simp_all add: active_match_def)
  ultimately show ?thesis using inv mem by (simp add: pricing_inv_def)
qed

lemma findActive_cases:
  assumes inv: "pricing_inv db"
  shows "(matching_rows db k w cur dest = {} \<and> findActive db k w cur dest = Inr None) \<or>
     (\<exists>r e. matching_rows db k w cur dest = {r} \<and> findActive db k w cur dest = Inr (Some (r, e)) \<and>
        validateDefinition (fr_definition r) = Inr e)"
proof -
  let ?m = "filter (active_match k w (case cur of None \<Rightarrow> ''UGX'' | Some c \<Rightarrow> if c = [] then ''UGX'' else c)
     (case dest of None \<Rightarrow> None | Some t \<Rightarrow> if t = 0 then None else Some t)) (db_rows db)"
  have m: "set (by_priority ?m) = matching_rows db k w cur dest" by (simp add: matching_rows_def)
  show ?thesis
  proof (cases "by_priority ?m")
    case Nil
    then show ?thesis using m unfolding findActive_def Let_def by simp
  next
    case (Cons r rs)
    then have r: "r \<in> matching_rows db k w cur dest" unfolding m[symmetric] by simp
    then have "matching_rows db k w cur dest = {r}" using matching_rows_unique[OF inv] by blast
    moreover from r inv obtain e where "validateDefinition (fr_definition r) = Inr e"
      by (auto simp: matching_rows_def pricing_inv_def row_ok_def)
    ultimately show ?thesis using Cons unfolding findActive_def Let_def by (simp add: normalizeRow_def)
  qed
qed

end
