(* ===== verification/PricingSimulation.thy ===== *)
theory PricingSimulation
  imports PricingWf
begin

text \<open>
  \<open>simulate\<close>, \<open>calculateAmount\<close> and \<open>money\<close> of
  \<open>src/modules/pricing-rules/pricing-flow.service.ts\<close>: the price a definition gives a transaction.
  The decimal package is the parameter \<open>D\<close>.  In the trace the arrow between the wallet types of a
  route is written \<open>->\<close>.
\<close>

datatype trace_status = Passed | Skipped | Failed

record matched_range =
  mr_id :: string
  mr_index :: nat
  mr_minimum :: rat
  mr_maximum :: "rat option"
  mr_calculation :: string

record pricing_simulation =
  ps_matched :: bool
  ps_routeMatched :: bool
  ps_sourceWalletType :: "int option"
  ps_destinationWalletType :: "int option"
  ps_transactionAmount :: string
  ps_chargeAmount :: string
  ps_commissionAmount :: string
  ps_sourceDebitAmount :: string
  ps_destinationCreditAmount :: string
  ps_chargePayer :: party
  ps_commissionReceiver :: party
  ps_chargeCalculationType :: calc_type
  ps_chargeCalculationValue :: rat
  ps_chargeCalculationId :: string
  ps_commissionCalculationType :: "calc_type option"
  ps_commissionCalculationValue :: "rat option"
  ps_commissionCalculationId :: "string option"
  ps_matchedChargeRange :: "matched_range option"
  ps_matchedCommissionRange :: "matched_range option"
  ps_currency :: string
  ps_trace :: "(string \<times> trace_status \<times> string) list"

definition decimal_check :: "decimal_lib \<Rightarrow> jsval \<Rightarrow> string \<Rightarrow> dec res" where
  "decimal_check D v label = (case d_new D (js_string v) of
     None \<Rightarrow> Inl (BadRequest (label @ '' must be a valid decimal''))
   | Some x \<Rightarrow> Inr x)"

definition money :: "decimal_lib \<Rightarrow> dec \<Rightarrow> string" where
  "money D x = d_fixed2 D (d_dp2 D x)"

definition calculateAmount :: "decimal_lib \<Rightarrow> 'a amount_rule_scheme \<Rightarrow> dec \<Rightarrow> dec" where
  "calculateAmount D r amount =
     (let r0 = (case ar_type r of
            CFixed \<Rightarrow> d_num D (ar_value r)
          | CPercentage \<Rightarrow> d_div D (d_times D amount (d_num D (ar_value r))) (d_num D 100));
          r1 = (case ar_minimum r of None \<Rightarrow> r0 | Some m \<Rightarrow> d_max D r0 (d_num D m));
          r2 = (case ar_maximum r of None \<Rightarrow> r1 | Some m \<Rightarrow> d_min D r1 (d_num D m))
      in d_dp2 D r2)"

definition in_range :: "decimal_lib \<Rightarrow> dec \<Rightarrow> price_range \<Rightarrow> bool" where
  "in_range D amount r =
     (d_ge D amount (d_num D (rg_minimum r)) \<and>
      (case rg_maximum r of None \<Rightarrow> True | Some m \<Rightarrow> d_le D amount (d_num D m)))"

text \<open>\<open>matchedRangeIndex\<close>, \<open>None\<close> for -1, and the range it selects.\<close>

definition matched_index :: "decimal_lib \<Rightarrow> dec \<Rightarrow> price_part \<Rightarrow> nat option" where
  "matched_index D amount p =
     (if \<not> pp_enabled p \<or> pp_mode p = MFixed then None
      else find_index (in_range D amount) (pp_ranges p))"

definition matched_of :: "price_part \<Rightarrow> nat option \<Rightarrow> matched_range option" where
  "matched_of p i = (case i of None \<Rightarrow> None
   | Some k \<Rightarrow> let r = pp_ranges p ! k in
       Some \<lparr>mr_id = rg_id r, mr_index = k, mr_minimum = rg_minimum r,
             mr_maximum = rg_maximum r, mr_calculation = rg_calculation r\<rparr>)"

definition part_matched :: "bool \<Rightarrow> price_part \<Rightarrow> matched_range option \<Rightarrow> bool" where
  "part_matched routeMatched p mr =
     (routeMatched \<and> pp_enabled p \<and> (pp_mode p = MFixed \<or> mr \<noteq> None))"

definition find_calculation :: "price_part \<Rightarrow> string \<Rightarrow> calculation option" where
  "find_calculation p cid = find (\<lambda>c. calc_id c = cid) (pp_calculations p)"

text \<open>\<open>matchedRange?.chargeCalculationId || defaultCalculationId\<close>, the default alone when fixed.\<close>

definition charge_calculation_id :: "price_part \<Rightarrow> matched_range option \<Rightarrow> string" where
  "charge_calculation_id p mr =
     (if pp_mode p = MFixed then pp_default p
      else (case mr of None \<Rightarrow> pp_default p
            | Some m \<Rightarrow> if mr_calculation m = [] then pp_default p else mr_calculation m))"

definition commission_calculation_id :: "price_part \<Rightarrow> matched_range option \<Rightarrow> string option" where
  "commission_calculation_id p mr =
     (if pp_mode p = MFixed then Some (pp_default p) else map_option mr_calculation mr)"

definition applied_commission :: "price_part \<Rightarrow> string option \<Rightarrow> calculation option" where
  "applied_commission p cid = (case cid of None \<Rightarrow> None
   | Some i \<Rightarrow> if i = [] then None else find_calculation p i)"

definition route_matched :: "pricing_definition \<Rightarrow> int option \<Rightarrow> int option \<Rightarrow> bool" where
  "route_matched d src dst =
     ((case src of None \<Rightarrow> True | Some s \<Rightarrow> s \<in> set (pd_sourceWalletTypes d)) \<and>
      (case dst of None \<Rightarrow> True
       | Some t \<Rightarrow> pd_destinationWalletTypes d = [] \<or> t \<in> set (pd_destinationWalletTypes d)))"

definition opt_int_text :: "int option \<Rightarrow> string" where
  "opt_int_text i = (case i of None \<Rightarrow> ''undefined'' | Some n \<Rightarrow> int_str n)"

definition simulation_trace ::
    "decimal_lib \<Rightarrow> pricing_definition \<Rightarrow> dec \<Rightarrow> int option \<Rightarrow> int option \<Rightarrow> bool \<Rightarrow>
     matched_range option \<Rightarrow> dec \<Rightarrow> bool \<Rightarrow> matched_range option \<Rightarrow> dec \<Rightarrow> bool \<Rightarrow> calculation option \<Rightarrow>
     (string \<times> trace_status \<times> string) list" where
  "simulation_trace D d amount src dst routeMatched chRange charge chargeMatched
     cmRange commission commissionMatched cmRule =
     (let ch = pd_charge d; cm = pd_commission d;
          condition = (\<lambda>p ok. if \<not> pp_enabled p then Skipped
             else if pp_mode p = MFixed then Skipped else if ok then Passed else Failed)
      in [(''TRIGGER'', Passed, join '', '' (pd_keywords d) @ '' / '' @ pd_currency d),
          (''WALLET_ROUTE'', if routeMatched then Passed else Failed,
             if src \<noteq> None \<or> dst \<noteq> None
             then ''Selected route '' @ opt_int_text src @ '' -> '' @ opt_int_text dst @ '' '' @
               (if routeMatched then ''matches'' else ''does not match'') @ '' this rule''
             else join '', '' (map int_str (pd_sourceWalletTypes d)) @ '' -> '' @
               (if pd_destinationWalletTypes d = [] then ''ANY''
                else join '', '' (map int_str (pd_destinationWalletTypes d)))),
          (''CHARGE_CONDITION'', condition ch chargeMatched,
             if \<not> pp_enabled ch then ''Charge disabled''
             else if pp_mode ch = MFixed then ''Fixed charge bypasses transaction amount ranges''
             else (case chRange of
                 Some m \<Rightarrow> money D amount @ '' matched charge range '' @ nat_str (mr_index m + 1)
               | None \<Rightarrow> money D amount @ '' did not match a charge range'')),
          (''CHARGE'', if chargeMatched then Passed else Skipped,
             if \<not> pp_enabled ch then ''Charge disabled''
             else money D charge @ '' '' @ lower (mode_text (pp_mode ch)) @ '' charge applied to '' @
               party_text (pp_party ch)),
          (''COMMISSION_CONDITION'', condition cm commissionMatched,
             if \<not> pp_enabled cm then ''Commission disabled''
             else if pp_mode cm = MFixed then ''Fixed commission bypasses its amount ranges''
             else (case cmRange of
                 Some m \<Rightarrow> money D amount @ '' matched commission range '' @ nat_str (mr_index m + 1)
               | None \<Rightarrow> money D amount @ '' did not match a commission range'')),
          (''COMMISSION'', if commissionMatched \<and> cmRule \<noteq> None then Passed else Skipped,
             if \<not> pp_enabled cm then ''Commission disabled''
             else (case cmRule of
                 Some c \<Rightarrow> money D commission @ '' '' @ lower (mode_text (pp_mode cm)) @ '' commission ('' @
                   calc_name c @ '') credited to '' @ party_text (pp_party cm)
               | None \<Rightarrow> ''No commission calculation is connected to the matched range'')),
          (''SETTLEMENT'', if chargeMatched \<or> commissionMatched then Passed else Skipped,
             ''Charge wallet '' @ int_str (pd_chargeWalletType d) @ '' / commission wallet '' @
             int_str (pd_commissionWalletType d))])"

text \<open>The part of \<open>simulate\<close> after the checks of its arguments.\<close>

definition simulate_amount ::
    "decimal_lib \<Rightarrow> pricing_definition \<Rightarrow> dec \<Rightarrow> int option \<Rightarrow> int option \<Rightarrow> pricing_simulation res" where
  "simulate_amount D d amount src dst =
     (let ch = pd_charge d; cm = pd_commission d;
          routeMatched = route_matched d src dst;
          chRange = matched_of ch (matched_index D amount ch);
          chMatched = part_matched routeMatched ch chRange;
          chId = charge_calculation_id ch chRange
      in case find_calculation ch chId of
           None \<Rightarrow> Inl TypeErr
         | Some chRule \<Rightarrow>
          (let charge = (if chMatched then calculateAmount D chRule amount else d_num D 0);
               cmRange = matched_of cm (matched_index D amount cm);
               cmMatched = part_matched routeMatched cm cmRange;
               cmId = commission_calculation_id cm cmRange;
               cmRule = applied_commission cm cmId;
               commission = (case cmRule of
                   Some r \<Rightarrow> if cmMatched then calculateAmount D r amount else d_num D 0
                 | None \<Rightarrow> d_num D 0);
               sourceDebit = (if \<not> routeMatched then d_num D 0
                 else if pp_party ch = PartyS then d_plus D amount charge else amount);
               destinationCredit = (if \<not> routeMatched then d_num D 0
                 else if pp_party ch = PartyD then d_minus D amount charge else amount)
           in Inr \<lparr>ps_matched = (routeMatched \<and> (chMatched \<or> cmMatched)),
                   ps_routeMatched = routeMatched,
                   ps_sourceWalletType = src, ps_destinationWalletType = dst,
                   ps_transactionAmount = money D amount, ps_chargeAmount = money D charge,
                   ps_commissionAmount = money D commission,
                   ps_sourceDebitAmount = money D sourceDebit,
                   ps_destinationCreditAmount = money D destinationCredit,
                   ps_chargePayer = pp_party ch, ps_commissionReceiver = pp_party cm,
                   ps_chargeCalculationType = ar_type chRule, ps_chargeCalculationValue = ar_value chRule,
                   ps_chargeCalculationId = chId,
                   ps_commissionCalculationType = map_option ar_type cmRule,
                   ps_commissionCalculationValue = map_option ar_value cmRule,
                   ps_commissionCalculationId = cmId,
                   ps_matchedChargeRange = chRange, ps_matchedCommissionRange = cmRange,
                   ps_currency = pd_currency d,
                   ps_trace = simulation_trace D d amount src dst routeMatched chRange charge chMatched
                     cmRange commission cmMatched cmRule\<rparr>))"

definition route_input :: "jsval \<Rightarrow> jsval \<Rightarrow> (int option \<times> int option) res" where
  "route_input s t =
     (if s = JUndef \<and> t = JUndef then Inr (None, None)
      else if s = JUndef \<or> t = JUndef
      then Inl (BadRequest ''Source and destination wallet types are both required for route simulation'')
      else await (integer_check s ''Source wallet type'' 1 max_int32 None) (\<lambda>si.
           await (integer_check t ''Destination wallet type'' 1 max_int32 None) (\<lambda>ti.
             Inr (Some si, Some ti))))"

definition simulate ::
    "decimal_lib \<Rightarrow> jsval \<Rightarrow> jsval \<Rightarrow> jsval \<Rightarrow> jsval \<Rightarrow> pricing_simulation res" where
  "simulate D definitionInput amountInput sourceInput destinationInput =
     await (validateDefinition definitionInput) (\<lambda>d.
     await (decimal_check D amountInput ''Transaction amount'') (\<lambda>amount.
     if d_le D amount (d_num D 0) then Inl (BadRequest ''Transaction amount must be greater than zero'')
     else await (route_input sourceInput destinationInput) (\<lambda>(src, dst).
       simulate_amount D d amount src dst)))"

section \<open>Amounts and ranges\<close>

text \<open>What \<open>calculateAmount\<close> computes on a finite amount, without the package.\<close>

definition rule_amount :: "'a amount_rule_scheme \<Rightarrow> rat \<Rightarrow> rat" where
  "rule_amount r a =
     (let r0 = (case ar_type r of CFixed \<Rightarrow> ar_value r | CPercentage \<Rightarrow> sig30 (sig30 (a * ar_value r) / 100));
          r1 = (case ar_minimum r of None \<Rightarrow> r0 | Some m \<Rightarrow> max r0 m);
          r2 = (case ar_maximum r of None \<Rightarrow> r1 | Some m \<Rightarrow> min r1 m)
      in round2 r2)"

context decimal
begin

lemma calculateAmount_Fin: "calculateAmount D r (Fin a) = Fin (rule_amount r a)"
  by (simp add: calculateAmount_def rule_amount_def d_simps Let_def split: calc_type.splits option.splits)

lemma in_range_Fin:
  "in_range D (Fin a) r \<longleftrightarrow> rg_minimum r \<le> a \<and> (\<forall>m. rg_maximum r = Some m \<longrightarrow> a \<le> m)"
  by (simp add: in_range_def d_simps split: option.splits)

lemma money_Fin: "money D (Fin a) = money_text (round2 a)"
  by (simp add: money_def d_simps)

end

lemma rule_amount_cents: "is_cents (rule_amount r a)"
  by (simp add: rule_amount_def Let_def)

lemma rule_amount_nonneg:
  assumes "wf_rule r" and "0 \<le> a"
  shows "0 \<le> rule_amount r a"
proof -
  have "0 \<le> sig30 (sig30 (a * ar_value r) / 100)"
    using assms by (intro sig30_nonneg) (simp add: wf_rule_def sig30_nonneg)
  with assms(1) show ?thesis
    by (auto simp: rule_amount_def Let_def wf_rule_def intro!: round2_nonneg split: calc_type.splits option.splits)
qed

lemma percentage_le:
  assumes "is_cents a" "0 \<le> a" "a < 10 ^ 26" "0 \<le> v" "v \<le> 100"
  shows "sig30 (sig30 (a * v) / 100) \<le> a"
proof -
  have "is_cents (a * 100)" using assms(1) by (rule is_cents_mult_100)
  then have h: "sig30 (a * 100) = a * 100" using assms by (intro sig30_cents) auto
  have "sig30 (a * v) \<le> sig30 (a * 100)" using assms by (intro sig30_mono mult_left_mono) auto
  then have "sig30 (a * v) / 100 \<le> a" by (simp add: h)
  then have "sig30 (sig30 (a * v) / 100) \<le> sig30 a" by (rule sig30_mono)
  also have "sig30 a = a" using assms by (intro sig30_cents) auto
  finally show ?thesis .
qed

text \<open>A percentage without a minimum never exceeds the amount it is taken of.\<close>

lemma rule_amount_percentage_le:
  assumes "wf_rule r" "ar_type r = CPercentage" "ar_minimum r = None"
    and "is_cents a" "0 \<le> a" "a < 10 ^ 26"
  shows "rule_amount r a \<le> a"
proof -
  let ?x = "sig30 (sig30 (a * ar_value r) / 100)"
  have x: "?x \<le> a" using assms by (intro percentage_le) (auto simp: wf_rule_def)
  have "rule_amount r a = round2 (case ar_maximum r of None \<Rightarrow> ?x | Some m \<Rightarrow> min ?x m)"
    using assms by (simp add: rule_amount_def Let_def)
  also have "\<dots> \<le> round2 a" using x by (intro round2_mono) (auto split: option.splits)
  also have "\<dots> = a" using assms by simp
  finally show ?thesis .
qed

lemma rule_amount_bounds:
  assumes "wf_rule r"
  shows "(\<forall>m. ar_minimum r = Some m \<longrightarrow> round2 m \<le> rule_amount r a) \<and>
         (\<forall>m. ar_maximum r = Some m \<longrightarrow> rule_amount r a \<le> round2 m)"
  using assms
  by (auto simp: rule_amount_def Let_def wf_rule_def intro!: round2_mono split: option.splits calc_type.splits)

text \<open>The ranges of a well-formed part are in order, so at most one contains an amount.\<close>

lemma overlapping_nth:
  assumes "\<not> overlapping rs" "Suc i < length rs"
  shows "\<exists>m. rg_maximum (rs ! i) = Some m \<and> m < rg_minimum (rs ! Suc i)"
  using assms
proof (induction rs arbitrary: i rule: overlapping.induct)
  case (1 p q rs)
  then show ?case by (cases i) (auto split: option.splits)
qed auto

lemma ranges_disjoint:
  assumes wf: "wf_part p" and ij: "i < j" "j < length (pp_ranges p)"
  shows "\<exists>m. rg_maximum (pp_ranges p ! i) = Some m \<and> m < rg_minimum (pp_ranges p ! j)"
proof -
  have "\<not> overlapping (pp_ranges p)" "sorted (map rg_minimum (pp_ranges p))"
    using wf by (simp_all add: wf_part_def)
  then obtain m where m: "rg_maximum (pp_ranges p ! i) = Some m" "m < rg_minimum (pp_ranges p ! Suc i)"
    using overlapping_nth[of "pp_ranges p" i] ij by auto
  have "map rg_minimum (pp_ranges p) ! Suc i \<le> map rg_minimum (pp_ranges p) ! j"
    using \<open>sorted _\<close> ij by (intro sorted_nth_mono) auto
  with m ij show ?thesis by auto
qed

context decimal
begin

lemma in_range_unique:
  assumes wf: "wf_part p" and "i < length (pp_ranges p)" "j < length (pp_ranges p)"
    and i: "in_range D (Fin a) (pp_ranges p ! i)" and j: "in_range D (Fin a) (pp_ranges p ! j)"
  shows "i = j"
proof (rule ccontr)
  assume "i \<noteq> j"
  then consider "i < j" | "j < i" by linarith
  then show False
  proof cases
    case 1
    from ranges_disjoint[OF wf 1 assms(3)] i j show False by (auto simp: in_range_Fin)
  next
    case 2
    from ranges_disjoint[OF wf 2 assms(2)] i j show False by (auto simp: in_range_Fin)
  qed
qed

end

section \<open>What a simulation returns\<close>

text \<open>The charge of a simulation as a decimal: the value its text prints.\<close>

definition simulated_charge :: "pricing_definition \<Rightarrow> rat \<Rightarrow> string \<Rightarrow> bool \<Rightarrow> rat" where
  "simulated_charge d a cid ok =
     (if ok then (case find_calculation (pd_charge d) cid of Some r \<Rightarrow> rule_amount r a | None \<Rightarrow> 0) else 0)"

lemma find_calculation_SomeD:
  "find_calculation p cid = Some c \<Longrightarrow> c \<in> set (pp_calculations p) \<and> calc_id c = cid"
  by (auto simp: find_calculation_def find_Some_iff)

lemma find_calculation_mem:
  "cid \<in> calc_id ` set (pp_calculations p) \<Longrightarrow> \<exists>c. find_calculation p cid = Some c"
  by (auto simp: find_calculation_def) (metis (mono_tags, lifting) find_None_iff option.exhaust)

lemma matched_index_less: "matched_index D amount p = Some k \<Longrightarrow> k < length (pp_ranges p)"
  by (auto simp: matched_index_def dest: find_index_Some split: if_splits)

lemma charge_calculation_id_mem:
  assumes wf: "wf_part p"
  shows "charge_calculation_id p (matched_of p (matched_index D amount p)) \<in> calc_id ` set (pp_calculations p)"
proof (cases "matched_index D amount p")
  case None
  with wf_partD(5)[OF wf] show ?thesis by (simp add: matched_of_def charge_calculation_id_def)
next
  case (Some k)
  then have "pp_ranges p ! k \<in> set (pp_ranges p)" by (simp add: matched_index_less)
  with wf_partD(5,11)[OF wf] Some show ?thesis
    by (auto simp: matched_of_def charge_calculation_id_def Let_def)
qed

text \<open>On a well-formed definition the calculation the charge names always exists.\<close>

lemma simulate_amount_total:
  assumes "wf_definition d"
  shows "\<exists>s. simulate_amount D d amount src dst = Inr s"
proof -
  have "wf_part (pd_charge d)" using assms by (simp add: wf_definition_def)
  from charge_calculation_id_mem[OF this, of D amount] show ?thesis
    by (auto simp: simulate_amount_def Let_def dest!: find_calculation_mem)
qed

lemma simulate_amountD:
  assumes "simulate_amount D d amount src dst = Inr s"
  defines "chRange \<equiv> matched_of (pd_charge d) (matched_index D amount (pd_charge d))"
  defines "ok \<equiv> part_matched (route_matched d src dst) (pd_charge d) chRange"
  obtains r where "find_calculation (pd_charge d) (charge_calculation_id (pd_charge d) chRange) = Some r"
    and "ps_chargeAmount s = money D (if ok then calculateAmount D r amount else d_num D 0)"
    and "ps_routeMatched s = route_matched d src dst" and "ps_chargePayer s = pp_party (pd_charge d)"
    and "ps_chargeCalculationId s = calc_id r" and "ps_matchedChargeRange s = chRange"
    and "ps_transactionAmount s = money D amount"
    and "ps_sourceDebitAmount s = money D (if \<not> route_matched d src dst then d_num D 0
           else if pp_party (pd_charge d) = PartyS
           then d_plus D amount (if ok then calculateAmount D r amount else d_num D 0) else amount)"
    and "ps_destinationCreditAmount s = money D (if \<not> route_matched d src dst then d_num D 0
           else if pp_party (pd_charge d) = PartyD
           then d_minus D amount (if ok then calculateAmount D r amount else d_num D 0) else amount)"
proof -
  obtain r where r: "find_calculation (pd_charge d) (charge_calculation_id (pd_charge d) chRange) = Some r"
    using assms by (auto simp: simulate_amount_def Let_def split: option.splits)
  then have "calc_id r = charge_calculation_id (pd_charge d) chRange"
    by (simp add: find_calculation_SomeD)
  with r assms show thesis
    by (intro that[of r]) (auto simp: simulate_amount_def Let_def)
qed

context decimal
begin

text \<open>
  The charge is a non-negative number of cents, and what the source pays and the destination
  receives differ by exactly it, whoever pays.
\<close>

lemma simulate_amount_conserves:
  assumes sim: "simulate_amount D d (Fin a) src dst = Inr s" and wf: "wf_definition d"
    and a: "is_cents a" "0 < a"
  obtains c where "is_cents c" "0 \<le> c" "ps_chargeAmount s = money_text c"
    and "\<not> ps_routeMatched s \<Longrightarrow> c = 0 \<and> ps_sourceDebitAmount s = money_text 0
           \<and> ps_destinationCreditAmount s = money_text 0"
    and "ps_routeMatched s \<Longrightarrow> a + c < 10 ^ 28 \<Longrightarrow> ps_chargePayer s = PartyS \<Longrightarrow>
           ps_sourceDebitAmount s = money_text (a + c) \<and> ps_destinationCreditAmount s = money_text a"
    and "ps_routeMatched s \<Longrightarrow> a + c < 10 ^ 28 \<Longrightarrow> ps_chargePayer s = PartyD \<Longrightarrow>
           ps_sourceDebitAmount s = money_text a \<and> ps_destinationCreditAmount s = money_text (a - c)"
proof -
  let ?rg = "matched_of (pd_charge d) (matched_index D (Fin a) (pd_charge d))"
  let ?ok = "part_matched (route_matched d src dst) (pd_charge d) ?rg"
  from simulate_amountD[OF sim] obtain r where
    r: "find_calculation (pd_charge d) (charge_calculation_id (pd_charge d) ?rg) = Some r"
    and s: "ps_chargeAmount s = money D (if ?ok then calculateAmount D r (Fin a) else d_num D 0)"
      "ps_routeMatched s = route_matched d src dst" "ps_chargePayer s = pp_party (pd_charge d)"
      "ps_sourceDebitAmount s = money D (if \<not> route_matched d src dst then d_num D 0
           else if pp_party (pd_charge d) = PartyS
           then d_plus D (Fin a) (if ?ok then calculateAmount D r (Fin a) else d_num D 0) else Fin a)"
      "ps_destinationCreditAmount s = money D (if \<not> route_matched d src dst then d_num D 0
           else if pp_party (pd_charge d) = PartyD
           then d_minus D (Fin a) (if ?ok then calculateAmount D r (Fin a) else d_num D 0) else Fin a)"
    by metis
  define c where "c = (if ?ok then rule_amount r a else 0)"
  have chg: "(if ?ok then calculateAmount D r (Fin a) else d_num D 0) = Fin c"
    by (simp add: c_def calculateAmount_Fin d_simps)
  have "wf_rule r" using find_calculation_SomeD[OF r] wf
    by (auto simp: wf_definition_def wf_part_def wf_calculation_def list_all_iff)
  then have c: "is_cents c" "0 \<le> c"
    using a by (simp_all add: c_def rule_amount_cents rule_amount_nonneg is_cents_def[of 0])
  have plus: "sig30 (a + c) = a + c" if "a + c < 10 ^ 28"
    using that a c by (intro sig30_cents) auto
  have minus: "sig30 (a - c) = a - c" if "a + c < 10 ^ 28"
    using that a c by (intro sig30_cents) auto
  have sum: "is_cents (a + c)" "is_cents (a - c)" using a c by auto
  show thesis
  proof (rule that[of c])
    show "\<not> ps_routeMatched s \<Longrightarrow> c = 0 \<and> ps_sourceDebitAmount s = money_text 0
           \<and> ps_destinationCreditAmount s = money_text 0"
      using s by (simp add: c_def part_matched_def d_simps money_Fin)
  qed (use c s[unfolded chg] a sum plus minus in \<open>simp_all add: money_Fin d_simps\<close>)
qed

end

end
