(* ===== verification/PricingProperties.thy ===== *)
theory PricingProperties
  imports PricingLifecycle PricingSimulation
begin

text \<open>
  The properties of pricing flows: validation, simulation, and the life of a flow in the database,
  with a concrete flow on which each is applied.
\<close>

section \<open>A concrete flow\<close>

definition sample_calculation :: calculation where
  "sample_calculation = \<lparr>ar_type = CPercentage, ar_value = 2, ar_minimum = Some 1, ar_maximum = Some 50,
     calc_id = ''c1'', calc_name = ''Base''\<rparr>"

definition sample_part :: price_part where
  "sample_part = \<lparr>ar_type = CPercentage, ar_value = 2, ar_minimum = Some 1, ar_maximum = Some 50,
     pp_enabled = True, pp_mode = MFlexible, pp_party = PartyS, pp_calculations = [sample_calculation],
     pp_default = ''c1'',
     pp_ranges = [\<lparr>rg_id = ''r1'', rg_minimum = 0, rg_maximum = Some 100, rg_calculation = ''c1''\<rparr>,
                  \<lparr>rg_id = ''r2'', rg_minimum = 101, rg_maximum = None, rg_calculation = ''c1''\<rparr>]\<rparr>"

definition sample_commission :: price_part where
  "sample_commission = \<lparr>ar_type = CFixed, ar_value = 0, ar_minimum = None, ar_maximum = None,
     pp_enabled = False, pp_mode = MFixed, pp_party = PartyD, pp_calculations = [sample_calculation],
     pp_default = ''c1'', pp_ranges = []\<rparr>"

definition sample_definition :: pricing_definition where
  "sample_definition = \<lparr>pd_keyword = ''PAY'', pd_keywords = [''PAY''], pd_currency = ''UGX'',
     pd_sourceWalletType = 1, pd_sourceWalletTypes = [1], pd_destinationWalletType = None,
     pd_destinationWalletTypes = [], pd_minimumAmount = 0, pd_maximumAmount = None,
     pd_charge = sample_part, pd_commission = sample_commission, pd_chargeWalletType = 3,
     pd_commissionWalletType = 4\<rparr>"

lemmas sample_defs = sample_calculation_def sample_part_def sample_commission_def sample_definition_def

lemma sample_wf: "wf_definition sample_definition"
  by (simp add: sample_defs wf_definition_def wf_part_def wf_rule_def wf_calculation_def wf_range_def
      wallet_type_ok_def max_int32_def  valid_calc_id_def id_char_def upper_def up_char_def
      char_defs)

lemma sample_named: "named_ranges (pd_charge sample_definition)" "named_ranges (pd_commission sample_definition)"
  by (simp_all add: named_ranges_def sample_defs)

section \<open>Validation\<close>

text \<open>
  C8 Whatever JSON value \<open>validateDefinition\<close> accepts, the definition it returns is well formed: keywords,
  currency and wallet types are normalized, non-empty and without duplicates, every amount rule is
  non-negative with a percentage of at most 100 and minimum at most maximum, calculation and range ids
  are unique, every range points to an existing calculation, the ranges are sorted and disjoint, and at
  least one of charge and commission is enabled.
\<close>
theorem pricing_validation_wf:
  assumes "validateDefinition v = Inr d"
  shows "wf_definition d"
  using assms by (rule validateDefinition_wf)

lemma sample_validates: "validateDefinition (definition_json sample_definition) = Inr sample_definition"
  using sample_wf sample_named by (rule validateDefinition_json)

theorem pricing_validation_wf_witness:
  "validateDefinition (definition_json sample_definition) = Inr sample_definition \<and>
   wf_definition sample_definition"
  using sample_validates pricing_validation_wf[OF sample_validates] by simp

text \<open>
  C9 Round trip: the JSON a validated definition is stored as is read back by validation as the very same
  definition, provided its ranges all have a non-empty id (an empty id is replaced on reading).
\<close>
theorem pricing_json_roundtrip:
  assumes "validateDefinition v = Inr d"
    and "named_ranges (pd_charge d)" and "named_ranges (pd_commission d)"
  shows "validateDefinition (definition_json d) = Inr d"
  using validateDefinition_wf[OF assms(1)] assms(2,3) by (rule validateDefinition_json)

theorem pricing_json_roundtrip_witness:
  "validateDefinition (definition_json sample_definition) = Inr sample_definition"
  using pricing_json_roundtrip[OF sample_validates sample_named] by simp

section \<open>Simulation\<close>

text \<open>
  C7 Conservation: in a simulation of a positive amount of whole cents, the charge is a non-negative
  number of cents, nothing moves when the route does not match, and otherwise what the source pays and
  what the destination receives differ by exactly the charge, whoever pays it.
\<close>
theorem simulate_conserves:
  assumes "decimal D" and "simulate D v amt s t = Inr sim" and "validateDefinition v = Inr d"
    and "decimal_check D amt ''Transaction amount'' = Inr (Fin a)" and "is_cents a"
  shows "\<exists>c. is_cents c \<and> 0 \<le> c \<and> ps_chargeAmount sim = money_text c \<and>
     (\<not> ps_routeMatched sim \<longrightarrow> c = 0 \<and> ps_sourceDebitAmount sim = money_text 0 \<and>
        ps_destinationCreditAmount sim = money_text 0) \<and>
     (ps_routeMatched sim \<longrightarrow> a + c < 10 ^ 28 \<longrightarrow>
        (if ps_chargePayer sim = PartyS
         then ps_sourceDebitAmount sim = money_text (a + c) \<and> ps_destinationCreditAmount sim = money_text a
         else ps_sourceDebitAmount sim = money_text a \<and> ps_destinationCreditAmount sim = money_text (a - c)))"
proof -
  note d_simps = decimal.d_simps[OF assms(1)]
  obtain src dst where sa: "simulate_amount D d (Fin a) src dst = Inr sim" and "0 < a"
    using assms(2-4) by (auto simp: simulate_def d_simps res_simps split: if_splits)
  from decimal.simulate_amount_conserves[OF assms(1) sa validateDefinition_wf[OF assms(3)] assms(5) this(2)]
  obtain c where "is_cents c" "0 \<le> c" "ps_chargeAmount sim = money_text c"
    and "\<not> ps_routeMatched sim \<Longrightarrow> c = 0 \<and> ps_sourceDebitAmount sim = money_text 0
           \<and> ps_destinationCreditAmount sim = money_text 0"
    and "ps_routeMatched sim \<Longrightarrow> a + c < 10 ^ 28 \<Longrightarrow> ps_chargePayer sim = PartyS \<Longrightarrow>
           ps_sourceDebitAmount sim = money_text (a + c) \<and> ps_destinationCreditAmount sim = money_text a"
    and "ps_routeMatched sim \<Longrightarrow> a + c < 10 ^ 28 \<Longrightarrow> ps_chargePayer sim = PartyD \<Longrightarrow>
           ps_sourceDebitAmount sim = money_text a \<and> ps_destinationCreditAmount sim = money_text (a - c)"
    by blast
  then show ?thesis by (intro exI[of _ c]) (cases "ps_chargePayer sim"; auto)
qed

lemma sample_amount: "decimal_check decimal_ref (JStr ''100'') label = Inr (Fin 100)"
  by (simp add: decimal_check_def decimal_ref_def decimal_literal_def unsigned_literal_def
      is_digit_def Let_def exponent_part_def digits_nat_def digit_val_def pow10_def)

lemma sample_simulates:
  "\<exists>sim. simulate decimal_ref (definition_json sample_definition) (JStr ''100'') JUndef JUndef = Inr sim"
  using simulate_amount_total[OF sample_wf, of decimal_ref "Fin 100" None None]
  by (simp add: simulate_def sample_validates sample_amount route_input_def dref.d_simps)

theorem simulate_conserves_witness:
  "\<exists>sim c. simulate decimal_ref (definition_json sample_definition) (JStr ''100'') JUndef JUndef = Inr sim \<and>
     is_cents c \<and> 0 \<le> c \<and> ps_chargeAmount sim = money_text c"
proof -
  obtain sim where sim: "simulate decimal_ref (definition_json sample_definition) (JStr ''100'') JUndef JUndef
      = Inr sim" using sample_simulates by blast
  have "is_cents (100::rat)" by (simp add: is_cents_def)
  from simulate_conserves[OF dref.decimal_axioms sim sample_validates sample_amount this] sim
  show ?thesis by blast
qed



text \<open>
  The range lookup is unambiguous: in a validated part, if any range contains the amount then it is the
  one \<open>matchedRangeIndex\<close> selects, so the order of the search does not matter.
\<close>
theorem matched_range_unique:
  assumes "decimal D" and "validateDefinition v = Inr d" and "p = pd_charge d \<or> p = pd_commission d"
    and "pp_enabled p" and "i < length (pp_ranges p)" and "in_range D (Fin a) (pp_ranges p ! i)"
  shows "matched_index D (Fin a) p = Some i"
proof -
  have wf: "wf_part p" using validateDefinition_wf[OF assms(2)] assms(3) by (auto simp: wf_definition_def)
  then have mode: "pp_mode p \<noteq> MFixed" using assms(5) by (auto simp: wf_part_def)
  obtain j where j: "find_index (in_range D (Fin a)) (pp_ranges p) = Some j"
    using assms(5,6) find_index_None[of "in_range D (Fin a)" "pp_ranges p"] by fastforce
  with find_index_Some[OF j] decimal.in_range_unique[OF assms(1) wf _ assms(5) _ assms(6), of j] assms(4) mode
  show ?thesis by (simp add: matched_index_def)
qed

theorem matched_range_unique_witness:
  "matched_index decimal_ref (Fin 200) (pd_charge sample_definition) = Some 1"
proof -
  have "in_range decimal_ref (Fin 200) (pp_ranges (pd_charge sample_definition) ! 1)"
    by (simp add: sample_defs in_range_def dref.d_simps)
  then show ?thesis
    by (intro matched_range_unique[OF dref.decimal_axioms sample_validates]) (simp_all add: sample_defs)
qed

section \<open>The life of a flow\<close>

subsection \<open>A reachable database\<close>

definition sample_body :: jsval where
  "sample_body = JObj [(''ruleCode'', JStr ''R1''), (''name'', JStr ''Pay rule''),
     (''definition'', definition_json sample_definition)]"

definition sample_row :: "flow_status \<Rightarrow> string option \<Rightarrow> nat option \<Rightarrow> nat option \<Rightarrow> nat \<Rightarrow> flow_row" where
  "sample_row st by' at' act upd = \<lparr>fr_id = 1, fr_ruleCode = ''R1'', fr_version = 1, fr_name = ''Pay rule'',
     fr_keyword = ''PAY'', fr_sourceWalletType = 1, fr_destinationWalletType = None, fr_currency = ''UGX'',
     fr_priority = 100, fr_status = st, fr_definition = definition_json sample_definition,
     fr_createdBy = ''ann'', fr_modifiedBy = None, fr_approvedBy = by', fr_createdAt = 1, fr_updatedAt = upd,
     fr_approvedAt = at', fr_activatedAt = act\<rparr>"

lemma sample_columns: "pd_keyword sample_definition = ''PAY''" "pd_sourceWalletType sample_definition = 1"
  "pd_destinationWalletType sample_definition = None" "pd_currency sample_definition = ''UGX''"
  by (simp_all add: sample_definition_def)

lemma sample_create:
  "\<exists>n db. create_flow 1 sample_body ''ann'' empty_pricing_db = Inr (n, db) \<and>
     db_rows db = [sample_row Draft None None None 1]"
  by (simp add: create_flow_def sample_body_def js_opt_simp sample_validates ruleCode_def requiredText_def
      Let_def js_or_def valid_rule_code_def upper_def up_char_def char_defs integer_check_def get_row_def
      find_row_def normalizeRow_def empty_pricing_db_def definition_columns_def sample_columns
      num_is_integer_def next_version_def add_audit_def sample_row_def)

lemma sample_transition:
  assumes "db_rows db = [r]" "fr_id r = 1" "fr_definition r = definition_json sample_definition"
    and "fr_status r \<in> set (transition_from a)" "a \<noteq> RejectA" "a = ApproveA \<longrightarrow> \<not> same_actor actor (last_maker r)"
  shows "\<exists>n db'. transition_flow now ''1'' a actor None False db = Inr (n, db') \<and>
     db_rows db' = [let r1 = r\<lparr>fr_status := transition_to a, fr_updatedAt := now\<rparr>;
                 r2 = (if a = ApproveA
                       then r1\<lparr>fr_approvedBy := Some actor, fr_approvedAt := Some now\<rparr> else r1)
             in if a = ActivateA then r2\<lparr>fr_activatedAt := Some now\<rparr> else r2]"
  using assms
  by (cases a) (simp_all add: transition_flow_def assertId_def valid_flow_id_def is_digit_def digits_nat_def digit_val_def
      get_row_def find_row_def normalizeRow_def sample_validates retire_conflicts_def update_row_def
      add_audit_def Let_def map_res_def)

text \<open>Created and submitted by one administrator, approved by another, activated: the row is active.\<close>

lemma sample_reachable:
  "\<exists>db. reach (pricing_step False) empty_pricing_db db \<and>
     db_rows db = [sample_row Active (Some ''bob'') (Some 3) (Some 4) 4]"
proof -
  obtain n0 db0 where s0: "create_flow 1 sample_body ''ann'' empty_pricing_db = Inr (n0, db0)"
    "db_rows db0 = [sample_row Draft None None None 1]" using sample_create by blast
  obtain n1 db1 where s1: "transition_flow 2 ''1'' SubmitA ''ann'' None False db0 = Inr (n1, db1)"
    "db_rows db1 = [sample_row Submitted None None None 2]"
    using sample_transition[OF s0(2), of SubmitA "''ann''" 2]
    by (auto simp: sample_row_def transition_from_def transition_to_def Let_def)
  have ne: "\<not> same_actor ''bob'' ''ann''"
    by (simp add: same_actor_def lower_def low_char_def char_defs)
  obtain n2 db2 where s2: "transition_flow 3 ''1'' ApproveA ''bob'' None False db1 = Inr (n2, db2)"
    "db_rows db2 = [sample_row Approved (Some ''bob'') (Some 3) None 3]"
    using sample_transition[OF s1(2), of ApproveA "''bob''" 3] ne
    by (auto simp: sample_row_def transition_from_def transition_to_def Let_def last_maker_def)
  obtain n3 db3 where s3: "transition_flow 4 ''1'' ActivateA ''bob'' None False db2 = Inr (n3, db3)"
    "db_rows db3 = [sample_row Active (Some ''bob'') (Some 3) (Some 4) 4]"
    using sample_transition[OF s2(2), of ActivateA "''bob''" 4]
    by (auto simp: sample_row_def transition_from_def transition_to_def Let_def)
  have "reach (pricing_step False) empty_pricing_db db3"
    by (rule reach_step[OF reach_step[OF reach_step[OF reach_step[OF reach_init]]]])
       (rule step_create[OF s0(1)], rule step_transition[OF s1(1)], simp,
        rule step_transition[OF s2(1)], simp, rule step_transition[OF s3(1)], simp)
  with s3(2) show ?thesis by blast
qed

subsection \<open>What holds of every reachable database\<close>

text \<open>
  C1 In every database the operations can produce, two active flows never compete: if they share the
  currency, a keyword and a source wallet type, they are the same row.  Activation retires the others.
\<close>
theorem active_flows_exclusive:
  assumes "reach (pricing_step allow) empty_pricing_db db"
    and "r \<in> set (db_rows db)" "s \<in> set (db_rows db)" "fr_status r = Active" "fr_status s = Active"
    and "competes r s"
  shows "r = s"
  using pricing_machine.reach_inv[OF assms(1)] assms(2-) by (simp add: pricing_inv_def)

theorem active_flows_exclusive_witness:
  "\<exists>db r. reach (pricing_step False) empty_pricing_db db \<and> r \<in> set (db_rows db) \<and>
     (\<forall>s \<in> set (db_rows db). fr_status s = Active \<longrightarrow> competes r s \<longrightarrow> r = s) \<and>
     fr_status r = Active \<and> competes r r"
proof -
  let ?r = "sample_row Active (Some ''bob'') (Some 3) (Some 4) 4"
  obtain db where db: "reach (pricing_step False) empty_pricing_db db" "db_rows db = [?r]"
    using sample_reachable by blast
  have "competes ?r ?r"
    using row_keyword_json[of ?r sample_definition] row_source_json[of ?r sample_definition]
    by (simp add: competes_def sample_row_def sample_definition_def)
  moreover have "fr_status ?r = Active" by (simp add: sample_row_def)
  ultimately show ?thesis
    using db active_flows_exclusive[OF db(1)] by (intro exI[of _ db] exI[of _ ?r]) auto
qed

text \<open>
  C6 In every reachable database \<open>findActive\<close> never fails and its answer does not depend on the
  priorities: it is the one active flow matching keyword, source wallet type, currency and destination,
  or nothing when there is none.
\<close>
theorem findActive_exact:
  assumes "reach (pricing_step allow) empty_pricing_db db"
  shows "(matching_rows db k w cur dest = {} \<and> findActive db k w cur dest = Inr None) \<or>
     (\<exists>r e. matching_rows db k w cur dest = {r} \<and> findActive db k w cur dest = Inr (Some (r, e)) \<and>
        validateDefinition (fr_definition r) = Inr e)"
  by (rule findActive_cases[OF pricing_machine.reach_inv[OF assms]])

theorem findActive_exact_witness:
  "\<exists>db r e. reach (pricing_step False) empty_pricing_db db \<and>
     findActive db ''pay'' 1 None None = Inr (Some (r, e)) \<and> fr_ruleCode r = ''R1''"
proof -
  let ?r = "sample_row Active (Some ''bob'') (Some 3) (Some 4) 4"
  obtain db where db: "reach (pricing_step False) empty_pricing_db db" "db_rows db = [?r]"
    using sample_reachable by blast
  have "?r \<in> matching_rows db ''pay'' 1 None None"
    by (simp add: matching_rows_def db sample_row_def active_match_def upper_def up_char_def char_defs char_of_def bit_0)
  then have "matching_rows db ''pay'' 1 None None \<noteq> {}" by blast
  with findActive_exact[OF db(1), of "''pay''" 1 None None] obtain r e where
    r: "matching_rows db ''pay'' 1 None None = {r}" "findActive db ''pay'' 1 None None = Inr (Some (r, e))" by blast
  from r(1) \<open>?r \<in> _\<close> have "r = ?r" by simp
  then have "fr_ruleCode r = ''R1''" by (simp add: sample_row_def)
  with db(1) r(2) show ?thesis by blast
qed

text \<open>
  C4 Four eyes: as long as no approval bypasses the check, every approved or active flow of a reachable
  database was approved by somebody other than the administrator who last created or edited it (names
  compared without case and surrounding blanks).
\<close>
theorem pricing_four_eyes:
  assumes "reach (pricing_step False) empty_pricing_db db"
    and "r \<in> set (db_rows db)" and "fr_status r = Approved \<or> fr_status r = Active"
  shows "\<exists>actor. fr_approvedBy r = Some actor \<and> \<not> same_actor actor (last_maker r)"
  using checked_machine.reach_inv[OF assms(1)] assms(2,3) by (auto simp: four_eyes_inv_def four_eyes_def)

theorem pricing_four_eyes_witness:
  "\<exists>db r. reach (pricing_step False) empty_pricing_db db \<and> r \<in> set (db_rows db) \<and> fr_status r = Active \<and>
     (\<exists>actor. fr_approvedBy r = Some actor \<and> \<not> same_actor actor (last_maker r))"
proof -
  let ?r = "sample_row Active (Some ''bob'') (Some 3) (Some 4) 4"
  obtain db where db: "reach (pricing_step False) empty_pricing_db db" "db_rows db = [?r]"
    using sample_reachable by blast
  moreover have "fr_status ?r = Active" by (simp add: sample_row_def)
  ultimately show ?thesis
    using pricing_four_eyes[OF db(1), of ?r] by (intro exI[of _ db] exI[of _ ?r]) simp
qed

text \<open>
  C14 The state machine of a row: a committed operation on a reachable database keeps every row's id, rule
  code, version and creator, and its status stays or moves along an edge of the graph: a draft or rejected
  flow is edited back to a draft or submitted, a submitted one approved or rejected, an approved one
  activated or retired, an active one retired; a retired flow never changes again.
\<close>
theorem pricing_status_graph:
  assumes "reach (pricing_step allow) empty_pricing_db db" and "pricing_step allow db db'"
    and "r \<in> set (db_rows db)"
  shows "\<exists>r' \<in> set (db_rows db'). fr_id r' = fr_id r \<and> fr_ruleCode r' = fr_ruleCode r \<and>
     fr_version r' = fr_version r \<and> fr_createdBy r' = fr_createdBy r \<and>
     (fr_status r = Retired \<longrightarrow> r' = r) \<and>
     (r' = r \<or> (fr_status r, fr_status r') \<in> {(Draft, Draft), (Rejected, Draft), (Draft, Submitted),
        (Rejected, Submitted), (Submitted, Approved), (Submitted, Rejected), (Approved, Active),
        (Approved, Retired), (Active, Retired)})"
proof -
  have inv: "pricing_inv db" by (rule pricing_machine.reach_inv[OF assms(1)])
  obtain g new where "db_rows db' = map g (db_rows db) @ new" "\<forall>r \<in> set (db_rows db). row_step allow r (g r)"
    using pricing_step_rows[OF inv assms(2)] unfolding rows_step_def by blast
  with assms(3) have r': "g r \<in> set (db_rows db')" "row_step allow r (g r)" by auto
  have moved: "(fr_status r, fr_status (g r)) \<in> {(Draft, Submitted),
        (Rejected, Submitted), (Submitted, Approved), (Submitted, Rejected), (Approved, Active),
        (Approved, Retired), (Active, Retired)}" if "row_moved allow a r (g r)" for a
    using that by (cases a) (auto simp: row_moved_def transition_from_def transition_to_def)
  from r'(2) show ?thesis
    by (intro bexI[OF _ r'(1)]) (auto simp: row_step_def row_edited_def dest: moved)
qed

theorem pricing_status_graph_witness:
  "\<exists>db db' r r'. pricing_step False db db' \<and> r \<in> set (db_rows db) \<and> r' \<in> set (db_rows db') \<and>
     fr_id r' = fr_id r \<and> fr_status r = Draft \<and> (r' = r \<or> fr_status r' \<in> {Draft, Submitted})"
proof -
  obtain n0 db0 where s0: "create_flow 1 sample_body ''ann'' empty_pricing_db = Inr (n0, db0)"
    "db_rows db0 = [sample_row Draft None None None 1]" using sample_create by blast
  obtain n1 db1 where s1: "transition_flow 2 ''1'' SubmitA ''ann'' None False db0 = Inr (n1, db1)"
    using sample_transition[OF s0(2), of SubmitA "''ann''" 2]
    by (auto simp: sample_row_def transition_from_def)
  have st: "pricing_step False db0 db1" by (rule step_transition[OF s1]) simp
  have "reach (pricing_step False) empty_pricing_db db0"
    by (rule reach_step, rule reach_init, rule step_create[OF s0(1)])
  let ?r = "sample_row Draft None None None 1"
  have r: "?r \<in> set (db_rows db0)" "fr_status ?r = Draft" using s0(2) by (simp_all add: sample_row_def)
  from pricing_status_graph[OF \<open>reach _ _ db0\<close> st r(1)] obtain r' where
    r': "r' \<in> set (db_rows db1)" "fr_id r' = fr_id ?r" "r' = ?r \<or> fr_status r' \<in> {Draft, Submitted}"
    using r(2) by auto
  show ?thesis
    by (rule exI[of _ db0], rule exI[of _ db1], rule exI[of _ ?r], rule exI[of _ r']) (use st r r' in simp)
qed

end
