(* ===== verification/Actions.thy ===== *)
theory Actions
  imports Prelude
begin

text \<open>
  Handlers that work on a state outside a database transaction: what they wrote before they throw
  stays written.  An action takes the state and returns its result with the state it leaves.
\<close>

type_synonym ('s, 'a) act = "'s \<Rightarrow> 'a res \<times> 's"

definition act_ok :: "'a \<Rightarrow> ('s, 'a) act" where
  "act_ok x = (\<lambda>s. (Inr x, s))"

definition act_throw :: "exc \<Rightarrow> ('s, 'a) act" where
  "act_throw e = (\<lambda>s. (Inl e, s))"

definition act_of :: "'a res \<Rightarrow> ('s, 'a) act" where
  "act_of r = (\<lambda>s. (r, s))"

definition act_then :: "('s, 'a) act \<Rightarrow> ('a \<Rightarrow> ('s, 'b) act) \<Rightarrow> ('s, 'b) act" where
  "act_then m k = (\<lambda>s. case m s of (Inl e, s') \<Rightarrow> (Inl e, s') | (Inr x, s') \<Rightarrow> k x s')"

definition act_read :: "('s \<Rightarrow> 'a) \<Rightarrow> ('s, 'a) act" where
  "act_read f = (\<lambda>s. (Inr (f s), s))"

definition act_write :: "('s \<Rightarrow> 's) \<Rightarrow> ('s, unit) act" where
  "act_write f = (\<lambda>s. (Inr (), f s))"

text \<open>\<open>const row = await find(...); if (!row) throw e\<close>\<close>

definition act_found :: "('s \<Rightarrow> 'a option) \<Rightarrow> exc \<Rightarrow> ('s, 'a) act" where
  "act_found f e = (\<lambda>s. case f s of None \<Rightarrow> (Inl e, s) | Some x \<Rightarrow> (Inr x, s))"

text \<open>\<open>if (bad) throw e\<close>\<close>

definition act_refuse :: "('s \<Rightarrow> bool) \<Rightarrow> exc \<Rightarrow> ('s, unit) act" where
  "act_refuse bad e = (\<lambda>s. if bad s then (Inl e, s) else (Inr (), s))"

named_theorems act_simps \<open>how an action unfolds\<close>

lemma act_then_ok [act_simps]: "act_then m k s = (Inr y, t) \<longleftrightarrow> (\<exists>x u. m s = (Inr x, u) \<and> k x u = (Inr y, t))"
  by (auto simp: act_then_def split: prod.splits sum.splits)

lemma act_basics [act_simps]:
  "act_ok x s = (r, t) \<longleftrightarrow> r = Inr x \<and> t = s"
  "act_throw e s = (r, t) \<longleftrightarrow> r = Inl e \<and> t = s"
  "act_of q s = (r, t) \<longleftrightarrow> r = q \<and> t = s"
  "act_read f s = (r, t) \<longleftrightarrow> r = Inr (f s) \<and> t = s"
  "act_write h s = (r, t) \<longleftrightarrow> r = Inr () \<and> t = h s"
  by (auto simp: act_ok_def act_throw_def act_of_def act_read_def act_write_def)

lemma act_found_ok [act_simps]: "act_found f e s = (Inr x, t) \<longleftrightarrow> f s = Some x \<and> t = s"
  by (auto simp: act_found_def split: option.splits)

lemma act_refuse_ok [act_simps]: "act_refuse bad e s = (Inr u, t) \<longleftrightarrow> \<not> bad s \<and> t = s"
  by (auto simp: act_refuse_def)

text \<open>How an action computes, for evaluating one on a concrete state.\<close>

lemma act_run [simp]:
  "act_ok x s = (Inr x, s)" "act_throw e s = (Inl e, s)" "act_of q s = (q, s)"
  "act_read f s = (Inr (f s), s)" "act_write h s = (Inr (), h s)"
  by (simp_all add: act_ok_def act_throw_def act_of_def act_read_def act_write_def)

lemma act_then_run:
  "act_then m k s = (case fst (m s) of Inl e \<Rightarrow> (Inl e, snd (m s)) | Inr x \<Rightarrow> k x (snd (m s)))"
  by (auto simp: act_then_def split: prod.splits sum.splits)

lemma act_then_found: "f s = Some x \<Longrightarrow> act_then (act_found f e) k s = k x s"
  by (simp add: act_then_run act_found_def)

lemma act_then_missing: "f s = None \<Longrightarrow> act_then (act_found f e) k s = (Inl e, s)"
  by (simp add: act_then_run act_found_def)

lemma act_then_accept: "\<not> bad s \<Longrightarrow> act_then (act_refuse bad e) k s = k () s"
  by (simp add: act_then_run act_refuse_def)

lemma act_then_refused: "bad s \<Longrightarrow> act_then (act_refuse bad e) k s = (Inl e, s)"
  by (simp add: act_then_run act_refuse_def)

lemmas act_eval = act_then_run act_found_def act_refuse_def

section \<open>What an action keeps\<close>

text \<open>A relation between the states before and after, whether or not the action throws.\<close>

definition keeps :: "('s \<Rightarrow> 's \<Rightarrow> bool) \<Rightarrow> ('s, 'a) act \<Rightarrow> bool" where
  "keeps R m \<longleftrightarrow> (\<forall>s. R s (snd (m s)))"

named_theorems keeps_intros \<open>composition rules for keeps\<close>

lemma keepsI: "(\<And>s. R s (snd (m s))) \<Longrightarrow> keeps R m"
  by (simp add: keeps_def)

lemma keepsD: "keeps R m \<Longrightarrow> m s = (r, t) \<Longrightarrow> R s t"
  by (metis keeps_def snd_conv)

text \<open>The relations an argument composes: every state is related to itself, and steps chain.\<close>

locale chaining =
  fixes R :: "'s \<Rightarrow> 's \<Rightarrow> bool"
  assumes refl [intro, simp]: "R s s"
    and trans: "R s t \<Longrightarrow> R t u \<Longrightarrow> R s u"
begin

lemma keeps_basic: "keeps R (act_ok x)" "keeps R (act_throw e)" "keeps R (act_of q)" "keeps R (act_read f)"
  by (simp_all add: keeps_def)

lemma keeps_found: "keeps R (act_found f e)"
  by (auto simp: keeps_def act_found_def split: option.splits)

lemma keeps_refuse: "keeps R (act_refuse bad e)"
  by (auto simp: keeps_def act_refuse_def)

lemma keeps_then: "keeps R m \<Longrightarrow> (\<And>x. keeps R (k x)) \<Longrightarrow> keeps R (act_then m k)"
  unfolding keeps_def act_then_run by (auto split: sum.splits intro: trans)

lemma keeps_if: "keeps R m \<Longrightarrow> keeps R n \<Longrightarrow> keeps R (if b then m else n)"
  by simp

lemmas keeps_rules = keeps_basic keeps_found keeps_refuse keeps_then keeps_if

end

text \<open>Keeping an invariant is such a relation.\<close>

definition preserving :: "('s \<Rightarrow> bool) \<Rightarrow> 's \<Rightarrow> 's \<Rightarrow> bool" where
  "preserving I s t \<longleftrightarrow> (I s \<longrightarrow> I t)"

interpretation preserving: chaining "preserving I" for I
  by unfold_locales (auto simp: preserving_def)

section \<open>Actions that throw before they write\<close>

definition readonly :: "('s, 'a) act \<Rightarrow> bool" where
  "readonly m \<longleftrightarrow> (\<forall>s. snd (m s) = s)"

text \<open>A throwing run leaves the state as it was.\<close>

definition atomic :: "('s, 'a) act \<Rightarrow> bool" where
  "atomic m \<longleftrightarrow> (\<forall>s e t. m s = (Inl e, t) \<longrightarrow> t = s)"

named_theorems atomic_intros \<open>how reading, checking and one last write compose\<close>

lemma readonly_rules [atomic_intros]:
  "readonly (act_ok x)" "readonly (act_throw e)" "readonly (act_of q)" "readonly (act_read f)"
  "readonly (act_found h e)" "readonly (act_refuse bad e)"
  by (auto simp: readonly_def act_found_def act_refuse_def split: option.splits)

lemma readonly_then [atomic_intros]: "readonly m \<Longrightarrow> (\<And>x. readonly (k x)) \<Longrightarrow> readonly (act_then m k)"
  by (auto simp: readonly_def act_then_run split: sum.splits)

lemma readonly_atomic [atomic_intros]: "readonly m \<Longrightarrow> atomic m"
  by (auto simp: readonly_def atomic_def) (metis snd_conv)

lemma atomic_write [atomic_intros]: "atomic (act_write f)"
  by (simp add: atomic_def)

lemma atomic_then [atomic_intros]: "readonly m \<Longrightarrow> (\<And>x. atomic (k x)) \<Longrightarrow> atomic (act_then m k)"
  by (auto simp: readonly_def atomic_def act_then_def split: prod.splits sum.splits) (metis snd_conv)+

lemma atomic_then_ok [atomic_intros]: "atomic m \<Longrightarrow> atomic (act_then m (\<lambda>x. act_ok (g x)))"
  by (auto simp: atomic_def act_then_def act_ok_def split: prod.splits sum.splits)

lemma atomicD: "atomic m \<Longrightarrow> m s = (Inl e, t) \<Longrightarrow> t = s"
  by (simp add: atomic_def)

section \<open>Walking through a run\<close>

text \<open>
  A run of a composed action, taken apart at its first step: a check that fails ends it there, one that
  passes leaves the run of the rest.
\<close>

named_theorems act_elims \<open>case analysis on the first step of a run\<close>

lemma act_then_assoc: "act_then (act_then m k) l = act_then m (\<lambda>x. act_then (k x) l)"
  by (rule ext) (simp add: act_then_def split: prod.splits sum.splits)

lemma act_then_trivial:
  "act_then (act_ok x) k = k x" "act_then (act_throw e) k' = act_throw e"
  by (simp_all add: act_then_def fun_eq_iff)

lemma act_foundE [act_elims]:
  assumes "act_then (act_found f e) k s = (r, t)"
  obtains "f s = None" "r = Inl e" "t = s" | x where "f s = Some x" "k x s = (r, t)"
  using assms by (cases "f s") (auto simp: act_then_run act_found_def)

lemma act_refuseE [act_elims]:
  assumes "act_then (act_refuse bad e) k s = (r, t)"
  obtains "bad s" "r = Inl e" "t = s" | "\<not> bad s" "k () s = (r, t)"
  using assms by (cases "bad s") (auto simp: act_then_run act_refuse_def)

lemma act_ofE [act_elims]:
  assumes "act_then (act_of q) k s = (r, t)"
  obtains e where "q = Inl e" "r = Inl e" "t = s" | x where "q = Inr x" "k x s = (r, t)"
  using assms by (cases q) (auto simp: act_then_run)

lemma act_stepE [act_elims]:
  "act_then (act_read f) k s = (r, t) \<Longrightarrow> (k (f s) s = (r, t) \<Longrightarrow> P) \<Longrightarrow> P"
  "act_then (act_write h) l s = (r, t) \<Longrightarrow> (l () (h s) = (r, t) \<Longrightarrow> P) \<Longrightarrow> P"
  by (simp_all add: act_then_run)

lemma act_endE [act_elims]:
  "act_ok x s = (r, t) \<Longrightarrow> (r = Inr x \<Longrightarrow> t = s \<Longrightarrow> P) \<Longrightarrow> P"
  "act_throw e s = (r, t) \<Longrightarrow> (r = Inl e \<Longrightarrow> t = s \<Longrightarrow> P) \<Longrightarrow> P"
  "act_write h s = (r', t) \<Longrightarrow> (r' = Inr () \<Longrightarrow> t = h s \<Longrightarrow> P) \<Longrightarrow> P"
  by auto

section \<open>Catching, and working on a part of the state\<close>

text \<open>\<open>try { m } catch (e) { h(e) }\<close>: what \<open>m\<close> wrote before it threw stays.\<close>

definition act_catch :: "('s, 'a) act \<Rightarrow> (exc \<Rightarrow> ('s, 'a) act) \<Rightarrow> ('s, 'a) act" where
  "act_catch m h = (\<lambda>s. case m s of (Inl e, s') \<Rightarrow> h e s' | (Inr x, s') \<Rightarrow> (Inr x, s'))"

definition act_in :: "('s \<Rightarrow> 't) \<Rightarrow> ('t \<Rightarrow> 's \<Rightarrow> 's) \<Rightarrow> ('t, 'a) act \<Rightarrow> ('s, 'a) act" where
  "act_in get put m = (\<lambda>s. let rt = m (get s) in (fst rt, put (snd rt) s))"

lemma act_in_iff: "act_in get put m s = (r, s') \<longleftrightarrow> (\<exists>t. m (get s) = (r, t) \<and> s' = put t s)"
  by (cases "m (get s)") (auto simp: act_in_def Let_def)

lemma act_catch_iff: "act_catch m h s = (r, t) \<longleftrightarrow>
    (\<exists>x. m s = (Inr x, t) \<and> r = Inr x) \<or> (\<exists>e u. m s = (Inl e, u) \<and> h e u = (r, t))"
  by (auto simp: act_catch_def split: prod.splits sum.splits)

lemma act_catch_run:
  "act_catch m h s = (case fst (m s) of Inl e \<Rightarrow> h e (snd (m s)) | Inr x \<Rightarrow> (Inr x, snd (m s)))"
  by (auto simp: act_catch_def split: prod.splits sum.splits)

section \<open>Transactions\<close>

text \<open>A database transaction: one that throws is rolled back.\<close>

definition transaction :: "('s, 'a) act \<Rightarrow> ('s, 'a) act" where
  "transaction m = (\<lambda>s. case m s of (Inl e, t) \<Rightarrow> (Inl e, s) | (Inr x, t) \<Rightarrow> (Inr x, t))"

lemma transaction_ok [act_simps]: "transaction m s = (Inr x, t) \<longleftrightarrow> m s = (Inr x, t)"
  by (auto simp: transaction_def split: prod.splits sum.splits)

lemma transaction_throws: "transaction m s = (Inl e, t) \<Longrightarrow> t = s"
  by (auto simp: transaction_def split: prod.splits sum.splits)

context chaining
begin

lemma keeps_write: "(\<And>s. R s (f s)) \<Longrightarrow> keeps R (act_write f)"
  by (simp add: keeps_def)

lemma keeps_transaction: "keeps R m \<Longrightarrow> keeps R (transaction m)"
  unfolding keeps_def transaction_def by (auto split: prod.splits sum.splits) (metis snd_conv)

lemma keeps_catch: "keeps R m \<Longrightarrow> (\<And>e. keeps R (h e)) \<Longrightarrow> keeps R (act_catch m h)"
  unfolding keeps_def act_catch_run by (auto split: sum.splits intro: trans)

lemma keeps_readonly: "readonly m \<Longrightarrow> keeps R m"
  by (simp add: keeps_def readonly_def)

end

end
