(* ===== verification/ConfigCache.thy ===== *)
theory ConfigCache
  imports Actions
begin

text \<open>
  The configuration cache of the charge and the commission service: the Redis client as the services
  use it (\<open>src/config/redis/redis.providers.ts\<close>) and the functions \<open>cacheGet\<close>, \<open>cacheSet\<close>,
  \<open>cacheDelete\<close>, \<open>invalidateCache\<close> and \<open>resolveConfiguration\<close> of \<open>charge.service.ts\<close>, which
  \<open>commission.service.ts\<close> repeats under its own key prefix.  Concurrent loads of one key share a
  promise in the code; here requests run one after the other.
\<close>

section \<open>The client\<close>

text \<open>A cached text is the JSON of a configuration, or something \<open>JSON.parse\<close> refuses.\<close>

datatype 'c cached = CJson 'c | CText string

text \<open>
  \<open>rd_up\<close>: commands succeed; \<open>rd_version\<close>: the key \<open>...:config:version\<close>; \<open>rd_entries\<close>: the keys
  \<open>...:config:<version>:<keyword>:<walletId>:<currency>\<close>.
\<close>

record 'c redis =
  rd_up :: bool
  rd_version :: "string option"
  rd_entries :: "string \<Rightarrow> 'c cached option"

definition cache_version :: "'c redis \<Rightarrow> string" where
  "cache_version c = (case (if rd_up c then rd_version c else None) of
     None \<Rightarrow> ''1'' | Some v \<Rightarrow> if v = [] then ''1'' else v)"

definition cache_key :: "string \<Rightarrow> string \<Rightarrow> string \<Rightarrow> int \<Rightarrow> string \<Rightarrow> string" where
  "cache_key prefix version keyword walletId currency =
     join '':'' [prefix @ '':config'', version, keyword, int_str walletId, currency]"

definition cacheGet :: "'c redis \<Rightarrow> string \<Rightarrow> 'c cached option" where
  "cacheGet c key = (if rd_up c then rd_entries c key else None)"

definition cacheSet :: "'c redis \<Rightarrow> string \<Rightarrow> 'c cached \<Rightarrow> 'c redis" where
  "cacheSet c key x = (if rd_up c then c\<lparr>rd_entries := (rd_entries c)(key := Some x)\<rparr> else c)"

definition cacheDelete :: "'c redis \<Rightarrow> string \<Rightarrow> 'c redis" where
  "cacheDelete c key = (if rd_up c then c\<lparr>rd_entries := (rd_entries c)(key := None)\<rparr> else c)"

text \<open>\<open>delByPattern(prefix:config:*)\<close> and then a new version, \<open>String(Date.now())\<close>.\<close>

definition invalidateCache :: "nat \<Rightarrow> 'c redis \<Rightarrow> 'c redis" where
  "invalidateCache now c =
     (if rd_up c then c\<lparr>rd_entries := (\<lambda>_. None), rd_version := Some (nat_str now)\<rparr> else c)"

text \<open>
  \<open>resolveConfiguration\<close>: a cached configuration if there is one, otherwise \<open>load\<close> (which stores
  what it loads).  \<open>load\<close> gets the normalized currency.
\<close>

definition cached_configuration ::
    "string \<Rightarrow> string \<Rightarrow> int \<Rightarrow> string \<Rightarrow> (string \<Rightarrow> 'c res) \<Rightarrow> 'c redis \<Rightarrow> 'c res \<times> 'c redis" where
  "cached_configuration prefix keyword walletId currency load c =
     (let cur = upper (trim currency);
          key = cache_key prefix (cache_version c) keyword walletId cur;
          fetch = (\<lambda>c1. case load cur of
             Inl e \<Rightarrow> (Inl e, c1)
           | Inr x \<Rightarrow> (Inr x, cacheSet c1 key (CJson x)))
      in case cacheGet c key of
           Some (CJson x) \<Rightarrow> (Inr x, c)
         | Some (CText t) \<Rightarrow> if t = [] then fetch c else fetch (cacheDelete c key)
         | None \<Rightarrow> fetch c)"

section \<open>Distinct queries have distinct keys\<close>

lemma join_Cons2: "join s (x # y # zs) = x @ s @ join s (y # zs)"
  by simp

lemma last_part_inj:
  assumes "x @ c # y = x' @ c # y'" and "c \<notin> set y" and "c \<notin> set y'"
  shows "x = x' \<and> y = y'"
proof -
  have r: "takeWhile (\<lambda>z. z \<noteq> c) (rev (u @ c # v)) = rev v" if "c \<notin> set v" for u v
    using that by (simp add: takeWhile_append)
  from assms(1) have "rev (x @ c # y) = rev (x' @ c # y')" by simp
  with r[OF assms(2), of x] r[OF assms(3), of x'] have "y = y'" by (metis rev_rev_ident)
  with assms(1) show ?thesis by simp
qed

lemma digit_char_range: "n < 10 \<Longrightarrow> is_digit (digit_char n)"
  by (auto simp: digit_char_def is_digit_def)

lemma nat_str_digits: "c \<in> set (nat_str n) \<Longrightarrow> is_digit c"
proof (induction n rule: nat_str.induct)
  case (1 n)
  then show ?case
    by (cases "n < 10") (auto simp: nat_str.simps[of n] digit_char_range)
qed

lemma digit_char_inj: "a < 10 \<Longrightarrow> b < 10 \<Longrightarrow> digit_char a = digit_char b \<Longrightarrow> a = b"
  by (simp add: digit_char_def)

lemma nat_str_inj: "nat_str a = nat_str b \<Longrightarrow> a = b"
proof (induction a arbitrary: b rule: nat_str.induct)
  case (1 a)
  show ?case
  proof (cases "a < 10")
    case True
    then show ?thesis using 1(2) digit_char_inj
      by (auto simp: nat_str.simps[of a] nat_str.simps[of b] split: if_splits)
         (simp add: nat_str.simps[of "b div 10"] split: if_splits)
  next
    case False
    then have b: "\<not> b < 10" using 1(2)
      by (auto simp: nat_str.simps[of a] nat_str.simps[of b] nat_str.simps[of "a div 10"] split: if_splits)
    with False 1 have "a div 10 = b div 10" "a mod 10 = b mod 10"
      by (auto simp: nat_str.simps[of a] nat_str.simps[of b] intro!: digit_char_inj)
    then show ?thesis by (metis div_mult_mod_eq)
  qed
qed

lemma int_str_inj: "int_str a = int_str b \<Longrightarrow> a = b"
proof -
  assume e: "int_str a = int_str b"
  have m: "CHR ''-'' \<notin> set (nat_str n)" for n
    using nat_str_digits[of "CHR ''-''" n] by (auto simp: is_digit_def)
  have no: "nat_str n \<noteq> CHR ''-'' # s" for n s using m[of n] by auto
  show "a = b"
  proof (cases "a < 0"; cases "b < 0")
    assume "a < 0" "b < 0"
    with e have "nat_str (nat (- a)) = nat_str (nat (- b))" by (simp add: int_str_def)
    then have "nat (- a) = nat (- b)" by (rule nat_str_inj)
    with \<open>a < 0\<close> \<open>b < 0\<close> show ?thesis by linarith
  next
    assume "\<not> a < 0" "\<not> b < 0"
    with e have "nat_str (nat a) = nat_str (nat b)" by (simp add: int_str_def)
    then have "nat a = nat b" by (rule nat_str_inj)
    with \<open>\<not> a < 0\<close> \<open>\<not> b < 0\<close> show ?thesis by linarith
  next
    assume "a < 0" "\<not> b < 0"
    with e have "nat_str (nat b) = CHR ''-'' # nat_str (nat (- a))" by (simp add: int_str_def)
    with no show ?thesis by blast
  next
    assume "\<not> a < 0" "b < 0"
    with e have "nat_str (nat a) = CHR ''-'' # nat_str (nat (- b))" by (simp add: int_str_def)
    with no show ?thesis by blast
  qed
qed

lemma colon_free_int: "CHR '':'' \<notin> set (int_str i)"
  using nat_str_digits[of "CHR '':''"] by (auto simp: int_str_def is_digit_def)

lemma cache_key_inj:
  assumes "cache_key p v k w c = cache_key p v k' w' c'"
    and "CHR '':'' \<notin> set c" and "CHR '':'' \<notin> set c'"
  shows "k = k' \<and> w = w' \<and> c = c'"
proof -
  have e: "(k @ '':'' @ int_str w) @ CHR '':'' # c = (k' @ '':'' @ int_str w') @ CHR '':'' # c'"
    using assms(1) by (simp add: cache_key_def)
  from last_part_inj[OF e assms(2,3)] have c: "c = c'" and
    k: "k @ CHR '':'' # int_str w = k' @ CHR '':'' # int_str w'" by auto
  from last_part_inj[OF k colon_free_int colon_free_int] int_str_inj c show ?thesis by auto
qed

section \<open>The contract the services rely on\<close>

text \<open>
  A query is a keyword, a wallet and a normalized currency.  \<open>holds s q x\<close>: the store would answer
  the query by \<open>x\<close>.  What a request stores is what was loaded for it, an answer is either loaded or
  was held, and an invalidation that reaches the store forgets everything.
\<close>

locale configuration_store =
  fixes request :: "'q \<Rightarrow> 'c res \<Rightarrow> 's \<Rightarrow> 'c res \<times> 's"
    and invalidate :: "nat \<Rightarrow> 's \<Rightarrow> 's"
    and live :: "'s \<Rightarrow> bool"
    and holds :: "'s \<Rightarrow> 'q \<Rightarrow> 'c \<Rightarrow> bool"
    and query :: "'q \<Rightarrow> bool"
  assumes request_answer: "query q \<Longrightarrow> request q l s = (r, t) \<Longrightarrow> r = l \<or> (\<exists>x. r = Inr x \<and> holds s q x)"
    and request_holds: "query q \<Longrightarrow> query p \<Longrightarrow> request q l s = (r, t) \<Longrightarrow> holds t p x \<Longrightarrow>
           holds s p x \<or> (p = q \<and> l = Inr x)"
    and request_live: "request q l s = (r, t) \<Longrightarrow> live t = live s"
    and invalidate_holds: "live s \<Longrightarrow> \<not> holds (invalidate now s) q x"
    and invalidate_live: "live (invalidate now s) = live s"
begin

text \<open>Everything the store would answer satisfies \<open>P\<close>.\<close>

definition coherent :: "('q \<Rightarrow> 'c \<Rightarrow> bool) \<Rightarrow> 's \<Rightarrow> bool" where
  "coherent P s \<longleftrightarrow> (\<forall>q x. query q \<longrightarrow> holds s q x \<longrightarrow> P q x)"

lemma coherent_request:
  "query q \<Longrightarrow> request q l s = (r, t) \<Longrightarrow> coherent P s \<Longrightarrow> (\<And>x. l = Inr x \<Longrightarrow> P q x) \<Longrightarrow> coherent P t"
  unfolding coherent_def using request_holds by blast

lemma coherent_answer:
  "query q \<Longrightarrow> request q l s = (Inr x, t) \<Longrightarrow> coherent P s \<Longrightarrow> (\<And>x. l = Inr x \<Longrightarrow> P q x) \<Longrightarrow> P q x"
  unfolding coherent_def using request_answer by blast

lemma coherent_invalidate: "live s \<Longrightarrow> coherent P (invalidate now s)"
  unfolding coherent_def using invalidate_holds by blast

lemma coherent_mono: "coherent P s \<Longrightarrow> (\<And>q x. P q x \<Longrightarrow> Q q x) \<Longrightarrow> coherent Q s"
  unfolding coherent_def by blast

end

text \<open>The Redis functions provide it, for currencies without a colon.\<close>

definition redis_request :: "string \<Rightarrow> string \<times> int \<times> string \<Rightarrow> 'c res \<Rightarrow> 'c redis \<Rightarrow> 'c res \<times> 'c redis" where
  "redis_request prefix q l c = (case q of (k, w, cur) \<Rightarrow> cached_configuration prefix k w cur (\<lambda>_. l) c)"

definition redis_holds :: "string \<Rightarrow> 'c redis \<Rightarrow> string \<times> int \<times> string \<Rightarrow> 'c \<Rightarrow> bool" where
  "redis_holds prefix c q x = (case q of (k, w, cur) \<Rightarrow>
     rd_up c \<and> rd_entries c (cache_key prefix (cache_version c) k w cur) = Some (CJson x))"

definition redis_query :: "string \<times> int \<times> string \<Rightarrow> bool" where
  "redis_query q = (case q of (k, w, cur) \<Rightarrow> CHR '':'' \<notin> set cur \<and> upper (trim cur) = cur)"

lemma cached_configuration_cases:
  assumes "cached_configuration prefix k w cur (\<lambda>_. l) c = (r, t)" and "upper (trim cur) = cur"
  obtains (hit) x where "r = Inr x" "t = c" "rd_up c"
      "rd_entries c (cache_key prefix (cache_version c) k w cur) = Some (CJson x)"
  | (miss) "r = l" "rd_up t = rd_up c" "rd_version t = rd_version c"
      "\<And>K. K \<noteq> cache_key prefix (cache_version c) k w cur \<Longrightarrow> rd_entries t K = rd_entries c K"
      "\<And>x. rd_entries t (cache_key prefix (cache_version c) k w cur) = Some (CJson x) \<Longrightarrow>
         rd_entries c (cache_key prefix (cache_version c) k w cur) = Some (CJson x) \<or> l = Inr x"
proof (cases "cacheGet c (cache_key prefix (cache_version c) k w cur)")
  case None
  with assms show thesis
    by (intro miss) (auto simp: cached_configuration_def Let_def cacheSet_def split: sum.splits if_splits)
next
  case (Some e)
  then have up: "rd_up c" by (auto simp: cacheGet_def split: if_splits)
  show thesis
  proof (cases e)
    case (CJson x)
    with Some assms show thesis
      by (intro hit[of x]) (auto simp: cached_configuration_def Let_def cacheGet_def split: if_splits)
  next
    case (CText w)
    with Some assms show thesis
      by (intro miss) (auto simp: cached_configuration_def Let_def cacheSet_def cacheDelete_def split: sum.splits if_splits)
  qed
qed

lemma cache_version_cong: "rd_up t = rd_up c \<Longrightarrow> rd_version t = rd_version c \<Longrightarrow> cache_version t = cache_version c"
  by (simp add: cache_version_def)

lemma cache_version_frame [simp]: "cache_version (c\<lparr>rd_entries := e\<rparr>) = cache_version c"
  by (simp add: cache_version_def)

lemma cacheSet_simps [simp]:
  "rd_up (cacheSet c k x) = rd_up c" "cache_version (cacheSet c k x) = cache_version c"
  "rd_up (cacheDelete c k) = rd_up c" "cache_version (cacheDelete c k) = cache_version c"
  by (simp_all add: cacheSet_def cacheDelete_def)

interpretation redis_store: configuration_store "redis_request prefix" invalidateCache rd_up
    "redis_holds prefix" redis_query for prefix
proof
  fix q p :: "string \<times> int \<times> string" and l :: "'a res" and s t :: "'a redis" and r x
  assume req: "redis_request prefix q l s = (r, t)"
  obtain k w cur where q: "q = (k, w, cur)" by (cases q)
  show "rd_up t = rd_up s"
    using req unfolding q redis_request_def
    by (auto simp: cached_configuration_def Let_def split: option.splits cached.splits sum.splits if_splits)
  assume "redis_query q"
  then have norm: "upper (trim cur) = cur" "CHR '':'' \<notin> set cur" by (auto simp: q redis_query_def)
  from req have cc: "cached_configuration prefix k w cur (\<lambda>_. l) s = (r, t)" by (simp add: q redis_request_def)
  from cc norm(1) show "r = l \<or> (\<exists>x. r = Inr x \<and> redis_holds prefix s q x)"
    by (cases rule: cached_configuration_cases) (auto simp: q redis_holds_def)
  assume pq: "redis_query p" and h: "redis_holds prefix t p x"
  obtain k' w' cur' where p: "p = (k', w', cur')" by (cases p)
  with pq have norm': "CHR '':'' \<notin> set cur'" by (auto simp: redis_query_def)
  note inj = cache_key_inj[OF _ norm(2) norm']
  from cc norm(1) show "redis_holds prefix s p x \<or> (p = q \<and> l = Inr x)"
  proof (cases rule: cached_configuration_cases)
    case (hit y)
    with h show ?thesis by simp
  next
    case miss
    note v = cache_version_cong[OF miss(2,3)]
    show ?thesis
    proof (cases "cache_key prefix (cache_version s) k' w' cur' = cache_key prefix (cache_version s) k w cur")
      case True
      then have "p = q" using inj[OF True[symmetric]] by (simp add: p q)
      with miss(2) miss(5)[of x] h v show ?thesis by (auto simp: q redis_holds_def)
    next
      case False
      with miss(2,4) h v show ?thesis by (auto simp: p redis_holds_def)
    qed
  qed
qed (auto simp: redis_holds_def invalidateCache_def split: prod.splits)

end
