(* ===== verification/SystemWallets.thy ===== *)
theory SystemWallets
  imports Prelude
begin

text \<open>
  The wallet and wallet type tables as the charge and the commission service read them
  (\<open>src/models/system-wallet.model.ts\<close>), and the lookup of the system wallet that receives charges or
  pays commissions (\<open>resolveSystemWallet\<close> of \<open>charge.service.ts\<close>, \<open>systemWallet\<close> of
  \<open>commission.service.ts\<close>).
\<close>

record sw_wallet =
  sw_msisdn :: string
  sw_code :: "int option"
  sw_currency :: string

record sw_type =
  swt_id :: int
  swt_name :: "string option"
  swt_details :: "string option"

record wallet_tables =
  wt_wallets :: "sw_wallet list"
  wt_types :: "sw_type list"

definition system_wallets :: "wallet_tables \<Rightarrow> int \<Rightarrow> string \<Rightarrow> sw_wallet list" where
  "system_wallets tb code currency =
     filter (\<lambda>w. sw_code w = Some code \<and> sw_currency w = upper (trim currency)) (wt_wallets tb)"

definition wallet_type :: "wallet_tables \<Rightarrow> int \<Rightarrow> sw_type option" where
  "wallet_type tb code = find (\<lambda>t. swt_id t = code) (wt_types tb)"

definition resolveSystemWallet :: "wallet_tables \<Rightarrow> int \<Rightarrow> string \<Rightarrow> (sw_wallet \<times> sw_type) res" where
  "resolveSystemWallet tb code currency =
     (case system_wallets tb code currency of
        [] \<Rightarrow> Inl (NotFound (''System wallet '' @ int_str code @ '' not found for '' @ upper (trim currency)))
      | [w] \<Rightarrow> (case wallet_type tb code of
           None \<Rightarrow> Inl (NotFound (''Wallet type '' @ int_str code @ '' not found''))
         | Some t \<Rightarrow> Inr (w, t))
      | _ \<Rightarrow> Inl (Conflict (''Multiple system wallets found for wallet code '' @ int_str code @ '' and '' @
               upper (trim currency))))"

definition systemWallet :: "wallet_tables \<Rightarrow> int \<Rightarrow> string \<Rightarrow> (sw_wallet \<times> sw_type) res" where
  "systemWallet tb code currency =
     (case system_wallets tb code currency of
        [w] \<Rightarrow> (case wallet_type tb code of
           None \<Rightarrow> Inl (NotFound (''Wallet type '' @ int_str code @ '' not found''))
         | Some t \<Rightarrow> Inr (w, t))
      | _ \<Rightarrow> Inl (Conflict (''Exactly one system wallet is required for code '' @ int_str code @ '' and '' @
               upper (trim currency))))"

text \<open>Both succeed on the same tables with the same wallet; only their errors differ.\<close>

lemma system_wallet_agree:
  "resolveSystemWallet tb code currency = Inr x \<longleftrightarrow> systemWallet tb code currency = Inr x"
  by (auto simp: resolveSystemWallet_def systemWallet_def split: list.splits option.splits)

lemma resolveSystemWallet_Inr [res_simps]:
  "resolveSystemWallet tb code currency = Inr (w, t) \<longleftrightarrow>
     system_wallets tb code currency = [w] \<and> wallet_type tb code = Some t"
  by (auto simp: resolveSystemWallet_def split: list.splits option.splits)

end
