(* ===== verification/Charge.thy ===== *)
theory Charge
  imports PricingLifecycle PricingSimulation ConfigCache SystemWallets
begin

text \<open>
  The charge of a transaction (\<open>src/modules/transaction/charge.service.ts\<close>): the configuration
  tables (\<open>src/models/charge.model.ts\<close>), the resolution of the charge that applies, and
  \<open>calculate\<close>, which prefers an active pricing flow to the configured charges.
\<close>

section \<open>Tables\<close>

text \<open>
  A date column as the driver returns it: the day number since 1970-01-01, or a text the language's
  \<open>Date\<close> does not parse (such as \<open>infinity\<close>).
\<close>

datatype js_date = Day int | InvalidDate

record charge =
  cg_chargeId :: int
  cg_chargeType :: "int option"
  cg_expiryOn :: "js_date option"
  cg_status :: "int option"
  cg_default :: "int option"
  cg_createdBy :: "string option"
  cg_modifiedBy :: "string option"
  cg_approvedBy :: "string option"
  cg_createdDate :: "nat option"
  cg_modifiedDate :: "nat option"
  cg_approvedDate :: "nat option"
  cg_description :: "string option"

text \<open>
  The numeric columns of a detail arrive as decimal texts.  The keys and the keyword, which every
  create request must give, are not null; the other nullable columns are options.
\<close>

record charge_detail =
  cd_rowId :: nat
  cd_chargeId :: int
  cd_chargeType :: "string option"
  cd_value :: "string option"
  cd_start :: "string option"
  cd_end :: "string option"
  cd_min :: "string option"
  cd_max :: "string option"

record charge_mapping =
  cm_rowId :: nat
  cm_keywordChargeId :: int
  cm_description :: "string option"
  cm_isDefault :: int
  cm_status :: "int option"
  cm_createdBy :: "string option"
  cm_modifiedBy :: "string option"
  cm_approvedBy :: "string option"
  cm_operation :: "string option"

record keyword_charge =
  kc_rowId :: nat
  kc_keywordChargeId :: int
  kc_keyword :: string
  kc_chargeId :: int
  kc_payer :: "string option"
  kc_description :: "string option"
  kc_createdBy :: "string option"
  kc_modifiedBy :: "string option"
  kc_approvedBy :: "string option"
  kc_isDefault :: int
  kc_walletId :: int
  kc_status :: int

record charge_tables =
  ct_charges :: "charge list"
  ct_details :: "charge_detail list"
  ct_mappings :: "charge_mapping list"
  ct_keywords :: "keyword_charge list"
  ct_wallets :: wallet_tables

text \<open>What \<open>loadConfiguration\<close> gathers and the cache keeps.\<close>

record charge_config =
  cf_keywordCharge :: keyword_charge
  cf_mapping :: charge_mapping
  cf_charge :: charge
  cf_details :: "charge_detail list"
  cf_wallet :: "sw_wallet \<times> sw_type"

section \<open>Field checks\<close>

definition charge_money :: "decimal_lib \<Rightarrow> string option \<Rightarrow> string \<Rightarrow> dec res" where
  "charge_money D v field =
     (case (case v of None \<Rightarrow> None | Some s \<Rightarrow> d_new D s) of
        None \<Rightarrow> Inl (BadRequest (field @ '' must be a valid decimal''))
      | Some x \<Rightarrow> Inr x)"

definition null_text :: "string option \<Rightarrow> string" where
  "null_text v = (case v of None \<Rightarrow> ''null'' | Some s \<Rightarrow> s)"

datatype header_type = HFixed | HDynamic

definition headerType :: "int option \<Rightarrow> header_type res" where
  "headerType v = (if v = Some 0 then Inr HFixed else if v = Some 1 then Inr HDynamic
     else Inl (BadRequest (''Unsupported header charge type: '' @ null_text (map_option int_str v))))"

datatype detail_type = DFlat | DPercent

definition detailType :: "string option \<Rightarrow> detail_type res" where
  "detailType v =
     (let t = lower (trim (null_text v))
      in if t = ''0'' \<or> t = ''flat'' then Inr DFlat
         else if t = ''1'' \<or> t = ''percentage'' \<or> t = ''percent'' then Inr DPercent
         else Inl (BadRequest (''Unsupported detail charge type: '' @ null_text v)))"

section \<open>Resolving the configuration\<close>

text \<open>\<open>expiry.setUTCHours(23, 59, 59, 999)\<close>, in milliseconds.\<close>

definition end_of_day :: "int \<Rightarrow> int" where
  "end_of_day d = (d + 1) * 86400000 - 1"

definition active_charge :: "charge list \<Rightarrow> int \<Rightarrow> charge option" where
  "active_charge cs i = find (\<lambda>c. cg_chargeId c = i \<and> cg_status c = Some 1) cs"

function resolveCharge :: "int \<Rightarrow> charge list \<Rightarrow> int \<Rightarrow> int list \<Rightarrow> charge res" where
  "resolveCharge now cs i visited =
     (if i \<in> set visited then Inl (Conflict ''Circular default charge configuration detected'')
      else case active_charge cs i of
        None \<Rightarrow> Inl (NotFound (''Active charge '' @ int_str i @ '' not found''))
      | Some c \<Rightarrow>
         (case (cg_expiryOn c, cg_default c) of
            (None, None) \<Rightarrow> Inr c
          | (Some e, Some d) \<Rightarrow>
             (case e of
                InvalidDate \<Rightarrow> Inl (BadRequest (''Charge '' @ int_str i @ '' has an invalid expiry date''))
              | Day day \<Rightarrow>
                  if now \<le> end_of_day day then Inr c
                  else resolveCharge now cs d (i # visited))
          | _ \<Rightarrow> Inl (BadRequest (''Charge '' @ int_str i @
                   '' must define both Expiry_On and Def_Charge_ID, or neither''))))"
  by pat_completeness auto

termination
proof (relation "measure (\<lambda>(now, cs, i, visited). card (cg_chargeId ` set cs - set visited))")
  fix now i visited c e d day and cs :: "charge list"
  assume "i \<notin> set visited" "active_charge cs i = Some c"
  then have "i \<in> cg_chargeId ` set cs - set visited"
    by (auto simp: active_charge_def find_Some_iff)
  moreover have "finite (cg_chargeId ` set cs - set visited)" by simp
  ultimately have "card (cg_chargeId ` set cs - set visited - {i}) < card (cg_chargeId ` set cs - set visited)"
    by (intro card_Diff1_less)
  moreover have "cg_chargeId ` set cs - set (i # visited) = cg_chargeId ` set cs - set visited - {i}" by auto
  ultimately show "((now, cs, d, i # visited), now, cs, i, visited) \<in>
      measure (\<lambda>(now, cs, i, visited). card (cg_chargeId ` set cs - set visited))"
    unfolding in_measure prod.case by (simp only:)
qed simp

declare resolveCharge.simps [simp del]

definition trimmed_payer :: "keyword_charge \<Rightarrow> string option" where
  "trimmed_payer k = map_option trim (kc_payer k)"

definition validatePayer :: "keyword_charge \<Rightarrow> keyword_charge res" where
  "validatePayer k = (if trimmed_payer k = Some ''S'' \<or> trimmed_payer k = Some ''D'' then Inr k
     else Inl (BadRequest ''Charge payer must be S or D''))"

definition resolveKeywordCharge :: "keyword_charge list \<Rightarrow> string \<Rightarrow> int \<Rightarrow> keyword_charge res" where
  "resolveKeywordCharge ks keyword walletId =
     (case filter (\<lambda>k. kc_keyword k = keyword \<and> kc_walletId k = walletId \<and> kc_status k = 1) ks of
        [k] \<Rightarrow> validatePayer k
      | _ # _ # _ \<Rightarrow> Inl (Conflict ''Multiple active charge configurations match this keyword and wallet'')
      | [] \<Rightarrow>
        (case filter (\<lambda>k. kc_keyword k = keyword \<and> kc_isDefault k = 1 \<and> kc_status k = 1) ks of
           [k] \<Rightarrow> validatePayer k
         | _ # _ # _ \<Rightarrow> Inl (Conflict ''Multiple active default charge configurations match this keyword'')
         | [] \<Rightarrow> Inl (NotFound ''Active charge configuration not found'')))"

definition resolveActiveMapping :: "charge_mapping list \<Rightarrow> int \<Rightarrow> charge_mapping res" where
  "resolveActiveMapping ms i =
     (case filter (\<lambda>m. cm_keywordChargeId m = i \<and> cm_status m = Some 1) ms of
        [m] \<Rightarrow> Inr m
      | [] \<Rightarrow> Inl (NotFound ''Active charge mapping not found'')
      | _ \<Rightarrow> Inl (Conflict ''Multiple active charge mappings found''))"

section \<open>The detail that applies and its charge\<close>

definition detail_matches :: "decimal_lib \<Rightarrow> dec \<Rightarrow> charge_detail \<Rightarrow> bool res" where
  "detail_matches D amount r =
     (if cd_start r = None \<or> cd_end r = None then Inr False
      else await (charge_money D (cd_start r) ''startRange'') (\<lambda>st.
           await (charge_money D (cd_end r) ''endRange'') (\<lambda>en.
             if d_gt D st en
             then Inl (BadRequest (''Invalid range on charge detail '' @ nat_str (cd_rowId r)))
             else Inr (d_ge D amount st \<and> d_le D amount en))))"

definition resolveDetail :: "decimal_lib \<Rightarrow> charge \<Rightarrow> dec \<Rightarrow> charge_detail list \<Rightarrow> charge_detail res" where
  "resolveDetail D c amount rows =
     (if rows = []
      then Inl (NotFound (''Charge details not found for charge '' @ int_str (cg_chargeId c)))
      else await (headerType (cg_chargeType c)) (\<lambda>h.
        case h of
          HFixed \<Rightarrow> (case rows of [r] \<Rightarrow> Inr r
            | _ \<Rightarrow> Inl (Conflict ''Fixed charge must have exactly one detail row''))
        | HDynamic \<Rightarrow> await (filter_res (detail_matches D amount) rows) (\<lambda>ms.
            case ms of
              [r] \<Rightarrow> Inr r
            | [] \<Rightarrow> Inl (NotFound ''No charge range matches the transaction amount'')
            | _ \<Rightarrow> Inl (Conflict ''Overlapping charge ranges match the transaction amount''))))"

definition calculateDetail :: "decimal_lib \<Rightarrow> charge_detail \<Rightarrow> dec \<Rightarrow> dec res" where
  "calculateDetail D r amount =
     await (charge_money D (cd_value r) ''chargeValue'') (\<lambda>v.
     if d_isNegative D v then Inl (BadRequest ''Charge value cannot be negative'')
     else await (detailType (cd_chargeType r)) (\<lambda>t.
       case t of
         DFlat \<Rightarrow> Inr (d_dp2 D v)
       | DPercent \<Rightarrow>
          if cd_min r = None \<or> cd_max r = None
          then Inl (BadRequest ''Percentage charge requires Min_Charge and Max_Charge'')
          else await (charge_money D (cd_min r) ''minCharge'') (\<lambda>mn.
               await (charge_money D (cd_max r) ''maxCharge'') (\<lambda>mx.
                 if d_isNegative D mn \<or> d_isNegative D mx \<or> d_gt D mn mx
                 then Inl (BadRequest ''Invalid percentage charge bounds'')
                 else Inr (d_dp2 D (d_max D mn (d_min D mx
                        (d_div D (d_times D amount v) (d_num D 100)))))))))"

section \<open>Calculating\<close>

text \<open>\<open>loadConfiguration\<close> without its \<open>cacheSet\<close>, which \<open>cached_configuration\<close> does.\<close>

definition load_charge_config :: "int \<Rightarrow> charge_tables \<Rightarrow> string \<Rightarrow> int \<Rightarrow> string \<Rightarrow> charge_config res" where
  "load_charge_config now tb keyword walletId currency =
     await (resolveKeywordCharge (ct_keywords tb) keyword walletId) (\<lambda>k.
     await (resolveActiveMapping (ct_mappings tb) (kc_keywordChargeId k)) (\<lambda>m.
     await (resolveCharge now (ct_charges tb) (kc_chargeId k) []) (\<lambda>c.
     await (resolveSystemWallet (ct_wallets tb) 113 currency) (\<lambda>w.
       Inr \<lparr>cf_keywordCharge = k, cf_mapping = m, cf_charge = c,
            cf_details = filter (\<lambda>d. cd_chargeId d = cg_chargeId c) (ct_details tb),
            cf_wallet = w\<rparr>))))"

definition resolveConfiguration :: "int \<Rightarrow> charge_tables \<Rightarrow> string \<Rightarrow> int \<Rightarrow> string \<Rightarrow>
    charge_config redis \<Rightarrow> charge_config res \<times> charge_config redis" where
  "resolveConfiguration now tb keyword walletId currency cache =
     cached_configuration ''charge'' keyword walletId currency (load_charge_config now tb keyword walletId) cache"

text \<open>The request after its DTO: an optional wallet type is a positive integer.\<close>

record charge_request =
  cq_transactionId :: string
  cq_keyword :: string
  cq_walletId :: int
  cq_sourceWalletType :: "int option"
  cq_destinationWalletType :: "int option"
  cq_currency :: "string option"
  cq_amount :: string

record charge_wallet =
  cw_msisdn :: string
  cw_code :: "int option"
  cw_name :: "string option"
  cw_details :: "string option"
  cw_amount :: string

record charge_result =
  cr_transactionId :: string
  cr_keyword :: string
  cr_walletId :: int
  cr_pricingFlow :: "(nat \<times> string) option"
  cr_keywordChargeId :: "int option"
  cr_chargeId :: int
  cr_chargeDetailId :: nat
  cr_payer :: party
  cr_headerChargeType :: "int option"
  cr_calculationType :: int
  cr_chargeValue :: string
  cr_matchedRange :: "matched_range option"
  cr_chargeAmount :: string
  cr_sourceDebitAmount :: string
  cr_destinationCreditAmount :: string
  cr_chargeWallet :: charge_wallet

definition charge_wallet_of :: "sw_wallet \<times> sw_type \<Rightarrow> string \<Rightarrow> charge_wallet" where
  "charge_wallet_of wt amount = (case wt of (w, t) \<Rightarrow>
     \<lparr>cw_msisdn = sw_msisdn w, cw_code = sw_code w, cw_name = swt_name t, cw_details = swt_details t,
      cw_amount = amount\<rparr>)"

definition request_currency :: "string option \<Rightarrow> string" where
  "request_currency c = (case c of None \<Rightarrow> ''UGX'' | Some s \<Rightarrow> if s = [] then ''UGX'' else s)"

definition visual_source :: "int option \<Rightarrow> int \<Rightarrow> int" where
  "visual_source s w = (case s of None \<Rightarrow> w | Some t \<Rightarrow> if t = 0 then w else t)"

text \<open>
  The arguments an active flow is simulated with: the wallet types are passed only together.  The
  stored definition is passed as the object \<open>normalizeRow\<close> made of it.
\<close>

definition flow_simulation :: "decimal_lib \<Rightarrow> pricing_definition \<Rightarrow> string \<Rightarrow> int \<Rightarrow> int option \<Rightarrow>
    pricing_simulation res" where
  "flow_simulation D d amount src dst =
     (case dst of None \<Rightarrow> simulate D (definition_json d) (JStr amount) JUndef JUndef
      | Some t \<Rightarrow> simulate D (definition_json d) (JStr amount) (JInt src) (JInt t))"

definition visual_charge :: "decimal_lib \<Rightarrow> charge_tables \<Rightarrow> charge_request \<Rightarrow> flow_record \<Rightarrow> charge_result res" where
  "visual_charge D tb q f =
     await (flow_simulation D (snd f) (cq_amount q) (visual_source (cq_sourceWalletType q) (cq_walletId q))
              (cq_destinationWalletType q)) (\<lambda>s.
     await (resolveSystemWallet (ct_wallets tb) (pd_chargeWalletType (snd f)) (request_currency (cq_currency q))) (\<lambda>w.
       Inr \<lparr>cr_transactionId = cq_transactionId q, cr_keyword = cq_keyword q, cr_walletId = cq_walletId q,
            cr_pricingFlow = Some (fr_id (fst f), fr_ruleCode (fst f)), cr_keywordChargeId = None,
            cr_chargeId = int (fr_id (fst f)), cr_chargeDetailId = fr_id (fst f),
            cr_payer = ps_chargePayer s,
            cr_headerChargeType = Some (if pp_mode (pd_charge (snd f)) = MFixed then 0 else 1),
            cr_calculationType = (if ps_chargeCalculationType s = CFixed then 0 else 1),
            cr_chargeValue = money D (d_num D (ps_chargeCalculationValue s)),
            cr_matchedRange = ps_matchedChargeRange s,
            cr_chargeAmount = ps_chargeAmount s, cr_sourceDebitAmount = ps_sourceDebitAmount s,
            cr_destinationCreditAmount = ps_destinationCreditAmount s,
            cr_chargeWallet = charge_wallet_of w (ps_chargeAmount s)\<rparr>))"

definition legacy_charge :: "decimal_lib \<Rightarrow> charge_request \<Rightarrow> dec \<Rightarrow> charge_config \<Rightarrow> charge_result res" where
  "legacy_charge D q amount cf =
     await (resolveDetail D (cf_charge cf) amount (cf_details cf)) (\<lambda>r.
     await (calculateDetail D r amount) (\<lambda>charge.
       let payer = trimmed_payer (cf_keywordCharge cf);
           src = (if payer = Some ''S'' then d_plus D amount charge else amount);
           dst = (if payer = Some ''D'' then d_minus D amount charge else amount)
       in if d_gt D charge amount \<and> payer = Some ''D''
          then Inl (BadRequest ''Destination charge cannot exceed the transaction amount'')
          else await (detailType (cd_chargeType r)) (\<lambda>t.
               await (charge_money D (cd_value r) ''chargeValue'') (\<lambda>v.
            Inr \<lparr>cr_transactionId = cq_transactionId q, cr_keyword = cq_keyword q, cr_walletId = cq_walletId q,
                 cr_pricingFlow = None, cr_keywordChargeId = Some (kc_keywordChargeId (cf_keywordCharge cf)),
                 cr_chargeId = cg_chargeId (cf_charge cf), cr_chargeDetailId = cd_rowId r,
                 cr_payer = (if payer = Some ''S'' then PartyS else PartyD),
                 cr_headerChargeType = cg_chargeType (cf_charge cf),
                 cr_calculationType = (case t of DFlat \<Rightarrow> 0 | DPercent \<Rightarrow> 1),
                 cr_chargeValue = money D v, cr_matchedRange = None,
                 cr_chargeAmount = money D charge, cr_sourceDebitAmount = money D src,
                 cr_destinationCreditAmount = money D dst,
                 cr_chargeWallet = charge_wallet_of (cf_wallet cf) (money D charge)\<rparr>))))"

definition calculate_charge :: "decimal_lib \<Rightarrow> int \<Rightarrow> pricing_db \<Rightarrow> charge_tables \<Rightarrow> charge_request \<Rightarrow>
    charge_config redis \<Rightarrow> charge_result res \<times> charge_config redis" where
  "calculate_charge D now pdb tb q cache =
     (case charge_money D (Some (cq_amount q)) ''amount'' of
        Inl e \<Rightarrow> (Inl e, cache)
      | Inr amount \<Rightarrow>
         if d_isNegative D amount \<or> d_isZero D amount
         then (Inl (BadRequest ''Transaction amount must be greater than zero''), cache)
         else (case findActive pdb (cq_keyword q) (visual_source (cq_sourceWalletType q) (cq_walletId q))
                      (Some (request_currency (cq_currency q))) (cq_destinationWalletType q) of
             Inl e \<Rightarrow> (Inl e, cache)
           | Inr (Some f) \<Rightarrow> (visual_charge D tb q f, cache)
           | Inr None \<Rightarrow>
              (case resolveConfiguration now tb (cq_keyword q) (cq_walletId q)
                      (request_currency (cq_currency q)) cache of
                 (Inl e, c) \<Rightarrow> (Inl e, c)
               | (Inr cf, c) \<Rightarrow> (legacy_charge D q amount cf, c))))"

end
