(* ===== verification/ChargeAdmin.thy ===== *)
theory ChargeAdmin
  imports Charge
begin

text \<open>
  The administration of charges, charge details, charge mappings and keyword charges
  (\<open>listCharges\<close> to \<open>assertDifferentChecker\<close> of \<open>src/modules/transaction/charge.service.ts\<close>).
  Every statement commits on its own; the database refuses one whose result violates the keys of
  \<open>database/migrations/002\<close> and \<open>003\<close>.  An update field that the request leaves out is \<open>None\<close>, one
  that it sets to null is \<open>Some None\<close>.
\<close>

section \<open>The state\<close>

record charge_state =
  st_tables :: charge_tables
  st_cache :: "charge_config redis"
  st_nextDetail :: nat
  st_nextMapping :: nat
  st_nextKeyword :: nat

definition charge_constraints :: "charge_tables \<Rightarrow> bool" where
  "charge_constraints tb \<longleftrightarrow>
     distinct (map cg_chargeId (ct_charges tb)) \<and>
     distinct (map cd_rowId (ct_details tb)) \<and>
     distinct (map cm_rowId (ct_mappings tb)) \<and> distinct (map cm_keywordChargeId (ct_mappings tb)) \<and>
     distinct (map kc_rowId (ct_keywords tb)) \<and>
     list_all (\<lambda>c. cg_default c \<in> insert None (Some ` set (map cg_chargeId (ct_charges tb)))) (ct_charges tb) \<and>
     list_all (\<lambda>d. cd_chargeId d \<in> set (map cg_chargeId (ct_charges tb))) (ct_details tb) \<and>
     list_all (\<lambda>k. kc_chargeId k \<in> set (map cg_chargeId (ct_charges tb)) \<and>
        kc_keywordChargeId k \<in> set (map cm_keywordChargeId (ct_mappings tb))) (ct_keywords tb) \<and>
     distinct (map (\<lambda>k. (kc_keyword k, kc_walletId k))
        (filter (\<lambda>k. kc_status k = 1 \<and> kc_isDefault k = 0) (ct_keywords tb))) \<and>
     distinct (map kc_keyword (filter (\<lambda>k. kc_status k = 1 \<and> kc_isDefault k = 1) (ct_keywords tb)))"

definition commit_tables :: "(charge_tables \<Rightarrow> charge_tables) \<Rightarrow> (charge_state, unit) act" where
  "commit_tables f = (\<lambda>s. if charge_constraints (f (st_tables s))
     then (Inr (), s\<lparr>st_tables := f (st_tables s)\<rparr>)
     else (Inl (Failure ''constraint violation''), s))"

text \<open>\<open>repository.save(row)\<close>: replaces the row with the same key or adds it.\<close>

definition upsert :: "('r \<Rightarrow> 'k) \<Rightarrow> 'r \<Rightarrow> 'r list \<Rightarrow> 'r list" where
  "upsert key x xs = (if key x \<in> set (map key xs) then map (\<lambda>y. if key y = key x then x else y) xs else xs @ [x])"

definition save_charge :: "charge \<Rightarrow> (charge_state, charge) act" where
  "save_charge c = act_then (commit_tables (\<lambda>tb. tb\<lparr>ct_charges := upsert cg_chargeId c (ct_charges tb)\<rparr>)) (\<lambda>_. act_ok c)"

definition save_detail :: "charge_detail \<Rightarrow> (charge_state, charge_detail) act" where
  "save_detail d = act_then (commit_tables (\<lambda>tb. tb\<lparr>ct_details := upsert cd_rowId d (ct_details tb)\<rparr>)) (\<lambda>_. act_ok d)"

definition save_mapping :: "charge_mapping \<Rightarrow> (charge_state, charge_mapping) act" where
  "save_mapping m = act_then (commit_tables (\<lambda>tb. tb\<lparr>ct_mappings := upsert cm_rowId m (ct_mappings tb)\<rparr>)) (\<lambda>_. act_ok m)"

definition save_keyword :: "keyword_charge \<Rightarrow> (charge_state, keyword_charge) act" where
  "save_keyword k = act_then (commit_tables (\<lambda>tb. tb\<lparr>ct_keywords := upsert kc_rowId k (ct_keywords tb)\<rparr>)) (\<lambda>_. act_ok k)"

text \<open>\<open>await this.invalidateCache(); return saved\<close>\<close>

definition then_invalidate :: "nat \<Rightarrow> (charge_state, 'a) act \<Rightarrow> (charge_state, 'a) act" where
  "then_invalidate now m = act_then m (\<lambda>x.
     act_then (act_write (\<lambda>s. s\<lparr>st_cache := invalidateCache now (st_cache s)\<rparr>)) (\<lambda>_. act_ok x))"

definition find_charge :: "int \<Rightarrow> charge_state \<Rightarrow> charge option" where
  "find_charge i s = find (\<lambda>c. cg_chargeId c = i) (ct_charges (st_tables s))"

definition find_detail :: "nat \<Rightarrow> charge_state \<Rightarrow> charge_detail option" where
  "find_detail i s = find (\<lambda>d. cd_rowId d = i) (ct_details (st_tables s))"

definition find_mapping :: "nat \<Rightarrow> charge_state \<Rightarrow> charge_mapping option" where
  "find_mapping i s = find (\<lambda>d. cm_rowId d = i) (ct_mappings (st_tables s))"

definition find_keyword :: "nat \<Rightarrow> charge_state \<Rightarrow> keyword_charge option" where
  "find_keyword i s = find (\<lambda>d. kc_rowId d = i) (ct_keywords (st_tables s))"

section \<open>Maker and checker\<close>

text \<open>\<open>modifiedBy || createdBy\<close>\<close>

definition maker_of :: "string option \<Rightarrow> string option \<Rightarrow> string option" where
  "maker_of modified created = (case modified of None \<Rightarrow> created | Some m \<Rightarrow> if m = [] then created else Some m)"

definition assertDifferentChecker :: "string \<Rightarrow> string option \<Rightarrow> unit res" where
  "assertDifferentChecker checker maker =
     (if map_option (lower \<circ> trim) maker = Some (lower (trim checker))
      then Inl (Forbidden ''Maker and checker must be different users'') else Inr ())"

definition validateExpiryPair :: "js_date option \<Rightarrow> int option \<Rightarrow> unit res" where
  "validateExpiryPair expiryOn dflt =
     (if (expiryOn \<noteq> None) \<noteq> (dflt \<noteq> None)
      then Inl (BadRequest ''Expiry_On and Def_Charge_ID must be provided together or both omitted'')
      else Inr ())"

section \<open>Charges\<close>

record create_charge_dto =
  cc_chargeId :: int
  cc_chargeType :: int
  cc_expiryOn :: "js_date option"
  cc_default :: "int option"
  cc_description :: "string option"
  cc_maker :: string

record update_charge_dto =
  uc_chargeId :: "int option option"
  uc_chargeType :: "int option option"
  uc_expiryOn :: "js_date option option"
  uc_default :: "int option option"
  uc_description :: "string option option"
  uc_maker :: string

definition given :: "'a option \<Rightarrow> 'a \<Rightarrow> 'a" where
  "given v old = (case v of None \<Rightarrow> old | Some x \<Rightarrow> x)"

definition listCharges :: "charge_state \<Rightarrow> charge list" where
  "listCharges s = sort_key cg_chargeId (ct_charges (st_tables s))"

definition getCharge :: "int \<Rightarrow> (charge_state, charge \<times> charge_detail list) act" where
  "getCharge i = act_then (act_found (find_charge i) (NotFound ''Charge not found'')) (\<lambda>c.
     act_then (act_read (\<lambda>s. sort_key cd_rowId (filter (\<lambda>d. cd_chargeId d = i) (ct_details (st_tables s))))) (\<lambda>ds.
       act_ok (c, ds)))"

definition createCharge :: "nat \<Rightarrow> create_charge_dto \<Rightarrow> (charge_state, charge) act" where
  "createCharge now dto =
     act_then (act_of (validateExpiryPair (cc_expiryOn dto) (cc_default dto))) (\<lambda>_.
     act_then (act_refuse (\<lambda>s. find_charge (cc_chargeId dto) s \<noteq> None) (Conflict ''Charge ID already exists'')) (\<lambda>_.
     then_invalidate now (save_charge
       \<lparr>cg_chargeId = cc_chargeId dto, cg_chargeType = Some (cc_chargeType dto), cg_expiryOn = cc_expiryOn dto,
        cg_status = Some 0, cg_default = cc_default dto, cg_createdBy = Some (cc_maker dto), cg_modifiedBy = None,
        cg_approvedBy = None, cg_createdDate = Some now, cg_modifiedDate = None, cg_approvedDate = None,
        cg_description = cc_description dto\<rparr>)))"

text \<open>\<open>Object.assign(charge, {status: 0, modifiedBy, modifiedDate, approvedBy: null, approvedDate: null})\<close>\<close>

definition pending_charge :: "nat \<Rightarrow> string \<Rightarrow> charge \<Rightarrow> charge" where
  "pending_charge now maker c = c\<lparr>cg_status := Some 0, cg_modifiedBy := Some maker, cg_modifiedDate := Some now,
     cg_approvedBy := None, cg_approvedDate := None\<rparr>"

definition updateCharge :: "nat \<Rightarrow> int \<Rightarrow> update_charge_dto \<Rightarrow> (charge_state, charge) act" where
  "updateCharge now i dto =
     act_then (act_found (find_charge i) (NotFound ''Charge not found'')) (\<lambda>c.
       let expiryOn = given (uc_expiryOn dto) (cg_expiryOn c);
           dflt = given (uc_default dto) (cg_default c)
       in act_then (act_of (validateExpiryPair expiryOn dflt)) (\<lambda>_.
          case given (uc_chargeId dto) (Some (cg_chargeId c)) of
            None \<Rightarrow> act_throw (Failure ''null value in column'')
          | Some i' \<Rightarrow> then_invalidate now (save_charge (pending_charge now (uc_maker dto)
              (c\<lparr>cg_chargeId := i', cg_chargeType := given (uc_chargeType dto) (cg_chargeType c),
                 cg_expiryOn := expiryOn, cg_default := dflt,
                 cg_description := given (uc_description dto) (cg_description c)\<rparr>)))))"

definition approveCharge :: "nat \<Rightarrow> int \<Rightarrow> string \<Rightarrow> (charge_state, charge) act" where
  "approveCharge now i checker =
     act_then (act_found (find_charge i) (NotFound ''Charge not found'')) (\<lambda>c.
     act_then (act_of (assertDifferentChecker checker (maker_of (cg_modifiedBy c) (cg_createdBy c)))) (\<lambda>_.
       then_invalidate now (save_charge
         (c\<lparr>cg_status := Some 1, cg_approvedBy := Some checker, cg_approvedDate := Some now\<rparr>))))"

definition deactivateCharge :: "nat \<Rightarrow> int \<Rightarrow> string \<Rightarrow> (charge_state, charge) act" where
  "deactivateCharge now i maker =
     act_then (act_found (find_charge i) (NotFound ''Charge not found'')) (\<lambda>c.
       then_invalidate now (save_charge (pending_charge now maker c)))"

definition deleteCharge :: "nat \<Rightarrow> int \<Rightarrow> (charge_state, unit) act" where
  "deleteCharge now i =
     act_then (act_found (find_charge i) (NotFound ''Charge not found'')) (\<lambda>c.
     act_then (act_refuse (\<lambda>_. cg_status c = Some 1) (Conflict ''Active charge cannot be deleted; deactivate it first'')) (\<lambda>_.
     act_then (act_refuse (\<lambda>s. list_ex (\<lambda>k. kc_chargeId k = i) (ct_keywords (st_tables s)))
       (Conflict ''Charge is in use by keyword charge configuration'')) (\<lambda>_.
     act_then (act_refuse (\<lambda>s. list_ex (\<lambda>k. cg_default k = Some i) (ct_charges (st_tables s)))
       (Conflict ''Charge is in use as a default charge'')) (\<lambda>_.
     act_then (act_refuse (\<lambda>s. list_ex (\<lambda>d. cd_chargeId d = i) (ct_details (st_tables s)))
       (Conflict ''Delete charge detail rows before deleting the charge'')) (\<lambda>_.
       then_invalidate now (commit_tables
         (\<lambda>tb. tb\<lparr>ct_charges := filter (\<lambda>x. cg_chargeId x \<noteq> i) (ct_charges tb)\<rparr>)))))))"

section \<open>Details\<close>

record detail_dto =
  dd_chargeId :: int
  dd_chargeType :: string
  dd_value :: string
  dd_start :: "string option"
  dd_end :: "string option"
  dd_min :: "string option"
  dd_max :: "string option"

record update_detail_dto =
  ud_chargeId :: "int option"
  ud_chargeType :: "string option option"
  ud_value :: "string option option"
  ud_start :: "string option option"
  ud_end :: "string option option"
  ud_min :: "string option option"
  ud_max :: "string option option"

text \<open>The bounds are \<open>None\<close> only when they are undefined: a null of a stored row is \<open>Some None\<close>.\<close>

definition validateDetailDto :: "decimal_lib \<Rightarrow> string option \<Rightarrow> string option \<Rightarrow>
    string option option \<Rightarrow> string option option \<Rightarrow> unit res" where
  "validateDetailDto D ctype val mn mx =
     await (detailType ctype) (\<lambda>t.
     await (charge_money D val ''chargeValue'') (\<lambda>v.
       if d_isNegative D v then Inl (BadRequest ''Charge value cannot be negative'')
       else if t = DPercent \<and> (mn = None \<or> mx = None)
       then Inl (BadRequest ''Percentage charge requires minCharge and maxCharge'')
       else Inr ()))"

definition listDetails :: "int option \<Rightarrow> charge_state \<Rightarrow> charge_detail list" where
  "listDetails i s = sort_key cd_rowId
     (filter (\<lambda>d. case i of None \<Rightarrow> True | Some c \<Rightarrow> c = 0 \<or> cd_chargeId d = c) (ct_details (st_tables s)))"

definition getDetail :: "nat \<Rightarrow> (charge_state, charge_detail) act" where
  "getDetail i = act_found (find_detail i) (NotFound ''Charge detail not found'')"

definition markChargePending :: "nat \<Rightarrow> int \<Rightarrow> string \<Rightarrow> (charge_state, charge) act" where
  "markChargePending now i maker =
     act_then (act_found (find_charge i) (NotFound ''Parent charge not found'')) (\<lambda>c.
       save_charge (pending_charge now maker c))"

definition take_detail_id :: "(charge_state, nat) act" where
  "take_detail_id = act_then (act_read st_nextDetail) (\<lambda>i.
     act_then (act_write (\<lambda>s. s\<lparr>st_nextDetail := Suc i\<rparr>)) (\<lambda>_. act_ok i))"

definition createDetail :: "decimal_lib \<Rightarrow> nat \<Rightarrow> detail_dto \<Rightarrow> string \<Rightarrow> (charge_state, charge_detail) act" where
  "createDetail D now dto maker =
     act_then (act_of (validateDetailDto D (Some (dd_chargeType dto)) (Some (dd_value dto))
       (map_option Some (dd_min dto)) (map_option Some (dd_max dto)))) (\<lambda>_.
     act_then take_detail_id (\<lambda>i.
     act_then (save_detail
       \<lparr>cd_rowId = i, cd_chargeId = dd_chargeId dto, cd_chargeType = Some (dd_chargeType dto),
        cd_value = Some (dd_value dto), cd_start = dd_start dto, cd_end = dd_end dto,
        cd_min = dd_min dto, cd_max = dd_max dto\<rparr>) (\<lambda>saved.
       then_invalidate now (act_then (markChargePending now (dd_chargeId dto) maker) (\<lambda>_. act_ok saved)))))"

definition updated_detail :: "update_detail_dto \<Rightarrow> charge_detail \<Rightarrow> charge_detail" where
  "updated_detail dto r = r\<lparr>cd_chargeId := given (ud_chargeId dto) (cd_chargeId r),
     cd_chargeType := given (ud_chargeType dto) (cd_chargeType r), cd_value := given (ud_value dto) (cd_value r),
     cd_start := given (ud_start dto) (cd_start r), cd_end := given (ud_end dto) (cd_end r),
     cd_min := given (ud_min dto) (cd_min r), cd_max := given (ud_max dto) (cd_max r)\<rparr>"

definition updateDetail :: "decimal_lib \<Rightarrow> nat \<Rightarrow> nat \<Rightarrow> update_detail_dto \<Rightarrow> string \<Rightarrow> (charge_state, charge_detail) act" where
  "updateDetail D now i dto maker =
     act_then (act_found (find_detail i) (NotFound ''Charge detail not found'')) (\<lambda>r0.
       let r = updated_detail dto r0 in
       act_then (act_of (validateDetailDto D (cd_chargeType r) (cd_value r) (Some (cd_min r)) (Some (cd_max r)))) (\<lambda>_.
       act_then (save_detail r) (\<lambda>saved.
         then_invalidate now (act_then (markChargePending now (cd_chargeId r) maker) (\<lambda>_. act_ok saved)))))"

definition deleteDetail :: "nat \<Rightarrow> nat \<Rightarrow> string \<Rightarrow> (charge_state, unit) act" where
  "deleteDetail now i maker =
     act_then (act_found (find_detail i) (NotFound ''Charge detail not found'')) (\<lambda>r.
     act_then (act_refuse (\<lambda>s. (case find_charge (cd_chargeId r) s of None \<Rightarrow> False | Some c \<Rightarrow> cg_status c = Some 1) \<or>
         list_ex (\<lambda>k. kc_chargeId k = cd_chargeId r \<and> kc_status k = 1) (ct_keywords (st_tables s)))
       (Conflict ''Charge detail is in use by an active charge configuration'')) (\<lambda>_.
     act_then (commit_tables (\<lambda>tb. tb\<lparr>ct_details := filter (\<lambda>x. cd_rowId x \<noteq> i) (ct_details tb)\<rparr>)) (\<lambda>_.
       then_invalidate now (act_then (markChargePending now (cd_chargeId r) maker) (\<lambda>_. act_ok ())))))"

section \<open>Mappings\<close>

record mapping_dto =
  md_keywordChargeId :: int
  md_description :: "string option"
  md_isDefault :: int

record update_mapping_dto =
  um_keywordChargeId :: "int option"
  um_description :: "string option option"
  um_isDefault :: "int option"

definition listMappings :: "charge_state \<Rightarrow> charge_mapping list" where
  "listMappings s = sort_key cm_rowId (ct_mappings (st_tables s))"

definition getMapping :: "nat \<Rightarrow> (charge_state, charge_mapping) act" where
  "getMapping i = act_found (find_mapping i) (NotFound ''Charge mapping not found'')"

definition take_mapping_id :: "(charge_state, nat) act" where
  "take_mapping_id = act_then (act_read st_nextMapping) (\<lambda>i.
     act_then (act_write (\<lambda>s. s\<lparr>st_nextMapping := Suc i\<rparr>)) (\<lambda>_. act_ok i))"

definition createMapping :: "nat \<Rightarrow> mapping_dto \<Rightarrow> string \<Rightarrow> (charge_state, charge_mapping) act" where
  "createMapping now dto maker =
     act_then take_mapping_id (\<lambda>i. then_invalidate now (save_mapping
       \<lparr>cm_rowId = i, cm_keywordChargeId = md_keywordChargeId dto, cm_description = md_description dto,
        cm_isDefault = md_isDefault dto, cm_status = Some 0, cm_createdBy = Some maker, cm_modifiedBy = None,
        cm_approvedBy = None, cm_operation = Some ''I''\<rparr>))"

definition pending_mapping :: "string \<Rightarrow> charge_mapping \<Rightarrow> charge_mapping" where
  "pending_mapping maker m = m\<lparr>cm_status := Some 0, cm_operation := Some ''U'', cm_modifiedBy := Some maker,
     cm_approvedBy := None\<rparr>"

definition updateMapping :: "nat \<Rightarrow> nat \<Rightarrow> update_mapping_dto \<Rightarrow> string \<Rightarrow> (charge_state, charge_mapping) act" where
  "updateMapping now i dto maker =
     act_then (getMapping i) (\<lambda>m. then_invalidate now (save_mapping (pending_mapping maker
       (m\<lparr>cm_keywordChargeId := given (um_keywordChargeId dto) (cm_keywordChargeId m),
          cm_description := given (um_description dto) (cm_description m),
          cm_isDefault := given (um_isDefault dto) (cm_isDefault m)\<rparr>))))"

definition approveMapping :: "nat \<Rightarrow> nat \<Rightarrow> string \<Rightarrow> (charge_state, charge_mapping) act" where
  "approveMapping now i checker =
     act_then (getMapping i) (\<lambda>m.
     act_then (act_of (assertDifferentChecker checker (maker_of (cm_modifiedBy m) (cm_createdBy m)))) (\<lambda>_.
       then_invalidate now (save_mapping (m\<lparr>cm_status := Some 1, cm_approvedBy := Some checker\<rparr>))))"

definition deactivateMapping :: "nat \<Rightarrow> nat \<Rightarrow> string \<Rightarrow> (charge_state, charge_mapping) act" where
  "deactivateMapping now i maker =
     act_then (getMapping i) (\<lambda>m. then_invalidate now (save_mapping (pending_mapping maker m)))"

definition deleteMapping :: "nat \<Rightarrow> nat \<Rightarrow> (charge_state, unit) act" where
  "deleteMapping now i =
     act_then (getMapping i) (\<lambda>m.
     act_then (act_refuse (\<lambda>_. cm_status m = Some 1)
       (Conflict ''Active charge mapping cannot be deleted; deactivate it first'')) (\<lambda>_.
     act_then (act_refuse (\<lambda>s. list_ex (\<lambda>k. kc_keywordChargeId k = cm_keywordChargeId m) (ct_keywords (st_tables s)))
       (Conflict ''Charge mapping is in use by keyword charge configuration'')) (\<lambda>_.
       then_invalidate now (commit_tables
         (\<lambda>tb. tb\<lparr>ct_mappings := filter (\<lambda>x. cm_rowId x \<noteq> i) (ct_mappings tb)\<rparr>)))))"

section \<open>Keyword charges\<close>

record keyword_dto =
  kd_keywordChargeId :: int
  kd_keyword :: string
  kd_chargeId :: int
  kd_payer :: string
  kd_description :: "string option"
  kd_isDefault :: int
  kd_walletId :: int

record update_keyword_dto =
  uk_keywordChargeId :: "int option"
  uk_keyword :: "string option"
  uk_chargeId :: "int option"
  uk_payer :: "string option option"
  uk_description :: "string option option"
  uk_isDefault :: "int option"
  uk_walletId :: "int option"

definition listKeywordCharges :: "charge_state \<Rightarrow> keyword_charge list" where
  "listKeywordCharges s = sort_key kc_rowId (ct_keywords (st_tables s))"

definition getKeywordCharge :: "nat \<Rightarrow> (charge_state, keyword_charge) act" where
  "getKeywordCharge i = act_found (find_keyword i) (NotFound ''Keyword charge not found'')"

definition take_keyword_id :: "(charge_state, nat) act" where
  "take_keyword_id = act_then (act_read st_nextKeyword) (\<lambda>i.
     act_then (act_write (\<lambda>s. s\<lparr>st_nextKeyword := Suc i\<rparr>)) (\<lambda>_. act_ok i))"

definition createKeywordCharge :: "nat \<Rightarrow> keyword_dto \<Rightarrow> string \<Rightarrow> (charge_state, keyword_charge) act" where
  "createKeywordCharge now dto maker =
     act_then take_keyword_id (\<lambda>i. then_invalidate now (save_keyword
       \<lparr>kc_rowId = i, kc_keywordChargeId = kd_keywordChargeId dto, kc_keyword = kd_keyword dto,
        kc_chargeId = kd_chargeId dto, kc_payer = Some (kd_payer dto), kc_description = kd_description dto,
        kc_createdBy = Some maker, kc_modifiedBy = None, kc_approvedBy = None, kc_isDefault = kd_isDefault dto,
        kc_walletId = kd_walletId dto, kc_status = 0\<rparr>))"

definition pending_keyword :: "string \<Rightarrow> keyword_charge \<Rightarrow> keyword_charge" where
  "pending_keyword maker k = k\<lparr>kc_status := 0, kc_modifiedBy := Some maker, kc_approvedBy := None\<rparr>"

definition updateKeywordCharge :: "nat \<Rightarrow> nat \<Rightarrow> update_keyword_dto \<Rightarrow> string \<Rightarrow> (charge_state, keyword_charge) act" where
  "updateKeywordCharge now i dto maker =
     act_then (getKeywordCharge i) (\<lambda>k. then_invalidate now (save_keyword (pending_keyword maker
       (k\<lparr>kc_keywordChargeId := given (uk_keywordChargeId dto) (kc_keywordChargeId k),
          kc_keyword := given (uk_keyword dto) (kc_keyword k), kc_chargeId := given (uk_chargeId dto) (kc_chargeId k),
          kc_payer := given (uk_payer dto) (kc_payer k),
          kc_description := given (uk_description dto) (kc_description k),
          kc_isDefault := given (uk_isDefault dto) (kc_isDefault k),
          kc_walletId := given (uk_walletId dto) (kc_walletId k)\<rparr>))))"

definition approveKeywordCharge :: "nat \<Rightarrow> nat \<Rightarrow> string \<Rightarrow> (charge_state, keyword_charge) act" where
  "approveKeywordCharge now i checker =
     act_then (getKeywordCharge i) (\<lambda>k.
     act_then (act_of (assertDifferentChecker checker (maker_of (kc_modifiedBy k) (kc_createdBy k)))) (\<lambda>_.
       then_invalidate now (save_keyword (k\<lparr>kc_status := 1, kc_approvedBy := Some checker\<rparr>))))"

definition deactivateKeywordCharge :: "nat \<Rightarrow> nat \<Rightarrow> string \<Rightarrow> (charge_state, keyword_charge) act" where
  "deactivateKeywordCharge now i maker =
     act_then (getKeywordCharge i) (\<lambda>k. then_invalidate now (save_keyword (pending_keyword maker k)))"

definition deleteKeywordCharge :: "nat \<Rightarrow> nat \<Rightarrow> (charge_state, unit) act" where
  "deleteKeywordCharge now i =
     act_then (getKeywordCharge i) (\<lambda>k.
     act_then (act_refuse (\<lambda>_. kc_status k = 1)
       (Conflict ''Active keyword charge cannot be deleted; deactivate it first'')) (\<lambda>_.
       then_invalidate now (commit_tables
         (\<lambda>tb. tb\<lparr>ct_keywords := filter (\<lambda>x. kc_rowId x \<noteq> i) (ct_keywords tb)\<rparr>))))"

end
