(* ===== verification/ChargeFacts.thy ===== *)
theory ChargeFacts
  imports Charge
begin

text \<open>
  What the resolution of a charge finds, stated without the visited set, and the bounds of the amount
  that is charged.
\<close>

section \<open>Following the default charges\<close>

definition charge_current :: "int \<Rightarrow> charge \<Rightarrow> bool" where
  "charge_current now c \<longleftrightarrow> (cg_expiryOn c = None \<and> cg_default c = None) \<or>
     (\<exists>day d. cg_expiryOn c = Some (Day day) \<and> cg_default c = Some d \<and> now \<le> end_of_day day)"

text \<open>\<open>resolves now cs n i c\<close>: from charge \<open>i\<close>, \<open>n\<close> expired charges lead by their defaults to the current \<open>c\<close>.\<close>

inductive resolves :: "int \<Rightarrow> charge list \<Rightarrow> nat \<Rightarrow> int \<Rightarrow> charge \<Rightarrow> bool"
  for now :: int and cs :: "charge list" where
  resolves_here: "active_charge cs i = Some c \<Longrightarrow> charge_current now c \<Longrightarrow> resolves now cs 0 i c"
| resolves_next: "active_charge cs i = Some b \<Longrightarrow> cg_expiryOn b = Some (Day day) \<Longrightarrow> cg_default b = Some d \<Longrightarrow>
     end_of_day day < now \<Longrightarrow> resolves now cs n d c \<Longrightarrow> resolves now cs (Suc n) i c"

inductive_cases resolvesE: "resolves now cs n i c"

lemma resolves_deterministic:
  "resolves now cs n i c \<Longrightarrow> resolves now cs m i c' \<Longrightarrow> n = m \<and> c = c'"
proof (induction arbitrary: m c' rule: resolves.induct)
  case (resolves_here i c)
  from resolves_here(3,1,2) show ?case by (cases rule: resolvesE) (auto simp: charge_current_def)
next
  case (resolves_next i b day d n c)
  note IH = resolves_next(6)
  from resolves_next(7) show ?case
  proof (cases rule: resolves.cases)
    case resolves_here
    with resolves_next(1-4) show ?thesis by (simp add: charge_current_def)
  next
    case (resolves_next b' day' d' n')
    with \<open>active_charge cs i = Some b\<close> \<open>cg_default b = Some d\<close> have "resolves now cs n' d c'" by simp
    from IH[OF this] resolves_next(1) show ?thesis by simp
  qed
qed

lemma resolveCharge_sound:
  "resolveCharge now cs i visited = Inr c \<Longrightarrow> \<exists>n. resolves now cs n i c"
proof (induction now cs i visited arbitrary: c rule: resolveCharge.induct)
  case (1 now cs i visited)
  from "1.prems" obtain b where b: "active_charge cs i = Some b" and ni: "i \<notin> set visited"
    by (auto simp: resolveCharge.simps[of now cs i visited] split: if_splits option.splits)
  show ?case
  proof (cases "charge_current now b")
    case True
    with "1.prems" b ni have "c = b"
      by (auto simp: resolveCharge.simps[of now cs i visited] charge_current_def)
    with True b show ?thesis by (blast intro: resolves_here)
  next
    case False
    with "1.prems" b ni obtain day d where e: "cg_expiryOn b = Some (Day day)" "cg_default b = Some d"
      "\<not> now \<le> end_of_day day"
      by (auto simp: resolveCharge.simps[of now cs i visited] charge_current_def
          split: option.splits js_date.splits if_splits)
    with "1.prems" b ni have "resolveCharge now cs d (i # visited) = Inr c"
      by (simp add: resolveCharge.simps[of now cs i visited])
    with "1.IH"[OF ni b _ e(1,2) _ e(3)] e obtain n where "resolves now cs n d c" by auto
    with b e show ?thesis by (intro exI[of _ "Suc n"]) (auto intro: resolves_next)
  qed
qed

lemma resolveCharge_complete:
  "resolves now cs n i c \<Longrightarrow> (\<And>v. v \<in> set visited \<Longrightarrow> \<exists>k c'. n < k \<and> resolves now cs k v c') \<Longrightarrow>
     resolveCharge now cs i visited = Inr c"
proof (induction arbitrary: visited rule: resolves.induct)
  case (resolves_here i c)
  have "resolves now cs 0 i c" using resolves_here(1,2) by (rule resolves.resolves_here)
  with resolves_here(3) have "i \<notin> set visited" using resolves_deterministic by blast
  with resolves_here(1,2) show ?case
    by (auto simp: resolveCharge.simps[of now cs i visited] charge_current_def)
next
  case (resolves_next i b day d n c)
  have s: "resolves now cs (Suc n) i c" using resolves_next(1-5) by (rule resolves.resolves_next)
  with resolves_next(7) have ni: "i \<notin> set visited" using resolves_deterministic by blast
  have "resolveCharge now cs d (i # visited) = Inr c"
  proof (rule resolves_next(6))
    fix v assume "v \<in> set (i # visited)"
    then consider "v = i" | "v \<in> set visited" by auto
    then show "\<exists>k c'. n < k \<and> resolves now cs k v c'"
    proof cases
      case 1
      with s show ?thesis by blast
    next
      case 2
      with resolves_next(7) obtain k c' where "Suc n < k" "resolves now cs k v c'" by blast
      then show ?thesis by (intro exI[of _ k] exI[of _ c']) simp
    qed
  qed
  with ni resolves_next(1-4) show ?case by (simp add: resolveCharge.simps[of now cs i visited])
qed

lemma resolveCharge_iff: "resolveCharge now cs i [] = Inr c \<longleftrightarrow> (\<exists>n. resolves now cs n i c)"
  using resolveCharge_sound resolveCharge_complete[of now cs _ i c "[]"] by auto

lemma resolves_result: "resolves now cs n i c \<Longrightarrow> c \<in> set cs \<and> cg_status c = Some 1 \<and> charge_current now c"
  by (induction rule: resolves.induct) (auto simp: active_charge_def find_Some_iff)

section \<open>The amount of a detail\<close>

context decimal
begin

lemma calculateDetail_cases:
  assumes "calculateDetail D r (Fin a) = Inr c" and "d_new D (the (cd_value r)) = Some (Fin v)"
    and "cd_min r \<noteq> None \<Longrightarrow> \<exists>q. d_new D (the (cd_min r)) = Some (Fin q)"
    and "cd_max r \<noteq> None \<Longrightarrow> \<exists>q. d_new D (the (cd_max r)) = Some (Fin q)"
  obtains (flat) "detailType (cd_chargeType r) = Inr DFlat" "c = Fin (round2 v)" "0 \<le> v"
  | (percent) mn mx where "detailType (cd_chargeType r) = Inr DPercent" "0 \<le> mn" "mn \<le> mx" "0 \<le> v"
      "d_new D (the (cd_min r)) = Some (Fin mn)" "d_new D (the (cd_max r)) = Some (Fin mx)"
      "c = Fin (round2 (max mn (min mx (sig30 (sig30 (a * v) / 100)))))"
  using assms
  by (auto simp: calculateDetail_def charge_money_def d_simps res_simps split: option.splits if_splits detail_type.splits)

lemma round2_gt_0: "0 \<le> x \<Longrightarrow> 0 \<le> round2 x"
  by (rule round2_nonneg)

lemma calculateDetail_amount:
  assumes "calculateDetail D r (Fin a) = Inr c" and "d_new D (the (cd_value r)) = Some (Fin v)"
    and "cd_min r \<noteq> None \<Longrightarrow> \<exists>q. d_new D (the (cd_min r)) = Some (Fin q)"
    and "cd_max r \<noteq> None \<Longrightarrow> \<exists>q. d_new D (the (cd_max r)) = Some (Fin q)"
  shows "\<exists>q. c = Fin q \<and> is_cents q \<and> 0 \<le> q"
  using assms by (cases rule: calculateDetail_cases) (auto intro!: round2_gt_0)

end

section \<open>The range that applies\<close>

lemma filter_res_Inr:
  "filter_res f xs = Inr ys \<Longrightarrow> ys = filter (\<lambda>x. f x = Inr True) xs \<and> (\<forall>x \<in> set xs. \<exists>b. f x = Inr b)"
  by (induction xs arbitrary: ys) (auto simp: res_simps)

lemma filter_singleton:
  "filter P xs = [r] \<Longrightarrow> r \<in> set xs \<and> P r \<and> (\<forall>x \<in> set xs. P x \<longrightarrow> x = r)"
proof -
  assume "filter P xs = [r]"
  then have "{x \<in> set xs. P x} = {r}" by (metis set_filter list.set(1) list.set(2))
  then show ?thesis by blast
qed

lemma resolveDetail_cases:
  assumes "resolveDetail D c amount rows = Inr r"
  obtains (fixed) "headerType (cg_chargeType c) = Inr HFixed" "rows = [r]"
  | (dynamic) "headerType (cg_chargeType c) = Inr HDynamic" "r \<in> set rows" "detail_matches D amount r = Inr True"
      "\<And>x. x \<in> set rows \<Longrightarrow> x \<noteq> r \<Longrightarrow> detail_matches D amount x = Inr False"
proof -
  from assms obtain h where h: "headerType (cg_chargeType c) = Inr h"
    by (auto simp: resolveDetail_def res_simps split: if_splits)
  show thesis
  proof (cases h)
    case HFixed
    with assms h show thesis
      by (intro fixed) (auto simp: resolveDetail_def split: if_splits list.splits)
  next
    case HDynamic
    with assms h obtain ms where ms: "filter_res (detail_matches D amount) rows = Inr ms"
      and m: "(case ms of [r] \<Rightarrow> Inr r
            | [] \<Rightarrow> Inl (NotFound ''No charge range matches the transaction amount'')
            | _ \<Rightarrow> Inl (Conflict ''Overlapping charge ranges match the transaction amount'')) = Inr r"
      by (auto simp: resolveDetail_def res_simps split: if_splits)
    from m have "ms = [r]" by (auto split: list.splits)
    with ms have f: "filter_res (detail_matches D amount) rows = Inr [r]" by simp
    note fr = filter_res_Inr[OF f]
    from fr filter_singleton[of "\<lambda>x. detail_matches D amount x = Inr True" rows r]
    have r: "r \<in> set rows" "detail_matches D amount r = Inr True"
      and u: "\<forall>x \<in> set rows. detail_matches D amount x = Inr True \<longrightarrow> x = r" by auto
    show thesis
    proof (rule dynamic)
      show "detail_matches D amount x = Inr False" if x: "x \<in> set rows" "x \<noteq> r" for x
      proof -
        from fr x(1) obtain b where b: "detail_matches D amount x = Inr b" by blast
        with u x have "\<not> b" by (cases b) auto
        with b show ?thesis by simp
      qed
    qed (use h HDynamic r in auto)
  qed
qed

section \<open>The result\<close>

text \<open>The numeric columns of the details hold decimal numbers.\<close>

definition numeric_text :: "string option \<Rightarrow> bool" where
  "numeric_text v = (case v of None \<Rightarrow> True | Some s \<Rightarrow> decimal_literal s \<noteq> None)"

definition numeric_detail :: "charge_detail \<Rightarrow> bool" where
  "numeric_detail r \<longleftrightarrow> numeric_text (cd_value r) \<and> numeric_text (cd_min r) \<and> numeric_text (cd_max r)"

context decimal
begin

lemma numeric_new: "numeric_text (Some s) \<Longrightarrow> \<exists>q. d_new D s = Some (Fin q)"
  using new_literal by (auto simp: numeric_text_def)

lemma legacy_charge_amounts:
  assumes leg: "legacy_charge D q (Fin a) cf = Inr r"
    and num: "list_all numeric_detail (cf_details cf)"
    and payer: "trimmed_payer (cf_keywordCharge cf) = Some ''S'' \<or> trimmed_payer (cf_keywordCharge cf) = Some ''D''"
    and a: "is_cents a" "0 < a"
  obtains c where "is_cents c" "0 \<le> c" "cr_chargeAmount r = money_text c"
    "cw_amount (cr_chargeWallet r) = money_text c"
    "cr_payer r = PartyD \<Longrightarrow> c \<le> a"
    "a + c < 10 ^ 28 \<Longrightarrow> cr_payer r = PartyS \<Longrightarrow>
       cr_sourceDebitAmount r = money_text (a + c) \<and> cr_destinationCreditAmount r = money_text a"
    "a + c < 10 ^ 28 \<Longrightarrow> cr_payer r = PartyD \<Longrightarrow>
       cr_sourceDebitAmount r = money_text a \<and> cr_destinationCreditAmount r = money_text (a - c)"
proof -
  from leg obtain d x where d: "resolveDetail D (cf_charge cf) (Fin a) (cf_details cf) = Inr d"
    and x: "calculateDetail D d (Fin a) = Inr x"
    and le: "\<not> (d_gt D x (Fin a) \<and> trimmed_payer (cf_keywordCharge cf) = Some ''D'')"
    and r: "cr_chargeAmount r = money D x" "cr_chargeWallet r = charge_wallet_of (cf_wallet cf) (money D x)"
      "cr_payer r = (if trimmed_payer (cf_keywordCharge cf) = Some ''S'' then PartyS else PartyD)"
      "cr_sourceDebitAmount r = money D (if trimmed_payer (cf_keywordCharge cf) = Some ''S'' then d_plus D (Fin a) x else Fin a)"
      "cr_destinationCreditAmount r = money D (if trimmed_payer (cf_keywordCharge cf) = Some ''D'' then d_minus D (Fin a) x else Fin a)"
    by (auto simp: legacy_charge_def Let_def res_simps split: if_splits)
  from d have "d \<in> set (cf_details cf)" by (cases rule: resolveDetail_cases) auto
  with num have nd: "numeric_detail d" by (simp add: list_all_iff)
  obtain s where s: "cd_value d = Some s"
    using x by (auto simp: calculateDetail_def charge_money_def res_simps split: option.splits)
  with nd numeric_new obtain v where v: "d_new D (the (cd_value d)) = Some (Fin v)"
    by (auto simp: numeric_detail_def)
  from calculateDetail_amount[OF x v] nd numeric_new obtain c where c: "x = Fin c" "is_cents c" "0 \<le> c"
    by (auto simp: numeric_detail_def)
  have cents: "is_cents (a + c)" "is_cents (a - c)" using a c by auto
  have plus: "sig30 (a + c) = a + c" if "a + c < 10 ^ 28"
    using that a c by (intro sig30_cents) auto
  have minus: "sig30 (a - c) = a - c" if "a + c < 10 ^ 28"
    using that a c by (intro sig30_cents) auto
  show thesis
  proof (rule that[of c])
    show "cw_amount (cr_chargeWallet r) = money_text c"
      using r c by (simp add: charge_wallet_of_def money_Fin split: prod.splits)
  qed (use r c le a plus minus cents payer in \<open>auto simp: money_Fin d_simps split: if_splits\<close>)
qed

end

lemma load_charge_config_facts:
  assumes "load_charge_config now tb kw w cur = Inr cf"
  shows "(trimmed_payer (cf_keywordCharge cf) = Some ''S'' \<or> trimmed_payer (cf_keywordCharge cf) = Some ''D'') \<and>
    kc_keyword (cf_keywordCharge cf) = kw \<and> kc_status (cf_keywordCharge cf) = 1 \<and>
    (kc_walletId (cf_keywordCharge cf) = w \<or> kc_isDefault (cf_keywordCharge cf) = 1) \<and>
    resolveCharge now (ct_charges tb) (kc_chargeId (cf_keywordCharge cf)) [] = Inr (cf_charge cf) \<and>
    cf_details cf = filter (\<lambda>d. cd_chargeId d = cg_chargeId (cf_charge cf)) (ct_details tb)"
proof -
  have k: "resolveKeywordCharge ks kw w = Inr k \<Longrightarrow>
      (trimmed_payer k = Some ''S'' \<or> trimmed_payer k = Some ''D'') \<and> kc_keyword k = kw \<and> kc_status k = 1 \<and>
      (kc_walletId k = w \<or> kc_isDefault k = 1)" for ks k
    by (auto simp: resolveKeywordCharge_def validatePayer_def split: list.splits if_splits
        dest!: filter_singleton)
  from assms show ?thesis by (auto simp: load_charge_config_def res_simps dest!: k)
qed

end
