(* ===== verification/ChargeSafety.thy ===== *)
theory ChargeSafety
  imports ChargeAdmin ChargeFacts
begin

text \<open>
  What the charge administration keeps: the table constraints, four eyes on everything active, and a
  cache that only answers what the current tables give.  \<open>run_charge_op\<close> dispatches a request the way
  \<open>src/modules/transaction/charge.controller.ts\<close> does.
\<close>

section \<open>The requests of the controller\<close>

datatype charge_op =
    CreateCharge create_charge_dto
  | UpdateCharge int update_charge_dto
  | ApproveCharge int string
  | DeactivateCharge int string
  | DeleteCharge int
  | CreateDetail detail_dto string
  | UpdateDetail nat update_detail_dto string
  | DeleteDetail nat string
  | CreateMapping mapping_dto string
  | UpdateMapping nat update_mapping_dto string
  | ApproveMapping nat string
  | DeactivateMapping nat string
  | DeleteMapping nat
  | CreateKeyword keyword_dto string
  | UpdateKeyword nat update_keyword_dto string
  | ApproveKeyword nat string
  | DeactivateKeyword nat string
  | DeleteKeyword nat

definition act_void :: "('s, 'a) act \<Rightarrow> ('s, unit) act" where
  "act_void m = act_then m (\<lambda>_. act_ok ())"

fun run_charge_op :: "decimal_lib \<Rightarrow> nat \<Rightarrow> charge_op \<Rightarrow> (charge_state, unit) act" where
  "run_charge_op D now (CreateCharge dto) = act_void (createCharge now dto)"
| "run_charge_op D now (UpdateCharge i dto) = act_void (updateCharge now i dto)"
| "run_charge_op D now (ApproveCharge i checker) = act_void (approveCharge now i checker)"
| "run_charge_op D now (DeactivateCharge i maker) = act_void (deactivateCharge now i maker)"
| "run_charge_op D now (DeleteCharge i) = act_void (deleteCharge now i)"
| "run_charge_op D now (CreateDetail dto maker) = act_void (createDetail D now dto maker)"
| "run_charge_op D now (UpdateDetail i dto maker) = act_void (updateDetail D now i dto maker)"
| "run_charge_op D now (DeleteDetail i maker) = act_void (deleteDetail now i maker)"
| "run_charge_op D now (CreateMapping dto maker) = act_void (createMapping now dto maker)"
| "run_charge_op D now (UpdateMapping i dto maker) = act_void (updateMapping now i dto maker)"
| "run_charge_op D now (ApproveMapping i checker) = act_void (approveMapping now i checker)"
| "run_charge_op D now (DeactivateMapping i maker) = act_void (deactivateMapping now i maker)"
| "run_charge_op D now (DeleteMapping i) = act_void (deleteMapping now i)"
| "run_charge_op D now (CreateKeyword dto maker) = act_void (createKeywordCharge now dto maker)"
| "run_charge_op D now (UpdateKeyword i dto maker) = act_void (updateKeywordCharge now i dto maker)"
| "run_charge_op D now (ApproveKeyword i checker) = act_void (approveKeywordCharge now i checker)"
| "run_charge_op D now (DeactivateKeyword i maker) = act_void (deactivateKeywordCharge now i maker)"
| "run_charge_op D now (DeleteKeyword i) = act_void (deleteKeywordCharge now i)"

section \<open>Four eyes\<close>

text \<open>An active record was approved, and not by its last maker.\<close>

definition approved_by_other :: "bool \<Rightarrow> string option \<Rightarrow> string option \<Rightarrow> string option \<Rightarrow> bool" where
  "approved_by_other active approved modified created \<longleftrightarrow> active \<longrightarrow>
     (\<exists>a. approved = Some a \<and> (\<forall>m. maker_of modified created = Some m \<longrightarrow> \<not> same_actor a m))"

definition checked_charge :: "charge \<Rightarrow> bool" where
  "checked_charge c = approved_by_other (cg_status c = Some 1) (cg_approvedBy c) (cg_modifiedBy c) (cg_createdBy c)"

definition checked_mapping :: "charge_mapping \<Rightarrow> bool" where
  "checked_mapping m = approved_by_other (cm_status m = Some 1) (cm_approvedBy m) (cm_modifiedBy m) (cm_createdBy m)"

definition checked_keyword :: "keyword_charge \<Rightarrow> bool" where
  "checked_keyword k = approved_by_other (kc_status k = 1) (kc_approvedBy k) (kc_modifiedBy k) (kc_createdBy k)"

definition checked_tables :: "charge_tables \<Rightarrow> bool" where
  "checked_tables tb \<longleftrightarrow> (\<forall>c \<in> set (ct_charges tb). checked_charge c) \<and>
     (\<forall>m \<in> set (ct_mappings tb). checked_mapping m) \<and> (\<forall>k \<in> set (ct_keywords tb). checked_keyword k)"

lemma upsert_subset: "set (upsert key x xs) \<subseteq> insert x (set xs)"
  by (auto simp: upsert_def)

lemma assertDifferentChecker_Inr:
  "assertDifferentChecker checker (maker_of modified created) = Inr u \<Longrightarrow>
     approved_by_other b (Some checker) modified created"
  by (auto simp: assertDifferentChecker_def approved_by_other_def same_actor_def split: if_splits)

definition state_inv :: "charge_state \<Rightarrow> bool" where
  "state_inv s \<longleftrightarrow> charge_constraints (st_tables s) \<and> checked_tables (st_tables s)"

lemma find_in: "find P xs = Some x \<Longrightarrow> x \<in> set xs \<and> P x"
  by (auto simp: find_Some_iff)

lemma checked_found:
  "checked_tables (st_tables s) \<Longrightarrow> find_charge i s = Some c \<Longrightarrow> checked_charge c"
  "checked_tables (st_tables s) \<Longrightarrow> find_mapping j s = Some m \<Longrightarrow> checked_mapping m"
  "checked_tables (st_tables s) \<Longrightarrow> find_keyword j s = Some k \<Longrightarrow> checked_keyword k"
  by (auto simp: checked_tables_def find_charge_def find_mapping_def find_keyword_def dest: find_in)

text \<open>Whatever a statement writes, it keeps the invariant when the new row is checked.\<close>

abbreviation inv_kept :: "charge_state \<Rightarrow> charge_state \<Rightarrow> bool" where
  "inv_kept \<equiv> preserving state_inv"

lemma commit_keeps:
  "(\<And>tb. checked_tables tb \<Longrightarrow> checked_tables (f tb)) \<Longrightarrow> keeps inv_kept (commit_tables f)"
  by (auto simp: keeps_def preserving_def commit_tables_def state_inv_def)

lemma save_keeps:
  "checked_charge c \<Longrightarrow> keeps inv_kept (save_charge c)" "keeps inv_kept (save_detail d)"
  "checked_mapping m \<Longrightarrow> keeps inv_kept (save_mapping m)"
  "checked_keyword k \<Longrightarrow> keeps inv_kept (save_keyword k)"
  unfolding save_charge_def save_detail_def save_mapping_def save_keyword_def
  by (intro preserving.keeps_rules commit_keeps,
      use upsert_subset in \<open>fastforce simp: checked_tables_def\<close>)+

lemma invalidate_keeps: "keeps inv_kept m \<Longrightarrow> keeps inv_kept (then_invalidate now m)"
  unfolding then_invalidate_def
  by (intro preserving.keeps_rules) (auto simp: keeps_def preserving_def state_inv_def)

lemma take_keeps: "keeps inv_kept take_detail_id" "keeps inv_kept take_mapping_id" "keeps inv_kept take_keyword_id"
  by (auto simp: keeps_def preserving_def state_inv_def take_detail_id_def take_mapping_id_def
      take_keyword_id_def act_then_run)

lemma pending_checked [simp]:
  "checked_charge (pending_charge now maker c)" "checked_mapping (pending_mapping maker m)"
  "checked_keyword (pending_keyword maker k)"
  by (simp_all add: checked_charge_def checked_mapping_def checked_keyword_def approved_by_other_def
      pending_charge_def pending_mapping_def pending_keyword_def)

lemma mark_keeps: "keeps inv_kept (markChargePending now i maker)"
  unfolding markChargePending_def by (intro preserving.keeps_rules save_keeps) simp

lemmas charge_keeps = preserving.keeps_rules save_keeps commit_keeps invalidate_keeps take_keeps mark_keeps

lemma checked_inactive:
  "cg_status c \<noteq> Some 1 \<Longrightarrow> checked_charge c" "cm_status m \<noteq> Some 1 \<Longrightarrow> checked_mapping m"
  "kc_status k \<noteq> 1 \<Longrightarrow> checked_keyword k"
  by (simp_all add: checked_charge_def checked_mapping_def checked_keyword_def approved_by_other_def)

lemma charge_op_keeps:
  "keeps inv_kept (createCharge now c)" "keeps inv_kept (updateCharge now i u)"
  "keeps inv_kept (deactivateCharge now i maker)" "keeps inv_kept (deleteCharge now i)"
  by (auto simp: createCharge_def updateCharge_def deactivateCharge_def deleteCharge_def Let_def
      checked_inactive checked_tables_def intro!: charge_keeps split: option.split)

lemma detail_op_keeps:
  "keeps inv_kept (createDetail D now c maker)" "keeps inv_kept (updateDetail D now j v maker)"
  "keeps inv_kept (deleteDetail now j maker)"
  by (auto simp: createDetail_def updateDetail_def deleteDetail_def Let_def checked_tables_def intro!: charge_keeps)

lemma mapping_op_keeps:
  "keeps inv_kept (createMapping now md maker)" "keeps inv_kept (updateMapping now j mu maker)"
  "keeps inv_kept (deactivateMapping now j maker)" "keeps inv_kept (deleteMapping now j)"
  by (auto simp: createMapping_def updateMapping_def deactivateMapping_def deleteMapping_def getMapping_def
      checked_inactive checked_tables_def intro!: charge_keeps)

lemma keyword_op_keeps:
  "keeps inv_kept (createKeywordCharge now kd maker)" "keeps inv_kept (updateKeywordCharge now j ku maker)"
  "keeps inv_kept (deactivateKeywordCharge now j maker)" "keeps inv_kept (deleteKeywordCharge now j)"
  by (auto simp: createKeywordCharge_def updateKeywordCharge_def deactivateKeywordCharge_def
      deleteKeywordCharge_def getKeywordCharge_def checked_inactive checked_tables_def intro!: charge_keeps)

text \<open>An approval saves a checked row, because the checker is compared with the maker it just read.\<close>

lemma approval_keeps:
  assumes "\<And>x. assertDifferentChecker checker (mk x) = Inr () \<Longrightarrow> keeps inv_kept (k x)"
  shows "keeps inv_kept (act_then (act_found f e) (\<lambda>x. act_then (act_of (assertDifferentChecker checker (mk x))) (\<lambda>_. k x)))"
proof -
  have "keeps inv_kept (act_then (act_of (assertDifferentChecker checker (mk x))) (\<lambda>_. k x))" for x
  proof (cases "assertDifferentChecker checker (mk x)")
    case (Inl e)
    then show ?thesis by (simp add: keeps_def act_then_run)
  next
    case (Inr u)
    then show ?thesis using assms[of x] by (simp add: keeps_def act_then_run)
  qed
  then show ?thesis by (rule preserving.keeps_then[OF preserving.keeps_found])
qed

lemma approve_op_keeps:
  "keeps inv_kept (approveCharge now i checker)" "keeps inv_kept (approveMapping now j checker)"
  "keeps inv_kept (approveKeywordCharge now j checker)"
  unfolding approveCharge_def approveMapping_def approveKeywordCharge_def getMapping_def getKeywordCharge_def
  by (rule approval_keeps, rule invalidate_keeps, rule save_keeps,
      simp add: checked_charge_def checked_mapping_def checked_keyword_def assertDifferentChecker_Inr)+

lemma void_keeps: "keeps inv_kept m \<Longrightarrow> keeps inv_kept (act_void m)"
  unfolding act_void_def by (intro charge_keeps)

lemma run_charge_op_keeps: "keeps inv_kept (run_charge_op D now p)"
  by (cases p) (simp_all add: void_keeps charge_op_keeps detail_op_keeps mapping_op_keeps keyword_op_keeps
      approve_op_keeps)

section \<open>The cache follows the tables\<close>

text \<open>A request that throws leaves the tables alone, one that succeeds invalidates the cache.\<close>

definition settles :: "nat \<Rightarrow> charge_state \<Rightarrow> 'a res \<Rightarrow> charge_state \<Rightarrow> bool" where
  "settles now s r t \<longleftrightarrow> (case r of
     Inl _ \<Rightarrow> st_tables t = st_tables s \<and> st_cache t = st_cache s
   | Inr _ \<Rightarrow> st_cache t = invalidateCache now (st_cache s))"

lemma atomic_commit: "atomic (commit_tables f)"
  by (auto simp: atomic_def commit_tables_def)

lemma atomic_saves:
  "atomic (save_charge c)" "atomic (save_detail d)" "atomic (save_mapping m)" "atomic (save_keyword k)"
  unfolding save_charge_def save_detail_def save_mapping_def save_keyword_def
  by (intro atomic_then_ok atomic_commit)+

lemma commit_cache: "commit_tables f s = (r, t) \<Longrightarrow> st_cache t = st_cache s"
  by (auto simp: commit_tables_def split: if_splits)

lemma saves_cache:
  "save_charge c s = (rc, t) \<Longrightarrow> st_cache t = st_cache s" "save_detail d s = (rd, t) \<Longrightarrow> st_cache t = st_cache s"
  "save_mapping m s = (rm, t) \<Longrightarrow> st_cache t = st_cache s" "save_keyword k s = (rk, t) \<Longrightarrow> st_cache t = st_cache s"
  by (auto simp: save_charge_def save_detail_def save_mapping_def save_keyword_def commit_tables_def
      act_then_run split: if_splits)

text \<open>\<open>settles\<close> as a property of an action, in states the database accepts.\<close>

definition settling :: "nat \<Rightarrow> (charge_state, 'a) act \<Rightarrow> bool" where
  "settling now m \<longleftrightarrow> (\<forall>s r t. charge_constraints (st_tables s) \<longrightarrow> m s = (r, t) \<longrightarrow> settles now s r t)"

lemma settling_read: "settling now (act_throw e)"
  by (simp add: settling_def settles_def)

lemma settling_then:
  assumes "readonly m" and "\<And>x. settling now (k x)"
  shows "settling now (act_then m k)"
  unfolding settling_def
proof (intro allI impI)
  fix s r t assume ok: "charge_constraints (st_tables s)" and run: "act_then m k s = (r, t)"
  have s: "snd (m s) = s" using assms(1) by (simp add: readonly_def)
  show "settles now s r t"
  proof (cases "fst (m s)")
    case (Inl e)
    with run s show ?thesis by (auto simp: act_then_run settles_def)
  next
    case (Inr x)
    with run s have "k x s = (r, t)" by (simp add: act_then_run)
    with assms(2) ok show ?thesis by (simp add: settling_def)
  qed
qed

lemma settling_invalidate:
  assumes "atomic m" and "\<And>s r t. m s = (r, t) \<Longrightarrow> st_cache t = st_cache s"
  shows "settling now (then_invalidate now m)"
  using assms unfolding settling_def then_invalidate_def
  by (auto simp: act_then_def act_ok_def act_write_def settles_def atomic_def split: prod.splits sum.splits)

lemma settling_save:
  "settling now (then_invalidate now (save_charge c))" "settling now (then_invalidate now (save_mapping m))"
  "settling now (then_invalidate now (save_keyword k))" "settling now (then_invalidate now (commit_tables f))"
  by (rule settling_invalidate, rule atomic_saves atomic_commit, erule saves_cache commit_cache)+

lemma settling_void: "settling now m \<Longrightarrow> settling now (act_void m)"
  unfolding settling_def act_void_def
  by (auto simp: act_then_def act_ok_def settles_def split: prod.splits sum.splits) fastforce+

lemma settling_fresh:
  assumes "\<And>s. m s = (Inr (n s), u s) \<and> st_tables (u s) = st_tables s \<and> st_cache (u s) = st_cache s"
    and "\<And>i. settling now (k i)"
  shows "settling now (act_then m k)"
  unfolding settling_def
proof (intro allI impI)
  fix s r t assume ok: "charge_constraints (st_tables s)" and run: "act_then m k s = (r, t)"
  from run assms(1)[of s] have "k (n s) (u s) = (r, t)" by (simp add: act_then_run)
  with assms(2)[of "n s"] ok assms(1)[of s] have "settles now (u s) r t" by (simp add: settling_def)
  with assms(1)[of s] show "settles now s r t" by (cases r) (simp_all add: settles_def)
qed

lemma settling_take:
  "(\<And>i. settling now (k i)) \<Longrightarrow> settling now (act_then take_mapping_id k)"
  "(\<And>i. settling now (k i)) \<Longrightarrow> settling now (act_then take_keyword_id k)"
  by (rule settling_fresh[where n = st_nextMapping and u = "\<lambda>s. s\<lparr>st_nextMapping := Suc (st_nextMapping s)\<rparr>"],
      simp_all add: take_mapping_id_def act_then_run)
     (rule settling_fresh[where n = st_nextKeyword and u = "\<lambda>s. s\<lparr>st_nextKeyword := Suc (st_nextKeyword s)\<rparr>"],
      simp_all add: take_keyword_id_def act_then_run)

lemmas settling_rules = settling_read settling_save settling_take settling_then readonly_rules

lemma settling_ops:
  "settling now (createCharge now c)" "settling now (updateCharge now i u)" "settling now (approveCharge now i w)"
  "settling now (deactivateCharge now i w)" "settling now (deleteCharge now i)"
  "settling now (createMapping now md w)" "settling now (updateMapping now j mu w)"
  "settling now (approveMapping now j w)" "settling now (deactivateMapping now j w)" "settling now (deleteMapping now j)"
  "settling now (createKeywordCharge now kd w)" "settling now (updateKeywordCharge now j ku w)"
  "settling now (approveKeywordCharge now j w)" "settling now (deactivateKeywordCharge now j w)"
  "settling now (deleteKeywordCharge now j)"
  by (auto simp: createCharge_def updateCharge_def approveCharge_def deactivateCharge_def deleteCharge_def
      createMapping_def updateMapping_def approveMapping_def deactivateMapping_def deleteMapping_def
      createKeywordCharge_def updateKeywordCharge_def approveKeywordCharge_def deactivateKeywordCharge_def
      deleteKeywordCharge_def getMapping_def getKeywordCharge_def Let_def
      intro!: settling_rules split: option.split)


text \<open>
  A detail is saved before its charge is marked pending; the foreign key makes the second step
  succeed, so a request on details cannot stop between the two.
\<close>

lemma upsert_same_keys: "key x \<in> set (map key xs) \<Longrightarrow> map key (upsert key x xs) = map key xs"
  by (auto simp: upsert_def)

lemma find_charge_Some: "find_charge i s = Some c \<Longrightarrow> c \<in> set (ct_charges (st_tables s)) \<and> cg_chargeId c = i"
  by (auto simp: find_charge_def dest: find_in)

lemma pending_constraints:
  assumes ok: "charge_constraints tb" and c: "c \<in> set (ct_charges tb)"
  shows "charge_constraints (tb\<lparr>ct_charges := upsert cg_chargeId (pending_charge now maker c) (ct_charges tb)\<rparr>)"
proof -
  let ?p = "pending_charge now maker c"
  have k: "cg_chargeId ?p = cg_chargeId c" "cg_default ?p = cg_default c" by (simp_all add: pending_charge_def)
  have ids: "map cg_chargeId (upsert cg_chargeId ?p (ct_charges tb)) = map cg_chargeId (ct_charges tb)"
    using c k by (intro upsert_same_keys) auto
  let ?d = "\<lambda>x. cg_default x \<in> insert None (Some ` set (map cg_chargeId (ct_charges tb)))"
  have all: "list_all ?d (ct_charges tb)" using ok by (simp add: charge_constraints_def)
  have defaults: "list_all ?d (upsert cg_chargeId ?p (ct_charges tb))"
    unfolding list_all_iff
  proof
    fix x assume "x \<in> set (upsert cg_chargeId ?p (ct_charges tb))"
    then consider "x = ?p" | "x \<in> set (ct_charges tb)"
      using upsert_subset[of cg_chargeId ?p "ct_charges tb"] by auto
    then show "?d x"
    proof cases
      case 1
      have "?d c" using all c by (simp add: list_all_iff)
      then show ?thesis unfolding 1 k .
    next
      case 2
      with all show ?thesis by (simp add: list_all_iff)
    qed
  qed
  show ?thesis
    using ok defaults unfolding charge_constraints_def by (simp add: ids del: set_map)
qed

lemma mark_succeeds:
  assumes "charge_constraints (st_tables s)" and "i \<in> cg_chargeId ` set (ct_charges (st_tables s))"
  shows "\<exists>c t. markChargePending now i maker s = (Inr c, t) \<and> st_cache t = st_cache s"
proof -
  have "find_charge i s \<noteq> None" using assms(2) by (auto simp: find_charge_def find_None_iff)
  then obtain c where c: "find_charge i s = Some c" by blast
  then have "charge_constraints (st_tables s\<lparr>ct_charges := upsert cg_chargeId (pending_charge now maker c)
      (ct_charges (st_tables s))\<rparr>)"
    using pending_constraints[OF assms(1)] find_charge_Some by blast
  with c show ?thesis
    by (simp add: markChargePending_def act_then_run act_found_def save_charge_def commit_tables_def)
qed

lemma settling_marked:
  assumes m: "atomic m" "\<And>s r t. m s = (r, t) \<Longrightarrow> st_cache t = st_cache s"
    and kept: "\<And>s x t. charge_constraints (st_tables s) \<Longrightarrow> m s = (Inr x, t) \<Longrightarrow>
       charge_constraints (st_tables t) \<and> i \<in> cg_chargeId ` set (ct_charges (st_tables t))"
  shows "settling now (act_then m (\<lambda>x. then_invalidate now (act_then (markChargePending now i maker) (\<lambda>_. act_ok (g x)))))"
  unfolding settling_def
proof (intro allI impI)
  fix s r t assume ok: "charge_constraints (st_tables s)"
    and run: "act_then m (\<lambda>x. then_invalidate now (act_then (markChargePending now i maker) (\<lambda>_. act_ok (g x)))) s = (r, t)"
  show "settles now s r t"
  proof (cases "m s")
    case (Pair p u)
    show ?thesis
    proof (cases p)
      case (Inl e)
      with Pair have "u = s" using atomicD[OF m(1)] by simp
      with run Pair Inl show ?thesis by (auto simp: act_then_def settles_def)
    next
      case (Inr x)
      from kept[OF ok] Pair Inr have "charge_constraints (st_tables u)" "i \<in> cg_chargeId ` set (ct_charges (st_tables u))"
        by auto
      from mark_succeeds[OF this] obtain c v where "markChargePending now i maker u = (Inr c, v)" "st_cache v = st_cache u"
        by blast
      with run Pair Inr m(2)[OF Pair] show ?thesis
        by (auto simp: act_then_def then_invalidate_def act_write_def act_ok_def settles_def)
    qed
  qed
qed

lemma save_detail_parent:
  "save_detail d s = (Inr x, t) \<Longrightarrow> charge_constraints (st_tables t) \<and>
     cd_chargeId d \<in> cg_chargeId ` set (ct_charges (st_tables t)) \<and> x = d"
proof -
  assume "save_detail d s = (Inr x, t)"
  then have t: "st_tables t = st_tables s\<lparr>ct_details := upsert cd_rowId d (ct_details (st_tables s))\<rparr>"
    and ok: "charge_constraints (st_tables t)" and x: "x = d"
    by (auto simp: save_detail_def act_then_run commit_tables_def split: if_splits)
  have "d \<in> set (ct_details (st_tables t))" by (auto simp: t upsert_def)
  with ok x show ?thesis by (auto simp: charge_constraints_def list_all_iff)
qed

lemma settling_detail_ops:
  "settling now (createDetail D now dto w)" "settling now (updateDetail D now j u w)"
proof -
  have save: "settling now (act_then (save_detail d) (\<lambda>saved. then_invalidate now
      (act_then (markChargePending now (cd_chargeId d) w) (\<lambda>_. act_ok saved))))" for d
    by (rule settling_marked[OF atomic_saves(2) saves_cache(2)]) (auto dest: save_detail_parent)
  have take: "settling now (act_then take_detail_id k)" if "\<And>i. settling now (k i)"
    for k :: "nat \<Rightarrow> (charge_state, charge_detail) act"
    using that
    by (intro settling_fresh[where n = st_nextDetail and u = "\<lambda>s. s\<lparr>st_nextDetail := Suc (st_nextDetail s)\<rparr>"])
       (simp_all add: take_detail_id_def act_then_run)
  show "settling now (updateDetail D now j u w)"
    unfolding updateDetail_def Let_def by (intro settling_then readonly_rules save)
  have "settling now (act_then (save_detail
       \<lparr>cd_rowId = i, cd_chargeId = dd_chargeId dto, cd_chargeType = Some (dd_chargeType dto),
        cd_value = Some (dd_value dto), cd_start = dd_start dto, cd_end = dd_end dto,
        cd_min = dd_min dto, cd_max = dd_max dto\<rparr>) (\<lambda>saved.
       then_invalidate now (act_then (markChargePending now (dd_chargeId dto) w) (\<lambda>_. act_ok saved))))" for i
    using save[of "\<lparr>cd_rowId = i, cd_chargeId = dd_chargeId dto, cd_chargeType = Some (dd_chargeType dto),
        cd_value = Some (dd_value dto), cd_start = dd_start dto, cd_end = dd_end dto,
        cd_min = dd_min dto, cd_max = dd_max dto\<rparr>"] by simp
  then show "settling now (createDetail D now dto w)"
    unfolding createDetail_def by (intro settling_then[OF readonly_rules(3)] take)
qed

lemma find_detail_Some: "find_detail i s = Some d \<Longrightarrow> d \<in> set (ct_details (st_tables s)) \<and> cd_rowId d = i"
  by (auto simp: find_detail_def dest: find_in)

lemma settling_deleteDetail: "settling now (deleteDetail now j w)"
  unfolding settling_def
proof (intro allI impI)
  fix s r t assume ok: "charge_constraints (st_tables s)" and run: "deleteDetail now j w s = (r, t)"
  show "settles now s r t"
  proof (cases "find_detail j s")
    case None
    with run show ?thesis by (auto simp: deleteDetail_def act_eval settles_def)
  next
    case (Some d)
    let ?m = "commit_tables (\<lambda>tb. tb\<lparr>ct_details := filter (\<lambda>x. cd_rowId x \<noteq> j) (ct_details tb)\<rparr>)"
    have parent: "cd_chargeId d \<in> cg_chargeId ` set (ct_charges (st_tables s))"
      using ok find_detail_Some[OF Some] by (auto simp: charge_constraints_def list_all_iff)
    let ?bad = "\<lambda>s. (case find_charge (cd_chargeId d) s of None \<Rightarrow> False | Some c \<Rightarrow> cg_status c = Some 1) \<or>
         list_ex (\<lambda>k. kc_chargeId k = cd_chargeId d \<and> kc_status k = 1) (ct_keywords (st_tables s))"
    show ?thesis
    proof (cases "?bad s")
      case True
      with run Some show ?thesis by (auto simp: deleteDetail_def act_eval settles_def)
    next
      case False
      let ?k = "act_then ?m (\<lambda>_. then_invalidate now (act_then (markChargePending now (cd_chargeId d) w) (\<lambda>_. act_ok ())))"
      from run Some False have run': "?k s = (r, t)"
        unfolding deleteDetail_def by (simp only: act_then_found[where f = "find_detail j", OF Some] act_then_accept[where bad = ?bad and s = s, OF False])
      show ?thesis
      proof (cases "fst (?m s)")
        case (Inl e)
        with run' show ?thesis by (auto simp: act_then_run commit_tables_def settles_def split: if_splits)
      next
        case (Inr x)
        then obtain u where u: "?m s = (Inr x, u)" by (cases "?m s") auto
        then have "charge_constraints (st_tables u)" "cd_chargeId d \<in> cg_chargeId ` set (ct_charges (st_tables u))"
          and c: "st_cache u = st_cache s"
          using parent by (auto simp: commit_tables_def split: if_splits)
        from mark_succeeds[OF this(1,2)] obtain y v where
          "markChargePending now (cd_chargeId d) w u = (Inr y, v)" "st_cache v = st_cache u" by blast
        with run' u c show ?thesis
          by (auto simp: act_then_def then_invalidate_def act_write_def act_ok_def settles_def)
      qed
    qed
  qed
qed

lemma run_charge_op_settles: "settling now (run_charge_op D now p)"
  by (cases p) (simp_all add: settling_void settling_ops settling_detail_ops settling_deleteDetail)

end
