(* ===== verification/ChargeProperties.thy ===== *)
theory ChargeProperties
  imports ChargeSafety
begin

text \<open>
  The properties of charges: which charge a transaction gets, what it costs and who pays, and what
  holds of the tables and the cache after any sequence of requests.
\<close>

section \<open>The machine\<close>

text \<open>A configuration the tables give for a query, at some time and with some wallets.\<close>

definition config_possible :: "charge_tables \<Rightarrow> string \<times> int \<times> string \<Rightarrow> charge_config \<Rightarrow> bool" where
  "config_possible tb q x \<longleftrightarrow> (\<exists>now wt. case q of (k, w, cur) \<Rightarrow>
     load_charge_config now (tb\<lparr>ct_wallets := wt\<rparr>) k w cur = Inr x)"

definition initial_charges :: "wallet_tables \<Rightarrow> charge_state" where
  "initial_charges wt = \<lparr>st_tables = \<lparr>ct_charges = [], ct_details = [], ct_mappings = [], ct_keywords = [],
       ct_wallets = wt\<rparr>,
     st_cache = \<lparr>rd_up = True, rd_version = None, rd_entries = (\<lambda>_. None)\<rparr>,
     st_nextDetail = 1, st_nextMapping = 1, st_nextKeyword = 1\<rparr>"

text \<open>
  Administration requests, configuration requests of transactions, and what happens around them:
  the cache drops entries and other services change the wallets.
\<close>

inductive charge_step :: "decimal_lib \<Rightarrow> charge_state \<Rightarrow> charge_state \<Rightarrow> bool" for D :: decimal_lib where
  charge_admin: "run_charge_op D now p s = (r, t) \<Longrightarrow> charge_step D s t"
| charge_request: "CHR '':'' \<notin> set cur \<Longrightarrow> resolveConfiguration time (st_tables s) k w cur (st_cache s) = (x, c) \<Longrightarrow>
     charge_step D s (s\<lparr>st_cache := c\<rparr>)"
| charge_evict: "(\<And>K. e K = None \<or> e K = rd_entries (st_cache s) K) \<Longrightarrow>
     charge_step D s (s\<lparr>st_cache := (st_cache s)\<lparr>rd_entries := e\<rparr>\<rparr>)"
| charge_wallets: "charge_step D s (s\<lparr>st_tables := (st_tables s)\<lparr>ct_wallets := wt\<rparr>\<rparr>)"

inductive_cases charge_stepE: "charge_step D s t"

abbreviation charge_coherent :: "charge_tables \<Rightarrow> charge_config redis \<Rightarrow> bool" where
  "charge_coherent tb \<equiv> configuration_store.coherent (redis_holds ''charge'') redis_query (config_possible tb)"

definition charge_inv :: "charge_state \<Rightarrow> bool" where
  "charge_inv s \<longleftrightarrow> state_inv s \<and> rd_up (st_cache s) \<and> charge_coherent (st_tables s) (st_cache s)"

lemma trim_subset: "set (trim s) \<subseteq> set s"
  by (auto simp: trim_def dest!: set_dropWhileD)

lemma up_char_colon: "up_char x = CHR '':'' \<Longrightarrow> x = CHR '':''"
proof (rule ccontr)
  assume e: "up_char x = CHR '':''" and n: "x \<noteq> CHR '':''"
  then have low: "is_lower x" and c: "char_of ((of_char x :: nat) - 32) = CHR '':''"
    by (auto simp: up_char_def split: if_splits)
  from low have r: "97 \<le> (of_char x :: nat)" "(of_char x :: nat) \<le> 122"
    by (simp_all add: is_lower_def Let_def)
  have "of_char (char_of ((of_char x :: nat) - 32) :: char) = (58 :: nat)" unfolding c by simp
  with r show False by simp
qed

lemma normal_currency:
  assumes "CHR '':'' \<notin> set cur"
  shows "redis_query (k, w, upper (trim cur))"
proof -
  have "CHR '':'' \<notin> up_char ` set (trim cur)"
    using assms trim_subset[of cur] up_char_colon by (metis imageE subsetD)
  then show ?thesis by (simp add: redis_query_def trim_upper) (simp add: upper_def)
qed

lemma resolveConfiguration_request:
  "resolveConfiguration time tb k w cur c =
     redis_request ''charge'' (k, w, upper (trim cur)) (load_charge_config time tb k w (upper (trim cur))) c"
proof -
  have n: "upper (trim (upper (trim cur))) = upper (trim cur)" by (simp add: trim_upper)
  show ?thesis
    unfolding resolveConfiguration_def redis_request_def cached_configuration_def prod.case Let_def n ..
qed

lemma request_possible:
  "load_charge_config time tb k w cur = Inr x \<Longrightarrow> config_possible tb (k, w, cur) x"
  unfolding config_possible_def by (intro exI[of _ time] exI[of _ "ct_wallets tb"]) simp

lemma charge_step_inv:
  assumes inv: "charge_inv s" and st: "charge_step D s t"
  shows "charge_inv t"
  using st
proof (cases rule: charge_step.cases)
  case (charge_admin now p r)
  have si: "state_inv t" using keepsD[OF run_charge_op_keeps charge_admin] inv
    by (simp add: preserving_def charge_inv_def)
  have st: "settles now s r t" using run_charge_op_settles[of now D p] inv charge_admin
    by (simp add: settling_def charge_inv_def state_inv_def)
  show ?thesis
  proof (cases r)
    case (Inl e)
    with st si inv show ?thesis by (simp add: settles_def charge_inv_def)
  next
    case (Inr u)
    with st have c: "st_cache t = invalidateCache now (st_cache s)" by (simp add: settles_def)
    have up: "rd_up (st_cache s)" using inv by (simp add: charge_inv_def)
    show ?thesis
      unfolding charge_inv_def c using si up redis_store.invalidate_live redis_store.coherent_invalidate[OF up] by auto
  qed
next
  case (charge_request cur time k w x c)
  note rq = charge_request(3)[unfolded resolveConfiguration_request]
  show ?thesis
    using inv redis_store.coherent_request[OF normal_currency[OF charge_request(2)] rq] redis_store.request_live[OF rq] request_possible
    by (auto simp: charge_inv_def charge_request(1) state_inv_def)
next
  case (charge_evict e)
  have "redis_holds ''charge'' (st_cache s) q x"
    if "redis_holds ''charge'' ((st_cache s)\<lparr>rd_entries := e\<rparr>) q x" for q x
    using that charge_evict(2)[of "cache_key ''charge'' (cache_version (st_cache s)) (fst q) (fst (snd q)) (snd (snd q))"]
    by (cases q) (simp add: redis_holds_def)
  with inv show ?thesis
    by (auto simp: charge_evict(1) charge_inv_def state_inv_def redis_store.coherent_def)
next
  case (charge_wallets wt)
  then show ?thesis using inv
    by (auto simp: charge_inv_def state_inv_def charge_constraints_def checked_tables_def
        intro: redis_store.coherent_mono simp: config_possible_def)
qed

lemma charge_inv_init: "charge_inv (initial_charges wt)"
  by (simp add: charge_inv_def state_inv_def initial_charges_def charge_constraints_def checked_tables_def
      redis_store.coherent_def redis_holds_def split: prod.splits)

interpretation charge_machine: machine "charge_step D" "initial_charges wt" charge_inv for D wt
  by unfold_locales (rule charge_inv_init, rule charge_step_inv)

section \<open>A concrete configuration\<close>

text \<open>Charge 7 is expired on day 100 and falls back to charge 8, a percentage with a range.\<close>

definition sample_charge :: "int \<Rightarrow> js_date option \<Rightarrow> int option \<Rightarrow> charge" where
  "sample_charge i e d = \<lparr>cg_chargeId = i, cg_chargeType = Some 1, cg_expiryOn = e, cg_status = Some 1,
     cg_default = d, cg_createdBy = Some ''ann'', cg_modifiedBy = None, cg_approvedBy = Some ''bob'',
     cg_createdDate = None, cg_modifiedDate = None, cg_approvedDate = None, cg_description = None\<rparr>"

definition sample_detail :: charge_detail where
  "sample_detail = \<lparr>cd_rowId = 1, cd_chargeId = 8, cd_chargeType = Some ''percentage'', cd_value = Some ''2'',
     cd_start = Some ''0'', cd_end = Some ''1000'', cd_min = Some ''1'', cd_max = Some ''50''\<rparr>"

definition sample_keyword :: keyword_charge where
  "sample_keyword = \<lparr>kc_rowId = 1, kc_keywordChargeId = 5, kc_keyword = ''PAY'', kc_chargeId = 7,
     kc_payer = Some ''D'', kc_description = None, kc_createdBy = None, kc_modifiedBy = None,
     kc_approvedBy = None, kc_isDefault = 0, kc_walletId = 1, kc_status = 1\<rparr>"

definition sample_mapping :: charge_mapping where
  "sample_mapping = \<lparr>cm_rowId = 1, cm_keywordChargeId = 5, cm_description = None, cm_isDefault = 0,
     cm_status = Some 1, cm_createdBy = None, cm_modifiedBy = None, cm_approvedBy = None, cm_operation = None\<rparr>"

definition sample_wallets :: wallet_tables where
  "sample_wallets = \<lparr>wt_wallets = [\<lparr>sw_msisdn = ''113'', sw_code = Some 113, sw_currency = ''UGX''\<rparr>],
     wt_types = [\<lparr>swt_id = 113, swt_name = None, swt_details = None\<rparr>]\<rparr>"

definition sample_charges :: "charge list" where
  "sample_charges = [sample_charge 7 (Some (Day 100)) (Some 8), sample_charge 8 None None]"

definition sample_tables :: charge_tables where
  "sample_tables = \<lparr>ct_charges = sample_charges, ct_details = [sample_detail], ct_mappings = [sample_mapping],
     ct_keywords = [sample_keyword], ct_wallets = sample_wallets\<rparr>"

lemmas charge_samples = sample_charge_def sample_detail_def sample_keyword_def sample_mapping_def
  sample_wallets_def sample_charges_def sample_tables_def

lemma sample_resolve: "resolveCharge 8726400000 sample_charges 7 [] = Inr (sample_charge 8 None None)"
  by (simp add: charge_samples resolveCharge.simps active_charge_def end_of_day_def)

definition sample_config :: charge_config where
  "sample_config = \<lparr>cf_keywordCharge = sample_keyword, cf_mapping = sample_mapping,
     cf_charge = sample_charge 8 None None, cf_details = [sample_detail],
     cf_wallet = (\<lparr>sw_msisdn = ''113'', sw_code = Some 113, sw_currency = ''UGX''\<rparr>,
       \<lparr>swt_id = 113, swt_name = None, swt_details = None\<rparr>)\<rparr>"

lemma sample_load:
  "load_charge_config 8726400000 sample_tables ''PAY'' 1 ''UGX'' = Inr sample_config"
proof -
  have w: "resolveSystemWallet sample_wallets 113 ''UGX'' = Inr (cf_wallet sample_config)"
    by (simp add: resolveSystemWallet_def system_wallets_def wallet_type_def sample_wallets_def sample_config_def
        upper_def up_char_def char_defs)
  have k: "resolveKeywordCharge [sample_keyword] ''PAY'' 1 = Inr sample_keyword"
    by (simp add: resolveKeywordCharge_def validatePayer_def trimmed_payer_def sample_keyword_def char_defs)
  have m: "resolveActiveMapping [sample_mapping] 5 = Inr sample_mapping"
    by (simp add: resolveActiveMapping_def sample_mapping_def)
  have f: "kc_keywordChargeId sample_keyword = 5" "kc_chargeId sample_keyword = 7"
    "cg_chargeId (sample_charge 8 None None) = 8" "cd_chargeId sample_detail = 8"
    by (simp_all add: sample_keyword_def sample_charge_def sample_detail_def)
  show ?thesis
    by (simp add: load_charge_config_def sample_tables_def k m f sample_resolve w) (simp add: sample_config_def)
qed

section \<open>Which charge applies and what it costs\<close>

text \<open>
  C15 \<open>resolveCharge\<close> terminates on every table, cyclic defaults included, and what it returns is exactly
  what following the defaults of expired charges leads to: it returns a charge if and only if a chain of
  active, expired charges ends in an active one that has not expired.
\<close>
theorem resolveCharge_exact:
  "resolveCharge now cs i [] = Inr c \<longleftrightarrow> (\<exists>n. resolves now cs n i c)"
  by (rule resolveCharge_iff)

text \<open>
  C16 For a configuration loaded from the tables and details with decimal columns, a successful
  calculation for a positive amount of whole cents charges a non-negative number of cents, credits exactly
  it to the charge wallet, never takes more than the amount from a destination, and splits the amount
  without loss: the source pays and the destination receives amounts that differ by the charge.
\<close>
theorem legacy_charge_conserves:
  assumes "decimal D" and "load_charge_config now tb k w cur = Inr cf"
    and "list_all numeric_detail (ct_details tb)"
    and "legacy_charge D q (Fin a) cf = Inr r" and "is_cents a" and "0 < a"
  shows "\<exists>c. is_cents c \<and> 0 \<le> c \<and> cr_chargeAmount r = money_text c \<and>
     cw_amount (cr_chargeWallet r) = money_text c \<and> (cr_payer r = PartyD \<longrightarrow> c \<le> a) \<and>
     (a + c < 10 ^ 28 \<longrightarrow>
        (if cr_payer r = PartyS
         then cr_sourceDebitAmount r = money_text (a + c) \<and> cr_destinationCreditAmount r = money_text a
         else cr_sourceDebitAmount r = money_text a \<and> cr_destinationCreditAmount r = money_text (a - c)))"
proof -
  note cf = load_charge_config_facts[OF assms(2)]
  from assms(3) cf have num: "list_all numeric_detail (cf_details cf)" by (auto simp: list_all_iff)
  from cf have payer: "trimmed_payer (cf_keywordCharge cf) = Some ''S'' \<or> trimmed_payer (cf_keywordCharge cf) = Some ''D''"
    by blast
  from decimal.legacy_charge_amounts[OF assms(1,4) num payer assms(5,6)] obtain c where
    c: "is_cents c" "0 \<le> c" "cr_chargeAmount r = money_text c" "cw_amount (cr_chargeWallet r) = money_text c"
    "cr_payer r = PartyD \<Longrightarrow> c \<le> a"
    "a + c < 10 ^ 28 \<Longrightarrow> cr_payer r = PartyS \<Longrightarrow>
       cr_sourceDebitAmount r = money_text (a + c) \<and> cr_destinationCreditAmount r = money_text a"
    "a + c < 10 ^ 28 \<Longrightarrow> cr_payer r = PartyD \<Longrightarrow>
       cr_sourceDebitAmount r = money_text a \<and> cr_destinationCreditAmount r = money_text (a - c)" by metis
  then show ?thesis by (intro exI[of _ c]) (cases "cr_payer r"; simp)
qed

definition sample_request :: charge_request where
  "sample_request = \<lparr>cq_transactionId = ''t1'', cq_keyword = ''PAY'', cq_walletId = 1, cq_sourceWalletType = None,
     cq_destinationWalletType = None, cq_currency = None, cq_amount = ''100''\<rparr>"

lemmas literal_defs = decimal_literal_def unsigned_literal_def is_digit_def Let_def exponent_part_def
  digits_nat_def digit_val_def pow10_def

lemma sample_literals: "decimal_literal ''0'' = Some 0" "decimal_literal ''1'' = Some 1"
  "decimal_literal ''2'' = Some 2" "decimal_literal ''50'' = Some 50" "decimal_literal ''1000'' = Some 1000"
  by (simp_all add: literal_defs)

lemma sample_new: "decimal_literal s = Some q \<Longrightarrow> charge_money decimal_ref (Some s) f = Inr (Fin q)"
  by (simp add: charge_money_def dref.new_literal)

lemma sample_legacy:
  "\<exists>r. legacy_charge decimal_ref sample_request (Fin 100) sample_config = Inr r \<and> cr_payer r = PartyD"
proof -
  have d: "resolveDetail decimal_ref (sample_charge 8 None None) (Fin 100) [sample_detail] = Inr sample_detail"
    by (simp add: resolveDetail_def headerType_def sample_charge_def detail_matches_def sample_detail_def
        sample_new sample_literals dref.d_simps)
  have t: "detailType (Some ''percentage'') = Inr DPercent"
    by (simp add: detailType_def null_text_def lower_def low_char_def char_defs)
  have v: "cd_value sample_detail = Some ''2''" "cd_min sample_detail = Some ''1''" "cd_max sample_detail = Some ''50''"
    "cd_chargeType sample_detail = Some ''percentage''" by (simp_all add: sample_detail_def)
  obtain x where x: "calculateDetail decimal_ref sample_detail (Fin 100) = Inr (Fin x)" "x \<le> 50"
  proof
    show "calculateDetail decimal_ref sample_detail (Fin 100)
        = Inr (Fin (round2 (max 1 (min 50 (sig30 (sig30 (100 * 2) / 100))))))"
      by (simp add: calculateDetail_def v t sample_new sample_literals dref.d_simps)
    have "round2 (max 1 (min 50 (sig30 (sig30 (100 * 2) / 100)))) \<le> round2 50" by (intro round2_mono) simp
    also have "round2 (50::rat) = 50" by (simp add: is_cents_def)
    finally show "round2 (max 1 (min 50 (sig30 (sig30 (100 * 2) / 100)))) \<le> (50::rat)" .
  qed
  have p: "trimmed_payer sample_keyword = Some ''D''"
    by (simp add: trimmed_payer_def sample_keyword_def char_defs)
  show ?thesis
    using x by (simp add: legacy_charge_def sample_config_def d Let_def p v t sample_new sample_literals dref.d_simps)
qed

theorem legacy_charge_conserves_witness:
  "\<exists>r c. legacy_charge decimal_ref sample_request (Fin 100) sample_config = Inr r \<and> 0 \<le> c \<and> c \<le> 100 \<and>
     cr_chargeAmount r = money_text c \<and> cr_destinationCreditAmount r = money_text (100 - c)"
proof -
  obtain r where r: "legacy_charge decimal_ref sample_request (Fin 100) sample_config = Inr r" "cr_payer r = PartyD"
    using sample_legacy by blast
  have num: "list_all numeric_detail (ct_details sample_tables)"
    by (simp add: sample_tables_def sample_detail_def numeric_detail_def numeric_text_def sample_literals)
  have a: "is_cents (100::rat)" "(0::rat) < 100" by (simp_all add: is_cents_def)
  from legacy_charge_conserves[OF dref.decimal_axioms sample_load num r(1) a] r(2) obtain c :: rat where
    "0 \<le> c" "c \<le> 100" "cr_chargeAmount r = money_text c"
    "100 + c < 10 ^ 28 \<longrightarrow> cr_destinationCreditAmount r = money_text (100 - c)" by auto
  moreover from \<open>c \<le> 100\<close> have "100 + c < 10 ^ 28" by simp
  ultimately show ?thesis using r(1) by blast
qed

text \<open>
  The detail row a charge uses is unambiguous: the only row of a fixed charge, or the one row of a
  ranged charge whose range contains the amount; every other row was checked and does not contain it.
\<close>
theorem resolveDetail_unique:
  assumes "resolveDetail D c amount rows = Inr r"
  shows "(headerType (cg_chargeType c) = Inr HFixed \<and> rows = [r]) \<or>
     (headerType (cg_chargeType c) = Inr HDynamic \<and> r \<in> set rows \<and> detail_matches D amount r = Inr True \<and>
      (\<forall>x \<in> set rows. x \<noteq> r \<longrightarrow> detail_matches D amount x = Inr False))"
  using assms by (cases rule: resolveDetail_cases) auto

theorem resolveDetail_unique_witness:
  "detail_matches decimal_ref (Fin 100) sample_detail = Inr True"
proof -
  have d: "resolveDetail decimal_ref (sample_charge 8 None None) (Fin 100) [sample_detail] = Inr sample_detail"
    by (simp add: resolveDetail_def headerType_def sample_charge_def detail_matches_def sample_detail_def
        sample_new sample_literals dref.d_simps)
  have h: "headerType (cg_chargeType (sample_charge 8 None None)) \<noteq> Inr HFixed"
    by (simp add: headerType_def sample_charge_def)
  from resolveDetail_unique[OF d] h show ?thesis by blast
qed

section \<open>What holds after any requests\<close>

definition sample_create :: create_charge_dto where
  "sample_create = \<lparr>cc_chargeId = 3, cc_chargeType = 0, cc_expiryOn = None, cc_default = None,
     cc_description = None, cc_maker = ''ann''\<rparr>"

definition sample_reached :: charge where
  "sample_reached = \<lparr>cg_chargeId = 3, cg_chargeType = Some 0, cg_expiryOn = None, cg_status = Some 1,
     cg_default = None, cg_createdBy = Some ''ann'', cg_modifiedBy = None, cg_approvedBy = Some ''bob'',
     cg_createdDate = Some 5, cg_modifiedDate = None, cg_approvedDate = Some 6, cg_description = None\<rparr>"

lemmas charge_run_defs = createCharge_def approveCharge_def validateExpiryPair_def then_invalidate_def
  save_charge_def commit_tables_def upsert_def find_charge_def charge_constraints_def act_void_def act_eval

text \<open>One administrator creates a charge, another approves it.\<close>

lemma charge_reachable:
  "\<exists>s. reach (charge_step D) (initial_charges wt) s \<and> ct_charges (st_tables s) = [sample_reached] \<and> rd_up (st_cache s)"
proof -
  let ?s1 = "snd (run_charge_op D 5 (CreateCharge sample_create) (initial_charges wt))"
  let ?s2 = "snd (run_charge_op D 6 (ApproveCharge 3 ''bob'') ?s1)"
  have s1: "ct_charges (st_tables ?s1) = [sample_reached\<lparr>cg_status := Some 0, cg_approvedBy := None, cg_approvedDate := None\<rparr>]"
    "ct_details (st_tables ?s1) = []" "ct_mappings (st_tables ?s1) = []" "ct_keywords (st_tables ?s1) = []"
    "rd_up (st_cache ?s1)"
    by (simp_all add: charge_run_defs initial_charges_def sample_create_def sample_reached_def invalidateCache_def)
  have ne: "assertDifferentChecker ''bob'' (maker_of None (Some ''ann'')) = Inr ()"
    by (simp add: assertDifferentChecker_def maker_of_def lower_def low_char_def char_defs)
  have s2: "ct_charges (st_tables ?s2) = [sample_reached]" "rd_up (st_cache ?s2)"
    using s1 ne by (simp_all add: charge_run_defs sample_reached_def invalidateCache_def del: run_charge_op.simps(1))
  have "reach (charge_step D) (initial_charges wt) ?s2"
    by (rule reach_step, rule reach_step, rule reach_init)
       (rule charge_admin[of D _ _ _ "fst _"], rule prod.collapse[symmetric])+
  with s2 show ?thesis by blast
qed

text \<open>
  C17 Four eyes: after any sequence of requests every active charge, charge mapping and keyword charge
  carries an approver who is not the one who last changed it (or created it, if it was never changed).
\<close>
theorem charge_four_eyes:
  assumes "reach (charge_step D) (initial_charges wt) s"
  shows "(\<forall>c \<in> set (ct_charges (st_tables s)). approved_by_other (cg_status c = Some 1) (cg_approvedBy c)
            (cg_modifiedBy c) (cg_createdBy c)) \<and>
     (\<forall>m \<in> set (ct_mappings (st_tables s)). approved_by_other (cm_status m = Some 1) (cm_approvedBy m)
            (cm_modifiedBy m) (cm_createdBy m)) \<and>
     (\<forall>k \<in> set (ct_keywords (st_tables s)). approved_by_other (kc_status k = 1) (kc_approvedBy k)
            (kc_modifiedBy k) (kc_createdBy k))"
  using charge_machine.reach_inv[OF assms]
  by (simp add: charge_inv_def state_inv_def checked_tables_def checked_charge_def checked_mapping_def checked_keyword_def)

theorem charge_four_eyes_witness:
  "\<exists>s c. reach (charge_step decimal_ref) (initial_charges sample_wallets) s \<and> c \<in> set (ct_charges (st_tables s)) \<and>
     cg_status c = Some 1 \<and> approved_by_other (cg_status c = Some 1) (cg_approvedBy c) (cg_modifiedBy c) (cg_createdBy c)"
proof -
  obtain s where s: "reach (charge_step decimal_ref) (initial_charges sample_wallets) s"
    "ct_charges (st_tables s) = [sample_reached]" using charge_reachable by blast
  moreover have "cg_status sample_reached = Some 1" by (simp add: sample_reached_def)
  ultimately show ?thesis
    using charge_four_eyes[OF s(1)] by (intro exI[of _ s] exI[of _ sample_reached]) simp
qed

text \<open>
  C18 The cache never serves a stale configuration: in every state reached while Redis answers, a request
  gets an error the tables give now, or a configuration that loading it from the current charge tables gives
  (at some time and wallet table, the two things a cached entry may lag behind).
\<close>
theorem charge_cache_coherent:
  assumes "reach (charge_step D) (initial_charges wt) s" and "CHR '':'' \<notin> set cur"
    and "resolveConfiguration time (st_tables s) k w cur (st_cache s) = (Inr cf, c)"
  shows "\<exists>time' wt'. load_charge_config time' ((st_tables s)\<lparr>ct_wallets := wt'\<rparr>) k w (upper (trim cur)) = Inr cf"
proof -
  have "charge_coherent (st_tables s) (st_cache s)"
    using charge_machine.reach_inv[OF assms(1)] by (simp add: charge_inv_def)
  from redis_store.coherent_answer[OF normal_currency[OF assms(2)]
      assms(3)[unfolded resolveConfiguration_request] this request_possible]
  show ?thesis by (simp add: config_possible_def)
qed

definition run_ops :: "decimal_lib \<Rightarrow> charge_op list \<Rightarrow> charge_state \<Rightarrow> charge_state" where
  "run_ops D ps s = foldl (\<lambda>s p. snd (run_charge_op D 5 p s)) s ps"

lemma run_ops_reach: "reach (charge_step D) s0 s \<Longrightarrow> reach (charge_step D) s0 (run_ops D ps s)"
  unfolding run_ops_def
proof (induction ps arbitrary: s)
  case (Cons p ps)
  have "charge_step D s (snd (run_charge_op D 5 p s))"
    by (rule charge_admin[of D 5 p s "fst (run_charge_op D 5 p s)"]) simp
  from Cons.IH[OF reach_step[OF Cons.prems this]] show ?case by simp
qed simp

definition sample_ops :: "charge_op list" where
  "sample_ops = [CreateCharge sample_create,
     CreateDetail \<lparr>dd_chargeId = 3, dd_chargeType = ''0'', dd_value = ''2'', dd_start = None, dd_end = None,
       dd_min = None, dd_max = None\<rparr> ''ann'',
     ApproveCharge 3 ''bob'',
     CreateMapping \<lparr>md_keywordChargeId = 5, md_description = None, md_isDefault = 0\<rparr> ''ann'',
     ApproveMapping 1 ''bob'',
     CreateKeyword \<lparr>kd_keywordChargeId = 5, kd_keyword = ''PAY'', kd_chargeId = 3, kd_payer = ''S'',
       kd_description = None, kd_isDefault = 0, kd_walletId = 1\<rparr> ''ann'',
     ApproveKeyword 1 ''bob'']"

lemma sample_ops_config:
  "\<exists>cf c. resolveConfiguration 0 (st_tables (run_ops decimal_ref sample_ops (initial_charges sample_wallets))) ''PAY'' 1 ''UGX''
     (st_cache (run_ops decimal_ref sample_ops (initial_charges sample_wallets))) = (Inr cf, c)"
proof -
  have ne: "assertDifferentChecker ''bob'' (maker_of None (Some ''ann'')) = Inr ()"
    "assertDifferentChecker ''bob'' (maker_of (Some ''ann'') (Some ''ann'')) = Inr ()"
    by (simp_all add: assertDifferentChecker_def maker_of_def lower_def low_char_def char_defs)
  have v: "validateDetailDto decimal_ref (Some ''0'') (Some ''2'') None None = Inr ()"
    by (simp add: validateDetailDto_def detailType_def null_text_def lower_def low_char_def char_defs
        sample_new sample_literals dref.d_simps)
  have n: "upper (trim ''UGX'') = ''UGX''" by (simp add: upper_def up_char_def char_defs)
  have w: "resolveSystemWallet sample_wallets 113 ''UGX'' = Inr (cf_wallet sample_config)"
    by (simp add: resolveSystemWallet_def system_wallets_def wallet_type_def sample_wallets_def sample_config_def
        upper_def up_char_def char_defs)
  have p: "trim ''S'' = ''S''" by (simp add: char_defs)
  show ?thesis
    by (simp add: run_ops_def sample_ops_def charge_run_defs initial_charges_def sample_create_def invalidateCache_def
        ne v createDetail_def take_detail_id_def save_detail_def markChargePending_def pending_charge_def
        createMapping_def take_mapping_id_def save_mapping_def approveMapping_def getMapping_def find_mapping_def
        createKeywordCharge_def take_keyword_id_def save_keyword_def approveKeywordCharge_def getKeywordCharge_def
        find_keyword_def resolveConfiguration_def cached_configuration_def Let_def n cacheGet_def
        load_charge_config_def resolveKeywordCharge_def validatePayer_def trimmed_payer_def p resolveActiveMapping_def
        resolveCharge.simps active_charge_def w)
qed

theorem charge_cache_coherent_witness:
  "\<exists>s time cf c time' wt'. reach (charge_step decimal_ref) (initial_charges sample_wallets) s \<and>
     resolveConfiguration time (st_tables s) ''PAY'' 1 ''UGX'' (st_cache s) = (Inr cf, c) \<and>
     load_charge_config time' ((st_tables s)\<lparr>ct_wallets := wt'\<rparr>) ''PAY'' 1 (upper (trim ''UGX'')) = Inr cf"
proof -
  obtain cf c where r: "resolveConfiguration 0 (st_tables (run_ops decimal_ref sample_ops (initial_charges sample_wallets)))
     ''PAY'' 1 ''UGX'' (st_cache (run_ops decimal_ref sample_ops (initial_charges sample_wallets))) = (Inr cf, c)"
    using sample_ops_config by blast
  have re: "reach (charge_step decimal_ref) (initial_charges sample_wallets)
      (run_ops decimal_ref sample_ops (initial_charges sample_wallets))" by (rule run_ops_reach[OF reach_init])
  have "CHR '':'' \<notin> set ''UGX''" by simp
  from charge_cache_coherent[OF re this r] re r show ?thesis by blast
qed

definition move_detail :: update_detail_dto where
  "move_detail = \<lparr>ud_chargeId = Some 4, ud_chargeType = None, ud_value = None, ud_start = None, ud_end = None,
     ud_min = None, ud_max = None\<rparr>"

definition details_of :: "charge_state \<Rightarrow> int \<Rightarrow> charge_detail list" where
  "details_of s i = filter (\<lambda>d. cd_chargeId d = i) (ct_details (st_tables s))"

text \<open>
  The four-eyes rule does not cover the details of a charge: from a reachable state one administrator
  alone can take the details away from an approved, active charge, because updating a detail may change its
  charge and only the new charge is marked pending.
\<close>
theorem active_charge_loses_details:
  "\<exists>s t r. reach (charge_step decimal_ref) (initial_charges sample_wallets) s \<and>
     updateDetail decimal_ref 5 1 move_detail ''ann'' s = (Inr r, t) \<and>
     (\<exists>c. find_charge 3 s = Some c \<and> find_charge 3 t = Some c \<and> cg_status c = Some 1) \<and>
     details_of s 3 \<noteq> [] \<and> details_of t 3 = []"
proof -
  let ?ops = "[CreateCharge sample_create,
     CreateDetail \<lparr>dd_chargeId = 3, dd_chargeType = ''0'', dd_value = ''2'', dd_start = None, dd_end = None,
       dd_min = None, dd_max = None\<rparr> ''ann'',
     ApproveCharge 3 ''bob'', CreateCharge (sample_create\<lparr>cc_chargeId := 4\<rparr>)]"
  let ?s = "run_ops decimal_ref ?ops (initial_charges sample_wallets)"
  have ne: "assertDifferentChecker ''bob'' (maker_of (Some ''ann'') (Some ''ann'')) = Inr ()"
    by (simp add: assertDifferentChecker_def maker_of_def lower_def low_char_def char_defs)
  have v: "validateDetailDto decimal_ref (Some ''0'') (Some ''2'') None None = Inr ()"
    "validateDetailDto decimal_ref (Some ''0'') (Some ''2'') (Some None) (Some None) = Inr ()"
    by (simp_all add: validateDetailDto_def detailType_def null_text_def lower_def low_char_def char_defs
        sample_new sample_literals dref.d_simps)
  note defs = run_ops_def charge_run_defs initial_charges_def sample_create_def ne v createDetail_def take_detail_id_def
    save_detail_def markChargePending_def pending_charge_def
  obtain s where s: "s = ?s" by simp
  have st: "ct_charges (st_tables s) = [
      \<lparr>cg_chargeId = 3, cg_chargeType = Some 0, cg_expiryOn = None, cg_status = Some 1, cg_default = None,
       cg_createdBy = Some ''ann'', cg_modifiedBy = Some ''ann'', cg_approvedBy = Some ''bob'', cg_createdDate = Some 5,
       cg_modifiedDate = Some 5, cg_approvedDate = Some 5, cg_description = None\<rparr>,
      \<lparr>cg_chargeId = 4, cg_chargeType = Some 0, cg_expiryOn = None, cg_status = Some 0, cg_default = None,
       cg_createdBy = Some ''ann'', cg_modifiedBy = None, cg_approvedBy = None, cg_createdDate = Some 5,
       cg_modifiedDate = None, cg_approvedDate = None, cg_description = None\<rparr>]"
    "ct_details (st_tables s) = [\<lparr>cd_rowId = 1, cd_chargeId = 3, cd_chargeType = Some ''0'', cd_value = Some ''2'',
       cd_start = None, cd_end = None, cd_min = None, cd_max = None\<rparr>]"
    "ct_mappings (st_tables s) = []" "ct_keywords (st_tables s) = []"
    unfolding s by (simp_all add: defs)
  have re: "reach (charge_step decimal_ref) (initial_charges sample_wallets) s"
    unfolding s by (rule run_ops_reach[OF reach_init])
  have "\<exists>r t. updateDetail decimal_ref 5 1 move_detail ''ann'' s = (Inr r, t) \<and>
     (\<exists>c. find_charge 3 s = Some c \<and> find_charge 3 t = Some c \<and> cg_status c = Some 1) \<and>
     details_of s 3 \<noteq> [] \<and> details_of t 3 = []"
    using st by (simp add: updateDetail_def updated_detail_def given_def move_detail_def find_detail_def Let_def v
        save_detail_def markChargePending_def pending_charge_def charge_run_defs details_of_def)
  with re show ?thesis by blast
qed

end
