(* ===== verification/Commission.thy ===== *)
theory Commission
  imports Charge ChargeAdmin
begin

text \<open>
  The commission of a transaction (\<open>src/modules/transaction/commission.service.ts\<close>): the tables
  (\<open>src/models/commission.model.ts\<close>), \<open>calculate\<close>, and the administration of commissions.
\<close>

section \<open>Tables\<close>

record commission =
  co_id :: int
  co_type :: "int option"
  co_expiryOn :: "js_date option"
  co_status :: "int option"
  co_default :: "int option"
  co_createdBy :: "string option"
  co_modifiedBy :: "string option"
  co_approvedBy :: "string option"
  co_description :: "string option"

text \<open>The value is a double column, the other amounts are money columns and arrive as texts such as \<open>$1,000.00\<close>.\<close>

record commission_detail =
  od_rowId :: nat
  od_commissionId :: int
  od_type :: "string option"
  od_value :: jsval
  od_start :: "string option"
  od_end :: "string option"
  od_min :: "string option"
  od_max :: "string option"

record commission_mapping =
  om_rowId :: nat
  om_keywordCommissionId :: int
  om_status :: "int option"

record keyword_commission =
  ok_rowId :: nat
  ok_keywordCommissionId :: int
  ok_keyword :: string
  ok_commissionId :: int
  ok_receiver :: "string option"
  ok_isDefault :: int
  ok_walletId :: int
  ok_status :: int

record commission_tables =
  ot_commissions :: "commission list"
  ot_details :: "commission_detail list"
  ot_mappings :: "commission_mapping list"
  ot_keywords :: "keyword_commission list"
  ot_wallets :: wallet_tables

record commission_config =
  of_keyword :: keyword_commission
  of_mapping :: commission_mapping
  of_commission :: commission
  of_details :: "commission_detail list"
  of_wallet :: "sw_wallet \<times> sw_type"

section \<open>Field checks\<close>

text \<open>\<open>new Decimal(String(value).replace(/[^0-9.-]/g, ''))\<close>\<close>

definition numeric_chars :: "string \<Rightarrow> string" where
  "numeric_chars s = filter (\<lambda>c. is_digit c \<or> c = CHR ''.'' \<or> c = CHR ''-'') s"

definition commission_decimal :: "decimal_lib \<Rightarrow> string \<Rightarrow> string \<Rightarrow> dec res" where
  "commission_decimal D text field = (case d_new D (numeric_chars text) of
     None \<Rightarrow> Inl (BadRequest (field @ '' must be a valid decimal''))
   | Some x \<Rightarrow> Inr x)"

definition commission_header :: "int option \<Rightarrow> header_type res" where
  "commission_header v = (if v = Some 0 then Inr HFixed else if v = Some 1 then Inr HDynamic
     else Inl (BadRequest ''Unsupported commission header type''))"

definition commission_detail_type :: "string option \<Rightarrow> detail_type res" where
  "commission_detail_type v =
     (let t = lower (trim (null_text v))
      in if t = ''0'' \<or> t = ''flat'' then Inr DFlat
         else if t = ''1'' \<or> t = ''perc'' \<or> t = ''percent'' \<or> t = ''percentage'' then Inr DPercent
         else Inl (BadRequest ''Unsupported commission detail type''))"

section \<open>Resolving the configuration\<close>

definition find_commission :: "commission list \<Rightarrow> int \<Rightarrow> commission option" where
  "find_commission cs i = find (\<lambda>c. co_id c = i) cs"

definition commission_approved :: "commission \<Rightarrow> bool" where
  "commission_approved c = (case co_approvedBy c of None \<Rightarrow> False | Some a \<Rightarrow> a \<noteq> [])"

text \<open>The comparison with an invalid date is false, so an unreadable expiry counts as expired.\<close>

definition commission_valid :: "int \<Rightarrow> js_date \<Rightarrow> bool" where
  "commission_valid now e = (case e of InvalidDate \<Rightarrow> False | Day d \<Rightarrow> now \<le> end_of_day d)"

function resolveCommission :: "int \<Rightarrow> commission list \<Rightarrow> int \<Rightarrow> int list \<Rightarrow> commission res" where
  "resolveCommission now cs i visited =
     (if i \<in> set visited then Inl (Conflict ''Circular default commission configuration detected'')
      else case find_commission cs i of
        None \<Rightarrow> Inl (NotFound (''Approved commission '' @ int_str i @ '' not found''))
      | Some c \<Rightarrow>
         if \<not> commission_approved c then Inl (NotFound (''Approved commission '' @ int_str i @ '' not found''))
         else (case (co_expiryOn c, co_default c) of
            (None, None) \<Rightarrow> Inr c
          | (Some e, Some d) \<Rightarrow>
              if d = co_id c \<or> commission_valid now e then Inr c
              else resolveCommission now cs d (i # visited)
          | _ \<Rightarrow> Inl (BadRequest ''Expiry and default commission must be configured together'')))"
  by pat_completeness auto

termination
proof (relation "measure (\<lambda>(now, cs, i, visited). card (co_id ` set cs - set visited))")
  fix now i visited c e d and cs :: "commission list"
  assume "i \<notin> set visited" "find_commission cs i = Some c"
  then have "i \<in> co_id ` set cs - set visited"
    by (auto simp: find_commission_def find_Some_iff)
  moreover have "finite (co_id ` set cs - set visited)" by simp
  ultimately have "card (co_id ` set cs - set visited - {i}) < card (co_id ` set cs - set visited)"
    by (intro card_Diff1_less)
  moreover have "co_id ` set cs - set (i # visited) = co_id ` set cs - set visited - {i}" by auto
  ultimately show "((now, cs, d, i # visited), now, cs, i, visited) \<in>
      measure (\<lambda>(now, cs, i, visited). card (co_id ` set cs - set visited))"
    unfolding in_measure prod.case by (simp only:)
qed simp

declare resolveCommission.simps [simp del]

definition keyword_commission_of :: "keyword_commission list \<Rightarrow> string \<Rightarrow> int \<Rightarrow> keyword_commission res" where
  "keyword_commission_of ks keyword walletId =
     (case filter (\<lambda>k. ok_keyword k = keyword \<and> ok_walletId k = walletId \<and> ok_status k = 1) ks of
        [k] \<Rightarrow> Inr k
      | _ # _ # _ \<Rightarrow> Inl (Conflict ''Multiple active commission configurations match keyword and wallet'')
      | [] \<Rightarrow>
        (case filter (\<lambda>k. ok_keyword k = keyword \<and> ok_isDefault k = 1 \<and> ok_status k = 1) ks of
           [k] \<Rightarrow> Inr k
         | _ # _ # _ \<Rightarrow> Inl (Conflict ''Multiple active default commission configurations found'')
         | [] \<Rightarrow> Inl (NotFound ''Active commission configuration not found'')))"

definition resolveMapping :: "commission_mapping list \<Rightarrow> int \<Rightarrow> commission_mapping res" where
  "resolveMapping ms i =
     (case filter (\<lambda>m. om_keywordCommissionId m = i \<and> om_status m = Some 1) ms of
        [m] \<Rightarrow> Inr m
      | [] \<Rightarrow> Inl (NotFound ''Active commission mapping not found'')
      | _ \<Rightarrow> Inl (Conflict ''Multiple active commission mappings found''))"

definition load_commission_config :: "int \<Rightarrow> commission_tables \<Rightarrow> string \<Rightarrow> int \<Rightarrow> string \<Rightarrow> commission_config res" where
  "load_commission_config now tb keyword walletId currency =
     await (keyword_commission_of (ot_keywords tb) keyword walletId) (\<lambda>k.
     await (resolveMapping (ot_mappings tb) (ok_keywordCommissionId k)) (\<lambda>m.
     await (resolveCommission now (ot_commissions tb) (ok_commissionId k) []) (\<lambda>c.
     await (systemWallet (ot_wallets tb) 114 currency) (\<lambda>w.
       Inr \<lparr>of_keyword = k, of_mapping = m, of_commission = c,
            of_details = filter (\<lambda>d. od_commissionId d = co_id c) (ot_details tb), of_wallet = w\<rparr>))))"

definition commission_configuration :: "int \<Rightarrow> commission_tables \<Rightarrow> string \<Rightarrow> int \<Rightarrow> string \<Rightarrow>
    commission_config redis \<Rightarrow> commission_config res \<times> commission_config redis" where
  "commission_configuration now tb keyword walletId currency cache =
     cached_configuration ''commission'' keyword walletId currency (load_commission_config now tb keyword walletId) cache"

section \<open>The detail that applies and its commission\<close>

text \<open>\<open>amount >= start && amount <= end\<close>: the end is read only when the start matched.\<close>

definition commission_matches :: "decimal_lib \<Rightarrow> dec \<Rightarrow> commission_detail \<Rightarrow> bool res" where
  "commission_matches D amount r =
     await (commission_decimal D (null_text (od_start r)) ''startRange'') (\<lambda>st.
       if d_ge D amount st
       then await (commission_decimal D (null_text (od_end r)) ''endRange'') (\<lambda>en. Inr (d_le D amount en))
       else Inr False)"

definition selectDetail :: "decimal_lib \<Rightarrow> commission \<Rightarrow> commission_detail list \<Rightarrow> dec \<Rightarrow> commission_detail res" where
  "selectDetail D c rows amount =
     (if rows = [] then Inl (NotFound ''Commission details not found'')
      else await (commission_header (co_type c)) (\<lambda>h.
        case h of
          HFixed \<Rightarrow> (case rows of [r] \<Rightarrow> Inr r
            | _ \<Rightarrow> Inl (Conflict ''Fixed commission must have exactly one detail''))
        | HDynamic \<Rightarrow> await (filter_res (commission_matches D amount) rows) (\<lambda>ms.
            case ms of
              [r] \<Rightarrow> Inr r
            | [] \<Rightarrow> Inl (NotFound ''No commission range matches the transaction amount'')
            | _ \<Rightarrow> Inl (Conflict ''Overlapping commission ranges found''))))"

definition commission_amount :: "decimal_lib \<Rightarrow> commission_detail \<Rightarrow> dec \<Rightarrow> dec res" where
  "commission_amount D r amount =
     await (commission_decimal D (js_string (od_value r)) ''commissionValue'') (\<lambda>v.
     await (commission_detail_type (od_type r)) (\<lambda>t.
       case t of
         DFlat \<Rightarrow> Inr (d_dp2 D v)
       | DPercent \<Rightarrow>
           await (commission_decimal D (null_text (od_min r)) ''minCommission'') (\<lambda>mn.
           await (commission_decimal D (null_text (od_max r)) ''maxCommission'') (\<lambda>mx.
             if d_gt D mn mx then Inl (BadRequest ''Invalid commission bounds'')
             else Inr (d_dp2 D (d_max D mn (d_min D mx (d_div D (d_times D amount v) (d_num D 100)))))))))"

section \<open>Calculating\<close>

record commission_result =
  or_transactionId :: string
  or_keyword :: string
  or_walletId :: int
  or_pricingFlow :: "(nat \<times> string) option"
  or_keywordCommissionId :: "int option"
  or_commissionId :: int
  or_commissionDetailId :: nat
  or_receiver :: party
  or_headerType :: "int option"
  or_calculationType :: int
  or_commissionValue :: string
  or_commissionAmount :: string
  or_sourceCredit :: string
  or_destinationCredit :: string
  or_wallet :: charge_wallet

text \<open>The commission wallet is debited: \<open>cw_amount\<close> is its \<open>debitAmount\<close>.\<close>

definition visual_commission :: "decimal_lib \<Rightarrow> commission_tables \<Rightarrow> charge_request \<Rightarrow> flow_record \<Rightarrow> commission_result res" where
  "visual_commission D tb q f =
     await (flow_simulation D (snd f) (cq_amount q) (visual_source (cq_sourceWalletType q) (cq_walletId q))
              (cq_destinationWalletType q)) (\<lambda>s.
     await (systemWallet (ot_wallets tb) (pd_commissionWalletType (snd f)) (request_currency (cq_currency q))) (\<lambda>w.
     await (commission_decimal D (num_str (NumFin (case ps_commissionCalculationValue s of None \<Rightarrow> 0 | Some v \<Rightarrow> v)))
              ''commissionValue'') (\<lambda>v.
       Inr \<lparr>or_transactionId = cq_transactionId q, or_keyword = cq_keyword q, or_walletId = cq_walletId q,
            or_pricingFlow = Some (fr_id (fst f), fr_ruleCode (fst f)), or_keywordCommissionId = None,
            or_commissionId = int (fr_id (fst f)), or_commissionDetailId = fr_id (fst f),
            or_receiver = ps_commissionReceiver s,
            or_headerType = Some (if pp_mode (pd_commission (snd f)) = MFixed then 0 else 1),
            or_calculationType = (if ps_commissionCalculationType s = Some CPercentage then 1 else 0),
            or_commissionValue = money D v, or_commissionAmount = ps_commissionAmount s,
            or_sourceCredit = (if ps_commissionReceiver s = PartyS then ps_commissionAmount s else ''0.00''),
            or_destinationCredit = (if ps_commissionReceiver s = PartyD then ps_commissionAmount s else ''0.00''),
            or_wallet = charge_wallet_of w (ps_commissionAmount s)\<rparr>)))"

definition legacy_commission :: "decimal_lib \<Rightarrow> charge_request \<Rightarrow> dec \<Rightarrow> commission_config \<Rightarrow> commission_result res" where
  "legacy_commission D q amount cf =
     await (selectDetail D (of_commission cf) (of_details cf) amount) (\<lambda>r.
     await (commission_amount D r amount) (\<lambda>c.
       let receiver = map_option trim (ok_receiver (of_keyword cf))
       in if receiver \<noteq> Some ''S'' \<and> receiver \<noteq> Some ''D''
          then Inl (BadRequest ''Commission receiver must be S or D'')
          else await (commission_detail_type (od_type r)) (\<lambda>t.
               await (commission_decimal D (js_string (od_value r)) ''commissionValue'') (\<lambda>v.
            Inr \<lparr>or_transactionId = cq_transactionId q, or_keyword = cq_keyword q, or_walletId = cq_walletId q,
                 or_pricingFlow = None, or_keywordCommissionId = Some (ok_keywordCommissionId (of_keyword cf)),
                 or_commissionId = co_id (of_commission cf), or_commissionDetailId = od_rowId r,
                 or_receiver = (if receiver = Some ''S'' then PartyS else PartyD),
                 or_headerType = co_type (of_commission cf),
                 or_calculationType = (case t of DFlat \<Rightarrow> 0 | DPercent \<Rightarrow> 1),
                 or_commissionValue = money D v, or_commissionAmount = money D c,
                 or_sourceCredit = (if receiver = Some ''S'' then money D c else ''0.00''),
                 or_destinationCredit = (if receiver = Some ''D'' then money D c else ''0.00''),
                 or_wallet = charge_wallet_of (of_wallet cf) (money D c)\<rparr>))))"

definition calculate_commission :: "decimal_lib \<Rightarrow> int \<Rightarrow> pricing_db \<Rightarrow> commission_tables \<Rightarrow> charge_request \<Rightarrow>
    commission_config redis \<Rightarrow> commission_result res \<times> commission_config redis" where
  "calculate_commission D now pdb tb q cache =
     (case commission_decimal D (cq_amount q) ''amount'' of
        Inl e \<Rightarrow> (Inl e, cache)
      | Inr amount \<Rightarrow>
         if d_le D amount (d_num D 0)
         then (Inl (BadRequest ''Transaction amount must be greater than zero''), cache)
         else (case findActive pdb (cq_keyword q) (visual_source (cq_sourceWalletType q) (cq_walletId q))
                      (Some (request_currency (cq_currency q))) (cq_destinationWalletType q) of
             Inl e \<Rightarrow> (Inl e, cache)
           | Inr (Some f) \<Rightarrow> (visual_commission D tb q f, cache)
           | Inr None \<Rightarrow>
              (case commission_configuration now tb (cq_keyword q) (cq_walletId q)
                      (request_currency (cq_currency q)) cache of
                 (Inl e, c) \<Rightarrow> (Inl e, c)
               | (Inr cf, c) \<Rightarrow> (legacy_commission D q amount cf, c))))"

section \<open>Administration\<close>

record commission_state =
  so_tables :: commission_tables
  so_cache :: "commission_config redis"
  so_nextDetail :: nat

definition found_commission :: "int \<Rightarrow> commission_state \<Rightarrow> commission option" where
  "found_commission i s = find_commission (ot_commissions (so_tables s)) i"

definition store_commission :: "commission \<Rightarrow> commission_state \<Rightarrow> commission_state" where
  "store_commission c s = s\<lparr>so_tables := (so_tables s)\<lparr>ot_commissions := upsert co_id c (ot_commissions (so_tables s))\<rparr>\<rparr>"

definition save_commission :: "nat \<Rightarrow> commission \<Rightarrow> (commission_state, commission) act" where
  "save_commission now c = act_then (act_write (store_commission c)) (\<lambda>_.
     act_then (act_write (\<lambda>s. s\<lparr>so_cache := invalidateCache now (so_cache s)\<rparr>)) (\<lambda>_. act_ok c))"

record create_commission_dto =
  no_id :: int
  no_type :: int
  no_description :: "string option"
  no_expiryOn :: "js_date option"
  no_default :: "int option"

definition validateExpiry :: "js_date option \<Rightarrow> int option \<Rightarrow> unit res" where
  "validateExpiry expiry dflt = (if (expiry \<noteq> None) \<noteq> (dflt \<noteq> None)
     then Inl (BadRequest ''Expiry and default commission must be provided together'') else Inr ())"

definition createCommission :: "nat \<Rightarrow> create_commission_dto \<Rightarrow> string \<Rightarrow> (commission_state, commission) act" where
  "createCommission now dto maker =
     act_then (act_refuse (\<lambda>s. found_commission (no_id dto) s \<noteq> None) (Conflict ''Commission ID already exists'')) (\<lambda>_.
     act_then (act_of (validateExpiry (no_expiryOn dto) (no_default dto))) (\<lambda>_.
       save_commission now \<lparr>co_id = no_id dto, co_type = Some (no_type dto), co_expiryOn = no_expiryOn dto,
         co_status = Some 0, co_default = no_default dto, co_createdBy = Some maker, co_modifiedBy = None,
         co_approvedBy = None, co_description = no_description dto\<rparr>))"

definition pending_commission :: "string \<Rightarrow> commission \<Rightarrow> commission" where
  "pending_commission maker c = c\<lparr>co_status := Some 0, co_modifiedBy := Some maker, co_approvedBy := None\<rparr>"

text \<open>
  A money column reads the given text and prints it in its own format (\<open>$1,000.00\<close>); it may refuse the
  text.  What it does is a parameter \<open>M\<close>.
\<close>

definition money_column :: "(string \<Rightarrow> string res) \<Rightarrow> string option \<Rightarrow> string option res" where
  "money_column M v = (case v of None \<Rightarrow> Inr None | Some t \<Rightarrow> await (M t) (\<lambda>u. Inr (Some u)))"

definition stored_detail :: "(string \<Rightarrow> string res) \<Rightarrow> nat \<Rightarrow> detail_dto \<Rightarrow> commission_detail res" where
  "stored_detail M i dto =
     await (money_column M (dd_start dto)) (\<lambda>st. await (money_column M (dd_end dto)) (\<lambda>en.
     await (money_column M (dd_min dto)) (\<lambda>mn. await (money_column M (dd_max dto)) (\<lambda>mx.
       Inr \<lparr>od_rowId = i, od_commissionId = dd_chargeId dto, od_type = Some (dd_chargeType dto),
            od_value = JNum (string_number (dd_value dto)), od_start = st, od_end = en, od_min = mn, od_max = mx\<rparr>))))"

definition createCommissionDetail :: "(string \<Rightarrow> string res) \<Rightarrow> nat \<Rightarrow> detail_dto \<Rightarrow> string \<Rightarrow>
    (commission_state, commission_detail) act" where
  "createCommissionDetail M now dto maker =
     act_then (act_found (found_commission (dd_chargeId dto)) (NotFound ''Parent commission was not found'')) (\<lambda>parent.
     act_then (act_of (commission_detail_type (Some (dd_chargeType dto)))) (\<lambda>t.
     act_then (act_refuse (\<lambda>_. t = DPercent \<and> (dd_min dto = None \<or> dd_max dto = None))
       (BadRequest ''Percentage commission requires minimum and maximum values'')) (\<lambda>_.
     act_then (act_read so_nextDetail) (\<lambda>i.
     act_then (act_of (stored_detail M i dto)) (\<lambda>d.
     act_then (act_write (\<lambda>s. s\<lparr>so_nextDetail := Suc i,
         so_tables := (so_tables s)\<lparr>ot_details := ot_details (so_tables s) @ [d]\<rparr>\<rparr>)) (\<lambda>_.
     act_then (save_commission now (pending_commission maker parent)) (\<lambda>_. act_ok d)))))))"

definition approveCommission :: "nat \<Rightarrow> int \<Rightarrow> string \<Rightarrow> (commission_state, commission) act" where
  "approveCommission now i checker =
     act_then (act_found (found_commission i) (NotFound ''Commission not found'')) (\<lambda>c.
     act_then (act_refuse (\<lambda>s. \<not> list_ex (\<lambda>d. od_commissionId d = i) (ot_details (so_tables s)))
       (Conflict ''Commission requires at least one detail before approval'')) (\<lambda>_.
     act_then (act_refuse (\<lambda>_. map_option (lower \<circ> trim) (maker_of (co_modifiedBy c) (co_createdBy c)) =
         Some (lower (trim checker))) (BadRequest ''Maker and checker must be different administrators'')) (\<lambda>_.
       save_commission now (c\<lparr>co_status := Some 1, co_approvedBy := Some checker\<rparr>))))"

definition deactivateCommission :: "nat \<Rightarrow> int \<Rightarrow> string \<Rightarrow> (commission_state, commission) act" where
  "deactivateCommission now i maker =
     act_then (act_found (found_commission i) (NotFound ''Commission not found'')) (\<lambda>c.
       save_commission now (pending_commission maker c))"

definition listCommissions :: "commission_state \<Rightarrow> commission list" where
  "listCommissions s = sort_key co_id (ot_commissions (so_tables s))"

definition getCommission :: "int \<Rightarrow> (commission_state, commission \<times> commission_detail list) act" where
  "getCommission i = act_then (act_found (found_commission i) (NotFound ''Commission not found'')) (\<lambda>c.
     act_then (act_read (\<lambda>s. filter (\<lambda>d. od_commissionId d = i) (ot_details (so_tables s)))) (\<lambda>ds. act_ok (c, ds)))"

end
