(* ===== verification/CommissionProperties.thy ===== *)
theory CommissionProperties
  imports Commission ChargeProperties
begin

text \<open>
  The properties of commissions: which commission applies, what it pays, and what the administration
  and the cache keep.
\<close>

section \<open>Resolution\<close>

lemma resolveCommission_result:
  "resolveCommission now cs i visited = Inr c \<Longrightarrow> c \<in> set cs \<and> commission_approved c \<and>
     (co_expiryOn c = None \<or> co_default c = Some (co_id c) \<or> (\<exists>e. co_expiryOn c = Some e \<and> commission_valid now e))"
proof (induction now cs i visited rule: resolveCommission.induct)
  case (1 now cs i visited)
  from "1.prems" obtain b where b: "find_commission cs i = Some b" "i \<notin> set visited" "commission_approved b"
    by (auto simp: resolveCommission.simps[of now cs i visited] split: if_splits option.splits)
  then have mem: "b \<in> set cs" by (auto simp: find_commission_def dest: find_in)
  show ?case
  proof (cases "co_expiryOn b")
    case None
    with "1.prems" b mem show ?thesis
      by (auto simp: resolveCommission.simps[of now cs i visited] split: option.splits)
  next
    case (Some e)
    with "1.prems" b obtain d where d: "co_default b = Some d"
      by (auto simp: resolveCommission.simps[of now cs i visited] split: option.splits)
    show ?thesis
    proof (cases "d = co_id b \<or> commission_valid now e")
      case True
      with "1.prems" b Some d have "c = b" by (simp add: resolveCommission.simps[of now cs i visited])
      with True Some d b mem show ?thesis by auto
    next
      case False
      with "1.prems" b Some d have "resolveCommission now cs d (i # visited) = Inr c"
        by (simp add: resolveCommission.simps[of now cs i visited])
      from "1.IH"[OF b(2,1) _ _ Some d False this] b(3) show ?thesis by simp
    qed
  qed
qed

section \<open>Amounts\<close>

text \<open>A column whose text, stripped of everything but digits, dot and minus, is a decimal.\<close>

definition readable :: "string \<Rightarrow> bool" where
  "readable s \<longleftrightarrow> decimal_literal (numeric_chars s) \<noteq> None"

definition readable_detail :: "commission_detail \<Rightarrow> bool" where
  "readable_detail r \<longleftrightarrow> readable (js_string (od_value r)) \<and> readable (null_text (od_min r)) \<and>
     readable (null_text (od_max r))"

context decimal
begin

lemma readable_decimal: "readable s \<Longrightarrow> \<exists>q. commission_decimal D s f = Inr (Fin q) \<and> decimal_literal (numeric_chars s) = Some q"
  using new_literal by (auto simp: readable_def commission_decimal_def)

lemma commission_amount_cases:
  assumes "commission_amount D r (Fin a) = Inr c" and "readable (js_string (od_value r))"
    and "commission_detail_type (od_type r) = Inr DPercent \<Longrightarrow> readable (null_text (od_min r)) \<and> readable (null_text (od_max r))"
  obtains (flat) v where "commission_detail_type (od_type r) = Inr DFlat"
      "decimal_literal (numeric_chars (js_string (od_value r))) = Some v" "c = Fin (round2 v)"
  | (percent) mn mx v where "commission_detail_type (od_type r) = Inr DPercent" "mn \<le> mx"
      "decimal_literal (numeric_chars (null_text (od_min r))) = Some mn"
      "decimal_literal (numeric_chars (null_text (od_max r))) = Some mx"
      "c = Fin (round2 (max mn (min mx (sig30 (sig30 (a * v) / 100)))))"
proof -
  obtain v where v: "commission_decimal D (js_string (od_value r)) ''commissionValue'' = Inr (Fin v)"
    "decimal_literal (numeric_chars (js_string (od_value r))) = Some v"
    using readable_decimal[OF assms(2)] by blast
  from assms(1) v obtain t where t: "commission_detail_type (od_type r) = Inr t"
    by (auto simp: commission_amount_def res_simps)
  show thesis
  proof (cases t)
    case DFlat
    with assms(1) v t show thesis by (intro flat) (auto simp: commission_amount_def d_simps)
  next
    case DPercent
    with assms(3) t have "readable (null_text (od_min r))" "readable (null_text (od_max r))" by auto
    from this[THEN readable_decimal] obtain mn mx where
      m: "commission_decimal D (null_text (od_min r)) ''minCommission'' = Inr (Fin mn)"
        "decimal_literal (numeric_chars (null_text (od_min r))) = Some mn"
        "commission_decimal D (null_text (od_max r)) ''maxCommission'' = Inr (Fin mx)"
        "decimal_literal (numeric_chars (null_text (od_max r))) = Some mx" by blast
    with assms(1) v t DPercent show thesis
      by (intro percent[of mn mx v]) (auto simp: commission_amount_def d_simps split: if_splits)
  qed
qed

end

lemma selectDetail_mem:
  assumes "selectDetail D c rows amount = Inr r"
  shows "r \<in> set rows"
proof -
  from assms obtain h where h: "rows \<noteq> []" "commission_header (co_type c) = Inr h"
    by (auto simp: selectDetail_def res_simps split: if_splits)
  show ?thesis
  proof (cases h)
    case HFixed
    with assms h show ?thesis by (auto simp: selectDetail_def split: list.splits)
  next
    case HDynamic
    with assms h obtain ms where ms: "filter_res (commission_matches D amount) rows = Inr ms"
      "(case ms of [x] \<Rightarrow> Inr x | [] \<Rightarrow> Inl (NotFound ''No commission range matches the transaction amount'')
          | _ \<Rightarrow> Inl (Conflict ''Overlapping commission ranges found'')) = Inr r"
      unfolding selectDetail_def by (auto simp: await_Inr_iff)
    from ms(2) have "ms = [r]" by (cases ms rule: remdups_adj.cases) auto
    with filter_res_Inr_subset[OF ms(1)] show ?thesis by auto
  qed
qed

section \<open>Administration\<close>

text \<open>
  A commission that carries an approver is active, was approved by another than its last maker, and has a
  detail: \<open>resolveCommission\<close> looks only at the approver.
\<close>

definition commission_ok :: "commission_tables \<Rightarrow> commission \<Rightarrow> bool" where
  "commission_ok tb c \<longleftrightarrow> co_approvedBy c \<noteq> None \<longrightarrow>
     co_status c = Some 1 \<and> approved_by_other True (co_approvedBy c) (co_modifiedBy c) (co_createdBy c) \<and>
     (\<exists>d \<in> set (ot_details tb). od_commissionId d = co_id c)"

datatype commission_op =
    CreateCommission create_commission_dto string
  | CreateCommissionDetail detail_dto string
  | ApproveCommission int string
  | DeactivateCommission int string

fun run_commission_op :: "(string \<Rightarrow> string res) \<Rightarrow> nat \<Rightarrow> commission_op \<Rightarrow> (commission_state, unit) act" where
  "run_commission_op M now (CreateCommission dto maker) = act_void (createCommission now dto maker)"
| "run_commission_op M now (CreateCommissionDetail dto maker) = act_void (createCommissionDetail M now dto maker)"
| "run_commission_op M now (ApproveCommission i checker) = act_void (approveCommission now i checker)"
| "run_commission_op M now (DeactivateCommission i maker) = act_void (deactivateCommission now i maker)"

definition commissions_ok :: "commission_state \<Rightarrow> bool" where
  "commissions_ok s \<longleftrightarrow> (\<forall>c \<in> set (ot_commissions (so_tables s)). commission_ok (so_tables s) c)"

definition saved_state :: "nat \<Rightarrow> commission \<Rightarrow> commission_state \<Rightarrow> commission_state" where
  "saved_state now c s = (store_commission c s)\<lparr>so_cache := invalidateCache now (so_cache s)\<rparr>"

lemma save_commission_run: "save_commission now c s = (Inr c, saved_state now c s)"
  by (simp add: save_commission_def saved_state_def act_then_run store_commission_def)

text \<open>A request leaves the state as it was and throws, or saves one commission, perhaps after adding a detail.\<close>

lemma save_commission_then: "act_then (save_commission now c) k s = k c (saved_state now c s)"
  by (simp add: act_then_run save_commission_run)

lemma pending_unapproved [simp]: "co_approvedBy (pending_commission maker c) = None"
  by (simp add: pending_commission_def)

lemma run_commission_op_cases:
  assumes "run_commission_op M now p s = (r, t)"
  obtains (refused) e where "r = Inl e" "t = s"
  | (saved) c where "r = Inr ()" "t = saved_state now c s" "commission_ok (so_tables s) c"
  | (detailed) c d where "r = Inr ()" "co_approvedBy c = None"
      "t = saved_state now c (s\<lparr>so_nextDetail := Suc (so_nextDetail s),
         so_tables := (so_tables s)\<lparr>ot_details := ot_details (so_tables s) @ [d]\<rparr>\<rparr>)"
proof (cases p)
  case (CreateCommission dto maker)
  note run = assms[unfolded CreateCommission run_commission_op.simps act_void_def createCommission_def act_then_assoc]
  show thesis
    by (insert run, elim act_elims; (rule refused; assumption)?)
      (auto simp: save_commission_then act_then_trivial commission_ok_def intro!: saved)
next
  case (CreateCommissionDetail dto maker)
  note run = assms[unfolded CreateCommissionDetail run_commission_op.simps act_void_def createCommissionDetail_def
      act_then_assoc]
  show thesis
    by (insert run, elim act_elims; (rule refused; assumption)?)
      (auto simp: save_commission_then act_then_trivial intro!: detailed[of "pending_commission maker _"])
next
  case (ApproveCommission i checker)
  note run = assms[unfolded ApproveCommission run_commission_op.simps act_void_def approveCommission_def act_then_assoc]
  have ok: "commission_ok (so_tables s) (c\<lparr>co_status := Some 1, co_approvedBy := Some checker\<rparr>)"
    if "found_commission i s = Some c" "list_ex (\<lambda>d. od_commissionId d = i) (ot_details (so_tables s))"
      "map_option (lower \<circ> trim) (maker_of (co_modifiedBy c) (co_createdBy c)) \<noteq> Some (lower (trim checker))" for c
  proof -
    have "co_id c = i" using that(1) by (auto simp: found_commission_def find_commission_def dest: find_in)
    with that show ?thesis by (auto simp: commission_ok_def approved_by_other_def same_actor_def list_ex_iff)
  qed
  show thesis
    by (insert run, elim act_elims; (rule refused; assumption)?)
      (auto simp: save_commission_then act_then_trivial intro!: saved ok)
next
  case (DeactivateCommission i maker)
  note run = assms[unfolded DeactivateCommission run_commission_op.simps act_void_def deactivateCommission_def act_then_assoc]
  show thesis
    by (insert run, elim act_elims; (rule refused; assumption)?)
      (auto simp: save_commission_then act_then_trivial commission_ok_def intro!: saved)
qed

lemma saved_ok:
  assumes "commissions_ok s" and "commission_ok (so_tables s) c"
  shows "commissions_ok (saved_state now c s)"
  using assms upsert_subset[of co_id c "ot_commissions (so_tables s)"]
  by (auto simp: commissions_ok_def saved_state_def store_commission_def commission_ok_def)

lemma run_commission_op_ok:
  assumes ok: "commissions_ok s" and run: "run_commission_op M now p s = (r, t)"
  shows "commissions_ok t"
  using run
proof (cases rule: run_commission_op_cases)
  case (detailed c d)
  let ?s = "s\<lparr>so_nextDetail := Suc (so_nextDetail s), so_tables := (so_tables s)\<lparr>ot_details := ot_details (so_tables s) @ [d]\<rparr>\<rparr>"
  have "commissions_ok ?s" using ok by (auto simp: commissions_ok_def commission_ok_def)
  moreover have "commission_ok (so_tables ?s) c" using detailed by (simp add: commission_ok_def)
  ultimately show ?thesis unfolding detailed(3) by (rule saved_ok)
qed (use ok saved_ok in auto)

section \<open>The machine\<close>

definition commission_possible :: "commission_tables \<Rightarrow> string \<times> int \<times> string \<Rightarrow> commission_config \<Rightarrow> bool" where
  "commission_possible tb q x \<longleftrightarrow> (\<exists>now wt. case q of (k, w, cur) \<Rightarrow>
     load_commission_config now (tb\<lparr>ot_wallets := wt\<rparr>) k w cur = Inr x)"

text \<open>
  The keyword commissions and mappings have no administration here: they are whatever the database
  holds.
\<close>

definition initial_commissions :: "commission_mapping list \<Rightarrow> keyword_commission list \<Rightarrow> wallet_tables \<Rightarrow> commission_state" where
  "initial_commissions ms ks wt = \<lparr>so_tables = \<lparr>ot_commissions = [], ot_details = [], ot_mappings = ms,
       ot_keywords = ks, ot_wallets = wt\<rparr>,
     so_cache = \<lparr>rd_up = True, rd_version = None, rd_entries = (\<lambda>_. None)\<rparr>, so_nextDetail = 1\<rparr>"

inductive commission_step :: "(string \<Rightarrow> string res) \<Rightarrow> commission_state \<Rightarrow> commission_state \<Rightarrow> bool" 
  for M :: "string \<Rightarrow> string res" where
  commission_admin: "run_commission_op M now p s = (r, t) \<Longrightarrow> commission_step M s t"
| commission_request: "CHR '':'' \<notin> set cur \<Longrightarrow>
     commission_configuration time (so_tables s) k w cur (so_cache s) = (x, c) \<Longrightarrow>
     commission_step M s (s\<lparr>so_cache := c\<rparr>)"
| commission_wallets: "commission_step M s (s\<lparr>so_tables := (so_tables s)\<lparr>ot_wallets := wt\<rparr>\<rparr>)"

abbreviation commission_coherent :: "commission_tables \<Rightarrow> commission_config redis \<Rightarrow> bool" where
  "commission_coherent tb \<equiv> configuration_store.coherent (redis_holds ''commission'') redis_query (commission_possible tb)"

definition commission_inv :: "commission_state \<Rightarrow> bool" where
  "commission_inv s \<longleftrightarrow> commissions_ok s \<and> rd_up (so_cache s) \<and> commission_coherent (so_tables s) (so_cache s)"

lemma commission_request_redis:
  "commission_configuration time tb k w cur c =
     redis_request ''commission'' (k, w, upper (trim cur)) (load_commission_config time tb k w (upper (trim cur))) c"
proof -
  have n: "upper (trim (upper (trim cur))) = upper (trim cur)" by (simp add: trim_upper)
  show ?thesis
    unfolding commission_configuration_def redis_request_def cached_configuration_def prod.case Let_def n ..
qed

lemma commission_loaded_possible:
  "load_commission_config time tb k w cur = Inr x \<Longrightarrow> commission_possible tb (k, w, cur) x"
  unfolding commission_possible_def by (intro exI[of _ time] exI[of _ "ot_wallets tb"]) simp

lemma commission_step_inv:
  assumes inv: "commission_inv s" and st: "commission_step M s t"
  shows "commission_inv t"
  using st
proof (cases rule: commission_step.cases)
  case (commission_admin now p r)
  have ok: "commissions_ok t" using inv run_commission_op_ok commission_admin by (auto simp: commission_inv_def)
  have up: "rd_up (so_cache s)" using inv by (simp add: commission_inv_def)
  from commission_admin have "t = s \<or> so_cache t = invalidateCache now (so_cache s)"
    by (cases rule: run_commission_op_cases) (auto simp: saved_state_def)
  then show ?thesis
  proof
    assume c: "so_cache t = invalidateCache now (so_cache s)"
    show ?thesis
      unfolding commission_inv_def c redis_store.invalidate_live
      using ok up redis_store.coherent_invalidate[OF up] by simp
  qed (use inv in simp)
next
  case (commission_request cur time k w x c)
  note rq = commission_request(3)[unfolded commission_request_redis]
  show ?thesis
    using inv redis_store.coherent_request[OF normal_currency[OF commission_request(2)] rq]
      redis_store.request_live[OF rq] commission_loaded_possible
    by (auto simp: commission_inv_def commission_request(1) commissions_ok_def)
next
  case (commission_wallets wt)
  then show ?thesis using inv
    by (auto simp: commission_inv_def commissions_ok_def commission_ok_def
        intro: redis_store.coherent_mono simp: commission_possible_def)
qed

lemma commission_inv_init: "commission_inv (initial_commissions ms ks wt)"
  by (simp add: commission_inv_def initial_commissions_def commissions_ok_def
      redis_store.coherent_def redis_holds_def split: prod.splits)

interpretation commission_machine: machine "commission_step M" "initial_commissions ms ks wt" commission_inv for M ms ks wt
  by unfold_locales (rule commission_inv_init, rule commission_step_inv)

section \<open>The properties\<close>

lemma charge_wallet_amount [simp]: "cw_amount (charge_wallet_of w a) = a"
  by (simp add: charge_wallet_of_def split: prod.splits)

text \<open>
  The commission that applies is an approved row of the table that is current: it never expires, is
  its own default, or has not passed its expiry date, however many expired commissions were followed.
\<close>
theorem applied_commission_current:
  assumes "resolveCommission now cs i [] = Inr c"
  shows "c \<in> set cs \<and> commission_approved c \<and>
     (co_expiryOn c = None \<or> co_default c = Some (co_id c) \<or> (\<exists>e. co_expiryOn c = Some e \<and> commission_valid now e))"
  by (rule resolveCommission_result[OF assms])

definition sample_commission :: "int \<Rightarrow> js_date option \<Rightarrow> int option \<Rightarrow> commission" where
  "sample_commission i e d = \<lparr>co_id = i, co_type = Some 0, co_expiryOn = e, co_status = Some 1, co_default = d,
     co_createdBy = Some ''ann'', co_modifiedBy = None, co_approvedBy = Some ''bob'', co_description = None\<rparr>"

lemma sample_commission_resolve:
  "resolveCommission 8726400000 [sample_commission 7 (Some (Day 100)) (Some 8), sample_commission 8 None None] 7 [] =
     Inr (sample_commission 8 None None)"
  by (simp add: sample_commission_def resolveCommission.simps find_commission_def commission_approved_def
      commission_valid_def end_of_day_def)

theorem applied_commission_current_witness:
  "commission_approved (sample_commission 8 None None) \<and> co_expiryOn (sample_commission 8 None None) = None"
  using applied_commission_current[OF sample_commission_resolve] by (auto simp: sample_commission_def)


definition sample_commission_detail :: commission_detail where
  "sample_commission_detail = \<lparr>od_rowId = 4, od_commissionId = 8, od_type = Some ''percent'', od_value = JInt 2,
     od_start = Some ''0'', od_end = Some ''1000'', od_min = Some ''1'', od_max = Some ''50''\<rparr>"

definition sample_commission_config :: commission_config where
  "sample_commission_config = \<lparr>of_keyword = \<lparr>ok_rowId = 1, ok_keywordCommissionId = 5, ok_keyword = ''PAY'',
       ok_commissionId = 8, ok_receiver = Some ''D'', ok_isDefault = 1, ok_walletId = 1, ok_status = 1\<rparr>,
     of_mapping = \<lparr>om_rowId = 1, om_keywordCommissionId = 5, om_status = Some 1\<rparr>,
     of_commission = sample_commission 8 None None, of_details = [sample_commission_detail],
     of_wallet = (\<lparr>sw_msisdn = ''114'', sw_code = Some 114, sw_currency = ''UGX''\<rparr>,
       \<lparr>swt_id = 114, swt_name = None, swt_details = None\<rparr>)\<rparr>"

definition sample_commission_tables :: commission_tables where
  "sample_commission_tables = \<lparr>ot_commissions = [sample_commission 8 None None], ot_details = [sample_commission_detail],
     ot_mappings = [of_mapping sample_commission_config], ot_keywords = [of_keyword sample_commission_config],
     ot_wallets = \<lparr>wt_wallets = [fst (of_wallet sample_commission_config)],
       wt_types = [snd (of_wallet sample_commission_config)]\<rparr>\<rparr>"

lemma sample_numeric: "numeric_chars ''2'' = ''2''" "numeric_chars ''1'' = ''1''" "numeric_chars ''50'' = ''50''"
  by (simp_all add: numeric_chars_def is_digit_def Let_def)

lemma sample_two: "js_string (JNum (NumFin 2)) = ''2''"
proof -
  have p: "places (Suc 0) = 0" "nat_str 2 = ''2''"
    by (subst places.simps, simp) (subst nat_str.simps, simp add: digit_char_def char_of_def bit_0)
  show ?thesis by (simp add: pos_num_str_def Let_def p)
qed

lemma sample_commission_decimals: "decimal_literal s = Some x \<Longrightarrow> numeric_chars s = s \<Longrightarrow>
    commission_decimal decimal_ref s f = Inr (Fin x)"
  by (simp add: commission_decimal_def dref.new_literal)

lemma sample_legacy_commission:
  "\<exists>r. legacy_commission decimal_ref sample_request (Fin 100) sample_commission_config = Inr r \<and> or_calculationType r = 1"
proof -
  have t: "commission_detail_type (Some ''percent'') = Inr DPercent"
    by (simp add: commission_detail_type_def null_text_def lower_def low_char_def char_defs)
  have s: "selectDetail decimal_ref (sample_commission 8 None None) [sample_commission_detail] (Fin 100)
      = Inr sample_commission_detail"
    by (simp add: selectDetail_def commission_header_def sample_commission_def)
  have v: "commission_decimal decimal_ref (js_string (JNum (NumFin 2))) f = Inr (Fin 2)"
    "commission_decimal decimal_ref ''1'' f = Inr (Fin 1)" "commission_decimal decimal_ref ''50'' f = Inr (Fin 50)" for f
    unfolding sample_two by (simp_all add: sample_commission_decimals sample_literals sample_numeric)
  have a: "\<exists>x. commission_amount decimal_ref sample_commission_detail (Fin 100) = Inr x"
    by (simp add: commission_amount_def sample_commission_detail_def v null_text_def t dref.d_simps del: js_string.simps)
  have p: "trim ''D'' = ''D''" by (simp add: char_defs)
  show ?thesis using a
    by (auto simp: legacy_commission_def sample_commission_config_def s Let_def p)
      (simp add: sample_commission_detail_def t v del: js_string.simps)
qed

lemma sample_commission_config_load:
  "load_commission_config 0 sample_commission_tables ''PAY'' 1 ''UGX'' = Inr sample_commission_config"
proof -
  have w: "systemWallet (ot_wallets sample_commission_tables) 114 ''UGX'' = Inr (of_wallet sample_commission_config)"
    by (simp add: systemWallet_def system_wallets_def wallet_type_def sample_commission_tables_def
        sample_commission_config_def upper_def up_char_def char_defs)
  show ?thesis
    by (simp add: load_commission_config_def w)
      (simp add: keyword_commission_of_def resolveMapping_def resolveCommission.simps find_commission_def
        commission_approved_def sample_commission_tables_def sample_commission_config_def sample_commission_def
        sample_commission_detail_def)
qed

lemma sample_calculation:
  "\<exists>r c. calculate_commission decimal_ref 0 \<lparr>db_rows = [], db_audit = [], db_nextId = 1\<rparr> sample_commission_tables
     sample_request \<lparr>rd_up = False, rd_version = None, rd_entries = (\<lambda>_. None)\<rparr> = (Inr r, c) \<and> or_calculationType r = 1"
proof -
  obtain r where r: "legacy_commission decimal_ref sample_request (Fin 100) sample_commission_config = Inr r"
    "or_calculationType r = 1" using sample_legacy_commission by blast
  have n: "upper (trim ''UGX'') = ''UGX''" by (simp add: upper_def up_char_def char_defs)
  have q: "cq_amount sample_request = ''100''" "cq_keyword sample_request = ''PAY''" "cq_walletId sample_request = 1"
    "cq_currency sample_request = None" by (simp_all add: sample_request_def)
  have a: "commission_decimal decimal_ref ''100'' f = Inr (Fin 100)" for f
    by (intro sample_commission_decimals) (simp_all add: literal_defs numeric_chars_def)
  show ?thesis using r
    by (simp add: calculate_commission_def q a dref.d_simps findActive_def by_priority_def request_currency_def
        commission_configuration_def cached_configuration_def Let_def n cacheGet_def sample_commission_config_load)
qed


text \<open>
  A percentage commission stays within the bounds of the detail row that gave it: the amount paid lies
  between the row's minimum and maximum, rounded to cents as the amount is.
\<close>
theorem commission_within_bounds:
  assumes "decimal D" and "legacy_commission D q (Fin a) cf = Inr r" and "or_calculationType r = 1"
    and "list_all readable_detail (of_details cf)"
  shows "\<exists>d mn mx c. d \<in> set (of_details cf) \<and> od_rowId d = or_commissionDetailId r \<and>
     decimal_literal (numeric_chars (null_text (od_min d))) = Some mn \<and>
     decimal_literal (numeric_chars (null_text (od_max d))) = Some mx \<and>
     or_commissionAmount r = money_text c \<and> round2 mn \<le> c \<and> c \<le> round2 mx"
proof -
  from assms(2) obtain d x t where d: "selectDetail D (of_commission cf) (of_details cf) (Fin a) = Inr d"
    and x: "commission_amount D d (Fin a) = Inr x" and t: "commission_detail_type (od_type d) = Inr t"
    and r: "or_commissionDetailId r = od_rowId d" "or_commissionAmount r = money D x"
      "or_calculationType r = (case t of DFlat \<Rightarrow> 0 | DPercent \<Rightarrow> 1)"
    by (auto simp: legacy_commission_def res_simps Let_def split: if_splits)
  have mem: "d \<in> set (of_details cf)" by (rule selectDetail_mem[OF d])
  with assms(4) have rd: "readable (js_string (od_value d))" "readable (null_text (od_min d))" "readable (null_text (od_max d))"
    by (auto simp: list_all_iff readable_detail_def)
  from t r(3) assms(3) have p: "t = DPercent" by (cases t) auto
  show ?thesis
  proof (rule decimal.commission_amount_cases[OF assms(1) x rd(1)])
    fix mn mx v
    assume m: "decimal_literal (numeric_chars (null_text (od_min d))) = Some mn" "mn \<le> mx"
      "decimal_literal (numeric_chars (null_text (od_max d))) = Some mx"
      "x = Fin (round2 (max mn (min mx (sig30 (sig30 (a * v) / 100)))))"
    let ?c = "round2 (max mn (min mx (sig30 (sig30 (a * v) / 100))))"
    have "or_commissionAmount r = money_text ?c" using r(2) m(4) decimal.money_Fin[OF assms(1)] by simp
    moreover have "round2 mn \<le> ?c" "?c \<le> round2 mx" using m(2) by (auto intro!: round2_mono)
    ultimately show ?thesis using mem r(1) m(1,3)
      by (intro exI[of _ d] exI[of _ mn] exI[of _ mx] exI[of _ ?c]) simp
  qed (use rd t p in auto)
qed

theorem commission_within_bounds_witness:
  "\<exists>r c. legacy_commission decimal_ref sample_request (Fin 100) sample_commission_config = Inr r \<and>
     or_commissionAmount r = money_text c \<and> 1 \<le> c \<and> c \<le> 50"
proof -
  obtain r where r: "legacy_commission decimal_ref sample_request (Fin 100) sample_commission_config = Inr r"
    "or_calculationType r = 1" using sample_legacy_commission by blast
  have d: "of_details sample_commission_config = [sample_commission_detail]"
    by (simp add: sample_commission_config_def)
  have "readable_detail sample_commission_detail"
    unfolding readable_detail_def readable_def sample_commission_detail_def commission_detail.simps of_int_numeral sample_two
    by (simp add: null_text_def sample_numeric sample_literals)
  with d have "list_all readable_detail (of_details sample_commission_config)" by simp
  from commission_within_bounds[OF dref.decimal_axioms r this] d r(1) obtain mn mx c where
    m: "decimal_literal (numeric_chars (null_text (od_min sample_commission_detail))) = Some mn"
     "decimal_literal (numeric_chars (null_text (od_max sample_commission_detail))) = Some mx"
     "or_commissionAmount r = money_text c" "round2 mn \<le> c" "c \<le> round2 mx" by auto
  moreover have "mn = 1" "mx = 50" using m(1,2)
    by (simp_all add: sample_commission_detail_def null_text_def sample_numeric sample_literals)
  moreover have "round2 (1::rat) = 1" "round2 (50::rat) = 50" by (simp_all add: is_cents_def)
  ultimately show ?thesis using r(1) by auto
qed

section \<open>What holds after any requests\<close>

definition sample_commission_ops :: "commission_op list" where
  "sample_commission_ops =
     [CreateCommission \<lparr>no_id = 8, no_type = 0, no_description = None, no_expiryOn = None, no_default = None\<rparr> ''ann'',
      CreateCommissionDetail \<lparr>dd_chargeId = 8, dd_chargeType = ''0'', dd_value = ''2'', dd_start = None, dd_end = None,
        dd_min = None, dd_max = None\<rparr> ''ann'',
      ApproveCommission 8 ''bob'']"

definition sample_commission_start :: commission_state where
  "sample_commission_start = initial_commissions [of_mapping sample_commission_config]
     [of_keyword sample_commission_config] (ot_wallets sample_commission_tables)"

definition sample_commission_end :: commission_state where
  "sample_commission_end = foldl (\<lambda>s p. snd (run_commission_op Inr 5 p s)) sample_commission_start sample_commission_ops"

abbreviation commission_reach :: "commission_state \<Rightarrow> bool" where
  "commission_reach \<equiv> reach (commission_step Inr) sample_commission_start"

lemma sample_commission_reach: "commission_reach sample_commission_end"
proof -
  have "commission_reach (foldl (\<lambda>s p. snd (run_commission_op Inr 5 p s)) s ps)" if "commission_reach s" for ps s
    using that
  proof (induction ps arbitrary: s)
    case (Cons p ps)
    have "commission_step Inr s (snd (run_commission_op Inr 5 p s))"
      by (rule commission_admin[of Inr 5 p s "fst (run_commission_op Inr 5 p s)"]) simp
    from Cons.IH[OF reach_step[OF Cons.prems this]] show ?case by simp
  qed simp
  then show ?thesis unfolding sample_commission_end_def using reach_init by metis
qed

definition sample_approved :: commission where
  "sample_approved = (sample_commission 8 None None)\<lparr>co_modifiedBy := Some ''ann''\<rparr>"

lemma sample_commission_end_tables:
  "ot_commissions (so_tables sample_commission_end) = [sample_approved]"
  "ot_keywords (so_tables sample_commission_end) = [of_keyword sample_commission_config]"
  "ot_mappings (so_tables sample_commission_end) = [of_mapping sample_commission_config]"
  "ot_wallets (so_tables sample_commission_end) = ot_wallets sample_commission_tables"
  "rd_entries (so_cache sample_commission_end) = (\<lambda>_. None)"
proof -
  have t: "commission_detail_type (Some ''0'') = Inr DFlat"
    by (simp add: commission_detail_type_def null_text_def lower_def low_char_def char_defs)
  have ne: "map_option (lower \<circ> trim) (maker_of (Some ''ann'') (Some ''ann'')) \<noteq> Some (lower (trim ''bob''))"
    by (simp add: maker_of_def lower_def low_char_def char_defs)
  show "ot_commissions (so_tables sample_commission_end) = [sample_approved]"
    "ot_keywords (so_tables sample_commission_end) = [of_keyword sample_commission_config]"
    "ot_mappings (so_tables sample_commission_end) = [of_mapping sample_commission_config]"
    "ot_wallets (so_tables sample_commission_end) = ot_wallets sample_commission_tables"
    "rd_entries (so_cache sample_commission_end) = (\<lambda>_. None)"
    using ne
    by (simp_all add: sample_commission_end_def sample_commission_start_def sample_commission_ops_def
        initial_commissions_def act_void_def act_eval createCommission_def validateExpiry_def save_commission_run
        saved_state_def store_commission_def upsert_def found_commission_def find_commission_def
        createCommissionDetail_def t stored_detail_def money_column_def pending_commission_def approveCommission_def sample_approved_def
        sample_commission_def invalidateCache_def)
qed

text \<open>
  C20 Four eyes: after any sequence of requests a commission that resolution would use was approved by
  another administrator than the one who last changed it, is active and has at least one detail.
\<close>
theorem commission_four_eyes:
  assumes "reach (commission_step M) (initial_commissions ms ks wt) s" and "c \<in> set (ot_commissions (so_tables s))"
    and "commission_approved c"
  shows "co_status c = Some 1 \<and> approved_by_other True (co_approvedBy c) (co_modifiedBy c) (co_createdBy c) \<and>
     (\<exists>d \<in> set (ot_details (so_tables s)). od_commissionId d = co_id c)"
proof -
  have "commission_ok (so_tables s) c"
    using commission_machine.reach_inv[OF assms(1)] assms(2) by (simp add: commission_inv_def commissions_ok_def)
  with assms(3) show ?thesis by (auto simp: commission_ok_def commission_approved_def split: option.splits)
qed

theorem commission_four_eyes_witness:
  "commission_reach sample_commission_end \<and> sample_approved \<in> set (ot_commissions (so_tables sample_commission_end)) \<and>
   approved_by_other True (co_approvedBy sample_approved) (co_modifiedBy sample_approved) (co_createdBy sample_approved)"
proof -
  have m: "sample_approved \<in> set (ot_commissions (so_tables sample_commission_end))"
    by (simp add: sample_commission_end_tables)
  have a: "commission_approved sample_approved"
    by (simp add: commission_approved_def sample_approved_def sample_commission_def)
  note re = sample_commission_reach
  from commission_four_eyes[OF re[unfolded sample_commission_start_def] m a] re m show ?thesis by blast
qed

text \<open>
  C21 The cache never serves a stale commission: in every state reached while Redis answers, a configuration
  a request gets is one that loading from the current commission tables gives, at some time and for some
  wallet table.
\<close>
theorem commission_cache_coherent:
  assumes "reach (commission_step M) (initial_commissions ms ks wt) s" and "CHR '':'' \<notin> set cur"
    and "commission_configuration time (so_tables s) k w cur (so_cache s) = (Inr cf, c)"
  shows "\<exists>time' wt'. load_commission_config time' ((so_tables s)\<lparr>ot_wallets := wt'\<rparr>) k w (upper (trim cur)) = Inr cf"
proof -
  have "commission_coherent (so_tables s) (so_cache s)"
    using commission_machine.reach_inv[OF assms(1)] by (simp add: commission_inv_def)
  from redis_store.coherent_answer[OF normal_currency[OF assms(2)]
      assms(3)[unfolded commission_request_redis] this commission_loaded_possible]
  show ?thesis by (simp add: commission_possible_def)
qed

theorem commission_cache_coherent_witness:
  "\<exists>cf c time' wt'. commission_reach sample_commission_end \<and>
     commission_configuration 0 (so_tables sample_commission_end) ''PAY'' 1 ''UGX'' (so_cache sample_commission_end) = (Inr cf, c) \<and>
     load_commission_config time' ((so_tables sample_commission_end)\<lparr>ot_wallets := wt'\<rparr>) ''PAY'' 1 (upper (trim ''UGX'')) = Inr cf"
proof -
  have n: "upper (trim ''UGX'') = ''UGX''" by (simp add: upper_def up_char_def char_defs)
  have w: "systemWallet (ot_wallets sample_commission_tables) 114 ''UGX'' = Inr (of_wallet sample_commission_config)"
    by (simp add: systemWallet_def system_wallets_def wallet_type_def sample_commission_tables_def
        sample_commission_config_def upper_def up_char_def char_defs)
  have r: "resolveCommission 0 [sample_approved] 8 [] = Inr sample_approved"
    by (simp add: resolveCommission.simps find_commission_def commission_approved_def sample_approved_def sample_commission_def)
  have "\<exists>cf. load_commission_config 0 (so_tables sample_commission_end) ''PAY'' 1 ''UGX'' = Inr cf"
    by (simp add: load_commission_config_def sample_commission_end_tables w)
      (simp add: keyword_commission_of_def resolveMapping_def sample_commission_config_def r)
  then obtain cf c where q: "commission_configuration 0 (so_tables sample_commission_end) ''PAY'' 1 ''UGX''
      (so_cache sample_commission_end) = (Inr cf, c)"
    by (auto simp: commission_configuration_def cached_configuration_def Let_def n cacheGet_def sample_commission_end_tables)
  have "CHR '':'' \<notin> set ''UGX''" by simp
  from commission_cache_coherent[OF sample_commission_reach[unfolded sample_commission_start_def] this q] q
    sample_commission_reach show ?thesis by blast
qed

end
