(* ===== verification/Doubles.thy ===== *)
theory Doubles
  imports Decimals
begin

text \<open>
  The arithmetic of the language's numbers.  A finite number is written as the decimal its printed form
  denotes; an operation takes the doubles nearest to those decimals, computes exactly, rounds to the nearest
  double (ties to even, overflow to infinity, underflow through the subnormal numbers) and gives the
  shortest decimal that denotes the result.  Zero has one sign.
\<close>

section \<open>The nearest double\<close>

function doublings :: "rat \<Rightarrow> nat" where
  "doublings x = (if x \<le> 0 \<or> 1 \<le> x then 0 else Suc (doublings (2 * x)))"
  by pat_completeness auto
termination
proof (relation "measure (\<lambda>x. nat \<lfloor>1 / x\<rfloor>)")
  fix x :: rat
  assume "\<not> (x \<le> 0 \<or> 1 \<le> x)"
  then have x: "0 < x" "x < 1" by auto
  define y where "y = 1 / x"
  have one: "1 \<le> \<lfloor>y\<rfloor>" using x by (simp add: y_def le_floor_iff)
  have "y / 2 < of_int \<lfloor>y\<rfloor>" using one by linarith
  then have "\<lfloor>1 / (2 * x)\<rfloor> < \<lfloor>y\<rfloor>" by (simp add: floor_less_iff y_def)
  then show "(2 * x, x) \<in> measure (\<lambda>x. nat \<lfloor>1 / x\<rfloor>)" using one by (simp add: y_def)
qed simp

function halvings :: "rat \<Rightarrow> nat" where
  "halvings x = (if x < 2 then 0 else Suc (halvings (x / 2)))"
  by pat_completeness auto
termination
proof (relation "measure (\<lambda>x. nat \<lfloor>x\<rfloor>)")
  fix x :: rat
  assume "\<not> x < 2"
  then have "2 \<le> \<lfloor>x\<rfloor>" by (simp add: le_floor_iff)
  moreover from this have "x / 2 < of_int \<lfloor>x\<rfloor>" by linarith
  then have "\<lfloor>x / 2\<rfloor> < \<lfloor>x\<rfloor>" by (simp only: floor_less_iff)
  ultimately show "(x / 2, x) \<in> measure (\<lambda>x. nat \<lfloor>x\<rfloor>)" by auto
qed simp

declare doublings.simps [simp del] halvings.simps [simp del]

text \<open>\<open>2 ^ bin_exp x \<le> x < 2 ^ (bin_exp x + 1)\<close> for a positive \<open>x\<close>.\<close>

definition bin_exp :: "rat \<Rightarrow> int" where
  "bin_exp x = (if 1 \<le> x then int (halvings x) else - int (doublings x))"

definition pow2 :: "int \<Rightarrow> rat" where
  "pow2 e = (if 0 \<le> e then 2 ^ nat e else 1 / 2 ^ nat (- e))"

definition round_even :: "rat \<Rightarrow> int" where
  "round_even x = (let f = \<lfloor>x\<rfloor>; d = x - of_int f
     in if d < 1 / 2 \<or> d = 1 / 2 \<and> even f then f else f + 1)"

definition nearest_double :: "rat \<Rightarrow> jsnum" where
  "nearest_double x =
     (if x = 0 then NumFin 0
      else (let e = max (bin_exp \<bar>x\<bar> - 52) (- 1074);
                v = of_int (round_even (x / pow2 e)) * pow2 e
            in if pow2 1024 \<le> v then NumInf else if v \<le> - pow2 1024 then NumNegInf else NumFin v))"

section \<open>The decimal of a double\<close>

text \<open>The multiples of \<open>10 ^ e\<close> around \<open>x\<close>: the nearer one that denotes the double \<open>x\<close>, if one does.\<close>

definition short_at :: "int \<Rightarrow> rat \<Rightarrow> rat option" where
  "short_at e x =
     (let lo = of_int \<lfloor>x / pow10 e\<rfloor> * pow10 e;
          hi = lo + pow10 e
      in if nearest_double lo = NumFin x \<and> (nearest_double hi \<noteq> NumFin x \<or> x - lo \<le> hi - x) then Some lo
         else if nearest_double hi = NumFin x then Some hi else None)"

fun shortest_from :: "nat \<Rightarrow> int \<Rightarrow> rat \<Rightarrow> rat" where
  "shortest_from 0 e x = x"
| "shortest_from (Suc n) e x = (case short_at e x of Some y \<Rightarrow> y | None \<Rightarrow> shortest_from n (e - 1) x)"

text \<open>At most seventeen digits are needed.\<close>

definition shortest :: "rat \<Rightarrow> rat" where
  "shortest x = shortest_from 17 (mag x) x"

definition num_of :: "rat \<Rightarrow> jsnum" where
  "num_of x = (case nearest_double x of
     NumFin v \<Rightarrow> NumFin (if v = 0 then 0 else if 0 < v then shortest v else - shortest (- v))
   | n \<Rightarrow> n)"

text \<open>The double a decimal denotes; a decimal beyond the range denotes no finite double.\<close>

definition val :: "rat \<Rightarrow> rat" where
  "val q = (case nearest_double q of NumFin v \<Rightarrow> v | _ \<Rightarrow> q)"

lemma shortest_from_denotes:
  "nearest_double x = NumFin x \<Longrightarrow> nearest_double (shortest_from n e x) = NumFin x"
  by (induction n e x rule: shortest_from.induct)
    (auto simp: short_at_def Let_def split: option.splits if_splits)

lemma shortest_denotes: "nearest_double x = NumFin x \<Longrightarrow> nearest_double (shortest x) = NumFin x"
  by (simp add: shortest_def shortest_from_denotes)

section \<open>Operations\<close>

fun num_neg :: "jsnum \<Rightarrow> jsnum" where
  "num_neg (NumFin a) = NumFin (- a)"
| "num_neg NumInf = NumNegInf"
| "num_neg NumNegInf = NumInf"
| "num_neg NumNaN = NumNaN"

fun num_add :: "jsnum \<Rightarrow> jsnum \<Rightarrow> jsnum" where
  "num_add (NumFin a) (NumFin b) = num_of (val a + val b)"
| "num_add NumNaN _ = NumNaN"
| "num_add _ NumNaN = NumNaN"
| "num_add NumInf NumNegInf = NumNaN"
| "num_add NumNegInf NumInf = NumNaN"
| "num_add NumInf _ = NumInf"
| "num_add NumNegInf _ = NumNegInf"
| "num_add _ NumInf = NumInf"
| "num_add _ NumNegInf = NumNegInf"

definition num_sub :: "jsnum \<Rightarrow> jsnum \<Rightarrow> jsnum" where
  "num_sub a b = num_add a (num_neg b)"

definition inf_signed :: "bool \<Rightarrow> jsnum" where
  "inf_signed pos = (if pos then NumInf else NumNegInf)"

fun num_mul :: "jsnum \<Rightarrow> jsnum \<Rightarrow> jsnum" where
  "num_mul (NumFin a) (NumFin b) = num_of (val a * val b)"
| "num_mul NumNaN _ = NumNaN"
| "num_mul _ NumNaN = NumNaN"
| "num_mul (NumFin a) NumInf = (if a = 0 then NumNaN else inf_signed (0 < a))"
| "num_mul (NumFin a) NumNegInf = (if a = 0 then NumNaN else inf_signed (a < 0))"
| "num_mul NumInf (NumFin b) = (if b = 0 then NumNaN else inf_signed (0 < b))"
| "num_mul NumNegInf (NumFin b) = (if b = 0 then NumNaN else inf_signed (b < 0))"
| "num_mul NumInf NumInf = NumInf"
| "num_mul NumInf NumNegInf = NumNegInf"
| "num_mul NumNegInf NumInf = NumNegInf"
| "num_mul NumNegInf NumNegInf = NumInf"

text \<open>\<open>x / 100\<close>, the one division the code makes.\<close>

fun num_div100 :: "jsnum \<Rightarrow> jsnum" where
  "num_div100 (NumFin a) = num_of (val a / 100)"
| "num_div100 n = n"

text \<open>\<open>Math.round\<close>: the nearest integer, halves upwards, and \<open>Math.trunc\<close>.\<close>

fun num_round :: "jsnum \<Rightarrow> jsnum" where
  "num_round (NumFin a) = num_of (of_int \<lfloor>val a + 1 / 2\<rfloor>)"
| "num_round n = n"

fun num_trunc :: "jsnum \<Rightarrow> jsnum" where
  "num_trunc (NumFin a) = num_of (of_int (if 0 \<le> val a then \<lfloor>val a\<rfloor> else \<lceil>val a\<rceil>))"
| "num_trunc n = n"

text \<open>Comparisons: every comparison with \<open>NaN\<close> is false.\<close>

fun num_lt :: "jsnum \<Rightarrow> jsnum \<Rightarrow> bool" where
  "num_lt NumNaN _ = False"
| "num_lt _ NumNaN = False"
| "num_lt (NumFin a) (NumFin b) = (a < b)"
| "num_lt NumNegInf b = (b \<noteq> NumNegInf)"
| "num_lt a NumNegInf = False"
| "num_lt a NumInf = (a \<noteq> NumInf)"
| "num_lt NumInf b = False"

definition num_eq :: "jsnum \<Rightarrow> jsnum \<Rightarrow> bool" where
  "num_eq a b \<longleftrightarrow> a = b \<and> a \<noteq> NumNaN"

definition num_le :: "jsnum \<Rightarrow> jsnum \<Rightarrow> bool" where
  "num_le a b \<longleftrightarrow> num_lt a b \<or> num_eq a b"

definition num_max :: "jsnum \<Rightarrow> jsnum \<Rightarrow> jsnum" where
  "num_max a b = (if a = NumNaN \<or> b = NumNaN then NumNaN else if num_lt a b then b else a)"

definition num_min :: "jsnum \<Rightarrow> jsnum \<Rightarrow> jsnum" where
  "num_min a b = (if a = NumNaN \<or> b = NumNaN then NumNaN else if num_lt b a then b else a)"

definition num_finite :: "jsnum \<Rightarrow> bool" where
  "num_finite n = (case n of NumFin q \<Rightarrow> True | _ \<Rightarrow> False)"

lemma num_lt_irrefl [simp]: "\<not> num_lt a a"
  by (cases a) auto

lemma num_lt_trans: "num_lt a b \<Longrightarrow> num_lt b c \<Longrightarrow> num_lt a c"
  by (cases a; cases b; cases c) auto

lemma num_lt_linear: "a \<noteq> NumNaN \<Longrightarrow> b \<noteq> NumNaN \<Longrightarrow> num_lt a b \<or> a = b \<or> num_lt b a"
  by (cases a; cases b) auto

lemma num_lt_numbers: "num_lt a b \<Longrightarrow> a \<noteq> NumNaN \<and> b \<noteq> NumNaN"
  by (cases a; cases b) auto

lemma num_le_fin [simp]: "num_le (NumFin a) (NumFin b) \<longleftrightarrow> a \<le> b"
  by (auto simp: num_le_def num_eq_def)

lemma num_le_refl: "a \<noteq> NumNaN \<Longrightarrow> num_le a a"
  by (simp add: num_le_def num_eq_def)

lemma num_le_trans: "num_le a b \<Longrightarrow> num_le b c \<Longrightarrow> num_le a c"
  by (auto simp: num_le_def num_eq_def intro: num_lt_trans)

lemma num_not_lt: "a \<noteq> NumNaN \<Longrightarrow> b \<noteq> NumNaN \<Longrightarrow> \<not> num_lt a b \<longleftrightarrow> num_le b a"
  using num_lt_linear[of a b] num_lt_trans[of a b a] by (auto simp: num_le_def num_eq_def)

lemma num_min_le: "a \<noteq> NumNaN \<Longrightarrow> b \<noteq> NumNaN \<Longrightarrow> num_le (num_min a b) a \<and> num_le (num_min a b) b"
  by (auto simp: num_min_def num_not_lt num_le_refl) (simp add: num_le_def)

lemma num_max_ge: "a \<noteq> NumNaN \<Longrightarrow> b \<noteq> NumNaN \<Longrightarrow> num_le a (num_max a b) \<and> num_le b (num_max a b)"
  by (auto simp: num_max_def num_not_lt num_le_refl) (simp add: num_le_def)

section \<open>Integers are exact\<close>

lemma pow2_split: "0 < pow2 e" "e \<le> 0 \<Longrightarrow> x / pow2 e = x * 2 ^ nat (- e)"
  by (auto simp: pow2_def)

lemma halvings_bound:
  assumes "x < 2 ^ Suc n"
  shows "halvings x \<le> n"
  using assms
proof (induction n arbitrary: x)
  case 0
  then show ?case by (simp add: halvings.simps[of x])
next
  case (Suc n)
  then show ?case using Suc.IH[of "x / 2"] by (simp add: halvings.simps[of x])
qed

lemma round_even_int [simp]: "round_even (of_int i) = i"
  by (simp add: round_even_def)

lemma nearest_double_int:
  assumes "\<bar>i\<bar> < 2 ^ 53"
  shows "nearest_double (of_int i) = NumFin (of_int i)"
proof (cases "i = 0")
  case False
  have b: "\<bar>of_int i :: rat\<bar> < 2 ^ Suc 52"
  proof -
    have "(of_int \<bar>i\<bar> :: rat) < of_int (2 ^ 53)" using assms by (simp only: of_int_less_iff)
    then show ?thesis by (simp only: of_int_abs of_int_power of_int_numeral) simp
  qed
  have one: "1 \<le> \<bar>of_int i :: rat\<bar>"
  proof -
    have "1 \<le> \<bar>i\<bar>" using False by linarith
    then have "of_int 1 \<le> (of_int \<bar>i\<bar> :: rat)" by (simp only: of_int_le_iff)
    then show ?thesis by simp
  qed
  define e where "e = max (bin_exp \<bar>of_int i :: rat\<bar> - 52) (- 1074)"
  have e: "e \<le> 0" using halvings_bound[OF b] one by (simp add: e_def bin_exp_def)
  have "(of_int i :: rat) / pow2 e = of_int (i * 2 ^ nat (- e))" using e by (simp add: pow2_split)
  then have "of_int (round_even (of_int i / pow2 e)) * pow2 e = (of_int i :: rat)"
    using e by (simp only: round_even_int) (simp add: pow2_def)
  moreover have "\<bar>of_int i :: rat\<bar> < pow2 1024" using b by (simp add: pow2_def)
  ultimately show ?thesis
    using False by (auto simp: nearest_double_def Let_def simp flip: e_def simp: abs_less_iff)
qed (simp add: nearest_double_def)

lemma val_int [simp]: "\<bar>i\<bar> < 2 ^ 53 \<Longrightarrow> val (of_int i) = of_int i"
  by (simp add: val_def nearest_double_int)

lemma down_steps_bound:
  "1 \<le> x \<Longrightarrow> 10 ^ down_steps x \<le> x"
proof (induction x rule: down_steps.induct)
  case (1 x)
  then show ?case by (cases "x < 10") (auto simp: down_steps.simps[of x])
qed

lemma short_at_int:
  assumes "0 < i" and "i < 2 ^ 52" and "10 ^ n \<le> i"
  shows "short_at (int n) (of_int i) = None \<or> short_at (int n) (of_int i) = Some (of_int i)"
    and "short_at 0 (of_int i) = Some (of_int i)"
proof -
  have f: "\<lfloor>of_int i / (10::rat) ^ n\<rfloor> = i div 10 ^ n"
    using floor_divide_of_int_eq[of i "10 ^ n", where ?'a = rat] by simp
  define lo where "lo = i div 10 ^ n * 10 ^ n"
  have lo: "of_int \<lfloor>of_int i / pow10 (int n)\<rfloor> * pow10 (int n) = (of_int lo :: rat)"
    by (simp add: pow10_def f lo_def)
  have le: "lo \<le> i" "0 \<le> lo" using assms(1)
    by (simp_all add: lo_def pos_imp_zdiv_nonneg_iff minus_mod_eq_div_mult[symmetric] zmod_le_nonneg_dividend)
  have gt: "i < lo + 10 ^ n"
    using pos_mod_bound[of "10 ^ n" i] by (simp add: lo_def minus_mod_eq_div_mult[symmetric])
  have hi: "of_int lo + pow10 (int n) = (of_int (lo + 10 ^ n) :: rat)" by (simp add: pow10_def)
  have bl: "\<bar>lo\<bar> < 2 ^ 53" "\<bar>lo + 10 ^ n\<bar> < 2 ^ 53"
  proof -
    have "0 < (10::int) ^ n" by simp
    with assms le show "\<bar>lo\<bar> < 2 ^ 53" "\<bar>lo + 10 ^ n\<bar> < 2 ^ 53" by simp_all
  qed
  have "NumFin (of_int (lo + 10 ^ n)) \<noteq> NumFin (of_int i :: rat)" using gt by (simp only: jsnum.inject of_int_eq_iff)
  then show "short_at (int n) (of_int i) = None \<or> short_at (int n) (of_int i) = Some (of_int i)"
    unfolding short_at_def Let_def lo hi nearest_double_int[OF bl(1)] nearest_double_int[OF bl(2)]
    by auto
  have "\<bar>i\<bar> < 2 ^ 53" "\<bar>i + 1\<bar> < 2 ^ 53" using assms(1,2) by simp_all
  from this[THEN nearest_double_int] show "short_at 0 (of_int i) = Some (of_int i)"
    by (simp add: short_at_def Let_def)
qed

lemma shortest_from_int:
  assumes "0 < i" and "i < 2 ^ 52" and "10 ^ n \<le> i" and "n < k"
  shows "shortest_from k (int n) (of_int i) = of_int i"
  using assms(3,4)
proof (induction n arbitrary: k)
  case 0
  then obtain j where "k = Suc j" by (cases k) auto
  then show ?case using short_at_int(2)[OF assms(1,2) "0.prems"(1)] by simp
next
  case (Suc n)
  then obtain j where k: "k = Suc j" "n < j" by (cases k) auto
  have "(10::int) ^ n \<le> 10 ^ Suc n" by simp
  with Suc.prems(1) have "10 ^ n \<le> i" by linarith
  from Suc.IH[OF this k(2)] show ?case
    using short_at_int(1)[OF assms(1,2) Suc.prems(1)] k(1) by auto
qed

lemma shortest_int:
  assumes "0 < i" and "i < 2 ^ 52"
  shows "shortest (of_int i) = of_int i"
proof -
  have one: "1 \<le> (of_int i :: rat)" using assms(1) by simp
  from down_steps_bound[OF this] have p: "10 ^ down_steps (of_int i) \<le> i"
    by (metis of_int_le_iff of_int_numeral of_int_power)
  have "down_steps (of_int i) < 17"
  proof (rule ccontr)
    assume "\<not> ?thesis"
    then have "(10::int) ^ 17 \<le> 10 ^ down_steps (of_int i :: rat)" by (intro power_increasing) auto
    with p assms(2) show False by simp
  qed
  with shortest_from_int[OF assms p] one show ?thesis by (simp add: shortest_def mag_def)
qed

lemma num_of_int:
  assumes "\<bar>i\<bar> < 2 ^ 52"
  shows "num_of (of_int i) = NumFin (of_int i)"
proof -
  have "nearest_double (of_int i) = NumFin (of_int i)" using assms by (intro nearest_double_int) simp
  moreover have "0 < - i \<Longrightarrow> shortest (of_int (- i)) = of_int (- i)" using assms by (intro shortest_int) auto
  ultimately show ?thesis using assms shortest_int[of i] by (auto simp: num_of_def)
qed

lemma num_of_numeral [simp]: "(numeral w :: int) < 2 ^ 52 \<Longrightarrow> num_of (numeral w) = NumFin (numeral w)"
  using num_of_int[of "numeral w"] by simp

lemma num_of_small [simp]: "num_of 0 = NumFin 0" "num_of 1 = NumFin 1"
  using num_of_int[of 0] num_of_int[of 1] by simp_all

lemma val_numeral [simp]:
  "(numeral w :: int) < 2 ^ 53 \<Longrightarrow> val (numeral w) = numeral w"
  "(numeral w :: int) < 2 ^ 53 \<Longrightarrow> val (- numeral w) = - numeral w"
  using val_int[of "numeral w"] val_int[of "- numeral w"] by simp_all

lemma val_small [simp]: "val 0 = 0" "val 1 = 1"
  using val_int[of 0] val_int[of 1] by simp_all

end
