(* ===== verification/AmlLedger.thy ===== *)
theory AmlLedger
  imports Actions Decimals
begin

text \<open>
  The ledger that enforces the AML limits of a wallet and a keyword: the tables, and the database functions
  \<open>sw_proc_aml_reserve\<close> and \<open>sw_proc_aml_finalize\<close> of
  \<open>database/migrations/011_aml_transaction_lifecycle.sql\<close> that the producer
  (\<open>src/modules/transaction/aml-transaction.service.ts\<close>) and the posting consumer call.  A call is one
  statement: it holds its locks to its end, and a call that fails leaves the tables as they were.
\<close>

section \<open>Tables\<close>

text \<open>
  Amounts of type \<open>numeric(20,2)\<close> and \<open>money\<close> are whole cents; limits are unconstrained numerics.
  A timestamp counts milliseconds, a day is a day number.  The columns of a reservation that only record
  where the finalizing message came from are left out.
\<close>

datatype reservation_status = Pending | Completed | Released | Reversed

record aml_reservation =
  rv_transactionId :: string
  rv_wallet :: int
  rv_walletCode :: int
  rv_keyword :: string
  rv_cents :: int
  rv_status :: reservation_status
  rv_reservedAt :: int
  rv_finalizedAt :: "int option"

record aml_config =
  ac_walletCode :: int
  ac_keyword :: string
  ac_maxTxnAmount :: rat
  ac_dailyMaxAmount :: rat
  ac_dailyTransactionCount :: rat
  ac_monthlyMaxAmount :: rat
  ac_monthlyTransactionCount :: rat
  ac_isActive :: bool

record aml_summary =
  su_wallet :: int
  su_keyword :: string
  su_monthlyCents :: "int option"
  su_monthlyCount :: "int option"
  su_dailyCents :: "int option"
  su_dailyCount :: "int option"
  su_lastUpdate :: "int option"

record aml_tables =
  am_configs :: "aml_config list"
  am_reservations :: "aml_reservation list"
  am_summaries :: "aml_summary list"

section \<open>Days and months\<close>

definition day_of :: "int \<Rightarrow> int" where
  "day_of t = t div 86400000"

text \<open>
  The calendar is the list of the first days of the months: two times lie in the same month when as many
  months have begun.
\<close>

type_synonym calendar = "int list"

definition month_of :: "calendar \<Rightarrow> int \<Rightarrow> int" where
  "month_of cal t = int (length (filter (\<lambda>d. d \<le> day_of t) cal))"

text \<open>\<open>Last_Update_Date::date = CURRENT_DATE\<close> and its month: not true of a null.\<close>

definition in_period :: "(int \<Rightarrow> int) \<Rightarrow> int option \<Rightarrow> int \<Rightarrow> bool" where
  "in_period per t now = (case t of None \<Rightarrow> False | Some u \<Rightarrow> per u = per now)"

definition coalesce :: "int option \<Rightarrow> int" where
  "coalesce v = (case v of None \<Rightarrow> 0 | Some x \<Rightarrow> x)"

text \<open>\<open>trim\<close> of the database removes spaces only.\<close>

definition pg_trim :: "string \<Rightarrow> string" where
  "pg_trim s = rev (dropWhile (\<lambda>c. c = CHR '' '') (rev (dropWhile (\<lambda>c. c = CHR '' '') s)))"

text \<open>\<open>x > limit\<close> is not true when \<open>x\<close> is null.\<close>

definition exceeds :: "rat option \<Rightarrow> rat \<Rightarrow> bool" where
  "exceeds x limit = (case x of None \<Rightarrow> False | Some v \<Rightarrow> limit < v)"

section \<open>What counts towards the limits\<close>

definition key_of :: "aml_reservation \<Rightarrow> int \<times> string" where
  "key_of r = (rv_wallet r, rv_keyword r)"

definition summary_key :: "aml_summary \<Rightarrow> int \<times> string" where
  "summary_key s = (su_wallet s, su_keyword s)"

definition find_reservation :: "aml_tables \<Rightarrow> string \<Rightarrow> aml_reservation option" where
  "find_reservation tb tid = find (\<lambda>r. rv_transactionId r = tid) (am_reservations tb)"

definition find_summary :: "aml_tables \<Rightarrow> int \<times> string \<Rightarrow> aml_summary option" where
  "find_summary tb key = find (\<lambda>s. summary_key s = key) (am_summaries tb)"

text \<open>
  \<open>SELECT CASE ... INTO\<close>: the amount or count of the summary if it was last updated in the period.  Without
  a row the target variable becomes null, whatever it was initialised with.
\<close>

definition summary_part :: "(int \<Rightarrow> int) \<Rightarrow> (aml_summary \<Rightarrow> int option) \<Rightarrow> aml_tables \<Rightarrow> int \<times> string \<Rightarrow> int \<Rightarrow> int option" where
  "summary_part per sel tb key now =
     (case find_summary tb key of
        None \<Rightarrow> None
      | Some s \<Rightarrow> Some (if in_period per (su_lastUpdate s) now then coalesce (sel s) else 0))"

text \<open>The sum of a weight (an amount, or one each) over the reservations that satisfy a condition.\<close>

definition tally :: "(aml_reservation \<Rightarrow> int) \<Rightarrow> (aml_reservation \<Rightarrow> bool) \<Rightarrow> aml_reservation list \<Rightarrow> int" where
  "tally wt P rs = sum_list (map wt (filter P rs))"

definition one :: "aml_reservation \<Rightarrow> int" where
  "one r = 1"

definition pending_part :: "(int \<Rightarrow> int) \<Rightarrow> (aml_reservation \<Rightarrow> int) \<Rightarrow> aml_tables \<Rightarrow> int \<times> string \<Rightarrow> int \<Rightarrow> int" where
  "pending_part per wt tb key now =
     tally wt (\<lambda>r. key_of r = key \<and> rv_status r = Pending \<and> per (rv_reservedAt r) = per now) (am_reservations tb)"

text \<open>\<open>v_summary + v_pending + new\<close>, null when the summary part is.\<close>

definition used_after :: "(int \<Rightarrow> int) \<Rightarrow> (aml_summary \<Rightarrow> int option) \<Rightarrow> (aml_reservation \<Rightarrow> int) \<Rightarrow> aml_tables \<Rightarrow>
    int \<times> string \<Rightarrow> int \<Rightarrow> int \<Rightarrow> int option" where
  "used_after per sel wt tb key now new =
     map_option (\<lambda>v. v + pending_part per wt tb key now + new) (summary_part per sel tb key now)"

definition in_money :: "int option \<Rightarrow> rat option" where
  "in_money = map_option (\<lambda>c. of_int c / 100)"

section \<open>Reserving capacity\<close>

record aml_answer =
  an_success :: bool
  an_code :: string
  an_message :: string
  an_transactionId :: string
  an_status :: "reservation_status option"
  an_walletCode :: "int option"
  an_dailyAmount :: "rat option"
  an_dailyCount :: "int option"
  an_monthlyAmount :: "rat option"
  an_monthlyCount :: "int option"

definition aml_reply :: "bool \<Rightarrow> string \<Rightarrow> string \<Rightarrow> string \<Rightarrow> reservation_status option \<Rightarrow> int option \<Rightarrow> aml_answer" where
  "aml_reply ok code message tid st wc = \<lparr>an_success = ok, an_code = code, an_message = message,
     an_transactionId = tid, an_status = st, an_walletCode = wc, an_dailyAmount = Some 0, an_dailyCount = Some 0,
     an_monthlyAmount = Some 0, an_monthlyCount = Some 0\<rparr>"

definition status_name :: "reservation_status \<Rightarrow> string" where
  "status_name st = (case st of Pending \<Rightarrow> ''PENDING'' | Completed \<Rightarrow> ''COMPLETED''
     | Released \<Rightarrow> ''RELEASED'' | Reversed \<Rightarrow> ''REVERSED'')"

text \<open>The answer when the transaction already has a reservation.\<close>

definition aml_repeated :: "aml_reservation \<Rightarrow> string \<Rightarrow> int \<Rightarrow> string \<Rightarrow> int \<Rightarrow> aml_answer" where
  "aml_repeated r tid w k cents =
     (if rv_wallet r \<noteq> w \<or> rv_keyword r \<noteq> k \<or> rv_cents r \<noteq> cents
      then aml_reply False ''TRANSACTION_CONFLICT''
             ''Transaction ID is already associated with different AML details'' tid (Some (rv_status r))
             (Some (rv_walletCode r))
      else if rv_status r = Pending \<or> rv_status r = Completed
      then aml_reply True (if rv_status r = Pending then ''ALREADY_RESERVED'' else ''ALREADY_COMPLETED'')
             ''AML transaction was already processed idempotently'' tid (Some (rv_status r)) (Some (rv_walletCode r))
      else aml_reply False ''TRANSACTION_CLOSED'' (''AML reservation is already '' @ status_name (rv_status r)) tid
             (Some (rv_status r)) (Some (rv_walletCode r)))"

definition active_aml_config :: "aml_tables \<Rightarrow> int \<Rightarrow> string \<Rightarrow> aml_config option" where
  "active_aml_config tb code k =
     find (\<lambda>c. ac_walletCode c = code \<and> ac_keyword c = k \<and> ac_isActive c) (am_configs tb)"

text \<open>The first limit that the four amounts and counts exceed.\<close>

definition exceeded_limit :: "aml_config \<Rightarrow> rat option \<Rightarrow> int option \<Rightarrow> rat option \<Rightarrow> int option \<Rightarrow> (string \<times> string) option" where
  "exceeded_limit c da dc ma mc =
     (if exceeds da (ac_dailyMaxAmount c)
      then Some (''AML_DAILY_AMOUNT_EXCEEDED'', ''Daily AML amount limit exceeded'')
      else if exceeds (map_option of_int dc) (ac_dailyTransactionCount c)
      then Some (''AML_DAILY_COUNT_EXCEEDED'', ''Daily AML transaction count exceeded'')
      else if exceeds ma (ac_monthlyMaxAmount c)
      then Some (''AML_MONTHLY_AMOUNT_EXCEEDED'', ''Monthly AML amount limit exceeded'')
      else if exceeds (map_option of_int mc) (ac_monthlyTransactionCount c)
      then Some (''AML_MONTHLY_COUNT_EXCEEDED'', ''Monthly AML transaction count exceeded'')
      else None)"

definition new_reservation :: "string \<Rightarrow> int \<Rightarrow> int \<Rightarrow> string \<Rightarrow> int \<Rightarrow> int \<Rightarrow> aml_reservation" where
  "new_reservation tid w code k cents now =
     \<lparr>rv_transactionId = tid, rv_wallet = w, rv_walletCode = code, rv_keyword = k, rv_cents = cents,
      rv_status = Pending, rv_reservedAt = now, rv_finalizedAt = None\<rparr>"

text \<open>
  The limits of the active configuration \<open>c\<close>, and the row when all hold.  \<open>refs\<close>: the foreign keys of the
  new row hold (transaction, wallet code, keyword).
\<close>

definition reserve_within :: "(aml_reservation \<Rightarrow> bool) \<Rightarrow> calendar \<Rightarrow> int \<Rightarrow> aml_config \<Rightarrow> aml_reservation \<Rightarrow>
    (aml_tables, aml_answer) act" where
  "reserve_within refs cal now c row = (\<lambda>tb.
     let key = key_of row;
         da = in_money (used_after day_of su_dailyCents rv_cents tb key now (rv_cents row));
         dc = used_after day_of su_dailyCount one tb key now 1;
         ma = in_money (used_after (month_of cal) su_monthlyCents rv_cents tb key now (rv_cents row));
         mc = used_after (month_of cal) su_monthlyCount one tb key now 1;
         full = (\<lambda>ok code message st. \<lparr>an_success = ok, an_code = code, an_message = message,
           an_transactionId = rv_transactionId row, an_status = st, an_walletCode = Some (rv_walletCode row),
           an_dailyAmount = da, an_dailyCount = dc, an_monthlyAmount = ma, an_monthlyCount = mc\<rparr>)
     in case exceeded_limit c da dc ma mc of
          Some (code, message) \<Rightarrow> (Inr (full False code message None), tb)
        | None \<Rightarrow>
           if 10 ^ 20 \<le> rv_cents row then (Inl (Failure ''numeric field overflow''), tb)
           else if rv_cents row \<le> 0
           then (Inl (Failure ''new row violates check constraint CK_AML_RESERVATION_AMOUNT''), tb)
           else if \<not> refs row then (Inl (Failure ''insert violates foreign key constraint''), tb)
           else (Inr (full True ''RESERVED'' ''AML limits passed and capacity was reserved'' (Some Pending)),
                 tb\<lparr>am_reservations := am_reservations tb @ [row]\<rparr>))"

text \<open>
  \<open>codes\<close>: the wallet code that \<open>walletdetail\<close> gives.  The identifiers are not null here: the service always
  sends them.
\<close>

definition sw_proc_aml_reserve :: "(aml_reservation \<Rightarrow> bool) \<Rightarrow> (int \<Rightarrow> int option) \<Rightarrow> calendar \<Rightarrow> int \<Rightarrow>
    string \<Rightarrow> int \<Rightarrow> string \<Rightarrow> rat \<Rightarrow> (aml_tables, aml_answer) act" where
  "sw_proc_aml_reserve refs codes cal now tid w keyword amount = (\<lambda>tb.
     let k = upper (pg_trim keyword);
         cents = round_half (100 * amount);
         refusal = (\<lambda>code message wc. (Inr (aml_reply False code message tid None wc), tb))
     in if 5 < length k then (Inl (Failure ''value too long for type character varying(5)''), tb)
        else if k = [] then refusal ''INVALID_REQUEST'' ''Transaction, source wallet, and keyword are required'' None
        else if amount \<le> 0 then refusal ''INVALID_AMOUNT'' ''Transaction amount must be greater than zero'' None
        else (case find_reservation tb tid of
          Some r \<Rightarrow> (Inr (aml_repeated r tid w k cents), tb)
        | None \<Rightarrow> (case codes w of
            None \<Rightarrow> refusal ''SOURCE_WALLET_NOT_FOUND'' ''Source wallet was not found'' None
          | Some code \<Rightarrow> (case active_aml_config tb code k of
              None \<Rightarrow> refusal ''AML_CONFIGURATION_NOT_FOUND''
                ''No active AML configuration exists for the source wallet and keyword'' (Some code)
            | Some c \<Rightarrow>
               if ac_maxTxnAmount c < amount
               then refusal ''AML_MAX_TRANSACTION_EXCEEDED'' ''Maximum transaction amount exceeded'' (Some code)
               else reserve_within refs cal now c (new_reservation tid w code k cents now) tb))))"

section \<open>Finalizing a reservation\<close>

record finalize_answer =
  fa_success :: bool
  fa_code :: string
  fa_message :: string
  fa_status :: "reservation_status option"

definition set_status :: "reservation_status \<Rightarrow> int \<Rightarrow> string \<Rightarrow> aml_tables \<Rightarrow> aml_tables" where
  "set_status st now tid tb = tb\<lparr>am_reservations := map (\<lambda>r. if rv_transactionId r = tid
     then r\<lparr>rv_status := st, rv_finalizedAt := Some now\<rparr> else r) (am_reservations tb)\<rparr>"

text \<open>The row the completion inserts, and the row it makes of an existing one.\<close>

definition first_summary :: "int \<Rightarrow> aml_reservation \<Rightarrow> aml_summary" where
  "first_summary now r = \<lparr>su_wallet = rv_wallet r, su_keyword = rv_keyword r, su_monthlyCents = Some (rv_cents r),
     su_monthlyCount = Some 1, su_dailyCents = Some (rv_cents r), su_dailyCount = Some 1, su_lastUpdate = Some now\<rparr>"

definition added :: "(int \<Rightarrow> int) \<Rightarrow> (aml_summary \<Rightarrow> int option) \<Rightarrow> int \<Rightarrow> aml_summary \<Rightarrow> int \<Rightarrow> int" where
  "added per sel now s x = (if in_period per (su_lastUpdate s) now then coalesce (sel s) + x else x)"

definition completed_summary :: "calendar \<Rightarrow> int \<Rightarrow> aml_reservation \<Rightarrow> aml_summary \<Rightarrow> aml_summary" where
  "completed_summary cal now r s = s\<lparr>
     su_dailyCents := Some (added day_of su_dailyCents now s (rv_cents r)),
     su_dailyCount := Some (added day_of su_dailyCount now s 1),
     su_monthlyCents := Some (added (month_of cal) su_monthlyCents now s (rv_cents r)),
     su_monthlyCount := Some (added (month_of cal) su_monthlyCount now s 1),
     su_lastUpdate := Some now\<rparr>"

text \<open>A reversal subtracts in the periods of the last update that are those of the reservation.\<close>

definition subtracted :: "(int \<Rightarrow> int) \<Rightarrow> (aml_summary \<Rightarrow> int option) \<Rightarrow> aml_reservation \<Rightarrow> aml_summary \<Rightarrow> int \<Rightarrow> int" where
  "subtracted per sel r s x = (if in_period per (su_lastUpdate s) (rv_reservedAt r) then max (coalesce (sel s) - x) 0
     else coalesce (sel s))"

definition reversed_summary :: "calendar \<Rightarrow> int \<Rightarrow> aml_reservation \<Rightarrow> aml_summary \<Rightarrow> aml_summary" where
  "reversed_summary cal now r s = s\<lparr>
     su_dailyCents := Some (subtracted day_of su_dailyCents r s (rv_cents r)),
     su_dailyCount := Some (subtracted day_of su_dailyCount r s 1),
     su_monthlyCents := Some (subtracted (month_of cal) su_monthlyCents r s (rv_cents r)),
     su_monthlyCount := Some (subtracted (month_of cal) su_monthlyCount r s 1),
     su_lastUpdate := Some now\<rparr>"

definition change_summary :: "int \<times> string \<Rightarrow> (aml_summary \<Rightarrow> aml_summary) \<Rightarrow> aml_tables \<Rightarrow> aml_tables" where
  "change_summary key f tb =
     tb\<lparr>am_summaries := map (\<lambda>s. if summary_key s = key then f s else s) (am_summaries tb)\<rparr>"

text \<open>\<open>INSERT ... ON CONFLICT DO UPDATE\<close>\<close>

definition complete_summary :: "calendar \<Rightarrow> int \<Rightarrow> aml_reservation \<Rightarrow> aml_tables \<Rightarrow> aml_tables" where
  "complete_summary cal now r tb =
     (case find_summary tb (key_of r) of
        None \<Rightarrow> tb\<lparr>am_summaries := am_summaries tb @ [first_summary now r]\<rparr>
      | Some s \<Rightarrow> change_summary (key_of r) (completed_summary cal now r) tb)"

text \<open>The \<open>money\<close> type holds 64 bits of cents.\<close>

definition fits_money :: "aml_tables \<Rightarrow> int \<times> string \<Rightarrow> bool" where
  "fits_money tb key = (case find_summary tb key of None \<Rightarrow> True
     | Some s \<Rightarrow> coalesce (su_dailyCents s) < 2 ^ 63 \<and> coalesce (su_monthlyCents s) < 2 ^ 63)"

text \<open>What happens to a reservation that was found, by the normalised outcome.\<close>

definition finalize_found :: "calendar \<Rightarrow> int \<Rightarrow> string \<Rightarrow> aml_reservation \<Rightarrow> (aml_tables, finalize_answer) act" where
  "finalize_found cal now v r = (\<lambda>tb.
     let tid = rv_transactionId r;
         answer = (\<lambda>ok code message st. \<lparr>fa_success = ok, fa_code = code, fa_message = message, fa_status = Some st\<rparr>);
         same = (\<lambda>ok code message. (Inr (answer ok code message (rv_status r)), tb));
         invalid = (\<lambda>verb. same False ''INVALID_STATE''
           (''Cannot '' @ verb @ '' a '' @ status_name (rv_status r) @ '' AML reservation''))
     in if v = ''COMPLETED'' then
          (if rv_status r = Completed then same True ''ALREADY_COMPLETED'' ''AML summary was already completed''
           else if rv_status r \<noteq> Pending then invalid ''complete''
           else (let tb' = complete_summary cal now r tb
                 in if \<not> fits_money tb' (key_of r) then (Inl (Failure ''money out of range''), tb)
                    else (Inr (answer True ''COMPLETED'' ''AML summary updated successfully'' Completed),
                          set_status Completed now tid tb')))
        else if v = ''RELEASED'' then
          (if rv_status r = Released then same True ''ALREADY_RELEASED'' ''AML reservation was already released''
           else if rv_status r \<noteq> Pending then invalid ''release''
           else (Inr (answer True ''RELEASED'' ''AML reservation released without changing the summary'' Released),
                 set_status Released now tid tb))
        else if v = ''REVERSED'' then
          (if rv_status r = Reversed then same True ''ALREADY_REVERSED'' ''AML summary was already reversed''
           else if rv_status r \<noteq> Completed then invalid ''reverse''
           else (case find_summary tb (key_of r) of
                   None \<Rightarrow> same False ''SUMMARY_NOT_FOUND'' ''AML summary row was not found for reversal''
                 | Some s \<Rightarrow> (Inr (answer True ''REVERSED'' ''AML summary reversal completed'' Reversed),
                     set_status Reversed now tid (change_summary (key_of r) (reversed_summary cal now r) tb))))
        else same False ''INVALID_OUTCOME'' ''Outcome must be COMPLETED, RELEASED, or REVERSED'')"

definition sw_proc_aml_finalize :: "calendar \<Rightarrow> int \<Rightarrow> string \<Rightarrow> string \<Rightarrow> (aml_tables, finalize_answer) act" where
  "sw_proc_aml_finalize cal now tid outcome = (\<lambda>tb.
     let v = upper (pg_trim outcome)
     in if 16 < length v then (Inl (Failure ''value too long for type character varying(16)''), tb)
        else (case find_reservation tb tid of
          None \<Rightarrow> (Inr \<lparr>fa_success = False, fa_code = ''RESERVATION_NOT_FOUND'',
            fa_message = ''No AML reservation exists for this transaction'', fa_status = None\<rparr>, tb)
        | Some r \<Rightarrow> finalize_found cal now v r tb))"

section \<open>The service\<close>

text \<open>\<open>AmlTransactionService.release\<close>: a reservation that is missing is no error.\<close>

definition aml_release :: "calendar \<Rightarrow> int \<Rightarrow> string \<Rightarrow> (aml_tables, unit) act" where
  "aml_release cal now tid =
     act_then (sw_proc_aml_finalize cal now tid ''RELEASED'') (\<lambda>a.
       act_refuse (\<lambda>_. \<not> fa_success a \<and> fa_code a \<noteq> ''RESERVATION_NOT_FOUND'')
         (Failure (''AML release failed: '' @ fa_code a @ '' '' @ fa_message a)))"

end
