(* ===== verification/WalletPins.thy ===== *)
theory WalletPins
  imports Actions
begin

text \<open>
  The PIN of a wallet owner: the database function \<open>walletpindetail\<close>
  (\<open>database/migrations/036_business_portal_identity.sql\<close>) and the service that checks a PIN against it
  (\<open>src/modules/transaction/password.service.ts\<close>).  Hashing is a parameter.
\<close>

section \<open>The stored credentials\<close>

record pin_row =
  pn_msisdn :: int
  pn_pin :: "string option"
  pn_failAttempt :: "int option"
  pn_status :: "int option"

record pin_tables =
  pt_customers :: "pin_row list"
  pt_merchants :: "pin_row list"

definition pin_row_of :: "int \<Rightarrow> pin_tables \<Rightarrow> pin_row option" where
  "pin_row_of n tb = (case find (\<lambda>p. pn_msisdn p = n) (pt_customers tb) of
     Some p \<Rightarrow> Some p | None \<Rightarrow> find (\<lambda>p. pn_msisdn p = n) (pt_merchants tb))"

definition failed_attempts :: "pin_row \<Rightarrow> int" where
  "failed_attempts p = (case pn_failAttempt p of None \<Rightarrow> 0 | Some k \<Rightarrow> k)"

text \<open>The updates change the customer's row, and the merchant's only when there is no such customer.\<close>

definition change_pin_row :: "int \<Rightarrow> (pin_row \<Rightarrow> pin_row) \<Rightarrow> pin_tables \<Rightarrow> pin_tables" where
  "change_pin_row n f tb =
     (let upd = map (\<lambda>p. if pn_msisdn p = n then f p else p)
      in if list_ex (\<lambda>p. pn_msisdn p = n) (pt_customers tb)
         then tb\<lparr>pt_customers := upd (pt_customers tb)\<rparr>
         else tb\<lparr>pt_merchants := upd (pt_merchants tb)\<rparr>)"

datatype pin_action = UpdateWalletPin string | FailedWalletPin | FailAttemptReset | CheckWalletPin

definition walletpindetail :: "int \<Rightarrow> pin_action \<Rightarrow> (pin_tables, pin_row option) act" where
  "walletpindetail n a = act_then (act_write (case a of
       UpdateWalletPin h \<Rightarrow> change_pin_row n (\<lambda>p. p\<lparr>pn_pin := Some h\<rparr>)
     | FailedWalletPin \<Rightarrow> change_pin_row n (\<lambda>p. p\<lparr>pn_failAttempt := Some (failed_attempts p + 1)\<rparr>)
     | FailAttemptReset \<Rightarrow> change_pin_row n (\<lambda>p. p\<lparr>pn_failAttempt := Some 0\<rparr>)
     | CheckWalletPin \<Rightarrow> id)) (\<lambda>_. act_read (pin_row_of n))"

section \<open>Checking a PIN\<close>

text \<open>
  \<open>cy_compare pin hash\<close>: \<open>bcrypt.compare\<close>; \<open>cy_hash\<close>: \<open>bcrypt.hash\<close> with the salt of this call;
  \<open>cy_hmac secret pin\<close>: the hexadecimal HMAC of the releases before bcrypt; \<open>cy_secret\<close>: \<open>AUTH_MODULE\<close>.
\<close>

record crypto =
  cy_compare :: "string \<Rightarrow> string \<Rightarrow> bool"
  cy_hash :: "string \<Rightarrow> string"
  cy_hmac :: "string \<Rightarrow> string \<Rightarrow> string"
  cy_secret :: "string option"

text \<open>\<open>/^\$2[aby]\$/\<close>\<close>

definition is_bcrypt :: "string \<Rightarrow> bool" where
  "is_bcrypt h = (take 2 h = ''$2'' \<and> take 1 (drop 2 h) \<in> {''a'', ''b'', ''y''} \<and> take 1 (drop 3 h) = ''$'')"

definition encryptPassword :: "crypto \<Rightarrow> string \<Rightarrow> int \<Rightarrow> (pin_tables, string) act" where
  "encryptPassword cy pin n =
     act_then (walletpindetail n (UpdateWalletPin (cy_hash cy pin))) (\<lambda>_. act_ok (cy_hash cy pin))"

definition legacy_secret :: "crypto \<Rightarrow> string option" where
  "legacy_secret cy = (case cy_secret cy of None \<Rightarrow> None | Some s \<Rightarrow> if s = [] then None else Some s)"

definition verifyPassword :: "crypto \<Rightarrow> string \<Rightarrow> string \<Rightarrow> int \<Rightarrow> (pin_tables, bool) act" where
  "verifyPassword cy pin hashed n =
     act_then
       (if is_bcrypt hashed then act_ok (cy_compare cy pin hashed)
        else act_then (act_found (\<lambda>_. legacy_secret cy)
               (Failure ''AUTH_MODULE is required to verify a legacy wallet PIN'')) (\<lambda>secret.
             if cy_hmac cy secret pin = hashed then act_then (encryptPassword cy pin n) (\<lambda>_. act_ok True)
             else act_ok False)) (\<lambda>ok.
     act_then (walletpindetail n (if ok then FailAttemptReset else FailedWalletPin)) (\<lambda>_. act_ok ok))"

record pin_check =
  pk_match :: bool
  pk_accountStatus :: int

definition PINVerify :: "crypto \<Rightarrow> string \<Rightarrow> int \<Rightarrow> (pin_tables, pin_check) act" where
  "PINVerify cy pin n =
     act_then (walletpindetail n CheckWalletPin) (\<lambda>wallet.
     act_then
       (case wallet of
          None \<Rightarrow> act_ok False
        | Some p \<Rightarrow> (case pn_pin p of
            None \<Rightarrow> act_ok False
          | Some h \<Rightarrow> if 2 < failed_attempts p then act_ok False else verifyPassword cy pin h n)) (\<lambda>ok.
     act_ok \<lparr>pk_match = ok, pk_accountStatus =
       (case wallet of None \<Rightarrow> 0 | Some p \<Rightarrow> (case pn_status p of None \<Rightarrow> 0 | Some st \<Rightarrow> st))\<rparr>))"

text \<open>A PIN the stored credentials accept.\<close>

definition pin_correct :: "crypto \<Rightarrow> string \<Rightarrow> int \<Rightarrow> pin_tables \<Rightarrow> bool" where
  "pin_correct cy pin n tb \<longleftrightarrow> (\<exists>p h. pin_row_of n tb = Some p \<and> pn_pin p = Some h \<and> failed_attempts p \<le> 2 \<and>
     (if is_bcrypt h then cy_compare cy pin h
      else \<exists>secret. legacy_secret cy = Some secret \<and> cy_hmac cy secret pin = h))"

lemma PINVerify_match:
  "PINVerify cy pin n tb = (Inr c, tb') \<Longrightarrow> pk_match c = pin_correct cy pin n tb"
  by (auto simp: PINVerify_def verifyPassword_def encryptPassword_def walletpindetail_def act_then_run act_found_def
      pin_correct_def split: option.splits if_splits)

end
