(* ===== verification/TransactionRequests.thy ===== *)
theory TransactionRequests
  imports Commission Doubles AmlLedger WalletPins
begin

text \<open>
  What a payment request touches: the tables (\<open>src/models\<close>), the request service
  (\<open>src/modules/transaction/transaction-request.service.ts\<close>) and the keyword service
  (\<open>src/modules/transaction/keyword.service.ts\<close>).
\<close>

section \<open>Tables\<close>

text \<open>
  Wallet numbers are \<open>bigint\<close> columns.  The wallet columns that pricing reads are those of the pricing tables;
  of a keyword the columns the services test are kept, the others are only copied into the message.
\<close>

record tx_wallet =
  tw_msisdn :: int
  tw_owner :: int
  tw_status :: "int option"
  tw_currency :: string

record wallet_detail =
  wd_msisdn :: int
  wd_walletCode :: "int option"
  wd_walletType :: "int option"

record wallet_user =
  wu_msisdn :: int
  wu_walletCode :: "int option"
  wu_amount :: "string option"
  wu_fullName :: "string option"

record keyword_row =
  kw_keyword :: string
  kw_scope :: "string option"
  kw_isFinancial :: "bool option"
  kw_chargeable :: "string option"
  kw_kcIdLookup :: "string option"
  kw_commissionable :: "string option"
  kw_kcmIdLookup :: "string option"
  kw_minimumTranAmount :: "string option"
  kw_isSystemKeyword :: "bool option"
  kw_isActive :: "bool option"

record tx_request =
  tr_transactionId :: string
  tr_keyword :: string
  tr_source :: int
  tr_dest :: int
  tr_amount :: rat
  tr_fee :: string
  tr_commission :: string
  tr_status :: string
  tr_referenceId :: string
  tr_feePayer :: int
  tr_commissionReceiver :: int
  tr_currency :: string
  tr_pin :: string
  tr_destFullname :: string
  tr_remarks :: string
  tr_TRNID :: string

text \<open>What the submission sends to Kafka.\<close>

record tx_message =
  tm_Source :: string
  tm_Destination :: string
  tm_Amount :: rat
  tm_Service :: string
  tm_Currency :: string
  tm_SourceBalance :: "string option"
  tm_ChargeRule :: int
  tm_ChargeDetailId :: nat
  tm_ChargeAmount :: string
  tm_ChargeWallet :: string
  tm_ChargeWalletCode :: int
  tm_ChargeWalletCredit :: string
  tm_CommissionRule :: int
  tm_CommissionDetailId :: nat
  tm_CommissionAmount :: string
  tm_CommissionWallet :: string
  tm_CommissionWalletCode :: int
  tm_CommissionWalletDebit :: string
  tm_SourceCommissionCredit :: string
  tm_DestinationCommissionCredit :: string
  tm_ChargePayer :: string
  tm_CommissionPayer :: string
  tm_SourceDebitAmount :: string
  tm_DestinationCreditAmount :: string
  tm_DestinationBalance :: "string option"
  tm_DestinationFullname :: "string option"
  tm_SourceFullname :: "string option"
  tm_TRNSID :: string
  tm_TransactionId :: string
  tm_referenceId :: "string option"
  tm_AMLReservation :: "reservation_status option \<times> int option"
  tm_keyword :: keyword_row

record tx_state =
  ts_wallets :: "tx_wallet list"
  ts_details :: "wallet_detail list"
  ts_users :: "wallet_user list"
  ts_keywords :: "keyword_row list"
  ts_pins :: pin_tables
  ts_requests :: "tx_request list"
  ts_aml :: aml_tables
  ts_queue :: "(string \<times> tx_message) list"
  ts_pricing :: pricing_db
  ts_charges :: charge_tables
  ts_commissions :: commission_tables
  ts_chargeCache :: "charge_config redis"
  ts_commissionCache :: "commission_config redis"

text \<open>
  What the process is given: the decimal library, the clock and a number from \<open>randomInt(10000, 100000)\<close>, the
  hash functions, what a money column makes of a text, the calendar, and whether the broker accepts a message.
\<close>

record tx_env =
  te_decimal :: decimal_lib
  te_now :: nat
  te_random :: nat
  te_crypto :: crypto
  te_money :: "string \<Rightarrow> string res"
  te_calendar :: calendar
  te_kafka :: "tx_message \<Rightarrow> bool"

text \<open>The body of a request, as \<open>ValidateInputPipe\<close> lets it through; the fields nothing reads are left out.\<close>

record create_transaction_dto =
  td_amount :: rat
  td_pin :: string
  td_keyword :: string
  td_sourceAccount :: string
  td_destinationAccount :: string
  td_mobileNumber :: string
  td_referenceId :: "string option"
  td_currency :: "string option"

section \<open>Requests\<close>

definition find_wallet :: "int \<Rightarrow> tx_state \<Rightarrow> tx_wallet option" where
  "find_wallet n s = find (\<lambda>w. tw_msisdn w = n) (ts_wallets s)"

definition find_request :: "string \<Rightarrow> tx_state \<Rightarrow> tx_request option" where
  "find_request tid s = find (\<lambda>r. tr_transactionId r = tid) (ts_requests s)"

definition assertWalletOwned :: "string \<Rightarrow> string \<Rightarrow> (tx_state, tx_wallet) act" where
  "assertWalletOwned identity walletId =
     act_then (act_of (bigint walletId)) (\<lambda>n.
     act_then (act_of (bigint identity)) (\<lambda>owner.
       act_found (\<lambda>s. find (\<lambda>w. tw_msisdn w = n \<and> tw_owner w = owner) (ts_wallets s))
         (Forbidden ''Wallet is not owned by the authenticated account'')))"

definition generateTransactionID :: "tx_env \<Rightarrow> string \<Rightarrow> string \<times> string" where
  "generateTransactionID env keyword =
     (let tid = nat_str (te_now env) @ nat_str (te_random env) in (tid, keyword @ ''-'' @ tid))"

text \<open>\<open>save\<close>: a row with this identifier is updated in the columns given, otherwise one is inserted.\<close>

definition save_request :: "tx_request \<Rightarrow> tx_state \<Rightarrow> tx_state" where
  "save_request r s =
     (if find_request (tr_transactionId r) s = None then s\<lparr>ts_requests := ts_requests s @ [r]\<rparr>
      else s\<lparr>ts_requests := map (\<lambda>x. if tr_transactionId x = tr_transactionId r
        then r\<lparr>tr_fee := tr_fee x, tr_commission := tr_commission x, tr_status := tr_status x,
               tr_feePayer := tr_feePayer x, tr_commissionReceiver := tr_commissionReceiver x\<rparr>
        else x) (ts_requests s)\<rparr>)"

record request_ref =
  rr_transactionId :: string
  rr_ID :: string
  rr_currency :: string

definition requested_currency :: "string option \<Rightarrow> string \<Rightarrow> string" where
  "requested_currency c source = upper (trim (case c of None \<Rightarrow> source | Some x \<Rightarrow> if x = [] then source else x))"

definition create_request :: "tx_env \<Rightarrow> create_transaction_dto \<Rightarrow> (tx_state, request_ref) act" where
  "create_request env dto =
     act_then (act_of (bigint (td_sourceAccount dto))) (\<lambda>src.
     act_then (act_of (bigint (td_destinationAccount dto))) (\<lambda>dst.
     act_then (act_found (find_wallet src) (NotFound ''Source and destination wallets must exist'')) (\<lambda>sw.
     act_then (act_found (find_wallet dst) (NotFound ''Source and destination wallets must exist'')) (\<lambda>dw.
     act_then (act_refuse (\<lambda>_. tw_status sw \<noteq> Some 0 \<or> tw_status dw \<noteq> Some 0)
       (BadRequest ''Source and destination wallets must be active'')) (\<lambda>_.
     let sc = upper (trim (tw_currency sw));
         dc = upper (trim (tw_currency dw));
         cur = requested_currency (td_currency dto) sc;
         ids = generateTransactionID env (td_keyword dto)
     in act_then (act_refuse (\<lambda>_. \<not> (length cur = 3 \<and> list_all is_upper cur))
          (BadRequest ''A valid ISO transaction currency is required'')) (\<lambda>_.
        act_then (act_refuse (\<lambda>_. sc \<noteq> cur \<or> dc \<noteq> cur)
          (BadRequest ''Normal transfers require source, destination, and transaction currencies to match'')) (\<lambda>_.
        act_then (act_write (save_request \<lparr>tr_transactionId = fst ids, tr_keyword = td_keyword dto, tr_source = src,
            tr_dest = dst, tr_amount = td_amount dto, tr_fee = ''$0.00'', tr_commission = ''$0.00'', tr_status = ''1'',
            tr_referenceId = (case td_referenceId dto of None \<Rightarrow> [] | Some t \<Rightarrow> trim t), tr_feePayer = 0,
            tr_commissionReceiver = 0, tr_currency = cur, tr_pin = [], tr_destFullname = [], tr_remarks = [],
            tr_TRNID = snd ids\<rparr>)) (\<lambda>_.
          act_ok \<lparr>rr_transactionId = fst ids, rr_ID = snd ids, rr_currency = cur\<rparr>))))))))"

record update_request_dto =
  ud_transactionId :: string
  ud_transactionStatus :: string
  ud_feePayer :: string
  ud_commissionReceiver :: string
  ud_transactionFee :: string
  ud_transactionCommission :: string

definition update_request :: "tx_env \<Rightarrow> update_request_dto \<Rightarrow> (tx_state, unit) act" where
  "update_request env u =
     act_then (act_of (bigint (ud_feePayer u))) (\<lambda>payer.
     act_then (act_of (bigint (ud_commissionReceiver u))) (\<lambda>receiver.
     act_then (act_of (te_money env (ud_transactionFee u))) (\<lambda>fee.
     act_then (act_of (te_money env (ud_transactionCommission u))) (\<lambda>commission.
       act_write (\<lambda>s. s\<lparr>ts_requests := map (\<lambda>r. if tr_transactionId r = ud_transactionId u
         then r\<lparr>tr_status := ud_transactionStatus u, tr_feePayer := payer, tr_commissionReceiver := receiver,
                tr_fee := fee, tr_commission := commission\<rparr>
         else r) (ts_requests s)\<rparr>)))))"

text \<open>A request is found by its identifier and shown to the owner of its source wallet only.\<close>

definition findOneForOwner :: "string \<Rightarrow> string \<Rightarrow> (tx_state, tx_request) act" where
  "findOneForOwner tid identity =
     act_then (act_found (find_request tid) (NotFound ''Transaction request was not found'')) (\<lambda>r.
     act_then (assertWalletOwned identity (int_str (tr_source r))) (\<lambda>_. act_ok r))"

section \<open>Keywords\<close>

datatype wallet_check = WalletsMissing int string | WalletsFound string

definition wallet_detail_of :: "int \<Rightarrow> tx_state \<Rightarrow> wallet_detail option" where
  "wallet_detail_of n s = find (\<lambda>d. wd_msisdn d = n) (ts_details s)"

definition scope_of :: "wallet_detail \<Rightarrow> string" where
  "scope_of d = (if wd_walletType d = Some 200 then ''M'' else if wd_walletType d = Some 300 then ''A''
     else if wd_walletType d = Some 100 then ''C'' else ''S'')"

definition checkwalletdetails :: "int \<Rightarrow> int \<Rightarrow> tx_state \<Rightarrow> wallet_check" where
  "checkwalletdetails src dst s = (case wallet_detail_of src s of
     None \<Rightarrow> WalletsMissing 998 ''Source Account not found''
   | Some _ \<Rightarrow> (case wallet_detail_of dst s of
       None \<Rightarrow> WalletsMissing 997 ''Destination Account not found''
     | Some d \<Rightarrow> WalletsFound (scope_of d)))"

text \<open>
  \<open>KwAnswer\<close>: an answer without \<open>AMLCHECK\<close>; \<open>KwEligible\<close>: code 200 with one entry of \<open>AMLCHECK\<close> and the keyword.
\<close>

datatype keyword_answer = KwAnswer int string | KwEligible int string keyword_row

text \<open>\<open>minimumTranAmount > amount\<close>, where the column is a decimal text or null.\<close>

definition below_minimum :: "keyword_row \<Rightarrow> rat \<Rightarrow> bool" where
  "below_minimum k amount = num_lt (NumFin amount)
     (case kw_minimumTranAmount k of None \<Rightarrow> NumFin 0 | Some t \<Rightarrow> string_number t)"

definition keyword_row_of :: "string \<Rightarrow> tx_state \<Rightarrow> keyword_row option" where
  "keyword_row_of k s = find (\<lambda>r. kw_keyword r = k) (ts_keywords s)"

definition checkkeyword :: "string \<Rightarrow> int \<Rightarrow> int \<Rightarrow> rat \<Rightarrow> tx_state \<Rightarrow> keyword_answer" where
  "checkkeyword keyword src dst amount s = (case keyword_row_of keyword s of
     None \<Rightarrow> KwAnswer 999 ''Service Deactivated''
   | Some k \<Rightarrow>
      if kw_isActive k = Some False then KwAnswer 999 ''Service Deactivated''
      else if kw_isActive k = Some True \<and> kw_isFinancial k = Some False
      then KwAnswer 200 ''Keyword found and Service is Active''
      else if kw_isActive k = Some True \<and> kw_isFinancial k = Some True
      then (case checkwalletdetails src dst s of
          WalletsMissing code d \<Rightarrow> KwAnswer code d
        | WalletsFound scope \<Rightarrow>
           if Some scope \<noteq> kw_scope k then KwAnswer 998 ''Service Blocked''
           else if below_minimum k amount then KwAnswer 997 ''Minimum Amount Not Met''
           else if kw_isSystemKeyword k = Some True
           then KwEligible 100 ''AML check bypassed for system keyword'' k
           else KwEligible 100 ''AML eligibility passed; transactional reservation required'' k)
      else KwAnswer 200 ''Keyword found'')"

end
