(* ===== verification/Transactions.thy ===== *)
theory Transactions
  imports TransactionRequests
begin

text \<open>
  The submission of a payment, \<open>transactionprocess\<close> of \<open>src/modules/transaction/transaction.service.ts\<close>: the
  guards in the order of the code, pricing, the AML reservation, and the dispatch to Kafka with its clean-up.
  The handler is written in continuation style where the code returns early.
\<close>

section \<open>Answers and failure\<close>

record submit_answer =
  sa_code :: int
  sa_description :: string
  sa_transactionId :: "string option"
  sa_amlCode :: "string option"

definition plain_answer :: "int \<Rightarrow> string \<Rightarrow> submit_answer" where
  "plain_answer code d = \<lparr>sa_code = code, sa_description = d, sa_transactionId = None, sa_amlCode = None\<rparr>"

definition markTransactionFailed :: "tx_env \<Rightarrow> string \<Rightarrow> (tx_state, unit) act" where
  "markTransactionFailed env tid = update_request env \<lparr>ud_transactionId = tid, ud_transactionStatus = ''3'',
     ud_feePayer = ''0'', ud_commissionReceiver = ''0'', ud_transactionFee = ''0.00'', ud_transactionCommission = ''0.00''\<rparr>"

text \<open>\<open>await this.markTransactionFailed(id); return answer\<close>\<close>

definition fail_with :: "tx_env \<Rightarrow> string \<Rightarrow> submit_answer \<Rightarrow> (tx_state, submit_answer) act" where
  "fail_with env tid a = act_then (markTransactionFailed env tid) (\<lambda>_. act_ok a)"

text \<open>\<open>try { ... } catch (error) { await this.markTransactionFailed(id); throw error }\<close>\<close>

definition or_fail :: "tx_env \<Rightarrow> string \<Rightarrow> (tx_state, 'a) act \<Rightarrow> (tx_state, 'a) act" where
  "or_fail env tid m = act_catch m (\<lambda>e. act_then (markTransactionFailed env tid) (\<lambda>_. act_throw e))"

section \<open>The services on the whole state\<close>

definition in_pins :: "(pin_tables, 'a) act \<Rightarrow> (tx_state, 'a) act" where
  "in_pins = act_in ts_pins (\<lambda>t s. s\<lparr>ts_pins := t\<rparr>)"

definition in_aml :: "(aml_tables, 'a) act \<Rightarrow> (tx_state, 'a) act" where
  "in_aml = act_in ts_aml (\<lambda>t s. s\<lparr>ts_aml := t\<rparr>)"

definition tx_charge :: "tx_env \<Rightarrow> charge_request \<Rightarrow> (tx_state, charge_result) act" where
  "tx_charge env q = (\<lambda>s. act_in ts_chargeCache (\<lambda>c s. s\<lparr>ts_chargeCache := c\<rparr>)
     (calculate_charge (te_decimal env) (int (te_now env)) (ts_pricing s) (ts_charges s) q) s)"

definition tx_commission :: "tx_env \<Rightarrow> charge_request \<Rightarrow> (tx_state, commission_result) act" where
  "tx_commission env q = (\<lambda>s. act_in ts_commissionCache (\<lambda>c s. s\<lparr>ts_commissionCache := c\<rparr>)
     (calculate_commission (te_decimal env) (int (te_now env)) (ts_pricing s) (ts_commissions s) q) s)"

definition aml_codes :: "tx_state \<Rightarrow> int \<Rightarrow> int option" where
  "aml_codes s w = (case wallet_detail_of w s of None \<Rightarrow> None | Some d \<Rightarrow> wd_walletCode d)"

text \<open>The foreign keys of a reservation: the transaction, the wallet type and the keyword exist.\<close>

definition aml_refs :: "tx_state \<Rightarrow> aml_reservation \<Rightarrow> bool" where
  "aml_refs s r \<longleftrightarrow> find_request (rv_transactionId r) s \<noteq> None \<and>
     wallet_type (ct_wallets (ts_charges s)) (rv_walletCode r) \<noteq> None \<and> keyword_row_of (rv_keyword r) s \<noteq> None"

definition tx_reserve :: "tx_env \<Rightarrow> string \<Rightarrow> int \<Rightarrow> string \<Rightarrow> rat \<Rightarrow> (tx_state, aml_answer) act" where
  "tx_reserve env tid w keyword amount = (\<lambda>s. in_aml
     (sw_proc_aml_reserve (aml_refs s) (aml_codes s) (te_calendar env) (int (te_now env)) tid w keyword amount) s)"

definition tx_release :: "tx_env \<Rightarrow> string \<Rightarrow> (tx_state, unit) act" where
  "tx_release env tid = in_aml (aml_release (te_calendar env) (int (te_now env)) tid)"

definition sendTransaction :: "tx_env \<Rightarrow> tx_message \<Rightarrow> string \<Rightarrow> (tx_state, unit) act" where
  "sendTransaction env m topic = act_then
     (act_refuse (\<lambda>_. \<not> te_kafka env m) (Failure ''Kafka submission failed''))
     (\<lambda>_. act_write (\<lambda>s. s\<lparr>ts_queue := ts_queue s @ [(topic, m)]\<rparr>))"

section \<open>Pricing\<close>

text \<open>\<open>Number(Wallet_Code)\<close>; a null reads as 0.\<close>

definition wallet_code_of :: "wallet_user \<Rightarrow> int" where
  "wallet_code_of u = (case wu_walletCode u of None \<Rightarrow> 0 | Some c \<Rightarrow> c)"

text \<open>\<open>String(flag || 'N').trim().toUpperCase() === 'Y'\<close>\<close>

definition flag_set :: "string option \<Rightarrow> bool" where
  "flag_set f = (upper (trim (case f of None \<Rightarrow> ''N'' | Some x \<Rightarrow> if x = [] then ''N'' else x)) = ''Y'')"

definition pricing_request :: "create_transaction_dto \<Rightarrow> request_ref \<Rightarrow> wallet_user \<Rightarrow> wallet_user \<Rightarrow> wallet_user \<Rightarrow> charge_request" where
  "pricing_request dto req src dst lookup = \<lparr>cq_transactionId = rr_transactionId req, cq_keyword = td_keyword dto,
     cq_walletId = wallet_code_of lookup, cq_sourceWalletType = Some (wallet_code_of src),
     cq_destinationWalletType = Some (wallet_code_of dst), cq_currency = Some (rr_currency req),
     cq_amount = num_str (NumFin (td_amount dto))\<rparr>"

definition with_charge :: "tx_env \<Rightarrow> create_transaction_dto \<Rightarrow> request_ref \<Rightarrow> keyword_row \<Rightarrow> wallet_user \<Rightarrow> wallet_user \<Rightarrow>
    (charge_result option \<Rightarrow> (tx_state, submit_answer) act) \<Rightarrow> (tx_state, submit_answer) act" where
  "with_charge env dto req kw src dst k =
     (if flag_set (kw_chargeable kw) then
        (let lookup = if kw_kcIdLookup kw = Some ''S'' then src else dst
         in if wallet_code_of lookup \<le> 0
            then fail_with env (rr_transactionId req) (plain_answer 422 ''Valid wallet ID is required for charge calculation'')
            else act_then (or_fail env (rr_transactionId req) (tx_charge env (pricing_request dto req src dst lookup)))
                   (\<lambda>c. k (Some c)))
      else k None)"

definition with_commission :: "tx_env \<Rightarrow> create_transaction_dto \<Rightarrow> request_ref \<Rightarrow> keyword_row \<Rightarrow> wallet_user \<Rightarrow> wallet_user \<Rightarrow>
    (commission_result option \<Rightarrow> (tx_state, submit_answer) act) \<Rightarrow> (tx_state, submit_answer) act" where
  "with_commission env dto req kw src dst k =
     (if flag_set (kw_commissionable kw) then
        (let lookup = if kw_kcmIdLookup kw = Some ''S'' then src else dst
         in if wallet_code_of lookup \<le> 0
            then fail_with env (rr_transactionId req)
                   (plain_answer 422 ''Valid wallet ID is required for commission calculation'')
            else act_then (or_fail env (rr_transactionId req) (tx_commission env (pricing_request dto req src dst lookup)))
                   (\<lambda>c. k (Some c)))
      else k None)"

section \<open>Reservation and dispatch\<close>

definition with_reservation :: "tx_env \<Rightarrow> create_transaction_dto \<Rightarrow> request_ref \<Rightarrow> keyword_row \<Rightarrow> int \<Rightarrow>
    (aml_answer option \<Rightarrow> (tx_state, submit_answer) act) \<Rightarrow> (tx_state, submit_answer) act" where
  "with_reservation env dto req kw n k =
     (if kw_isSystemKeyword kw \<noteq> Some True then
        act_then (or_fail env (rr_transactionId req)
          (tx_reserve env (rr_transactionId req) n (td_keyword dto) (td_amount dto))) (\<lambda>a.
        if \<not> an_success a
        then fail_with env (rr_transactionId req) \<lparr>sa_code = 980, sa_description = an_message a,
               sa_transactionId = Some (rr_transactionId req), sa_amlCode = Some (an_code a)\<rparr>
        else k (Some a))
      else k None)"

definition payer_account :: "create_transaction_dto \<Rightarrow> party option \<Rightarrow> string" where
  "payer_account dto p = (case p of None \<Rightarrow> [] | Some PartyS \<Rightarrow> td_sourceAccount dto | Some PartyD \<Rightarrow> td_destinationAccount dto)"

definition text_or :: "string \<Rightarrow> string \<Rightarrow> string" where
  "text_or s d = (if s = [] then d else s)"

definition option_or :: "('a \<Rightarrow> 'b) \<Rightarrow> 'b \<Rightarrow> 'a option \<Rightarrow> 'b" where
  "option_or f d v = (case v of None \<Rightarrow> d | Some x \<Rightarrow> f x)"

text \<open>\<open>Number(amount).toFixed(2)\<close>: the larger of the two nearest hundredths of the double.\<close>

definition to_fixed2 :: "rat \<Rightarrow> string" where
  "to_fixed2 q = (if 10 ^ 21 \<le> val q then num_str (NumFin q) else money_text (of_int \<lfloor>val q * 100 + 1 / 2\<rfloor> / 100))"

definition submission_update :: "create_transaction_dto \<Rightarrow> request_ref \<Rightarrow> charge_result option \<Rightarrow> commission_result option \<Rightarrow>
    update_request_dto" where
  "submission_update dto req ch co = \<lparr>ud_transactionId = rr_transactionId req, ud_transactionStatus = ''2'',
     ud_feePayer = text_or (payer_account dto (map_option cr_payer ch)) ''0'',
     ud_commissionReceiver = text_or (payer_account dto (map_option or_receiver co)) ''0'',
     ud_transactionFee = option_or cr_chargeAmount ''0.00'' ch,
     ud_transactionCommission = option_or or_commissionAmount ''0.00'' co\<rparr>"

definition submission_message :: "create_transaction_dto \<Rightarrow> request_ref \<Rightarrow> keyword_row \<Rightarrow> wallet_user \<Rightarrow> wallet_user \<Rightarrow>
    charge_result option \<Rightarrow> commission_result option \<Rightarrow> aml_answer option \<Rightarrow> tx_message" where
  "submission_message dto req kw src dst ch co aml = \<lparr>
     tm_Source = td_sourceAccount dto, tm_Destination = td_destinationAccount dto, tm_Amount = td_amount dto,
     tm_Service = td_keyword dto, tm_Currency = rr_currency req, tm_SourceBalance = wu_amount src,
     tm_ChargeRule = option_or cr_chargeId 0 ch, tm_ChargeDetailId = option_or cr_chargeDetailId 0 ch,
     tm_ChargeAmount = option_or cr_chargeAmount ''0.00'' ch,
     tm_ChargeWallet = option_or (\<lambda>c. cw_msisdn (cr_chargeWallet c)) [] ch,
     tm_ChargeWalletCode = option_or (\<lambda>c. option_or id 0 (cw_code (cr_chargeWallet c))) 0 ch,
     tm_ChargeWalletCredit = option_or (\<lambda>c. cw_amount (cr_chargeWallet c)) ''0.00'' ch,
     tm_CommissionRule = option_or or_commissionId 0 co, tm_CommissionDetailId = option_or or_commissionDetailId 0 co,
     tm_CommissionAmount = option_or or_commissionAmount ''0.00'' co,
     tm_CommissionWallet = option_or (\<lambda>c. cw_msisdn (or_wallet c)) [] co,
     tm_CommissionWalletCode = option_or (\<lambda>c. option_or id 0 (cw_code (or_wallet c))) 0 co,
     tm_CommissionWalletDebit = option_or (\<lambda>c. cw_amount (or_wallet c)) ''0.00'' co,
     tm_SourceCommissionCredit = option_or or_sourceCredit ''0.00'' co,
     tm_DestinationCommissionCredit = option_or or_destinationCredit ''0.00'' co,
     tm_ChargePayer = payer_account dto (map_option cr_payer ch),
     tm_CommissionPayer = payer_account dto (map_option or_receiver co),
     tm_SourceDebitAmount = option_or cr_sourceDebitAmount (to_fixed2 (td_amount dto)) ch,
     tm_DestinationCreditAmount = option_or cr_destinationCreditAmount (to_fixed2 (td_amount dto)) ch,
     tm_DestinationBalance = wu_amount dst, tm_DestinationFullname = wu_fullName dst, tm_SourceFullname = wu_fullName src,
     tm_TRNSID = rr_ID req, tm_TransactionId = rr_transactionId req, tm_referenceId = td_referenceId dto,
     tm_AMLReservation = option_or (\<lambda>a. (an_status a, an_walletCode a)) (None, None) aml, tm_keyword = kw\<rparr>"

text \<open>A release that fails is only logged.\<close>

definition release_quietly :: "tx_env \<Rightarrow> string \<Rightarrow> (tx_state, unit) act" where
  "release_quietly env tid = act_catch (tx_release env tid) (\<lambda>_. act_ok ())"

definition dispatch :: "tx_env \<Rightarrow> create_transaction_dto \<Rightarrow> string \<Rightarrow> update_request_dto \<Rightarrow> tx_message \<Rightarrow> bool \<Rightarrow>
    (tx_state, submit_answer) act" where
  "dispatch env dto tid u m reserved =
     act_then
       (act_catch (act_then (update_request env u) (\<lambda>_. sendTransaction env m (td_keyword dto)))
          (\<lambda>e. act_then (if reserved then release_quietly env tid else act_ok ())
             (\<lambda>_. act_then (markTransactionFailed env tid) (\<lambda>_. act_throw e))))
       (\<lambda>_. act_ok \<lparr>sa_code = 200, sa_description = ''Transaction submitted successfully'',
          sa_transactionId = Some tid, sa_amlCode = None\<rparr>)"

section \<open>The handler\<close>

definition find_user :: "int \<Rightarrow> tx_state \<Rightarrow> wallet_user option" where
  "find_user n s = find (\<lambda>u. wu_msisdn u = n) (ts_users s)"

text \<open>From the check of the PIN on; \<open>n\<close>: the number of the source wallet.\<close>

definition process_payment :: "tx_env \<Rightarrow> create_transaction_dto \<Rightarrow> request_ref \<Rightarrow> keyword_row \<Rightarrow> int \<Rightarrow> wallet_user \<Rightarrow>
    wallet_user \<Rightarrow> (tx_state, submit_answer) act" where
  "process_payment env dto req kw n src dst =
     act_then (act_of (bigint (td_mobileNumber dto))) (\<lambda>mobile.
     act_then (in_pins (PINVerify (te_crypto env) (td_pin dto) mobile)) (\<lambda>check.
     if \<not> pk_match check
     then fail_with env (rr_transactionId req) (plain_answer 401 ''Password verification failed'')
     else if wallet_code_of src \<le> 0 \<or> wallet_code_of dst \<le> 0
     then fail_with env (rr_transactionId req)
            (plain_answer 422 ''Source and destination wallet types are required for pricing'')
     else with_charge env dto req kw src dst (\<lambda>ch.
          with_commission env dto req kw src dst (\<lambda>co.
          with_reservation env dto req kw n (\<lambda>aml.
            dispatch env dto (rr_transactionId req) (submission_update dto req ch co)
              (submission_message dto req kw src dst ch co aml) (aml \<noteq> None))))))"

definition process_users :: "tx_env \<Rightarrow> create_transaction_dto \<Rightarrow> request_ref \<Rightarrow> keyword_row \<Rightarrow> int \<Rightarrow> int \<Rightarrow>
    (tx_state, submit_answer) act" where
  "process_users env dto req kw n m =
     act_then (act_read (find_user n)) (\<lambda>userDetails.
     act_then (act_read (find_user m)) (\<lambda>destinationuser.
     case userDetails of
       None \<Rightarrow> fail_with env (rr_transactionId req) (plain_answer 404 ''Source user not found'')
     | Some src \<Rightarrow> (case destinationuser of
         None \<Rightarrow> fail_with env (rr_transactionId req) (plain_answer 404 ''Destination user not found'')
       | Some dst \<Rightarrow> process_payment env dto req kw n src dst)))"

definition process_keyword :: "tx_env \<Rightarrow> create_transaction_dto \<Rightarrow> request_ref \<Rightarrow> int \<Rightarrow> int \<Rightarrow> (tx_state, submit_answer) act" where
  "process_keyword env dto req n m =
     act_then (act_read (checkkeyword (td_keyword dto) n m (td_amount dto))) (\<lambda>answer.
     case answer of
       KwAnswer code d \<Rightarrow>
         if code \<noteq> 200 then fail_with env (rr_transactionId req) (plain_answer code d)
         else fail_with env (rr_transactionId req)
                (plain_answer 422 ''Keyword is not eligible for financial transaction processing'')
     | KwEligible code msg kw \<Rightarrow>
         if code = 100 then process_users env dto req kw n m
         else fail_with env (rr_transactionId req) \<lparr>sa_code = code, sa_description = msg,
                sa_transactionId = Some (rr_transactionId req), sa_amlCode = None\<rparr>)"

definition transactionprocess :: "tx_env \<Rightarrow> create_transaction_dto \<Rightarrow> string \<Rightarrow> (tx_state, submit_answer) act" where
  "transactionprocess env dto identity =
     act_then (act_refuse (\<lambda>_. td_mobileNumber dto \<noteq> identity)
       (Forbidden ''Transaction identity does not match the authenticated account'')) (\<lambda>_.
     act_then (assertWalletOwned identity (td_sourceAccount dto)) (\<lambda>_.
     act_then (create_request env dto) (\<lambda>req.
     act_then (act_of (bigint (td_sourceAccount dto))) (\<lambda>n.
     act_then (act_of (bigint (td_destinationAccount dto))) (\<lambda>m.
       process_keyword env dto req n m)))))"

section \<open>Reading\<close>

definition balanceCheck :: "string option \<Rightarrow> string \<Rightarrow> (tx_state, wallet_detail option) act" where
  "balanceCheck account identity = (case account of
     None \<Rightarrow> act_throw (Forbidden ''An owned wallet identifier is required'')
   | Some a \<Rightarrow> if a = [] then act_throw (Forbidden ''An owned wallet identifier is required'')
       else act_then (assertWalletOwned identity a) (\<lambda>_.
            act_then (act_of (bigint a)) (\<lambda>n. act_read (wallet_detail_of n))))"

definition getTransactionRequest :: "string \<Rightarrow> string \<Rightarrow> (tx_state, tx_request) act" where
  "getTransactionRequest tid identity = findOneForOwner tid identity"

end
