(* ===== verification/AmlLimits.thy ===== *)
theory AmlLimits
  imports AmlLedger
begin

text \<open>
  What the ledger keeps under every call: its structure, and that the summaries cover the completed
  reservations of their day and of their month.  The four totals the limits are about (amounts and counts,
  by day and by month) satisfy one contract, the locale \<open>account\<close>.
\<close>

section \<open>Sums over reservations\<close>

lemma tally_simps [simp]:
  "tally wt P [] = 0"
  "tally wt P (r # rs) = (if P r then wt r else 0) + tally wt P rs"
  "tally wt P (rs @ ss) = tally wt P rs + tally wt P ss"
  by (simp_all add: tally_def)

lemma tally_none: "(\<And>r. r \<in> set rs \<Longrightarrow> \<not> P r) \<Longrightarrow> tally wt P rs = 0"
  by (induction rs) auto

lemma tally_nonneg: "(\<And>r. r \<in> set rs \<Longrightarrow> 0 \<le> wt r) \<Longrightarrow> 0 \<le> tally wt P rs"
  by (induction rs) auto

lemma tally_cong: "(\<And>r. r \<in> set rs \<Longrightarrow> P r = Q r) \<Longrightarrow> tally wt P rs = tally wt Q rs"
  by (induction rs) auto

lemma tally_disj: "(\<And>r. \<not> (P r \<and> Q r)) \<Longrightarrow> tally wt (\<lambda>r. P r \<or> Q r) rs = tally wt P rs + tally wt Q rs"
proof (induction rs)
  case (Cons r rs)
  then have "\<not> (P r \<and> Q r)" and "tally wt (\<lambda>r. P r \<or> Q r) rs = tally wt P rs + tally wt Q rs" by blast+
  then show ?case by auto
qed simp

text \<open>Changing the one reservation of an identifier moves its weight.\<close>

lemma tally_change:
  assumes "distinct (map rv_transactionId rs)" and "r \<in> set rs" and "rv_transactionId r = tid"
    and "wt (f r) = wt r"
  shows "tally wt P (map (\<lambda>x. if rv_transactionId x = tid then f x else x) rs) =
    tally wt P rs - (if P r then wt r else 0) + (if P (f r) then wt r else 0)"
  using assms(1,2)
proof (induction rs)
  case (Cons x rs)
  show ?case
  proof (cases "rv_transactionId x = tid")
    case True
    with Cons.prems assms(3) have x: "x = r" by (force dest: image_eqI[of tid rv_transactionId])
    have "map (\<lambda>x. if rv_transactionId x = tid then f x else x) rs = rs"
      using Cons.prems(1) True by (intro map_idI) (auto simp: image_iff)
    with x True assms(4) show ?thesis by simp
  next
    case False
    with Cons assms(3) show ?thesis by auto
  qed
qed simp

section \<open>The structure of the ledger\<close>

definition ledger :: "int \<Rightarrow> aml_tables \<Rightarrow> bool" where
  "ledger now tb \<longleftrightarrow>
     distinct (map rv_transactionId (am_reservations tb)) \<and>
     distinct (map summary_key (am_summaries tb)) \<and>
     (\<forall>r \<in> set (am_reservations tb). 0 < rv_cents r \<and> rv_reservedAt r \<le> now) \<and>
     (\<forall>r \<in> set (am_reservations tb). rv_status r = Completed \<longrightarrow>
        (\<exists>s \<in> set (am_summaries tb). \<exists>u. summary_key s = key_of r \<and> su_lastUpdate s = Some u \<and>
           rv_reservedAt r \<le> u \<and> u \<le> now))"

lemma find_reservation_Some: "find_reservation tb tid = Some r \<Longrightarrow> r \<in> set (am_reservations tb) \<and> rv_transactionId r = tid"
  by (auto simp: find_reservation_def find_Some_iff)

lemma find_summary_Some: "find_summary tb key = Some s \<Longrightarrow> s \<in> set (am_summaries tb) \<and> summary_key s = key"
  by (auto simp: find_summary_def find_Some_iff)

lemma find_summary_None: "find_summary tb key = None \<Longrightarrow> s \<in> set (am_summaries tb) \<Longrightarrow> summary_key s \<noteq> key"
  by (auto simp: find_summary_def find_None_iff)

lemma summary_unique:
  "distinct (map summary_key (am_summaries tb)) \<Longrightarrow> s \<in> set (am_summaries tb) \<Longrightarrow> s' \<in> set (am_summaries tb) \<Longrightarrow>
   summary_key s = summary_key s' \<Longrightarrow> s = s'"
  by (simp add: distinct_map inj_on_def)

lemma reservation_unique:
  "distinct (map rv_transactionId (am_reservations tb)) \<Longrightarrow> r \<in> set (am_reservations tb) \<Longrightarrow>
   r' \<in> set (am_reservations tb) \<Longrightarrow> rv_transactionId r = rv_transactionId r' \<Longrightarrow> r = r'"
  by (simp add: distinct_map inj_on_def)

lemma summary_key_kept [simp]:
  "summary_key (completed_summary cal now r s) = summary_key s"
  "summary_key (reversed_summary cal now r s) = summary_key s"
  "summary_key (first_summary now r) = key_of r"
  "su_lastUpdate (completed_summary cal now r s) = Some now"
  "su_lastUpdate (reversed_summary cal now r s) = Some now"
  "su_lastUpdate (first_summary now r) = Some now"
  by (simp_all add: summary_key_def key_of_def completed_summary_def reversed_summary_def first_summary_def)

lemma set_status_simps [simp]:
  "am_summaries (set_status st now tid tb) = am_summaries tb"
  "am_configs (set_status st now tid tb) = am_configs tb"
  "am_reservations (change_summary key f tb) = am_reservations tb"
  "am_reservations (complete_summary cal now r tb) = am_reservations tb"
  by (simp_all add: set_status_def change_summary_def complete_summary_def split: option.split)

text \<open>The three changes of a ledger.\<close>

lemma ledger_later: "ledger t tb \<Longrightarrow> t \<le> now \<Longrightarrow> ledger now tb"
  unfolding ledger_def by (meson order_trans)

lemma ledger_reserve:
  assumes "ledger now tb" and "find_reservation tb tid = None" and "0 < cents"
  shows "ledger now (tb\<lparr>am_reservations := am_reservations tb @ [new_reservation tid w code k cents now]\<rparr>)"
  using assms by (auto simp: ledger_def new_reservation_def find_reservation_def find_None_iff)

text \<open>A call that finalizes changes nothing, or does one of three things.\<close>

lemma finalize_found_cases:
  assumes "finalize_found cal now v r tb = (res, tb')"
  obtains (same) "tb' = tb"
  | (complete) "rv_status r = Pending" "tb' = set_status Completed now (rv_transactionId r) (complete_summary cal now r tb)"
  | (release) "rv_status r = Pending" "tb' = set_status Released now (rv_transactionId r) tb"
  | (reverse) s where "rv_status r = Completed" "find_summary tb (key_of r) = Some s"
      "tb' = set_status Reversed now (rv_transactionId r) (change_summary (key_of r) (reversed_summary cal now r) tb)"
proof -
  consider "v = ''COMPLETED''" | "v = ''RELEASED''" | "v = ''REVERSED''"
    | "v \<noteq> ''COMPLETED''" "v \<noteq> ''RELEASED''" "v \<noteq> ''REVERSED''" by blast
  then show thesis
  proof cases
    case 1
    with assms that(1,2) show thesis by (simp add: finalize_found_def Let_def split: if_splits)
  next
    case 2
    with assms that(1,3) show thesis by (simp add: finalize_found_def Let_def split: if_splits)
  next
    case 3
    with assms that(1,4) show thesis by (simp add: finalize_found_def Let_def split: if_splits option.splits)
  next
    case 4
    with assms that(1) show thesis by (simp add: finalize_found_def Let_def)
  qed
qed

lemma finalize_cases:
  assumes "sw_proc_aml_finalize cal now tid v tb = (res, tb')"
  obtains (same) "tb' = tb"
  | (complete) r where "find_reservation tb tid = Some r" "rv_status r = Pending"
      "tb' = set_status Completed now tid (complete_summary cal now r tb)"
  | (release) r where "find_reservation tb tid = Some r" "rv_status r = Pending"
      "tb' = set_status Released now tid tb"
  | (reverse) r s where "find_reservation tb tid = Some r" "rv_status r = Completed"
      "find_summary tb (key_of r) = Some s"
      "tb' = set_status Reversed now tid (change_summary (key_of r) (reversed_summary cal now r) tb)"
proof (cases "find_reservation tb tid")
  case None
  with assms that(1) show thesis by (simp add: sw_proc_aml_finalize_def Let_def split: if_splits)
next
  case (Some r)
  from find_reservation_Some[OF Some] have i: "rv_transactionId r = tid" by simp
  show thesis
  proof (cases "16 < length (upper (pg_trim v))")
    case True
    with assms that(1) show thesis by (simp add: sw_proc_aml_finalize_def Let_def)
  next
    case False
    with assms Some have "finalize_found cal now (upper (pg_trim v)) r tb = (res, tb')"
      by (simp add: sw_proc_aml_finalize_def Let_def)
    then show thesis using that Some by (cases rule: finalize_found_cases) (simp_all add: i)
  qed
qed

lemma reserve_within_cases:
  assumes "reserve_within refs cal now c row tb = (res, tb')"
  obtains (same) "tb' = tb" "\<And>x. res = Inr x \<Longrightarrow> an_code x \<noteq> ''RESERVED''" "\<And>x. res = Inr x \<Longrightarrow> \<not> an_success x"
  | (grant) x where "res = Inr x" "an_code x = ''RESERVED''" "an_success x" "an_status x = Some Pending" "0 < rv_cents row" "refs row"
      "exceeded_limit c (in_money (used_after day_of su_dailyCents rv_cents tb (key_of row) now (rv_cents row)))
         (used_after day_of su_dailyCount one tb (key_of row) now 1)
         (in_money (used_after (month_of cal) su_monthlyCents rv_cents tb (key_of row) now (rv_cents row)))
         (used_after (month_of cal) su_monthlyCount one tb (key_of row) now 1) = None"
      "tb' = tb\<lparr>am_reservations := am_reservations tb @ [row]\<rparr>"
proof (cases "exceeded_limit c (in_money (used_after day_of su_dailyCents rv_cents tb (key_of row) now (rv_cents row)))
         (used_after day_of su_dailyCount one tb (key_of row) now 1)
         (in_money (used_after (month_of cal) su_monthlyCents rv_cents tb (key_of row) now (rv_cents row)))
         (used_after (month_of cal) su_monthlyCount one tb (key_of row) now 1)")
  case None
  note n = None
  show thesis
  proof (cases "rv_cents row < 10 ^ 20 \<and> 0 < rv_cents row \<and> refs row")
    case True
    with assms n that(2) show thesis by (auto simp: reserve_within_def Let_def)
  next
    case False
    with assms n that(1) show thesis by (auto simp: reserve_within_def Let_def split: if_splits)
  qed
next
  case (Some cm)
  obtain code m where cm: "cm = (code, m)" by (cases cm)
  with Some have "code \<noteq> ''RESERVED''" by (auto simp: exceeded_limit_def split: if_splits)
  with assms Some cm that(1) show thesis by (auto simp: reserve_within_def Let_def)
qed

text \<open>A call that reserves changes nothing, or adds the row within the limits of the active configuration.\<close>

lemma reserve_cases:
  assumes "sw_proc_aml_reserve refs codes cal now tid w keyword amount tb = (res, tb')"
  obtains (same) "tb' = tb" "\<And>x. res = Inr x \<Longrightarrow> an_code x \<noteq> ''RESERVED''"
      "\<And>x. find_reservation tb tid = None \<Longrightarrow> res = Inr x \<Longrightarrow> \<not> an_success x"
  | (grant) x code c where "find_reservation tb tid = None" "codes w = Some code"
      "active_aml_config tb code (upper (pg_trim keyword)) = Some c" "\<not> ac_maxTxnAmount c < amount"
      "reserve_within refs cal now c (new_reservation tid w code (upper (pg_trim keyword)) (round_half (100 * amount)) now) tb
         = (Inr x, tb')" "res = Inr x" "an_code x = ''RESERVED''"
      "0 < round_half (100 * amount)"
      "tb' = tb\<lparr>am_reservations := am_reservations tb @
         [new_reservation tid w code (upper (pg_trim keyword)) (round_half (100 * amount)) now]\<rparr>"
      "an_success x"
proof -
  let ?k = "upper (pg_trim keyword)" and ?cents = "round_half (100 * amount)"
  have quiet: "an_code (aml_reply ok code m tid st wc) = code" "an_success (aml_reply ok code m tid st wc) = ok"
    for ok code m st wc by (simp_all add: aml_reply_def)
  have repeated: "an_code (aml_repeated r tid w ?k ?cents) \<noteq> ''RESERVED''" for r
    by (simp add: aml_repeated_def quiet)
  from assms consider "tb' = tb" "\<forall>x. res = Inr x \<longrightarrow> an_code x \<noteq> ''RESERVED'' \<and>
      (find_reservation tb tid = None \<longrightarrow> \<not> an_success x)"
    | code c where "find_reservation tb tid = None" "codes w = Some code"
      "active_aml_config tb code ?k = Some c" "\<not> ac_maxTxnAmount c < amount"
      "reserve_within refs cal now c (new_reservation tid w code ?k ?cents now) tb = (res, tb')"
    unfolding sw_proc_aml_reserve_def Let_def
    by (auto simp: quiet repeated split: if_splits option.splits)
  then show thesis
  proof cases
    case 1
    with that(1) show thesis by blast
  next
    case (2 code c)
    from 2(5) show thesis
    proof (cases rule: reserve_within_cases)
      case same
      with that(1) show thesis by blast
    next
      case (grant x)
      with 2 show thesis by (intro that(2)[of code c x]) (auto simp: new_reservation_def)
    qed
  qed
qed

text \<open>The rows after a change of status.\<close>

lemma set_status_rows:
  "set (am_reservations (set_status st now tid tb)) =
     (\<lambda>r. if rv_transactionId r = tid then r\<lparr>rv_status := st, rv_finalizedAt := Some now\<rparr> else r) ` set (am_reservations tb)"
  by (simp add: set_status_def)

lemma set_status_ids [simp]:
  "map rv_transactionId (am_reservations (set_status st now tid tb)) = map rv_transactionId (am_reservations tb)"
  by (auto simp: set_status_def)

lemma key_of_status [simp]: "key_of (r\<lparr>rv_status := st, rv_finalizedAt := f\<rparr>) = key_of r"
  by (simp add: key_of_def)

lemma change_summary_keys [simp]:
  assumes "\<And>s. summary_key (f s) = summary_key s"
  shows "map summary_key (am_summaries (change_summary key f tb)) = map summary_key (am_summaries tb)"
  using assms by (auto simp: change_summary_def)

text \<open>
  A status other than completed keeps the ledger whatever the summaries become, as long as every summary stays
  and is only dated forward.
\<close>

lemma ledger_status:
  assumes l: "ledger now tb" and st: "st \<noteq> Completed"
  shows "ledger now (set_status st now tid tb)"
  using l st unfolding ledger_def set_status_ids set_status_simps set_status_rows by (auto split: if_splits)

lemma ledger_redate:
  assumes l: "ledger now tb" and k: "\<And>s. summary_key (f s) = summary_key s" and u: "\<And>s. su_lastUpdate (f s) = Some now"
  shows "ledger now (change_summary key f tb)"
proof -
  have "\<exists>s' \<in> set (am_summaries (change_summary key f tb)). \<exists>u. summary_key s' = key_of r \<and>
      su_lastUpdate s' = Some u \<and> rv_reservedAt r \<le> u \<and> u \<le> now"
    if "r \<in> set (am_reservations tb)" "rv_status r = Completed" for r
  proof -
    from l that obtain s v where s: "s \<in> set (am_summaries tb)" "summary_key s = key_of r" "su_lastUpdate s = Some v"
        "rv_reservedAt r \<le> v" "v \<le> now" unfolding ledger_def by blast
    let ?s = "if summary_key s = key then f s else s"
    have "?s \<in> set (am_summaries (change_summary key f tb))" using s(1) by (auto simp: change_summary_def)
    moreover have "summary_key ?s = key_of r" "\<exists>u. su_lastUpdate ?s = Some u \<and> rv_reservedAt r \<le> u \<and> u \<le> now"
      using s k u by auto
    ultimately show ?thesis by blast
  qed
  with l k show ?thesis unfolding ledger_def by simp
qed

lemma ledger_complete:
  assumes l: "ledger now tb" and r: "find_reservation tb tid = Some r"
  shows "ledger now (set_status Completed now tid (complete_summary cal now r tb))"
proof -
  let ?tb = "complete_summary cal now r tb"
  have base: "ledger now ?tb"
  proof (cases "find_summary tb (key_of r)")
    case None
    with l show ?thesis
      by (fastforce simp: complete_summary_def ledger_def dest: find_summary_None)
  next
    case (Some s)
    then show ?thesis using ledger_redate[OF l] by (simp add: complete_summary_def)
  qed
  have dated: "\<exists>s \<in> set (am_summaries ?tb). summary_key s = key_of r \<and> su_lastUpdate s = Some now"
  proof (cases "find_summary tb (key_of r)")
    case None
    then show ?thesis by (simp add: complete_summary_def)
  next
    case (Some s)
    from find_summary_Some[OF Some] have "completed_summary cal now r s \<in> set (am_summaries ?tb)"
      by (auto simp: complete_summary_def change_summary_def Some image_iff intro!: bexI[of _ s])
    with find_summary_Some[OF Some] show ?thesis by (intro bexI) auto
  qed
  from l r have in_r: "r \<in> set (am_reservations tb)" "rv_transactionId r = tid" "rv_reservedAt r \<le> now"
    using find_reservation_Some[OF r] by (auto simp: ledger_def)
  have only: "x = r" if "x \<in> set (am_reservations tb)" "rv_transactionId x = tid" for x
    using reservation_unique[of tb x r] l that in_r by (auto simp: ledger_def)
  show ?thesis
    unfolding ledger_def set_status_ids set_status_simps
  proof (intro conjI ballI impI)
    fix x
    assume "x \<in> set (am_reservations (set_status Completed now tid ?tb))"
    then obtain y where y: "y \<in> set (am_reservations tb)"
        "x = (if rv_transactionId y = tid then y\<lparr>rv_status := Completed, rv_finalizedAt := Some now\<rparr> else y)"
      unfolding set_status_rows set_status_simps by blast
    from y base show "0 < rv_cents x" "rv_reservedAt x \<le> now" by (auto simp: ledger_def)
    assume c: "rv_status x = Completed"
    show "\<exists>s \<in> set (am_summaries ?tb). \<exists>u. summary_key s = key_of x \<and> su_lastUpdate s = Some u \<and>
        rv_reservedAt x \<le> u \<and> u \<le> now"
    proof (cases "rv_transactionId y = tid")
      case True
      with y only have "y = r" by blast
      with dated True y(2) in_r(3) show ?thesis by (metis key_of_status order_refl aml_reservation.select_convs(7)
            aml_reservation.surjective aml_reservation.update_convs(6) aml_reservation.update_convs(8))
    next
      case False
      with y c base show ?thesis by (simp add: ledger_def)
    qed
  qed (use base in \<open>simp_all add: ledger_def\<close>)
qed

section \<open>One of the four totals\<close>

text \<open>
  \<open>per\<close> tells the periods apart, \<open>sel\<close> is the column of the summary that holds the total of the weight \<open>wt\<close>.
\<close>

locale account =
  fixes cal :: calendar and per :: "int \<Rightarrow> int" and sel :: "aml_summary \<Rightarrow> int option"
    and wt :: "aml_reservation \<Rightarrow> int"
  assumes per_mono: "t \<le> u \<Longrightarrow> per t \<le> per u"
    and wt_nonneg: "0 < rv_cents r \<Longrightarrow> 0 \<le> wt r"
    and wt_status: "wt (r\<lparr>rv_status := st, rv_finalizedAt := f\<rparr>) = wt r"
    and sel_first: "sel (first_summary now r) = Some (wt r)"
    and sel_completed: "sel (completed_summary cal now r s) = Some (added per sel now s (wt r))"
    and sel_reversed: "sel (reversed_summary cal now r s) = Some (subtracted per sel r s (wt r))"
begin

text \<open>The completed reservations of a key that were made in the period of a time.\<close>

definition counted :: "int \<times> string \<Rightarrow> int \<Rightarrow> aml_reservation \<Rightarrow> bool" where
  "counted key u r \<longleftrightarrow> key_of r = key \<and> rv_status r = Completed \<and> per (rv_reservedAt r) = per u"

definition covered :: "aml_tables \<Rightarrow> bool" where
  "covered tb \<longleftrightarrow> (\<forall>s \<in> set (am_summaries tb). \<forall>u. su_lastUpdate s = Some u \<longrightarrow>
     tally wt (counted (summary_key s) u) (am_reservations tb) \<le> coalesce (sel s))"

lemma coveredD: "covered tb \<Longrightarrow> s \<in> set (am_summaries tb) \<Longrightarrow> su_lastUpdate s = Some u \<Longrightarrow>
    tally wt (counted (summary_key s) u) (am_reservations tb) \<le> coalesce (sel s)"
  unfolding covered_def by blast

lemma counted_period: "per u = per v \<Longrightarrow> counted key u = counted key v"
  by (auto simp: counted_def fun_eq_iff)

lemma weights: "ledger now tb \<Longrightarrow> r \<in> set (am_reservations tb) \<Longrightarrow> 0 \<le> wt r"
  by (simp add: ledger_def wt_nonneg)

lemma covered_nonneg:
  "ledger now tb \<Longrightarrow> covered tb \<Longrightarrow> s \<in> set (am_summaries tb) \<Longrightarrow> su_lastUpdate s = Some u \<Longrightarrow> 0 \<le> coalesce (sel s)"
  using coveredD[of tb s u] tally_nonneg[of "am_reservations tb" wt "counted (summary_key s) u"] weights[of now tb]
  by (meson order_trans)

text \<open>Without a summary nothing is completed; with one it accounts for what was completed in the current period.\<close>

lemma carried_none:
  assumes l: "ledger now tb" and "find_summary tb key = None"
  shows "tally wt (counted key now) (am_reservations tb) = 0"
proof (rule tally_none)
  fix r
  assume r: "r \<in> set (am_reservations tb)"
  show "\<not> counted key now r"
  proof
    assume c: "counted key now r"
    with l r obtain s where "s \<in> set (am_summaries tb)" "summary_key s = key_of r"
      unfolding ledger_def counted_def by blast
    with c find_summary_None[OF assms(2)] show False by (auto simp: counted_def)
  qed
qed

lemma carried:
  assumes l: "ledger now tb" and c: "covered tb" and s: "find_summary tb key = Some s"
  shows "tally wt (counted key now) (am_reservations tb) \<le>
    (if in_period per (su_lastUpdate s) now then coalesce (sel s) else 0)"
proof (cases "in_period per (su_lastUpdate s) now")
  case True
  then obtain u where u: "su_lastUpdate s = Some u" "per u = per now" by (auto simp: in_period_def split: option.splits)
  from coveredD[OF c _ u(1)] find_summary_Some[OF s] True show ?thesis by (simp add: counted_period[OF u(2)])
next
  case False
  have "\<not> counted key now r" if r: "r \<in> set (am_reservations tb)" for r
  proof
    assume cr: "counted key now r"
    with l r obtain s' v where s': "s' \<in> set (am_summaries tb)" "summary_key s' = key_of r" "su_lastUpdate s' = Some v"
        "rv_reservedAt r \<le> v" "v \<le> now" unfolding ledger_def counted_def by blast
    with cr find_summary_Some[OF s] summary_unique[of tb s' s] l have "s' = s" by (auto simp: counted_def ledger_def)
    with s' have "su_lastUpdate s = Some v" by simp
    moreover from per_mono[OF s'(4)] per_mono[OF s'(5)] cr have "per v = per now" by (auto simp: counted_def)
    ultimately show False using False by (simp add: in_period_def)
  qed
  then have "tally wt (counted key now) (am_reservations tb) = 0" by (rule tally_none)
  with False show ?thesis by simp
qed

text \<open>What a change of status does to the total.\<close>

lemma tally_status:
  assumes l: "ledger now tb" and r: "find_reservation tb tid = Some r"
  shows "tally wt P (am_reservations (set_status st t tid tb)) = tally wt P (am_reservations tb)
    - (if P r then wt r else 0) + (if P (r\<lparr>rv_status := st, rv_finalizedAt := Some t\<rparr>) then wt r else 0)"
  unfolding set_status_def
  using tally_change[of "am_reservations tb" r tid wt "\<lambda>r. r\<lparr>rv_status := st, rv_finalizedAt := Some t\<rparr>" P]
    l find_reservation_Some[OF r] wt_status by (simp add: ledger_def)

lemma counted_status:
  "counted key u (r\<lparr>rv_status := st, rv_finalizedAt := f\<rparr>) \<longleftrightarrow>
     key_of r = key \<and> st = Completed \<and> per (rv_reservedAt r) = per u"
  by (simp add: counted_def)

lemma covered_uncompleted:
  assumes l: "ledger now tb" and c: "covered tb" and r: "find_reservation tb tid = Some r"
    and st: "rv_status r \<noteq> Completed" "st \<noteq> Completed"
  shows "covered (set_status st t tid tb)"
  using c st unfolding covered_def set_status_simps tally_status[OF l r] counted_status by (auto simp: counted_def)

lemma covered_complete:
  assumes l: "ledger now tb" and c: "covered tb" and r: "find_reservation tb tid = Some r" and p: "rv_status r = Pending"
  shows "covered (set_status Completed now tid (complete_summary cal now r tb))"
proof -
  let ?tb = "complete_summary cal now r tb"
  have w: "0 \<le> wt r" using weights[OF l] find_reservation_Some[OF r] by simp
  have t: "tally wt (counted key u) (am_reservations (set_status Completed now tid ?tb)) =
      tally wt (counted key u) (am_reservations tb) + (if key_of r = key \<and> per (rv_reservedAt r) = per u then wt r else 0)" for key u
  proof -
    have "am_reservations (set_status Completed now tid ?tb) = am_reservations (set_status Completed now tid tb)"
      by (simp add: set_status_def)
    then show ?thesis using tally_status[OF l r, where P = "counted key u"] p by (simp add: counted_status) (simp add: counted_def)
  qed
  show ?thesis
    unfolding covered_def
  proof (intro ballI allI impI)
    fix s' u
    assume s': "s' \<in> set (am_summaries (set_status Completed now tid ?tb))" and u: "su_lastUpdate s' = Some u"
    show "tally wt (counted (summary_key s') u) (am_reservations (set_status Completed now tid ?tb)) \<le> coalesce (sel s')"
    proof (cases "find_summary tb (key_of r)")
      case None
      with s' consider "s' \<in> set (am_summaries tb)" | "s' = first_summary now r" by (auto simp: complete_summary_def)
      then show ?thesis
      proof cases
        case 1
        with find_summary_None[OF None 1] coveredD[OF c 1 u] show ?thesis by (auto simp: t)
      next
        case 2
        with u have "u = now" by simp
        with 2 carried_none[OF l None] w show ?thesis by (simp add: t sel_first coalesce_def)
      qed
    next
      case (Some s)
      note fs = find_summary_Some[OF Some]
      from s' Some consider "s' \<in> set (am_summaries tb)" "summary_key s' \<noteq> key_of r"
        | s0 where "s0 \<in> set (am_summaries tb)" "summary_key s0 = key_of r" "s' = completed_summary cal now r s0"
        by (auto simp: complete_summary_def change_summary_def split: if_splits)
      then show ?thesis
      proof cases
        case 1
        with coveredD[OF c 1(1) u] show ?thesis by (auto simp: t)
      next
        case 2
        with fs summary_unique[of tb s0 s] l have "s0 = s" by (simp add: ledger_def)
        moreover from 2 u have "u = now" by simp
        ultimately show ?thesis using 2(3) fs carried[OF l c Some] w
          by (auto simp: t sel_completed coalesce_def[of "Some _"] added_def split: if_splits)
      qed
    qed
  qed
qed

lemma covered_reverse:
  assumes l: "ledger now tb" and c: "covered tb" and r: "find_reservation tb tid = Some r"
    and p: "rv_status r = Completed" and s: "find_summary tb (key_of r) = Some s"
  shows "covered (set_status Reversed now tid (change_summary (key_of r) (reversed_summary cal now r) tb))"
    (is "covered ?tb")
proof -
  note fs = find_summary_Some[OF s] and fr = find_reservation_Some[OF r]
  have w: "0 \<le> wt r" using weights[OF l] fr by simp
  have t: "tally wt (counted key u) (am_reservations ?tb) =
      tally wt (counted key u) (am_reservations tb) - (if counted key u r then wt r else 0)" for key u
  proof -
    have "am_reservations ?tb = am_reservations (set_status Reversed now tid tb)" by (simp add: set_status_def)
    then show ?thesis using tally_status[OF l r, where P = "counted key u"] by (simp add: counted_status)
  qed
  from l fr p obtain s1 v where s1: "s1 \<in> set (am_summaries tb)" "summary_key s1 = key_of r" "su_lastUpdate s1 = Some v"
    unfolding ledger_def by blast
  with fs summary_unique[of tb s1 s] l have v: "su_lastUpdate s = Some v" by (auto simp: ledger_def)
  have pos: "0 \<le> coalesce (sel s)" using covered_nonneg[OF l c _ v] fs by simp
  have total: "tally wt (counted (key_of r) now) (am_reservations tb) - (if counted (key_of r) now r then wt r else 0)
      \<le> subtracted per sel r s (wt r)"
  proof (cases "per v = per now")
    case True
    with carried[OF l c s] v p show ?thesis
      by (auto simp: subtracted_def in_period_def counted_def)
  next
    case False
    with carried[OF l c s] v pos w show ?thesis by (auto simp: subtracted_def in_period_def)
  qed
  show ?thesis
    unfolding covered_def
  proof (intro ballI allI impI)
    fix s' u
    assume s': "s' \<in> set (am_summaries ?tb)" and u: "su_lastUpdate s' = Some u"
    from s' consider "s' \<in> set (am_summaries tb)" "summary_key s' \<noteq> key_of r"
      | s0 where "s0 \<in> set (am_summaries tb)" "summary_key s0 = key_of r" "s' = reversed_summary cal now r s0"
      by (auto simp: change_summary_def split: if_splits)
    then show "tally wt (counted (summary_key s') u) (am_reservations ?tb) \<le> coalesce (sel s')"
    proof cases
      case 1
      with coveredD[OF c 1(1) u] show ?thesis by (simp add: t counted_def)
    next
      case 2
      with fs summary_unique[of tb s0 s] l have "s0 = s" by (simp add: ledger_def)
      moreover from 2 u have "u = now" by simp
      ultimately show ?thesis using 2(3) fs total by (simp add: t sel_reversed coalesce_def[of "Some _"])
    qed
  qed
qed

lemma covered_reserve:
  "covered tb \<Longrightarrow> rv_status row = Pending \<Longrightarrow> covered (tb\<lparr>am_reservations := am_reservations tb @ [row]\<rparr>)"
  by (simp add: covered_def counted_def)

text \<open>The number the limit is compared with bounds everything pending or completed in the period.\<close>

lemma used_after_bounds:
  assumes l: "ledger now tb" and c: "covered tb" and s: "find_summary tb key = Some s"
    and row: "rv_status row = Pending" "key_of row = key" "wt row = new" "rv_reservedAt row = now"
  shows "\<exists>v. used_after per sel wt tb key now new = Some v \<and>
    tally wt (\<lambda>r. key_of r = key \<and> (rv_status r = Pending \<or> rv_status r = Completed) \<and> per (rv_reservedAt r) = per now)
      (am_reservations tb @ [row]) \<le> v"
proof -
  let ?p = "\<lambda>r. key_of r = key \<and> rv_status r = Pending \<and> per (rv_reservedAt r) = per now"
  have "tally wt (\<lambda>r. key_of r = key \<and> (rv_status r = Pending \<or> rv_status r = Completed) \<and> per (rv_reservedAt r) = per now)
      (am_reservations tb) = tally wt (\<lambda>r. ?p r \<or> counted key now r) (am_reservations tb)"
    by (rule tally_cong) (auto simp: counted_def)
  also have "\<dots> = pending_part per wt tb key now + tally wt (counted key now) (am_reservations tb)"
    unfolding pending_part_def by (rule tally_disj) (auto simp: counted_def)
  finally show ?thesis using carried[OF l c s] row by (simp add: used_after_def summary_part_def s)
qed

end

end
