(* ===== verification/AmlProperties.thy ===== *)
theory AmlProperties
  imports AmlLimits ConfigCache
begin

text \<open>
  The four totals are accounts of the ledger, every call keeps them, and so the limits hold when a reservation
  is granted, provided that the wallet and keyword already have a summary; without one they are not checked.
\<close>

section \<open>The four totals\<close>

lemma day_of_mono: "t \<le> u \<Longrightarrow> day_of t \<le> day_of u"
  by (simp add: day_of_def zdiv_mono1)

lemma month_of_mono: "t \<le> u \<Longrightarrow> month_of cal t \<le> month_of cal u"
  unfolding month_of_def of_nat_le_iff
  by (induction cal) (auto dest: day_of_mono)

interpretation day_amount: account cal day_of su_dailyCents rv_cents for cal
  by unfold_locales (auto simp: day_of_mono first_summary_def completed_summary_def reversed_summary_def
      added_def subtracted_def)

interpretation day_count: account cal day_of su_dailyCount one for cal
  by unfold_locales (auto simp: day_of_mono one_def first_summary_def completed_summary_def reversed_summary_def
      added_def subtracted_def)

interpretation month_amount: account cal "month_of cal" su_monthlyCents rv_cents for cal
  by unfold_locales (auto simp: month_of_mono first_summary_def completed_summary_def reversed_summary_def
      added_def subtracted_def)

interpretation month_count: account cal "month_of cal" su_monthlyCount one for cal
  by unfold_locales (auto simp: month_of_mono one_def first_summary_def completed_summary_def reversed_summary_def
      added_def subtracted_def)

section \<open>Reachable ledgers\<close>

definition nonnegative :: "aml_summary \<Rightarrow> bool" where
  "nonnegative s \<longleftrightarrow> 0 \<le> coalesce (su_dailyCents s) \<and> 0 \<le> coalesce (su_dailyCount s) \<and>
     0 \<le> coalesce (su_monthlyCents s) \<and> 0 \<le> coalesce (su_monthlyCount s)"

text \<open>
  The ledger starts without reservations, with the summaries of earlier releases.  Then time passes, the functions
  are called in any order with any arguments, and administrators replace the limits.
\<close>

inductive aml_reachable :: "calendar \<Rightarrow> int \<Rightarrow> aml_tables \<Rightarrow> bool" for cal where
  fresh: "am_reservations tb = [] \<Longrightarrow> distinct (map summary_key (am_summaries tb)) \<Longrightarrow>
    list_all nonnegative (am_summaries tb) \<Longrightarrow> aml_reachable cal now tb"
| wait: "aml_reachable cal t tb \<Longrightarrow> t \<le> now \<Longrightarrow> aml_reachable cal now tb"
| reserve: "aml_reachable cal now tb \<Longrightarrow>
    aml_reachable cal now (snd (sw_proc_aml_reserve refs codes cal now tid w k a tb))"
| finalize: "aml_reachable cal now tb \<Longrightarrow> aml_reachable cal now (snd (sw_proc_aml_finalize cal now tid v tb))"
| configure: "aml_reachable cal now tb \<Longrightarrow> aml_reachable cal now (tb\<lparr>am_configs := cs\<rparr>)"

definition aml_inv :: "calendar \<Rightarrow> int \<Rightarrow> aml_tables \<Rightarrow> bool" where
  "aml_inv cal now tb \<longleftrightarrow> ledger now tb \<and> day_amount.covered tb \<and> day_count.covered tb \<and>
     month_amount.covered cal tb \<and> month_count.covered cal tb"

lemma covered_frame [simp]:
  "day_amount.covered (tb\<lparr>am_configs := cs\<rparr>) = day_amount.covered tb"
  "day_count.covered (tb\<lparr>am_configs := cs\<rparr>) = day_count.covered tb"
  "month_amount.covered cal (tb\<lparr>am_configs := cs\<rparr>) = month_amount.covered cal tb"
  "month_count.covered cal (tb\<lparr>am_configs := cs\<rparr>) = month_count.covered cal tb"
  "ledger now (tb\<lparr>am_configs := cs\<rparr>) = ledger now tb"
  by (simp_all add: day_amount.covered_def day_count.covered_def month_amount.covered_def month_count.covered_def
      ledger_def)

lemma aml_inv_fresh:
  "am_reservations tb = [] \<Longrightarrow> distinct (map summary_key (am_summaries tb)) \<Longrightarrow>
   list_all nonnegative (am_summaries tb) \<Longrightarrow> aml_inv cal now tb"
  by (simp add: aml_inv_def ledger_def day_amount.covered_def day_count.covered_def month_amount.covered_def
      month_count.covered_def list_all_iff nonnegative_def)

lemma aml_inv_reserve:
  assumes i: "aml_inv cal now tb" and c: "sw_proc_aml_reserve refs codes cal now tid w k a tb = (res, tb')"
  shows "aml_inv cal now tb'"
  using c
proof (cases rule: reserve_cases)
  case (grant x code c)
  with i show ?thesis
    unfolding aml_inv_def grant(9)
    by (intro conjI ledger_reserve day_amount.covered_reserve day_count.covered_reserve month_amount.covered_reserve
        month_count.covered_reserve) (simp_all add: new_reservation_def)
qed (use i in simp)

lemma aml_inv_finalize:
  assumes i: "aml_inv cal now tb" and c: "sw_proc_aml_finalize cal now tid v tb = (res, tb')"
  shows "aml_inv cal now tb'"
proof -
  from i have l: "ledger now tb" and cv: "day_amount.covered tb" "day_count.covered tb" "month_amount.covered cal tb"
    "month_count.covered cal tb" by (simp_all add: aml_inv_def)
  from c show ?thesis
  proof (cases rule: finalize_cases)
    case same
    with i show ?thesis by simp
  next
    case (complete r)
    then show ?thesis unfolding aml_inv_def complete(3)
      by (intro conjI ledger_complete day_amount.covered_complete day_count.covered_complete
          month_amount.covered_complete month_count.covered_complete l cv)
  next
    case (release r)
    have "rv_status r \<noteq> Completed" "Released \<noteq> Completed" using release(2) by simp_all
    note st = release(1) this
    show ?thesis unfolding aml_inv_def release(3)
      by (intro conjI ledger_status l day_amount.covered_uncompleted[OF l cv(1) st]
          day_count.covered_uncompleted[OF l cv(2) st] month_amount.covered_uncompleted[OF l cv(3) st]
          month_count.covered_uncompleted[OF l cv(4) st]) simp
  next
    case (reverse r s)
    then show ?thesis unfolding aml_inv_def reverse(4)
      by (intro conjI ledger_status ledger_redate day_amount.covered_reverse day_count.covered_reverse
          month_amount.covered_reverse month_count.covered_reverse l cv) simp_all
  qed
qed

lemma aml_reachable_inv: "aml_reachable cal now tb \<Longrightarrow> aml_inv cal now tb"
proof (induction rule: aml_reachable.induct)
  case (wait t tb now)
  then show ?case by (auto simp: aml_inv_def intro: ledger_later)
next
  case (reserve now tb refs codes tid w k a)
  then show ?case using aml_inv_reserve by (metis prod.collapse)
next
  case (finalize now tb tid v)
  then show ?case using aml_inv_finalize by (metis prod.collapse)
next
  case (configure now tb cs)
  then show ?case by (simp add: aml_inv_def)
qed (rule aml_inv_fresh)

text \<open>What is pending or completed in the period of a time.\<close>

definition held :: "(int \<Rightarrow> int) \<Rightarrow> (aml_reservation \<Rightarrow> int) \<Rightarrow> aml_tables \<Rightarrow> int \<times> string \<Rightarrow> int \<Rightarrow> int" where
  "held per wt tb key now = tally wt (\<lambda>r. key_of r = key \<and> (rv_status r = Pending \<or> rv_status r = Completed) \<and>
     per (rv_reservedAt r) = per now) (am_reservations tb)"

lemma not_exceeded:
  "exceeded_limit c da dc ma mc = None \<longleftrightarrow> \<not> exceeds da (ac_dailyMaxAmount c) \<and>
     \<not> exceeds (map_option of_int dc) (ac_dailyTransactionCount c) \<and> \<not> exceeds ma (ac_monthlyMaxAmount c) \<and>
     \<not> exceeds (map_option of_int mc) (ac_monthlyTransactionCount c)"
  by (auto simp: exceeded_limit_def)

lemma within_count: "v \<le> (x :: int) \<Longrightarrow> \<not> l < of_int x \<Longrightarrow> of_int v \<le> (l :: rat)"
  by (metis le_less_trans not_le of_int_le_iff order_trans)

lemma within_money: "v \<le> (x :: int) \<Longrightarrow> \<not> l < of_int x / 100 \<Longrightarrow> of_int v / 100 \<le> (l :: rat)"
  using within_count[of v x "100 * l"] by (simp add: field_simps)

section \<open>The properties\<close>

text \<open>
  C5 The AML limits hold: in every state the ledger reaches, whatever the order of reservations, completions,
  releases, reversals and changes of the limits, a granted reservation leaves the amount and the number of the
  pending and completed transactions of its wallet and keyword within the daily and the monthly limits in force,
  once the wallet and keyword have a summary.
\<close>
theorem aml_limits_enforced:
  assumes "aml_reachable cal now tb"
    and "sw_proc_aml_reserve refs codes cal now tid w keyword amount tb = (Inr a, tb')"
    and "an_code a = ''RESERVED''"
    and "find_summary tb (w, upper (pg_trim keyword)) \<noteq> None"
  shows "\<exists>code c. codes w = Some code \<and> active_aml_config tb code (upper (pg_trim keyword)) = Some c \<and>
    amount \<le> ac_maxTxnAmount c \<and>
    of_int (held day_of rv_cents tb' (w, upper (pg_trim keyword)) now) / 100 \<le> ac_dailyMaxAmount c \<and>
    of_int (held day_of one tb' (w, upper (pg_trim keyword)) now) \<le> ac_dailyTransactionCount c \<and>
    of_int (held (month_of cal) rv_cents tb' (w, upper (pg_trim keyword)) now) / 100 \<le> ac_monthlyMaxAmount c \<and>
    of_int (held (month_of cal) one tb' (w, upper (pg_trim keyword)) now) \<le> ac_monthlyTransactionCount c"
  using assms(2)
proof (cases rule: reserve_cases)
  case same
  with assms(3) show ?thesis by simp
next
  case (grant x code c)
  let ?key = "(w, upper (pg_trim keyword))" and ?cents = "round_half (100 * amount)"
  let ?row = "new_reservation tid w code (upper (pg_trim keyword)) ?cents now"
  from assms(4) obtain s where s: "find_summary tb ?key = Some s" by blast
  have row: "rv_status ?row = Pending" "key_of ?row = ?key" "rv_cents ?row = ?cents" "one ?row = 1" "rv_reservedAt ?row = now"
    by (simp_all add: new_reservation_def key_of_def one_def)
  have inv: "aml_inv cal now tb" using assms(1) by (rule aml_reachable_inv)
  then have l: "ledger now tb" by (simp add: aml_inv_def)
  have held: "held per wt tb' key now = tally wt (\<lambda>r. key_of r = key \<and> (rv_status r = Pending \<or> rv_status r = Completed)
      \<and> per (rv_reservedAt r) = per now) (am_reservations tb @ [?row])" for per wt key
    by (simp add: held_def grant(9))
  from grant(5) have "exceeded_limit c (in_money (used_after day_of su_dailyCents rv_cents tb ?key now ?cents))
         (used_after day_of su_dailyCount one tb ?key now 1)
         (in_money (used_after (month_of cal) su_monthlyCents rv_cents tb ?key now ?cents))
         (used_after (month_of cal) su_monthlyCount one tb ?key now 1) = None"
    by (cases rule: reserve_within_cases) (use grant(7) row in auto)
  note fine = this[unfolded not_exceeded]
  from inv have cv: "day_amount.covered tb" "day_count.covered tb" "month_amount.covered cal tb" "month_count.covered cal tb"
    by (simp_all add: aml_inv_def)
  note bounds = day_amount.used_after_bounds[OF l cv(1) s row(1,2,3,5)] day_count.used_after_bounds[OF l cv(2) s row(1,2,4,5)]
    month_amount.used_after_bounds[OF l cv(3) s row(1,2,3,5)] month_count.used_after_bounds[OF l cv(4) s row(1,2,4,5)]
  from bounds(1) fine have "of_int (held day_of rv_cents tb' ?key now) / 100 \<le> ac_dailyMaxAmount c"
    by (auto simp: held exceeds_def in_money_def intro: within_money)
  moreover from bounds(2) fine have "of_int (held day_of one tb' ?key now) \<le> ac_dailyTransactionCount c"
    by (auto simp: held exceeds_def intro: within_count)
  moreover from bounds(3) fine have "of_int (held (month_of cal) rv_cents tb' ?key now) / 100 \<le> ac_monthlyMaxAmount c"
    by (auto simp: held exceeds_def in_money_def intro: within_money)
  moreover from bounds(4) fine have "of_int (held (month_of cal) one tb' ?key now) \<le> ac_monthlyTransactionCount c"
    by (auto simp: held exceeds_def intro: within_count)
  ultimately show ?thesis using grant(2,3,4) by auto
qed

section \<open>A concrete ledger\<close>

definition sample_limits :: aml_config where
  "sample_limits = \<lparr>ac_walletCode = 103, ac_keyword = ''PMNT'', ac_maxTxnAmount = 100, ac_dailyMaxAmount = 500,
     ac_dailyTransactionCount = 1, ac_monthlyMaxAmount = 3000, ac_monthlyTransactionCount = 100, ac_isActive = True\<rparr>"

definition sample_summary :: aml_summary where
  "sample_summary = \<lparr>su_wallet = 7, su_keyword = ''PMNT'', su_monthlyCents = Some 25000, su_monthlyCount = Some 3,
     su_dailyCents = Some 9000, su_dailyCount = Some 1, su_lastUpdate = Some 0\<rparr>"

definition sample_ledger :: aml_tables where
  "sample_ledger = \<lparr>am_configs = [sample_limits], am_reservations = [], am_summaries = [sample_summary]\<rparr>"

definition sample_codes :: "int \<Rightarrow> int option" where
  "sample_codes w = (if w = 7 then Some 103 else None)"

definition sample_calendar :: calendar where
  "sample_calendar = [0, 31, 59, 90]"

text \<open>One day later a payment of 60.50 is granted; the day before counts for the month only.\<close>

definition sample_reservation :: aml_reservation where
  "sample_reservation = new_reservation ''1'' 7 103 ''PMNT'' 6050 86400000"

lemma sample_keyword: "upper (pg_trim '' pmnt '') = ''PMNT''"
  by code_simp

lemma sample_cents: "round_half (100 * (121 / 2)) = 6050"
  using round_half_of_int[of 6050] by simp

lemma sample_granted:
  "\<exists>a. sw_proc_aml_reserve (\<lambda>_. True) sample_codes sample_calendar 86400000 ''1'' 7 '' pmnt '' (121 / 2) sample_ledger =
     (Inr a, sample_ledger\<lparr>am_reservations := [sample_reservation]\<rparr>) \<and> an_code a = ''RESERVED''"
  unfolding sw_proc_aml_reserve_def Let_def sample_keyword sample_cents reserve_within_def
  by (simp add: sample_ledger_def find_reservation_def sample_codes_def active_aml_config_def sample_limits_def
      exceeded_limit_def exceeds_def in_money_def used_after_def summary_part_def pending_part_def find_summary_def
      summary_key_def sample_summary_def in_period_def day_of_def month_of_def sample_calendar_def coalesce_def
      sample_reservation_def new_reservation_def key_of_def one_def)

theorem aml_limits_enforced_witness:
  "of_int (held day_of rv_cents (sample_ledger\<lparr>am_reservations := [sample_reservation]\<rparr>) (7, ''PMNT'') 86400000) / 100 \<le> (500 :: rat)"
proof -
  have "aml_reachable sample_calendar 86400000 sample_ledger"
    by (rule fresh) (simp_all add: sample_ledger_def sample_summary_def nonnegative_def coalesce_def)
  moreover have "find_summary sample_ledger (7, upper (pg_trim '' pmnt '')) \<noteq> None"
    unfolding sample_keyword by (simp add: sample_ledger_def find_summary_def summary_key_def sample_summary_def)
  ultimately obtain code c where c: "sample_codes 7 = Some code" "active_aml_config sample_ledger code ''PMNT'' = Some c"
      "of_int (held day_of rv_cents (sample_ledger\<lparr>am_reservations := [sample_reservation]\<rparr>) (7, ''PMNT'') 86400000) / 100
         \<le> ac_dailyMaxAmount c"
    using aml_limits_enforced sample_granted unfolding sample_keyword[symmetric] by blast
  from c(1,2) have "ac_dailyMaxAmount c = 500"
    by (auto simp: sample_codes_def active_aml_config_def sample_ledger_def sample_limits_def)
  with c(3) show ?thesis by simp
qed

section \<open>Without a summary\<close>

text \<open>
  \<open>SELECT ... INTO\<close> finds no row, so the used amounts are null and no comparison with a limit is true.
\<close>

lemma null_total:
  "find_summary tb key = None \<Longrightarrow> used_after per sel wt tb key now new = None"
  by (simp add: used_after_def summary_part_def)

definition unsummarised :: "nat \<Rightarrow> aml_tables" where
  "unsummarised n = \<lparr>am_configs = [sample_limits],
     am_reservations = map (\<lambda>i. new_reservation (nat_str i) 7 103 ''PMNT'' 10000 0) [0..<n], am_summaries = []\<rparr>"

lemma nat_str_injective: "nat_str a = nat_str b \<longleftrightarrow> a = b"
  by (auto dest: nat_str_inj)

lemma keyword_pmnt: "upper (pg_trim ''PMNT'') = ''PMNT''"
  by (simp add: upper_def up_char_def is_lower_def pg_trim_def)

lemma cents_100: "round_half (100 * 100) = 10000"
  using round_half_of_int[of 10000] by simp

lemma unsummarised_step:
  "snd (sw_proc_aml_reserve (\<lambda>_. True) sample_codes cal 0 (nat_str n) 7 ''PMNT'' 100 (unsummarised n)) = unsummarised (Suc n)"
proof -
  have "find_reservation (unsummarised n) (nat_str n) = None"
    by (auto simp: find_reservation_def unsummarised_def find_None_iff new_reservation_def nat_str_injective)
  moreover have "find_summary (unsummarised n) (7, ''PMNT'') = None"
    by (simp add: find_summary_def unsummarised_def)
  moreover have "active_aml_config (unsummarised n) 103 ''PMNT'' = Some sample_limits"
    by (simp add: active_aml_config_def unsummarised_def sample_limits_def)
  ultimately have "snd (sw_proc_aml_reserve (\<lambda>_. True) sample_codes cal 0 (nat_str n) 7 ''PMNT'' 100 (unsummarised n)) =
      (unsummarised n)\<lparr>am_reservations := am_reservations (unsummarised n) @ [new_reservation (nat_str n) 7 103 ''PMNT'' 10000 0]\<rparr>"
    unfolding sw_proc_aml_reserve_def Let_def keyword_pmnt cents_100 reserve_within_def
    by (simp add: sample_codes_def null_total key_of_def new_reservation_def in_money_def exceeded_limit_def exceeds_def
        sample_limits_def[THEN arg_cong[of _ _ ac_maxTxnAmount]])
  then show ?thesis by (simp add: unsummarised_def)
qed

lemma tally_map_upt: "(\<And>i. P (g i)) \<Longrightarrow> (\<And>i. wt (g i) = x) \<Longrightarrow> tally wt P (map g [0..<n]) = int n * x"
  by (induction n) (auto simp: algebra_simps)

text \<open>
  C35 The limits do not hold before the first completion: with a limit of one transaction and 500.00 a day,
  the ledger reaches states with any number of pending payments of 100.00 of one wallet on one day.
\<close>
theorem aml_limits_unchecked_without_summary:
  "\<exists>tb. aml_reachable cal 0 tb \<and> active_aml_config tb 103 ''PMNT'' = Some sample_limits \<and>
     ac_dailyTransactionCount sample_limits = 1 \<and> ac_dailyMaxAmount sample_limits = 500 \<and>
     held day_of one tb (7, ''PMNT'') 0 = int n \<and> held day_of rv_cents tb (7, ''PMNT'') 0 = int n * 10000"
proof (intro exI conjI)
  show "aml_reachable cal 0 (unsummarised n)"
  proof (induction n)
    case 0
    show ?case by (rule fresh) (simp_all add: unsummarised_def)
  next
    case (Suc n)
    then show ?case using aml_reachable.reserve unsummarised_step by metis
  qed
  show "held day_of one (unsummarised n) (7, ''PMNT'') 0 = int n"
    unfolding held_def unsummarised_def aml_tables.select_convs
    by (subst tally_map_upt[where x = 1]) (simp_all add: new_reservation_def key_of_def one_def)
  show "held day_of rv_cents (unsummarised n) (7, ''PMNT'') 0 = int n * 10000"
    unfolding held_def unsummarised_def aml_tables.select_convs
    by (subst tally_map_upt[where x = 10000]) (simp_all add: new_reservation_def key_of_def)
qed (simp_all add: unsummarised_def active_aml_config_def sample_limits_def)

section \<open>Finalizing twice\<close>

lemma find_map_same:
  assumes same: "\<And>x. P (f x) = P x"
  shows "find P xs = Some x \<Longrightarrow> find P (map (\<lambda>x. if P x then f x else x) xs) = Some (f x)"
proof (induction xs)
  case (Cons y ys)
  then show ?case by (cases "P y") (simp_all add: same)
qed simp

lemma find_after_status:
  "find_reservation tb tid = Some r \<Longrightarrow> am_reservations tb' = am_reservations tb \<Longrightarrow>
   find_reservation (set_status st now tid tb') tid = Some (r\<lparr>rv_status := st, rv_finalizedAt := Some now\<rparr>)"
  unfolding find_reservation_def set_status_def
  by (simp add: find_map_same[where P = "\<lambda>r. rv_transactionId r = tid"])

text \<open>The normalised outcomes that succeed, with the status they leave.\<close>

lemma finalize_found_success:
  assumes "finalize_found cal now v r tb = (Inr a, tb')" and "fa_success a"
  obtains st where "v = status_name st" "st \<noteq> Pending" "fa_status a = Some st" "rv_status r = st" "tb' = tb"
    | st tb1 where "v = status_name st" "st \<noteq> Pending" "fa_status a = Some st" "tb' = set_status st now (rv_transactionId r) tb1"
        "am_reservations tb1 = am_reservations tb"
proof -
  consider "v = ''COMPLETED''" | "v = ''RELEASED''" | "v = ''REVERSED''"
    | "v \<noteq> ''COMPLETED''" "v \<noteq> ''RELEASED''" "v \<noteq> ''REVERSED''" by blast
  then show thesis
  proof cases
    case 1
    with assms that(1)[of Completed] that(2)[of Completed "complete_summary cal now r tb"] show thesis
      by (auto simp: finalize_found_def Let_def status_name_def split: if_splits)
  next
    case 2
    with assms that(1)[of Released] that(2)[of Released tb] show thesis
      by (auto simp: finalize_found_def Let_def status_name_def split: if_splits)
  next
    case 3
    with assms that(1)[of Reversed] that(2)[of Reversed "change_summary (key_of r) (reversed_summary cal now r) tb"]
    show thesis by (auto simp: finalize_found_def Let_def status_name_def split: if_splits option.splits)
  next
    case 4
    with assms show thesis by (auto simp: finalize_found_def Let_def)
  qed
qed

lemma finalize_found_repeated:
  "rv_status r = st \<Longrightarrow> st \<noteq> Pending \<Longrightarrow>
   \<exists>b. finalize_found cal now (status_name st) r tb = (Inr b, tb) \<and> fa_success b \<and> fa_status b = Some st"
  by (cases st) (simp_all add: finalize_found_def Let_def status_name_def)

text \<open>
  Finalizing is idempotent, as the redelivery of a message needs: when an outcome was accepted, the same call
  at any later time succeeds again with the same status and changes nothing, so that an amount enters or leaves
  the summary once.
\<close>
theorem finalize_idempotent:
  assumes "sw_proc_aml_finalize cal now tid outcome tb = (Inr a, tb')" and "fa_success a"
  shows "\<exists>b. sw_proc_aml_finalize cal later tid outcome tb' = (Inr b, tb') \<and> fa_success b \<and> fa_status b = fa_status a"
proof -
  let ?v = "upper (pg_trim outcome)"
  from assms obtain r where r: "find_reservation tb tid = Some r" "\<not> 16 < length ?v"
      "finalize_found cal now ?v r tb = (Inr a, tb')"
    by (auto simp: sw_proc_aml_finalize_def Let_def split: if_splits option.splits)
  note i = find_reservation_Some[OF r(1)]
  have again: "sw_proc_aml_finalize cal later tid outcome tb' = finalize_found cal later ?v x tb'"
    if "find_reservation tb' tid = Some x" for x
    using that r(2) by (simp add: sw_proc_aml_finalize_def Let_def)
  from r(3) assms(2) show ?thesis
  proof (cases rule: finalize_found_success)
    case (1 st)
    with r(1) again finalize_found_repeated[of r st cal later tb'] show ?thesis by auto
  next
    case (2 st tb1)
    with i have "find_reservation tb' tid = Some (r\<lparr>rv_status := st, rv_finalizedAt := Some now\<rparr>)"
      using find_after_status[OF r(1), of tb1 st now] by simp
    with again 2(1,2,3) finalize_found_repeated[of "r\<lparr>rv_status := st, rv_finalizedAt := Some now\<rparr>" st cal later tb']
    show ?thesis by auto
  qed
qed

theorem finalize_idempotent_witness:
  "\<exists>a tb. sw_proc_aml_finalize sample_calendar 5 ''1'' ''completed'' (sample_ledger\<lparr>am_reservations := [sample_reservation]\<rparr>) = (Inr a, tb)
     \<and> tb \<noteq> sample_ledger\<lparr>am_reservations := [sample_reservation]\<rparr>
     \<and> (\<exists>b. sw_proc_aml_finalize sample_calendar 9 ''1'' ''completed'' tb = (Inr b, tb) \<and> fa_success b)"
proof -
  have v: "upper (pg_trim ''completed'') = ''COMPLETED''" by code_simp
  have "\<exists>a. sw_proc_aml_finalize sample_calendar 5 ''1'' ''completed'' (sample_ledger\<lparr>am_reservations := [sample_reservation]\<rparr>) =
      (Inr a, set_status Completed 5 ''1''
        (complete_summary sample_calendar 5 sample_reservation (sample_ledger\<lparr>am_reservations := [sample_reservation]\<rparr>))) \<and> fa_success a"
    unfolding sw_proc_aml_finalize_def Let_def v
    by (simp add: find_reservation_def sample_reservation_def new_reservation_def finalize_found_def Let_def fits_money_def
        complete_summary_def find_summary_def change_summary_def sample_ledger_def sample_summary_def summary_key_def
        key_of_def completed_summary_def added_def coalesce_def in_period_def)
  then obtain a where a: "sw_proc_aml_finalize sample_calendar 5 ''1'' ''completed'' (sample_ledger\<lparr>am_reservations := [sample_reservation]\<rparr>) =
      (Inr a, set_status Completed 5 ''1''
        (complete_summary sample_calendar 5 sample_reservation (sample_ledger\<lparr>am_reservations := [sample_reservation]\<rparr>)))" "fa_success a"
    by blast
  moreover have "set_status Completed 5 ''1'' (complete_summary sample_calendar 5 sample_reservation
      (sample_ledger\<lparr>am_reservations := [sample_reservation]\<rparr>)) \<noteq> sample_ledger\<lparr>am_reservations := [sample_reservation]\<rparr>"
  proof
    assume "set_status Completed 5 ''1'' (complete_summary sample_calendar 5 sample_reservation
      (sample_ledger\<lparr>am_reservations := [sample_reservation]\<rparr>)) = sample_ledger\<lparr>am_reservations := [sample_reservation]\<rparr>"
    then have "am_reservations (set_status Completed 5 ''1'' (complete_summary sample_calendar 5 sample_reservation
      (sample_ledger\<lparr>am_reservations := [sample_reservation]\<rparr>))) = [sample_reservation]" by simp
    then show False unfolding set_status_def by (simp add: sample_reservation_def new_reservation_def)
  qed
  ultimately show ?thesis using finalize_idempotent[OF a, of 9] by blast
qed

end
