(* ===== verification/Postconditions.thy ===== *)
theory Postconditions
  imports Actions
begin

text \<open>
  What a handler leaves behind, whether it returns or throws: a postcondition calculated backwards through its
  steps.  A check may end the handler, so the postcondition must hold there already.
\<close>

definition post :: "('s \<Rightarrow> bool) \<Rightarrow> ('s, 'a) act \<Rightarrow> 's \<Rightarrow> bool" where
  "post Q m s \<longleftrightarrow> Q (snd (m s))"

named_theorems post_intros \<open>backward rules for the steps of a handler\<close>

lemma post_readonly: "readonly m \<Longrightarrow> Q s \<Longrightarrow> post Q m s"
  by (simp add: post_def readonly_def)

lemma post_ends [post_intros]:
  "Q s \<Longrightarrow> post Q (act_ok x) s" "Q s \<Longrightarrow> post Q (act_throw e) s" "Q s \<Longrightarrow> post Q (act_of q) s"
  "Q s \<Longrightarrow> post Q (act_read f) s" "Q s \<Longrightarrow> post Q (act_found g e') s" "Q s \<Longrightarrow> post Q (act_refuse b e'') s"
  by (rule post_readonly; (rule readonly_rules)?; assumption)+

lemma post_write [post_intros]: "Q (f s) \<Longrightarrow> post Q (act_write f) s"
  by (simp add: post_def)

text \<open>A reading step first: its result is known afterwards.\<close>

lemma post_after_reading:
  "readonly m \<Longrightarrow> Q s \<Longrightarrow> (\<And>x. fst (m s) = Inr x \<Longrightarrow> post Q (k x) s) \<Longrightarrow> post Q (act_then m k) s"
  unfolding post_def act_then_run readonly_def by (cases "fst (m s)") auto

lemma post_then_found [post_intros]:
  "Q s \<Longrightarrow> (\<And>x. f s = Some x \<Longrightarrow> post Q (k x) s) \<Longrightarrow> post Q (act_then (act_found f e) k) s"
  by (cases "f s") (auto simp: post_def act_then_run act_found_def)

lemma post_then_refuse [post_intros]:
  "Q s \<Longrightarrow> (\<not> b s \<Longrightarrow> post Q (k ()) s) \<Longrightarrow> post Q (act_then (act_refuse b e) k) s"
  by (cases "b s") (auto simp: post_def act_then_run act_refuse_def)

lemma post_then_of [post_intros]:
  "Q s \<Longrightarrow> (\<And>x. q = Inr x \<Longrightarrow> post Q (k x) s) \<Longrightarrow> post Q (act_then (act_of q) k) s"
  by (cases q) (auto simp: post_def act_then_run)

lemma post_then_read [post_intros]: "post Q (k (f s)) s \<Longrightarrow> post Q (act_then (act_read f) k) s"
  by (simp add: post_def act_then_run)

lemma post_then_ok [post_intros]: "post Q (k x) s \<Longrightarrow> post Q (act_then (act_ok x) k) s"
  by (simp add: post_def act_then_run)

lemma post_assoc [post_intros]:
  "post Q (act_then m (\<lambda>x. act_then (k x) l)) s \<Longrightarrow> post Q (act_then (act_then m k) l) s"
  by (simp add: act_then_assoc)

text \<open>A step with a postcondition of its own.\<close>

lemma post_step:
  "post P m s \<Longrightarrow> (\<And>t. P t \<Longrightarrow> Q t) \<Longrightarrow> (\<And>x t. P t \<Longrightarrow> post Q (k x) t) \<Longrightarrow> post Q (act_then m k) s"
  unfolding post_def act_then_run by (cases "fst (m s)") auto

lemma post_if [post_intros]:
  "(b \<Longrightarrow> post Q m s) \<Longrightarrow> (\<not> b \<Longrightarrow> post Q n s) \<Longrightarrow> post Q (if b then m else n) s"
  by simp

lemma post_transaction [post_intros]:
  "Q s \<Longrightarrow> (\<And>x t. m s = (Inr x, t) \<Longrightarrow> Q t) \<Longrightarrow> post Q (transaction m) s"
  by (auto simp: post_def transaction_def split: prod.splits sum.splits)

lemma post_transaction_then [post_intros]:
  "Q s \<Longrightarrow> (\<And>x t. m s = (Inr x, t) \<Longrightarrow> post Q (k x) t) \<Longrightarrow> post Q (act_then (transaction m) k) s"
  by (auto simp: post_def transaction_def act_then_run split: prod.splits sum.splits)

section \<open>How a handler ends\<close>

text \<open>The same for its result and the state it leaves together.\<close>

definition ends :: "('a res \<Rightarrow> 's \<Rightarrow> bool) \<Rightarrow> ('s, 'a) act \<Rightarrow> 's \<Rightarrow> bool" where
  "ends Q m s \<longleftrightarrow> Q (fst (m s)) (snd (m s))"

named_theorems ends_intros \<open>backward rules for the result and the state of a handler\<close>

lemma endsD: "ends Q m s \<Longrightarrow> m s = (r, t) \<Longrightarrow> Q r t"
  by (simp add: ends_def)

lemma ends_mono: "ends P m s \<Longrightarrow> (\<And>r t. P r t \<Longrightarrow> Q r t) \<Longrightarrow> ends Q m s"
  by (simp add: ends_def)

lemma ends_basics [ends_intros]:
  "Q (Inr x) s \<Longrightarrow> ends Q (act_ok x) s" "Q (Inl e) s \<Longrightarrow> ends Q (act_throw e) s"
  by (simp_all add: ends_def)

lemma ends_step:
  assumes "ends P m s" and "\<And>e t. P (Inl e) t \<Longrightarrow> Q (Inl e) t" and "\<And>x t. P (Inr x) t \<Longrightarrow> ends Q (k x) t"
  shows "ends Q (act_then m k) s"
  using assms unfolding ends_def act_then_run by (cases "fst (m s)") auto

lemma ends_then_found [ends_intros]:
  "(f s = None \<Longrightarrow> Q (Inl e) s) \<Longrightarrow> (\<And>x. f s = Some x \<Longrightarrow> ends Q (k x) s) \<Longrightarrow> ends Q (act_then (act_found f e) k) s"
  by (cases "f s") (auto simp: ends_def act_then_run act_found_def)

lemma ends_then_refuse [ends_intros]:
  "(b s \<Longrightarrow> Q (Inl e) s) \<Longrightarrow> (\<not> b s \<Longrightarrow> ends Q (k ()) s) \<Longrightarrow> ends Q (act_then (act_refuse b e) k) s"
  by (cases "b s") (auto simp: ends_def act_then_run act_refuse_def)

lemma ends_then_of [ends_intros]:
  "(\<And>e. q = Inl e \<Longrightarrow> Q (Inl e) s) \<Longrightarrow> (\<And>x. q = Inr x \<Longrightarrow> ends Q (k x) s) \<Longrightarrow> ends Q (act_then (act_of q) k) s"
  by (cases q) (auto simp: ends_def act_then_run)

lemma ends_then_simple [ends_intros]:
  "ends Q (k (f s)) s \<Longrightarrow> ends Q (act_then (act_read f) k) s"
  "ends Q (l ()) (h s) \<Longrightarrow> ends Q (act_then (act_write h) l) s"
  "ends Q (k x) s \<Longrightarrow> ends Q (act_then (act_ok x) k) s"
  by (simp_all add: ends_def act_then_run)

lemma ends_assoc [ends_intros]:
  "ends Q (act_then m (\<lambda>x. act_then (k x) l)) s \<Longrightarrow> ends Q (act_then (act_then m k) l) s"
  by (simp add: act_then_assoc)

lemma ends_if [ends_intros]:
  "(b \<Longrightarrow> ends Q m s) \<Longrightarrow> (\<not> b \<Longrightarrow> ends Q n s) \<Longrightarrow> ends Q (if b then m else n) s"
  by simp

text \<open>A handler with a handler for its exceptions.\<close>

lemma ends_catch:
  assumes "ends P m s" and "\<And>x t. P (Inr x) t \<Longrightarrow> Q (Inr x) t" and "\<And>e t. P (Inl e) t \<Longrightarrow> ends Q (h e) t"
  shows "ends Q (act_catch m h) s"
  using assms unfolding ends_def act_catch_run by (cases "fst (m s)") auto

lemma ends_in:
  "ends (\<lambda>r t. Q r (put t s)) m (get s) \<Longrightarrow> ends Q (act_in get put m) s"
  by (simp add: ends_def act_in_def Let_def)

lemma ends_run: "ends (\<lambda>r t. m s = (r, t)) m s"
  by (simp add: ends_def)

lemma ends_transaction:
  assumes "\<And>e. Q (Inl e) s" and "ends (\<lambda>r t. \<forall>x. r = Inr x \<longrightarrow> Q (Inr x) t) m s"
  shows "ends Q (transaction m) s"
  using assms by (cases "m s"; cases "fst (m s)") (auto simp: ends_def transaction_def)

end
