(* ===== verification/TransactionFacts.thy ===== *)
theory TransactionFacts
  imports Transactions AmlProperties Postconditions
begin

text \<open>
  How the pieces of a submission end, each by the backward rules of \<open>Postconditions\<close>: what the failure paths
  clean up, and what the pricing and reserving steps leave alone.
\<close>

section \<open>Cleaning up\<close>

text \<open>The configuration the process starts with: the money column reads 0.00 and \<open>AUTH_MODULE\<close> is set.\<close>

definition configured :: "tx_env \<Rightarrow> bool" where
  "configured env \<longleftrightarrow> (\<exists>z. te_money env ''0.00'' = Inr z) \<and> legacy_secret (te_crypto env) \<noteq> None"

text \<open>Nothing of the transaction was sent, and none of its capacity is held.\<close>

definition unsent :: "(string \<times> tx_message) list \<Rightarrow> string \<Rightarrow> tx_state \<Rightarrow> bool" where
  "unsent q tid t \<longleftrightarrow> ts_queue t = q \<and>
     (\<forall>r. find_reservation (ts_aml t) tid = Some r \<longrightarrow> rv_status r \<noteq> Pending)"

definition settled :: "(string \<times> tx_message) list \<Rightarrow> string \<Rightarrow> tx_state \<Rightarrow> bool" where
  "settled q tid t \<longleftrightarrow> unsent q tid t \<and> (\<forall>x. find_request tid t = Some x \<longrightarrow> tr_status x = ''3'')"

lemma find_updated_request:
  "(\<And>r. tr_transactionId (f r) = tr_transactionId r) \<Longrightarrow>
   find (\<lambda>r. tr_transactionId r = tid) (map (\<lambda>r. if tr_transactionId r = tid then f r else r) rs) =
   map_option f (find (\<lambda>r. tr_transactionId r = tid) rs)"
proof (induction rs)
  case (Cons r rs)
  then show ?case by (cases "tr_transactionId r = tid") simp_all
qed simp

lemma bigint_zero: "bigint ''0'' = Inr 0"
  by (simp add: bigint_def is_digit_def digits_nat_def digit_val_def)

lemma update_ends:
  "ends (\<lambda>r t. (\<exists>e. r = Inl e \<and> t = s) \<or>
     (r = Inr () \<and> ts_queue t = ts_queue s \<and> ts_aml t = ts_aml s \<and>
      map_option tr_status (find_request (ud_transactionId u) t) =
        map_option (\<lambda>_. ud_transactionStatus u) (find_request (ud_transactionId u) s))) (update_request env u) s"
  unfolding update_request_def
  by (intro ends_intros; simp add: ends_def find_request_def)
    (simp add: find_updated_request option.map_comp comp_def)

lemma mark_failed_settled:
  assumes c: "configured env" and o: "unsent q tid s"
  shows "ends (\<lambda>r t. r = Inr () \<and> settled q tid t) (markTransactionFailed env tid) s"
proof -
  from c obtain z where z: "te_money env ''0.00'' = Inr z" by (auto simp: configured_def)
  show ?thesis
    using o unfolding markTransactionFailed_def update_request_def
    by (intro ends_intros)
      (auto simp: bigint_zero z ends_def settled_def unsent_def find_request_def find_updated_request)
qed

lemma fail_with_settled:
  "configured env \<Longrightarrow> unsent q tid s \<Longrightarrow> ends (\<lambda>r t. r = Inr a \<and> settled q tid t) (fail_with env tid a) s"
  unfolding fail_with_def
  by (rule ends_step[OF mark_failed_settled]) (auto intro: ends_intros)

lemma or_fail_settled:
  assumes "configured env" and "ends P m s"
    and "\<And>x t. P (Inr x) t \<Longrightarrow> Q (Inr x) t"
    and "\<And>e t. P (Inl e) t \<Longrightarrow> unsent q tid t"
    and "\<And>e t. settled q tid t \<Longrightarrow> Q (Inl e) t"
  shows "ends Q (or_fail env tid m) s"
  unfolding or_fail_def
proof (rule ends_catch[OF assms(2)])
  fix e t
  assume "P (Inl e) t"
  then show "ends Q (act_then (markTransactionFailed env tid) (\<lambda>_. act_throw e)) t"
    using assms(4,5) by (intro ends_step[OF mark_failed_settled[OF assms(1)]]) (auto intro: ends_intros)
qed (rule assms(3))

section \<open>Releasing\<close>

lemma released_name: "upper (pg_trim ''RELEASED'') = ''RELEASED''"
  by code_simp

lemma release_run:
  assumes r: "find_reservation tb tid = Some r" "rv_status r = Pending"
  shows "aml_release cal now tid tb = (Inr (), set_status Released now tid tb)"
proof -
  from find_reservation_Some[OF r(1)] have "rv_transactionId r = tid" by simp
  then show ?thesis
    by (simp add: aml_release_def sw_proc_aml_finalize_def Let_def released_name r finalize_found_def act_then_run
        act_refuse_def)
qed

lemma release_quietly_ends:
  assumes r: "find_reservation (ts_aml s) tid = Some r" "rv_status r = Pending"
  shows "ends (\<lambda>x t. x = Inr () \<and> unsent (ts_queue s) tid t) (release_quietly env tid) s"
proof -
  have "find_reservation (set_status Released now tid (ts_aml s)) tid =
      Some (r\<lparr>rv_status := Released, rv_finalizedAt := Some now\<rparr>)" for now
    by (rule find_after_status[OF r(1) refl])
  with r show ?thesis
    by (simp add: ends_def release_quietly_def tx_release_def in_aml_def act_in_def Let_def act_catch_run release_run
        unsent_def)
qed

section \<open>Dispatching\<close>

lemma send_ends:
  "ends (\<lambda>r t. (\<exists>e. r = Inl e \<and> t = s) \<or> (r = Inr () \<and> t = s\<lparr>ts_queue := ts_queue s @ [(topic, m)]\<rparr>))
     (sendTransaction env m topic) s"
  unfolding sendTransaction_def by (intro ends_intros) (simp_all add: ends_def)

lemma dispatch_ends:
  assumes c: "configured env" and u: "ud_transactionId u = tid" "ud_transactionStatus u = ''2''"
    and x: "find_request tid s \<noteq> None"
    and held: "reserved \<Longrightarrow> \<exists>r. find_reservation (ts_aml s) tid = Some r \<and> rv_status r = Pending"
    and free: "\<not> reserved \<Longrightarrow> find_reservation (ts_aml s) tid = None"
  shows "ends (\<lambda>r t. case r of
      Inr a \<Rightarrow> sa_code a = 200 \<and> ts_queue t = ts_queue s @ [(td_keyword dto, m)] \<and> ts_aml t = ts_aml s \<and>
        map_option tr_status (find_request tid t) = Some ''2''
    | Inl e \<Rightarrow> settled (ts_queue s) tid t) (dispatch env dto tid u m reserved) s"
proof -
  let ?P = "\<lambda>r t. case r of
      Inr _ \<Rightarrow> ts_queue t = ts_queue s @ [(td_keyword dto, m)] \<and> ts_aml t = ts_aml s \<and>
        map_option tr_status (find_request tid t) = Some ''2''
    | Inl _ \<Rightarrow> ts_queue t = ts_queue s \<and> ts_aml t = ts_aml s"
  let ?R = "\<lambda>r t. case r of
      Inr _ \<Rightarrow> ts_queue t = ts_queue s @ [(td_keyword dto, m)] \<and> ts_aml t = ts_aml s \<and>
        map_option tr_status (find_request tid t) = Some ''2''
    | Inl _ \<Rightarrow> settled (ts_queue s) tid t"
  have send: "ends ?P (act_then (update_request env u) (\<lambda>_. sendTransaction env m (td_keyword dto))) s"
  proof (rule ends_step[OF update_ends], goal_cases)
    case (2 y t)
    with u x have t: "ts_queue t = ts_queue s" "ts_aml t = ts_aml s" "map_option tr_status (find_request tid t) = Some ''2''"
      by auto
    show ?case
      by (rule ends_mono[OF send_ends]) (use t in \<open>auto simp: find_request_def\<close>)
  qed auto
  have clean: "ends ?R (act_then (if reserved then release_quietly env tid else act_ok ())
      (\<lambda>_. act_then (markTransactionFailed env tid) (\<lambda>_. act_throw e))) t"
    if t: "ts_queue t = ts_queue s" "ts_aml t = ts_aml s" for e t
  proof (rule ends_step[where P = "\<lambda>r t. r = Inr () \<and> unsent (ts_queue s) tid t"])
    show "ends (\<lambda>r t. r = Inr () \<and> unsent (ts_queue s) tid t) (if reserved then release_quietly env tid else act_ok ()) t"
    proof (cases reserved)
      case True
      with held t obtain r where "find_reservation (ts_aml t) tid = Some r" "rv_status r = Pending" by auto
      from release_quietly_ends[OF this] True t(1) show ?thesis by simp
    next
      case False
      with free t show ?thesis by (simp add: ends_def unsent_def)
    qed
  next
    fix y v
    assume "(Inr y :: unit res) = Inr () \<and> unsent (ts_queue s) tid v"
    then show "ends ?R (act_then (markTransactionFailed env tid) (\<lambda>_. act_throw e)) v"
      by (intro ends_step[OF mark_failed_settled[OF c]]) (auto intro: ends_intros)
  qed simp
  show ?thesis
    unfolding dispatch_def
  proof (rule ends_step[where P = ?R])
    show "ends ?R (act_catch (act_then (update_request env u) (\<lambda>_. sendTransaction env m (td_keyword dto)))
          (\<lambda>e. act_then (if reserved then release_quietly env tid else act_ok ())
             (\<lambda>_. act_then (markTransactionFailed env tid) (\<lambda>_. act_throw e)))) s"
      by (rule ends_catch[OF send]; (rule clean)?; simp)
  qed (auto intro: ends_intros)
qed

section \<open>Pricing and reserving\<close>

text \<open>
  A step either refuses, having settled the transaction, or goes on.  \<open>Q\<close>: what the rest of the handler
  establishes; it must accept every settled refusal.
\<close>

definition accepts_refusal :: "(submit_answer res \<Rightarrow> tx_state \<Rightarrow> bool) \<Rightarrow> (string \<times> tx_message) list \<Rightarrow> string \<Rightarrow> bool" where
  "accepts_refusal Q q tid \<longleftrightarrow> (\<forall>r t. settled q tid t \<longrightarrow> (\<forall>a. r = Inr a \<longrightarrow> sa_code a \<noteq> 200) \<longrightarrow> Q r t)"

lemma refuse_with:
  assumes "configured env" and "unsent q tid t" and "accepts_refusal Q q tid" and "sa_code a \<noteq> 200"
  shows "ends Q (fail_with env tid a) t"
  using assms(3,4) by (intro ends_mono[OF fail_with_settled[OF assms(1,2)]]) (auto simp: accepts_refusal_def)

lemma refuse_throwing:
  assumes c: "configured env" and q: "accepts_refusal Q q tid" and m: "ends P m s"
    and ok: "\<And>x t. P (Inr x) t \<Longrightarrow> ends Q (k x) t" and u: "\<And>e t. P (Inl e) t \<Longrightarrow> unsent q tid t"
  shows "ends Q (act_then (or_fail env tid m) k) s"
proof (rule ends_step[where P = "\<lambda>r t. case r of Inr x \<Rightarrow> P (Inr x) t | Inl e \<Rightarrow> settled q tid t"])
  show "ends (\<lambda>r t. case r of Inr x \<Rightarrow> P (Inr x) t | Inl e \<Rightarrow> settled q tid t) (or_fail env tid m) s"
    by (rule or_fail_settled[OF c m]) (auto dest: u)
qed (use q ok in \<open>auto simp: accepts_refusal_def\<close>)

lemma plain_code [simp]: "sa_code (plain_answer c d) = c"
  by (simp add: plain_answer_def)

lemma with_charge_ends:
  assumes c: "configured env" and u: "unsent q (rr_transactionId req) t" and Q: "accepts_refusal Q q (rr_transactionId req)"
    and yes: "\<And>w ch cache. flag_set (kw_chargeable kw) \<Longrightarrow> w = src \<or> w = dst \<Longrightarrow>
      calculate_charge (te_decimal env) (int (te_now env)) (ts_pricing t) (ts_charges t)
        (pricing_request dto req src dst w) (ts_chargeCache t) = (Inr ch, cache) \<Longrightarrow>
      ends Q (k (Some ch)) (t\<lparr>ts_chargeCache := cache\<rparr>)"
    and no: "\<not> flag_set (kw_chargeable kw) \<Longrightarrow> ends Q (k None) t"
  shows "ends Q (with_charge env dto req kw src dst k) t"
proof (cases "flag_set (kw_chargeable kw)")
  case True
  define w where "w = (if kw_kcIdLookup kw = Some ''S'' then src else dst)"
  show ?thesis
  proof (cases "wallet_code_of w \<le> 0")
    case low: True
    have "ends Q (fail_with env (rr_transactionId req) (plain_answer 422 ''Valid wallet ID is required for charge calculation'')) t"
      by (rule refuse_with[OF c u Q]) simp
    with low True show ?thesis by (simp add: with_charge_def w_def Let_def)
  next
    case False
    have run: "ends (\<lambda>r v. tx_charge env (pricing_request dto req src dst w) t = (r, v))
        (tx_charge env (pricing_request dto req src dst w)) t" by (rule ends_run)
    have "ends Q (act_then (or_fail env (rr_transactionId req) (tx_charge env (pricing_request dto req src dst w)))
        (\<lambda>ch. k (Some ch))) t"
    proof (rule refuse_throwing[OF c Q run])
      fix ch v
      assume "tx_charge env (pricing_request dto req src dst w) t = (Inr ch, v)"
      then show "ends Q (k (Some ch)) v"
        using yes[OF True, of w] by (auto simp: tx_charge_def act_in_iff w_def)
    next
      fix e v
      assume "tx_charge env (pricing_request dto req src dst w) t = (Inl e, v)"
      with u show "unsent q (rr_transactionId req) v" by (auto simp: tx_charge_def act_in_iff unsent_def)
    qed
    with False True show ?thesis by (simp add: with_charge_def w_def Let_def)
  qed
qed (simp add: with_charge_def no)

lemma with_commission_ends:
  assumes c: "configured env" and u: "unsent q (rr_transactionId req) t" and Q: "accepts_refusal Q q (rr_transactionId req)"
    and yes: "\<And>w co cache. flag_set (kw_commissionable kw) \<Longrightarrow> w = src \<or> w = dst \<Longrightarrow>
      calculate_commission (te_decimal env) (int (te_now env)) (ts_pricing t) (ts_commissions t)
        (pricing_request dto req src dst w) (ts_commissionCache t) = (Inr co, cache) \<Longrightarrow>
      ends Q (k (Some co)) (t\<lparr>ts_commissionCache := cache\<rparr>)"
    and no: "\<not> flag_set (kw_commissionable kw) \<Longrightarrow> ends Q (k None) t"
  shows "ends Q (with_commission env dto req kw src dst k) t"
proof (cases "flag_set (kw_commissionable kw)")
  case True
  define w where "w = (if kw_kcmIdLookup kw = Some ''S'' then src else dst)"
  show ?thesis
  proof (cases "wallet_code_of w \<le> 0")
    case low: True
    have "ends Q (fail_with env (rr_transactionId req) (plain_answer 422 ''Valid wallet ID is required for commission calculation'')) t"
      by (rule refuse_with[OF c u Q]) simp
    with low True show ?thesis by (simp add: with_commission_def w_def Let_def)
  next
    case False
    have run: "ends (\<lambda>r v. tx_commission env (pricing_request dto req src dst w) t = (r, v))
        (tx_commission env (pricing_request dto req src dst w)) t" by (rule ends_run)
    have "ends Q (act_then (or_fail env (rr_transactionId req) (tx_commission env (pricing_request dto req src dst w)))
        (\<lambda>co. k (Some co))) t"
    proof (rule refuse_throwing[OF c Q run])
      fix co v
      assume "tx_commission env (pricing_request dto req src dst w) t = (Inr co, v)"
      then show "ends Q (k (Some co)) v"
        using yes[OF True, of w] by (auto simp: tx_commission_def act_in_iff w_def)
    next
      fix e v
      assume "tx_commission env (pricing_request dto req src dst w) t = (Inl e, v)"
      with u show "unsent q (rr_transactionId req) v" by (auto simp: tx_commission_def act_in_iff unsent_def)
    qed
    with False True show ?thesis by (simp add: with_commission_def w_def Let_def)
  qed
qed (simp add: with_commission_def no)

text \<open>The ledger with one more pending reservation.\<close>

definition reserved_in :: "tx_env \<Rightarrow> create_transaction_dto \<Rightarrow> string \<Rightarrow> int \<Rightarrow> int \<Rightarrow> tx_state \<Rightarrow> tx_state" where
  "reserved_in env dto tid n code t = t\<lparr>ts_aml := (ts_aml t)\<lparr>am_reservations := am_reservations (ts_aml t) @
     [new_reservation tid n code (upper (pg_trim (td_keyword dto))) (round_half (100 * td_amount dto)) (int (te_now env))]\<rparr>\<rparr>"

lemma with_reservation_ends:
  assumes c: "configured env" and u: "unsent q (rr_transactionId req) t" and Q: "accepts_refusal Q q (rr_transactionId req)"
    and fresh: "find_reservation (ts_aml t) (rr_transactionId req) = None"
    and yes: "\<And>a code. kw_isSystemKeyword kw \<noteq> Some True \<Longrightarrow>
      tx_reserve env (rr_transactionId req) n (td_keyword dto) (td_amount dto) t =
        (Inr a, reserved_in env dto (rr_transactionId req) n code t) \<Longrightarrow> an_code a = ''RESERVED'' \<Longrightarrow>
      ends Q (k (Some a)) (reserved_in env dto (rr_transactionId req) n code t)"
    and no: "kw_isSystemKeyword kw = Some True \<Longrightarrow> ends Q (k None) t"
  shows "ends Q (with_reservation env dto req kw n k) t"
proof (cases "kw_isSystemKeyword kw = Some True")
  case False
  let ?m = "tx_reserve env (rr_transactionId req) n (td_keyword dto) (td_amount dto)"
  have cases: "(t' = t \<and> (\<forall>a. r = Inr a \<longrightarrow> \<not> an_success a)) \<or>
      (\<exists>a code. r = Inr a \<and> an_success a \<and> an_code a = ''RESERVED'' \<and> t' = reserved_in env dto (rr_transactionId req) n code t)"
    if "?m t = (r, t')" for r t'
  proof -
    from that obtain tb where tb: "sw_proc_aml_reserve (aml_refs t) (aml_codes t) (te_calendar env) (int (te_now env))
        (rr_transactionId req) n (td_keyword dto) (td_amount dto) (ts_aml t) = (r, tb)" "t' = t\<lparr>ts_aml := tb\<rparr>"
      by (auto simp: tx_reserve_def in_aml_def act_in_iff)
    from tb(1) show ?thesis
    proof (cases rule: reserve_cases)
      case same
      with tb(2) fresh show ?thesis by auto
    next
      case (grant x code c)
      with tb(2) show ?thesis by (auto simp: reserved_in_def)
    qed
  qed
  have "ends Q (act_then (or_fail env (rr_transactionId req) ?m) (\<lambda>a. if \<not> an_success a
      then fail_with env (rr_transactionId req) \<lparr>sa_code = 980, sa_description = an_message a,
               sa_transactionId = Some (rr_transactionId req), sa_amlCode = Some (an_code a)\<rparr>
      else k (Some a))) t"
  proof (rule refuse_throwing[OF c Q ends_run])
    fix a v
    assume "?m t = (Inr a, v)"
    with cases[OF this] c u Q yes False
    show "ends Q (if \<not> an_success a then fail_with env (rr_transactionId req) \<lparr>sa_code = 980, sa_description = an_message a,
        sa_transactionId = Some (rr_transactionId req), sa_amlCode = Some (an_code a)\<rparr> else k (Some a)) v"
      by (auto intro!: refuse_with)
  next
    fix e v
    assume "?m t = (Inl e, v)"
    with cases[OF this] u show "unsent q (rr_transactionId req) v" by auto
  qed
  with False show ?thesis by (simp add: with_reservation_def)
qed (simp add: with_reservation_def no)

end
