(* ===== verification/TransactionProperties.thy ===== *)
theory TransactionProperties
  imports TransactionFacts
begin

text \<open>
  The two sides of a submission: what holds when a payment was handed to Kafka, and what is left when it was not.
\<close>

section \<open>What a submitted payment is\<close>

definition payment_id :: "tx_env \<Rightarrow> create_transaction_dto \<Rightarrow> string" where
  "payment_id env dto = fst (generateTransactionID env (td_keyword dto))"

text \<open>The sender may pay from the wallet: it is theirs, and the PIN is right.\<close>

definition sender_authorised :: "tx_env \<Rightarrow> create_transaction_dto \<Rightarrow> string \<Rightarrow> tx_state \<Rightarrow> bool" where
  "sender_authorised env dto identity s \<longleftrightarrow> td_mobileNumber dto = identity \<and>
     (\<exists>w \<in> set (ts_wallets s). bigint (td_sourceAccount dto) = Inr (tw_msisdn w) \<and> bigint identity = Inr (tw_owner w)) \<and>
     (\<exists>n. bigint identity = Inr n \<and> pin_correct (te_crypto env) (td_pin dto) n (ts_pins s))"

text \<open>The service may be used: active, financial, for this kind of destination and at least the minimum.\<close>

definition keyword_allows :: "create_transaction_dto \<Rightarrow> keyword_row \<Rightarrow> tx_state \<Rightarrow> bool" where
  "keyword_allows dto kw s \<longleftrightarrow> keyword_row_of (td_keyword dto) s = Some kw \<and>
     kw_isActive kw = Some True \<and> kw_isFinancial kw = Some True \<and> \<not> below_minimum kw (td_amount dto) \<and>
     (\<exists>n d. bigint (td_destinationAccount dto) = Inr n \<and> wallet_detail_of n s = Some d \<and> kw_scope kw = Some (scope_of d))"

definition charged :: "tx_env \<Rightarrow> create_transaction_dto \<Rightarrow> keyword_row \<Rightarrow> tx_state \<Rightarrow> tx_message \<Rightarrow> bool" where
  "charged env dto kw s m \<longleftrightarrow> (if flag_set (kw_chargeable kw)
     then \<exists>q ch cache. calculate_charge (te_decimal env) (int (te_now env)) (ts_pricing s) (ts_charges s) q
              (ts_chargeCache s) = (Inr ch, cache) \<and> cq_keyword q = td_keyword dto \<and>
            cq_amount q = num_str (NumFin (td_amount dto)) \<and> tm_ChargeAmount m = cr_chargeAmount ch \<and>
            tm_SourceDebitAmount m = cr_sourceDebitAmount ch \<and> tm_DestinationCreditAmount m = cr_destinationCreditAmount ch
     else tm_ChargeAmount m = ''0.00'' \<and> tm_SourceDebitAmount m = to_fixed2 (td_amount dto) \<and>
            tm_DestinationCreditAmount m = to_fixed2 (td_amount dto))"

definition commissioned :: "tx_env \<Rightarrow> create_transaction_dto \<Rightarrow> keyword_row \<Rightarrow> tx_state \<Rightarrow> tx_message \<Rightarrow> bool" where
  "commissioned env dto kw s m \<longleftrightarrow> (if flag_set (kw_commissionable kw)
     then \<exists>q co cache. calculate_commission (te_decimal env) (int (te_now env)) (ts_pricing s) (ts_commissions s) q
              (ts_commissionCache s) = (Inr co, cache) \<and> cq_keyword q = td_keyword dto \<and>
            cq_amount q = num_str (NumFin (td_amount dto)) \<and> tm_CommissionAmount m = or_commissionAmount co \<and>
            tm_SourceCommissionCredit m = or_sourceCredit co \<and> tm_DestinationCommissionCredit m = or_destinationCredit co
     else tm_CommissionAmount m = ''0.00'' \<and> tm_SourceCommissionCredit m = ''0.00'' \<and>
            tm_DestinationCommissionCredit m = ''0.00'')"

text \<open>Its capacity is held under its identifier, unless the keyword is the system's own.\<close>

definition capacity_held :: "tx_env \<Rightarrow> create_transaction_dto \<Rightarrow> keyword_row \<Rightarrow> tx_state \<Rightarrow> tx_state \<Rightarrow> bool" where
  "capacity_held env dto kw s t \<longleftrightarrow> (if kw_isSystemKeyword kw = Some True then ts_aml t = ts_aml s
     else \<exists>r. find_reservation (ts_aml t) (payment_id env dto) = Some r \<and> rv_status r = Pending \<and>
       bigint (td_sourceAccount dto) = Inr (rv_wallet r) \<and> rv_keyword r = upper (pg_trim (td_keyword dto)) \<and>
       rv_cents r = round_half (100 * td_amount dto) \<and>
       (\<exists>a refs codes. an_code a = ''RESERVED'' \<and> sw_proc_aml_reserve refs codes (te_calendar env) (int (te_now env))
          (payment_id env dto) (rv_wallet r) (td_keyword dto) (td_amount dto) (ts_aml s) = (Inr a, ts_aml t)))"

definition submitted :: "tx_env \<Rightarrow> create_transaction_dto \<Rightarrow> string \<Rightarrow> tx_state \<Rightarrow> tx_state \<Rightarrow> bool" where
  "submitted env dto identity s t \<longleftrightarrow> sender_authorised env dto identity s \<and>
     (\<exists>kw m. keyword_allows dto kw s \<and> ts_queue t = ts_queue s @ [(td_keyword dto, m)] \<and>
        tm_TransactionId m = payment_id env dto \<and> tm_Source m = td_sourceAccount dto \<and>
        tm_Destination m = td_destinationAccount dto \<and> tm_Amount m = td_amount dto \<and>
        charged env dto kw s m \<and> commissioned env dto kw s m \<and> capacity_held env dto kw s t) \<and>
     map_option tr_status (find_request (payment_id env dto) t) = Some ''2''"

text \<open>The outcome of a submission from \<open>s\<close>.\<close>

definition submission :: "tx_env \<Rightarrow> create_transaction_dto \<Rightarrow> string \<Rightarrow> tx_state \<Rightarrow> submit_answer res \<Rightarrow> tx_state \<Rightarrow> bool" where
  "submission env dto identity s r t \<longleftrightarrow> (if \<exists>a. r = Inr a \<and> sa_code a = 200 then submitted env dto identity s t
     else settled (ts_queue s) (payment_id env dto) t)"

lemma submission_accepts: "accepts_refusal (submission env dto identity s) (ts_queue s) (payment_id env dto)"
  by (auto simp: accepts_refusal_def submission_def)

text \<open>A state of the run before anything is reserved or sent.\<close>

definition underway :: "string \<Rightarrow> tx_state \<Rightarrow> tx_state \<Rightarrow> bool" where
  "underway tid s t \<longleftrightarrow> ts_queue t = ts_queue s \<and> ts_aml t = ts_aml s \<and> ts_pricing t = ts_pricing s \<and>
     ts_charges t = ts_charges s \<and> ts_commissions t = ts_commissions s \<and>
     find_reservation (ts_aml s) tid = None \<and> find_request tid t \<noteq> None"

lemma underway_unsent: "underway tid s t \<Longrightarrow> unsent (ts_queue s) tid t"
  by (simp add: underway_def unsent_def)

lemma underway_caches:
  "underway tid s t \<Longrightarrow> underway tid s (t\<lparr>ts_chargeCache := c\<rparr>)"
  "underway tid s t \<Longrightarrow> underway tid s (t\<lparr>ts_commissionCache := d\<rparr>)"
  "underway tid s t \<Longrightarrow> underway tid s (t\<lparr>ts_pins := p\<rparr>)"
  by (simp_all add: underway_def find_request_def)

section \<open>From the dispatch back to the start\<close>

text \<open>The price found, if there is one to find.\<close>

definition charge_found :: "tx_env \<Rightarrow> create_transaction_dto \<Rightarrow> keyword_row \<Rightarrow> tx_state \<Rightarrow> charge_result option \<Rightarrow> bool" where
  "charge_found env dto kw s ch \<longleftrightarrow> (case ch of None \<Rightarrow> \<not> flag_set (kw_chargeable kw)
   | Some x \<Rightarrow> flag_set (kw_chargeable kw) \<and> (\<exists>q cache. calculate_charge (te_decimal env) (int (te_now env)) (ts_pricing s)
       (ts_charges s) q (ts_chargeCache s) = (Inr x, cache) \<and> cq_keyword q = td_keyword dto \<and>
       cq_amount q = num_str (NumFin (td_amount dto))))"

definition commission_found :: "tx_env \<Rightarrow> create_transaction_dto \<Rightarrow> keyword_row \<Rightarrow> tx_state \<Rightarrow> commission_result option \<Rightarrow> bool" where
  "commission_found env dto kw s co \<longleftrightarrow> (case co of None \<Rightarrow> \<not> flag_set (kw_commissionable kw)
   | Some x \<Rightarrow> flag_set (kw_commissionable kw) \<and> (\<exists>q cache. calculate_commission (te_decimal env) (int (te_now env))
       (ts_pricing s) (ts_commissions s) q (ts_commissionCache s) = (Inr x, cache) \<and> cq_keyword q = td_keyword dto \<and>
       cq_amount q = num_str (NumFin (td_amount dto))))"

lemma message_priced:
  "charge_found env dto kw s ch \<Longrightarrow> charged env dto kw s (submission_message dto req kw src dst ch co aml)"
  "commission_found env dto kw s co \<Longrightarrow> commissioned env dto kw s (submission_message dto req kw src dst ch co aml)"
proof -
  show "charge_found env dto kw s ch \<Longrightarrow> charged env dto kw s (submission_message dto req kw src dst ch co aml)"
    by (cases ch; simp del: num_str.simps add: charge_found_def charged_def submission_message_def option_or_def; blast?)
  show "commission_found env dto kw s co \<Longrightarrow> commissioned env dto kw s (submission_message dto req kw src dst ch co aml)"
    by (cases co; simp del: num_str.simps add: commission_found_def commissioned_def submission_message_def
        option_or_def; blast?)
qed

lemma pricing_request_simps [simp]:
  "cq_keyword (pricing_request dto req src dst w) = td_keyword dto"
  "cq_amount (pricing_request dto req src dst w) = num_str (NumFin (td_amount dto))"
  by (simp_all add: pricing_request_def)

text \<open>The ledger at the dispatch.\<close>

definition ledger_ready :: "tx_env \<Rightarrow> create_transaction_dto \<Rightarrow> keyword_row \<Rightarrow> int \<Rightarrow> tx_state \<Rightarrow> tx_state \<Rightarrow> bool \<Rightarrow> bool" where
  "ledger_ready env dto kw n s t reserved \<longleftrightarrow> (if reserved
     then kw_isSystemKeyword kw \<noteq> Some True \<and>
       (\<exists>code a refs codes. ts_aml t = ts_aml (reserved_in env dto (payment_id env dto) n code s) \<and>
         an_code a = ''RESERVED'' \<and> sw_proc_aml_reserve refs codes (te_calendar env) (int (te_now env))
          (payment_id env dto) n (td_keyword dto) (td_amount dto) (ts_aml s) = (Inr a, ts_aml t))
     else kw_isSystemKeyword kw = Some True \<and> ts_aml t = ts_aml s)"

lemma reserved_found:
  "find_reservation (ts_aml s) tid = None \<Longrightarrow>
   find_reservation (ts_aml (reserved_in env dto tid n code s)) tid =
     Some (new_reservation tid n code (upper (pg_trim (td_keyword dto))) (round_half (100 * td_amount dto)) (int (te_now env)))"
proof -
  assume f: "find_reservation (ts_aml s) tid = None"
  have "find P (xs @ [r]) = Some r" if "find P xs = None" "P r" for P and r :: aml_reservation and xs
    using that by (induction xs) (auto split: if_splits)
  with f show ?thesis by (simp add: reserved_in_def find_reservation_def new_reservation_def)
qed

lemma ledger_ready_held:
  assumes "ledger_ready env dto kw n s t reserved" and fresh: "find_reservation (ts_aml s) (payment_id env dto) = None"
    and "bigint (td_sourceAccount dto) = Inr n"
  shows "capacity_held env dto kw s t"
proof (cases reserved)
  case True
  with assms(1) obtain code a refs codes where aml: "kw_isSystemKeyword kw \<noteq> Some True"
      "ts_aml t = ts_aml (reserved_in env dto (payment_id env dto) n code s)" and
      run: "an_code a = ''RESERVED'' \<and> sw_proc_aml_reserve refs codes (te_calendar env) (int (te_now env))
          (payment_id env dto) n (td_keyword dto) (td_amount dto) (ts_aml s) = (Inr a, ts_aml t)"
    by (auto simp: ledger_ready_def)
  let ?r = "new_reservation (payment_id env dto) n code (upper (pg_trim (td_keyword dto))) (round_half (100 * td_amount dto))
    (int (te_now env))"
  have "find_reservation (ts_aml t) (payment_id env dto) = Some ?r" using aml(2) reserved_found[OF fresh] by simp
  moreover have "rv_status ?r = Pending" "rv_wallet ?r = n" "rv_keyword ?r = upper (pg_trim (td_keyword dto))"
      "rv_cents ?r = round_half (100 * td_amount dto)" by (simp_all add: new_reservation_def)
  ultimately show ?thesis using run aml(1) assms(3) unfolding capacity_held_def by auto
next
  case False
  with assms(1) show ?thesis by (simp add: ledger_ready_def capacity_held_def)
qed

lemma dispatch_submits:
  assumes c: "configured env" and r: "rr_transactionId req = payment_id env dto"
    and a: "sender_authorised env dto identity s" and k: "keyword_allows dto kw s"
    and n: "bigint (td_sourceAccount dto) = Inr n"
    and ch: "charge_found env dto kw s ch" and co: "commission_found env dto kw s co"
    and fresh: "find_reservation (ts_aml s) (payment_id env dto) = None"
    and t: "ts_queue t = ts_queue s" "find_request (payment_id env dto) t \<noteq> None"
    and l: "ledger_ready env dto kw n s t reserved"
  shows "ends (submission env dto identity s) (dispatch env dto (rr_transactionId req) (submission_update dto req ch co)
    (submission_message dto req kw src dst ch co aml) reserved) t"
proof (rule ends_mono[OF dispatch_ends[OF c, where tid = "rr_transactionId req"]], goal_cases)
  case 4
  with l reserved_found[OF fresh] r show ?case by (auto simp: ledger_ready_def new_reservation_def)
next
  case 5
  with l fresh r show ?case by (simp add: ledger_ready_def)
next
  case (6 x v)
  show ?case
  proof (cases x)
    case (Inl e)
    with 6 t r show ?thesis by (simp add: submission_def)
  next
    case (Inr y)
    let ?m = "submission_message dto req kw src dst ch co aml"
    from 6 Inr t r have v: "sa_code y = 200" "ts_queue v = ts_queue s @ [(td_keyword dto, ?m)]" "ts_aml v = ts_aml t"
        "map_option tr_status (find_request (payment_id env dto) v) = Some ''2''" by auto
    have "capacity_held env dto kw s v"
      using ledger_ready_held[OF l fresh n] unfolding capacity_held_def v(3) .
    moreover have "tm_TransactionId ?m = payment_id env dto" "tm_Source ?m = td_sourceAccount dto"
        "tm_Destination ?m = td_destinationAccount dto" "tm_Amount ?m = td_amount dto"
      by (simp_all add: submission_message_def r)
    ultimately have "submitted env dto identity s v"
      unfolding submitted_def using a k v(2,4) message_priced(1)[OF ch] message_priced(2)[OF co] by blast
    with Inr v(1) show ?thesis by (simp add: submission_def)
  qed
qed (use t r in \<open>simp_all add: submission_update_def\<close>)

lemma reserve_submits:
  assumes c: "configured env" and r: "rr_transactionId req = payment_id env dto"
    and a: "sender_authorised env dto identity s" and k: "keyword_allows dto kw s"
    and n: "bigint (td_sourceAccount dto) = Inr n"
    and ch: "charge_found env dto kw s ch" and co: "commission_found env dto kw s co"
    and u: "underway (payment_id env dto) s t"
  shows "ends (submission env dto identity s) (with_reservation env dto req kw n (\<lambda>aml.
    dispatch env dto (rr_transactionId req) (submission_update dto req ch co)
      (submission_message dto req kw src dst ch co aml) (aml \<noteq> None))) t"
proof (rule with_reservation_ends[OF c, where q = "ts_queue s"])
  from u have fresh: "find_reservation (ts_aml s) (payment_id env dto) = None" by (simp add: underway_def)
  from u have t: "ts_queue t = ts_queue s" "find_request (payment_id env dto) t \<noteq> None" "ts_aml t = ts_aml s"
    by (simp_all add: underway_def)
  show "unsent (ts_queue s) (rr_transactionId req) t" using underway_unsent[OF u] r by simp
  show "accepts_refusal (submission env dto identity s) (ts_queue s) (rr_transactionId req)"
    using submission_accepts r by simp
  show "find_reservation (ts_aml t) (rr_transactionId req) = None" using fresh t(3) r by simp
  fix a' code
  assume run: "kw_isSystemKeyword kw \<noteq> Some True" "tx_reserve env (rr_transactionId req) n (td_keyword dto) (td_amount dto) t =
        (Inr a', reserved_in env dto (rr_transactionId req) n code t)" "an_code a' = ''RESERVED''"
  let ?v = "reserved_in env dto (rr_transactionId req) n code t"
  from run(2) obtain tb where tb: "sw_proc_aml_reserve (aml_refs t) (aml_codes t) (te_calendar env) (int (te_now env))
      (rr_transactionId req) n (td_keyword dto) (td_amount dto) (ts_aml t) = (Inr a', tb)" "?v = t\<lparr>ts_aml := tb\<rparr>"
    by (auto simp: tx_reserve_def in_aml_def act_in_iff)
  from arg_cong[OF tb(2), of ts_aml] have "tb = ts_aml ?v" by simp
  with tb(1) t(3) r have "sw_proc_aml_reserve (aml_refs t) (aml_codes t) (te_calendar env) (int (te_now env))
      (payment_id env dto) n (td_keyword dto) (td_amount dto) (ts_aml s) = (Inr a', ts_aml ?v)" by simp
  moreover have "ts_aml ?v = ts_aml (reserved_in env dto (payment_id env dto) n code s)"
    using t(3) r by (simp add: reserved_in_def)
  ultimately have "ledger_ready env dto kw n s ?v True"
    using run(1,3) unfolding ledger_ready_def by auto
  then show "ends (submission env dto identity s) (dispatch env dto (rr_transactionId req) (submission_update dto req ch co)
      (submission_message dto req kw src dst ch co (Some a')) (Some a' \<noteq> None)) (reserved_in env dto (rr_transactionId req) n code t)"
    using dispatch_submits[OF c r a k n ch co fresh] t by (simp add: reserved_in_def find_request_def)
next
  assume "kw_isSystemKeyword kw = Some True"
  with u have "ledger_ready env dto kw n s t False" by (simp add: ledger_ready_def underway_def)
  with u show "ends (submission env dto identity s) (dispatch env dto (rr_transactionId req) (submission_update dto req ch co)
      (submission_message dto req kw src dst ch co None) (None \<noteq> None)) t"
    using dispatch_submits[OF c r a k n ch co] by (simp add: underway_def)
qed

lemma price_submits:
  assumes c: "configured env" and r: "rr_transactionId req = payment_id env dto"
    and a: "sender_authorised env dto identity s" and k: "keyword_allows dto kw s"
    and n: "bigint (td_sourceAccount dto) = Inr n"
    and u: "underway (payment_id env dto) s t" "ts_chargeCache t = ts_chargeCache s" "ts_commissionCache t = ts_commissionCache s"
  shows "ends (submission env dto identity s) (with_charge env dto req kw src dst (\<lambda>ch.
    with_commission env dto req kw src dst (\<lambda>co. with_reservation env dto req kw n (\<lambda>aml.
    dispatch env dto (rr_transactionId req) (submission_update dto req ch co)
      (submission_message dto req kw src dst ch co aml) (aml \<noteq> None))))) t"
proof -
  have accepts: "accepts_refusal (submission env dto identity s) (ts_queue s) (rr_transactionId req)"
    using submission_accepts r by simp
  have unsent: "unsent (ts_queue s) (rr_transactionId req) v" if "underway (payment_id env dto) s v" for v
    using underway_unsent[OF that] r by simp
  have second: "ends (submission env dto identity s) (with_commission env dto req kw src dst (\<lambda>co.
      with_reservation env dto req kw n (\<lambda>aml. dispatch env dto (rr_transactionId req) (submission_update dto req ch co)
        (submission_message dto req kw src dst ch co aml) (aml \<noteq> None)))) v"
    if ch: "charge_found env dto kw s ch" and v: "underway (payment_id env dto) s v" "ts_commissionCache v = ts_commissionCache s"
    for ch v
  proof (rule with_commission_ends[OF c unsent[OF v(1)] accepts])
    fix w co cache
    assume "flag_set (kw_commissionable kw)" "calculate_commission (te_decimal env) (int (te_now env)) (ts_pricing v)
        (ts_commissions v) (pricing_request dto req src dst w) (ts_commissionCache v) = (Inr co, cache)"
    with v have "commission_found env dto kw s (Some co)"
      by (auto simp: commission_found_def underway_def simp del: num_str.simps intro!: exI[of _ "pricing_request dto req src dst w"])
    from reserve_submits[OF c r a k n ch this underway_caches(2)[OF v(1)]]
    show "ends (submission env dto identity s) (with_reservation env dto req kw n (\<lambda>aml. dispatch env dto (rr_transactionId req)
        (submission_update dto req ch (Some co)) (submission_message dto req kw src dst ch (Some co) aml) (aml \<noteq> None)))
        (v\<lparr>ts_commissionCache := cache\<rparr>)" .
  next
    assume "\<not> flag_set (kw_commissionable kw)"
    then have "commission_found env dto kw s None" by (simp add: commission_found_def)
    from reserve_submits[OF c r a k n ch this v(1)]
    show "ends (submission env dto identity s) (with_reservation env dto req kw n (\<lambda>aml. dispatch env dto (rr_transactionId req)
        (submission_update dto req ch None) (submission_message dto req kw src dst ch None aml) (aml \<noteq> None))) v" .
  qed
  show ?thesis
  proof (rule with_charge_ends[OF c unsent[OF u(1)] accepts])
    fix w ch cache
    assume "flag_set (kw_chargeable kw)" "calculate_charge (te_decimal env) (int (te_now env)) (ts_pricing t) (ts_charges t)
        (pricing_request dto req src dst w) (ts_chargeCache t) = (Inr ch, cache)"
    with u have "charge_found env dto kw s (Some ch)"
      by (auto simp: charge_found_def underway_def simp del: num_str.simps intro!: exI[of _ "pricing_request dto req src dst w"])
    with u show "ends (submission env dto identity s) (with_commission env dto req kw src dst (\<lambda>co.
        with_reservation env dto req kw n (\<lambda>aml. dispatch env dto (rr_transactionId req) (submission_update dto req (Some ch) co)
        (submission_message dto req kw src dst (Some ch) co aml) (aml \<noteq> None)))) (t\<lparr>ts_chargeCache := cache\<rparr>)"
      by (intro second underway_caches) simp_all
  next
    assume "\<not> flag_set (kw_chargeable kw)"
    then have "charge_found env dto kw s None" by (simp add: charge_found_def)
    with u show "ends (submission env dto identity s) (with_commission env dto req kw src dst (\<lambda>co.
        with_reservation env dto req kw n (\<lambda>aml. dispatch env dto (rr_transactionId req) (submission_update dto req None co)
        (submission_message dto req kw src dst None co aml) (aml \<noteq> None)))) t"
      by (intro second)
  qed
qed

text \<open>Checking the PIN changes the stored credentials only, and does not throw once \<open>AUTH_MODULE\<close> is set.\<close>

lemma pin_ends:
  assumes "configured env"
  shows "ends (\<lambda>r t. \<exists>c p. r = Inr c \<and> t = s\<lparr>ts_pins := p\<rparr> \<and> pk_match c = pin_correct (te_crypto env) pin n (ts_pins s))
    (in_pins (PINVerify (te_crypto env) pin n)) s"
proof -
  obtain r p where run: "PINVerify (te_crypto env) pin n (ts_pins s) = (r, p)" by fastforce
  have "\<exists>c. r = Inr c"
    using run assms by (auto simp: configured_def PINVerify_def verifyPassword_def encryptPassword_def walletpindetail_def
        act_then_run act_found_def split: option.splits if_splits)
  then obtain c where "r = Inr c" ..
  with run PINVerify_match show ?thesis by (auto simp: ends_def in_pins_def act_in_def Let_def)
qed

lemma payment_submits:
  assumes c: "configured env" and r: "rr_transactionId req = payment_id env dto"
    and i: "td_mobileNumber dto = identity" and w: "w \<in> set (ts_wallets s)"
      "bigint (td_sourceAccount dto) = Inr (tw_msisdn w)" "bigint identity = Inr (tw_owner w)"
    and k: "keyword_allows dto kw s" and u: "underway (payment_id env dto) s t" "ts_chargeCache t = ts_chargeCache s"
      "ts_commissionCache t = ts_commissionCache s" "ts_pins t = ts_pins s"
  shows "ends (submission env dto identity s) (process_payment env dto req kw (tw_msisdn w) src dst) t"
  unfolding process_payment_def
proof (rule ends_then_of)
  fix mobile
  assume m: "bigint (td_mobileNumber dto) = Inr mobile"
  have refused: "ends (submission env dto identity s) (fail_with env (rr_transactionId req) a) v"
    if "underway (payment_id env dto) s v" "sa_code a \<noteq> 200" for a v
    using refuse_with[OF c underway_unsent[OF that(1)] submission_accepts that(2)] r by simp
  show "ends (submission env dto identity s) (act_then (in_pins (PINVerify (te_crypto env) (td_pin dto) mobile)) (\<lambda>check.
     if \<not> pk_match check then fail_with env (rr_transactionId req) (plain_answer 401 ''Password verification failed'')
     else if wallet_code_of src \<le> 0 \<or> wallet_code_of dst \<le> 0
     then fail_with env (rr_transactionId req) (plain_answer 422 ''Source and destination wallet types are required for pricing'')
     else with_charge env dto req kw src dst (\<lambda>ch. with_commission env dto req kw src dst (\<lambda>co.
       with_reservation env dto req kw (tw_msisdn w) (\<lambda>aml. dispatch env dto (rr_transactionId req) (submission_update dto req ch co)
         (submission_message dto req kw src dst ch co aml) (aml \<noteq> None)))))) t"
  proof (rule ends_step[OF pin_ends[OF c]])
    fix check v
    assume "\<exists>c p. (Inr check :: pin_check res) = Inr c \<and> v = t\<lparr>ts_pins := p\<rparr> \<and>
      pk_match c = pin_correct (te_crypto env) (td_pin dto) mobile (ts_pins t)"
    then obtain p where v: "v = t\<lparr>ts_pins := p\<rparr>" and match: "pk_match check = pin_correct (te_crypto env) (td_pin dto) mobile (ts_pins s)"
      using u(4) by auto
    have uv: "underway (payment_id env dto) s v" "ts_chargeCache v = ts_chargeCache s" "ts_commissionCache v = ts_commissionCache s"
      using underway_caches(3)[OF u(1)] u(2,3) by (simp_all add: v)
    have a: "sender_authorised env dto identity s" if "pk_match check"
      using that match i m w unfolding sender_authorised_def by auto
    show "ends (submission env dto identity s) (if \<not> pk_match check
      then fail_with env (rr_transactionId req) (plain_answer 401 ''Password verification failed'')
      else if wallet_code_of src \<le> 0 \<or> wallet_code_of dst \<le> 0
      then fail_with env (rr_transactionId req) (plain_answer 422 ''Source and destination wallet types are required for pricing'')
      else with_charge env dto req kw src dst (\<lambda>ch. with_commission env dto req kw src dst (\<lambda>co.
       with_reservation env dto req kw (tw_msisdn w) (\<lambda>aml. dispatch env dto (rr_transactionId req) (submission_update dto req ch co)
         (submission_message dto req kw src dst ch co aml) (aml \<noteq> None))))) v"
      by (intro ends_if refused price_submits[OF c r a k w(2)] uv) simp_all
  qed auto
qed (use i w in auto)

text \<open>An eligible keyword.\<close>

lemma checkkeyword_eligible:
  "checkkeyword k n m amount s = KwEligible code msg kw \<Longrightarrow> code = 100 \<and> keyword_row_of k s = Some kw \<and>
   kw_isActive kw = Some True \<and> kw_isFinancial kw = Some True \<and> \<not> below_minimum kw amount \<and>
   (\<exists>d. wallet_detail_of m s = Some d \<and> kw_scope kw = Some (scope_of d))"
  by (auto simp: checkkeyword_def checkwalletdetails_def split: option.splits if_splits wallet_check.splits)

lemma keyword_submits:
  assumes c: "configured env" and r: "rr_transactionId req = payment_id env dto"
    and i: "td_mobileNumber dto = identity" and w: "w \<in> set (ts_wallets s)"
      "bigint (td_sourceAccount dto) = Inr (tw_msisdn w)" "bigint identity = Inr (tw_owner w)"
    and m: "bigint (td_destinationAccount dto) = Inr m"
    and u: "underway (payment_id env dto) s t" "ts_chargeCache t = ts_chargeCache s"
      "ts_commissionCache t = ts_commissionCache s" "ts_pins t = ts_pins s" "ts_keywords t = ts_keywords s" "ts_details t = ts_details s"
  shows "ends (submission env dto identity s) (process_keyword env dto req (tw_msisdn w) m) t"
proof -
  have refused: "ends (submission env dto identity s) (fail_with env (rr_transactionId req) a) t" if "sa_code a \<noteq> 200" for a
    using refuse_with[OF c underway_unsent[OF u(1)] submission_accepts that] r by simp
  have users: "ends (submission env dto identity s) (process_users env dto req kw (tw_msisdn w) m) t"
    if "keyword_allows dto kw s" for kw
    unfolding process_users_def
    by (intro ends_intros)
      (auto split: option.splits intro!: refused payment_submits[OF c r i w that] u)
  show ?thesis
  proof (cases "checkkeyword (td_keyword dto) (tw_msisdn w) m (td_amount dto) t")
    case (KwAnswer code d)
    then show ?thesis
      unfolding process_keyword_def by (intro ends_intros) (auto intro!: refused)
  next
    case (KwEligible code msg kw)
    from checkkeyword_eligible[OF this] m u(5,6) have "code = 100" "keyword_allows dto kw s"
      by (auto simp: keyword_allows_def keyword_row_of_def wallet_detail_of_def)
    with KwEligible users show ?thesis
      unfolding process_keyword_def by (intro ends_intros) simp
  qed
qed

lemma save_request_found:
  "\<exists>rs. save_request r s = s\<lparr>ts_requests := rs\<rparr> \<and> find_request (tr_transactionId r) (s\<lparr>ts_requests := rs\<rparr>) \<noteq> None"
proof (cases "find_request (tr_transactionId r) s")
  case None
  then show ?thesis
    by (intro exI[of _ "ts_requests s @ [r]"]) (auto simp: save_request_def find_request_def find_None_iff)
next
  case (Some x)
  let ?f = "\<lambda>x. r\<lparr>tr_fee := tr_fee x, tr_commission := tr_commission x, tr_status := tr_status x,
    tr_feePayer := tr_feePayer x, tr_commissionReceiver := tr_commissionReceiver x\<rparr>"
  from Some have "x \<in> set (ts_requests s)" "tr_transactionId x = tr_transactionId r"
    by (auto simp: find_request_def find_Some_iff)
  with Some show ?thesis
    by (intro exI[of _ "map (\<lambda>y. if tr_transactionId y = tr_transactionId r then ?f y else y) (ts_requests s)"])
      (auto simp: save_request_def find_request_def find_None_iff)
qed

lemma saved_ends:
  assumes "tr_transactionId r = tid" "rr_transactionId req = tid" "bigint d = Inr m"
  shows "ends (\<lambda>x t. (\<exists>e. x = Inl e \<and> t = s) \<or> (\<exists>req rs m. x = Inr req \<and> rr_transactionId req = tid \<and>
     bigint d = Inr m \<and> t = s\<lparr>ts_requests := rs\<rparr> \<and> find_request tid t \<noteq> None)) (act_ok req) (save_request r s)"
  using save_request_found[of r s] assms by (auto simp: ends_def)

lemma create_ends:
  "ends (\<lambda>r t. (\<exists>e. r = Inl e \<and> t = s) \<or> (\<exists>req rs m. r = Inr req \<and> rr_transactionId req = payment_id env dto \<and>
     bigint (td_destinationAccount dto) = Inr m \<and> t = s\<lparr>ts_requests := rs\<rparr> \<and> find_request (payment_id env dto) t \<noteq> None)) (create_request env dto) s"
  unfolding create_request_def Let_def
  by (intro ends_intros saved_ends) (simp_all add: payment_id_def)

lemma find_owned: "find P ws = Some w \<Longrightarrow> w \<in> set ws \<and> P w"
  by (auto simp: find_Some_iff)

lemma transactionprocess_ends:
  assumes c: "configured env" and fresh: "find_reservation (ts_aml s) (payment_id env dto) = None"
    "find_request (payment_id env dto) s = None"
  shows "ends (submission env dto identity s) (transactionprocess env dto identity) s"
proof -
  have early: "submission env dto identity s (Inl e) s" for e
    using fresh by (simp add: submission_def settled_def unsent_def)
  have rest: "ends (submission env dto identity s) (act_then (create_request env dto) (\<lambda>req.
      act_then (act_of (bigint (td_sourceAccount dto))) (\<lambda>n. act_then (act_of (bigint (td_destinationAccount dto)))
        (process_keyword env dto req n)))) s"
    if i: "td_mobileNumber dto = identity" and w: "w \<in> set (ts_wallets s)"
      "bigint (td_sourceAccount dto) = Inr (tw_msisdn w)" "bigint identity = Inr (tw_owner w)" for w
  proof (rule ends_step[OF create_ends], goal_cases)
    case (2 req t)
    then obtain rs m where r: "rr_transactionId req = payment_id env dto" and m: "bigint (td_destinationAccount dto) = Inr m"
        and t: "t = s\<lparr>ts_requests := rs\<rparr>" "find_request (payment_id env dto) t \<noteq> None" by auto
    from t fresh(1) have u: "underway (payment_id env dto) s t" "ts_chargeCache t = ts_chargeCache s"
        "ts_commissionCache t = ts_commissionCache s" "ts_pins t = ts_pins s" "ts_keywords t = ts_keywords s"
        "ts_details t = ts_details s" by (simp_all add: underway_def)
    show ?case
      unfolding w(2) m by (rule ends_then_of; simp; rule ends_then_of; simp add: keyword_submits[OF c r i w m u])
  qed (auto intro: early)
  show ?thesis
    unfolding transactionprocess_def assertWalletOwned_def
  proof (intro ends_intros early, goal_cases)
    case (1 n owner w)
    from find_owned[OF 1(4)] 1 show ?case by (intro rest[of w]) auto
  qed
qed

section \<open>The properties\<close>

text \<open>
  C2 A payment handed to Kafka was authorised: the caller is the sender, owns the source wallet and gave the right
  PIN; the service is active, financial, meant for the destination and the amount is not below its minimum; one message
  was sent, with the amounts that charge and commission calculation gave on the current tables; the capacity for
  exactly this amount is reserved in the AML ledger, unless the keyword is the system's own; and the request is marked
  as submitted.
\<close>
theorem submitted_payment_authorised:
  assumes "configured env" and "find_reservation (ts_aml s) (payment_id env dto) = None"
    and "find_request (payment_id env dto) s = None"
    and "transactionprocess env dto identity s = (Inr a, t)" and "sa_code a = 200"
  shows "sender_authorised env dto identity s \<and>
    (\<exists>kw m. keyword_allows dto kw s \<and> ts_queue t = ts_queue s @ [(td_keyword dto, m)] \<and>
       tm_TransactionId m = payment_id env dto \<and> tm_Source m = td_sourceAccount dto \<and>
       tm_Destination m = td_destinationAccount dto \<and> tm_Amount m = td_amount dto \<and>
       charged env dto kw s m \<and> commissioned env dto kw s m \<and> capacity_held env dto kw s t) \<and>
    map_option tr_status (find_request (payment_id env dto) t) = Some ''2''"
  using endsD[OF transactionprocess_ends[OF assms(1-3)] assms(4)] assms(5) by (simp add: submission_def submitted_def)


end
