(* ===== verification/TransactionSamples.thy ===== *)
theory TransactionSamples
  imports TransactionProperties
begin

text \<open>A concrete payment, accepted with the right PIN and refused with a wrong one.\<close>

section \<open>The environment and the tables\<close>

definition pay_env :: tx_env where
  "pay_env = \<lparr>te_decimal = decimal_ref, te_now = 5, te_random = 12345,
     te_crypto = \<lparr>cy_compare = (\<lambda>pin h. h = ''$2b$'' @ pin), cy_hash = (\<lambda>pin. ''$2b$'' @ pin),
       cy_hmac = (\<lambda>k pin. k @ pin), cy_secret = Some ''key''\<rparr>,
     te_money = Inr, te_calendar = sample_calendar, te_kafka = (\<lambda>_. True)\<rparr>"

definition pay_dto :: create_transaction_dto where
  "pay_dto = \<lparr>td_amount = 50, td_pin = ''1234'', td_keyword = ''PMNT'', td_sourceAccount = ''7'',
     td_destinationAccount = ''8'', td_mobileNumber = ''7'', td_referenceId = None, td_currency = None\<rparr>"

definition pay_keyword :: keyword_row where
  "pay_keyword = \<lparr>kw_keyword = ''PMNT'', kw_scope = Some ''M'', kw_isFinancial = Some True, kw_chargeable = None,
     kw_kcIdLookup = None, kw_commissionable = None, kw_kcmIdLookup = None, kw_minimumTranAmount = None,
     kw_isSystemKeyword = Some False, kw_isActive = Some True\<rparr>"

definition pay_limits :: aml_config where
  "pay_limits = sample_limits\<lparr>ac_dailyTransactionCount := 5\<rparr>"

definition pay_ledger :: aml_tables where
  "pay_ledger = \<lparr>am_configs = [pay_limits], am_reservations = [], am_summaries = [sample_summary]\<rparr>"

definition pay_wallets :: wallet_tables where
  "pay_wallets = \<lparr>wt_wallets = [], wt_types = [\<lparr>swt_id = 103, swt_name = None, swt_details = None\<rparr>]\<rparr>"

definition pay_state :: tx_state where
  "pay_state = \<lparr>ts_wallets = [\<lparr>tw_msisdn = 7, tw_owner = 7, tw_status = Some 0, tw_currency = ''UGX''\<rparr>,
       \<lparr>tw_msisdn = 8, tw_owner = 9, tw_status = Some 0, tw_currency = ''UGX''\<rparr>],
     ts_details = [\<lparr>wd_msisdn = 7, wd_walletCode = Some 103, wd_walletType = Some 100\<rparr>,
       \<lparr>wd_msisdn = 8, wd_walletCode = Some 201, wd_walletType = Some 200\<rparr>],
     ts_users = [\<lparr>wu_msisdn = 7, wu_walletCode = Some 103, wu_amount = None, wu_fullName = None\<rparr>,
       \<lparr>wu_msisdn = 8, wu_walletCode = Some 201, wu_amount = None, wu_fullName = None\<rparr>],
     ts_keywords = [pay_keyword],
     ts_pins = \<lparr>pt_customers = [\<lparr>pn_msisdn = 7, pn_pin = Some ''$2b$1234'', pn_failAttempt = None, pn_status = Some 0\<rparr>],
       pt_merchants = []\<rparr>,
     ts_requests = [], ts_aml = pay_ledger, ts_queue = [], ts_pricing = empty_pricing_db,
     ts_charges = \<lparr>ct_charges = [], ct_details = [], ct_mappings = [], ct_keywords = [], ct_wallets = pay_wallets\<rparr>,
     ts_commissions = \<lparr>ot_commissions = [], ot_details = [], ot_mappings = [], ot_keywords = [], ot_wallets = pay_wallets\<rparr>,
     ts_chargeCache = \<lparr>rd_up = False, rd_version = None, rd_entries = (\<lambda>_. None)\<rparr>,
     ts_commissionCache = \<lparr>rd_up = False, rd_version = None, rd_entries = (\<lambda>_. None)\<rparr>\<rparr>"

section \<open>The run, step by step\<close>

lemma pay_numbers: "bigint ''7'' = Inr 7" "bigint ''8'' = Inr 8"
  by (simp_all add: bigint_def is_digit_def digits_nat_def digit_val_def)

lemma pay_configured: "configured pay_env"
  by (simp add: configured_def pay_env_def legacy_secret_def)

lemma pay_fresh:
  "find_reservation (ts_aml pay_state) tid = None" "find_request tid pay_state = None"
  by (simp_all add: pay_state_def pay_ledger_def find_reservation_def find_request_def)

definition pay_id :: string where
  "pay_id = nat_str 5 @ nat_str 12345"

definition pay_ref :: request_ref where
  "pay_ref = \<lparr>rr_transactionId = pay_id, rr_ID = ''PMNT-'' @ pay_id, rr_currency = ''UGX''\<rparr>"

definition pay_row :: tx_request where
  "pay_row = \<lparr>tr_transactionId = pay_id, tr_keyword = ''PMNT'', tr_source = 7, tr_dest = 8, tr_amount = 50,
     tr_fee = ''$0.00'', tr_commission = ''$0.00'', tr_status = ''1'', tr_referenceId = [], tr_feePayer = 0,
     tr_commissionReceiver = 0, tr_currency = ''UGX'', tr_pin = [], tr_destFullname = [], tr_remarks = [],
     tr_TRNID = ''PMNT-'' @ pay_id\<rparr>"

lemma pay_currency: "trim ''UGX'' = ''UGX''" "upper ''UGX'' = ''UGX''" "list_all is_upper ''UGX''"
  by (code_simp, code_simp, code_simp)

definition pay_source :: wallet_user where
  "pay_source = \<lparr>wu_msisdn = 7, wu_walletCode = Some 103, wu_amount = None, wu_fullName = None\<rparr>"

definition pay_dest :: wallet_user where
  "pay_dest = \<lparr>wu_msisdn = 8, wu_walletCode = Some 201, wu_amount = None, wu_fullName = None\<rparr>"

text \<open>What the lookups find, whatever was stored for the request and the PIN.\<close>

lemma pay_lookups:
  "find_wallet 7 pay_state = Some \<lparr>tw_msisdn = 7, tw_owner = 7, tw_status = Some 0, tw_currency = ''UGX''\<rparr>"
  "find_wallet 8 pay_state = Some \<lparr>tw_msisdn = 8, tw_owner = 9, tw_status = Some 0, tw_currency = ''UGX''\<rparr>"
  "find (\<lambda>w. tw_msisdn w = 7 \<and> tw_owner w = 7) (ts_wallets pay_state) =
     Some \<lparr>tw_msisdn = 7, tw_owner = 7, tw_status = Some 0, tw_currency = ''UGX''\<rparr>"
  "find_user 7 (pay_state\<lparr>ts_requests := rs\<rparr>) = Some pay_source"
  "find_user 8 (pay_state\<lparr>ts_requests := rs\<rparr>) = Some pay_dest"
  "wallet_detail_of 7 (pay_state\<lparr>ts_requests := rs\<rparr>) = Some \<lparr>wd_msisdn = 7, wd_walletCode = Some 103, wd_walletType = Some 100\<rparr>"
  "wallet_detail_of 8 (pay_state\<lparr>ts_requests := rs\<rparr>) = Some \<lparr>wd_msisdn = 8, wd_walletCode = Some 201, wd_walletType = Some 200\<rparr>"
  "keyword_row_of ''PMNT'' (pay_state\<lparr>ts_requests := rs\<rparr>) = Some pay_keyword"
  by (simp_all add: find_wallet_def pay_state_def find_user_def wallet_detail_of_def keyword_row_of_def pay_keyword_def
      pay_source_def pay_dest_def)

lemma pay_created:
  "create_request pay_env (pay_dto\<lparr>td_pin := p\<rparr>) pay_state = (Inr pay_ref, pay_state\<lparr>ts_requests := [pay_row]\<rparr>)"
proof -
  have "generateTransactionID pay_env ''PMNT'' = (pay_id, ''PMNT-'' @ pay_id)"
    by (simp add: generateTransactionID_def pay_env_def pay_id_def Let_def)
  moreover have "save_request pay_row pay_state = pay_state\<lparr>ts_requests := [pay_row]\<rparr>"
    using pay_fresh(2)[of pay_id] by (simp add: save_request_def pay_row_def) (simp add: pay_state_def)
  ultimately show ?thesis
    using pay_currency
    by (simp add: create_request_def pay_dto_def pay_numbers act_then_run act_found_def act_refuse_def pay_lookups
      requested_currency_def pay_ref_def pay_row_def Let_def)
qed

lemma pay_keyword_ok:
  "checkkeyword ''PMNT'' 7 8 50 (pay_state\<lparr>ts_requests := rs\<rparr>) =
     KwEligible 100 ''AML eligibility passed; transactional reservation required'' pay_keyword"
  by (simp add: checkkeyword_def pay_lookups checkwalletdetails_def scope_of_def) 
    (simp add: pay_keyword_def below_minimum_def)

text \<open>The two outcomes of the PIN check.\<close>

lemma pay_pin:
  "\<exists>ps. in_pins (PINVerify (te_crypto pay_env) ''1234'' 7) (pay_state\<lparr>ts_requests := rs\<rparr>) =
     (Inr \<lparr>pk_match = True, pk_accountStatus = 0\<rparr>, pay_state\<lparr>ts_requests := rs, ts_pins := ps\<rparr>)"
  "\<exists>ps. in_pins (PINVerify (te_crypto pay_env) ''0000'' 7) (pay_state\<lparr>ts_requests := rs\<rparr>) =
     (Inr \<lparr>pk_match = False, pk_accountStatus = 0\<rparr>, pay_state\<lparr>ts_requests := rs, ts_pins := ps\<rparr>)"
  by (simp_all add: in_pins_def act_in_def Let_def PINVerify_def walletpindetail_def act_then_run pin_row_of_def
      verifyPassword_def is_bcrypt_def failed_attempts_def pay_env_def change_pin_row_def pay_state_def)

lemma pay_flags: "\<not> flag_set None"
  by (simp add: flag_set_def) code_simp

lemma pay_reserved:
  "\<exists>a t. tx_reserve pay_env pay_id 7 ''PMNT'' 50 (pay_state\<lparr>ts_requests := [pay_row], ts_pins := ps\<rparr>) = (Inr a, t) \<and> an_success a"
proof -
  let ?s = "pay_state\<lparr>ts_requests := [pay_row], ts_pins := ps\<rparr>"
  have refs: "aml_refs ?s (new_reservation pay_id 7 103 ''PMNT'' 5000 5)"
    by (simp add: aml_refs_def new_reservation_def find_request_def pay_row_def keyword_row_of_def wallet_type_def)
      (simp add: pay_state_def pay_keyword_def pay_wallets_def)
  have codes: "aml_codes ?s 7 = Some 103"
    by (simp add: aml_codes_def wallet_detail_of_def pay_state_def)
  have cents: "round_half (100 * 50) = 5000" using round_half_of_int[of 5000] by simp
  have "\<exists>a tb. sw_proc_aml_reserve (aml_refs ?s) (aml_codes ?s) sample_calendar 5 pay_id 7 ''PMNT'' 50 pay_ledger = (Inr a, tb)
      \<and> an_success a"
    using refs unfolding sw_proc_aml_reserve_def Let_def keyword_pmnt cents codes reserve_within_def
    by (simp add: pay_ledger_def find_reservation_def active_aml_config_def pay_limits_def sample_limits_def
      exceeded_limit_def exceeds_def in_money_def used_after_def summary_part_def pending_part_def find_summary_def
      summary_key_def sample_summary_def in_period_def day_of_def month_of_def sample_calendar_def coalesce_def
      new_reservation_def key_of_def one_def)
  then show ?thesis
    by (simp add: tx_reserve_def in_aml_def act_in_def Let_def pay_env_def)
      (auto simp: pay_state_def)
qed

lemma pay_dispatched:
  "\<exists>a t'. dispatch pay_env d tid (submission_update d req None None) m b t = (Inr a, t') \<and> sa_code a = 200"
  by (simp add: dispatch_def act_then_run act_catch_run update_request_def submission_update_def payer_account_def
      text_or_def option_or_def bigint_zero sendTransaction_def act_refuse_def pay_env_def)

lemma pay_dto_simps [simp]:
  "td_pin (pay_dto\<lparr>td_pin := p\<rparr>) = p" "td_keyword pay_dto = ''PMNT''" "td_sourceAccount pay_dto = ''7''"
  "td_destinationAccount pay_dto = ''8''" "td_mobileNumber pay_dto = ''7''" "td_amount pay_dto = 50"
  "rr_transactionId pay_ref = pay_id"
  by (simp_all add: pay_dto_def pay_ref_def)

text \<open>Up to the check of the PIN.\<close>

lemma pay_prefix:
  "transactionprocess pay_env (pay_dto\<lparr>td_pin := p\<rparr>) ''7'' pay_state =
   process_payment pay_env (pay_dto\<lparr>td_pin := p\<rparr>) pay_ref pay_keyword 7 pay_source pay_dest (pay_state\<lparr>ts_requests := [pay_row]\<rparr>)"
  by (simp add: transactionprocess_def assertWalletOwned_def act_then_run act_found_def act_refuse_def pay_numbers
      pay_lookups pay_created process_keyword_def pay_keyword_ok process_users_def)

lemma pay_accepted:
  "\<exists>a t. transactionprocess pay_env (pay_dto\<lparr>td_pin := ''1234''\<rparr>) ''7'' pay_state = (Inr a, t) \<and> sa_code a = 200"
proof -
  obtain ps where ps: "in_pins (PINVerify (te_crypto pay_env) ''1234'' 7) (pay_state\<lparr>ts_requests := [pay_row]\<rparr>) =
      (Inr \<lparr>pk_match = True, pk_accountStatus = 0\<rparr>, pay_state\<lparr>ts_requests := [pay_row], ts_pins := ps\<rparr>)"
    using pay_pin(1) by blast
  obtain a t where a: "tx_reserve pay_env pay_id 7 ''PMNT'' 50 (pay_state\<lparr>ts_requests := [pay_row], ts_pins := ps\<rparr>) = (Inr a, t)"
      "an_success a" using pay_reserved by blast
  have codes: "0 < wallet_code_of pay_source" "0 < wallet_code_of pay_dest"
    by (simp_all add: wallet_code_of_def pay_source_def pay_dest_def)
  have kw: "\<not> flag_set (kw_chargeable pay_keyword)" "\<not> flag_set (kw_commissionable pay_keyword)"
      "kw_isSystemKeyword pay_keyword = Some False"
    using pay_flags by (simp_all add: pay_keyword_def)
  show ?thesis
    unfolding pay_prefix
    using pay_dispatched[of "pay_dto\<lparr>td_pin := ''1234''\<rparr>" pay_id pay_ref] a codes kw
    by (simp add: process_payment_def act_then_run pay_numbers ps with_charge_def with_commission_def with_reservation_def
        or_fail_def act_catch_run)
qed

lemma pay_rejected:
  "\<exists>a t. transactionprocess pay_env (pay_dto\<lparr>td_pin := ''0000''\<rparr>) ''7'' pay_state = (Inr a, t) \<and> sa_code a = 401"
proof -
  obtain ps where ps: "in_pins (PINVerify (te_crypto pay_env) ''0000'' 7) (pay_state\<lparr>ts_requests := [pay_row]\<rparr>) =
      (Inr \<lparr>pk_match = False, pk_accountStatus = 0\<rparr>, pay_state\<lparr>ts_requests := [pay_row], ts_pins := ps\<rparr>)"
    using pay_pin(2) by blast
  have money: "te_money pay_env = Inr" by (simp add: pay_env_def)
  show ?thesis
    unfolding pay_prefix
    by (simp add: process_payment_def act_then_run pay_numbers ps fail_with_def markTransactionFailed_def
        update_request_def bigint_zero money)
qed

section \<open>The properties at this payment\<close>

theorem submitted_payment_authorised_witness:
  "\<exists>t m. sender_authorised pay_env (pay_dto\<lparr>td_pin := ''1234''\<rparr>) ''7'' pay_state \<and>
     ts_queue t = [(''PMNT'', m)] \<and> tm_Amount m = 50 \<and>
     transactionprocess pay_env (pay_dto\<lparr>td_pin := ''1234''\<rparr>) ''7'' pay_state =
       (fst (transactionprocess pay_env (pay_dto\<lparr>td_pin := ''1234''\<rparr>) ''7'' pay_state), t)"
proof -
  obtain a t where run: "transactionprocess pay_env (pay_dto\<lparr>td_pin := ''1234''\<rparr>) ''7'' pay_state = (Inr a, t)"
      "sa_code a = 200" using pay_accepted by blast
  have "ts_queue pay_state = []" by (simp add: pay_state_def)
  with submitted_payment_authorised[OF pay_configured pay_fresh run] run(1) show ?thesis by auto
qed


end
