(* ===== verification/Conditions.thy ===== *)
theory Conditions
  imports Doubles
begin

text \<open>
  The condition engine of the credit rules
  (\<open>credit-rule-service/src/credit-rules/condition-engine.service.ts\<close>).  Conditions and actions are JSON
  values: \<open>validate\<close> and \<open>validateAction\<close> check them before they are stored, \<open>evaluate\<close> runs a
  stored condition on a value.  The parsing of dates, which the language leaves to the implementation for
  most texts, is the parameter \<open>dp\<close> (the milliseconds of a text, or nothing).  Properties a value inherits
  from its prototype are not modelled.
\<close>

section \<open>Reading values\<close>

text \<open>\<open>Number(v)\<close>, rounded to a double.\<close>

definition number_of :: "jsval \<Rightarrow> jsnum" where
  "number_of v = (case v of JNum n \<Rightarrow> n
     | _ \<Rightarrow> (case js_number v of NumFin q \<Rightarrow> num_of q | n \<Rightarrow> n))"

fun split_on :: "char \<Rightarrow> string \<Rightarrow> string list" where
  "split_on c [] = [[]]"
| "split_on c (x # xs) = (if x = c then [] # split_on c xs
     else (case split_on c xs of [] \<Rightarrow> [[x]] | w # ws \<Rightarrow> (x # w) # ws))"

definition array_index :: "string \<Rightarrow> nat option" where
  "array_index k = (if k \<noteq> [] \<and> list_all is_digit k \<and> (k = ''0'' \<or> hd k \<noteq> CHR ''0'')
     then Some (digits_nat k) else None)"

text \<open>\<open>(current as Record)[key]\<close>, \<open>undefined\<close> when \<open>current\<close> is falsy or no object.\<close>

definition js_member :: "jsval \<Rightarrow> string \<Rightarrow> jsval" where
  "js_member v k = (case v of
     JObj fs \<Rightarrow> prop_of v k
   | JArr xs \<Rightarrow> if k = ''length'' then JInt (int (length xs))
       else (case array_index k of Some i \<Rightarrow> if i < length xs then xs ! i else JUndef | None \<Rightarrow> JUndef)
   | _ \<Rightarrow> JUndef)"

definition readField :: "jsval \<Rightarrow> string \<Rightarrow> jsval" where
  "readField v path = foldl js_member v (filter (\<lambda>s. s \<noteq> []) (split_on (CHR ''.'') path))"

section \<open>Validation\<close>

fun each_res :: "('a \<Rightarrow> unit res) \<Rightarrow> 'a list \<Rightarrow> unit res" where
  "each_res f [] = Inr ()"
| "each_res f (x # xs) = await (f x) (\<lambda>_. each_res f xs)"

lemma each_res_cong [fundef_cong]:
  "xs = ys \<Longrightarrow> (\<And>x. x \<in> set ys \<Longrightarrow> f x = g x) \<Longrightarrow> each_res f xs = each_res g ys"
  by (induction xs arbitrary: ys) auto

lemma each_res_Inr [res_simps]: "each_res f xs = Inr u \<longleftrightarrow> (\<forall>x \<in> set xs. f x = Inr ())"
  by (induction xs) (auto simp: await_Inr_iff)

definition group_keys :: "jsval \<Rightarrow> string list" where
  "group_keys c = filter (\<lambda>k. prop_of c k \<noteq> JUndef) [''all'', ''any'', ''not'']"

definition operators :: "string list" where
  "operators = [''EQUALS'', ''NOT_EQUALS'', ''GREATER_THAN'', ''GREATER_THAN_OR_EQUAL'', ''LESS_THAN'',
     ''LESS_THAN_OR_EQUAL'', ''BETWEEN'', ''RANGE'', ''IN'', ''NOT_IN'', ''IS_NULL'', ''IS_NOT_NULL'']"

definition validate_leaf :: "jsval \<Rightarrow> unit res" where
  "validate_leaf c =
     (let operator = js_string (prop_of c ''operator'') in
      if operator \<notin> set operators then Inl (BadRequest (''Unsupported condition operator '' @ operator))
      else if operator \<in> {''BETWEEN'', ''RANGE''} \<and>
        (let lower = number_of (prop_of c ''lowerValue''); upper = number_of (prop_of c ''upperValue'')
         in \<not> num_finite lower \<or> \<not> num_finite upper \<or> num_le upper lower)
      then Inl (BadRequest ''A range requires numeric lowerValue < upperValue'')
      else if operator \<in> {''IN'', ''NOT_IN''} \<and> js_array (prop_of c ''values'') = None
      then Inl (BadRequest (operator @ '' requires values''))
      else Inr ())"

function validate :: "nat \<Rightarrow> jsval \<Rightarrow> unit res" where
  "validate depth c =
     (case c of
        JObj fs \<Rightarrow>
          if depth > 8 then Inl (BadRequest ''Condition nesting may not exceed 8 levels'')
          else (case group_keys c of
              [] \<Rightarrow> validate_leaf c
            | [k] \<Rightarrow>
                if k = ''not'' then validate (Suc depth) (prop_of c ''not'')
                else (case js_array (prop_of c k) of
                    None \<Rightarrow> Inl (BadRequest (k @ '' must contain between 1 and 50 conditions''))
                  | Some xs \<Rightarrow>
                      if length xs < 1 \<or> length xs > 50
                      then Inl (BadRequest (k @ '' must contain between 1 and 50 conditions''))
                      else each_res (validate (Suc depth)) xs)
            | _ \<Rightarrow> Inl (BadRequest ''A condition group must use exactly one of all, any, or not''))
      | _ \<Rightarrow> Inl (BadRequest ''A condition must be an object''))"
  by pat_completeness auto
termination by (relation "measure (\<lambda>(depth, c). 9 - depth)") auto

declare validate.simps [simp del]

definition action_types :: "string list" where
  "action_types = [''CONTINUE'', ''REJECT'', ''MANUAL_REVIEW'', ''SET_LIMIT_FIXED'', ''SET_LIMIT_FROM_VALUE'',
     ''SET_LIMIT_FROM_VALUE_MULTIPLIER'', ''ADD_LIMIT_FIXED'', ''SUBTRACT_LIMIT_FIXED'', ''CAP_LIMIT_FIXED'',
     ''CAP_LIMIT_FROM_VALUE_MULTIPLIER'', ''SET_CREDIT_OFFER'', ''SET_LIMIT_FROM_INPUT_MULTIPLIER'']"

definition numeric_field :: "jsval \<Rightarrow> string \<Rightarrow> bool" where
  "numeric_field a k \<longleftrightarrow> num_finite (number_of (prop_of a k))"

definition validateAction :: "jsval \<Rightarrow> unit res" where
  "validateAction a =
     (case a of
        JObj fs \<Rightarrow>
         (let type = js_string (prop_of a ''type''); strict = (prop_of a ''type'' = JStr type) in
          await (ensure (type \<in> set action_types) (BadRequest (''Unsupported rule action '' @ type))) (\<lambda>_.
          await (ensure (type \<in> {''SET_LIMIT_FIXED'', ''ADD_LIMIT_FIXED'', ''SUBTRACT_LIMIT_FIXED'', ''CAP_LIMIT_FIXED''}
              \<longrightarrow> numeric_field a ''value'') (BadRequest (type @ '' requires a numeric value''))) (\<lambda>_.
          await (ensure (type \<in> {''SET_LIMIT_FROM_VALUE_MULTIPLIER'', ''CAP_LIMIT_FROM_VALUE_MULTIPLIER''}
              \<longrightarrow> numeric_field a ''multiplier'') (BadRequest (type @ '' requires a numeric multiplier''))) (\<lambda>_.
          await (ensure (strict \<and> type = ''SET_CREDIT_OFFER'' \<longrightarrow> numeric_field a ''limit'')
              (BadRequest ''SET_CREDIT_OFFER requires a numeric limit'')) (\<lambda>_.
          await (ensure (strict \<and> type = ''SET_LIMIT_FROM_INPUT_MULTIPLIER'' \<longrightarrow>
                (case prop_of a ''inputField'' of JStr s \<Rightarrow> s \<noteq> [] | _ \<Rightarrow> False))
              (BadRequest ''SET_LIMIT_FROM_INPUT_MULTIPLIER requires inputField'')) (\<lambda>_.
          await (ensure (strict \<and> type = ''SET_LIMIT_FROM_INPUT_MULTIPLIER'' \<longrightarrow> numeric_field a ''multiplier'')
              (BadRequest ''SET_LIMIT_FROM_INPUT_MULTIPLIER requires a numeric multiplier'')) (\<lambda>_.
            ensure (prop_of a ''repaymentOptionIds'' \<noteq> JUndef \<longrightarrow>
                (case prop_of a ''repaymentOptionIds'' of
                   JArr xs \<Rightarrow> list_all (\<lambda>x. case x of JStr s \<Rightarrow> True | _ \<Rightarrow> False) xs
                 | _ \<Rightarrow> False))
              (BadRequest ''repaymentOptionIds must be an array of strings''))))))))
      | _ \<Rightarrow> Inl (BadRequest ''A rule action must be an object''))"

section \<open>Coercion and comparison\<close>

definition coerce :: "(string \<Rightarrow> int option) \<Rightarrow> jsval \<Rightarrow> jsval \<Rightarrow> jsval res" where
  "coerce dp v dt =
     (if js_nullish v then Inr v
      else if dt = JStr ''DECIMAL'' \<or> dt = JStr ''INTEGER'' then
        (let n = number_of v
         in if \<not> num_finite n then Inl (Failure (''Value '' @ js_string v @ '' is not numeric''))
            else Inr (JNum (if dt = JStr ''INTEGER'' then num_trunc n else n)))
      else if dt = JStr ''BOOLEAN'' then
        (case v of JBool b \<Rightarrow> Inr v
         | _ \<Rightarrow> (let t = lower (trim (js_string v)) in
             if t \<in> {''true'', ''1'', ''yes'', ''y''} then Inr (JBool True)
             else if t \<in> {''false'', ''0'', ''no'', ''n''} then Inr (JBool False)
             else Inl (Failure (''Value '' @ js_string v @ '' is not boolean''))))
      else if dt = JStr ''DATE'' \<or> dt = JStr ''DATETIME'' then
        (case dp (js_string v) of
           None \<Rightarrow> Inl (Failure (''Value '' @ js_string v @ '' is not a date''))
         | Some e \<Rightarrow> Inr (JInt e))
      else Inr (JStr (js_string v)))"

text \<open>Strings compare by their characters' codes.\<close>

fun str_less :: "string \<Rightarrow> string \<Rightarrow> bool" where
  "str_less [] t = (t \<noteq> [])"
| "str_less s [] = False"
| "str_less (c # s) (d # t) = (let m = of_char c :: nat; n = of_char d in m < n \<or> (c = d \<and> str_less s t))"

definition strict_eq :: "jsval \<Rightarrow> jsval \<Rightarrow> bool" where
  "strict_eq a b = (case a of
     JNum m \<Rightarrow> (case b of JNum n \<Rightarrow> num_eq m n | _ \<Rightarrow> False)
   | JArr xs \<Rightarrow> False
   | JObj fs \<Rightarrow> False
   | _ \<Rightarrow> a = b)"

definition js_less :: "jsval \<Rightarrow> jsval \<Rightarrow> bool" where
  "js_less a b = (case a of
     JStr s \<Rightarrow> (case b of JStr t \<Rightarrow> str_less s t | _ \<Rightarrow> num_lt (number_of a) (number_of b))
   | _ \<Rightarrow> num_lt (number_of a) (number_of b))"

definition compare :: "jsval \<Rightarrow> jsval \<Rightarrow> int" where
  "compare l r = (if strict_eq l r then 0 else if js_nullish l then - 1 else if js_nullish r then 1
     else if js_less l r then - 1 else 1)"

section \<open>Evaluation\<close>

fun every_res :: "('a \<Rightarrow> bool res) \<Rightarrow> 'a list \<Rightarrow> bool res" where
  "every_res f [] = Inr True"
| "every_res f (x # xs) = await (f x) (\<lambda>b. if b then every_res f xs else Inr False)"

fun some_res :: "('a \<Rightarrow> bool res) \<Rightarrow> 'a list \<Rightarrow> bool res" where
  "some_res f [] = Inr False"
| "some_res f (x # xs) = await (f x) (\<lambda>b. if b then Inr True else some_res f xs)"

lemma every_res_cong [fundef_cong]:
  "xs = ys \<Longrightarrow> (\<And>x. x \<in> set ys \<Longrightarrow> f x = g x) \<Longrightarrow> every_res f xs = every_res g ys"
  by (induction xs arbitrary: ys) (auto intro!: await_cong)

lemma some_res_cong [fundef_cong]:
  "xs = ys \<Longrightarrow> (\<And>x. x \<in> set ys \<Longrightarrow> f x = g x) \<Longrightarrow> some_res f xs = some_res g ys"
  by (induction xs arbitrary: ys) (auto intro!: await_cong)

definition compare_op :: "jsval \<Rightarrow> int \<Rightarrow> bool" where
  "compare_op operator r =
     (if operator = JStr ''EQUALS'' then r = 0
      else if operator = JStr ''NOT_EQUALS'' then r \<noteq> 0
      else if operator = JStr ''GREATER_THAN'' then r > 0
      else if operator = JStr ''GREATER_THAN_OR_EQUAL'' then r \<ge> 0
      else if operator = JStr ''LESS_THAN'' then r < 0
      else if operator = JStr ''LESS_THAN_OR_EQUAL'' then r \<le> 0
      else False)"

text \<open>\<open>if (leaf.field) rawValue = this.readField(rawValue, leaf.field)\<close>\<close>

definition leaf_value :: "jsval \<Rightarrow> jsval \<Rightarrow> jsval res" where
  "leaf_value c raw = (let f = prop_of c ''field'' in
     if \<not> truthy f then Inr raw else (case f of JStr s \<Rightarrow> Inr (readField raw s) | _ \<Rightarrow> Inl TypeErr))"

definition evaluate_leaf :: "(string \<Rightarrow> int option) \<Rightarrow> jsval \<Rightarrow> jsval \<Rightarrow> jsval \<Rightarrow> bool res" where
  "evaluate_leaf dp c raw dt0 =
     await (leaf_value c raw) (\<lambda>v.
       let dt = js_coalesce (prop_of c ''dataType'') dt0; operator = prop_of c ''operator'' in
       if operator = JStr ''IS_NULL'' then Inr (js_nullish v)
       else if operator = JStr ''IS_NOT_NULL'' then Inr (\<not> js_nullish v)
       else await (coerce dp v dt) (\<lambda>actual.
         if operator = JStr ''IN'' \<or> operator = JStr ''NOT_IN'' then
           (case js_array (js_coalesce (prop_of c ''values'') (JArr [])) of
              None \<Rightarrow> Inl TypeErr
            | Some xs \<Rightarrow>
                await (some_res (\<lambda>x. await (coerce dp x dt) (\<lambda>y. Inr (compare actual y = 0))) xs) (\<lambda>b.
                  Inr (if operator = JStr ''IN'' then b else \<not> b)))
         else if operator = JStr ''BETWEEN'' \<or> operator = JStr ''RANGE'' then
           await (coerce dp (prop_of c ''lowerValue'') dt) (\<lambda>lo.
           await (coerce dp (prop_of c ''upperValue'') dt) (\<lambda>hi.
             let incl = (\<lambda>k. operator = JStr ''BETWEEN'' \<or> prop_of c k \<noteq> JBool False);
                 lowerOk = (if incl ''lowerInclusive'' then compare actual lo \<ge> 0 else compare actual lo > 0);
                 upperOk = (if incl ''upperInclusive'' then compare actual hi \<le> 0 else compare actual hi < 0)
             in Inr (lowerOk \<and> upperOk)))
         else await (coerce dp (prop_of c ''value'') dt) (\<lambda>expected.
           Inr (compare_op operator (compare actual expected)))))"

definition isGroup :: "jsval \<Rightarrow> bool" where
  "isGroup c = (case c of JObj fs \<Rightarrow> list_ex (\<lambda>f. fst f \<in> {''all'', ''any'', ''not''}) fs | _ \<Rightarrow> False)"

lemma size_list_member: "x \<in> set xs \<Longrightarrow> f x < Suc (size_list f xs)"
  by (induction xs) auto

lemma prop_of_size: "prop_of (JObj fs) k = v \<Longrightarrow> v \<noteq> JUndef \<Longrightarrow> size v < size (JObj fs)"
proof -
  assume "prop_of (JObj fs) k = v" "v \<noteq> JUndef"
  then have "(k, v) \<in> set fs" by (auto simp: prop_of_def dest: map_of_SomeD split: option.splits)
  from size_list_member[OF this, of "size_prod (\<lambda>_. 0) size"] show ?thesis by simp
qed

lemma prop_of_elem_size: "prop_of (JObj fs) k = JArr xs \<Longrightarrow> x \<in> set xs \<Longrightarrow> size x < size (JObj fs)"
  using prop_of_size[of fs k "JArr xs"] size_list_member[of x xs size] by simp

function evaluate :: "(string \<Rightarrow> int option) \<Rightarrow> jsval \<Rightarrow> jsval \<Rightarrow> jsval \<Rightarrow> bool res" where
  "evaluate dp c raw dt =
     (case c of
        JObj fs \<Rightarrow>
          if isGroup (JObj fs) \<and> truthy (prop_of (JObj fs) ''all'') then
            (case prop_of (JObj fs) ''all'' of JArr xs \<Rightarrow> every_res (\<lambda>x. evaluate dp x raw dt) xs | _ \<Rightarrow> Inl TypeErr)
          else if isGroup (JObj fs) \<and> truthy (prop_of (JObj fs) ''any'') then
            (case prop_of (JObj fs) ''any'' of JArr xs \<Rightarrow> some_res (\<lambda>x. evaluate dp x raw dt) xs | _ \<Rightarrow> Inl TypeErr)
          else if isGroup (JObj fs) \<and> truthy (prop_of (JObj fs) ''not'') then
            await (evaluate dp (prop_of (JObj fs) ''not'') raw dt) (\<lambda>b. Inr (\<not> b))
          else evaluate_leaf dp c raw dt
      | JArr xs \<Rightarrow> evaluate_leaf dp c raw dt
      | _ \<Rightarrow> Inl TypeErr)"
  by pat_completeness auto
termination
proof (relation "measure (\<lambda>(dp, c, raw, dt). size c)", goal_cases)
  case (4 dp c raw dt fs)
  then have "prop_of (JObj fs) ''not'' \<noteq> JUndef" by auto
  with prop_of_size[OF refl this] 4(1) show ?case by simp
qed (auto dest: prop_of_elem_size)

declare evaluate.simps [simp del]

end
