(* ===== verification/CreditTypes.thy ===== *)
theory CreditTypes
  imports Conditions Actions
begin

text \<open>
  The tables and values of the credit rule service (\<open>credit-rule-service/src/credit-rules/credit-rule.types.ts\<close>
  and \<open>credit-rule.dto.ts\<close>).  Columns of type numeric are rationals, timestamps milliseconds, ids numbers.
\<close>

section \<open>Rules\<close>

datatype source_type = AiResultSource | DecisionInputSource | PostgresSource | HttpSource

datatype master_status = MDraft | MPending | MApproved | MActive | MRejected | MSuperseded | MRetired

datatype outcome = Processing | AutoApproved | CounterOffer | ManualReview | OutRejected | RescoreRequired
  | NoMasterRule | DataSourceUnavailable

text \<open>\<open>default_outcome: 'REJECTED' | 'MANUAL_REVIEW'\<close>\<close>

datatype default_outcome = DefaultRejected | DefaultManualReview

record master_rule =
  mr_id :: nat
  mr_code :: string
  mr_version :: nat
  mr_name :: string
  mr_category :: string
  mr_product :: string
  mr_currency :: "string option"
  mr_minScore :: "rat option"
  mr_maxScore :: "rat option"
  mr_baseLimit :: rat
  mr_minLimit :: rat
  mr_maxLimit :: rat
  mr_defaultOutcome :: default_outcome
  mr_autoApproval :: bool
  mr_options :: "string list"
  mr_provider :: "nat option"
  mr_status :: master_status
  mr_from :: "int option"
  mr_to :: "int option"
  mr_createdBy :: string
  mr_updatedBy :: "string option"
  mr_approvedBy :: "string option"
  mr_activatedBy :: "string option"
  mr_rejection :: "string option"

record credit_rule =
  cr_id :: nat
  cr_master :: nat
  cr_name :: string
  cr_description :: "string option"
  cr_priority :: int
  cr_group :: "string option"
  cr_source :: source_type
  cr_field :: "string option"
  cr_schema :: "string option"
  cr_table :: "string option"
  cr_lookup :: "string option"
  cr_value :: "string option"
  cr_mode :: "string option"
  cr_order :: "string option"
  cr_integration :: "nat option"
  cr_path :: "string option"
  cr_dataType :: string
  cr_condition :: jsval
  cr_onMatch :: jsval
  cr_onNoMatch :: jsval
  cr_onFailure :: jsval
  cr_stopOnMatch :: bool
  cr_stopOnNoMatch :: bool
  cr_active :: bool

record http_integration =
  hi_id :: nat
  hi_code :: string
  hi_name :: string
  hi_method :: string
  hi_url :: string
  hi_template :: jsval
  hi_authType :: string
  hi_authHeader :: "string option"
  hi_secretEnv :: "string option"
  hi_timeout :: int
  hi_cacheTtl :: int
  hi_active :: bool
  hi_createdBy :: string
  hi_updatedBy :: "string option"
  hi_approvedBy :: "string option"

record score_provider =
  sp_id :: nat
  sp_code :: string
  sp_name :: string
  sp_integration :: nat
  sp_scorePath :: string
  sp_categoryPath :: string
  sp_modelPath :: "string option"
  sp_versionPath :: "string option"
  sp_referencePath :: "string option"
  sp_scoredAtPath :: "string option"
  sp_min :: "rat option"
  sp_max :: "rat option"
  sp_validity :: int
  sp_default :: bool
  sp_submitted :: bool
  sp_active :: bool
  sp_createdBy :: string
  sp_updatedBy :: "string option"
  sp_approvedBy :: "string option"

datatype change_status = ChangePending | ChangeApproved | ChangeRejected

record change_request =
  ch_id :: nat
  ch_master :: nat
  ch_status :: change_status
  ch_maker :: string
  ch_makerComment :: "string option"
  ch_checker :: "string option"
  ch_checkerComment :: "string option"

section \<open>Scores and executions\<close>

text \<open>
  \<open>ai_scoredAt\<close> and \<open>ai_expiresAt\<close> are texts; a cached score has date objects there, for which their texts stand.
\<close>

record ai_result =
  ai_score :: jsnum
  ai_category :: string
  ai_modelId :: "string option"
  ai_modelVersion :: "string option"
  ai_scoredAt :: "string option"
  ai_expiresAt :: "string option"
  ai_referenceId :: "string option"

record score_snapshot =
  sn_id :: nat
  sn_customer :: string
  sn_provider :: nat
  sn_score :: jsnum
  sn_category :: string
  sn_modelId :: "string option"
  sn_modelVersion :: "string option"
  sn_reference :: "string option"
  sn_scoredAt :: int
  sn_expiresAt :: int

record evaluate_dto =
  ed_customer :: string
  ed_application :: "string option"
  ed_product :: string
  ed_currency :: "string option"
  ed_requested :: jsnum
  ed_exposure :: jsnum
  ed_pending :: jsnum
  ed_aiResult :: "ai_result option"
  ed_provider :: "string option"
  ed_forceRescore :: bool
  ed_simulation :: bool
  ed_master :: "nat option"
  ed_inputs :: jsval

record execution =
  ex_id :: nat
  ex_request :: evaluate_dto
  ex_outcome :: outcome
  ex_reasons :: "jsval list"
  ex_master :: "(nat \<times> string \<times> nat) option"
  ex_snapshot :: "nat option"
  ex_score :: "jsnum option"
  ex_category :: "string option"
  ex_allocated :: "jsnum option"
  ex_available :: "jsnum option"
  ex_options :: "jsval list"
  ex_completed :: "int option"

record execution_step =
  es_execution :: nat
  es_rule :: nat
  es_priority :: int
  es_source :: "string option"
  es_value :: "jsval option"
  es_result :: "bool option"
  es_action :: jsval
  es_before :: jsnum
  es_after :: jsnum
  es_outcome :: "outcome option"
  es_reason :: jsval
  es_error :: "string option"

text \<open>An active lender with an active product binding, as the evaluation looks it up.\<close>

record product_binding =
  pb_product :: string
  pb_country :: string
  pb_currency :: string
  pb_channel :: "string option"
  pb_active :: bool
  pb_lenderActive :: bool

record credit_db =
  db_masters :: "master_rule list"
  db_rules :: "credit_rule list"
  db_changes :: "change_request list"
  db_integrations :: "http_integration list"
  db_providers :: "score_provider list"
  db_snapshots :: "score_snapshot list"
  db_executions :: "execution list"
  db_steps :: "execution_step list"
  db_bindings :: "product_binding list"
  db_next :: nat

text \<open>The context one evaluation changes (\<open>EvaluationContext\<close>); what it does not change stays in the request.\<close>

record credit_context =
  cx_limit :: jsnum
  cx_outcome :: outcome
  cx_reasons :: "jsval list"
  cx_options :: "jsval list"
  cx_groups :: "string list"

text \<open>
  What surrounds the service: the clock, the answers of HTTP sources and of queries on other tables, how a text
  reads as a date and how a date prints.
\<close>

record pg_query =
  pq_schema :: string
  pq_table :: string
  pq_lookup :: string
  pq_value :: string
  pq_mode :: "string option"
  pq_order :: "string option"

record credit_env =
  ev_now :: int
  ev_http :: "http_integration \<Rightarrow> jsval \<Rightarrow> jsval res"
  ev_rows :: "pg_query \<Rightarrow> string \<Rightarrow> jsval list res"
  ev_dates :: "string \<Rightarrow> int option"
  ev_dateText :: "int \<Rightarrow> string"

end
