(* ===== verification/CreditEvaluation.thy ===== *)
theory CreditEvaluation
  imports CreditTypes
begin

text \<open>
  The evaluation of a credit request
  (\<open>credit-rule-service/src/credit-rules/credit-rule-evaluator.service.ts\<close>): the score, the master rule that
  applies, its rules one after the other, and the decision.  The calls of HTTP sources and of queries on other
  tables are parameters of the environment; one source answers one context the same throughout an evaluation, as
  the cache of the code makes it.
\<close>

section \<open>Reading sources\<close>

text \<open>\<open>HttpSourceService.readPath\<close> is the condition engine's \<open>readField\<close>.\<close>

definition readPath :: "jsval \<Rightarrow> string \<Rightarrow> jsval" where
  "readPath payload path = readField payload path"

definition opt_json :: "string option \<Rightarrow> jsval" where
  "opt_json v = (case v of None \<Rightarrow> JUndef | Some s \<Rightarrow> JStr s)"

definition ai_json :: "ai_result \<Rightarrow> jsval" where
  "ai_json r = JObj [(''score'', JNum (ai_score r)), (''category'', JStr (ai_category r)),
     (''modelId'', opt_json (ai_modelId r)), (''modelVersion'', opt_json (ai_modelVersion r)),
     (''scoredAt'', opt_json (ai_scoredAt r)), (''expiresAt'', opt_json (ai_expiresAt r)),
     (''referenceId'', opt_json (ai_referenceId r))]"

definition default_text :: "string option \<Rightarrow> string" where
  "default_text v = (case v of None \<Rightarrow> [] | Some s \<Rightarrow> s)"

definition httpContext :: "evaluate_dto \<Rightarrow> jsval" where
  "httpContext d = JObj [(''customerId'', JStr (ed_customer d)), (''applicationId'', JStr (default_text (ed_application d))),
     (''productId'', JStr (ed_product d)), (''currency'', JStr (default_text (ed_currency d))),
     (''requestedAmount'', JNum (ed_requested d)), (''existingExposure'', JNum (ed_exposure d)),
     (''pendingReservations'', JNum (ed_pending d))]"

definition getIntegration :: "credit_db \<Rightarrow> nat option \<Rightarrow> http_integration res" where
  "getIntegration db i = (case i of
     None \<Rightarrow> Inl (Failure ''invalid input syntax for type bigint'')
   | Some n \<Rightarrow> (case find (\<lambda>h. hi_id h = n \<and> hi_active h) (db_integrations db) of
        None \<Rightarrow> Inl (Failure ''HTTP integration is missing or inactive'')
      | Some h \<Rightarrow> Inr h))"

definition identifier_char :: "char \<Rightarrow> bool" where
  "identifier_char c \<longleftrightarrow> is_upper c \<or> is_lower c \<or> is_digit c \<or> c = CHR ''_'' \<or> c = CHR ''$''"

definition safe_identifier :: "string \<Rightarrow> bool" where
  "safe_identifier s = (case s of [] \<Rightarrow> False
     | c # cs \<Rightarrow> (is_upper c \<or> is_lower c \<or> c = CHR ''_'') \<and> list_all identifier_char cs)"

definition sql_identifier :: "string option \<Rightarrow> string res" where
  "sql_identifier v = (case v of
     None \<Rightarrow> Inl (Failure ''Unsafe database identifier null'')
   | Some s \<Rightarrow> if safe_identifier s then Inr s else Inl (Failure (''Unsafe database identifier '' @ s)))"

type_synonym source_result = "jsval \<times> string"

definition readPostgres :: "credit_env \<Rightarrow> credit_rule \<Rightarrow> string \<Rightarrow> source_result res" where
  "readPostgres E r customer =
     await (sql_identifier (cr_schema r)) (\<lambda>schema.
     await (sql_identifier (cr_table r)) (\<lambda>table.
     await (sql_identifier (cr_lookup r)) (\<lambda>lookup.
     await (sql_identifier (cr_value r)) (\<lambda>value.
     await (if cr_mode r = Some ''LATEST'' then await (sql_identifier (cr_order r)) (\<lambda>x. Inr (Some x)) else Inr None) (\<lambda>ord.
     await (ev_rows E \<lparr>pq_schema = schema, pq_table = table, pq_lookup = lookup, pq_value = value,
         pq_mode = cr_mode r, pq_order = ord\<rparr> customer) (\<lambda>rows.
       if cr_mode r = Some ''SINGLE'' \<and> length rows > 1
       then Inl (Failure ''SINGLE source returned more than one row'')
       else Inr (case rows of [] \<Rightarrow> JNull | v # _ \<Rightarrow> js_coalesce v JNull,
           ''postgres:'' @ schema @ ''.'' @ table @ ''.'' @ value)))))))"

definition readSource :: "credit_env \<Rightarrow> credit_db \<Rightarrow> evaluate_dto \<Rightarrow> ai_result \<Rightarrow> credit_rule \<Rightarrow> source_result res" where
  "readSource E db d ai r = (case cr_source r of
     AiResultSource \<Rightarrow> Inr (readPath (ai_json ai) (default_text (cr_field r)),
         ''aiResult.'' @ (case cr_field r of None \<Rightarrow> ''null'' | Some f \<Rightarrow> f))
   | DecisionInputSource \<Rightarrow>
       (let path = default_text (cr_field r)
        in Inr (if path \<noteq> [] then readPath (ed_inputs d) path else ed_inputs d,
             ''decisionInput.'' @ (if path \<noteq> [] then path else ''*'')))
   | HttpSource \<Rightarrow>
       await (getIntegration db (cr_integration r)) (\<lambda>h.
       await (ev_http E h (httpContext d)) (\<lambda>payload.
         Inr (readPath payload (default_text (cr_path r)),
           ''http:'' @ hi_code h @ '':'' @ (case cr_path r of None \<Rightarrow> ''null'' | Some p \<Rightarrow> p))))
   | PostgresSource \<Rightarrow> readPostgres E r (ed_customer d))"

section \<open>Actions\<close>

definition credit_money :: "jsnum \<Rightarrow> jsnum" where
  "credit_money n = num_div100 (num_round (num_mul (num_max (NumFin 0) (if num_finite n then n else NumFin 0)) (NumFin 100)))"

definition requireNumericSource :: "jsnum \<Rightarrow> string \<Rightarrow> unit res" where
  "requireNumericSource n act = ensure (num_finite n) (Failure (act @ '' requires a numeric source value''))"

definition max_safe :: rat where
  "max_safe = 9007199254740991"

definition new_limit :: "jsval \<Rightarrow> jsval \<Rightarrow> jsval \<Rightarrow> jsnum \<Rightarrow> jsnum res" where
  "new_limit action source inputs limit =
     (let num = (\<lambda>k. number_of (prop_of action k)); src = number_of source; type = prop_of action ''type'' in
      if type = JStr ''SET_LIMIT_FIXED'' then Inr (num ''value'')
      else if type = JStr ''SET_LIMIT_FROM_VALUE'' then
        await (requireNumericSource src ''SET_LIMIT_FROM_VALUE'') (\<lambda>_. Inr src)
      else if type = JStr ''SET_LIMIT_FROM_VALUE_MULTIPLIER'' then
        await (requireNumericSource src ''SET_LIMIT_FROM_VALUE_MULTIPLIER'') (\<lambda>_. Inr (num_mul src (num ''multiplier'')))
      else if type = JStr ''ADD_LIMIT_FIXED'' then Inr (num_add limit (num ''value''))
      else if type = JStr ''SUBTRACT_LIMIT_FIXED'' then Inr (num_max (NumFin 0) (num_sub limit (num ''value'')))
      else if type = JStr ''CAP_LIMIT_FIXED'' then Inr (num_min limit (num ''value''))
      else if type = JStr ''CAP_LIMIT_FROM_VALUE_MULTIPLIER'' then
        await (requireNumericSource src ''CAP_LIMIT_FROM_VALUE_MULTIPLIER'') (\<lambda>_.
          Inr (num_min limit (num_mul src (num ''multiplier''))))
      else if type = JStr ''SET_CREDIT_OFFER'' then Inr (num ''limit'')
      else if type = JStr ''SET_LIMIT_FROM_INPUT_MULTIPLIER'' then
        (let input = number_of (readPath inputs (js_string (js_or (prop_of action ''inputField'') (JStr []))))
         in await (requireNumericSource input ''SET_LIMIT_FROM_INPUT_MULTIPLIER'') (\<lambda>_.
              Inr (num_min (number_of (js_coalesce (prop_of action ''cap'') (JRat max_safe)))
                (num_max (number_of (js_coalesce (prop_of action ''floor'') (JInt 0))) (num_mul input (num ''multiplier''))))))
      else Inr limit)"

text \<open>\<open>[...action.repaymentOptionIds]\<close> for a truthy value.\<close>

definition spread :: "jsval \<Rightarrow> jsval list res" where
  "spread v = (case v of JArr xs \<Rightarrow> Inr xs | JStr s \<Rightarrow> Inr (map (\<lambda>c. JStr [c]) s) | _ \<Rightarrow> Inl TypeErr)"

definition applyAction :: "jsval \<Rightarrow> jsval \<Rightarrow> jsval \<Rightarrow> credit_context \<Rightarrow> credit_context res" where
  "applyAction action source inputs cx =
     await (js_get action ''type'') (\<lambda>type.
     await (new_limit action source inputs (cx_limit cx)) (\<lambda>limit.
     await (if truthy (prop_of action ''repaymentOptionIds'') then spread (prop_of action ''repaymentOptionIds'')
            else Inr (cx_options cx)) (\<lambda>options.
       Inr (cx\<lparr>cx_limit := limit,
          cx_outcome := (if type = JStr ''REJECT'' then OutRejected
            else if type = JStr ''MANUAL_REVIEW'' then ManualReview else cx_outcome cx),
          cx_options := options,
          cx_reasons := cx_reasons cx @
            (if truthy (prop_of action ''reasonCode'') then [prop_of action ''reasonCode''] else [])\<rparr>))))"

section \<open>The rules\<close>

definition exc_message :: "exc \<Rightarrow> string" where
  "exc_message e = (case e of BadRequest m \<Rightarrow> m | NotFound m \<Rightarrow> m | Conflict m \<Rightarrow> m | Forbidden m \<Rightarrow> m
     | Unauthorized m \<Rightarrow> m | Failure m \<Rightarrow> m | TypeErr \<Rightarrow> ''TypeError'')"

definition in_group :: "credit_rule \<Rightarrow> string list \<Rightarrow> bool" where
  "in_group r gs \<longleftrightarrow> (case cr_group r of None \<Rightarrow> False | Some g \<Rightarrow> g \<noteq> [] \<and> g \<in> set gs)"

text \<open>What reading the source and testing the condition gives: source, result, action, error.\<close>

record rule_result =
  rr_source :: "source_result option"
  rr_matched :: "bool option"
  rr_action :: jsval
  rr_error :: "string option"

definition test_rule :: "credit_env \<Rightarrow> credit_db \<Rightarrow> evaluate_dto \<Rightarrow> ai_result \<Rightarrow> credit_rule \<Rightarrow> rule_result" where
  "test_rule E db d ai r = (case readSource E db d ai r of
     Inl e \<Rightarrow> \<lparr>rr_source = None, rr_matched = None, rr_action = cr_onFailure r, rr_error = Some (exc_message e)\<rparr>
   | Inr src \<Rightarrow> (case evaluate (ev_dates E) (cr_condition r) (fst src) (JStr (cr_dataType r)) of
        Inl e \<Rightarrow> \<lparr>rr_source = Some src, rr_matched = None, rr_action = cr_onFailure r, rr_error = Some (exc_message e)\<rparr>
      | Inr b \<Rightarrow> \<lparr>rr_source = Some src, rr_matched = Some b,
           rr_action = (if b then cr_onMatch r else cr_onNoMatch r), rr_error = None\<rparr>))"

definition add_group :: "credit_rule \<Rightarrow> rule_result \<Rightarrow> credit_context \<Rightarrow> credit_context" where
  "add_group r q cx = (case cr_group r of
     Some g \<Rightarrow> if rr_matched q = Some True \<and> g \<noteq> [] then cx\<lparr>cx_groups := g # cx_groups cx\<rparr> else cx
   | None \<Rightarrow> cx)"

definition recordStep :: "nat \<Rightarrow> credit_rule \<Rightarrow> credit_context \<Rightarrow> jsnum \<Rightarrow> rule_result \<Rightarrow> execution_step" where
  "recordStep i r cx before q =
     \<lparr>es_execution = i, es_rule = cr_id r, es_priority = cr_priority r, es_source = map_option snd (rr_source q),
      es_value = map_option (\<lambda>s. js_coalesce (fst s) JNull) (rr_source q), es_result = rr_matched q, es_action = rr_action q,
      es_before = credit_money before, es_after = credit_money (cx_limit cx),
      es_outcome = (if cx_outcome cx = Processing then None else Some (cx_outcome cx)),
      es_reason = js_coalesce (prop_of (rr_action q) ''reasonCode'') JNull, es_error = rr_error q\<rparr>"

definition stops :: "credit_rule \<Rightarrow> rule_result \<Rightarrow> credit_context \<Rightarrow> bool" where
  "stops r q cx \<longleftrightarrow> cx_outcome cx = OutRejected \<or> cx_outcome cx = ManualReview \<or>
     (rr_matched q = Some True \<and> cr_stopOnMatch r) \<or> (rr_matched q = Some False \<and> cr_stopOnNoMatch r)"

fun run_rules :: "credit_env \<Rightarrow> nat \<Rightarrow> evaluate_dto \<Rightarrow> ai_result \<Rightarrow> credit_rule list \<Rightarrow> credit_context \<Rightarrow>
    (credit_db, credit_context) act" where
  "run_rules E i d ai [] cx = act_ok cx"
| "run_rules E i d ai (r # rs) cx =
     (if in_group r (cx_groups cx) then run_rules E i d ai rs cx
      else act_then (act_read (\<lambda>db. test_rule E db d ai r)) (\<lambda>q.
        act_then (act_of (applyAction (rr_action q) (case rr_source q of None \<Rightarrow> JUndef | Some s \<Rightarrow> fst s)
            (ed_inputs d) (add_group r q cx))) (\<lambda>cx'.
        act_then (act_write (\<lambda>db. db\<lparr>db_steps := db_steps db @ [recordStep i r cx' (cx_limit cx) q]\<rparr>)) (\<lambda>_.
          if stops r q cx' then act_ok cx' else run_rules E i d ai rs cx'))))"

section \<open>The score\<close>

text \<open>\<open>new Date(ms).toISOString()\<close>, by the civil date of the day number.\<close>

definition pad :: "nat \<Rightarrow> int \<Rightarrow> string" where
  "pad n i = (let s = nat_str (nat i) in replicate (n - length s) (CHR ''0'') @ s)"

definition civil :: "int \<Rightarrow> int \<times> int \<times> int" where
  "civil days =
     (let z = days + 719468; era = z div 146097; doe = z mod 146097;
          yoe = (doe - doe div 1460 + doe div 36524 - doe div 146096) div 365;
          doy = doe - (365 * yoe + yoe div 4 - yoe div 100);
          mp = (5 * doy + 2) div 153;
          m = (if mp < 10 then mp + 3 else mp - 9)
      in (yoe + era * 400 + (if m \<le> 2 then 1 else 0), m, doy - (153 * mp + 2) div 5 + 1))"

definition iso_string :: "int \<Rightarrow> string" where
  "iso_string ms =
     (let t = ms mod 86400000
      in case civil (ms div 86400000) of (y, m, d) \<Rightarrow>
        (if 0 \<le> y \<and> y \<le> 9999 then pad 4 y else (if y < 0 then ''-'' else ''+'') @ pad 6 (abs y)) @ ''-'' @ pad 2 m @ ''-'' @ pad 2 d @
        ''T'' @ pad 2 (t div 3600000) @ '':'' @ pad 2 (t div 60000 mod 60) @ '':'' @ pad 2 (t div 1000 mod 60) @ ''.'' @
        pad 3 (t mod 1000) @ ''Z'')"

text \<open>\<open>WHERE is_active AND (code IS NULL OR ...) ORDER BY rank, id LIMIT 1\<close>\<close>

fun least_by :: "('a \<Rightarrow> 'a \<Rightarrow> bool) \<Rightarrow> 'a list \<Rightarrow> 'a option" where
  "least_by before [] = None"
| "least_by before (x # xs) = (case least_by before xs of
     None \<Rightarrow> Some x | Some y \<Rightarrow> Some (if before y x then y else x))"

lemma least_by_mem: "least_by before xs = Some x \<Longrightarrow> x \<in> set xs"
  by (induction xs arbitrary: x) (auto split: option.splits if_splits)

lemma least_by_None: "least_by before xs = None \<longleftrightarrow> xs = []"
  by (cases xs) (auto split: option.splits)

definition provider_rank :: "string option \<Rightarrow> score_provider \<Rightarrow> nat" where
  "provider_rank code p = (if Some (sp_code p) = map_option upper code then 0 else if sp_default p then 1 else 2)"

definition findScoreProvider :: "string option \<Rightarrow> credit_db \<Rightarrow> score_provider option" where
  "findScoreProvider code db =
     least_by (\<lambda>p q. provider_rank code p < provider_rank code q \<or>
         provider_rank code p = provider_rank code q \<and> sp_id p < sp_id q)
       (filter (\<lambda>p. sp_active p \<and> (code = None \<or> code \<noteq> None \<and> Some (sp_code p) = map_option upper code)) (db_providers db))"

definition validateScore :: "ai_result \<Rightarrow> score_provider option \<Rightarrow> unit res" where
  "validateScore r p =
     (if \<not> num_finite (ai_score r) then Inl (Failure ''AI score is not numeric'')
      else if ai_category r = [] then Inl (Failure ''AI customer category is empty'')
      else (case p of
         None \<Rightarrow> Inr ()
       | Some q \<Rightarrow>
          if (case sp_min q of None \<Rightarrow> False | Some m \<Rightarrow> num_lt (ai_score r) (num_of m))
          then Inl (Failure ''AI score is below the provider range'')
          else if (case sp_max q of None \<Rightarrow> False | Some m \<Rightarrow> num_lt (num_of m) (ai_score r))
          then Inl (Failure ''AI score is above the provider range'')
          else Inr ()))"

text \<open>What a column \<open>numeric(p, n)\<close> keeps of a number, read back as one.\<close>

definition numeric_column :: "nat \<Rightarrow> jsnum \<Rightarrow> jsnum" where
  "numeric_column n x = (case x of NumFin q \<Rightarrow> num_of (of_int (round_half (q * 10 ^ n)) / 10 ^ n) | y \<Rightarrow> y)"

definition snapshot_of :: "credit_env \<Rightarrow> string \<Rightarrow> score_provider \<Rightarrow> ai_result \<Rightarrow> nat \<Rightarrow> score_snapshot res" where
  "snapshot_of E customer p r i =
     (let given = (\<lambda>v. case v of None \<Rightarrow> False | Some s \<Rightarrow> s \<noteq> []);
          scored = (if given (ai_scoredAt r) then ev_dates E (the (ai_scoredAt r)) else Some (ev_now E));
          expires = (if given (ai_expiresAt r) then ev_dates E (the (ai_expiresAt r))
            else map_option (\<lambda>t. t + sp_validity p * 60000) scored)
      in case (scored, expires) of
           (Some s, Some x) \<Rightarrow>
             if x \<le> s then Inl (Failure ''AI score dates are invalid'')
             else Inr \<lparr>sn_id = i, sn_customer = customer, sn_provider = sp_id p, sn_score = numeric_column 4 (ai_score r),
                sn_category = upper (ai_category r), sn_modelId = ai_modelId r, sn_modelVersion = ai_modelVersion r,
                sn_reference = ai_referenceId r, sn_scoredAt = s, sn_expiresAt = x\<rparr>
         | _ \<Rightarrow> Inl (Failure ''AI score dates are invalid''))"

text \<open>\<open>INSERT ... ON CONFLICT (provider_id, external_reference) DO UPDATE SET customer_id\<close>\<close>

definition store_snapshot :: "score_snapshot \<Rightarrow> credit_db \<Rightarrow> nat \<times> credit_db" where
  "store_snapshot n db =
     (let same = (\<lambda>w. sn_reference n \<noteq> None \<and> sn_provider w = sn_provider n \<and> sn_reference w = sn_reference n)
      in case find same (db_snapshots db) of
           Some w \<Rightarrow> (sn_id w, db\<lparr>db_snapshots :=
               map (\<lambda>x. if same x then x\<lparr>sn_customer := sn_customer n\<rparr> else x) (db_snapshots db)\<rparr>)
         | None \<Rightarrow> (sn_id n, db\<lparr>db_snapshots := db_snapshots db @ [n], db_next := Suc (db_next db)\<rparr>))"

definition saveSnapshot :: "credit_env \<Rightarrow> string \<Rightarrow> score_provider \<Rightarrow> ai_result \<Rightarrow> (credit_db, nat) act" where
  "saveSnapshot E customer p r =
     act_then (act_read db_next) (\<lambda>i.
     act_then (act_of (snapshot_of E customer p r i)) (\<lambda>n.
     act_then (act_read (\<lambda>db. fst (store_snapshot n db))) (\<lambda>k.
     act_then (act_write (\<lambda>db. snd (store_snapshot n db))) (\<lambda>_. act_ok k))))"

definition cached_snapshot :: "credit_env \<Rightarrow> string \<Rightarrow> score_provider \<Rightarrow> credit_db \<Rightarrow> score_snapshot option" where
  "cached_snapshot E customer p db =
     least_by (\<lambda>x y. sn_scoredAt x > sn_scoredAt y)
       (filter (\<lambda>n. sn_customer n = customer \<and> sn_provider n = sp_id p \<and> sn_expiresAt n > ev_now E) (db_snapshots db))"

definition cached_result :: "credit_env \<Rightarrow> score_snapshot \<Rightarrow> ai_result" where
  "cached_result E n = \<lparr>ai_score = sn_score n, ai_category = sn_category n, ai_modelId = sn_modelId n,
     ai_modelVersion = sn_modelVersion n, ai_scoredAt = Some (ev_dateText E (sn_scoredAt n)),
     ai_expiresAt = Some (ev_dateText E (sn_expiresAt n)), ai_referenceId = sn_reference n\<rparr>"

definition optionalPath :: "jsval \<Rightarrow> string option \<Rightarrow> string option" where
  "optionalPath payload path = (case path of
     None \<Rightarrow> None
   | Some p \<Rightarrow> if p = [] then None
       else (let v = readPath payload p in if js_nullish v then None else Some (js_string v)))"

definition provider_result :: "credit_env \<Rightarrow> score_provider \<Rightarrow> jsval \<Rightarrow> ai_result res" where
  "provider_result E p payload =
     (let v = (case sp_scoredAtPath p of None \<Rightarrow> JUndef | Some path \<Rightarrow> if path = [] then JUndef else readPath payload path)
      in await (if truthy v then (case ev_dates E (js_string v) of
             None \<Rightarrow> Inl (Failure ''Score provider returned an invalid scored-at date'') | Some t \<Rightarrow> Inr t)
           else Inr (ev_now E)) (\<lambda>t.
         Inr \<lparr>ai_score = number_of (readPath payload (sp_scorePath p)),
           ai_category = upper (js_string (js_coalesce (readPath payload (sp_categoryPath p)) (JStr []))),
           ai_modelId = optionalPath payload (sp_modelPath p), ai_modelVersion = optionalPath payload (sp_versionPath p),
           ai_scoredAt = Some (iso_string t), ai_expiresAt = Some (iso_string (t + sp_validity p * 60000)),
           ai_referenceId = optionalPath payload (sp_referencePath p)\<rparr>))"

definition resolveScore :: "credit_env \<Rightarrow> evaluate_dto \<Rightarrow> (credit_db, ai_result \<times> nat option) act" where
  "resolveScore E d =
     act_then (act_read (findScoreProvider (ed_provider d))) (\<lambda>provider.
     case ed_aiResult d of
       Some given \<Rightarrow>
         (let r = given\<lparr>ai_category := upper (ai_category given)\<rparr> in
          act_then (act_of (validateScore r provider)) (\<lambda>_.
          case provider of
            None \<Rightarrow> act_ok (r, None)
          | Some p \<Rightarrow> act_then (saveSnapshot E (ed_customer d) p r) (\<lambda>i. act_ok (r, Some i))))
     | None \<Rightarrow>
         (case provider of
            None \<Rightarrow> act_throw (Failure ''No active score provider is configured'')
          | Some p \<Rightarrow>
              if sp_submitted p
              then act_throw (Failure ''The active score provider requires a submitted score and A-J grade'')
              else act_then (act_read (cached_snapshot E (ed_customer d) p)) (\<lambda>cached.
                case (if ed_forceRescore d then None else cached) of
                  Some n \<Rightarrow> act_ok (cached_result E n, Some (sn_id n))
                | None \<Rightarrow>
                    act_then (act_read (\<lambda>db. getIntegration db (Some (sp_integration p)))) (\<lambda>h.
                    act_then (act_of h) (\<lambda>h.
                    act_then (act_of (ev_http E h (httpContext d))) (\<lambda>payload.
                    act_then (act_of (provider_result E p payload)) (\<lambda>r.
                    act_then (act_of (validateScore r (Some p))) (\<lambda>_.
                    act_then (saveSnapshot E (ed_customer d) p r) (\<lambda>i. act_ok (r, Some i))))))))))"


section \<open>The decision\<close>

text \<open>\<open>status='ACTIVE' ... ORDER BY version DESC, id DESC LIMIT 1\<close>\<close>

definition master_matches :: "evaluate_dto \<Rightarrow> ai_result \<Rightarrow> master_rule \<Rightarrow> bool" where
  "master_matches d ai m \<longleftrightarrow> mr_product m = ed_product d \<and>
     (mr_category m = upper (ai_category ai) \<or> mr_category m = ''ANY'') \<and>
     (case mr_minScore m of None \<Rightarrow> True | Some q \<Rightarrow> num_le (NumFin q) (ai_score ai)) \<and>
     (case mr_maxScore m of None \<Rightarrow> True | Some q \<Rightarrow> num_le (ai_score ai) (NumFin q)) \<and>
     (mr_currency m = None \<or> (ed_currency d \<noteq> None \<and> mr_currency m = map_option upper (ed_currency d)))"

definition findMaster :: "credit_env \<Rightarrow> evaluate_dto \<Rightarrow> ai_result \<Rightarrow> credit_db \<Rightarrow> master_rule option" where
  "findMaster E d ai db =
     least_by (\<lambda>m n. mr_version m > mr_version n \<or> mr_version m = mr_version n \<and> mr_id m > mr_id n)
       (filter (\<lambda>m. master_matches d ai m \<and>
          (if ed_simulation d \<and> ed_master d \<noteq> None
           then Some (mr_id m) = ed_master d \<and> mr_status m \<in> {MDraft, MPending, MApproved, MActive}
           else mr_status m = MActive \<and>
             (case mr_from m of None \<Rightarrow> True | Some t \<Rightarrow> t \<le> ev_now E) \<and>
             (case mr_to m of None \<Rightarrow> True | Some t \<Rightarrow> ev_now E \<le> t))) (db_masters db))"

text \<open>\<open>upper(x)\<close> of a JSON text.\<close>

definition json_upper :: "jsval \<Rightarrow> string option" where
  "json_upper v = (case v of JStr s \<Rightarrow> Some (upper s) | _ \<Rightarrow> None)"

definition commercial_binding :: "evaluate_dto \<Rightarrow> credit_db \<Rightarrow> bool" where
  "commercial_binding d db = list_ex (\<lambda>b. pb_active b \<and> pb_lenderActive b \<and> pb_product b = ed_product d \<and>
     Some (pb_country b) = json_upper (prop_of (ed_inputs d) ''countryCode'') \<and>
     pb_currency b = upper (default_text (ed_currency d)) \<and>
     (pb_channel b = None \<or> pb_channel b = json_upper (prop_of (ed_inputs d) ''channel''))) (db_bindings db)"

definition master_rules :: "master_rule \<Rightarrow> credit_db \<Rightarrow> credit_rule list" where
  "master_rules m db = sort_key cr_priority (sort_key cr_id
     (filter (\<lambda>r. cr_master r = mr_id m \<and> cr_active r) (db_rules db)))"

definition new_execution :: "nat \<Rightarrow> evaluate_dto \<Rightarrow> execution" where
  "new_execution i d = \<lparr>ex_id = i, ex_request = d, ex_outcome = Processing, ex_reasons = [], ex_master = None,
     ex_snapshot = None, ex_score = None, ex_category = None, ex_allocated = None, ex_available = None,
     ex_options = [], ex_completed = None\<rparr>"

definition update_execution :: "nat \<Rightarrow> (execution \<Rightarrow> execution) \<Rightarrow> credit_db \<Rightarrow> credit_db" where
  "update_execution i f db = db\<lparr>db_executions := map (\<lambda>x. if ex_id x = i then f x else x) (db_executions db)\<rparr>"

definition finishFailure :: "credit_env \<Rightarrow> nat \<Rightarrow> outcome \<Rightarrow> string \<Rightarrow> (credit_db, unit) act" where
  "finishFailure E i out reason = act_write (update_execution i (\<lambda>x. x\<lparr>ex_outcome := out,
     ex_reasons := [JStr reason], ex_completed := Some (ev_now E)\<rparr>))"

definition getExecution :: "nat \<Rightarrow> (credit_db, execution \<times> execution_step list) act" where
  "getExecution i =
     act_then (act_found (\<lambda>db. find (\<lambda>x. ex_id x = i) (db_executions db))
       (NotFound ''Credit-rule execution was not found'')) (\<lambda>x.
     act_then (act_read (\<lambda>db. sort_key es_priority (filter (\<lambda>t. es_execution t = i) (db_steps db)))) (\<lambda>ts.
       act_ok (x, ts)))"

definition initial_context :: "master_rule \<Rightarrow> credit_context" where
  "initial_context m = \<lparr>cx_limit = num_of (mr_baseLimit m), cx_outcome = Processing, cx_reasons = [],
     cx_options = map JStr (mr_options m), cx_groups = []\<rparr>"

definition allocated_limit :: "master_rule \<Rightarrow> credit_context \<Rightarrow> jsnum" where
  "allocated_limit m cx = num_max (NumFin 0) (num_min (num_of (mr_maxLimit m)) (credit_money (cx_limit cx)))"

definition available_limit :: "evaluate_dto \<Rightarrow> jsnum \<Rightarrow> jsnum" where
  "available_limit d allocated =
     num_max (NumFin 0) (credit_money (num_sub (num_sub allocated (ed_exposure d)) (ed_pending d)))"

text \<open>The outcome and the reason that the limits give to a context still processing.\<close>

definition decide_outcome :: "master_rule \<Rightarrow> evaluate_dto \<Rightarrow> jsnum \<Rightarrow> jsnum \<Rightarrow> credit_context \<Rightarrow> credit_context" where
  "decide_outcome m d allocated available cx =
     (if cx_outcome cx \<noteq> Processing then cx
      else if \<not> mr_autoApproval m
      then cx\<lparr>cx_outcome := ManualReview, cx_reasons := cx_reasons cx @ [JStr ''AUTO_APPROVAL_DISABLED'']\<rparr>
      else if num_lt allocated (num_of (mr_minLimit m)) \<or> num_le available (NumFin 0)
      then cx\<lparr>cx_outcome := (case mr_defaultOutcome m of DefaultRejected \<Rightarrow> OutRejected | DefaultManualReview \<Rightarrow> ManualReview), 
         cx_reasons := cx_reasons cx @ [JStr (if num_lt allocated (num_of (mr_minLimit m)) then ''LIMIT_BELOW_MINIMUM'' else ''NO_AVAILABLE_LIMIT'')]\<rparr>
      else cx\<lparr>cx_outcome := (if num_le (ed_requested d) available then AutoApproved else CounterOffer)\<rparr>)"

definition check_binding :: "evaluate_dto \<Rightarrow> bool \<Rightarrow> credit_context \<Rightarrow> credit_context" where
  "check_binding d bound cx =
     (if cx_outcome cx \<in> {AutoApproved, CounterOffer} \<and> \<not> ed_simulation d \<and> \<not> bound
      then cx\<lparr>cx_outcome := ManualReview, cx_reasons := cx_reasons cx @ [JStr ''COMMERCIAL_BINDING_INACTIVE'']\<rparr>
      else cx)"

definition decide_credit :: "credit_env \<Rightarrow> nat \<Rightarrow> evaluate_dto \<Rightarrow> ai_result \<Rightarrow> nat option \<Rightarrow> master_rule \<Rightarrow> (credit_db, unit) act" where
  "decide_credit E i d ai snap m =
     act_then (act_write (update_execution i (\<lambda>x. x\<lparr>ex_master := Some (mr_id m, mr_code m, mr_version m),
         ex_snapshot := snap, ex_score := Some (ai_score ai), ex_category := Some (ai_category ai)\<rparr>))) (\<lambda>_.
     act_then (act_read (master_rules m)) (\<lambda>rules.
     act_then (run_rules E i d ai rules (initial_context m)) (\<lambda>cx.
     act_then (act_read (commercial_binding d)) (\<lambda>bound.
       let allocated = allocated_limit m cx;
           available = available_limit d allocated;
           fin = check_binding d bound (decide_outcome m d allocated available cx)
       in act_write (update_execution i (\<lambda>x. x\<lparr>ex_allocated := Some allocated, ex_available := Some available,
            ex_options := js_set (cx_options fin), ex_outcome := cx_outcome fin, ex_reasons := js_set (cx_reasons fin),
            ex_completed := Some (ev_now E)\<rparr>))))))"

text \<open>The evaluation once a score was found.\<close>

definition after_score :: "credit_env \<Rightarrow> nat \<Rightarrow> evaluate_dto \<Rightarrow> (ai_result \<times> nat option) option \<Rightarrow> (credit_db, unit) act" where
  "after_score E i d score = (case score of
     None \<Rightarrow> act_ok ()
   | Some (ai, snap) \<Rightarrow>
       act_then (act_read (findMaster E d ai)) (\<lambda>master.
       case master of
         None \<Rightarrow> act_write (update_execution i (\<lambda>x. x\<lparr>ex_snapshot := snap, ex_score := Some (ai_score ai),
            ex_category := Some (ai_category ai), ex_outcome := NoMasterRule,
            ex_reasons := [JStr ''NO_APPLICABLE_MASTER_RULE''], ex_completed := Some (ev_now E)\<rparr>))
       | Some m \<Rightarrow>
           if prop_of (ed_inputs d) ''grade'' \<noteq> JStr (ai_category ai)
           then finishFailure E i ManualReview ''SCORE_GRADE_MISMATCH''
           else decide_credit E i d ai snap m))"

definition run_evaluation :: "credit_env \<Rightarrow> nat \<Rightarrow> evaluate_dto \<Rightarrow> (credit_db, unit) act" where
  "run_evaluation E i d =
     act_then (act_refuse (\<lambda>_. ed_master d \<noteq> None \<and> \<not> ed_simulation d)
       (BadRequest ''masterRuleId may only be supplied for a simulation'')) (\<lambda>_.
     act_then (act_write (\<lambda>db. db\<lparr>db_executions := db_executions db @ [new_execution i d]\<rparr>)) (\<lambda>_.
     act_then (act_catch (act_then (resolveScore E d) (\<lambda>x. act_ok (Some x)))
       (\<lambda>_. act_then (finishFailure E i RescoreRequired ''AI_SCORE_UNAVAILABLE'') (\<lambda>_. act_ok None)))
       (after_score E i d)))"

definition evaluate_credit :: "credit_env \<Rightarrow> nat \<Rightarrow> evaluate_dto \<Rightarrow> (credit_db, execution \<times> execution_step list) act" where
  "evaluate_credit E i d = act_then (run_evaluation E i d) (\<lambda>_. getExecution i)"

text \<open>The public endpoint never simulates (\<open>credit-decision.controller.ts\<close>).\<close>

definition evaluate_endpoint :: "credit_env \<Rightarrow> nat \<Rightarrow> evaluate_dto \<Rightarrow> (credit_db, execution \<times> execution_step list) act" where
  "evaluate_endpoint E i d = evaluate_credit E i (d\<lparr>ed_simulation := False, ed_master := None\<rparr>)"

end

