(* ===== verification/CreditManagement.thy ===== *)
theory CreditManagement
  imports CreditEvaluation Postconditions
begin

text \<open>
  The administration of credit policies
  (\<open>credit-rule-service/src/credit-rules/credit-rule-management.service.ts\<close>, \<open>source-validator.service.ts\<close> and the
  URL check of \<open>http-source.service.ts\<close>): integrations, score providers, master rules with their child rules, and
  the publication of a master rule.  Writes check the constraints of the tables (migrations 014 and 052).
\<close>

section \<open>Requests\<close>

text \<open>
  What surrounds the service: the clock, the configuration, the columns of the database, and how a URL and a
  timestamp are read.  A number of a request is finite (the DTO classes check it) and stands by its decimal.
\<close>

record admin_env =
  ae_now :: int
  ae_schemas :: "string list"
  ae_columns :: "string \<Rightarrow> string \<Rightarrow> string list"
  ae_hosts :: "string list"
  ae_insecure :: bool
  ae_url :: "string \<Rightarrow> (string \<times> string) option"
  ae_date :: "string \<Rightarrow> int option"

record integration_dto =
  ci_code :: string
  ci_name :: string
  ci_method :: string
  ci_url :: string
  ci_template :: "jsval option"
  ci_authType :: string
  ci_authHeader :: "string option"
  ci_secretEnv :: "string option"
  ci_timeout :: int
  ci_cacheTtl :: int

record update_integration_dto =
  ui_name :: "string option"
  ui_method :: "string option"
  ui_url :: "string option"
  ui_template :: "jsval option"
  ui_authType :: "string option"
  ui_authHeader :: "string option"
  ui_secretEnv :: "string option"
  ui_timeout :: "int option"
  ui_cacheTtl :: "int option"

record provider_dto =
  cp_code :: string
  cp_name :: string
  cp_integration :: nat
  cp_scorePath :: string
  cp_categoryPath :: string
  cp_modelPath :: "string option"
  cp_versionPath :: "string option"
  cp_referencePath :: "string option"
  cp_scoredAtPath :: "string option"
  cp_min :: "rat option"
  cp_max :: "rat option"
  cp_validity :: int
  cp_default :: bool
  cp_submitted :: bool

record update_provider_dto =
  up_name :: "string option"
  up_integration :: "nat option"
  up_scorePath :: "string option"
  up_categoryPath :: "string option"
  up_modelPath :: "string option"
  up_versionPath :: "string option"
  up_referencePath :: "string option"
  up_scoredAtPath :: "string option"
  up_min :: "rat option"
  up_max :: "rat option"
  up_validity :: "int option"
  up_default :: "bool option"
  up_submitted :: "bool option"

record master_dto =
  cm_code :: string
  cm_name :: string
  cm_category :: string
  cm_product :: string
  cm_currency :: "string option"
  cm_minScore :: "rat option"
  cm_maxScore :: "rat option"
  cm_baseLimit :: rat
  cm_minLimit :: rat
  cm_maxLimit :: rat
  cm_defaultOutcome :: default_outcome
  cm_autoApproval :: bool
  cm_options :: "string list"
  cm_provider :: "nat option"
  cm_from :: "string option"
  cm_to :: "string option"

record update_master_dto =
  um_name :: "string option"
  um_category :: "string option"
  um_product :: "string option"
  um_currency :: "string option"
  um_minScore :: "rat option"
  um_maxScore :: "rat option"
  um_baseLimit :: "rat option"
  um_minLimit :: "rat option"
  um_maxLimit :: "rat option"
  um_defaultOutcome :: "default_outcome option"
  um_autoApproval :: "bool option"
  um_options :: "string list option"
  um_provider :: "nat option"
  um_from :: "string option"
  um_to :: "string option"

record rule_dto =
  rd_name :: string
  rd_description :: "string option"
  rd_priority :: int
  rd_group :: "string option"
  rd_source :: source_type
  rd_field :: "string option"
  rd_schema :: "string option"
  rd_table :: "string option"
  rd_lookup :: "string option"
  rd_value :: "string option"
  rd_mode :: "string option"
  rd_order :: "string option"
  rd_integration :: "nat option"
  rd_path :: "string option"
  rd_dataType :: string
  rd_condition :: jsval
  rd_onMatch :: jsval
  rd_onNoMatch :: jsval
  rd_onFailure :: jsval
  rd_stopOnMatch :: bool
  rd_stopOnNoMatch :: bool

record update_rule_dto =
  ur_name :: "string option"
  ur_description :: "string option"
  ur_priority :: "int option"
  ur_group :: "string option"
  ur_source :: "source_type option"
  ur_field :: "string option"
  ur_schema :: "string option"
  ur_table :: "string option"
  ur_lookup :: "string option"
  ur_value :: "string option"
  ur_mode :: "string option"
  ur_order :: "string option"
  ur_integration :: "nat option"
  ur_path :: "string option"
  ur_dataType :: "string option"
  ur_condition :: "jsval option"
  ur_onMatch :: "jsval option"
  ur_onNoMatch :: "jsval option"
  ur_onFailure :: "jsval option"
  ur_stopOnMatch :: "bool option"
  ur_stopOnNoMatch :: "bool option"
  ur_active :: "bool option"

text \<open>\<open>dto.x ?? current.x\<close>, for a required and for a nullable column.\<close>

definition given :: "'a option \<Rightarrow> 'a \<Rightarrow> 'a" where
  "given v d = (case v of None \<Rightarrow> d | Some x \<Rightarrow> x)"

definition given_opt :: "'a option \<Rightarrow> 'a option \<Rightarrow> 'a option" where
  "given_opt v d = (case v of None \<Rightarrow> d | Some x \<Rightarrow> Some x)"

section \<open>The tables\<close>

text \<open>A column \<open>numeric(p, n)\<close>, the double its text reads as, and a column of type timestamptz.\<close>

definition stored :: "nat \<Rightarrow> rat \<Rightarrow> rat" where
  "stored n q = of_int (round_half (q * 10 ^ n)) / 10 ^ n"

definition number_rat :: "rat \<Rightarrow> rat" where
  "number_rat q = (case num_of q of NumFin r \<Rightarrow> r | _ \<Rightarrow> q)"

definition timestamp :: "admin_env \<Rightarrow> string option \<Rightarrow> int option res" where
  "timestamp E v = (case v of
     None \<Rightarrow> Inr None
   | Some s \<Rightarrow> (case ae_date E s of
        None \<Rightarrow> Inl (Failure ''invalid input syntax for type timestamp with time zone'')
      | Some t \<Rightarrow> Inr (Some t)))"

definition opt_le :: "'a::linorder option \<Rightarrow> 'a option \<Rightarrow> bool" where
  "opt_le a b = (case (a, b) of (Some x, Some y) \<Rightarrow> x \<le> y | _ \<Rightarrow> True)"

definition other_checker :: "string option \<Rightarrow> string \<Rightarrow> bool" where
  "other_checker checker maker \<longleftrightarrow> checker \<noteq> Some maker"

definition fits :: "nat \<Rightarrow> rat \<Rightarrow> bool" where
  "fits n q \<longleftrightarrow> abs q < 10 ^ n"

definition opt_all :: "('a \<Rightarrow> bool) \<Rightarrow> 'a option \<Rightarrow> bool" where
  "opt_all P v = (case v of None \<Rightarrow> True | Some x \<Rightarrow> P x)"

definition integration_row_ok :: "http_integration \<Rightarrow> bool" where
  "integration_row_ok h \<longleftrightarrow> hi_method h \<in> {''GET'', ''POST'', ''PUT'', ''PATCH''} \<and>
     hi_authType h \<in> {''NONE'', ''API_KEY'', ''BEARER''} \<and> 100 \<le> hi_timeout h \<and> hi_timeout h \<le> 120000 \<and>
     0 \<le> hi_cacheTtl h \<and> hi_cacheTtl h \<le> 86400 \<and> other_checker (hi_approvedBy h) (hi_createdBy h)"

definition provider_row_ok :: "score_provider \<Rightarrow> bool" where
  "provider_row_ok p \<longleftrightarrow> opt_all (fits 14) (sp_min p) \<and> opt_all (fits 14) (sp_max p) \<and> opt_le (sp_min p) (sp_max p) \<and>
     1 \<le> sp_validity p \<and> sp_validity p \<le> 525600 \<and> other_checker (sp_approvedBy p) (sp_createdBy p)"

definition master_row_ok :: "master_rule \<Rightarrow> bool" where
  "master_row_ok m \<longleftrightarrow> opt_all (fits 14) (mr_minScore m) \<and> opt_all (fits 14) (mr_maxScore m) \<and>
     opt_le (mr_minScore m) (mr_maxScore m) \<and>
     0 \<le> mr_baseLimit m \<and> 0 \<le> mr_minLimit m \<and> 0 < mr_maxLimit m \<and> mr_minLimit m \<le> mr_maxLimit m \<and>
     fits 22 (mr_baseLimit m) \<and> fits 22 (mr_minLimit m) \<and> fits 22 (mr_maxLimit m) \<and>
     opt_le (mr_from m) (mr_to m) \<and> other_checker (mr_approvedBy m) (mr_createdBy m) \<and>
     opt_all (\<lambda>c. length c = 3 \<and> list_all is_upper c) (mr_currency m)"

definition read_modes :: "string list" where
  "read_modes = [''SINGLE'', ''LATEST'', ''SUM'', ''AVERAGE'', ''COUNT'', ''MINIMUM'', ''MAXIMUM'', ''EXISTS'']"

definition data_types :: "string list" where
  "data_types = [''STRING'', ''DECIMAL'', ''INTEGER'', ''BOOLEAN'', ''DATE'', ''DATETIME'']"

definition rule_row_ok :: "credit_rule \<Rightarrow> bool" where
  "rule_row_ok r \<longleftrightarrow> 1 \<le> cr_priority r \<and> cr_priority r \<le> 100000 \<and> opt_all (\<lambda>m. m \<in> set read_modes) (cr_mode r) \<and>
     cr_dataType r \<in> set data_types \<and>
     (case cr_source r of
        AiResultSource \<Rightarrow> cr_field r \<noteq> None
      | DecisionInputSource \<Rightarrow> True
      | PostgresSource \<Rightarrow> cr_schema r \<noteq> None \<and> cr_table r \<noteq> None \<and> cr_lookup r \<noteq> None \<and> cr_value r \<noteq> None \<and> cr_mode r \<noteq> None
      | HttpSource \<Rightarrow> cr_integration r \<noteq> None \<and> cr_path r \<noteq> None)"

definition change_row_ok :: "change_request \<Rightarrow> bool" where
  "change_row_ok c \<longleftrightarrow> other_checker (ch_checker c) (ch_maker c)"

definition references_ok :: "credit_db \<Rightarrow> bool" where
  "references_ok db \<longleftrightarrow>
     list_all (\<lambda>p. sp_integration p \<in> set (map hi_id (db_integrations db))) (db_providers db) \<and>
     list_all (\<lambda>m. opt_all (\<lambda>i. i \<in> set (map sp_id (db_providers db))) (mr_provider m)) (db_masters db) \<and>
     list_all (\<lambda>r. cr_master r \<in> set (map mr_id (db_masters db)) \<and>
       opt_all (\<lambda>i. i \<in> set (map hi_id (db_integrations db))) (cr_integration r)) (db_rules db) \<and>
     list_all (\<lambda>t. es_rule t \<in> set (map cr_id (db_rules db))) (db_steps db)"

definition credit_constraints :: "credit_db \<Rightarrow> bool" where
  "credit_constraints db \<longleftrightarrow>
     list_all integration_row_ok (db_integrations db) \<and> distinct (map hi_code (db_integrations db)) \<and>
     list_all provider_row_ok (db_providers db) \<and> distinct (map sp_code (db_providers db)) \<and>
     length (filter (\<lambda>p. sp_default p \<and> sp_active p) (db_providers db)) \<le> 1 \<and>
     list_all master_row_ok (db_masters db) \<and> distinct (map (\<lambda>m. (mr_code m, mr_version m)) (db_masters db)) \<and>
     distinct (map mr_code (filter (\<lambda>m. mr_status m = MActive) (db_masters db))) \<and>
     list_all rule_row_ok (db_rules db) \<and> distinct (map (\<lambda>r. (cr_master r, cr_priority r)) (db_rules db)) \<and>
     list_all change_row_ok (db_changes db) \<and>
     distinct (map ch_master (filter (\<lambda>c. ch_status c = ChangePending) (db_changes db))) \<and>
     references_ok db"

text \<open>A statement that breaks a constraint throws and changes nothing.\<close>

definition credit_save :: "(credit_db \<Rightarrow> credit_db) \<Rightarrow> (credit_db, unit) act" where
  "credit_save f = act_then (act_refuse (\<lambda>db. \<not> credit_constraints (f db)) (Failure ''violates a constraint''))
     (\<lambda>_. act_write f)"

definition update_masters :: "(master_rule \<Rightarrow> bool) \<Rightarrow> (master_rule \<Rightarrow> master_rule) \<Rightarrow> credit_db \<Rightarrow> credit_db" where
  "update_masters P f db = db\<lparr>db_masters := map (\<lambda>m. if P m then f m else m) (db_masters db)\<rparr>"

abbreviation update_master_row :: "nat \<Rightarrow> (master_rule \<Rightarrow> master_rule) \<Rightarrow> credit_db \<Rightarrow> credit_db" where
  "update_master_row i \<equiv> update_masters (\<lambda>m. mr_id m = i)"

section \<open>Reading rows\<close>

definition masterRow :: "nat \<Rightarrow> (credit_db, master_rule) act" where
  "masterRow i = act_found (\<lambda>db. find (\<lambda>m. mr_id m = i) (db_masters db)) (NotFound ''Master rule was not found'')"

definition editableMaster :: "nat \<Rightarrow> (credit_db, master_rule) act" where
  "editableMaster i =
     act_then (masterRow i) (\<lambda>m.
     act_then (act_refuse (\<lambda>_. mr_status m \<notin> {MDraft, MRejected})
       (Conflict ''Only draft or rejected master-rule versions can be edited'')) (\<lambda>_. act_ok m))"

definition integration :: "nat \<Rightarrow> (credit_db, http_integration) act" where
  "integration i = act_found (\<lambda>db. find (\<lambda>h. hi_id h = i) (db_integrations db)) (NotFound ''HTTP integration was not found'')"

definition scoreProvider :: "nat \<Rightarrow> (credit_db, score_provider) act" where
  "scoreProvider i = act_found (\<lambda>db. find (\<lambda>p. sp_id p = i) (db_providers db)) (NotFound ''Score provider was not found'')"

definition listRules :: "nat \<Rightarrow> credit_db \<Rightarrow> credit_rule list" where
  "listRules i db = sort_key cr_priority (filter (\<lambda>r. cr_master r = i) (db_rules db))"

definition getMaster :: "nat \<Rightarrow> (credit_db, master_rule \<times> credit_rule list) act" where
  "getMaster i =
     act_then (masterRow i) (\<lambda>m.
     act_then (act_read (listRules i)) (\<lambda>rs. act_ok (m, rs)))"


section \<open>Checks\<close>

text \<open>\<open>template.replace(/\{\{[A-Za-z0-9_]+\}\}/g, 'sample')\<close>\<close>

definition name_char :: "char \<Rightarrow> bool" where
  "name_char c \<longleftrightarrow> is_upper c \<or> is_lower c \<or> is_digit c \<or> c = CHR ''_''"

definition after_variable :: "string \<Rightarrow> string option" where
  "after_variable s =
     (if take 2 s \<noteq> ''{{'' then None
      else (let w = takeWhile name_char (drop 2 s); r = dropWhile name_char (drop 2 s)
            in if w \<noteq> [] \<and> take 2 r = ''}}'' then Some (drop 2 r) else None))"

lemma after_variable_shorter: "after_variable s = Some r \<Longrightarrow> length r < length s"
proof -
  assume a: "after_variable s = Some r"
  then have r: "r = drop 2 (dropWhile name_char (drop 2 s))" and "take 2 s = ''{{''"
    by (auto simp: after_variable_def Let_def split: if_splits)
  from this(2) have "s \<noteq> []" by auto
  moreover have "length r \<le> length s - 2" using length_dropWhile_le[of name_char "drop 2 s"] by (simp add: r)
  ultimately show ?thesis by (cases s) auto
qed

function replace_variables :: "string \<Rightarrow> string" where
  "replace_variables s = (case after_variable s of
     Some r \<Rightarrow> ''sample'' @ replace_variables r
   | None \<Rightarrow> (case s of [] \<Rightarrow> [] | c # cs \<Rightarrow> c # replace_variables cs))"
  by pat_completeness auto
termination by (relation "measure length") (auto dest: after_variable_shorter)

definition validateUrlTemplate :: "admin_env \<Rightarrow> string \<Rightarrow> unit res" where
  "validateUrlTemplate E template = (case ae_url E (replace_variables template) of
     None \<Rightarrow> Inl (BadRequest ''HTTP integration URL is invalid'')
   | Some (protocol, host) \<Rightarrow>
       if protocol \<noteq> ''https:'' \<and> \<not> ae_insecure E
       then Inl (BadRequest ''Credit-rule HTTP integrations require HTTPS'')
       else if ae_hosts E \<noteq> [] \<and> lower host \<notin> set (ae_hosts E)
       then Inl (BadRequest (''HTTP integration host '' @ host @ '' is not allowlisted''))
       else Inr ())"

definition absent :: "string option \<Rightarrow> bool" where
  "absent v \<longleftrightarrow> default_text v = []"

definition validatePostgresSource :: "admin_env \<Rightarrow> rule_dto \<Rightarrow> unit res" where
  "validatePostgresSource E d =
     (let schema = default_text (rd_schema d) in
      if schema \<notin> set (ae_schemas E) then Inl (BadRequest (''Schema '' @ schema @ '' is not approved''))
      else if absent (rd_table d) \<or> absent (rd_lookup d) \<or> absent (rd_value d)
      then Inl (BadRequest ''PostgreSQL rules require tableName, lookupColumn, and valueColumn'')
      else if rd_mode d = Some ''LATEST'' \<and> absent (rd_order d)
      then Inl (BadRequest ''LATEST rules require orderByColumn'')
      else (let required = [default_text (rd_lookup d), default_text (rd_value d)] @
                (if absent (rd_order d) then [] else [default_text (rd_order d)]);
                missing = filter (\<lambda>c. c \<notin> set (ae_columns E schema (default_text (rd_table d)))) required
            in if missing \<noteq> [] then Inl (BadRequest (''Unknown database columns: '' @ join '', '' missing)) else Inr ()))"

definition source_dependent :: "string list" where
  "source_dependent = [''SET_LIMIT_FROM_VALUE'', ''SET_LIMIT_FROM_VALUE_MULTIPLIER'', ''CAP_LIMIT_FROM_VALUE_MULTIPLIER'']"

definition validateRule :: "admin_env \<Rightarrow> rule_dto \<Rightarrow> (credit_db, unit) act" where
  "validateRule E d =
     act_then (act_of (validate 0 (rd_condition d))) (\<lambda>_.
     act_then (act_of (validateAction (rd_onMatch d))) (\<lambda>_.
     act_then (act_of (validateAction (rd_onNoMatch d))) (\<lambda>_.
     act_then (act_of (validateAction (rd_onFailure d))) (\<lambda>_.
     act_then (act_refuse (\<lambda>_. js_string (prop_of (rd_onFailure d) ''type'') \<in> set source_dependent)
       (BadRequest ''sourceFailureAction cannot depend on an unavailable source value'')) (\<lambda>_.
     act_then (act_refuse (\<lambda>_. rd_source d = AiResultSource \<and> absent (rd_field d))
       (BadRequest ''AI_RESULT rules require aiResultField'')) (\<lambda>_.
     act_then (act_refuse (\<lambda>_. rd_source d = DecisionInputSource \<and> rd_field d \<noteq> None \<and> trim (default_text (rd_field d)) = [])
       (BadRequest ''DECISION_INPUT field path must be omitted or non-empty'')) (\<lambda>_.
     act_then (if rd_source d = PostgresSource then act_of (validatePostgresSource E d) else act_ok ()) (\<lambda>_.
       if rd_source d = HttpSource
       then act_then (act_refuse (\<lambda>_. rd_integration d = None \<or> absent (rd_path d))
              (BadRequest ''HTTP_API rules require httpIntegrationId and responsePath'')) (\<lambda>_.
            act_then (integration (the (rd_integration d))) (\<lambda>_. act_ok ()))
       else act_ok ()))))))))"

definition rule_input :: "credit_rule \<Rightarrow> rule_dto" where
  "rule_input r = \<lparr>rd_name = cr_name r, rd_description = cr_description r, rd_priority = cr_priority r,
     rd_group = cr_group r, rd_source = cr_source r, rd_field = cr_field r, rd_schema = cr_schema r, rd_table = cr_table r,
     rd_lookup = cr_lookup r, rd_value = cr_value r, rd_mode = cr_mode r, rd_order = cr_order r,
     rd_integration = cr_integration r, rd_path = cr_path r, rd_dataType = cr_dataType r, rd_condition = cr_condition r,
     rd_onMatch = cr_onMatch r, rd_onNoMatch = cr_onNoMatch r, rd_onFailure = cr_onFailure r,
     rd_stopOnMatch = cr_stopOnMatch r, rd_stopOnNoMatch = cr_stopOnNoMatch r\<rparr>"

text \<open>\<open>for (const rule of rules) ...\<close>\<close>

fun act_each :: "('a \<Rightarrow> ('s, unit) act) \<Rightarrow> 'a list \<Rightarrow> ('s, unit) act" where
  "act_each f [] = act_ok ()"
| "act_each f (x # xs) = act_then (f x) (\<lambda>_. act_each f xs)"

definition integration_active :: "credit_db \<Rightarrow> nat option \<Rightarrow> bool" where
  "integration_active db i = list_ex (\<lambda>h. i = Some (hi_id h) \<and> hi_active h) (db_integrations db)"

definition validateForPublication :: "admin_env \<Rightarrow> nat \<Rightarrow> (credit_db, unit) act" where
  "validateForPublication E i =
     act_then (masterRow i) (\<lambda>m.
     act_then (case mr_provider m of None \<Rightarrow> act_ok () | Some p \<Rightarrow>
         act_then (scoreProvider p) (\<lambda>provider.
           act_refuse (\<lambda>_. \<not> sp_active provider) (Conflict ''The selected AI score provider is not active''))) (\<lambda>_.
     act_then (act_read (\<lambda>db. filter cr_active (listRules i db))) (\<lambda>rules.
       act_each (\<lambda>r. act_then (validateRule E (rule_input r)) (\<lambda>_.
         act_refuse (\<lambda>db. cr_source r = HttpSource \<and> \<not> integration_active db (cr_integration r))
           (Conflict (''HTTP integration for rule '' @ cr_name r @ '' is not active'')))) rules)))"

definition validateMaster :: "rat option \<Rightarrow> rat option \<Rightarrow> rat \<Rightarrow> rat \<Rightarrow> rat \<Rightarrow> unit res" where
  "validateMaster lo hi base least most =
     (if \<not> opt_le lo hi then Inl (BadRequest ''maximumScore must be greater than or equal to minimumScore'')
      else if most < least \<or> base < 0 \<or> most \<le> 0 then Inl (BadRequest ''Master-rule limits are invalid'')
      else Inr ())"

section \<open>Integrations\<close>

definition createIntegration :: "admin_env \<Rightarrow> integration_dto \<Rightarrow> string \<Rightarrow> (credit_db, nat) act" where
  "createIntegration E d actor =
     act_then (act_of (validateUrlTemplate E (ci_url d))) (\<lambda>_.
     act_then (act_read db_next) (\<lambda>i.
     act_then (credit_save (\<lambda>db. db\<lparr>db_integrations := db_integrations db @
         [\<lparr>hi_id = i, hi_code = upper (ci_code d), hi_name = ci_name d, hi_method = ci_method d, hi_url = ci_url d,
           hi_template = (case ci_template d of None \<Rightarrow> JNull | Some t \<Rightarrow> t), hi_authType = ci_authType d,
           hi_authHeader = ci_authHeader d, hi_secretEnv = ci_secretEnv d, hi_timeout = ci_timeout d,
           hi_cacheTtl = ci_cacheTtl d, hi_active = False, hi_createdBy = actor, hi_updatedBy = None,
           hi_approvedBy = None\<rparr>], db_next := Suc i\<rparr>)) (\<lambda>_.
       act_ok i)))"

abbreviation update_integrations :: "nat \<Rightarrow> (http_integration \<Rightarrow> http_integration) \<Rightarrow> credit_db \<Rightarrow> credit_db" where
  "update_integrations i f db \<equiv> db\<lparr>db_integrations := map (\<lambda>h. if hi_id h = i then f h else h) (db_integrations db)\<rparr>"

definition updateIntegration :: "admin_env \<Rightarrow> nat \<Rightarrow> update_integration_dto \<Rightarrow> string \<Rightarrow> (credit_db, nat) act" where
  "updateIntegration E i d actor =
     act_then (integration i) (\<lambda>c.
     act_then (act_of (if absent (ui_url d) then Inr () else validateUrlTemplate E (default_text (ui_url d)))) (\<lambda>_.
     act_then (credit_save (update_integrations i (\<lambda>h. h\<lparr>hi_name := given (ui_name d) (hi_name c),
         hi_method := given (ui_method d) (hi_method c), hi_url := given (ui_url d) (hi_url c),
         hi_template := given (ui_template d) (hi_template c), hi_authType := given (ui_authType d) (hi_authType c),
         hi_authHeader := given_opt (ui_authHeader d) (hi_authHeader c),
         hi_secretEnv := given_opt (ui_secretEnv d) (hi_secretEnv c), hi_timeout := given (ui_timeout d) (hi_timeout c),
         hi_cacheTtl := given (ui_cacheTtl d) (hi_cacheTtl c), hi_active := False, hi_approvedBy := None,
         hi_updatedBy := Some actor\<rparr>))) (\<lambda>_. act_ok i)))"

definition approveIntegration :: "nat \<Rightarrow> string \<Rightarrow> (credit_db, nat) act" where
  "approveIntegration i actor =
     act_then (integration i) (\<lambda>c.
     act_then (act_refuse (\<lambda>_. hi_createdBy c = actor) (Conflict ''The integration checker must differ from the maker'')) (\<lambda>_.
     act_then (credit_save (update_integrations i (\<lambda>h. h\<lparr>hi_active := True, hi_approvedBy := Some actor,
         hi_updatedBy := Some actor\<rparr>))) (\<lambda>_. act_ok i)))"

section \<open>Score providers\<close>

definition createScoreProvider :: "provider_dto \<Rightarrow> string \<Rightarrow> (credit_db, nat) act" where
  "createScoreProvider d actor =
     act_then (act_refuse (\<lambda>_. \<not> opt_le (cp_min d) (cp_max d))
       (BadRequest ''scoreMax must be greater than or equal to scoreMin'')) (\<lambda>_.
     act_then (integration (cp_integration d)) (\<lambda>_.
     act_then (act_read db_next) (\<lambda>i.
     act_then (credit_save (\<lambda>db. db\<lparr>db_providers := db_providers db @
         [\<lparr>sp_id = i, sp_code = upper (cp_code d), sp_name = cp_name d, sp_integration = cp_integration d,
           sp_scorePath = cp_scorePath d, sp_categoryPath = cp_categoryPath d, sp_modelPath = cp_modelPath d,
           sp_versionPath = cp_versionPath d, sp_referencePath = cp_referencePath d, sp_scoredAtPath = cp_scoredAtPath d,
           sp_min = map_option (stored 4) (cp_min d), sp_max = map_option (stored 4) (cp_max d),
           sp_validity = cp_validity d, sp_default = cp_default d, sp_submitted = cp_submitted d, sp_active = False,
           sp_createdBy = actor, sp_updatedBy = None, sp_approvedBy = None\<rparr>], db_next := Suc i\<rparr>)) (\<lambda>_.
       act_ok i))))"

abbreviation update_providers :: "(score_provider \<Rightarrow> bool) \<Rightarrow> (score_provider \<Rightarrow> score_provider) \<Rightarrow> credit_db \<Rightarrow> credit_db" where
  "update_providers P f db \<equiv> db\<lparr>db_providers := map (\<lambda>p. if P p then f p else p) (db_providers db)\<rparr>"

definition updateScoreProvider :: "nat \<Rightarrow> update_provider_dto \<Rightarrow> string \<Rightarrow> (credit_db, nat) act" where
  "updateScoreProvider i d actor =
     act_then (scoreProvider i) (\<lambda>c.
       let lo = given_opt (up_min d) (map_option number_rat (sp_min c));
           hi = given_opt (up_max d) (map_option number_rat (sp_max c));
           target = given (up_integration d) (sp_integration c)
       in act_then (act_refuse (\<lambda>_. \<not> opt_le lo hi) (BadRequest ''scoreMax must be greater than or equal to scoreMin'')) (\<lambda>_.
          act_then (integration target) (\<lambda>_.
          act_then (credit_save (update_providers (\<lambda>p. sp_id p = i) (\<lambda>p. p\<lparr>sp_name := given (up_name d) (sp_name c),
            sp_integration := target, sp_scorePath := given (up_scorePath d) (sp_scorePath c),
            sp_categoryPath := given (up_categoryPath d) (sp_categoryPath c),
            sp_modelPath := given_opt (up_modelPath d) (sp_modelPath c),
            sp_versionPath := given_opt (up_versionPath d) (sp_versionPath c),
            sp_referencePath := given_opt (up_referencePath d) (sp_referencePath c),
            sp_scoredAtPath := given_opt (up_scoredAtPath d) (sp_scoredAtPath c),
            sp_min := map_option (stored 4) lo, sp_max := map_option (stored 4) hi,
            sp_validity := given (up_validity d) (sp_validity c), sp_default := given (up_default d) (sp_default c),
            sp_submitted := given (up_submitted d) (sp_submitted c), sp_active := False, sp_approvedBy := None,
            sp_updatedBy := Some actor\<rparr>))) (\<lambda>_. act_ok i))))"

text \<open>The provider with its integration (an inner join), and the hand-over of the default.\<close>

definition joined_provider :: "nat \<Rightarrow> credit_db \<Rightarrow> (score_provider \<times> http_integration) option" where
  "joined_provider i db = (case find (\<lambda>p. sp_id p = i) (db_providers db) of
     None \<Rightarrow> None
   | Some p \<Rightarrow> map_option (\<lambda>h. (p, h)) (find (\<lambda>h. hi_id h = sp_integration p) (db_integrations db)))"

definition approveScoreProvider :: "nat \<Rightarrow> string \<Rightarrow> (credit_db, nat) act" where
  "approveScoreProvider i actor =
     act_then (act_found (joined_provider i) (NotFound ''Score provider was not found'')) (\<lambda>(p, h).
     act_then (act_refuse (\<lambda>_. sp_createdBy p = actor) (Conflict ''The score-provider checker must differ from the maker'')) (\<lambda>_.
     act_then (act_refuse (\<lambda>_. \<not> sp_submitted p \<and> \<not> hi_active h)
       (Conflict ''The score provider HTTP integration must be active'')) (\<lambda>_.
     transaction (
       act_then (if sp_default p
           then credit_save (update_providers (\<lambda>q. sp_default q \<and> sp_id q \<noteq> i) (\<lambda>q. q\<lparr>sp_default := False\<rparr>))
           else act_ok ()) (\<lambda>_.
       act_then (credit_save (update_providers (\<lambda>q. sp_id q = i) (\<lambda>q. q\<lparr>sp_active := True, sp_approvedBy := Some actor\<rparr>))) (\<lambda>_.
         act_ok i))))))"


section \<open>Master rules\<close>

definition next_master_version :: "string \<Rightarrow> credit_db \<Rightarrow> nat" where
  "next_master_version code db = Suc (foldr max (map mr_version (filter (\<lambda>m. mr_code m = code) (db_masters db))) 0)"

abbreviation add_master :: "master_rule \<Rightarrow> credit_db \<Rightarrow> credit_db" where
  "add_master m db \<equiv> db\<lparr>db_masters := db_masters db @ [m], db_next := Suc (db_next db)\<rparr>"

definition createMaster :: "admin_env \<Rightarrow> master_dto \<Rightarrow> string \<Rightarrow> (credit_db, master_rule \<times> credit_rule list) act" where
  "createMaster E d actor =
     act_then (act_of (validateMaster (cm_minScore d) (cm_maxScore d) (cm_baseLimit d) (cm_minLimit d) (cm_maxLimit d))) (\<lambda>_.
     act_then (case cm_provider d of None \<Rightarrow> act_ok () | Some p \<Rightarrow> act_then (scoreProvider p) (\<lambda>_. act_ok ())) (\<lambda>_.
     act_then (act_of (timestamp E (cm_from d))) (\<lambda>valid_from.
     act_then (act_of (timestamp E (cm_to d))) (\<lambda>valid_to.
     act_then (act_read (\<lambda>db. (db_next db, next_master_version (upper (cm_code d)) db))) (\<lambda>(i, v).
     act_then (credit_save (add_master
         \<lparr>mr_id = i, mr_code = upper (cm_code d), mr_version = v, mr_name = cm_name d, mr_category = upper (cm_category d),
          mr_product = cm_product d, mr_currency = map_option upper (cm_currency d),
          mr_minScore = map_option (stored 4) (cm_minScore d), mr_maxScore = map_option (stored 4) (cm_maxScore d),
          mr_baseLimit = stored 2 (cm_baseLimit d), mr_minLimit = stored 2 (cm_minLimit d),
          mr_maxLimit = stored 2 (cm_maxLimit d), mr_defaultOutcome = cm_defaultOutcome d,
          mr_autoApproval = cm_autoApproval d, mr_options = cm_options d, mr_provider = cm_provider d, mr_status = MDraft,
          mr_from = valid_from, mr_to = valid_to, mr_createdBy = actor, mr_updatedBy = None, mr_approvedBy = None,
          mr_activatedBy = None, mr_rejection = None\<rparr>)) (\<lambda>_.
       getMaster i))))))"

definition updateMaster :: "admin_env \<Rightarrow> nat \<Rightarrow> update_master_dto \<Rightarrow> string \<Rightarrow> (credit_db, master_rule \<times> credit_rule list) act" where
  "updateMaster E i d actor =
     act_then (editableMaster i) (\<lambda>c.
       let lo = given_opt (um_minScore d) (map_option number_rat (mr_minScore c));
           hi = given_opt (um_maxScore d) (map_option number_rat (mr_maxScore c));
           base = given (um_baseLimit d) (number_rat (mr_baseLimit c));
           least = given (um_minLimit d) (number_rat (mr_minLimit c));
           most = given (um_maxLimit d) (number_rat (mr_maxLimit c));
           provider = given_opt (um_provider d) (mr_provider c)
       in act_then (act_of (validateMaster lo hi base least most)) (\<lambda>_.
          act_then (case provider of None \<Rightarrow> act_ok () | Some p \<Rightarrow> act_then (scoreProvider p) (\<lambda>_. act_ok ())) (\<lambda>_.
          act_then (act_of (timestamp E (um_from d))) (\<lambda>valid_from.
          act_then (act_of (timestamp E (um_to d))) (\<lambda>valid_to.
          act_then (credit_save (update_master_row i (\<lambda>m. m\<lparr>mr_name := given (um_name d) (mr_name c),
              mr_category := upper (given (um_category d) (mr_category c)), mr_product := given (um_product d) (mr_product c),
              mr_currency := map_option upper (given_opt (um_currency d) (mr_currency c)),
              mr_minScore := map_option (stored 4) lo, mr_maxScore := map_option (stored 4) hi,
              mr_baseLimit := stored 2 base, mr_minLimit := stored 2 least, mr_maxLimit := stored 2 most,
              mr_defaultOutcome := given (um_defaultOutcome d) (mr_defaultOutcome c),
              mr_autoApproval := given (um_autoApproval d) (mr_autoApproval c),
              mr_options := given (um_options d) (mr_options c), mr_provider := provider,
              mr_from := given_opt valid_from (mr_from c), mr_to := given_opt valid_to (mr_to c),
              mr_updatedBy := Some actor, mr_status := MDraft, mr_rejection := None\<rparr>))) (\<lambda>_.
            getMaster i))))))"

text \<open>A copy of the columns that a clone takes over, and the copies of the child rules with fresh ids.\<close>

definition clone_row :: "nat \<Rightarrow> nat \<Rightarrow> string \<Rightarrow> master_rule \<Rightarrow> master_rule" where
  "clone_row i v actor m = m\<lparr>mr_id := i, mr_version := v, mr_status := MDraft, mr_createdBy := actor, mr_updatedBy := None,
     mr_approvedBy := None, mr_activatedBy := None, mr_rejection := None\<rparr>"

fun clone_rules :: "nat \<Rightarrow> nat \<Rightarrow> credit_rule list \<Rightarrow> credit_rule list" where
  "clone_rules master i [] = []"
| "clone_rules master i (r # rs) = r\<lparr>cr_id := i, cr_master := master\<rparr> # clone_rules master (Suc i) rs"

definition cloneMaster :: "nat \<Rightarrow> string \<Rightarrow> (credit_db, master_rule \<times> credit_rule list) act" where
  "cloneMaster i actor =
     act_then (masterRow i) (\<lambda>m.
     act_then (transaction (
       act_then (act_read (\<lambda>db. (db_next db, next_master_version (mr_code m) db))) (\<lambda>(j, v).
       act_then (credit_save (add_master (clone_row j v actor m))) (\<lambda>_.
       act_then (credit_save (\<lambda>db. let rs = filter (\<lambda>r. cr_master r = i) (db_rules db) in
           db\<lparr>db_rules := db_rules db @ clone_rules j (db_next db) rs, db_next := db_next db + length rs\<rparr>)) (\<lambda>_.
         act_ok j))))) getMaster)"

section \<open>Child rules\<close>

definition rule_row :: "nat \<Rightarrow> nat \<Rightarrow> bool \<Rightarrow> rule_dto \<Rightarrow> credit_rule" where
  "rule_row i master active d = \<lparr>cr_id = i, cr_master = master, cr_name = rd_name d, cr_description = rd_description d,
     cr_priority = rd_priority d, cr_group = rd_group d, cr_source = rd_source d, cr_field = rd_field d,
     cr_schema = rd_schema d, cr_table = rd_table d, cr_lookup = rd_lookup d, cr_value = rd_value d, cr_mode = rd_mode d,
     cr_order = rd_order d, cr_integration = rd_integration d, cr_path = rd_path d, cr_dataType = rd_dataType d,
     cr_condition = rd_condition d, cr_onMatch = rd_onMatch d, cr_onNoMatch = rd_onNoMatch d, cr_onFailure = rd_onFailure d,
     cr_stopOnMatch = rd_stopOnMatch d, cr_stopOnNoMatch = rd_stopOnNoMatch d, cr_active = active\<rparr>"

definition addRule :: "admin_env \<Rightarrow> nat \<Rightarrow> rule_dto \<Rightarrow> (credit_db, credit_rule option) act" where
  "addRule E i d =
     act_then (editableMaster i) (\<lambda>_.
     act_then (validateRule E d) (\<lambda>_.
     act_then (act_read db_next) (\<lambda>j.
     act_then (credit_save (\<lambda>db. db\<lparr>db_rules := db_rules db @ [rule_row j i True d], db_next := Suc j\<rparr>)) (\<lambda>_.
       act_read (\<lambda>db. find (\<lambda>r. cr_id r = j) (listRules i db))))))"

definition merge_rule :: "update_rule_dto \<Rightarrow> credit_rule \<Rightarrow> rule_dto" where
  "merge_rule d c = \<lparr>rd_name = given (ur_name d) (cr_name c), rd_description = given_opt (ur_description d) (cr_description c),
     rd_priority = given (ur_priority d) (cr_priority c), rd_group = given_opt (ur_group d) (cr_group c),
     rd_source = given (ur_source d) (cr_source c), rd_field = given_opt (ur_field d) (cr_field c),
     rd_schema = given_opt (ur_schema d) (cr_schema c), rd_table = given_opt (ur_table d) (cr_table c),
     rd_lookup = given_opt (ur_lookup d) (cr_lookup c), rd_value = given_opt (ur_value d) (cr_value c),
     rd_mode = given_opt (ur_mode d) (cr_mode c), rd_order = given_opt (ur_order d) (cr_order c),
     rd_integration = given_opt (ur_integration d) (cr_integration c), rd_path = given_opt (ur_path d) (cr_path c),
     rd_dataType = given (ur_dataType d) (cr_dataType c), rd_condition = given (ur_condition d) (cr_condition c),
     rd_onMatch = given (ur_onMatch d) (cr_onMatch c), rd_onNoMatch = given (ur_onNoMatch d) (cr_onNoMatch c),
     rd_onFailure = given (ur_onFailure d) (cr_onFailure c), rd_stopOnMatch = given (ur_stopOnMatch d) (cr_stopOnMatch c),
     rd_stopOnNoMatch = given (ur_stopOnNoMatch d) (cr_stopOnNoMatch c)\<rparr>"

definition updateRule :: "admin_env \<Rightarrow> nat \<Rightarrow> nat \<Rightarrow> update_rule_dto \<Rightarrow> (credit_db, credit_rule option) act" where
  "updateRule E i j d =
     act_then (editableMaster i) (\<lambda>_.
     act_then (act_found (\<lambda>db. find (\<lambda>r. cr_id r = j \<and> cr_master r = i) (db_rules db)) (NotFound ''Credit rule was not found'')) (\<lambda>c.
       let new = merge_rule d c
       in act_then (validateRule E new) (\<lambda>_.
          act_then (credit_save (\<lambda>db. db\<lparr>db_rules := map (\<lambda>r. if cr_id r = j \<and> cr_master r = i
              then rule_row j i (given (ur_active d) (cr_active c)) new else r) (db_rules db)\<rparr>)) (\<lambda>_.
            act_read (\<lambda>db. find (\<lambda>r. cr_id r = j) (listRules i db))))))"

text \<open>TypeORM answers a DELETE with the pair of rows and count, so the test for a missing rule never fails.\<close>

definition deleteRule :: "nat \<Rightarrow> nat \<Rightarrow> (credit_db, unit) act" where
  "deleteRule i j =
     act_then (editableMaster i) (\<lambda>_.
       credit_save (\<lambda>db. db\<lparr>db_rules := filter (\<lambda>r. \<not> (cr_id r = j \<and> cr_master r = i)) (db_rules db)\<rparr>))"

section \<open>Publication\<close>

definition submit :: "admin_env \<Rightarrow> nat \<Rightarrow> string \<Rightarrow> string option \<Rightarrow> (credit_db, nat) act" where
  "submit E i actor comment =
     act_then (editableMaster i) (\<lambda>_.
     act_then (act_refuse (\<lambda>db. listRules i db = []) (Conflict ''A master rule must contain at least one child rule'')) (\<lambda>_.
     act_then (validateForPublication E i) (\<lambda>_.
     transaction (
       act_then (credit_save (update_master_row i (\<lambda>m. m\<lparr>mr_status := MPending\<rparr>))) (\<lambda>_.
       act_then (act_read db_next) (\<lambda>k.
       act_then (credit_save (\<lambda>db. db\<lparr>db_changes := db_changes db @
           [\<lparr>ch_id = k, ch_master = i, ch_status = ChangePending, ch_maker = actor, ch_makerComment = comment,
             ch_checker = None, ch_checkerComment = None\<rparr>], db_next := Suc k\<rparr>)) (\<lambda>_.
         act_ok k)))))))"

definition decide_changes :: "nat \<Rightarrow> change_status \<Rightarrow> string \<Rightarrow> string option \<Rightarrow> credit_db \<Rightarrow> credit_db" where
  "decide_changes i st actor comment db = db\<lparr>db_changes := map (\<lambda>c. if ch_master c = i \<and> ch_status c = ChangePending
     then c\<lparr>ch_status := st, ch_checker := Some actor, ch_checkerComment := comment\<rparr> else c) (db_changes db)\<rparr>"

definition pendingMaster :: "nat \<Rightarrow> string \<Rightarrow> (credit_db, master_rule) act" where
  "pendingMaster i actor =
     act_then (masterRow i) (\<lambda>m.
     act_then (act_refuse (\<lambda>_. mr_status m \<noteq> MPending) (Conflict ''Master rule is not pending approval'')) (\<lambda>_.
     act_then (act_refuse (\<lambda>_. mr_createdBy m = actor) (Conflict ''The checker must differ from the maker'')) (\<lambda>_.
       act_ok m)))"

definition approve :: "admin_env \<Rightarrow> nat \<Rightarrow> string \<Rightarrow> string option \<Rightarrow> (credit_db, nat \<times> master_status) act" where
  "approve E i actor comment =
     act_then (pendingMaster i actor) (\<lambda>_.
     act_then (validateForPublication E i) (\<lambda>_.
     transaction (
       act_then (credit_save (decide_changes i ChangeApproved actor comment)) (\<lambda>_.
       act_then (credit_save (update_master_row i (\<lambda>m. m\<lparr>mr_status := MApproved, mr_approvedBy := Some actor\<rparr>))) (\<lambda>_.
         act_ok (i, MApproved))))))"

definition reject :: "nat \<Rightarrow> string \<Rightarrow> string \<Rightarrow> (credit_db, nat \<times> master_status) act" where
  "reject i actor reason =
     act_then (pendingMaster i actor) (\<lambda>_.
     act_then (transaction (
       act_then (credit_save (decide_changes i ChangeRejected actor (Some reason))) (\<lambda>_.
         credit_save (update_master_row i (\<lambda>m. m\<lparr>mr_status := MRejected, mr_rejection := Some reason\<rparr>))))) (\<lambda>_.
       act_ok (i, MRejected)))"

text \<open>The score ranges of two rules of one scope meet, an open end read as plus or minus 999,999,999.\<close>

definition no_bound :: rat where
  "no_bound = 999999999"

definition ranges_meet :: "master_rule \<Rightarrow> master_rule \<Rightarrow> bool" where
  "ranges_meet m n \<longleftrightarrow> given (mr_minScore n) (- no_bound) \<le> given (mr_maxScore m) no_bound \<and>
     given (mr_minScore m) (- no_bound) \<le> given (mr_maxScore n) no_bound"

definition same_scope :: "master_rule \<Rightarrow> master_rule \<Rightarrow> bool" where
  "same_scope m n \<longleftrightarrow> mr_product m = mr_product n \<and> mr_category m = mr_category n \<and>
     default_text (mr_currency m) = default_text (mr_currency n)"

definition activate :: "admin_env \<Rightarrow> nat \<Rightarrow> string \<Rightarrow> (credit_db, nat \<times> master_status) act" where
  "activate E i actor =
     act_then (masterRow i) (\<lambda>c.
     act_then (act_refuse (\<lambda>_. mr_status c \<noteq> MApproved) (Conflict ''Only an approved master rule can be activated'')) (\<lambda>_.
     act_then (validateForPublication E i) (\<lambda>_.
     transaction (
       act_then (credit_save (update_masters (\<lambda>m. mr_status m = MActive \<and> mr_id m \<noteq> i \<and> same_scope m c \<and> ranges_meet m c)
           (\<lambda>m. m\<lparr>mr_status := MSuperseded\<rparr>))) (\<lambda>_.
       act_then (credit_save (update_master_row i (\<lambda>m. m\<lparr>mr_status := MActive, mr_activatedBy := Some actor,
           mr_from := Some (given (mr_from m) (ae_now E))\<rparr>))) (\<lambda>_.
         act_ok (i, MActive)))))))"

definition retire :: "admin_env \<Rightarrow> nat \<Rightarrow> string \<Rightarrow> (credit_db, nat \<times> master_status) act" where
  "retire E i actor =
     act_then (masterRow i) (\<lambda>c.
     act_then (act_refuse (\<lambda>_. mr_status c \<noteq> MActive) (Conflict ''Only an active master rule can be retired'')) (\<lambda>_.
     act_then (credit_save (update_master_row i (\<lambda>m. m\<lparr>mr_status := MRetired, mr_to := Some (ae_now E),
         mr_updatedBy := Some actor\<rparr>))) (\<lambda>_.
       act_ok (i, MRetired))))"

end
