(* ===== verification/CreditPolicies.thy ===== *)
theory CreditPolicies
  imports CreditManagement
begin

text \<open>
  What the administration of credit policies keeps: the constraints of the tables, unique ids, validated child
  rules, an approver for every published rule, and no two active rules of one scope whose score ranges meet.
\<close>

section \<open>Steps of the handlers\<close>

lemma credit_save_ok [act_simps]: "credit_save f s = (Inr u, t) \<longleftrightarrow> credit_constraints (f s) \<and> t = f s"
  by (auto simp: credit_save_def act_simps)

lemma post_save [post_intros]: "Q s \<Longrightarrow> (credit_constraints (f s) \<Longrightarrow> Q (f s)) \<Longrightarrow> post Q (credit_save f) s"
  unfolding credit_save_def by (intro post_intros) auto

lemma post_save_then [post_intros]:
  "Q s \<Longrightarrow> (credit_constraints (f s) \<Longrightarrow> post Q (k ()) (f s)) \<Longrightarrow> post Q (act_then (credit_save f) k) s"
  unfolding credit_save_def act_then_assoc by (rule post_then_refuse) (simp_all add: post_def act_then_run)

lemma found_id: "find (\<lambda>x. g x = i) xs = Some y \<Longrightarrow> y \<in> set xs \<and> g y = i"
  by (auto simp: find_Some_iff)

lemma post_masterRow [post_intros]:
  "Q s \<Longrightarrow> (\<And>m. m \<in> set (db_masters s) \<Longrightarrow> mr_id m = i \<Longrightarrow> post Q (k m) s) \<Longrightarrow> post Q (act_then (masterRow i) k) s"
  unfolding masterRow_def by (rule post_then_found) (auto dest: found_id)

lemma post_editable [post_intros]:
  "Q s \<Longrightarrow> (\<And>m. m \<in> set (db_masters s) \<Longrightarrow> mr_id m = i \<Longrightarrow> mr_status m \<in> {MDraft, MRejected} \<Longrightarrow> post Q (k m) s) \<Longrightarrow>
     post Q (act_then (editableMaster i) k) s"
  unfolding editableMaster_def act_then_assoc act_then_trivial
  by (rule post_masterRow, assumption, rule post_then_refuse) auto

lemma post_pending [post_intros]:
  "Q s \<Longrightarrow> (\<And>m. m \<in> set (db_masters s) \<Longrightarrow> mr_id m = i \<Longrightarrow> mr_status m = MPending \<Longrightarrow> mr_createdBy m \<noteq> actor \<Longrightarrow>
     post Q (k m) s) \<Longrightarrow> post Q (act_then (pendingMaster i actor) k) s"
  unfolding pendingMaster_def act_then_assoc act_then_trivial
  by (rule post_masterRow, assumption, rule post_then_refuse, assumption, rule post_then_refuse) auto

text \<open>The reading handlers.\<close>

lemma readonly_rows [atomic_intros]:
  "readonly (masterRow i)" "readonly (integration i)" "readonly (scoreProvider i)"
  by (simp_all add: masterRow_def integration_def scoreProvider_def readonly_rules)

lemma readonly_getMaster [atomic_intros]: "readonly (getMaster i)"
  unfolding getMaster_def by (intro atomic_intros)

lemma readonly_branches [atomic_intros]:
  "readonly m \<Longrightarrow> readonly n \<Longrightarrow> readonly (if b then m else n)"
  "readonly m \<Longrightarrow> (\<And>x. readonly (f x)) \<Longrightarrow> readonly (case v of None \<Rightarrow> m | Some x \<Rightarrow> f x)"
  by (simp_all split: option.splits)

lemma readonly_each [atomic_intros]: "(\<And>x. readonly (f x)) \<Longrightarrow> readonly (act_each f xs)"
  by (induction xs) (auto intro: atomic_intros)

lemma readonly_validateRule [atomic_intros]: "readonly (validateRule E d)"
  unfolding validateRule_def by (intro atomic_intros)

lemma readonly_publication [atomic_intros]: "readonly (validateForPublication E i)"
  unfolding validateForPublication_def by (intro atomic_intros)

lemma post_readonly_then:
  "readonly m \<Longrightarrow> Q s \<Longrightarrow> (\<And>x. post Q (k x) s) \<Longrightarrow> post Q (act_then m k) s"
  by (rule post_after_reading)

lemma post_checks [post_intros]:
  "Q s \<Longrightarrow> (\<And>x. post Q (k x) s) \<Longrightarrow> post Q (act_then (integration i) k) s"
  "Q s \<Longrightarrow> (\<And>x. post Q (l x) s) \<Longrightarrow> post Q (act_then (scoreProvider i) l) s"
  "Q s \<Longrightarrow> post Q (j ()) s \<Longrightarrow> post Q (act_then (validateForPublication E i) j) s"
  "Q s \<Longrightarrow> post Q (getMaster i) s"
  by (rule post_readonly_then post_readonly; (rule atomic_intros)?; simp)+

section \<open>Validated child rules\<close>

definition valid_rule :: "rule_dto \<Rightarrow> bool" where
  "valid_rule d \<longleftrightarrow> validate 0 (rd_condition d) = Inr () \<and> validateAction (rd_onMatch d) = Inr () \<and>
     validateAction (rd_onNoMatch d) = Inr () \<and> validateAction (rd_onFailure d) = Inr () \<and>
     js_string (prop_of (rd_onFailure d) ''type'') \<notin> set source_dependent"

lemma validateRule_valid: "fst (validateRule E d s) = Inr () \<Longrightarrow> valid_rule d"
proof -
  assume "fst (validateRule E d s) = Inr ()"
  then obtain t where "validateRule E d s = (Inr (), t)" by (cases "validateRule E d s") simp
  then show "valid_rule d"
    unfolding validateRule_def valid_rule_def by (simp only: act_simps) (metis (full_types) old.unit.exhaust)
qed

lemma post_validateRule [post_intros]:
  "Q s \<Longrightarrow> (valid_rule d \<Longrightarrow> post Q (k ()) s) \<Longrightarrow> post Q (act_then (validateRule E d) k) s"
  by (rule post_after_reading) (auto intro: atomic_intros dest: validateRule_valid)

lemma rule_row_input: "rule_input (rule_row i j b d) = d"
  by (simp add: rule_input_def rule_row_def)

section \<open>The invariant\<close>

definition exclusive :: "master_rule list \<Rightarrow> bool" where
  "exclusive ms \<longleftrightarrow> (\<forall>m \<in> set ms. \<forall>n \<in> set ms. mr_status m = MActive \<and> mr_status n = MActive \<and> mr_id m \<noteq> mr_id n \<and>
     same_scope m n \<longrightarrow> \<not> ranges_meet m n)"

definition published :: "master_status \<Rightarrow> bool" where
  "published st \<longleftrightarrow> st \<in> {MApproved, MActive, MSuperseded, MRetired}"

definition masters_ok :: "credit_db \<Rightarrow> bool" where
  "masters_ok db \<longleftrightarrow> distinct (map mr_id (db_masters db)) \<and> (\<forall>m \<in> set (db_masters db). mr_id m < db_next db) \<and>
     exclusive (db_masters db) \<and> (\<forall>m \<in> set (db_masters db). published (mr_status m) \<longrightarrow> mr_approvedBy m \<noteq> None)"

definition rules_ok :: "credit_db \<Rightarrow> bool" where
  "rules_ok db \<longleftrightarrow> distinct (map cr_id (db_rules db)) \<and> (\<forall>r \<in> set (db_rules db). cr_id r < db_next db) \<and>
     (\<forall>r \<in> set (db_rules db). valid_rule (rule_input r))"

definition policy_inv :: "credit_db \<Rightarrow> bool" where
  "policy_inv db \<longleftrightarrow> credit_constraints db \<and> masters_ok db \<and> rules_ok db"

lemma exclusive_subset:
  "exclusive ms \<Longrightarrow> (\<And>m. m \<in> set ms' \<Longrightarrow> mr_status m = MActive \<Longrightarrow> m \<in> set ms) \<Longrightarrow> exclusive ms'"
  by (auto simp: exclusive_def)

lemma masters_ok_cong: "db_masters t = db_masters s \<Longrightarrow> db_next s \<le> db_next t \<Longrightarrow> masters_ok s \<Longrightarrow> masters_ok t"
  by (auto simp: masters_ok_def)

lemma rules_ok_cong: "db_rules t = db_rules s \<Longrightarrow> db_next s \<le> db_next t \<Longrightarrow> rules_ok s \<Longrightarrow> rules_ok t"
  by (auto simp: rules_ok_def)

lemma policy_inv_cong:
  assumes "policy_inv s" and "credit_constraints t" and "db_masters t = db_masters s" and "db_rules t = db_rules s"
    and "db_next s \<le> db_next t"
  shows "policy_inv t"
  using assms masters_ok_cong rules_ok_cong by (auto simp: policy_inv_def)

lemma policy_inv_add_master:
  assumes "policy_inv s" and "credit_constraints (add_master m s)" and "mr_id m = db_next s" and "mr_status m = MDraft"
  shows "policy_inv (add_master m s)"
proof -
  have "exclusive (db_masters s @ [m])"
    by (rule exclusive_subset[of "db_masters s"]) (use assms in \<open>auto simp: policy_inv_def masters_ok_def\<close>)
  then show ?thesis
    using assms by (auto simp: policy_inv_def masters_ok_def rules_ok_def published_def)
qed

lemma policy_inv_update:
  assumes inv: "policy_inv s" and con: "credit_constraints (update_masters P f s)"
    and id: "\<And>m. mr_id (f m) = mr_id m"
    and ok: "\<And>m. m \<in> set (db_masters s) \<Longrightarrow> P m \<Longrightarrow> mr_status (f m) \<noteq> MActive \<and>
      (published (mr_status (f m)) \<longrightarrow> mr_approvedBy (f m) \<noteq> None)"
  shows "policy_inv (update_masters P f s)"
proof -
  have "exclusive (map (\<lambda>m. if P m then f m else m) (db_masters s))"
    by (rule exclusive_subset[of "db_masters s"]) (use inv ok in \<open>auto simp: policy_inv_def masters_ok_def split: if_splits\<close>)
  moreover have ids: "map (mr_id \<circ> (\<lambda>m. if P m then f m else m)) (db_masters s) = map mr_id (db_masters s)" by (auto simp: id)
  ultimately show ?thesis
    using inv con ok by (auto simp: policy_inv_def masters_ok_def rules_ok_def update_masters_def id ids)
qed


section \<open>Every handler keeps it\<close>

lemma createIntegration_inv: "policy_inv s \<Longrightarrow> post policy_inv (createIntegration E d a) s"
  unfolding createIntegration_def by (intro post_intros) (auto intro: policy_inv_cong[of s])

lemma updateIntegration_inv: "policy_inv s \<Longrightarrow> post policy_inv (updateIntegration E i d a) s"
  unfolding updateIntegration_def by (intro post_intros) (auto intro: policy_inv_cong[of s])

lemma approveIntegration_inv: "policy_inv s \<Longrightarrow> post policy_inv (approveIntegration i a) s"
  unfolding approveIntegration_def by (intro post_intros) (auto intro: policy_inv_cong[of s])

lemma createScoreProvider_inv: "policy_inv s \<Longrightarrow> post policy_inv (createScoreProvider d a) s"
  unfolding createScoreProvider_def by (intro post_intros) (auto intro: policy_inv_cong[of s])

lemma updateScoreProvider_inv: "policy_inv s \<Longrightarrow> post policy_inv (updateScoreProvider i d a) s"
  unfolding updateScoreProvider_def Let_def by (intro post_intros) (auto intro: policy_inv_cong[of s])

lemma approveScoreProvider_inv: "policy_inv s \<Longrightarrow> post policy_inv (approveScoreProvider i a) s"
  unfolding approveScoreProvider_def
  by (intro post_intros) (auto simp: act_simps split: if_splits prod.splits intro!: post_intros intro: policy_inv_cong[of s])


lemma post_provider [post_intros]:
  "Q s \<Longrightarrow> post Q (k ()) s \<Longrightarrow>
     post Q (act_then (case v of None \<Rightarrow> act_ok () | Some p \<Rightarrow> act_then (scoreProvider p) (\<lambda>_. act_ok ())) k) s"
  by (rule post_readonly_then) (auto intro: atomic_intros)

lemma post_pair [post_intros]: "post Q (k a b) s \<Longrightarrow> post Q (case (a, b) of (x, y) \<Rightarrow> k x y) s"
  by simp

lemma createMaster_inv: "policy_inv s \<Longrightarrow> post policy_inv (createMaster E d a) s"
  unfolding createMaster_def by (intro post_intros) (auto intro!: policy_inv_add_master)

lemma updateMaster_inv: "policy_inv s \<Longrightarrow> post policy_inv (updateMaster E i d a) s"
  unfolding updateMaster_def Let_def by (intro post_intros) (auto intro!: policy_inv_update simp: published_def)

lemma clone_rules_facts:
  "length (clone_rules j k rs) = length rs" "map cr_id (clone_rules j k rs) = [k..<k + length rs]"
  "map rule_input (clone_rules j k rs) = map rule_input rs"
  by (induction rs arbitrary: k) (auto simp: rule_input_def upt_rec)

lemma policy_inv_add_rules:
  assumes inv: "policy_inv s" and con: "credit_constraints (s\<lparr>db_rules := db_rules s @ rs, db_next := db_next s + length rs\<rparr>)"
    and ids: "map cr_id rs = [db_next s..<db_next s + length rs]" and valid: "\<forall>r \<in> set rs. valid_rule (rule_input r)"
  shows "policy_inv (s\<lparr>db_rules := db_rules s @ rs, db_next := db_next s + length rs\<rparr>)"
proof -
  have "cr_id ` set rs = {db_next s..<db_next s + length rs}" by (metis ids set_map set_upt)
  moreover have "distinct (map cr_id rs)" by (simp add: ids)
  ultimately show ?thesis
    using inv con valid by (fastforce simp: policy_inv_def masters_ok_def rules_ok_def)
qed

lemma policy_inv_clone_rules:
  assumes "policy_inv t" and "set rs \<subseteq> set (db_rules t)"
    and "credit_constraints (t\<lparr>db_rules := db_rules t @ clone_rules j (db_next t) rs, db_next := db_next t + length rs\<rparr>)"
  shows "policy_inv (t\<lparr>db_rules := db_rules t @ clone_rules j (db_next t) rs, db_next := db_next t + length rs\<rparr>)"
proof -
  have "rule_input ` set (clone_rules j (db_next t) rs) = rule_input ` set rs"
    using clone_rules_facts(3)[of j "db_next t" rs] by (metis set_map)
  moreover have "\<forall>r \<in> set rs. valid_rule (rule_input r)" using assms by (auto simp: policy_inv_def rules_ok_def)
  ultimately have "\<forall>r \<in> set (clone_rules j (db_next t) rs). valid_rule (rule_input r)"
    by (metis image_iff)
  then show ?thesis
    using policy_inv_add_rules[of t "clone_rules j (db_next t) rs"] assms by (simp add: clone_rules_facts)
qed

definition cloned :: "nat \<Rightarrow> nat \<Rightarrow> credit_db \<Rightarrow> credit_db" where
  "cloned i j t = (let rs = filter (\<lambda>r. cr_master r = i) (db_rules t) in
     t\<lparr>db_rules := db_rules t @ clone_rules j (db_next t) rs, db_next := db_next t + length rs\<rparr>)"

lemma cloneMaster_inv:
  assumes s: "policy_inv s"
  shows "post policy_inv (cloneMaster i a) s"
proof -
  have "policy_inv t" if run: "act_then (act_read (\<lambda>db. (db_next db, next_master_version (mr_code m) db))) (\<lambda>(j, v).
       act_then (credit_save (add_master (clone_row j v a m))) (\<lambda>_.
       act_then (credit_save (cloned i j)) (\<lambda>_. act_ok j))) s = (Inr x, t)" for m x t
  proof -
    define u where "u = add_master (clone_row (db_next s) (next_master_version (mr_code m) s) a m) s"
    have u: "credit_constraints u" "credit_constraints (cloned i (db_next s) u)" "t = cloned i (db_next s) u"
      using run by (auto simp: act_simps u_def)
    have "policy_inv u" using u(1) s unfolding u_def by (intro policy_inv_add_master) (simp_all add: clone_row_def)
    with u(2) show ?thesis unfolding u(3) cloned_def Let_def by (intro policy_inv_clone_rules) auto
  qed
  then show ?thesis
    unfolding cloneMaster_def cloned_def[symmetric] by (intro post_intros s)
qed

lemma policy_inv_add_rule:
  assumes "policy_inv s" and "credit_constraints (s\<lparr>db_rules := db_rules s @ [r], db_next := Suc (db_next s)\<rparr>)"
    and "cr_id r = db_next s" and "valid_rule (rule_input r)"
  shows "policy_inv (s\<lparr>db_rules := db_rules s @ [r], db_next := Suc (db_next s)\<rparr>)"
  using policy_inv_add_rules[of s "[r]"] assms by simp

lemma policy_inv_map_rules:
  assumes inv: "policy_inv s" and con: "credit_constraints (s\<lparr>db_rules := map f (db_rules s)\<rparr>)"
    and ok: "\<And>r. r \<in> set (db_rules s) \<Longrightarrow> cr_id (f r) = cr_id r \<and> (valid_rule (rule_input r) \<longrightarrow> valid_rule (rule_input (f r)))"
  shows "policy_inv (s\<lparr>db_rules := map f (db_rules s)\<rparr>)"
proof -
  have ids: "map (cr_id \<circ> f) (db_rules s) = map cr_id (db_rules s)" using ok by auto
  show ?thesis using inv con ok by (auto simp: policy_inv_def masters_ok_def rules_ok_def ids)
qed

lemma addRule_inv: "policy_inv s \<Longrightarrow> post policy_inv (addRule E i d) s"
  unfolding addRule_def
  by (intro post_intros policy_inv_add_rule; (simp only: rule_row_input)?; simp add: rule_row_def)

lemma updateRule_inv: "policy_inv s \<Longrightarrow> post policy_inv (updateRule E i j d) s"
  unfolding updateRule_def Let_def
  by (intro post_intros policy_inv_map_rules; (simp only: rule_row_input split: if_splits)?; simp add: rule_row_input rule_row_def)

lemma deleteRule_inv: "policy_inv s \<Longrightarrow> post policy_inv (deleteRule i j) s"
  unfolding deleteRule_def
  by (intro post_intros) (auto simp: policy_inv_def masters_ok_def rules_ok_def distinct_map_filter)


section \<open>Publication keeps it\<close>

lemma policy_inv_changes:
  "policy_inv s \<Longrightarrow> credit_constraints (s\<lparr>db_changes := cs, db_next := n\<rparr>) \<Longrightarrow> db_next s \<le> n \<Longrightarrow>
     policy_inv (s\<lparr>db_changes := cs, db_next := n\<rparr>)"
  "policy_inv s \<Longrightarrow> credit_constraints (decide_changes i st a c s) \<Longrightarrow> policy_inv (decide_changes i st a c s)"
  by (auto intro: policy_inv_cong[of s] simp: decide_changes_def)

lemma submit_inv:
  assumes s: "policy_inv s"
  shows "post policy_inv (submit E i a c) s"
proof -
  have "policy_inv t" if "act_then (credit_save (update_master_row i (\<lambda>m. m\<lparr>mr_status := MPending\<rparr>))) (\<lambda>_.
       act_then (act_read db_next) (\<lambda>k.
       act_then (credit_save (\<lambda>db. db\<lparr>db_changes := db_changes db @
           [\<lparr>ch_id = k, ch_master = i, ch_status = ChangePending, ch_maker = a, ch_makerComment = c,
             ch_checker = None, ch_checkerComment = None\<rparr>], db_next := Suc k\<rparr>)) (\<lambda>_.
         act_ok k))) s = (Inr x, t)" for x t
  proof -
    let ?u = "update_master_row i (\<lambda>m. m\<lparr>mr_status := MPending\<rparr>) s"
    from that have u: "credit_constraints ?u" and t: "\<exists>cs. credit_constraints t \<and> t = ?u\<lparr>db_changes := cs, db_next := Suc (db_next ?u)\<rparr>"
      by (auto simp: act_simps)
    have "policy_inv ?u" using u s by (intro policy_inv_update) (auto simp: published_def)
    with t show ?thesis by (auto intro: policy_inv_changes)
  qed
  then show ?thesis unfolding submit_def by (intro post_intros s)
qed

lemma approve_inv:
  assumes s: "policy_inv s"
  shows "post policy_inv (approve E i a c) s"
proof -
  have "policy_inv t" if "act_then (credit_save (decide_changes i ChangeApproved a c)) (\<lambda>_.
       act_then (credit_save (update_master_row i (\<lambda>m. m\<lparr>mr_status := MApproved, mr_approvedBy := Some a\<rparr>))) (\<lambda>_.
         act_ok (i, MApproved))) s = (Inr x, t)" for x t
  proof -
    let ?u = "decide_changes i ChangeApproved a c s"
    from that have u: "credit_constraints ?u" "credit_constraints t"
      "t = update_master_row i (\<lambda>m. m\<lparr>mr_status := MApproved, mr_approvedBy := Some a\<rparr>) ?u"
      by (auto simp: act_simps)
    from s u show ?thesis by (auto intro!: policy_inv_update policy_inv_changes)
  qed
  then show ?thesis unfolding approve_def by (intro post_intros s)
qed

lemma reject_inv:
  assumes s: "policy_inv s"
  shows "post policy_inv (reject i a c) s"
proof -
  have "policy_inv t" if "act_then (credit_save (decide_changes i ChangeRejected a (Some c))) (\<lambda>_.
       credit_save (update_master_row i (\<lambda>m. m\<lparr>mr_status := MRejected, mr_rejection := Some c\<rparr>))) s = (Inr x, t)" for x t
  proof -
    let ?u = "decide_changes i ChangeRejected a (Some c) s"
    from that have u: "credit_constraints ?u" "credit_constraints t"
      "t = update_master_row i (\<lambda>m. m\<lparr>mr_status := MRejected, mr_rejection := Some c\<rparr>) ?u"
      by (auto simp: act_simps)
    from s u show ?thesis by (auto intro!: policy_inv_update policy_inv_changes simp: published_def)
  qed
  then show ?thesis unfolding reject_def by (intro post_intros post_ends s)
qed

lemma retire_inv:
  assumes s: "policy_inv s"
  shows "post policy_inv (retire E i a) s"
  unfolding retire_def
proof (intro post_intros s)
  fix m
  assume m: "m \<in> set (db_masters s)" "mr_id m = i" "\<not> mr_status m \<noteq> MActive"
    and c: "credit_constraints (update_master_row i (\<lambda>m. m\<lparr>mr_status := MRetired, mr_to := Some (ae_now E), mr_updatedBy := Some a\<rparr>) s)"
  have "n = m" if "n \<in> set (db_masters s)" "mr_id n = i" for n
    using s m(1,2) that by (auto simp: policy_inv_def masters_ok_def distinct_map inj_on_def)
  then have "mr_approvedBy n \<noteq> None" if "n \<in> set (db_masters s)" "mr_id n = i" for n
    using s m that by (auto simp: policy_inv_def masters_ok_def published_def)
  with s c show "policy_inv (update_master_row i (\<lambda>m. m\<lparr>mr_status := MRetired, mr_to := Some (ae_now E), mr_updatedBy := Some a\<rparr>) s)"
    by (intro policy_inv_update) auto
qed

lemma ranges_meet_sym: "ranges_meet m n \<longleftrightarrow> ranges_meet n m"
  by (auto simp: ranges_meet_def)

lemma same_scope_sym: "same_scope m n \<longleftrightarrow> same_scope n m"
  by (auto simp: same_scope_def)

definition superseding :: "nat \<Rightarrow> master_rule \<Rightarrow> master_rule \<Rightarrow> bool" where
  "superseding i c m \<longleftrightarrow> mr_status m = MActive \<and> mr_id m \<noteq> i \<and> same_scope m c \<and> ranges_meet m c"

definition activated :: "admin_env \<Rightarrow> string \<Rightarrow> master_rule \<Rightarrow> master_rule" where
  "activated E a m = m\<lparr>mr_status := MActive, mr_activatedBy := Some a, mr_from := Some (given (mr_from m) (ae_now E))\<rparr>"

lemma activated_scope [simp]:
  "mr_id (activated E a m) = mr_id m" "mr_status (activated E a m) = MActive" "mr_approvedBy (activated E a m) = mr_approvedBy m"
  "same_scope (activated E a m) n = same_scope m n" "same_scope n (activated E a m) = same_scope n m"
  "ranges_meet (activated E a m) n = ranges_meet m n" "ranges_meet n (activated E a m) = ranges_meet n m"
  by (simp_all add: activated_def same_scope_def ranges_meet_def)

lemma masters_updated: "db_masters (update_masters P f s) = map (\<lambda>m. if P m then f m else m) (db_masters s)"
  "db_next (update_masters P f s) = db_next s" "db_rules (update_masters P f s) = db_rules s"
  by (simp_all add: update_masters_def)

lemma exclusive_activated:
  assumes ex: "exclusive ms" and c: "c \<in> set ms" "mr_id c = i" and u: "distinct (map mr_id ms)"
    and clear: "\<forall>m \<in> set ms. \<not> superseding i c m"
  shows "exclusive (map (\<lambda>m. if mr_id m = i then activated E a m else m) ms)"
proof -
  have self: "m = c" if "m \<in> set ms" "mr_id m = i" for m
    using u c that by (auto simp: distinct_map inj_on_def)
  have free: "\<not> ranges_meet n c" if "n \<in> set ms" "mr_status n = MActive" "mr_id n \<noteq> i" "same_scope n c" for n
    using clear that by (auto simp: superseding_def)
  show ?thesis
    unfolding exclusive_def
  proof (intro ballI impI)
    fix m' n'
    assume "m' \<in> set (map (\<lambda>m. if mr_id m = i then activated E a m else m) ms)"
      and "n' \<in> set (map (\<lambda>m. if mr_id m = i then activated E a m else m) ms)"
    then obtain m n where mn: "m \<in> set ms" "m' = (if mr_id m = i then activated E a m else m)"
      "n \<in> set ms" "n' = (if mr_id n = i then activated E a n else n)" by auto
    assume hyp: "mr_status m' = MActive \<and> mr_status n' = MActive \<and> mr_id m' \<noteq> mr_id n' \<and> same_scope m' n'"
    then have "mr_id m \<noteq> mr_id n" using mn by (auto split: if_splits)
    then consider "mr_id m = i" "mr_id n \<noteq> i" | "mr_id n = i" "mr_id m \<noteq> i" | "mr_id m \<noteq> i" "mr_id n \<noteq> i" by auto
    then show "\<not> ranges_meet m' n'"
    proof cases
      case 1
      then show ?thesis using hyp mn free[of n] self[of m] same_scope_sym[of n c] ranges_meet_sym[of n c] by simp
    next
      case 2
      then show ?thesis using hyp mn free[of m] self[of n] by simp
    next
      case 3
      then show ?thesis using hyp mn ex by (auto simp: exclusive_def)
    qed
  qed
qed

lemma activate_inv:
  assumes s: "policy_inv s"
  shows "post policy_inv (activate E i a) s"
proof -
  have "policy_inv t" if c: "c \<in> set (db_masters s)" "mr_id c = i" "\<not> mr_status c \<noteq> MApproved"
    and run: "act_then (credit_save (update_masters (superseding i c) (\<lambda>m. m\<lparr>mr_status := MSuperseded\<rparr>))) (\<lambda>_.
       act_then (credit_save (update_master_row i (activated E a))) (\<lambda>_. act_ok (i, MActive))) s = (Inr x, t)" for c x t
  proof -
    define u where "u = update_masters (superseding i c) (\<lambda>m. m\<lparr>mr_status := MSuperseded\<rparr>) s"
    have t: "credit_constraints u" "credit_constraints t" "t = update_master_row i (activated E a) u"
      using run by (auto simp: act_simps u_def)
    have approved: "mr_approvedBy m \<noteq> None" if "m \<in> set (db_masters s)" "superseding i c m" for m
      using s that by (auto simp: policy_inv_def masters_ok_def published_def superseding_def)
    have u: "policy_inv u"
      using s t(1) approved unfolding u_def by (intro policy_inv_update) auto
    have cu: "c \<in> set (db_masters u)"
      using c by (force simp: u_def masters_updated superseding_def)
    have clear: "\<forall>m \<in> set (db_masters u). \<not> superseding i c m"
      by (auto simp: u_def masters_updated superseding_def)
    have uniq: "distinct (map mr_id (db_masters u))" and ap: "mr_approvedBy c \<noteq> None"
      using u cu c(3) by (auto simp: policy_inv_def masters_ok_def published_def)
    have self: "m = c" if "m \<in> set (db_masters u)" "mr_id m = i" for m
      using uniq cu c(2) that by (auto simp: distinct_map inj_on_def)
    have "exclusive (db_masters t)"
      unfolding t(3) masters_updated using u cu c(2) uniq clear
      by (intro exclusive_activated) (auto simp: policy_inv_def masters_ok_def)
    moreover have ids: "map (mr_id \<circ> (\<lambda>m. if mr_id m = i then activated E a m else m)) (db_masters u) = map mr_id (db_masters u)"
      by auto
    ultimately show ?thesis
      using u t(2) ap self
      by (auto simp: t(3) policy_inv_def masters_ok_def rules_ok_def masters_updated published_def ids split: if_splits)
  qed
  then show ?thesis
    unfolding activate_def superseding_def[symmetric] activated_def[symmetric] by (intro post_intros s)
qed

end
