(* ===== verification/ConditionProperties.thy ===== *)
theory ConditionProperties
  imports Conditions
begin

text \<open>
  What the condition engine promises: a reference semantics of conditions as a Boolean formula over their
  leaves, which \<open>evaluate\<close> implements on every validated condition whatever its order of evaluation, the
  bounds validation enforces, and the errors evaluation can raise.
\<close>

section \<open>Conditions as formulas\<close>

datatype cond = CAll "cond list" | CAny "cond list" | CNot cond | CLeaf jsval

function parse_condition :: "nat \<Rightarrow> jsval \<Rightarrow> cond" where
  "parse_condition n c = (if n = 0 then CLeaf c
     else (case group_keys c of
         [k] \<Rightarrow> if k = ''not'' then CNot (parse_condition (n - 1) (prop_of c k))
             else (let cs = (case js_array (prop_of c k) of None \<Rightarrow> [] | Some xs \<Rightarrow> map (parse_condition (n - 1)) xs)
                   in if k = ''all'' then CAll cs else CAny cs)
       | _ \<Rightarrow> CLeaf c))"
  by pat_completeness auto
termination by (relation "measure fst") auto

declare parse_condition.simps [simp del]

fun holds :: "(jsval \<Rightarrow> bool) \<Rightarrow> cond \<Rightarrow> bool" where
  "holds L (CAll cs) = list_all (holds L) cs"
| "holds L (CAny cs) = list_ex (holds L) cs"
| "holds L (CNot c) = (\<not> holds L c)"
| "holds L (CLeaf l) = L l"

fun leaves :: "cond \<Rightarrow> jsval list" where
  "leaves (CAll cs) = concat (map leaves cs)"
| "leaves (CAny cs) = concat (map leaves cs)"
| "leaves (CNot c) = leaves c"
| "leaves (CLeaf l) = [l]"

fun height :: "cond \<Rightarrow> nat" where
  "height (CAll cs) = Suc (fold max (map height cs) 0)"
| "height (CAny cs) = Suc (fold max (map height cs) 0)"
| "height (CNot c) = Suc (height c)"
| "height (CLeaf l) = 0"

fun widths_ok :: "cond \<Rightarrow> bool" where
  "widths_ok (CAll cs) = (1 \<le> length cs \<and> length cs \<le> 50 \<and> list_all widths_ok cs)"
| "widths_ok (CAny cs) = (1 \<le> length cs \<and> length cs \<le> 50 \<and> list_all widths_ok cs)"
| "widths_ok (CNot c) = widths_ok c"
| "widths_ok (CLeaf l) = True"

text \<open>The formula of a condition; nine levels are all a validated condition has.\<close>

definition formula :: "jsval \<Rightarrow> cond" where
  "formula c = parse_condition 9 c"

lemma group_keys_props:
  "k \<in> set (group_keys c) \<longleftrightarrow> k \<in> {''all'', ''any'', ''not''} \<and> prop_of c k \<noteq> JUndef"
  by (auto simp: group_keys_def)

text \<open>What a validated condition looks like.\<close>

lemmas validate_object = validate.simps[of d "JObj fs", unfolded jsval.case] for d fs

lemma validate_cases:
  assumes "validate d c = Inr ()"
  obtains (leaf) fs where "c = JObj fs" "d \<le> 8" "group_keys c = []" "validate_leaf c = Inr ()"
  | (negation) fs where "c = JObj fs" "d \<le> 8" "group_keys c = [''not'']" "validate (Suc d) (prop_of c ''not'') = Inr ()"
  | (conjunction) fs xs where "c = JObj fs" "d \<le> 8" "group_keys c = [''all'']" "prop_of c ''all'' = JArr xs"
      "1 \<le> length xs" "length xs \<le> 50" "\<forall>x \<in> set xs. validate (Suc d) x = Inr ()"
  | (disjunction) fs xs where "c = JObj fs" "d \<le> 8" "group_keys c = [''any'']" "prop_of c ''any'' = JArr xs"
      "1 \<le> length xs" "length xs \<le> 50" "\<forall>x \<in> set xs. validate (Suc d) x = Inr ()"
proof -
  from assms obtain fs where c: "c = JObj fs" "d \<le> 8"
    by (auto simp: validate.simps[of d c] split: jsval.splits if_splits)
  note v = assms[unfolded c(1) validate_object, folded c(1)]
  show thesis
  proof (cases "group_keys c")
    case Nil
    with v have "validate_leaf c = Inr ()" using c by simp
    with Nil c leaf show thesis by blast
  next
    case (Cons k ks)
    have ks: "ks = []" using v c Cons by (cases ks) auto
    have k: "k = ''all'' \<or> k = ''any'' \<or> k = ''not''" using group_keys_props[of k c] Cons by auto
    show thesis
    proof (cases "k = ''not''")
      case True
      with v c Cons ks negation show thesis by simp
    next
      case False
      with v c Cons ks obtain xs where xs: "js_array (prop_of c k) = Some xs" "1 \<le> length xs" "length xs \<le> 50"
        "\<forall>x \<in> set xs. validate (Suc d) x = Inr ()"
        by (auto simp: each_res_Inr Suc_le_eq split: option.splits if_splits)
      moreover from xs(1) have "prop_of c k = JArr xs" by (auto simp: js_array_def split: jsval.splits)
      ultimately show thesis
        using k False c Cons ks by (elim disjE; intro conjunction[OF c] disjunction[OF c]; simp)
    qed
  qed
qed

section \<open>Evaluation implements the formula\<close>

lemma every_res_all: "(\<And>x. x \<in> set xs \<Longrightarrow> f x = Inr (p x)) \<Longrightarrow> every_res f xs = Inr (list_all p xs)"
  by (induction xs) auto

lemma some_res_ex: "(\<And>x. x \<in> set xs \<Longrightarrow> f x = Inr (p x)) \<Longrightarrow> some_res f xs = Inr (list_ex p xs)"
  by (induction xs) auto

lemma only_group:
  assumes "group_keys (JObj fs) = ks"
  shows "\<And>k. k \<in> {''all'', ''any'', ''not''} \<Longrightarrow> k \<notin> set ks \<Longrightarrow> prop_of (JObj fs) k = JUndef"
    and "\<And>k. k \<in> set ks \<Longrightarrow> isGroup (JObj fs)"
proof -
  fix k
  show "k \<in> {''all'', ''any'', ''not''} \<Longrightarrow> k \<notin> set ks \<Longrightarrow> prop_of (JObj fs) k = JUndef"
    using group_keys_props[of k "JObj fs"] assms by auto
  assume "k \<in> set ks"
  then have "k \<in> {''all'', ''any'', ''not''}" "prop_of (JObj fs) k \<noteq> JUndef"
    using group_keys_props[of k "JObj fs"] assms by auto
  moreover from this(2) obtain v where "(k, v) \<in> set fs"
    by (auto simp: prop_of_def split: option.splits dest: map_of_SomeD)
  ultimately show "isGroup (JObj fs)" by (force simp: isGroup_def list_ex_iff)
qed

lemmas evaluate_object = evaluate.simps[of dp "JObj fs" raw dt, unfolded jsval.case] for dp fs raw dt

lemma evaluate_group:
  "group_keys (JObj fs) = [''not''] \<Longrightarrow> truthy (prop_of (JObj fs) ''not'') \<Longrightarrow>
     evaluate dp (JObj fs) raw dt = await (evaluate dp (prop_of (JObj fs) ''not'') raw dt) (\<lambda>b. Inr (\<not> b))"
  "group_keys (JObj fs) = [''all''] \<Longrightarrow> prop_of (JObj fs) ''all'' = JArr xs \<Longrightarrow>
     evaluate dp (JObj fs) raw dt = every_res (\<lambda>x. evaluate dp x raw dt) xs"
  "group_keys (JObj fs) = [''any''] \<Longrightarrow> prop_of (JObj fs) ''any'' = JArr xs \<Longrightarrow>
     evaluate dp (JObj fs) raw dt = some_res (\<lambda>x. evaluate dp x raw dt) xs"
  "group_keys (JObj fs) = [] \<Longrightarrow> evaluate dp (JObj fs) raw dt = evaluate_leaf dp (JObj fs) raw dt"
proof -
  assume g: "group_keys (JObj fs) = [''not'']" "truthy (prop_of (JObj fs) ''not'')"
  show "evaluate dp (JObj fs) raw dt = await (evaluate dp (prop_of (JObj fs) ''not'') raw dt) (\<lambda>b. Inr (\<not> b))"
    using only_group(1)[OF g(1), of "''all''"] only_group(1)[OF g(1), of "''any''"] only_group(2)[OF g(1)] g(2)
    by (simp add: evaluate_object)
next
  assume g: "group_keys (JObj fs) = [''all'']" "prop_of (JObj fs) ''all'' = JArr xs"
  show "evaluate dp (JObj fs) raw dt = every_res (\<lambda>x. evaluate dp x raw dt) xs"
    using only_group(2)[OF g(1)] g(2) by (simp add: evaluate_object)
next
  assume g: "group_keys (JObj fs) = [''any'']" "prop_of (JObj fs) ''any'' = JArr xs"
  show "evaluate dp (JObj fs) raw dt = some_res (\<lambda>x. evaluate dp x raw dt) xs"
    using only_group(1)[OF g(1), of "''all''"] only_group(2)[OF g(1)] g(2) by (simp add: evaluate_object)
next
  assume g: "group_keys (JObj fs) = []"
  show "evaluate dp (JObj fs) raw dt = evaluate_leaf dp (JObj fs) raw dt"
    using only_group(1)[OF g(1), of "''all''"] only_group(1)[OF g(1), of "''any''"] only_group(1)[OF g(1), of "''not''"]
    by (simp add: evaluate_object)
qed

lemma validated_truthy: "validate d c = Inr () \<Longrightarrow> truthy c"
  by (cases c) (simp_all add: validate.simps)

lemma parse_shapes:
  "0 < n \<Longrightarrow> group_keys c = [] \<Longrightarrow> parse_condition n c = CLeaf c"
  "0 < n \<Longrightarrow> group_keys c = [''not''] \<Longrightarrow> parse_condition n c = CNot (parse_condition (n - 1) (prop_of c ''not''))"
  "0 < n \<Longrightarrow> group_keys c = [''all''] \<Longrightarrow> prop_of c ''all'' = JArr xs \<Longrightarrow>
     parse_condition n c = CAll (map (parse_condition (n - 1)) xs)"
  "0 < n \<Longrightarrow> group_keys c = [''any''] \<Longrightarrow> prop_of c ''any'' = JArr xs \<Longrightarrow>
     parse_condition n c = CAny (map (parse_condition (n - 1)) xs)"
  by (simp_all add: parse_condition.simps[of n c])

lemma evaluate_formula:
  assumes "validate d c = Inr ()" and "d + n = 9"
    and "\<forall>l \<in> set (leaves (parse_condition n c)). evaluate_leaf dp l raw dt = Inr (L l)"
  shows "evaluate dp c raw dt = Inr (holds L (parse_condition n c))"
  using assms
proof (induction n arbitrary: d c)
  case 0
  then show ?case by (auto elim: validate_cases)
next
  case (Suc n)
  have d: "Suc d + n = 9" using Suc.prems(2) by simp
  from Suc.prems(1) show ?case
  proof (cases rule: validate_cases)
    case (leaf fs)
    then show ?thesis using Suc.prems(3) by (simp add: parse_shapes evaluate_group)
  next
    case (negation fs)
    have "evaluate dp (prop_of c ''not'') raw dt = Inr (holds L (parse_condition n (prop_of c ''not'')))"
      using Suc.prems(3) by (intro Suc.IH[OF negation(4) d]) (simp add: parse_shapes(2)[OF _ negation(3)])
    with negation validated_truthy[OF negation(4)] show ?thesis
      by (simp add: parse_shapes(2) evaluate_group(1))
  next
    case (conjunction fs xs)
    have "evaluate dp x raw dt = Inr (holds L (parse_condition n x))" if "x \<in> set xs" for x
      using Suc.prems(3) conjunction(7) that
      by (intro Suc.IH[OF _ d]) (auto simp: parse_shapes(3)[OF _ conjunction(3,4)])
    from every_res_all[of xs "\<lambda>x. evaluate dp x raw dt", OF this] conjunction show ?thesis
      by (simp add: parse_shapes(3) evaluate_group(2) list_all_iff)
  next
    case (disjunction fs xs)
    have "evaluate dp x raw dt = Inr (holds L (parse_condition n x))" if "x \<in> set xs" for x
      using Suc.prems(3) disjunction(7) that
      by (intro Suc.IH[OF _ d]) (auto simp: parse_shapes(4)[OF _ disjunction(3,4)])
    from some_res_ex[of xs "\<lambda>x. evaluate dp x raw dt", OF this] disjunction show ?thesis
      by (simp add: parse_shapes(4) evaluate_group(3) list_ex_iff)
  qed
qed

section \<open>Bounds\<close>

lemma fold_max_le: "fold max ns (a::nat) \<le> b \<longleftrightarrow> a \<le> b \<and> (\<forall>n \<in> set ns. n \<le> b)"
  by (induction ns arbitrary: a) auto

lemma validated_shape:
  assumes "validate d c = Inr ()" and "d + n = 9"
  shows "d + height (parse_condition n c) \<le> 8 \<and> widths_ok (parse_condition n c) \<and>
    (\<forall>l \<in> set (leaves (parse_condition n c)). validate_leaf l = Inr ())"
  using assms
proof (induction n arbitrary: d c)
  case 0
  then show ?case by (auto elim: validate_cases)
next
  case (Suc n)
  have d: "Suc d + n = 9" using Suc.prems(2) by simp
  from Suc.prems(1) show ?case
  proof (cases rule: validate_cases)
    case (leaf fs)
    then show ?thesis by (simp add: parse_shapes)
  next
    case (negation fs)
    from Suc.IH[OF negation(4) d] negation show ?thesis by (simp add: parse_shapes)
  next
    case (conjunction fs xs)
    have each: "Suc d + height (parse_condition n x) \<le> 8 \<and> widths_ok (parse_condition n x) \<and>
        (\<forall>l \<in> set (leaves (parse_condition n x)). validate_leaf l = Inr ())" if "x \<in> set xs" for x
      using Suc.IH[OF _ d] conjunction(7) that by blast
    have "hd xs \<in> set xs" using conjunction(5) by (cases xs) auto
    with each have "d \<le> 7" by fastforce
    moreover have "fold max (map (\<lambda>x. height (parse_condition n x)) xs) 0 \<le> 7 - d"
      using each by (force simp: fold_max_le)
    ultimately show ?thesis
      using each conjunction by (auto simp: parse_shapes(3) list_all_iff o_def)
  next
    case (disjunction fs xs)
    have each: "Suc d + height (parse_condition n x) \<le> 8 \<and> widths_ok (parse_condition n x) \<and>
        (\<forall>l \<in> set (leaves (parse_condition n x)). validate_leaf l = Inr ())" if "x \<in> set xs" for x
      using Suc.IH[OF _ d] disjunction(7) that by blast
    have "hd xs \<in> set xs" using disjunction(5) by (cases xs) auto
    with each have "d \<le> 7" by fastforce
    moreover have "fold max (map (\<lambda>x. height (parse_condition n x)) xs) 0 \<le> 7 - d"
      using each by (force simp: fold_max_le)
    ultimately show ?thesis
      using each disjunction by (auto simp: parse_shapes(4) list_all_iff o_def)
  qed
qed

section \<open>Errors\<close>

text \<open>The field of a leaf, when it has one, is a path.\<close>

definition field_text :: "jsval \<Rightarrow> bool" where
  "field_text l \<longleftrightarrow> truthy (prop_of l ''field'') \<longrightarrow> (\<exists>s. prop_of l ''field'' = JStr s)"

text \<open>Computations that throw nothing but plain errors with a message.\<close>

definition only_fails :: "'a res \<Rightarrow> bool" where
  "only_fails r \<longleftrightarrow> (\<forall>e. r = Inl e \<longrightarrow> (\<exists>m. e = Failure m))"

named_theorems fails_intros \<open>what throws plain errors only\<close>

lemma only_fails_basic [fails_intros]: "only_fails (Inr x)" "only_fails (Inl (Failure m))"
  by (simp_all add: only_fails_def)

lemma only_fails_if [fails_intros]: "only_fails p \<Longrightarrow> only_fails q \<Longrightarrow> only_fails (if b then p else q)"
  by simp

lemma only_fails_await [fails_intros]: "only_fails r \<Longrightarrow> (\<And>x. only_fails (k x)) \<Longrightarrow> only_fails (await r k)"
  by (auto simp: only_fails_def await_Inl_iff)

lemma only_fails_option [fails_intros]:
  "only_fails p \<Longrightarrow> (\<And>x. only_fails (q x)) \<Longrightarrow> only_fails (case v of None \<Rightarrow> p | Some x \<Rightarrow> q x)"
  by (cases v) auto

lemma only_fails_bool [fails_intros]:
  "(\<And>b. only_fails (p b)) \<Longrightarrow> only_fails q \<Longrightarrow> only_fails (case v of JBool b \<Rightarrow> p b | _ \<Rightarrow> q)"
  by (cases v) auto

lemma only_fails_some [fails_intros]: "(\<And>x. x \<in> set xs \<Longrightarrow> only_fails (f x)) \<Longrightarrow> only_fails (some_res f xs)"
  by (induction xs) (auto intro!: fails_intros)

lemma only_fails_every [fails_intros]: "(\<And>x. x \<in> set xs \<Longrightarrow> only_fails (f x)) \<Longrightarrow> only_fails (every_res f xs)"
  by (induction xs) (auto intro!: fails_intros)

lemma coerce_fails [fails_intros]: "only_fails (coerce dp v dt)"
  unfolding coerce_def Let_def by (intro fails_intros)

lemma leaf_fails:
  assumes "validate_leaf l = Inr ()" and "field_text l"
  shows "only_fails (evaluate_leaf dp l raw dt)"
proof -
  have v: "only_fails (leaf_value l raw)"
    using assms(2) by (auto simp: leaf_value_def field_text_def Let_def intro: fails_intros)
  have x: "\<exists>xs. js_array (js_coalesce (prop_of l ''values'') (JArr [])) = Some xs"
    if "prop_of l ''operator'' = JStr ''IN'' \<or> prop_of l ''operator'' = JStr ''NOT_IN''"
    using assms(1) that
    by (auto simp: validate_leaf_def Let_def js_coalesce_def js_array_def split: if_splits jsval.splits)
  let ?in = "prop_of l ''operator'' = JStr ''IN'' \<or> prop_of l ''operator'' = JStr ''NOT_IN''"
  have n: "only_fails (if ?in then (case js_array (js_coalesce (prop_of l ''values'') (JArr [])) of
      None \<Rightarrow> Inl TypeErr | Some xs \<Rightarrow> k xs) else q)"
    if "\<And>xs. only_fails (k xs)" "only_fails q" for k q
    using x that by (cases ?in) auto
  show ?thesis
    unfolding evaluate_leaf_def Let_def by (intro only_fails_await v n fails_intros)
qed

lemma evaluate_fails:
  assumes "validate d c = Inr ()" and "d + n = 9"
    and "\<forall>l \<in> set (leaves (parse_condition n c)). field_text l"
  shows "only_fails (evaluate dp c raw dt)"
  using assms
proof (induction n arbitrary: d c)
  case 0
  then show ?case by (auto elim: validate_cases)
next
  case (Suc n)
  have d: "Suc d + n = 9" using Suc.prems(2) by simp
  from Suc.prems(1) show ?case
  proof (cases rule: validate_cases)
    case (leaf fs)
    with Suc.prems(3) show ?thesis by (auto simp: parse_shapes evaluate_group intro: leaf_fails)
  next
    case (negation fs)
    with Suc.prems(3) validated_truthy[OF negation(4)] Suc.IH[OF negation(4) d] show ?thesis
      by (auto simp: parse_shapes(2) evaluate_group(1) intro!: fails_intros)
  next
    case (conjunction fs xs)
    with Suc.prems(3) Suc.IH[OF _ d] show ?thesis
      by (auto simp: parse_shapes(3) evaluate_group(2) intro!: fails_intros)
  next
    case (disjunction fs xs)
    with Suc.prems(3) Suc.IH[OF _ d] show ?thesis
      by (auto simp: parse_shapes(4) evaluate_group(3) intro!: fails_intros)
  qed
qed

section \<open>The properties\<close>

text \<open>
  C22 Evaluating a validated condition computes a Boolean formula over its leaves: when every leaf has a value,
  \<open>evaluate\<close> returns the value of the formula, although it stops at the first child that decides a group.
\<close>
theorem evaluate_implements_formula:
  assumes "validate 0 c = Inr ()"
    and "\<forall>l \<in> set (leaves (formula c)). evaluate_leaf dp l raw dt = Inr (L l)"
  shows "evaluate dp c raw dt = Inr (holds L (formula c))"
  using evaluate_formula[of 0 c 9] assms by (simp add: formula_def)

definition sample_leaf1 :: jsval where
  "sample_leaf1 = JObj [(''operator'', JStr ''GREATER_THAN''), (''value'', JInt 5)]"

definition sample_leaf2 :: jsval where
  "sample_leaf2 = JObj [(''operator'', JStr ''IN''), (''values'', JArr [JInt 1, JInt 2])]"

definition sample_condition :: jsval where
  "sample_condition = JObj [(''all'', JArr [sample_leaf1, JObj [(''not'', sample_leaf2)]])]"

lemma sample_leaf_keys: "group_keys sample_leaf1 = []" "group_keys sample_leaf2 = []"
  "group_keys (JObj [(''not'', sample_leaf2)]) = [''not'']" "group_keys sample_condition = [''all'']"
  by (simp_all add: group_keys_def sample_leaf1_def sample_leaf2_def sample_condition_def)

lemma sample_formula:
  "formula sample_condition = CAll [CLeaf sample_leaf1, CNot (CLeaf sample_leaf2)]"
  using parse_shapes(3)[of 9 sample_condition "[sample_leaf1, JObj [(''not'', sample_leaf2)]]"]
    parse_shapes(1)[of 8 sample_leaf1] parse_shapes(1)[of 7 sample_leaf2] parse_shapes(2)[of 8 "JObj [(''not'', sample_leaf2)]"]
  by (simp add: formula_def sample_leaf_keys(1,2,3) sample_leaf_keys(4)[unfolded sample_condition_def] sample_condition_def)

lemma sample_leaf_valid: "validate_leaf sample_leaf1 = Inr ()" "validate_leaf sample_leaf2 = Inr ()"
  by (simp_all add: validate_leaf_def operators_def sample_leaf1_def sample_leaf2_def)

lemma sample_validated: "validate 0 sample_condition = Inr ()"
proof -
  have l: "validate (Suc 0) sample_leaf1 = Inr ()" "validate (Suc (Suc 0)) sample_leaf2 = Inr ()"
    using validate_object[of _ "[(''operator'', JStr ''GREATER_THAN''), (''value'', JInt 5)]", folded sample_leaf1_def]
      validate_object[of _ "[(''operator'', JStr ''IN''), (''values'', JArr [JInt 1, JInt 2])]", folded sample_leaf2_def]
      sample_leaf_keys sample_leaf_valid by simp_all
  then have "validate (Suc 0) (JObj [(''not'', sample_leaf2)]) = Inr ()"
    using validate_object[of "Suc 0" "[(''not'', sample_leaf2)]"] sample_leaf_keys(3) by simp
  with l show ?thesis
    using validate_object[of 0 "[(''all'', JArr [sample_leaf1, JObj [(''not'', sample_leaf2)]])]", folded sample_condition_def]
      sample_leaf_keys(4) by (simp add: sample_condition_def)
qed

lemma sample_leaf_values:
  "evaluate_leaf dp sample_leaf1 (JInt 7) (JStr ''DECIMAL'') = Inr True"
  "evaluate_leaf dp sample_leaf2 (JInt 7) (JStr ''DECIMAL'') = Inr False"
  by (simp_all add: evaluate_leaf_def sample_leaf1_def sample_leaf2_def leaf_value_def js_coalesce_def coerce_def
      number_of_def num_finite_def compare_def strict_eq_def js_less_def num_eq_def compare_op_def)

theorem evaluate_implements_formula_witness:
  "evaluate (\<lambda>_. None) sample_condition (JInt 7) (JStr ''DECIMAL'') = Inr True"
proof -
  have "\<forall>l \<in> set (leaves (formula sample_condition)).
      evaluate_leaf (\<lambda>_. None) l (JInt 7) (JStr ''DECIMAL'') = Inr (l = sample_leaf1)"
    using sample_leaf_values by (auto simp: sample_formula sample_leaf1_def sample_leaf2_def)
  from evaluate_implements_formula[OF sample_validated this]
  have "evaluate (\<lambda>_. None) sample_condition (JInt 7) (JStr ''DECIMAL'') = Inr (sample_leaf2 \<noteq> sample_leaf1)"
    by (simp add: sample_formula)
  then show ?thesis by (simp add: sample_leaf1_def sample_leaf2_def)
qed

text \<open>
  A validated condition nests at most eight groups deep, every group has one to fifty members, and every
  leaf passed the checks of its operator.
\<close>
theorem validated_condition_bounded:
  assumes "validate 0 c = Inr ()"
  shows "height (formula c) \<le> 8 \<and> widths_ok (formula c) \<and>
    (\<forall>l \<in> set (leaves (formula c)). validate_leaf l = Inr ())"
  using validated_shape[of 0 c 9] assms by (simp add: formula_def)

theorem validated_condition_bounded_witness: "height (formula sample_condition) \<le> 8 \<and> height (formula sample_condition) = 2"
  using validated_condition_bounded[OF sample_validated] by (simp add: sample_formula)

text \<open>
  Evaluating a validated condition whose field paths are texts never raises a type error, whatever the
  value: the only exceptions are the plain errors of coercion.
\<close>
theorem evaluation_errors:
  assumes "validate 0 c = Inr ()" and "\<forall>l \<in> set (leaves (formula c)). field_text l"
    and "evaluate dp c raw dt = Inl e"
  shows "\<exists>m. e = Failure m"
  using evaluate_fails[of 0 c 9] assms by (auto simp: formula_def only_fails_def)

theorem evaluation_errors_witness:
  "\<exists>m. evaluate (\<lambda>_. None) sample_condition (JStr ''x'') (JStr ''DECIMAL'') = Inl (Failure m)"
proof -
  have "\<exists>e. evaluate (\<lambda>_. None) sample_condition (JStr ''x'') (JStr ''DECIMAL'') = Inl e"
  proof -
    have n: "number_of (JStr ''x'') = NumNaN"
      by (simp add: number_of_def string_number_def Let_def radix_literal_def decimal_literal_def unsigned_literal_def
          is_digit_def is_space_def trim_def)
    have "\<exists>e. evaluate_leaf (\<lambda>_. None) sample_leaf1 (JStr ''x'') (JStr ''DECIMAL'') = Inl e"
      by (simp add: evaluate_leaf_def sample_leaf1_def leaf_value_def js_coalesce_def coerce_def n num_finite_def Let_def)
    then have "\<exists>e. evaluate (\<lambda>_. None) sample_leaf1 (JStr ''x'') (JStr ''DECIMAL'') = Inl e"
      using sample_leaf_keys(1) by (simp add: sample_leaf1_def evaluate_group(4))
    then show ?thesis
      using evaluate_group(2)[of "[(''all'', JArr [sample_leaf1, JObj [(''not'', sample_leaf2)]])]", folded sample_condition_def]
        sample_leaf_keys(4) by (auto simp: sample_condition_def)
  qed
  moreover have "\<forall>l \<in> set (leaves (formula sample_condition)). field_text l"
    by (simp add: sample_formula field_text_def sample_leaf1_def sample_leaf2_def)
  ultimately show ?thesis using evaluation_errors[OF sample_validated] by blast
qed

lemma some_res_not: "await (some_res f xs) (\<lambda>b. Inr (\<not> b)) = every_res (\<lambda>x. await (f x) (\<lambda>b. Inr (\<not> b))) xs"
proof (induction xs)
  case (Cons x xs)
  then show ?case by (cases "f x") auto
qed simp

text \<open>
  De Morgan's law holds exactly, errors and the order of evaluation included: negating an any-group is the
  all-group of the negated members.
\<close>
theorem not_any_is_all_not:
  assumes "\<forall>c \<in> set cs. truthy c"
  shows "evaluate dp (JObj [(''not'', JObj [(''any'', JArr cs)])]) raw dt =
    evaluate dp (JObj [(''all'', JArr (map (\<lambda>c. JObj [(''not'', c)]) cs))]) raw dt"
proof -
  have n: "evaluate dp (JObj [(''not'', c)]) raw dt = await (evaluate dp c raw dt) (\<lambda>b. Inr (\<not> b))" if "truthy c" for c
    using that by (subst evaluate_group(1)) (auto simp: group_keys_def)
  have a: "evaluate dp (JObj [(''any'', JArr cs)]) raw dt = some_res (\<lambda>x. evaluate dp x raw dt) cs"
    by (subst evaluate_group(3)) (auto simp: group_keys_def)
  have "evaluate dp (JObj [(''not'', JObj [(''any'', JArr cs)])]) raw dt =
      every_res (\<lambda>x. await (evaluate dp x raw dt) (\<lambda>b. Inr (\<not> b))) cs"
    by (simp add: n a some_res_not)
  also have "\<dots> = every_res (\<lambda>x. evaluate dp x raw dt) (map (\<lambda>c. JObj [(''not'', c)]) cs)"
    using assms by (induction cs) (simp_all add: n cong: if_cong)
  also have "\<dots> = evaluate dp (JObj [(''all'', JArr (map (\<lambda>c. JObj [(''not'', c)]) cs))]) raw dt"
    by (subst evaluate_group(2)) (auto simp: group_keys_def)
  finally show ?thesis .
qed

theorem not_any_is_all_not_witness:
  "evaluate (\<lambda>_. None) (JObj [(''not'', JObj [(''any'', JArr [sample_leaf1, sample_leaf2])])]) (JInt 7) (JStr ''DECIMAL'') =
   evaluate (\<lambda>_. None) (JObj [(''all'', JArr (map (\<lambda>c. JObj [(''not'', c)]) [sample_leaf1, sample_leaf2]))]) (JInt 7) (JStr ''DECIMAL'')"
  by (rule not_any_is_all_not) (simp add: sample_leaf1_def sample_leaf2_def)

end
