(* ===== verification/CreditProperties.thy ===== *)
theory CreditProperties
  imports CreditEvaluation ConditionProperties "HOL-Library.Sublist"
begin

text \<open>
  What a credit evaluation guarantees: the run of the rules as a pure function of their results, what an
  approval implies, the limits of an allocation, exclusive groups, and which evaluations finish.
\<close>

section \<open>The run of the rules as a function\<close>

fun rule_trace :: "credit_env \<Rightarrow> credit_db \<Rightarrow> nat \<Rightarrow> evaluate_dto \<Rightarrow> ai_result \<Rightarrow> credit_rule list \<Rightarrow> credit_context \<Rightarrow>
    credit_context res \<times> execution_step list" where
  "rule_trace E db i d ai [] cx = (Inr cx, [])"
| "rule_trace E db i d ai (r # rs) cx =
     (if in_group r (cx_groups cx) then rule_trace E db i d ai rs cx
      else let q = test_rule E db d ai r in
        case applyAction (rr_action q) (case rr_source q of None \<Rightarrow> JUndef | Some s \<Rightarrow> fst s) (ed_inputs d) (add_group r q cx) of
          Inl e \<Rightarrow> (Inl e, [])
        | Inr cx' \<Rightarrow>
            (let t = recordStep i r cx' (cx_limit cx) q in
             if stops r q cx' then (Inr cx', [t])
             else (case rule_trace E db i d ai rs cx' of (r', ts) \<Rightarrow> (r', t # ts))))"

lemma test_rule_cong: "db_integrations db' = db_integrations db \<Longrightarrow> test_rule E db' d ai r = test_rule E db d ai r"
proof -
  assume i: "db_integrations db' = db_integrations db"
  have "getIntegration db' = getIntegration db" by (rule ext) (simp only: getIntegration_def i)
  then show ?thesis by (simp only: test_rule_def readSource_def)
qed

lemma rule_trace_cong: "db_integrations db' = db_integrations db \<Longrightarrow> rule_trace E db' i d ai rs cx = rule_trace E db i d ai rs cx"
proof -
  assume i: "db_integrations db' = db_integrations db"
  show ?thesis by (induction rs arbitrary: cx) (simp_all only: rule_trace.simps test_rule_cong[OF i])
qed

abbreviation add_steps :: "execution_step list \<Rightarrow> credit_db \<Rightarrow> credit_db" where
  "add_steps ts db \<equiv> db\<lparr>db_steps := db_steps db @ ts\<rparr>"

lemma run_rules_is_trace:
  "run_rules E i d ai rs cx db = (fst (rule_trace E db i d ai rs cx), add_steps (snd (rule_trace E db i d ai rs cx)) db)"
proof (induction rs arbitrary: cx db)
  case (Cons r rs)
  show ?case
  proof (cases "in_group r (cx_groups cx)")
    case False
    let ?q = "test_rule E db d ai r"
    let ?a = "applyAction (rr_action ?q) (case rr_source ?q of None \<Rightarrow> JUndef | Some s \<Rightarrow> fst s) (ed_inputs d) (add_group r ?q cx)"
    show ?thesis
    proof (cases ?a)
      case (Inl e)
      with False show ?thesis by (simp add: act_then_run Let_def)
    next
      case (Inr cx')
      then show ?thesis
        using False Cons.IH
        by (auto simp: act_then_run Let_def rule_trace_cong[of "add_steps _ db" db] split: prod.splits)
    qed
  qed (simp add: Cons.IH)
qed simp

section \<open>What the evaluation keeps\<close>

definition same_core :: "credit_db \<Rightarrow> credit_db \<Rightarrow> bool" where
  "same_core s t \<longleftrightarrow> db_executions t = db_executions s \<and> db_masters t = db_masters s \<and> db_rules t = db_rules s \<and>
     db_bindings t = db_bindings s \<and> db_integrations t = db_integrations s \<and> db_steps t = db_steps s"

interpretation same_core: chaining same_core
  by unfold_locales (auto simp: same_core_def)

lemma keeps_store_snapshot: "keeps same_core (act_write (\<lambda>db. snd (store_snapshot n db)))"
  by (rule keepsI) (auto simp: same_core_def store_snapshot_def Let_def split: option.splits)

lemma keeps_resolveScore: "keeps same_core (resolveScore E d)"
proof -
  have s: "keeps same_core (saveSnapshot E c p r)" for c p r
    unfolding saveSnapshot_def by (intro same_core.keeps_rules keeps_store_snapshot)
  show ?thesis
    unfolding resolveScore_def Let_def
    by (intro same_core.keeps_rules) (auto intro!: same_core.keeps_rules s split: option.splits)
qed

lemma act_catchE:
  assumes "act_then (act_catch m h) k s = (r, t)"
  obtains x u where "m s = (Inr x, u)" "k x u = (r, t)"
  | e u where "m s = (Inl e, u)" "act_then (h e) k u = (r, t)"
  using assms by (auto simp: act_then_def act_catch_def split: prod.splits sum.splits)

text \<open>How an evaluation ends.\<close>

definition decided :: "credit_env \<Rightarrow> nat \<Rightarrow> evaluate_dto \<Rightarrow> credit_db \<Rightarrow> master_rule \<Rightarrow> ai_result \<Rightarrow> credit_context \<Rightarrow>
    execution_step list \<Rightarrow> bool" where
  "decided E i d db m ai cx ts \<longleftrightarrow> findMaster E d ai db = Some m \<and>
     prop_of (ed_inputs d) ''grade'' = JStr (ai_category ai) \<and>
     rule_trace E db i d ai (master_rules m db) (initial_context m) = (Inr cx, ts)"

definition decision_of :: "credit_db \<Rightarrow> evaluate_dto \<Rightarrow> master_rule \<Rightarrow> credit_context \<Rightarrow> execution \<Rightarrow> bool" where
  "decision_of db d m cx x \<longleftrightarrow>
     (let al = allocated_limit m cx; av = available_limit d al;
          fin = check_binding d (commercial_binding d db) (decide_outcome m d al av cx)
      in ex_allocated x = Some al \<and> ex_available x = Some av \<and> ex_outcome x = cx_outcome fin \<and>
         ex_reasons x = js_set (cx_reasons fin) \<and> ex_completed x \<noteq> None)"

lemma findMaster_cong: "db_masters db' = db_masters db \<Longrightarrow> findMaster E d ai db' = findMaster E d ai db"
  by (simp add: findMaster_def)

lemma update_last:
  assumes "i \<notin> ex_id ` set xs" and "ex_id x = i"
  shows "map (\<lambda>y. if ex_id y = i then f y else y) (xs @ [x]) = xs @ [f x]"
proof -
  have "map (\<lambda>y. if ex_id y = i then f y else y) xs = xs"
    using assms(1) by (intro map_idI) (auto simp: image_iff)
  with assms(2) show ?thesis by simp
qed

lemma decide_credit_ends:
  assumes run: "decide_credit E i d ai snap m s = (r, t)"
    and ex: "db_executions s = xs @ [x]" "i \<notin> ex_id ` set xs" "ex_id x = i" "ex_outcome x = Processing" "ex_completed x = None"
  obtains (failed) y e ts where "r = Inl e" "db_executions t = xs @ [y]" "ex_id y = i" "ex_outcome y = Processing"
      "ex_completed y = None" "rule_trace E s i d ai (master_rules m s) (initial_context m) = (Inl e, ts)"
  | (finished) y cx ts where "r = Inr ()" "db_executions t = xs @ [y]" "ex_id y = i"
      "rule_trace E s i d ai (master_rules m s) (initial_context m) = (Inr cx, ts)" "db_steps t = db_steps s @ ts"
      "decision_of s d m cx y"
proof -
  define y where "y = x\<lparr>ex_master := Some (mr_id m, mr_code m, mr_version m), ex_snapshot := snap,
      ex_score := Some (ai_score ai), ex_category := Some (ai_category ai)\<rparr>"
  define u where "u = s\<lparr>db_executions := xs @ [y]\<rparr>"
  have y: "ex_id y = i" "ex_outcome y = Processing" "ex_completed y = None" using ex by (simp_all add: y_def)
  have u: "update_execution i (\<lambda>x. x\<lparr>ex_master := Some (mr_id m, mr_code m, mr_version m), ex_snapshot := snap,
      ex_score := Some (ai_score ai), ex_category := Some (ai_category ai)\<rparr>) s = u"
    using ex by (simp add: update_execution_def u_def y_def update_last del: map_append)
  have int: "db_integrations u = db_integrations s" by (simp add: u_def)
  have c: "master_rules m u = master_rules m s" "rule_trace E u i d ai rs cx = rule_trace E s i d ai rs cx"
    "commercial_binding d (add_steps ts u) = commercial_binding d s" for rs cx ts
    by (simp add: master_rules_def u_def, rule rule_trace_cong[OF int], simp add: commercial_binding_def u_def)
  obtain q ts where q: "rule_trace E s i d ai (master_rules m s) (initial_context m) = (q, ts)" by fastforce
  show thesis
  proof (cases q)
    case (Inl e)
    with run q u have "r = Inl e" "t = add_steps ts u"
      by (auto simp: decide_credit_def act_then_run run_rules_is_trace c)
    then show thesis using y q Inl by (intro failed[of e y ts]) (simp_all add: u_def)
  next
    case (Inr cx)
    define al where "al = allocated_limit m cx"
    define fin where "fin = check_binding d (commercial_binding d s) (decide_outcome m d al (available_limit d al) cx)"
    define z where "z = y\<lparr>ex_allocated := Some al, ex_available := Some (available_limit d al),
        ex_options := js_set (cx_options fin), ex_outcome := cx_outcome fin, ex_reasons := js_set (cx_reasons fin),
        ex_completed := Some (ev_now E)\<rparr>"
    have "r = Inr () \<and> t = update_execution i (\<lambda>x. x\<lparr>ex_allocated := Some al, ex_available := Some (available_limit d al),
        ex_options := js_set (cx_options fin), ex_outcome := cx_outcome fin, ex_reasons := js_set (cx_reasons fin),
        ex_completed := Some (ev_now E)\<rparr>) (add_steps ts u)"
      using run q Inr u by (auto simp: decide_credit_def act_then_run run_rules_is_trace c Let_def al_def fin_def)
    moreover from this have "db_executions t = xs @ [z]"
      using ex y by (simp add: update_execution_def u_def z_def update_last del: map_append)
    moreover have "decision_of s d m cx z"
      by (simp add: decision_of_def Let_def z_def al_def fin_def)
    ultimately show thesis
      using y q Inr by (intro finished[of z cx ts]) (simp_all add: z_def u_def update_execution_def)
  qed
qed

lemma run_evaluation_ends:
  assumes run: "run_evaluation E i d db = (r, db')" and fresh: "i \<notin> ex_id ` set (db_executions db)"
  obtains (refused) e where "r = Inl e" "db' = db" "ed_master d \<noteq> None" "\<not> ed_simulation d"
  | (failed) x e m ai ts where "r = Inl e" "db_executions db' = db_executions db @ [x]" "ex_id x = i" "ex_outcome x = Processing"
      "ex_completed x = None" "rule_trace E db i d ai (master_rules m db) (initial_context m) = (Inl e, ts)"
  | (early) x where "r = Inr ()" "db_executions db' = db_executions db @ [x]" "ex_id x = i"
      "ex_outcome x \<in> {RescoreRequired, NoMasterRule, ManualReview}" "ex_completed x \<noteq> None" "ex_allocated x = None"
  | (finished) x m ai cx ts where "r = Inr ()" "db_executions db' = db_executions db @ [x]" "ex_id x = i"
      "decided E i d db m ai cx ts" "decision_of db d m cx x" "db_steps db' = db_steps db @ ts"
proof (cases "ed_master d \<noteq> None \<and> \<not> ed_simulation d")
  case True
  with run show thesis by (intro refused) (auto simp: run_evaluation_def act_then_run act_refuse_def)
next
  case False
  define s where "s = db\<lparr>db_executions := db_executions db @ [new_execution i d]\<rparr>"
  let ?n = "new_execution i d"
  have n: "ex_id ?n = i" "ex_outcome ?n = Processing" "ex_completed ?n = None" "ex_allocated ?n = None"
    by (simp_all add: new_execution_def)
  have "\<not> (\<lambda>_. ed_master d \<noteq> None \<and> \<not> ed_simulation d) db" using False by simp
  from run[unfolded run_evaluation_def act_then_accept[of "\<lambda>_. ed_master d \<noteq> None \<and> \<not> ed_simulation d", OF this]]
  have run: "act_then (act_catch (act_then (resolveScore E d) (\<lambda>x. act_ok (Some x)))
      (\<lambda>_. act_then (finishFailure E i RescoreRequired ''AI_SCORE_UNAVAILABLE'') (\<lambda>_. act_ok None)))
      (after_score E i d) s = (r, db')" by (simp add: act_then_run[of "act_write _"] s_def)
  obtain q u where q: "resolveScore E d s = (q, u)" by fastforce
  have core: "same_core s u" using keepsD[OF keeps_resolveScore q] .
  then have u: "db_executions u = db_executions db @ [?n]" "db_masters u = db_masters db" "db_steps u = db_steps db"
    "master_rules m u = master_rules m db" "rule_trace E u i d ai rs cx = rule_trace E db i d ai rs cx"
    "commercial_binding d u = commercial_binding d db" for m rs cx ai
    by (simp_all add: same_core_def s_def master_rules_def commercial_binding_def rule_trace_cong[of u db])
  have upd: "db_executions (update_execution i f u) = db_executions db @ [f ?n]" for f
    using fresh n u(1) by (simp add: update_execution_def update_last del: map_append)
  show thesis
  proof (cases q)
    case (Inl e)
    with run q have "r = Inr () \<and> db' = update_execution i (\<lambda>x. x\<lparr>ex_outcome := RescoreRequired,
        ex_reasons := [JStr ''AI_SCORE_UNAVAILABLE''], ex_completed := Some (ev_now E)\<rparr>) u"
      by (auto simp: act_then_run act_catch_def finishFailure_def after_score_def)
    then show thesis using n upd by (intro early[of "?n\<lparr>ex_outcome := RescoreRequired,
        ex_reasons := [JStr ''AI_SCORE_UNAVAILABLE''], ex_completed := Some (ev_now E)\<rparr>"]) simp_all
  next
    case (Inr sc)
    obtain ai snap where sc: "sc = (ai, snap)" by (cases sc)
    have run': "(case findMaster E d ai u of
          None \<Rightarrow> act_write (update_execution i (\<lambda>x. x\<lparr>ex_snapshot := snap, ex_score := Some (ai_score ai),
              ex_category := Some (ai_category ai), ex_outcome := NoMasterRule,
              ex_reasons := [JStr ''NO_APPLICABLE_MASTER_RULE''], ex_completed := Some (ev_now E)\<rparr>))
        | Some m \<Rightarrow> if prop_of (ed_inputs d) ''grade'' \<noteq> JStr (ai_category ai)
             then finishFailure E i ManualReview ''SCORE_GRADE_MISMATCH''
             else decide_credit E i d ai snap m) u = (r, db')"
      using run q Inr sc by (simp add: act_then_run act_catch_def after_score_def)
    show thesis
    proof (cases "findMaster E d ai u")
      case None
      then show thesis using run' n
        by (intro early[of "?n\<lparr>ex_snapshot := snap, ex_score := Some (ai_score ai), ex_category := Some (ai_category ai),
          ex_outcome := NoMasterRule, ex_reasons := [JStr ''NO_APPLICABLE_MASTER_RULE''], ex_completed := Some (ev_now E)\<rparr>"])
          (auto simp: upd)
    next
      case (Some m)
      show thesis
      proof (cases "prop_of (ed_inputs d) ''grade'' = JStr (ai_category ai)")
        case False
        then show thesis using run' Some n
          by (intro early[of "?n\<lparr>ex_outcome := ManualReview, ex_reasons := [JStr ''SCORE_GRADE_MISMATCH''],
            ex_completed := Some (ev_now E)\<rparr>"]) (auto simp: finishFailure_def upd)
      next
        case True
        with run' Some have "decide_credit E i d ai snap m u = (r, db')" by simp
        from this u(1) fresh n(1,2,3) show thesis
        proof (cases rule: decide_credit_ends)
          case (failed y e ts)
          then show thesis using u by (intro that(2)[of e y ai m ts]) simp_all
        next
          case (finished y cx ts)
          moreover have "findMaster E d ai db = Some m" using Some findMaster_cong[OF u(2)] by simp
          ultimately show thesis using True u
            by (intro that(4)[of y m ai cx ts]) (simp_all add: decided_def decision_of_def)
        qed
      qed
    qed
  qed
qed

section \<open>Facts about a run of the rules\<close>

lemma applyAction_outcome:
  "applyAction a src inp cx = Inr cx' \<Longrightarrow> cx_outcome cx' \<in> {cx_outcome cx, OutRejected, ManualReview}"
  by (auto simp: applyAction_def res_simps)

lemma applyAction_groups: "applyAction a src inp cx = Inr cx' \<Longrightarrow> cx_groups cx' = cx_groups cx"
  by (auto simp: applyAction_def res_simps)

lemma add_group_outcome [simp]: "cx_outcome (add_group r q cx) = cx_outcome cx"
  by (auto simp: add_group_def split: option.splits)

text \<open>The first rule of a trace, taken apart.\<close>

lemma rule_trace_ConsE:
  assumes "rule_trace E db i d ai (r # rs) cx = (res, ts)"
  obtains (skipped) "in_group r (cx_groups cx)" "rule_trace E db i d ai rs cx = (res, ts)"
  | (threw) e where "\<not> in_group r (cx_groups cx)" "res = Inl e" "ts = []"
  | (stopped) q cx' src where "\<not> in_group r (cx_groups cx)" "q = test_rule E db d ai r"
      "applyAction (rr_action q) src (ed_inputs d) (add_group r q cx) = Inr cx'" "stops r q cx'"
      "res = Inr cx'" "ts = [recordStep i r cx' (cx_limit cx) q]"
  | (continued) q cx' src ts' where "\<not> in_group r (cx_groups cx)" "q = test_rule E db d ai r"
      "applyAction (rr_action q) src (ed_inputs d) (add_group r q cx) = Inr cx'" "\<not> stops r q cx'"
      "rule_trace E db i d ai rs cx' = (res, ts')" "ts = recordStep i r cx' (cx_limit cx) q # ts'"
proof (cases "in_group r (cx_groups cx)")
  case True
  with assms skipped show thesis by simp
next
  case False
  let ?q = "test_rule E db d ai r"
  let ?src = "case rr_source ?q of None \<Rightarrow> JUndef | Some s \<Rightarrow> fst s"
  show thesis
  proof (cases "applyAction (rr_action ?q) ?src (ed_inputs d) (add_group r ?q cx)")
    case (Inl e)
    with assms False show thesis by (intro threw[of e]) (auto simp: Let_def)
  next
    case (Inr cx')
    show thesis
    proof (cases "stops r ?q cx'")
      case True
      with assms False Inr show thesis by (intro stopped[OF False refl Inr]) (auto simp: Let_def)
    next
      case no: False
      obtain res' ts' where t: "rule_trace E db i d ai rs cx' = (res', ts')" by fastforce
      with assms False Inr no show thesis by (intro continued[OF False refl Inr no]) (auto simp: Let_def)
    qed
  qed
qed

lemma rule_trace_outcome:
  "rule_trace E db i d ai rs cx = (Inr cx', ts) \<Longrightarrow> cx_outcome cx \<in> {Processing, OutRejected, ManualReview} \<Longrightarrow>
     cx_outcome cx' \<in> {Processing, OutRejected, ManualReview}"
proof (induction rs arbitrary: cx ts)
  case (Cons r rs)
  from Cons.prems(1) show ?case
  proof (cases rule: rule_trace_ConsE)
    case skipped
    with Cons show ?thesis by blast
  next
    case (stopped q cx'' src)
    with Cons.prems(2) applyAction_outcome[OF stopped(3)] show ?thesis by auto
  next
    case (continued q cx'' src ts')
    with Cons.prems(2) applyAction_outcome[OF continued(3)] have "cx_outcome cx'' \<in> {Processing, OutRejected, ManualReview}"
      by auto
    with Cons.IH[OF continued(5)] show ?thesis by blast
  qed simp
qed simp

text \<open>The steps follow the order of the rules, and only the last one may have decided.\<close>

lemma rule_trace_order:
  "rule_trace E db i d ai rs cx = (res, ts) \<Longrightarrow> cx_outcome cx = Processing \<Longrightarrow>
     subseq (map es_rule ts) (map cr_id rs) \<and> (\<forall>t \<in> set (butlast ts). es_outcome t = None)"
proof (induction rs arbitrary: cx ts)
  case (Cons r rs)
  from Cons.prems(1) show ?case
  proof (cases rule: rule_trace_ConsE)
    case skipped
    from Cons.IH[OF skipped(2) Cons.prems(2)] show ?thesis by (auto intro: list_emb_Cons)
  next
    case (stopped q cx'' src)
    then show ?thesis by (simp add: recordStep_def)
  next
    case (continued q cx'' src ts')
    then have p: "cx_outcome cx'' = Processing"
      using applyAction_outcome[OF continued(3)] Cons.prems(2) by (auto simp: stops_def)
    from Cons.IH[OF continued(5) p] show ?thesis by (simp add: continued(6) recordStep_def p)
  qed simp
qed simp

text \<open>A group that has matched is skipped from then on.\<close>

definition matches_group :: "credit_rule list \<Rightarrow> string \<Rightarrow> execution_step \<Rightarrow> bool" where
  "matches_group rs g t \<longleftrightarrow> es_result t = Some True \<and> (\<exists>r \<in> set rs. cr_id r = es_rule t \<and> cr_group r = Some g)"

lemma add_group_groups: "set (cx_groups (add_group r q cx)) =
    (case cr_group r of Some g \<Rightarrow> if rr_matched q = Some True \<and> g \<noteq> [] then insert g (set (cx_groups cx)) else set (cx_groups cx)
       | None \<Rightarrow> set (cx_groups cx))"
  by (auto simp: add_group_def split: option.splits)

lemma rule_trace_ids: "rule_trace E db i d ai rs cx = (res, ts) \<Longrightarrow> t \<in> set ts \<Longrightarrow> es_rule t \<in> cr_id ` set rs"
proof (induction rs arbitrary: cx ts)
  case (Cons r rs)
  from Cons.prems(1) show ?case
  proof (cases rule: rule_trace_ConsE)
    case skipped
    with Cons show ?thesis by auto
  next
    case (continued q cx'' src ts')
    with Cons.IH[OF continued(5)] Cons.prems(2) show ?thesis by (auto simp: recordStep_def)
  qed (use Cons.prems(2) in \<open>auto simp: recordStep_def\<close>)
qed simp

lemma rule_trace_groups:
  assumes "distinct (map cr_id rs)" and "g \<noteq> []"
  shows "rule_trace E db i d ai rs cx = (res, ts) \<Longrightarrow>
     length (filter (matches_group rs g) ts) \<le> (if g \<in> set (cx_groups cx) then 0 else 1)"
  using assms(1)
proof (induction rs arbitrary: cx ts)
  case (Cons r rs)
  have tail: "filter (matches_group (r # rs) g) ts' = filter (matches_group rs g) ts'"
    if "rule_trace E db i d ai rs c = (x, ts')" for c x ts'
  proof (rule filter_cong[OF refl])
    fix t assume "t \<in> set ts'"
    from rule_trace_ids[OF that this] Cons.prems(2) have "es_rule t \<noteq> cr_id r" by auto
    then show "matches_group (r # rs) g t = matches_group rs g t" by (auto simp: matches_group_def)
  qed
  have dist: "distinct (map cr_id rs)" using Cons.prems(2) by simp
  have head: "matches_group (r # rs) g (recordStep i r c b q) \<longleftrightarrow> rr_matched q = Some True \<and> cr_group r = Some g" for c b q
    using Cons.prems(2) by (auto simp: matches_group_def recordStep_def image_iff)
  from Cons.prems(1) show ?case
  proof (cases rule: rule_trace_ConsE)
    case skipped
    with Cons.IH[OF skipped(2) dist] tail[OF skipped(2)] show ?thesis by simp
  next
    case (stopped q cx'' src)
    then show ?thesis using assms(2) by (auto simp: head in_group_def)
  next
    case (continued q cx'' src ts')
    have gs: "set (cx_groups cx'') = set (cx_groups (add_group r q cx))"
      by (simp add: applyAction_groups[OF continued(3)])
    from Cons.IH[OF continued(5) dist] show ?thesis
      using continued(1) assms(2)
      by (auto simp: continued(6) tail[OF continued(5)] head gs add_group_groups in_group_def split: if_splits option.splits)
  qed simp
qed simp

section \<open>Limits\<close>

lemma num_of_number: "num_of x \<noteq> NumNaN"
  by (auto simp: num_of_def nearest_double_def Let_def split: jsnum.splits)

lemma credit_money_number: "credit_money n \<noteq> NumNaN"
proof -
  have r: "num_round m \<noteq> NumNaN" if "m \<noteq> NumNaN" for m using that num_of_number by (cases m) auto
  have v: "num_div100 m \<noteq> NumNaN" if "m \<noteq> NumNaN" for m using that num_of_number by (cases m) auto
  define k where "k = num_max (NumFin 0) (if num_finite n then n else NumFin 0)"
  have "num_finite k" by (cases n) (auto simp: k_def num_max_def num_finite_def)
  then have "num_mul k (NumFin 100) \<noteq> NumNaN" using num_of_number by (cases k) (auto simp: num_finite_def)
  with r v show ?thesis by (simp add: credit_money_def flip: k_def)
qed

lemma allocated_bounds:
  "num_le (NumFin 0) (allocated_limit m cx)"
  "num_le (NumFin 0) (num_of (mr_maxLimit m)) \<Longrightarrow> num_le (allocated_limit m cx) (num_of (mr_maxLimit m))"
proof -
  let ?x = "num_min (num_of (mr_maxLimit m)) (credit_money (cx_limit cx))"
  have n: "?x \<noteq> NumNaN" using num_of_number credit_money_number by (simp add: num_min_def)
  show "num_le (NumFin 0) (allocated_limit m cx)" using num_max_ge[of "NumFin 0" ?x] n by (simp add: allocated_limit_def)
  assume "num_le (NumFin 0) (num_of (mr_maxLimit m))"
  with num_min_le[of "num_of (mr_maxLimit m)" "credit_money (cx_limit cx)"] num_of_number credit_money_number n
  show "num_le (allocated_limit m cx) (num_of (mr_maxLimit m))" by (simp add: allocated_limit_def num_max_def)
qed

lemma available_nonneg: "num_le (NumFin 0) (available_limit d al)"
  using num_max_ge[of "NumFin 0" "credit_money (num_sub (num_sub al (ed_exposure d)) (ed_pending d))"] credit_money_number
  by (simp add: available_limit_def)

section \<open>Decisions\<close>

lemma findMaster_facts:
  assumes "findMaster E d ai db = Some m"
  shows "m \<in> set (db_masters db)" and "master_matches d ai m" and "\<not> ed_simulation d \<Longrightarrow> mr_status m = MActive"
  using least_by_mem[OF assms[unfolded findMaster_def]] by auto

lemma decide_approved:
  assumes "cx_outcome (check_binding d bound (decide_outcome m d al av cx)) = AutoApproved"
    and "cx_outcome cx \<in> {Processing, OutRejected, ManualReview}"
  shows "mr_autoApproval m \<and> \<not> num_lt al (num_of (mr_minLimit m)) \<and> \<not> num_le av (NumFin 0) \<and> num_le (ed_requested d) av \<and>
     (\<not> ed_simulation d \<longrightarrow> bound)"
  using assms by (auto simp: check_binding_def decide_outcome_def split: if_splits default_outcome.splits)

lemma the_execution:
  assumes "db_executions db' = db_executions db @ [y]" and "i \<notin> ex_id ` set (db_executions db)"
    and "x \<in> set (db_executions db')" and "ex_id x = i"
  shows "x = y"
  using assms by auto

lemma evaluated_decision:
  assumes "run_evaluation E i d db = (r, db')" and "i \<notin> ex_id ` set (db_executions db)"
    and "x \<in> set (db_executions db')" and "ex_id x = i" and "ex_outcome x \<in> {AutoApproved, CounterOffer} \<or> ex_allocated x \<noteq> None \<and> r = Inr ()"
  obtains m ai cx ts where "decided E i d db m ai cx ts" "decision_of db d m cx x" "db_steps db' = db_steps db @ ts"
    "cx_outcome cx \<in> {Processing, OutRejected, ManualReview}"
  using assms(1,2)
proof (cases rule: run_evaluation_ends)
  case (finished y m ai cx ts)
  moreover have "x = y" by (rule the_execution[OF finished(2) assms(2-4)])
  moreover have "cx_outcome cx \<in> {Processing, OutRejected, ManualReview}"
    using finished(4) by (intro rule_trace_outcome[of E db i d ai "master_rules m db" "initial_context m" cx ts])
      (auto simp: decided_def initial_context_def)
  ultimately show thesis using that by blast
next
  case (failed y e m ai ts)
  with the_execution[OF failed(2) assms(2-4)] assms(5) show thesis by auto
next
  case (early y)
  with the_execution[OF early(2) assms(2-4)] assms(5) show thesis by auto
next
  case (refused e)
  with assms(2-4) show thesis by auto
qed



text \<open>
  C30 The rules of a run are tried in the order of their priorities, a step that rejects or asks for a manual
  review is the last one, and of an exclusive group at most one rule matches.
\<close>
theorem rules_run_in_order:
  assumes "run_rules E i d ai (master_rules m db) (initial_context m) db = (r, db')"
    and "distinct (map cr_id (db_rules db))"
  shows "\<exists>ts. db_steps db' = db_steps db @ ts \<and>
     subseq (map es_rule ts) (map cr_id (master_rules m db)) \<and>
     sorted (map cr_priority (master_rules m db)) \<and>
     (\<forall>t \<in> set (butlast ts). es_outcome t = None) \<and>
     (\<forall>g. g \<noteq> [] \<longrightarrow> length (filter (matches_group (master_rules m db) g) ts) \<le> 1)"
proof -
  obtain q ts where t: "rule_trace E db i d ai (master_rules m db) (initial_context m) = (q, ts)" by fastforce
  have "distinct (map cr_id (filter P (db_rules db)))" for P
    using assms(2) by (rule distinct_map_filter)
  then have dist: "distinct (map cr_id (master_rules m db))"
    by (simp add: master_rules_def distinct_map)
  have "length (filter (matches_group (master_rules m db) g) ts) \<le> 1" if "g \<noteq> []" for g
    using rule_trace_groups[OF dist that t] by (simp add: initial_context_def)
  moreover have "db_steps db' = db_steps db @ ts" using assms(1) t by (auto simp: run_rules_is_trace)
  moreover have "sorted (map cr_priority (master_rules m db))" by (simp add: master_rules_def)
  ultimately show ?thesis
    using rule_trace_order[OF t] by (auto simp: initial_context_def)
qed

end
