(* ===== verification/CreditSamples.thy ===== *)
theory CreditSamples
  imports CreditProperties
begin

text \<open>
  A concrete credit request, for evaluating the definitions: a score of seven in category A, a master rule
  with a base limit of 5,000 and one rule that adds 1,000.
\<close>

definition sample_env :: credit_env where
  "sample_env = \<lparr>ev_now = 1000, ev_http = (\<lambda>h c. Inl (Failure ''unreachable'')), ev_rows = (\<lambda>q c. Inr []),
     ev_dates = (\<lambda>s. None), ev_dateText = (\<lambda>t. [])\<rparr>"

definition sample_ai :: ai_result where
  "sample_ai = \<lparr>ai_score = NumFin 7, ai_category = ''A'', ai_modelId = None, ai_modelVersion = None,
     ai_scoredAt = None, ai_expiresAt = None, ai_referenceId = None\<rparr>"

definition sample_inputs :: jsval where
  "sample_inputs = JObj [(''grade'', JStr ''A''), (''countryCode'', JStr ''UGA''), (''channel'', JStr ''APP'')]"

definition sample_dto :: evaluate_dto where
  "sample_dto = \<lparr>ed_customer = ''c'', ed_application = None, ed_product = ''P'', ed_currency = Some ''UGX'',
     ed_requested = NumFin 2500, ed_exposure = NumFin 1000, ed_pending = NumFin 0, ed_aiResult = Some sample_ai,
     ed_provider = None, ed_forceRescore = False, ed_simulation = False, ed_master = None, ed_inputs = sample_inputs\<rparr>"

definition sample_master :: master_rule where
  "sample_master = \<lparr>mr_id = 1, mr_code = ''R'', mr_version = 1, mr_name = ''R'', mr_category = ''A'', mr_product = ''P'',
     mr_currency = None, mr_minScore = None, mr_maxScore = None, mr_baseLimit = 5000, mr_minLimit = 100,
     mr_maxLimit = 10000, mr_defaultOutcome = DefaultRejected, mr_autoApproval = True, mr_options = [],
     mr_provider = None, mr_status = MActive, mr_from = None, mr_to = None, mr_createdBy = ''ann'', mr_updatedBy = None,
     mr_approvedBy = Some ''bob'', mr_activatedBy = Some ''bob'', mr_rejection = None\<rparr>"

definition action :: "string \<Rightarrow> (string \<times> jsval) list \<Rightarrow> jsval" where
  "action t fs = JObj ((''type'', JStr t) # fs)"

definition sample_rule :: "jsval \<Rightarrow> jsval \<Rightarrow> credit_rule" where
  "sample_rule match failure = \<lparr>cr_id = 1, cr_master = 1, cr_name = ''score'', cr_description = None, cr_priority = 1,
     cr_group = None, cr_source = AiResultSource, cr_field = Some ''score'', cr_schema = None, cr_table = None,
     cr_lookup = None, cr_value = None, cr_mode = None, cr_order = None, cr_integration = None, cr_path = None,
     cr_dataType = ''DECIMAL'', cr_condition = sample_leaf1, cr_onMatch = match, cr_onNoMatch = action ''REJECT'' [],
     cr_onFailure = failure, cr_stopOnMatch = False, cr_stopOnNoMatch = False, cr_active = True\<rparr>"

definition sample_db :: "credit_rule \<Rightarrow> credit_db" where
  "sample_db r = \<lparr>db_masters = [sample_master], db_rules = [r], db_changes = [], db_integrations = [], db_providers = [],
     db_snapshots = [], db_executions = [], db_steps = [], db_bindings = [\<lparr>pb_product = ''P'', pb_country = ''UGA'',
       pb_currency = ''UGX'', pb_channel = None, pb_active = True, pb_lenderActive = True\<rparr>], db_next = 2\<rparr>"

definition adding :: jsval where
  "adding = action ''ADD_LIMIT_FIXED'' [(''value'', JInt 1000)]"

definition adding_rule :: credit_rule where
  "adding_rule = sample_rule adding (action ''MANUAL_REVIEW'' [])"

lemma sample_findMaster: "findMaster sample_env sample_dto sample_ai (sample_db r) = Some sample_master"
  by (simp add: findMaster_def sample_db_def master_matches_def sample_master_def sample_dto_def sample_ai_def
      upper_def up_char_def is_lower_def)

lemma sample_master_rules: "cr_master r = 1 \<Longrightarrow> cr_active r \<Longrightarrow> master_rules sample_master (sample_db r) = [r]"
  by (simp add: master_rules_def sample_db_def sample_master_def)

lemma sample_read: "readPath (ai_json sample_ai) ''score'' = JInt 7"
  by (simp add: readPath_def readField_def js_member_def ai_json_def sample_ai_def)

lemma sample_test:
  "test_rule sample_env db sample_dto sample_ai (sample_rule a f) =
     \<lparr>rr_source = Some (JInt 7, ''aiResult.score''), rr_matched = Some True, rr_action = a, rr_error = None\<rparr>"
proof -
  have e: "evaluate dp sample_leaf1 (JInt 7) (JStr ''DECIMAL'') = Inr True" for dp
    using evaluate_group(4)[of "[(''operator'', JStr ''GREATER_THAN''), (''value'', JInt 5)]", folded sample_leaf1_def]
      sample_leaf_keys(1) sample_leaf_values(1) by simp
  show ?thesis
    unfolding test_rule_def readSource_def by (simp add: sample_rule_def default_text_def sample_read e[simplified])
qed

definition sample_context :: credit_context where
  "sample_context = \<lparr>cx_limit = NumFin 6000, cx_outcome = Processing, cx_reasons = [], cx_options = [], cx_groups = []\<rparr>"

lemma sample_trace:
  "\<exists>ts. rule_trace sample_env (sample_db adding_rule) 1 sample_dto sample_ai [adding_rule] (initial_context sample_master)
     = (Inr sample_context, ts)"
proof -
  have g: "cr_group adding_rule = None" by (simp add: adding_rule_def sample_rule_def)
  have n: "\<not> stops adding_rule \<lparr>rr_source = s, rr_matched = Some True, rr_action = a, rr_error = None\<rparr> sample_context" for s a
    by (simp add: stops_def sample_context_def adding_rule_def sample_rule_def)
  have a: "applyAction adding src inp (initial_context sample_master) = Inr sample_context" for src inp
    by (simp add: adding_def applyAction_def action_def js_get_def new_limit_def Let_def number_of_def initial_context_def
        sample_master_def sample_context_def)
  have t: "test_rule sample_env (sample_db adding_rule) sample_dto sample_ai adding_rule =
      \<lparr>rr_source = Some (JInt 7, ''aiResult.score''), rr_matched = Some True, rr_action = adding, rr_error = None\<rparr>"
    unfolding adding_rule_def by (rule sample_test)
  show ?thesis
    unfolding rule_trace.simps Let_def t by (simp add: in_group_def g add_group_def a n)
qed

lemma sample_score: "resolveScore sample_env sample_dto db = (Inr (sample_ai, None), db)" if "db_providers db = []"
proof -
  have "sample_ai\<lparr>ai_category := upper (ai_category sample_ai)\<rparr> = sample_ai"
    by (simp add: sample_ai_def upper_def up_char_def is_lower_def)
  moreover have "findScoreProvider None db = None" by (simp add: findScoreProvider_def that)
  moreover have "ed_aiResult sample_dto = Some sample_ai" "ed_provider sample_dto = None" by (simp_all add: sample_dto_def)
  moreover have "validateScore sample_ai None = Inr ()" by (simp add: validateScore_def sample_ai_def num_finite_def)
  ultimately show ?thesis by (simp add: resolveScore_def act_then_run Let_def)
qed

lemma sample_limits:
  "allocated_limit sample_master sample_context = NumFin 6000" "available_limit sample_dto (NumFin 6000) = NumFin 5000"
proof -
  have "\<lfloor>1200001 / 2 :: rat\<rfloor> = 600000" "\<lfloor>1000001 / 2 :: rat\<rfloor> = 500000" by (simp_all add: floor_eq_iff)
  then have m: "credit_money (NumFin 6000) = NumFin 6000" "credit_money (NumFin 5000) = NumFin 5000"
    by (simp_all add: credit_money_def num_finite_def num_max_def)
  show "allocated_limit sample_master sample_context = NumFin 6000"
    by (simp add: allocated_limit_def sample_context_def m sample_master_def num_max_def num_min_def)
  show "available_limit sample_dto (NumFin 6000) = NumFin 5000"
    by (simp add: available_limit_def sample_dto_def num_sub_def m num_max_def)
qed

text \<open>The score and the master rule of the request are found, whatever its rule.\<close>

abbreviation sample_start :: "credit_rule \<Rightarrow> credit_db" where
  "sample_start r \<equiv> (sample_db r)\<lparr>db_executions := [new_execution 1 sample_dto]\<rparr>"

lemma sample_reaches:
  "run_evaluation sample_env 1 sample_dto (sample_db r) =
     decide_credit sample_env 1 sample_dto sample_ai None sample_master (sample_start r)"
proof -
  have s: "resolveScore sample_env sample_dto (sample_start r) = (Inr (sample_ai, None), sample_start r)"
    by (rule sample_score) (simp add: sample_db_def)
  have f: "findMaster sample_env sample_dto sample_ai (sample_start r) = Some sample_master"
    using sample_findMaster findMaster_cong[of "sample_start r" "sample_db r"] by simp
  have g: "prop_of (ed_inputs sample_dto) ''grade'' = JStr (ai_category sample_ai)" "ed_master sample_dto = None"
    by (simp_all add: sample_dto_def sample_inputs_def sample_ai_def)
  have e: "db_executions (sample_db r) = []" by (simp add: sample_db_def)
  show ?thesis
    by (simp add: run_evaluation_def act_then_run act_refuse_def act_catch_def g e s after_score_def f del: One_nat_def)
qed

lemma sample_rules_kept: "master_rules sample_master (u\<lparr>db_executions := es\<rparr>) = master_rules sample_master u"
  by (simp add: master_rules_def)

text \<open>The request is approved: 6,000 allocated, 5,000 available, 2,500 requested.\<close>

lemma sample_approved_run:
  "\<exists>t x. run_evaluation sample_env 1 sample_dto (sample_db adding_rule) = (Inr (), t) \<and> db_executions t = [x] \<and> ex_id x = 1 \<and>
     ex_outcome x = AutoApproved \<and> ex_allocated x = Some (NumFin 6000)"
proof -
  obtain ts where tr: "rule_trace sample_env (sample_db adding_rule) 1 sample_dto sample_ai [adding_rule]
      (initial_context sample_master) = (Inr sample_context, ts)" using sample_trace by blast
  let ?s = "sample_start adding_rule"
  have ar: "cr_master adding_rule = 1" "cr_active adding_rule" by (simp_all add: adding_rule_def sample_rule_def)
  have tc: "rule_trace sample_env (u\<lparr>db_executions := es\<rparr>) = rule_trace sample_env u" for u es
    by (rule ext)+ (rule rule_trace_cong, simp)
  have b: "commercial_binding sample_dto (add_steps ts ((sample_db adding_rule)\<lparr>db_executions := es\<rparr>))" for es
    by (simp add: commercial_binding_def sample_db_def sample_dto_def sample_inputs_def json_upper_def upper_def
        up_char_def is_lower_def default_text_def)
  have o: "decide_outcome sample_master sample_dto (NumFin 6000) (NumFin 5000) sample_context
      = sample_context\<lparr>cx_outcome := AutoApproved\<rparr>"
    by (simp add: decide_outcome_def sample_context_def sample_master_def sample_dto_def)
  have e: "db_executions (sample_db adding_rule) = []" by (simp add: sample_db_def)
  define run where "run = update_execution 1 (\<lambda>x. x\<lparr>ex_master := Some (mr_id sample_master, mr_code sample_master,
      mr_version sample_master), ex_snapshot := None, ex_score := Some (ai_score sample_ai),
      ex_category := Some (ai_category sample_ai)\<rparr>) ?s"
  have q: "run_rules sample_env 1 sample_dto sample_ai [adding_rule] (initial_context sample_master) run
      = (Inr sample_context, add_steps ts run)"
    unfolding run_rules_is_trace run_def update_execution_def tc tr by simp
  have rm: "master_rules sample_master run = [adding_rule]"
    unfolding run_def update_execution_def sample_rules_kept by (rule sample_master_rules[OF ar])
  have d: "\<exists>t x. decide_credit sample_env 1 sample_dto sample_ai None sample_master ?s = (Inr (), t) \<and> db_executions t = [x] \<and>
      ex_id x = 1 \<and> ex_outcome x = AutoApproved \<and> ex_allocated x = Some (NumFin 6000)"
    unfolding decide_credit_def act_then_run act_run fst_conv snd_conv sum.case run_def[symmetric] rm q sample_limits fst_conv snd_conv sum.case Let_def o
    by (simp add: run_def update_execution_def b[simplified] check_binding_def new_execution_def e act_then_run)
  show ?thesis
    using d by (simp only: sample_reaches)
qed

end
