(* ===== verification/CreditOutcomes.thy ===== *)
theory CreditOutcomes
  imports CreditSamples
begin

text \<open>
  Which evaluations finish, which never do, and the credit properties at a concrete request.
\<close>

section \<open>Actions that cannot throw\<close>

definition source_actions :: "string set" where
  "source_actions = {''SET_LIMIT_FROM_VALUE'', ''SET_LIMIT_FROM_VALUE_MULTIPLIER'', ''CAP_LIMIT_FROM_VALUE_MULTIPLIER'',
     ''SET_LIMIT_FROM_INPUT_MULTIPLIER''}"

definition total_action :: "jsval \<Rightarrow> bool" where
  "total_action a \<longleftrightarrow> validateAction a = Inr () \<and> js_string (prop_of a ''type'') \<notin> source_actions"

definition total_rule :: "credit_rule \<Rightarrow> bool" where
  "total_rule r \<longleftrightarrow> total_action (cr_onMatch r) \<and> total_action (cr_onNoMatch r) \<and> total_action (cr_onFailure r)"

lemma validated_object: "validateAction a = Inr () \<Longrightarrow> \<exists>fs. a = JObj fs"
  by (cases a) (auto simp: validateAction_def)

lemma validated_options:
  assumes "validateAction a = Inr ()"
  shows "prop_of a ''repaymentOptionIds'' = JUndef \<or> (\<exists>xs. prop_of a ''repaymentOptionIds'' = JArr xs)"
proof -
  obtain fs where a: "a = JObj fs" using validated_object[OF assms] by blast
  have "prop_of a ''repaymentOptionIds'' \<noteq> JUndef \<longrightarrow> (case prop_of a ''repaymentOptionIds'' of
      JArr xs \<Rightarrow> list_all (\<lambda>x. case x of JStr s \<Rightarrow> True | _ \<Rightarrow> False) xs | _ \<Rightarrow> False)"
    using assms unfolding validateAction_def a jsval.case Let_def await_Inr_iff ensure_Inr_iff by blast
  then show ?thesis by (cases "prop_of a ''repaymentOptionIds''") simp_all
qed

lemma new_limit_total:
  assumes "js_string (prop_of a ''type'') \<notin> source_actions"
  shows "\<exists>l. new_limit a src inp limit = Inr l"
proof -
  have "prop_of a ''type'' \<noteq> JStr t" if "t \<in> source_actions" for t using assms that by auto
  then have "prop_of a ''type'' \<noteq> JStr ''SET_LIMIT_FROM_VALUE''" "prop_of a ''type'' \<noteq> JStr ''SET_LIMIT_FROM_VALUE_MULTIPLIER''"
    "prop_of a ''type'' \<noteq> JStr ''CAP_LIMIT_FROM_VALUE_MULTIPLIER''" "prop_of a ''type'' \<noteq> JStr ''SET_LIMIT_FROM_INPUT_MULTIPLIER''"
    by (simp_all add: source_actions_def)
  then show ?thesis by (simp add: new_limit_def Let_def)
qed

lemma applyAction_total:
  assumes "total_action a"
  shows "\<exists>cx'. applyAction a src inp cx = Inr cx'"
proof -
  have v: "validateAction a = Inr ()" using assms by (simp add: total_action_def)
  obtain fs where a: "a = JObj fs" using validated_object[OF v] by blast
  obtain l where l: "new_limit a src inp (cx_limit cx) = Inr l"
    using new_limit_total assms unfolding total_action_def by blast
  have o: "\<exists>os. (if truthy (prop_of a ''repaymentOptionIds'') then spread (prop_of a ''repaymentOptionIds'')
      else Inr (cx_options cx)) = Inr os"
    using validated_options[OF v] by (auto simp: spread_def)
  have "\<exists>t. js_get a ''type'' = Inr t" unfolding a by (simp add: js_get_def)
  with l o show ?thesis by (auto simp: applyAction_def)
qed

lemma test_rule_action: "rr_action (test_rule E db d ai r) \<in> {cr_onMatch r, cr_onNoMatch r, cr_onFailure r}"
  by (auto simp: test_rule_def split: sum.splits)

lemma rule_trace_total:
  "\<forall>r \<in> set rs. total_rule r \<Longrightarrow> \<exists>cx' ts. rule_trace E db i d ai rs cx = (Inr cx', ts)"
proof (induction rs arbitrary: cx)
  case (Cons r rs)
  let ?q = "test_rule E db d ai r"
  have "total_action (rr_action ?q)"
    using test_rule_action[of E db d ai r] Cons.prems by (auto simp: total_rule_def)
  then obtain cx' where a: "applyAction (rr_action ?q) (case rr_source ?q of None \<Rightarrow> JUndef | Some s \<Rightarrow> fst s) (ed_inputs d)
      (add_group r ?q cx) = Inr cx'" using applyAction_total by blast
  have "\<exists>c ts. rule_trace E db i d ai rs c' = (Inr c, ts)" for c' using Cons by simp
  then show ?case using a by (auto simp: Let_def split: prod.splits) (metis fst_conv snd_conv)
qed simp


lemma decide_decided: "cx_outcome (check_binding d bound (decide_outcome m d al av cx)) \<noteq> Processing"
  by (auto simp: check_binding_def decide_outcome_def split: default_outcome.splits)




section \<open>Concrete requests\<close>

lemma sample_total: "total_rule adding_rule"
  by (simp add: total_rule_def total_action_def adding_rule_def sample_rule_def adding_def action_def validateAction_def
      source_actions_def action_types_def numeric_field_def number_of_def num_finite_def)

lemma sample_db_facts [simp]:
  "db_executions (sample_db r) = []" "db_rules (sample_db r) = [r]" "db_masters (sample_db r) = [sample_master]"
  "ed_master sample_dto = None" "ed_simulation sample_dto = False"
  by (simp_all add: sample_db_def sample_dto_def)




theorem rules_run_in_order_witness:
  "\<exists>t ts. run_rules sample_env 1 sample_dto sample_ai [adding_rule] (initial_context sample_master) (sample_db adding_rule)
       = (Inr sample_context, t) \<and> db_steps t = db_steps (sample_db adding_rule) @ ts \<and> subseq (map es_rule ts) [1]"
proof -
  have m: "master_rules sample_master (sample_db adding_rule) = [adding_rule]"
    by (rule sample_master_rules) (simp_all add: adding_rule_def sample_rule_def)
  obtain ts where tr: "rule_trace sample_env (sample_db adding_rule) 1 sample_dto sample_ai [adding_rule]
      (initial_context sample_master) = (Inr sample_context, ts)" using sample_trace by blast
  have run: "run_rules sample_env 1 sample_dto sample_ai [adding_rule] (initial_context sample_master) (sample_db adding_rule)
       = (Inr sample_context, add_steps ts (sample_db adding_rule))"
    unfolding run_rules_is_trace tr by simp
  have "cr_id adding_rule = 1" by (simp add: adding_rule_def sample_rule_def)
  with rules_run_in_order[of sample_env 1 sample_dto sample_ai sample_master "sample_db adding_rule", unfolded m, OF run] run
  show ?thesis by auto
qed

text \<open>A validated rule whose failure leaves the evaluation unfinished: it takes a limit from a missing input.\<close>

definition input_rule :: credit_rule where
  "input_rule = sample_rule (action ''SET_LIMIT_FROM_INPUT_MULTIPLIER'' [(''inputField'', JStr ''income''), (''multiplier'', JInt 3)])
     (action ''MANUAL_REVIEW'' [])"

lemma input_rule_validated: "validateAction (cr_onMatch input_rule) = Inr ()"
  by (simp add: input_rule_def sample_rule_def action_def validateAction_def action_types_def numeric_field_def
      number_of_def num_finite_def)

lemma input_rule_throws:
  "rule_trace sample_env (sample_db input_rule) 1 sample_dto sample_ai [input_rule] cx
     = (Inl (Failure ''SET_LIMIT_FROM_INPUT_MULTIPLIER requires a numeric source value''), [])"
proof -
  have i: "readPath (ed_inputs sample_dto) ''income'' = JUndef"
    by (simp add: readPath_def readField_def js_member_def sample_dto_def sample_inputs_def)
  have g: "cr_group input_rule = None" by (simp add: input_rule_def sample_rule_def)
  have a: "applyAction (cr_onMatch input_rule) src (ed_inputs sample_dto) c
      = Inl (Failure ''SET_LIMIT_FROM_INPUT_MULTIPLIER requires a numeric source value'')" for src c
    by (simp add: input_rule_def sample_rule_def action_def applyAction_def js_get_def new_limit_def Let_def i number_of_def
        requireNumericSource_def num_finite_def js_or_def)
  have t: "test_rule sample_env (sample_db input_rule) sample_dto sample_ai input_rule =
      \<lparr>rr_source = Some (JInt 7, ''aiResult.score''), rr_matched = Some True, rr_action = cr_onMatch input_rule, rr_error = None\<rparr>"
    unfolding input_rule_def using sample_test by (simp add: sample_rule_def)
  show ?thesis unfolding rule_trace.simps Let_def t by (simp add: in_group_def g a)
qed

lemma input_rule_run:
  "\<exists>e t. run_evaluation sample_env 1 sample_dto (sample_db input_rule) = (Inl e, t)"
proof -
  have ar: "cr_master input_rule = 1" "cr_active input_rule" by (simp_all add: input_rule_def sample_rule_def)
  have tc: "rule_trace sample_env ((sample_db input_rule)\<lparr>db_executions := es\<rparr>) = rule_trace sample_env (sample_db input_rule)"
    for es by (rule ext)+ (rule rule_trace_cong, simp)
  have "\<exists>e t. decide_credit sample_env 1 sample_dto sample_ai None sample_master (sample_start input_rule) = (Inl e, t)"
    unfolding decide_credit_def act_then_run act_run fst_conv snd_conv sum.case update_execution_def run_rules_is_trace
    by (simp add: sample_rules_kept sample_master_rules[OF ar] tc input_rule_throws[simplified])
  then show ?thesis by (simp only: sample_reaches)
qed


end
