(* ===== verification/CreditRequests.thy ===== *)
theory CreditRequests
  imports CreditPolicies CreditOutcomes
begin

text \<open>
  The requests of the credit rule service one after another: administration and evaluations on one database, the
  states they reach, and what holds in all of them.
\<close>

section \<open>Requests\<close>

datatype credit_op =
    OpCreateIntegration integration_dto string
  | OpUpdateIntegration nat update_integration_dto string
  | OpApproveIntegration nat string
  | OpCreateProvider provider_dto string
  | OpUpdateProvider nat update_provider_dto string
  | OpApproveProvider nat string
  | OpCreateMaster master_dto string
  | OpUpdateMaster nat update_master_dto string
  | OpClone nat string
  | OpAddRule nat rule_dto
  | OpUpdateRule nat nat update_rule_dto
  | OpDeleteRule nat nat
  | OpSubmit nat string "string option"
  | OpApprove nat string "string option"
  | OpReject nat string string
  | OpActivate nat string
  | OpRetire nat string

fun run_credit_op :: "admin_env \<Rightarrow> credit_op \<Rightarrow> credit_db \<Rightarrow> credit_db" where
  "run_credit_op E (OpCreateIntegration d a) s = snd (createIntegration E d a s)"
| "run_credit_op E (OpUpdateIntegration i d a) s = snd (updateIntegration E i d a s)"
| "run_credit_op E (OpApproveIntegration i a) s = snd (approveIntegration i a s)"
| "run_credit_op E (OpCreateProvider d a) s = snd (createScoreProvider d a s)"
| "run_credit_op E (OpUpdateProvider i d a) s = snd (updateScoreProvider i d a s)"
| "run_credit_op E (OpApproveProvider i a) s = snd (approveScoreProvider i a s)"
| "run_credit_op E (OpCreateMaster d a) s = snd (createMaster E d a s)"
| "run_credit_op E (OpUpdateMaster i d a) s = snd (updateMaster E i d a s)"
| "run_credit_op E (OpClone i a) s = snd (cloneMaster i a s)"
| "run_credit_op E (OpAddRule i d) s = snd (addRule E i d s)"
| "run_credit_op E (OpUpdateRule i j d) s = snd (updateRule E i j d s)"
| "run_credit_op E (OpDeleteRule i j) s = snd (deleteRule i j s)"
| "run_credit_op E (OpSubmit i a c) s = snd (submit E i a c s)"
| "run_credit_op E (OpApprove i a c) s = snd (approve E i a c s)"
| "run_credit_op E (OpReject i a c) s = snd (reject i a c s)"
| "run_credit_op E (OpActivate i a) s = snd (activate E i a s)"
| "run_credit_op E (OpRetire i a) s = snd (retire E i a s)"

definition empty_credit_db :: credit_db where
  "empty_credit_db = \<lparr>db_masters = [], db_rules = [], db_changes = [], db_integrations = [], db_providers = [],
     db_snapshots = [], db_executions = [], db_steps = [], db_bindings = [], db_next = 1\<rparr>"

text \<open>Lenders and bindings change outside the service; the clock and the configuration may change between requests.\<close>

inductive managed :: "credit_db \<Rightarrow> bool" where
  empty: "managed empty_credit_db"
| request: "managed s \<Longrightarrow> managed (run_credit_op E op s)"
| evaluation: "managed s \<Longrightarrow> managed (snd (run_evaluation V i d s))"
| bindings: "managed s \<Longrightarrow> managed (s\<lparr>db_bindings := bs\<rparr>)"

section \<open>The invariant in every state\<close>

lemma run_credit_op_inv: "policy_inv s \<Longrightarrow> policy_inv (run_credit_op E op s)"
  by (cases op) (simp_all add: post_def[symmetric] createIntegration_inv updateIntegration_inv approveIntegration_inv
      createScoreProvider_inv updateScoreProvider_inv approveScoreProvider_inv createMaster_inv updateMaster_inv cloneMaster_inv
      addRule_inv updateRule_inv deleteRule_inv submit_inv approve_inv reject_inv activate_inv retire_inv)

text \<open>What an evaluation leaves alone.\<close>

definition eval_frame :: "credit_db \<Rightarrow> credit_db \<Rightarrow> bool" where
  "eval_frame s t \<longleftrightarrow> db_masters t = db_masters s \<and> db_rules t = db_rules s \<and> db_changes t = db_changes s \<and>
     db_integrations t = db_integrations s \<and> db_providers t = db_providers s \<and> db_bindings t = db_bindings s \<and>
     db_next s \<le> db_next t \<and> es_rule ` set (db_steps t) \<subseteq> es_rule ` set (db_steps s) \<union> cr_id ` set (db_rules s)"

lemma eval_frame_trans: "eval_frame s t \<Longrightarrow> eval_frame t u \<Longrightarrow> eval_frame s u"
  unfolding eval_frame_def by (elim conjE, intro conjI) (simp, simp, simp, simp, simp, simp, simp, simp, blast)

interpretation eval_frame: chaining eval_frame
  by unfold_locales (simp add: eval_frame_def, rule eval_frame_trans)

lemma frame_update_execution: "keeps eval_frame (act_write (update_execution i f))"
  by (rule keepsI) (auto simp: eval_frame_def update_execution_def)

lemma frame_snapshot: "keeps eval_frame (act_write (\<lambda>db. snd (store_snapshot n db)))"
  by (rule keepsI) (auto simp: eval_frame_def store_snapshot_def Let_def split: option.splits)

lemma frame_resolveScore: "keeps eval_frame (resolveScore E d)"
proof -
  have s: "keeps eval_frame (saveSnapshot E c p r)" for c p r
    unfolding saveSnapshot_def by (intro eval_frame.keeps_rules frame_snapshot)
  show ?thesis
    unfolding resolveScore_def Let_def
    by (intro eval_frame.keeps_rules) (auto intro!: eval_frame.keeps_rules s split: option.splits)
qed

lemma frame_rules:
  assumes "\<And>cx. keeps eval_frame (k cx)"
  shows "keeps eval_frame (act_then (act_read (master_rules m)) (\<lambda>rules. act_then (run_rules E i d ai rules c) k))"
proof (rule keepsI)
  fix s
  let ?t = "add_steps (snd (rule_trace E s i d ai (master_rules m s) c)) s"
  have "es_rule x \<in> cr_id ` set (db_rules s)" if "x \<in> set (snd (rule_trace E s i d ai (master_rules m s) c))" for x
    using rule_trace_ids[of E s i d ai "master_rules m s" c, OF prod.collapse[symmetric] that] by (auto simp: master_rules_def)
  then have t: "eval_frame s ?t" by (auto simp: eval_frame_def)
  have k: "eval_frame ?t (snd (k cx ?t))" for cx using assms[of cx] by (simp add: keeps_def)
  show "eval_frame s (snd (act_then (act_read (master_rules m)) (\<lambda>rules. act_then (run_rules E i d ai rules c) k) s))"
    using t eval_frame.trans[OF t k] by (auto simp: act_then_run run_rules_is_trace split: sum.splits)
qed

lemma frame_catch: "keeps eval_frame m \<Longrightarrow> (\<And>e. keeps eval_frame (h e)) \<Longrightarrow> keeps eval_frame (act_catch m h)"
  unfolding keeps_def act_catch_def by (auto split: prod.splits sum.splits intro: eval_frame.trans)

lemma frame_run_evaluation: "keeps eval_frame (run_evaluation E i d)"
proof -
  have f: "keeps eval_frame (finishFailure E i x r)" for x r
    unfolding finishFailure_def by (rule frame_update_execution)
  have n: "keeps eval_frame (act_write (\<lambda>db. db\<lparr>db_executions := db_executions db @ [new_execution i d]\<rparr>))"
    by (rule keepsI) (simp add: eval_frame_def)
  have d: "keeps eval_frame (decide_credit E i d ai sn m)" for ai sn m
    unfolding decide_credit_def Let_def
    by (rule eval_frame.keeps_then, rule frame_update_execution, rule frame_rules)
      (intro eval_frame.keeps_rules frame_update_execution)
  have a: "keeps eval_frame (after_score E i d sc)" for sc
    unfolding after_score_def by (auto intro!: eval_frame.keeps_rules frame_update_execution f d split: option.splits)
  show ?thesis
    unfolding run_evaluation_def by (intro eval_frame.keeps_rules n a f frame_catch frame_resolveScore)
qed

lemma eval_frame_inv:
  assumes f: "eval_frame s t" and inv: "policy_inv s"
  shows "policy_inv t"
proof -
  from f have eqs: "db_masters t = db_masters s" "db_rules t = db_rules s" "db_changes t = db_changes s"
    "db_integrations t = db_integrations s" "db_providers t = db_providers s" "db_next s \<le> db_next t"
    and steps: "es_rule ` set (db_steps t) \<subseteq> es_rule ` set (db_steps s) \<union> cr_id ` set (db_rules s)"
    by (simp_all add: eval_frame_def)
  have con: "credit_constraints s" using inv by (simp add: policy_inv_def)
  then have "es_rule ` set (db_steps s) \<subseteq> cr_id ` set (db_rules s)"
    by (auto simp: credit_constraints_def references_ok_def list_all_iff)
  with steps have "list_all (\<lambda>x. es_rule x \<in> set (map cr_id (db_rules s))) (db_steps t)"
    by (auto simp: list_all_iff)
  with con have "credit_constraints t" unfolding credit_constraints_def references_ok_def eqs by blast
  from policy_inv_cong[OF inv this eqs(1,2,6)] show ?thesis .
qed

lemma managed_inv: "managed s \<Longrightarrow> policy_inv s"
proof (induction rule: managed.induct)
  case empty
  show ?case
    by (simp add: empty_credit_db_def policy_inv_def masters_ok_def rules_ok_def exclusive_def credit_constraints_def references_ok_def)
next
  case (request s E op)
  then show ?case by (intro run_credit_op_inv)
next
  case (evaluation s V i d)
  have "eval_frame s (snd (run_evaluation V i d s))" using frame_run_evaluation by (simp add: keeps_def)
  from eval_frame_inv[OF this evaluation.IH] show ?case .
next
  case (bindings s bs)
  then show ?case by (auto simp: policy_inv_def credit_constraints_def references_ok_def masters_ok_def rules_ok_def)
qed

end
