(* ===== verification/ManualReview.thy ===== *)
theory ManualReview
  imports CreditRequests
begin

text \<open>
  The manual review of credits (\<open>credit-rule-service/src/credit-rules/credit-manual-review.service.ts\<close>): a case is
  opened by the trigger of migration 052 when an execution needs a review, recommended by one reviewer and decided
  by another.
\<close>

section \<open>Cases\<close>

datatype review_status = ReviewPending | InReview | Recommended | ReviewApproved | ReviewRejected | ReviewCancelled

record review_case =
  rc_id :: nat
  rc_execution :: nat
  rc_status :: review_status
  rc_recommendation :: "string option"
  rc_reason :: "string option"
  rc_comment :: "string option"
  rc_limit :: "rat option"
  rc_recommendedBy :: "string option"
  rc_finalReason :: "string option"
  rc_finalComment :: "string option"
  rc_approvedLimit :: "jsnum option"
  rc_decidedBy :: "string option"

record review_action =
  ra_case :: nat
  ra_action :: string
  ra_actor :: string
  ra_reason :: string
  ra_comment :: string

record reason_code =
  rn_code :: string
  rn_type :: string
  rn_active :: bool

record review_queue =
  rq_country :: "string option"
  rq_product :: "string option"
  rq_active :: bool

record review_db =
  rv_credit :: credit_db
  rv_cases :: "review_case list"
  rv_actions :: "review_action list"
  rv_reasons :: "reason_code list"
  rv_queues :: "review_queue list"
  rv_next :: nat

record recommendation_dto =
  rec_action :: string
  rec_reason :: string
  rec_comment :: string
  rec_limit :: "rat option"

record decision_dto =
  fin_approved :: bool
  fin_reason :: string
  fin_comment :: string
  fin_limit :: "rat option"

section \<open>The handlers\<close>

definition assertReason :: "string \<Rightarrow> string option \<Rightarrow> (review_db, unit) act" where
  "assertReason code decision =
     act_then (act_found (\<lambda>s. find (\<lambda>r. rn_code r = upper code \<and> rn_active r) (rv_reasons s))
       (BadRequest ''Reason code is not active in the governed catalogue'')) (\<lambda>r.
     act_refuse (\<lambda>_. decision \<noteq> None \<and> decision \<noteq> Some (rn_type r))
       (BadRequest (''Reason code must be of type '' @ default_text decision)))"

definition update_case :: "nat \<Rightarrow> (review_case \<Rightarrow> review_case) \<Rightarrow> review_db \<Rightarrow> review_db" where
  "update_case i f s = s\<lparr>rv_cases := map (\<lambda>c. if rc_id c = i then f c else c) (rv_cases s)\<rparr>"

definition log_action :: "review_action \<Rightarrow> review_db \<Rightarrow> review_db" where
  "log_action a s = s\<lparr>rv_actions := rv_actions s @ [a]\<rparr>"

definition find_case :: "nat \<Rightarrow> review_db \<Rightarrow> review_case option" where
  "find_case i s = find (\<lambda>c. rc_id c = i) (rv_cases s)"

definition recommended_case :: "recommendation_dto \<Rightarrow> string \<Rightarrow> review_case \<Rightarrow> review_case" where
  "recommended_case d actor c = c\<lparr>rc_status := Recommended, rc_recommendation := Some (rec_action d),
     rc_reason := Some (rec_reason d), rc_comment := Some (rec_comment d), rc_limit := map_option (stored 2) (rec_limit d),
     rc_recommendedBy := Some actor\<rparr>"

definition record_recommendation :: "nat \<Rightarrow> recommendation_dto \<Rightarrow> string \<Rightarrow> review_db \<Rightarrow> review_db" where
  "record_recommendation i d actor s =
     log_action \<lparr>ra_case = i, ra_action = ''RECOMMEND'', ra_actor = actor, ra_reason = rec_reason d, ra_comment = rec_comment d\<rparr>
       (update_case i (recommended_case d actor) s)"

definition recommend :: "nat \<Rightarrow> recommendation_dto \<Rightarrow> string \<Rightarrow> (review_db, string) act" where
  "recommend i d actor = transaction (
     act_then (act_found (find_case i) (NotFound ''Credit manual-review case was not found'')) (\<lambda>c.
     act_then (act_refuse (\<lambda>_. rc_status c \<notin> {ReviewPending, InReview}) (Conflict ''Only an open case can be recommended'')) (\<lambda>_.
     act_then (assertReason (rec_reason d) (if rec_action d = ''REJECT'' then Some ''REJECT'' else None)) (\<lambda>_.
     act_then (act_write (record_recommendation i d actor)) (\<lambda>_.
       act_ok actor)))))"

text \<open>The case joined with its execution.\<close>

definition joined_case :: "nat \<Rightarrow> review_db \<Rightarrow> (review_case \<times> execution) option" where
  "joined_case i s = (case find_case i s of
     None \<Rightarrow> None
   | Some c \<Rightarrow> map_option (\<lambda>x. (c, x)) (find (\<lambda>x. ex_id x = rc_execution c) (db_executions (rv_credit s))))"

definition json_text :: "jsval \<Rightarrow> string option" where
  "json_text v = (case v of JStr s \<Rightarrow> Some s | _ \<Rightarrow> None)"

definition review_binding :: "execution \<Rightarrow> review_db \<Rightarrow> bool" where
  "review_binding x s = list_ex (\<lambda>b. pb_active b \<and> pb_lenderActive b \<and> pb_product b = ed_product (ex_request x) \<and>
     ed_currency (ex_request x) = Some (pb_currency b) \<and>
     json_text (prop_of (ed_inputs (ex_request x)) ''countryCode'') = Some (pb_country b) \<and>
     (pb_channel b = None \<or> pb_channel b = json_text (prop_of (ed_inputs (ex_request x)) ''channel'')))
     (db_bindings (rv_credit s))"

text \<open>The column \<open>allocated_limit numeric(24,2) NOT NULL DEFAULT 0\<close> as a number.\<close>

definition allocated_number :: "execution \<Rightarrow> jsnum" where
  "allocated_number x = (case ex_allocated x of None \<Rightarrow> NumFin 0 | Some n \<Rightarrow> numeric_column 2 n)"

definition approved_limit :: "decision_dto \<Rightarrow> review_case \<Rightarrow> execution \<Rightarrow> jsnum" where
  "approved_limit d c x =
     (if \<not> fin_approved d then NumFin 0
      else case fin_limit d of Some q \<Rightarrow> NumFin q
        | None \<Rightarrow> (case rc_limit c of Some q \<Rightarrow> num_of q | None \<Rightarrow> allocated_number x))"

definition update_review_execution :: "nat \<Rightarrow> (execution \<Rightarrow> execution) \<Rightarrow> review_db \<Rightarrow> review_db" where
  "update_review_execution i f s = s\<lparr>rv_credit := update_execution i f (rv_credit s)\<rparr>"

definition decided_case :: "decision_dto \<Rightarrow> string \<Rightarrow> jsnum \<Rightarrow> review_case \<Rightarrow> review_case" where
  "decided_case d actor limit c = c\<lparr>rc_status := (if fin_approved d then ReviewApproved else ReviewRejected),
     rc_finalReason := Some (fin_reason d), rc_finalComment := Some (fin_comment d),
     rc_approvedLimit := Some (numeric_column 2 limit), rc_decidedBy := Some actor\<rparr>"

text \<open>What is available of the limit, from the columns read with the case.\<close>

definition available_of :: "execution \<Rightarrow> jsnum \<Rightarrow> jsnum" where
  "available_of x limit = num_max (NumFin 0) (num_sub (num_sub limit (ed_exposure (ex_request x))) (ed_pending (ex_request x)))"

definition decided_execution :: "decision_dto \<Rightarrow> jsnum \<Rightarrow> jsnum \<Rightarrow> execution \<Rightarrow> execution" where
  "decided_execution d limit available x = x\<lparr>ex_outcome := (if fin_approved d then AutoApproved else OutRejected),
     ex_allocated := Some limit, ex_available := Some available, ex_reasons := ex_reasons x @ [JStr (fin_reason d)]\<rparr>"

definition record_decision :: "nat \<Rightarrow> decision_dto \<Rightarrow> string \<Rightarrow> review_case \<Rightarrow> execution \<Rightarrow> jsnum \<Rightarrow> review_db \<Rightarrow> review_db" where
  "record_decision i d actor c x limit s =
     log_action \<lparr>ra_case = i, ra_action = (if fin_approved d then ''APPROVED'' else ''REJECTED''), ra_actor = actor,
         ra_reason = fin_reason d, ra_comment = fin_comment d\<rparr>
       (update_review_execution (rc_execution c) (decided_execution d limit (available_of x limit))
       (update_case i (decided_case d actor limit) s))"

definition decide :: "nat \<Rightarrow> decision_dto \<Rightarrow> string \<Rightarrow> (review_db, jsnum) act" where
  "decide i d actor = transaction (
     act_then (act_found (joined_case i) (NotFound ''Credit manual-review case was not found'')) (\<lambda>(c, x).
     act_then (act_refuse (\<lambda>_. rc_status c \<noteq> Recommended) (Conflict ''A recorded recommendation is required before final decision'')) (\<lambda>_.
     act_then (act_refuse (\<lambda>_. rc_recommendedBy c = Some actor)
       (Conflict ''The final approver must differ from the recommending reviewer'')) (\<lambda>_.
     act_then (assertReason (fin_reason d) (if fin_approved d then None else Some ''REJECT'')) (\<lambda>_.
     act_then (act_refuse (\<lambda>s. fin_approved d \<and> \<not> review_binding x s)
       (Conflict ''Cannot approve until an active lender and commercial binding exists'')) (\<lambda>_.
     act_then (act_refuse (\<lambda>_. fin_approved d \<and>
         (num_le (approved_limit d c x) (NumFin 0) \<or> num_lt (allocated_number x) (approved_limit d c x)))
       (BadRequest ''approvedLimit must be positive and cannot exceed the policy-calculated limit'')) (\<lambda>_.
     act_then (act_write (record_decision i d actor c x (approved_limit d c x))) (\<lambda>_.
       act_ok (approved_limit d c x)))))))))"

definition get_review :: "nat \<Rightarrow> (review_db, (review_case \<times> execution) \<times> review_action list) act" where
  "get_review i =
     act_then (act_found (joined_case i) (NotFound ''Credit manual-review case was not found'')) (\<lambda>cx.
     act_then (act_read (\<lambda>s. filter (\<lambda>a. ra_case a = i) (rv_actions s))) (\<lambda>as. act_ok (cx, as)))"

section \<open>How a case is opened\<close>

text \<open>The trigger on an update of the outcome, after an evaluation of the execution \<open>i\<close>.\<close>

definition queue_accepts :: "execution \<Rightarrow> review_queue \<Rightarrow> bool" where
  "queue_accepts x q \<longleftrightarrow> rq_active q \<and>
     (rq_country q = None \<or> rq_country q = Some (default_text (json_text (prop_of (ed_inputs (ex_request x)) ''countryCode'')))) \<and>
     (rq_product q = None \<or> rq_product q = Some (ed_product (ex_request x)))"

definition open_review :: "nat \<Rightarrow> review_db \<Rightarrow> review_db" where
  "open_review i s = (case find (\<lambda>x. ex_id x = i) (db_executions (rv_credit s)) of
     None \<Rightarrow> s
   | Some x \<Rightarrow>
       if ex_outcome x = ManualReview \<and> \<not> ed_simulation (ex_request x) \<and> list_ex (queue_accepts x) (rv_queues s) \<and>
          \<not> list_ex (\<lambda>c. rc_execution c = i) (rv_cases s)
       then s\<lparr>rv_cases := rv_cases s @ [\<lparr>rc_id = rv_next s, rc_execution = i, rc_status = ReviewPending,
           rc_recommendation = None, rc_reason = None, rc_comment = None, rc_limit = None, rc_recommendedBy = None,
           rc_finalReason = None, rc_finalComment = None, rc_approvedLimit = None, rc_decidedBy = None\<rparr>],
           rv_next := Suc (rv_next s)\<rparr>
       else s)"

definition review_evaluation :: "credit_env \<Rightarrow> nat \<Rightarrow> evaluate_dto \<Rightarrow> review_db \<Rightarrow> review_db" where
  "review_evaluation V i d s = open_review i (s\<lparr>rv_credit := snd (run_evaluation V i d (rv_credit s))\<rparr>)"

end
