(* ===== verification/CreditPublication.thy ===== *)
theory CreditPublication
  imports CreditRequests
begin

text \<open>
  The properties of published credit policies: which one applies, who approved it, that it no longer changes, and
  what an evaluation under it can throw.
\<close>

section \<open>Published policies do not change\<close>

text \<open>The columns of a master rule that decide credits.\<close>

definition policy_terms :: "master_rule \<Rightarrow> master_rule" where
  "policy_terms m = m\<lparr>mr_status := MDraft, mr_approvedBy := None, mr_activatedBy := None, mr_updatedBy := None,
     mr_from := None, mr_to := None, mr_rejection := None\<rparr>"

definition editable :: "master_status \<Rightarrow> bool" where
  "editable st \<longleftrightarrow> st \<in> {MDraft, MRejected}"

fun allowed_status :: "master_status \<Rightarrow> master_status \<Rightarrow> bool" where
  "allowed_status MPending st \<longleftrightarrow> st \<in> {MPending, MApproved, MRejected}"
| "allowed_status MApproved st \<longleftrightarrow> st \<in> {MApproved, MActive}"
| "allowed_status MActive st \<longleftrightarrow> st \<in> {MActive, MSuperseded, MRetired}"
| "allowed_status MSuperseded st \<longleftrightarrow> st = MSuperseded"
| "allowed_status MRetired st \<longleftrightarrow> st = MRetired"
| "allowed_status st st' \<longleftrightarrow> True"

lemma allowed_refl [simp]: "allowed_status st st"
  by (cases st) auto

definition row_kept :: "master_rule \<Rightarrow> master_rule \<Rightarrow> bool" where
  "row_kept m m' \<longleftrightarrow> mr_id m' = mr_id m \<and> (\<not> editable (mr_status m) \<longrightarrow>
     policy_terms m' = policy_terms m \<and> allowed_status (mr_status m) (mr_status m'))"

definition kept :: "credit_db \<Rightarrow> credit_db \<Rightarrow> bool" where
  "kept s t \<longleftrightarrow> (\<forall>m \<in> set (db_masters s). \<not> editable (mr_status m) \<longrightarrow>
     (\<exists>m' \<in> set (db_masters t). row_kept m m') \<and> listRules (mr_id m) t = listRules (mr_id m) s)"

lemma row_kept_refl [simp]: "row_kept m m"
  by (simp add: row_kept_def)

lemma kept_same: "db_masters t = db_masters s \<Longrightarrow> db_rules t = db_rules s \<Longrightarrow> kept s t"
  by (auto simp: kept_def listRules_def intro: row_kept_refl)

lemma kept_refl [simp]: "kept s s"
  by (rule kept_same) simp_all

lemma kept_update:
  assumes "db_masters t = map (\<lambda>m. if P m then f m else m) (db_masters s)" and "db_rules t = db_rules s"
    and "\<And>m. m \<in> set (db_masters s) \<Longrightarrow> P m \<Longrightarrow> row_kept m (f m)"
  shows "kept s t"
proof -
  have "\<exists>m' \<in> set (db_masters t). row_kept m m'" if "m \<in> set (db_masters s)" for m
    using assms(1,3) that by (cases "P m") (auto intro: row_kept_refl)
  then show ?thesis using assms(2) by (simp add: kept_def listRules_def)
qed

text \<open>Rules change only under master rules that no published row has the id of.\<close>

lemma kept_rules:
  assumes "set (db_masters s) \<subseteq> set (db_masters t)"
    and "\<And>j. j \<in> mr_id ` {m \<in> set (db_masters s). \<not> editable (mr_status m)} \<Longrightarrow>
      filter (\<lambda>r. cr_master r = j) (db_rules t) = filter (\<lambda>r. cr_master r = j) (db_rules s)"
  shows "kept s t"
  unfolding kept_def listRules_def
proof (intro ballI impI conjI)
  fix m assume m: "m \<in> set (db_masters s)" "\<not> editable (mr_status m)"
  then show "\<exists>m' \<in> set (db_masters t). row_kept m m'" using assms(1) row_kept_refl by blast
  show "sort_key cr_priority (filter (\<lambda>r. cr_master r = mr_id m) (db_rules t)) =
      sort_key cr_priority (filter (\<lambda>r. cr_master r = mr_id m) (db_rules s))"
    using assms(2)[of "mr_id m"] m by simp
qed

lemma same_row: "policy_inv s \<Longrightarrow> m \<in> set (db_masters s) \<Longrightarrow> n \<in> set (db_masters s) \<Longrightarrow> mr_id m = mr_id n \<Longrightarrow> m = n"
  by (auto simp: policy_inv_def masters_ok_def distinct_map inj_on_def)

text \<open>An update of one row is judged by that row.\<close>

lemma kept_row:
  assumes inv: "policy_inv s" and m: "m \<in> set (db_masters s)" "mr_id m = i" and f: "row_kept m (f m)"
  shows "kept s (update_master_row i f s)"
proof (rule kept_update[of _ "\<lambda>m. mr_id m = i" f])
  fix n assume "n \<in> set (db_masters s)" "mr_id n = i"
  then have "n = m" using same_row[OF inv] m by auto
  with f show "row_kept n (f n)" by simp
qed (simp_all add: masters_updated)

section \<open>Every handler keeps published policies\<close>

lemma kept_integrations:
  "post (kept s) (createIntegration E ci a) s" "post (kept s) (updateIntegration E i ui a) s"
  "post (kept s) (approveIntegration i a) s"
  unfolding createIntegration_def updateIntegration_def approveIntegration_def
  by (intro post_intros; auto intro: kept_same)+

lemma kept_providers:
  "post (kept s) (createScoreProvider cp a) s" "post (kept s) (updateScoreProvider i up a) s"
  "post (kept s) (approveScoreProvider i a) s"
  unfolding createScoreProvider_def updateScoreProvider_def approveScoreProvider_def Let_def
  by (intro post_intros; auto simp: act_simps split: if_splits prod.splits intro!: post_intros intro: kept_same)+

lemma kept_add_master: "kept s (add_master m s)"
  by (rule kept_rules) auto

lemma kept_createMaster: "post (kept s) (createMaster E d a) s"
  unfolding createMaster_def by (intro post_intros) (auto intro: kept_add_master)

lemma kept_updateMaster: "policy_inv s \<Longrightarrow> post (kept s) (updateMaster E i d a) s"
  unfolding updateMaster_def Let_def
  by (intro post_intros; (rule kept_refl)?)
    (erule kept_row, assumption, assumption, simp add: row_kept_def editable_def)

lemma clone_rules_master: "r \<in> set (clone_rules j k rs) \<Longrightarrow> cr_master r = j"
  by (induction rs arbitrary: k) auto

lemma kept_cloneMaster: "policy_inv s \<Longrightarrow> post (kept s) (cloneMaster i a) s"
proof -
  assume inv: "policy_inv s"
  have "kept s t" if run: "act_then (act_read (\<lambda>db. (db_next db, next_master_version (mr_code m) db))) (\<lambda>(j, v).
       act_then (credit_save (add_master (clone_row j v a m))) (\<lambda>_.
       act_then (credit_save (cloned i j)) (\<lambda>_. act_ok j))) s = (Inr x, t)" for m x t
  proof -
    define u where "u = add_master (clone_row (db_next s) (next_master_version (mr_code m) s) a m) s"
    have t: "t = cloned i (db_next s) u" using run by (auto simp: act_simps u_def)
    show ?thesis
    proof (rule kept_rules)
      show "set (db_masters s) \<subseteq> set (db_masters t)" by (auto simp: t cloned_def Let_def u_def)
      fix j assume "j \<in> mr_id ` {m \<in> set (db_masters s). \<not> editable (mr_status m)}"
      then have "j \<noteq> db_next s" using inv by (auto simp: policy_inv_def masters_ok_def)
      then have "filter (\<lambda>r. cr_master r = j) (clone_rules (db_next s) k rs) = []" for k rs
        by (auto simp: filter_empty_conv dest: clone_rules_master)
      then show "filter (\<lambda>r. cr_master r = j) (db_rules t) = filter (\<lambda>r. cr_master r = j) (db_rules s)"
        by (simp add: t cloned_def Let_def u_def)
    qed
  qed
  then show ?thesis
    unfolding cloneMaster_def cloned_def[symmetric] by (intro post_intros kept_refl)
qed

lemma unpublished:
  "policy_inv s \<Longrightarrow> m \<in> set (db_masters s) \<Longrightarrow> mr_status m \<in> {MDraft, MRejected} \<Longrightarrow>
     mr_id m \<notin> mr_id ` {m \<in> set (db_masters s). \<not> editable (mr_status m)}"
  using same_row by (fastforce simp: editable_def)

lemma kept_child_rules:
  assumes inv: "policy_inv s" and m: "m \<in> set (db_masters s)" "mr_id m = i" "mr_status m \<in> {MDraft, MRejected}"
    and t: "db_masters t = db_masters s"
    and others: "\<And>j. i \<noteq> j \<Longrightarrow> filter (\<lambda>r. cr_master r = j) (db_rules t) = filter (\<lambda>r. cr_master r = j) (db_rules s)"
  shows "kept s t"
proof (rule kept_rules)
  fix j assume "j \<in> mr_id ` {m \<in> set (db_masters s). \<not> editable (mr_status m)}"
  with unpublished[OF inv m(1,3)] m(2) have "i \<noteq> j" by blast
  then show "filter (\<lambda>r. cr_master r = j) (db_rules t) = filter (\<lambda>r. cr_master r = j) (db_rules s)" by (rule others)
qed (simp add: t)

lemma filter_map_other:
  "(\<And>r. P r \<Longrightarrow> \<not> Q r \<and> \<not> Q (f r)) \<Longrightarrow> filter Q (map (\<lambda>r. if P r then f r else r) rs) = filter Q rs"
  by (induction rs) auto

lemma kept_addRule: "policy_inv s \<Longrightarrow> post (kept s) (addRule E i d) s"
  unfolding addRule_def by (intro post_intros kept_refl) (erule kept_child_rules; simp add: rule_row_def)+

lemma kept_updateRule: "policy_inv s \<Longrightarrow> post (kept s) (updateRule E i j d) s"
  unfolding updateRule_def Let_def
  by (intro post_intros kept_refl) (erule kept_child_rules; simp; rule filter_map_other; simp add: rule_row_def)+

lemma kept_deleteRule: "policy_inv s \<Longrightarrow> post (kept s) (deleteRule i j) s"
  unfolding deleteRule_def
  by (intro post_intros kept_refl) (erule kept_child_rules; simp; rule filter_cong; auto)+

lemma kept_changes: "kept s t \<Longrightarrow> db_masters u = db_masters t \<Longrightarrow> db_rules u = db_rules t \<Longrightarrow> kept s u"
  by (simp add: kept_def listRules_def)

lemma decide_changes_masters: "db_masters (decide_changes i st a c s) = db_masters s"
  "db_rules (decide_changes i st a c s) = db_rules s" "update_masters P f (decide_changes i st a c s)
     = decide_changes i st a c (update_masters P f s)"
  by (simp_all add: decide_changes_def update_masters_def)

lemma kept_decided: "kept s t \<Longrightarrow> kept s (decide_changes i st a c t)"
  by (rule kept_changes) (simp_all add: decide_changes_masters)

lemma kept_submit: "policy_inv s \<Longrightarrow> post (kept s) (submit E i a c) s"
  unfolding submit_def
proof (intro post_intros kept_refl)
  fix m x t
  assume inv: "policy_inv s" and m: "m \<in> set (db_masters s)" "mr_id m = i" "mr_status m \<in> {MDraft, MRejected}"
    and run: "act_then (credit_save (update_master_row i (\<lambda>m. m\<lparr>mr_status := MPending\<rparr>))) (\<lambda>_.
       act_then (act_read db_next) (\<lambda>k.
       act_then (credit_save (\<lambda>db. db\<lparr>db_changes := db_changes db @
           [\<lparr>ch_id = k, ch_master = i, ch_status = ChangePending, ch_maker = a, ch_makerComment = c,
             ch_checker = None, ch_checkerComment = None\<rparr>], db_next := Suc k\<rparr>)) (\<lambda>_.
         act_ok k))) s = (Inr x, t)"
  have "kept s (update_master_row i (\<lambda>m. m\<lparr>mr_status := MPending\<rparr>) s)"
    using m by (intro kept_row[OF inv m(1,2)]) (simp add: row_kept_def editable_def)
  then show "kept s t" by (rule kept_changes) (use run in \<open>auto simp: act_simps\<close>)
qed

lemma kept_approve: "policy_inv s \<Longrightarrow> post (kept s) (approve E i a c) s"
  unfolding approve_def
  by (intro post_intros kept_refl) (auto simp: act_simps decide_changes_masters row_kept_def policy_terms_def
      intro!: kept_decided kept_row)

lemma kept_reject: "policy_inv s \<Longrightarrow> post (kept s) (reject i a c) s"
  unfolding reject_def
  by (intro post_intros kept_refl) (auto simp: act_simps decide_changes_masters row_kept_def policy_terms_def
      intro!: kept_decided kept_row post_ends)

lemma kept_retire: "policy_inv s \<Longrightarrow> post (kept s) (retire E i a) s"
  unfolding retire_def
  by (intro post_intros kept_refl) (erule kept_row, assumption, assumption, simp add: row_kept_def policy_terms_def)

lemma kept_activate:
  assumes inv: "policy_inv s"
  shows "post (kept s) (activate E i a) s"
proof -
  have "kept s t" if c: "c \<in> set (db_masters s)" "mr_id c = i" "\<not> mr_status c \<noteq> MApproved"
    and run: "act_then (credit_save (update_masters (superseding i c) (\<lambda>m. m\<lparr>mr_status := MSuperseded\<rparr>))) (\<lambda>_.
       act_then (credit_save (update_master_row i (activated E a))) (\<lambda>_. act_ok (i, MActive))) s = (Inr x, t)" for c x t
  proof (rule kept_update[where P = "\<lambda>m. superseding i c m \<or> mr_id m = i"
      and f = "\<lambda>m. if mr_id m = i then activated E a m else m\<lparr>mr_status := MSuperseded\<rparr>"])
    show "db_masters t = map (\<lambda>m. if superseding i c m \<or> mr_id m = i
        then if mr_id m = i then activated E a m else m\<lparr>mr_status := MSuperseded\<rparr> else m) (db_masters s)"
      using run by (auto simp: act_simps masters_updated superseding_def)
    show "db_rules t = db_rules s" using run by (auto simp: act_simps masters_updated)
    fix m assume "m \<in> set (db_masters s)" "superseding i c m \<or> mr_id m = i"
    then show "row_kept m (if mr_id m = i then activated E a m else m\<lparr>mr_status := MSuperseded\<rparr>)"
      using same_row[OF inv, of m c] c by (auto simp: row_kept_def policy_terms_def activated_def superseding_def)
  qed
  then show ?thesis
    unfolding activate_def superseding_def[symmetric] activated_def[symmetric] by (intro post_intros kept_refl)
qed

lemma run_credit_op_kept: "policy_inv s \<Longrightarrow> kept s (run_credit_op E op s)"
  by (cases op) (simp_all add: post_def[symmetric] kept_integrations kept_providers kept_createMaster kept_updateMaster
      kept_cloneMaster kept_addRule kept_updateRule kept_deleteRule kept_submit kept_approve kept_reject kept_activate
      kept_retire)

end
