(* ===== verification/CreditGovernance.thy ===== *)
theory CreditGovernance
  imports CreditPublication
begin

text \<open>
  The governance properties of the credit rule service in every reachable state, and a policy taken through its
  life: created, given a rule, submitted, approved and activated.
\<close>

section \<open>A policy from draft to active\<close>

definition sample_admin :: admin_env where
  "sample_admin = \<lparr>ae_now = 5, ae_schemas = [''public''], ae_columns = (\<lambda>s t. []), ae_hosts = [], ae_insecure = False,
     ae_url = (\<lambda>u. None), ae_date = (\<lambda>s. None)\<rparr>"

definition sample_master_dto :: master_dto where
  "sample_master_dto = \<lparr>cm_code = ''R'', cm_name = ''R'', cm_category = ''A'', cm_product = ''P'', cm_currency = None,
     cm_minScore = None, cm_maxScore = None, cm_baseLimit = 5000, cm_minLimit = 100, cm_maxLimit = 10000,
     cm_defaultOutcome = DefaultRejected, cm_autoApproval = True, cm_options = [], cm_provider = None, cm_from = None,
     cm_to = None\<rparr>"

definition sample_rule_dto :: rule_dto where
  "sample_rule_dto = \<lparr>rd_name = ''score'', rd_description = None, rd_priority = 1, rd_group = None,
     rd_source = AiResultSource, rd_field = Some ''score'', rd_schema = None, rd_table = None, rd_lookup = None,
     rd_value = None, rd_mode = None, rd_order = None, rd_integration = None, rd_path = None, rd_dataType = ''DECIMAL'',
     rd_condition = sample_leaf1, rd_onMatch = adding, rd_onNoMatch = action ''REJECT'' [],
     rd_onFailure = action ''MANUAL_REVIEW'' [], rd_stopOnMatch = False, rd_stopOnNoMatch = False\<rparr>"

definition policy_row :: "master_status \<Rightarrow> string option \<Rightarrow> string option \<Rightarrow> int option \<Rightarrow> master_rule" where
  "policy_row st approver activator valid_from = \<lparr>mr_id = 1, mr_code = ''R'', mr_version = 1, mr_name = ''R'', mr_category = ''A'',
     mr_product = ''P'', mr_currency = None, mr_minScore = None, mr_maxScore = None, mr_baseLimit = 5000, mr_minLimit = 100,
     mr_maxLimit = 10000, mr_defaultOutcome = DefaultRejected, mr_autoApproval = True, mr_options = [], mr_provider = None,
     mr_status = st, mr_from = valid_from, mr_to = None, mr_createdBy = ''ann'', mr_updatedBy = None,
     mr_approvedBy = approver, mr_activatedBy = activator, mr_rejection = None\<rparr>"

definition policy_change :: "change_status \<Rightarrow> string option \<Rightarrow> change_request" where
  "policy_change st checker = \<lparr>ch_id = 3, ch_master = 1, ch_status = st, ch_maker = ''ann'', ch_makerComment = None,
     ch_checker = checker, ch_checkerComment = None\<rparr>"

definition policy_db :: "master_rule list \<Rightarrow> credit_rule list \<Rightarrow> change_request list \<Rightarrow> nat \<Rightarrow> credit_db" where
  "policy_db ms rs cs n = empty_credit_db\<lparr>db_masters := ms, db_rules := rs, db_changes := cs, db_next := n\<rparr>"

lemma policy_db_simps [simp]:
  "db_masters (policy_db ms rs cs n) = ms" "db_rules (policy_db ms rs cs n) = rs" "db_changes (policy_db ms rs cs n) = cs"
  "db_next (policy_db ms rs cs n) = n" "db_integrations (policy_db ms rs cs n) = []" "db_providers (policy_db ms rs cs n) = []"
  "db_steps (policy_db ms rs cs n) = []" "db_executions (policy_db ms rs cs n) = []" "empty_credit_db = policy_db [] [] [] 1"
  "(policy_db ms rs cs n)\<lparr>db_masters := ms'\<rparr> = policy_db ms' rs cs n" "(policy_db ms rs cs n)\<lparr>db_rules := rs'\<rparr> = policy_db ms rs' cs n"
  "(policy_db ms rs cs n)\<lparr>db_changes := cs'\<rparr> = policy_db ms rs cs' n" "(policy_db ms rs cs n)\<lparr>db_next := n'\<rparr> = policy_db ms rs cs n'"
  by (simp_all add: policy_db_def empty_credit_db_def)

abbreviation child_row :: credit_rule where
  "child_row \<equiv> rule_row 2 1 True sample_rule_dto"

lemma policy_row_ok: "valid_from \<in> {None, Some 5} \<Longrightarrow> approver \<in> {None, Some ''bob''} \<Longrightarrow> master_row_ok (policy_row st approver act valid_from)"
  by (auto simp: master_row_ok_def policy_row_def opt_all_def opt_le_def fits_def other_checker_def)

lemma child_row_ok: "rule_row_ok child_row"
  by (simp add: rule_row_ok_def rule_row_def sample_rule_dto_def opt_all_def data_types_def)

lemma policy_constraints:
  assumes "valid_from \<in> {None, Some 5}" and "approver \<in> {None, Some ''bob''}" and "rs \<in> {[], [child_row]}"
    and "cs \<in> {[], [policy_change st' None], [policy_change st' (Some ''bob'')]}"
  shows "credit_constraints (policy_db [policy_row st approver act valid_from] rs cs n)"
proof -
  have "change_row_ok (policy_change st' checker)" if "checker \<in> {None, Some ''bob''}" for checker
    using that by (auto simp: change_row_ok_def policy_change_def other_checker_def)
  then show ?thesis
    using assms policy_row_ok[OF assms(1,2)] child_row_ok
    by (auto simp: credit_constraints_def references_ok_def opt_all_def policy_row_def rule_row_def sample_rule_dto_def)
qed

lemma sample_valid: "validateRule sample_admin sample_rule_dto s = (Inr (), s)"
proof -
  have v: "validate 0 sample_leaf1 = Inr ()"
    using validate_object[of 0] sample_leaf_keys(1) sample_leaf_valid(1) by (simp add: sample_leaf1_def)
  have a: "validateAction adding = Inr ()" using sample_total by (simp add: total_rule_def total_action_def adding_rule_def sample_rule_def)
  have b: "validateAction (action ''REJECT'' []) = Inr ()" "validateAction (action ''MANUAL_REVIEW'' []) = Inr ()"
    by (simp_all add: action_def validateAction_def action_types_def)
  show ?thesis
    by (simp add: validateRule_def sample_rule_dto_def act_eval v a b absent_def default_text_def)
      (simp add: action_def source_dependent_def)
qed


lemma publication_valid:
  "validateForPublication sample_admin 1 (policy_db [policy_row st ap act vf] [child_row] cs n)
     = (Inr (), policy_db [policy_row st ap act vf] [child_row] cs n)"
proof -
  have "listRules 1 (policy_db [policy_row st ap act vf] [child_row] cs n) = [child_row]"
    by (simp add: listRules_def) (simp add: rule_row_def)
  moreover have "cr_active child_row" "cr_source child_row = AiResultSource" "mr_id (policy_row st ap act vf) = 1"
    "mr_provider (policy_row st ap act vf) = None"
    by (simp_all add: rule_row_def sample_rule_dto_def policy_row_def)
  ultimately show ?thesis
    by (simp add: validateForPublication_def act_eval masterRow_def rule_row_input sample_valid)
qed

lemma credit_save_run: "credit_constraints (f s) \<Longrightarrow> credit_save f s = (Inr (), f s)"
  by (simp add: credit_save_def act_eval)

definition draft_db :: credit_db where
  "draft_db = policy_db [policy_row MDraft None None None] [] [] 2"

definition filled_db :: credit_db where
  "filled_db = policy_db [policy_row MDraft None None None] [child_row] [] 3"

definition pending_db :: credit_db where
  "pending_db = policy_db [policy_row MPending None None None] [child_row] [policy_change ChangePending None] 4"

definition approved_db :: credit_db where
  "approved_db = policy_db [policy_row MApproved (Some ''bob'') None None] [child_row] [policy_change ChangeApproved (Some ''bob'')] 4"

definition active_db :: credit_db where
  "active_db = policy_db [policy_row MActive (Some ''bob'') (Some ''bob'') (Some 5)] [child_row]
     [policy_change ChangeApproved (Some ''bob'')] 4"

lemmas policy_dbs = draft_db_def filled_db_def pending_db_def approved_db_def active_db_def

lemma policy_dbs_ok:
  "credit_constraints draft_db" "credit_constraints filled_db" "credit_constraints pending_db"
  "credit_constraints approved_db" "credit_constraints active_db"
  "credit_constraints (policy_db [policy_row MPending None None None] [child_row] [] 3)"
  "credit_constraints (policy_db [policy_row MPending None None None] [child_row] [policy_change ChangeApproved (Some ''bob'')] 4)"
  unfolding policy_dbs
  by (rule policy_constraints[where st' = ChangePending] policy_constraints[where st' = ChangeApproved]; simp; fail)+

lemma publications_valid:
  "validateForPublication sample_admin 1 filled_db = (Inr (), filled_db)"
  "validateForPublication sample_admin 1 pending_db = (Inr (), pending_db)"
  "validateForPublication sample_admin 1 approved_db = (Inr (), approved_db)"
  unfolding policy_dbs by (rule publication_valid)+

lemma draft_created: "run_credit_op sample_admin (OpCreateMaster sample_master_dto ''ann'') empty_credit_db = draft_db"
proof -
  have m: "\<lparr>mr_id = 1, mr_code = ''R'', mr_version = 1, mr_name = ''R'', mr_category = ''A'',
     mr_product = ''P'', mr_currency = None, mr_minScore = None, mr_maxScore = None, mr_baseLimit = 5000, mr_minLimit = 100,
     mr_maxLimit = 10000, mr_defaultOutcome = DefaultRejected, mr_autoApproval = True, mr_options = [], mr_provider = None,
     mr_status = MDraft, mr_from = None, mr_to = None, mr_createdBy = ''ann'', mr_updatedBy = None,
     mr_approvedBy = None, mr_activatedBy = None, mr_rejection = None\<rparr> = policy_row MDraft None None None"
    by (simp add: policy_row_def)
  have q: "stored 2 5000 = 5000" "stored 2 100 = 100" "stored 2 10000 = 10000"
    by (simp_all add: stored_def round_half_def floor_eq_iff)
  show ?thesis
    using policy_dbs_ok(1)[unfolded draft_db_def numeral_2_eq_2] readonly_getMaster[unfolded readonly_def]
    by (simp add: createMaster_def sample_master_dto_def validateMaster_def opt_le_def timestamp_def act_then_run credit_save_run
        next_master_version_def upper_def up_char_def is_lower_def q[unfolded numeral_2_eq_2] m[simplified] draft_db_def numeral_2_eq_2)
qed

lemma rule_added: "run_credit_op sample_admin (OpAddRule 1 sample_rule_dto) draft_db = filled_db"
  using policy_dbs_ok(2) by (simp add: addRule_def draft_db_def filled_db_def act_eval editableMaster_def masterRow_def
      policy_row_def[of MDraft] sample_valid credit_save_run)


lemma policy_submitted: "run_credit_op sample_admin (OpSubmit 1 ''ann'' None) filled_db = pending_db"
proof -
  have u: "update_masters (\<lambda>m. mr_id m = 1) (\<lambda>m. m\<lparr>mr_status := MPending\<rparr>) filled_db
      = policy_db [policy_row MPending None None None] [child_row] [] 3"
    by (simp add: update_masters_def filled_db_def policy_row_def)
  have l: "listRules 1 filled_db \<noteq> []" by (simp add: listRules_def filled_db_def rule_row_def)
  have p: "[\<lparr>ch_id = 3, ch_master = 1, ch_status = ChangePending, ch_maker = ''ann'', ch_makerComment = None,
      ch_checker = None, ch_checkerComment = None\<rparr>] = [policy_change ChangePending None]"
    by (simp add: policy_change_def)
  have e: "editableMaster 1 filled_db = (Inr (policy_row MDraft None None None), filled_db)"
    by (simp add: editableMaster_def masterRow_def act_eval filled_db_def policy_row_def)
  show ?thesis
    using policy_dbs_ok(3,6) l
    by (simp add: submit_def e act_eval publications_valid transaction_def
        credit_save_run u p pending_db_def del: One_nat_def)
qed

lemma policy_approved: "run_credit_op sample_admin (OpApprove 1 ''bob'' None) pending_db = approved_db"
proof -
  have d: "decide_changes 1 ChangeApproved ''bob'' None pending_db
      = policy_db [policy_row MPending None None None] [child_row] [policy_change ChangeApproved (Some ''bob'')] 4"
    by (simp add: decide_changes_def pending_db_def policy_change_def)
  have u: "update_masters (\<lambda>m. mr_id m = 1) (\<lambda>m. m\<lparr>mr_status := MApproved, mr_approvedBy := Some ''bob''\<rparr>)
      (policy_db [policy_row MPending None None None] [child_row] [policy_change ChangeApproved (Some ''bob'')] 4) = approved_db"
    by (simp add: update_masters_def approved_db_def policy_row_def)
  have e: "pendingMaster 1 ''bob'' pending_db = (Inr (policy_row MPending None None None), pending_db)"
    by (simp add: pendingMaster_def masterRow_def act_eval pending_db_def policy_row_def)
  show ?thesis
    using policy_dbs_ok(4,7)
    by (simp add: approve_def e act_eval publications_valid transaction_def credit_save_run d u
        del: One_nat_def)
qed

lemma policy_activated: "run_credit_op sample_admin (OpActivate 1 ''bob'') approved_db = active_db"
proof -
  have s: "update_masters (\<lambda>m. mr_status m = MActive \<and> mr_id m \<noteq> 1 \<and> same_scope m c \<and> ranges_meet m c)
      (\<lambda>m. m\<lparr>mr_status := MSuperseded\<rparr>) approved_db = approved_db" for c
    by (simp add: update_masters_def approved_db_def policy_row_def)
  have u: "update_masters (\<lambda>m. mr_id m = 1) (\<lambda>m. m\<lparr>mr_status := MActive, mr_activatedBy := Some ''bob'',
      mr_from := Some (given (mr_from m) (ae_now sample_admin))\<rparr>) approved_db = active_db"
    by (simp add: update_masters_def approved_db_def active_db_def policy_row_def given_def sample_admin_def)
  have e: "masterRow 1 approved_db = (Inr (policy_row MApproved (Some ''bob'') None None), approved_db)"
    "mr_status (policy_row st ap act vf) = st" for st ap act vf
    by (simp_all add: masterRow_def act_eval approved_db_def policy_row_def)
  show ?thesis
    using policy_dbs_ok(4,5)
    by (simp add: activate_def e act_eval publications_valid transaction_def
        credit_save_run s u del: One_nat_def)
qed

text \<open>The states on the way are states the service reaches.\<close>

lemma sample_managed: "managed pending_db" "managed approved_db" "managed active_db"
proof -
  show p: "managed pending_db"
    using managed.request[OF managed.request[OF managed.request[OF managed.empty]],
        of sample_admin "OpSubmit 1 ''ann'' None" sample_admin "OpAddRule 1 sample_rule_dto" sample_admin
        "OpCreateMaster sample_master_dto ''ann''"]
    by (simp only: draft_created rule_added policy_submitted)
  show a: "managed approved_db" using managed.request[OF p, of sample_admin "OpApprove 1 ''bob'' None"] by (simp only: policy_approved)
  show "managed active_db" using managed.request[OF a, of sample_admin "OpActivate 1 ''bob''"] by (simp only: policy_activated)
qed

section \<open>Properties\<close>

definition covers :: "master_rule \<Rightarrow> rat \<Rightarrow> bool" where
  "covers m q \<longleftrightarrow> opt_all (\<lambda>lo. lo \<le> q) (mr_minScore m) \<and> opt_all (\<lambda>hi. q \<le> hi) (mr_maxScore m)"

lemma covers_meet: "covers m q \<Longrightarrow> covers n q \<Longrightarrow> abs q \<le> no_bound \<Longrightarrow> ranges_meet m n"
  by (auto simp: covers_def opt_all_def ranges_meet_def given_def split: option.splits)



text \<open>
  C34 In every state the service reaches, a master rule that is or was published was approved by another than its
  creator, and a decided change request was decided by another than the one who submitted it.
\<close>
theorem credit_four_eyes:
  assumes "managed s"
  shows "(\<forall>m \<in> set (db_masters s). published (mr_status m) \<longrightarrow> (\<exists>a. mr_approvedBy m = Some a \<and> a \<noteq> mr_createdBy m)) \<and>
     (\<forall>c \<in> set (db_changes s). ch_checker c \<noteq> Some (ch_maker c))"
proof -
  have inv: "policy_inv s" using managed_inv[OF assms] .
  have "\<exists>a. mr_approvedBy m = Some a \<and> a \<noteq> mr_createdBy m" if "m \<in> set (db_masters s)" "published (mr_status m)" for m
  proof -
    have "mr_approvedBy m \<noteq> None" "master_row_ok m"
      using inv that by (auto simp: policy_inv_def masters_ok_def credit_constraints_def list_all_iff)
    then show ?thesis by (auto simp: master_row_ok_def other_checker_def)
  qed
  moreover have "ch_checker c \<noteq> Some (ch_maker c)" if "c \<in> set (db_changes s)" for c
    using inv that by (auto simp: policy_inv_def credit_constraints_def list_all_iff change_row_ok_def other_checker_def)
  ultimately show ?thesis by blast
qed

theorem credit_four_eyes_witness:
  "\<exists>m \<in> set (db_masters active_db). mr_status m = MActive \<and> (\<exists>a. mr_approvedBy m = Some a \<and> a \<noteq> mr_createdBy m)"
proof -
  let ?m = "policy_row MActive (Some ''bob'') (Some ''bob'') (Some 5)"
  have m: "?m \<in> set (db_masters active_db)" "mr_status ?m = MActive"
    by (simp_all add: active_db_def) (simp add: policy_row_def)
  with credit_four_eyes[OF sample_managed(3)] show ?thesis by (auto simp: published_def)
qed

text \<open>
  C36 No request changes a master rule once it was submitted: whatever the request, the rule keeps its terms and its
  child rules, and its status only moves from pending to approved or rejected, from approved to active and from
  active to superseded or retired.
\<close>
theorem published_policy_immutable:
  assumes "managed s" and "m \<in> set (db_masters s)" and "mr_status m \<notin> {MDraft, MRejected}"
  shows "\<exists>m' \<in> set (db_masters (run_credit_op E op s)). mr_id m' = mr_id m \<and> policy_terms m' = policy_terms m \<and>
     allowed_status (mr_status m) (mr_status m') \<and> listRules (mr_id m) (run_credit_op E op s) = listRules (mr_id m) s"
proof -
  have "\<not> editable (mr_status m)" using assms(3) by (simp add: editable_def)
  with run_credit_op_kept[OF managed_inv[OF assms(1)], of E op] assms(2) show ?thesis
    by (auto simp: kept_def row_kept_def)
qed

theorem published_policy_immutable_witness:
  "\<exists>m' \<in> set (db_masters active_db). policy_terms m' = policy_terms (policy_row MApproved (Some ''bob'') None None) \<and>
     allowed_status MApproved (mr_status m') \<and> listRules 1 active_db = listRules 1 approved_db"
proof -
  let ?m = "policy_row MApproved (Some ''bob'') None None"
  have m: "?m \<in> set (db_masters approved_db)" "mr_status ?m \<notin> {MDraft, MRejected}" "mr_id ?m = 1" "mr_status ?m = MApproved"
    by (simp_all add: approved_db_def) (simp_all add: policy_row_def)
  from published_policy_immutable[OF sample_managed(2) m(1,2), of sample_admin "OpActivate 1 ''bob''"] show ?thesis
    unfolding policy_activated m(3,4) by blast
qed

lemma applyAction_throws:
  assumes "validateAction a = Inr ()" and "applyAction a src inp cx = Inl e"
  shows "\<exists>t \<in> source_actions. e = Failure (t @ '' requires a numeric source value'')"
proof -
  obtain fs where a: "a = JObj fs" using validated_object[OF assms(1)] by blast
  have t: "\<exists>t. js_get a ''type'' = Inr t" unfolding a by (simp add: js_get_def)
  have o: "\<exists>os. (if truthy (prop_of a ''repaymentOptionIds'') then spread (prop_of a ''repaymentOptionIds'')
      else Inr (cx_options cx)) = Inr os"
    using validated_options[OF assms(1)] by (auto simp: spread_def)
  have "new_limit a src inp (cx_limit cx) = Inl e"
    using assms(2) t o by (cases "new_limit a src inp (cx_limit cx)") (auto simp: applyAction_def)
  then show ?thesis
    by (auto simp: new_limit_def Let_def requireNumericSource_def ensure_def source_actions_def await_def split: if_splits)
qed

lemma rule_trace_throws:
  assumes "\<forall>r \<in> set rs. valid_rule (rule_input r)" and "rule_trace E db i d ai rs cx = (Inl e, ts)"
  shows "\<exists>t \<in> source_actions. e = Failure (t @ '' requires a numeric source value'')"
  using assms
proof (induction rs arbitrary: cx ts)
  case (Cons r rs)
  let ?q = "test_rule E db d ai r"
  have v: "validateAction (rr_action ?q) = Inr ()"
    using test_rule_action[of E db d ai r] Cons.prems(1) by (auto simp: valid_rule_def rule_input_def)
  show ?case
  proof (cases "in_group r (cx_groups cx)")
    case True
    with Cons show ?thesis by simp
  next
    case False
    show ?thesis
    proof (cases "applyAction (rr_action ?q) (case rr_source ?q of None \<Rightarrow> JUndef | Some s \<Rightarrow> fst s) (ed_inputs d) (add_group r ?q cx)")
      case (Inl x)
      with False Cons.prems(2) have "x = e" by (simp add: Let_def)
      with applyAction_throws[OF v Inl] show ?thesis by simp
    next
      case (Inr cx')
      with False Cons show ?thesis by (auto simp: Let_def split: if_splits prod.splits)
    qed
  qed
qed simp

text \<open>
  Administration and evaluation together: in every state the service reaches, an evaluation throws only if it was
  refused or an action found no number to take its limit from; no rule of any policy can raise a type error or end
  it otherwise.
\<close>
theorem managed_evaluation_errors:
  assumes "managed s" and "i \<notin> ex_id ` set (db_executions s)" and "run_evaluation V i d s = (Inl e, t)"
  shows "(ed_master d \<noteq> None \<and> \<not> ed_simulation d) \<or>
     (\<exists>a \<in> source_actions. e = Failure (a @ '' requires a numeric source value''))"
  using assms(3,2)
proof (cases rule: run_evaluation_ends)
  case (failed x e' m ai ts)
  have "\<forall>r \<in> set (master_rules m s). valid_rule (rule_input r)"
    using managed_inv[OF assms(1)] by (auto simp: master_rules_def policy_inv_def rules_ok_def)
  from rule_trace_throws[OF this failed(6)] failed(1) show ?thesis by simp
qed simp_all

theorem managed_evaluation_errors_witness:
  "\<exists>e t. run_evaluation sample_env 1 (sample_dto\<lparr>ed_master := Some 1\<rparr>) active_db = (Inl e, t) \<and> ed_master (sample_dto\<lparr>ed_master := Some 1\<rparr>) \<noteq> None"
proof -
  let ?d = "sample_dto\<lparr>ed_master := Some 1\<rparr>"
  have run: "run_evaluation sample_env 1 ?d active_db = (Inl (BadRequest ''masterRuleId may only be supplied for a simulation''), active_db)"
    unfolding run_evaluation_def by (rule act_then_refused) (simp add: sample_dto_def)
  have "1 \<notin> ex_id ` set (db_executions active_db)" by (simp add: active_db_def)
  from managed_evaluation_errors[OF sample_managed(3) this run] run show ?thesis by (auto simp: source_actions_def)
qed

end
