(* ===== verification/ReviewProperties.thy ===== *)
theory ReviewProperties
  imports ManualReview CreditGovernance
begin

text \<open>What manual review guarantees: the effect of a decision, and the audit trail of every case.\<close>

section \<open>Runs of the handlers\<close>

lemma assertReason_ok [act_simps]: "assertReason c k s = (Inr u, t) \<longleftrightarrow>
    (\<exists>r. find (\<lambda>r. rn_code r = upper c \<and> rn_active r) (rv_reasons s) = Some r \<and> (k = None \<or> k = Some (rn_type r))) \<and> t = s"
  by (auto simp: assertReason_def act_simps)

lemma recommend_run:
  assumes "recommend i d actor s = (r, t)"
  obtains (threw) e where "r = Inl e" "t = s"
  | (ran) c where "find_case i s = Some c" "rc_status c \<in> {ReviewPending, InReview}" "t = record_recommendation i d actor s"
proof (cases r)
  case (Inl e)
  with assms threw show thesis by (auto simp: recommend_def dest: transaction_throws)
next
  case (Inr x)
  with assms ran show thesis unfolding recommend_def by (auto simp: act_simps)
qed

lemma decide_run:
  assumes "decide i d actor s = (r, t)"
  obtains (threw) e where "r = Inl e" "t = s"
  | (ran) c x l where "r = Inr l" "joined_case i s = Some (c, x)" "rc_status c = Recommended" "rc_recommendedBy c \<noteq> Some actor"
      "fin_approved d \<longrightarrow> review_binding x s" "l = approved_limit d c x"
      "fin_approved d \<longrightarrow> \<not> num_le l (NumFin 0) \<and> \<not> num_lt (allocated_number x) l" "t = record_decision i d actor c x l s"
proof (cases r)
  case (Inl e)
  with assms threw show thesis by (auto simp: decide_def dest: transaction_throws)
next
  case (Inr l)
  with assms have run: "decide i d actor s = (Inr l, t)" by simp
  then obtain c x where j: "joined_case i s = Some (c, x)"
    unfolding decide_def by (cases "joined_case i s") (auto simp: act_simps)
  from run j Inr show thesis
    by (intro ran[of l c x]; simp add: decide_def act_simps split: if_splits; elim conjE; simp)
qed

section \<open>The effect of a decision\<close>

lemma joined_caseD: "joined_case i s = Some (c, x) \<Longrightarrow> c \<in> set (rv_cases s) \<and> rc_id c = i \<and>
    x \<in> set (db_executions (rv_credit s)) \<and> ex_id x = rc_execution c"
  by (auto simp: joined_case_def find_case_def find_Some_iff split: option.splits)


section \<open>The audit trail\<close>

text \<open>Everything that can happen to the review database.\<close>

inductive reviewing :: "review_db \<Rightarrow> bool" where
  start: "managed c \<Longrightarrow> reviewing \<lparr>rv_credit = c, rv_cases = [], rv_actions = [], rv_reasons = rs, rv_queues = qs, rv_next = 1\<rparr>"
| evaluate: "reviewing s \<Longrightarrow> reviewing (review_evaluation V i d s)"
| administer: "reviewing s \<Longrightarrow> reviewing (s\<lparr>rv_credit := run_credit_op E op (rv_credit s)\<rparr>)"
| bind: "reviewing s \<Longrightarrow> reviewing (s\<lparr>rv_credit := (rv_credit s)\<lparr>db_bindings := bs\<rparr>, rv_reasons := rs, rv_queues := qs\<rparr>)"
| recommend: "reviewing s \<Longrightarrow> reviewing (snd (recommend j r a s))"
| decide: "reviewing s \<Longrightarrow> reviewing (snd (decide j f a s))"

definition trail :: "nat \<Rightarrow> review_db \<Rightarrow> (string \<times> string) list" where
  "trail i s = map (\<lambda>a. (ra_action a, ra_actor a)) (filter (\<lambda>a. ra_case a = i) (rv_actions s))"

text \<open>The trail that a case in its status must have.\<close>

definition audited :: "review_case \<Rightarrow> (string \<times> string) list \<Rightarrow> bool" where
  "audited c tr \<longleftrightarrow> (case rc_status c of
     ReviewPending \<Rightarrow> tr = []
   | Recommended \<Rightarrow> (\<exists>a. rc_recommendedBy c = Some a \<and> tr = [(''RECOMMEND'', a)])
   | ReviewApproved \<Rightarrow> (\<exists>a b. a \<noteq> b \<and> rc_recommendedBy c = Some a \<and> rc_decidedBy c = Some b \<and>
        tr = [(''RECOMMEND'', a), (''APPROVED'', b)])
   | ReviewRejected \<Rightarrow> (\<exists>a b. a \<noteq> b \<and> rc_recommendedBy c = Some a \<and> rc_decidedBy c = Some b \<and>
        tr = [(''RECOMMEND'', a), (''REJECTED'', b)])
   | _ \<Rightarrow> False)"

definition review_inv :: "review_db \<Rightarrow> bool" where
  "review_inv s \<longleftrightarrow> distinct (map rc_id (rv_cases s)) \<and> (\<forall>c \<in> set (rv_cases s). rc_id c < rv_next s \<and> audited c (trail (rc_id c) s)) \<and>
     (\<forall>a \<in> set (rv_actions s). ra_case a < rv_next s)"

lemma review_inv_cong:
  "rv_cases t = rv_cases s \<Longrightarrow> rv_actions t = rv_actions s \<Longrightarrow> rv_next t = rv_next s \<Longrightarrow> review_inv s \<Longrightarrow> review_inv t"
  by (simp add: review_inv_def trail_def)

text \<open>One step on one case: its row changes and one action is logged.\<close>

lemma review_inv_step:
  assumes inv: "review_inv s" and c: "c \<in> set (rv_cases s)" "rc_id c = i"
    and f: "\<And>c. rc_id (f c) = rc_id c"
    and t: "rv_cases t = map (\<lambda>c. if rc_id c = i then f c else c) (rv_cases s)" "rv_actions t = rv_actions s @ [a]"
      "ra_case a = i" "rv_next t = rv_next s"
    and ok: "audited (f c) (trail i s @ [(ra_action a, ra_actor a)])"
  shows "review_inv t"
proof -
  have ids: "map rc_id (rv_cases t) = map rc_id (rv_cases s)" using f by (auto simp: t(1))
  have tr: "trail j t = (if j = i then trail i s @ [(ra_action a, ra_actor a)] else trail j s)" for j
    by (simp add: trail_def t)
  have same: "x = c" if "x \<in> set (rv_cases s)" "rc_id x = i" for x
    using inv c that by (auto simp: review_inv_def distinct_map inj_on_def)
  have "rc_id y < rv_next t \<and> audited y (trail (rc_id y) t)" if "y \<in> set (rv_cases t)" for y
  proof -
    from that t(1) obtain x where x: "x \<in> set (rv_cases s)" "y = (if rc_id x = i then f x else x)" by auto
    show ?thesis using inv x same[of x] f c(2) ok t(4) by (auto simp: review_inv_def tr)
  qed
  moreover have "ra_case b < rv_next t" if "b \<in> set (rv_actions t)" for b
    using inv that c t(2-4) by (auto simp: review_inv_def)
  moreover have "distinct (map rc_id (rv_cases t))" using inv by (simp only: ids) (simp add: review_inv_def)
  ultimately show ?thesis by (simp add: review_inv_def)
qed

lemma find_case_Some: "find_case i s = Some c \<Longrightarrow> c \<in> set (rv_cases s) \<and> rc_id c = i"
  by (auto simp: find_case_def find_Some_iff)

lemma recommend_audit:
  assumes "review_inv s"
  shows "review_inv (snd (recommend i d a s))"
proof -
  obtain r t where run: "recommend i d a s = (r, t)" by fastforce
  from run have "review_inv t"
  proof (cases rule: recommend_run)
    case (threw e)
    with assms show ?thesis by simp
  next
    case (ran c)
    then have c: "c \<in> set (rv_cases s)" "rc_id c = i" using find_case_Some by blast+
    then have "audited c (trail i s)" using assms by (auto simp: review_inv_def)
    then have "audited (recommended_case d a c) (trail i s @ [(''RECOMMEND'', a)])"
      using ran(2) by (auto simp: audited_def recommended_case_def)
    then show ?thesis
      unfolding ran(3)
      by (intro review_inv_step[OF assms c, where f = "recommended_case d a" and
          a = "\<lparr>ra_case = i, ra_action = ''RECOMMEND'', ra_actor = a, ra_reason = rec_reason d, ra_comment = rec_comment d\<rparr>"])
        (simp_all add: record_recommendation_def log_action_def update_case_def recommended_case_def)
  qed
  then show ?thesis by (simp add: run)
qed

lemma decide_audit:
  assumes "review_inv s"
  shows "review_inv (snd (decide i d a s))"
proof -
  obtain r t where run: "decide i d a s = (r, t)" by fastforce
  from run have "review_inv t"
  proof (cases rule: decide_run)
    case (threw e)
    with assms show ?thesis by simp
  next
    case (ran c x l)
    then have c: "c \<in> set (rv_cases s)" "rc_id c = i" using joined_caseD by blast+
    then have "audited c (trail i s)" using assms by (auto simp: review_inv_def)
    then have "audited (decided_case d a l c) (trail i s @ [(if fin_approved d then ''APPROVED'' else ''REJECTED'', a)])"
      using ran(3,4) by (auto simp: audited_def decided_case_def)
    then show ?thesis
      unfolding ran(8)
      by (intro review_inv_step[OF assms c, where f = "decided_case d a l" and
          a = "\<lparr>ra_case = i, ra_action = (if fin_approved d then ''APPROVED'' else ''REJECTED''), ra_actor = a,
            ra_reason = fin_reason d, ra_comment = fin_comment d\<rparr>"])
        (simp_all add: record_decision_def log_action_def update_case_def update_review_execution_def decided_case_def)
  qed
  then show ?thesis by (simp add: run)
qed

lemma open_review_audit:
  assumes inv: "review_inv s"
  shows "review_inv (open_review i s)"
proof -
  have new: "review_inv (s\<lparr>rv_cases := rv_cases s @ [c], rv_next := Suc (rv_next s)\<rparr>)"
    if "rc_id c = rv_next s" "rc_status c = ReviewPending" for c
  proof -
    have "trail j (s\<lparr>rv_cases := rv_cases s @ [c], rv_next := Suc (rv_next s)\<rparr>) = trail j s" for j by (simp add: trail_def)
    moreover have "trail (rv_next s) s = []" using inv by (auto simp: trail_def review_inv_def filter_empty_conv)
    then have "audited c (trail (rv_next s) s)" by (simp add: audited_def that)
    ultimately show ?thesis using inv that by (auto simp: review_inv_def less_Suc_eq)
  qed
  show ?thesis using inv by (auto simp: open_review_def split: option.splits intro!: new)
qed

lemma reviewing_audit: "reviewing s \<Longrightarrow> review_inv s"
proof (induction rule: reviewing.induct)
  case (start c rs qs)
  show ?case by (simp add: review_inv_def)
next
  case (evaluate s V i d)
  then show ?case unfolding review_evaluation_def by (intro open_review_audit) (auto intro: review_inv_cong[of _ s])
next
  case (recommend s j r a)
  then show ?case by (intro recommend_audit)
next
  case (decide s j f a)
  then show ?case by (intro decide_audit)
qed (auto intro: review_inv_cong)

text \<open>
  C38 Whatever happens, the audit trail of a review case tells its history: none while it is pending, one
  recommendation while it is recommended, and for a decided case the recommendation followed by one decision of
  another actor.
\<close>
theorem review_audit_trail:
  assumes "reviewing s" and "c \<in> set (rv_cases s)"
  shows "audited c (trail (rc_id c) s)"
  using reviewing_audit[OF assms(1)] assms(2) by (simp add: review_inv_def)


section \<open>A case taken through a review\<close>

definition review_case_row :: "review_status \<Rightarrow> string option \<Rightarrow> review_case" where
  "review_case_row st reviewer = \<lparr>rc_id = 1, rc_execution = 1, rc_status = st, rc_recommendation = None, rc_reason = None,
     rc_comment = None, rc_limit = None, rc_recommendedBy = reviewer, rc_finalReason = None, rc_finalComment = None,
     rc_approvedLimit = None, rc_decidedBy = None\<rparr>"

definition sample_reasons :: "reason_code list" where
  "sample_reasons = [\<lparr>rn_code = ''MANUAL_APPROVED'', rn_type = ''TECHNICAL'', rn_active = True\<rparr>,
     \<lparr>rn_code = ''MANUAL_REJECTED'', rn_type = ''REJECT'', rn_active = True\<rparr>]"

definition sample_review_execution :: execution where
  "sample_review_execution = (new_execution 1 sample_dto)\<lparr>ex_outcome := ManualReview, ex_allocated := Some (NumFin 6000)\<rparr>"

definition sample_review :: review_db where
  "sample_review = \<lparr>rv_credit = (sample_db adding_rule)\<lparr>db_executions := [sample_review_execution]\<rparr>,
     rv_cases = [review_case_row Recommended (Some ''rita'')], rv_actions = [], rv_reasons = sample_reasons, rv_queues = [],
     rv_next = 2\<rparr>"

definition sample_decision :: decision_dto where
  "sample_decision = \<lparr>fin_approved = True, fin_reason = ''MANUAL_APPROVED'', fin_comment = ''ok'', fin_limit = Some 4000\<rparr>"

lemma sample_decided: "\<exists>t. decide 1 sample_decision ''dan'' sample_review = (Inr (NumFin 4000), t)"
proof -
  let ?c = "review_case_row Recommended (Some ''rita'')" and ?x = sample_review_execution
  have j: "joined_case 1 sample_review = Some (?c, ?x)"
    by (simp add: joined_case_def find_case_def sample_review_def review_case_row_def sample_review_execution_def new_execution_def)
  have r: "find (\<lambda>r. rn_code r = upper ''MANUAL_APPROVED'' \<and> rn_active r) (rv_reasons sample_review)
      = Some \<lparr>rn_code = ''MANUAL_APPROVED'', rn_type = ''TECHNICAL'', rn_active = True\<rparr>"
    by (simp add: sample_review_def sample_reasons_def upper_def up_char_def is_lower_def)
  have b: "review_binding ?x sample_review"
    by (simp add: review_binding_def sample_review_def sample_db_def sample_review_execution_def new_execution_def sample_dto_def
        sample_inputs_def json_text_def)
  have "\<lfloor>1200001 / 2 :: rat\<rfloor> = 600000" by (simp add: floor_eq_iff)
  then have a: "allocated_number ?x = NumFin 6000"
    by (simp add: allocated_number_def sample_review_execution_def numeric_column_def round_half_def)
  have l: "approved_limit sample_decision ?c ?x = NumFin 4000" by (simp add: approved_limit_def sample_decision_def)
  have c: "rc_status ?c = Recommended" "rc_recommendedBy ?c = Some ''rita''" by (simp_all add: review_case_row_def)
  have d: "fin_reason sample_decision = ''MANUAL_APPROVED''" "fin_approved sample_decision" by (simp_all add: sample_decision_def)
  show ?thesis
    unfolding decide_def act_simps by (simp add: j r b a l c d act_simps del: One_nat_def)
qed


text \<open>An evaluation whose submitted grade is not the score's opens a case in every state with a policy and a queue.\<close>

definition mismatch_dto :: evaluate_dto where
  "mismatch_dto = sample_dto\<lparr>ed_inputs := JObj [(''grade'', JStr ''B'')]\<rparr>"

definition sample_queue :: review_queue where
  "sample_queue = \<lparr>rq_country = None, rq_product = None, rq_active = True\<rparr>"

definition review_start :: review_db where
  "review_start = \<lparr>rv_credit = active_db, rv_cases = [], rv_actions = [], rv_reasons = sample_reasons, rv_queues = [sample_queue],
     rv_next = 1\<rparr>"

lemma mismatch_run: "\<exists>u x. run_evaluation sample_env 1 mismatch_dto active_db = (Inr (), u) \<and> db_executions u = [x] \<and>
    ex_id x = 1 \<and> ex_outcome x = ManualReview \<and> ex_request x = mismatch_dto"
proof -
  let ?s = "active_db\<lparr>db_executions := [new_execution 1 mismatch_dto]\<rparr>"
  have "sample_ai\<lparr>ai_category := upper (ai_category sample_ai)\<rparr> = sample_ai"
    by (simp add: sample_ai_def upper_def up_char_def is_lower_def)
  then have s: "resolveScore sample_env mismatch_dto ?s = (Inr (sample_ai, None), ?s)"
    by (simp add: resolveScore_def act_then_run Let_def findScoreProvider_def active_db_def mismatch_dto_def sample_dto_def
        validateScore_def) (simp add: sample_ai_def num_finite_def)
  have "policy_row MActive (Some ''bob'') (Some ''bob'') (Some 5) \<in> set (db_masters ?s)" by (simp add: active_db_def)
  have f: "findMaster sample_env mismatch_dto sample_ai ?s = Some (policy_row MActive (Some ''bob'') (Some ''bob'') (Some 5))"
    by (simp add: findMaster_def active_db_def master_matches_def mismatch_dto_def sample_dto_def sample_ai_def sample_env_def
        upper_def up_char_def is_lower_def) (simp add: policy_row_def)
  have g: "prop_of (ed_inputs mismatch_dto) ''grade'' \<noteq> JStr (ai_category sample_ai)" "ed_master mismatch_dto = None"
    "db_executions active_db = []"
    by (simp_all add: mismatch_dto_def sample_ai_def sample_dto_def active_db_def)
  have "run_evaluation sample_env 1 mismatch_dto active_db
      = finishFailure sample_env 1 ManualReview ''SCORE_GRADE_MISMATCH'' ?s"
    by (simp add: run_evaluation_def act_eval act_catch_def g s after_score_def f del: One_nat_def)
  then show ?thesis by (simp add: finishFailure_def update_execution_def new_execution_def)
qed

lemma review_opened: "\<exists>u. review_evaluation sample_env 1 mismatch_dto review_start =
    review_start\<lparr>rv_credit := u, rv_cases := [review_case_row ReviewPending None], rv_next := 2\<rparr>"
proof -
  obtain u x where u: "run_evaluation sample_env 1 mismatch_dto active_db = (Inr (), u)" "db_executions u = [x]"
    "ex_id x = 1" "ex_outcome x = ManualReview" "ex_request x = mismatch_dto" using mismatch_run by blast
  have "ed_simulation mismatch_dto = False" "queue_accepts x sample_queue"
    by (simp_all add: mismatch_dto_def sample_dto_def queue_accepts_def sample_queue_def)
  with u show ?thesis
    by (intro exI[of _ u]) (simp add: review_evaluation_def review_start_def open_review_def review_case_row_def numeral_2_eq_2)
qed

lemma reviewing_start: "reviewing review_start"
  unfolding review_start_def by (intro reviewing.start sample_managed)

theorem review_audit_trail_witness:
  "\<exists>s c. reviewing s \<and> rv_cases s = [c] \<and> rc_status c = Recommended \<and> audited c (trail (rc_id c) s)"
proof -
  let ?d = "\<lparr>rec_action = ''REJECT'', rec_reason = ''MANUAL_REJECTED'', rec_comment = ''grade'', rec_limit = None\<rparr>"
  obtain u where o: "review_evaluation sample_env 1 mismatch_dto review_start =
      review_start\<lparr>rv_credit := u, rv_cases := [review_case_row ReviewPending None], rv_next := 2\<rparr>" using review_opened by blast
  let ?s = "review_start\<lparr>rv_credit := u, rv_cases := [review_case_row ReviewPending None], rv_next := 2\<rparr>"
  let ?t = "snd (recommend 1 ?d ''rita'' ?s)"
  have "reviewing ?s" using reviewing.evaluate[OF reviewing_start, of sample_env 1 mismatch_dto] by (simp only: o)
  then have t: "reviewing ?t" by (rule reviewing.recommend)
  have c: "find_case 1 ?s = Some (review_case_row ReviewPending None)" "rc_status (review_case_row ReviewPending None) = ReviewPending"
    by (simp_all add: find_case_def review_case_row_def)
  have r: "find (\<lambda>r. rn_code r = upper ''MANUAL_REJECTED'' \<and> rn_active r) (rv_reasons ?s)
      = Some \<lparr>rn_code = ''MANUAL_REJECTED'', rn_type = ''REJECT'', rn_active = True\<rparr>"
    by (simp add: review_start_def sample_reasons_def upper_def up_char_def is_lower_def)
  have "recommend 1 ?d ''rita'' ?s = (Inr ''rita'', record_recommendation 1 ?d ''rita'' ?s)"
    unfolding recommend_def act_simps using c r by (simp del: One_nat_def)
  then have cases: "rv_cases ?t = [recommended_case ?d ''rita'' (review_case_row ReviewPending None)]"
    by (simp add: record_recommendation_def log_action_def update_case_def) (simp add: review_case_row_def)
  have "rc_status (recommended_case ?d ''rita'' (review_case_row ReviewPending None)) = Recommended"
    by (simp add: recommended_case_def)
  with review_audit_trail[OF t] cases t show ?thesis by auto
qed

end
