(* ===== verification/ReferenceData.thy ===== *)
theory ReferenceData
  imports AmlLedger JsValues
begin

text \<open>
  The maker-checker of the reference data: keywords, wallet types and AML limits
  (\<open>src/modules/reference-data/reference-data.service.ts\<close> with its request bodies, and the tables of
  \<open>database/local/001_legacy_baseline.sql\<close>, \<open>database/migrations/009_reference_data_maker_checker.sql\<close> and
  \<open>010_aml_configuration_maker_checker.sql\<close>).  A maker queues a snapshot of the record as it should become; a
  checker approves it, which writes the live table, or rejects it.

  A snapshot is a JSON object, here the list of its fields, as in the code (\<open>Record<string, unknown>\<close>).  A
  row is the list of its columns.  A number in a snapshot is the decimal it prints as; every number the service
  writes is such a decimal, so reading it back gives it again.  Columns that only record times are left out.
\<close>

section \<open>Objects and columns\<close>

type_synonym json_object = "(string \<times> jsval) list"

definition field :: "json_object \<Rightarrow> string \<Rightarrow> jsval" where
  "field obj k = prop_of (JObj obj) k"

text \<open>\<open>{ ...a, ...b }\<close>\<close>

definition object_spread :: "json_object \<Rightarrow> json_object \<Rightarrow> json_object" where
  "object_spread a b = map (\<lambda>(k, v). (k, case map_of b k of None \<Rightarrow> v | Some w \<Rightarrow> w)) a
     @ filter (\<lambda>(k, v). k \<notin> fst ` set a) b"

definition pickDefined :: "json_object \<Rightarrow> string list \<Rightarrow> json_object" where
  "pickDefined obj ks = map (\<lambda>k. (k, field obj k)) (filter (\<lambda>k. field obj k \<noteq> JUndef) ks)"

text \<open>Equality of \<open>jsonb\<close> objects: the same keys with the same values, in any order.\<close>

definition same_json :: "json_object \<Rightarrow> json_object \<Rightarrow> bool" where
  "same_json a b \<longleftrightarrow> list_all (\<lambda>k. field a k = field b k) (map fst a @ map fst b)"

datatype column_type = TText | TChar1 | TBool | TInt16 | TInt32 | TNumeric | TNumeric12_2

type_synonym column = "string \<times> column_type \<times> bool"
type_synonym row = "(string \<times> jsval) list"

text \<open>A column of a row; one that was never written is null.\<close>

definition col :: "row \<Rightarrow> string \<Rightarrow> jsval" where
  "col r c = (case map_of r c of None \<Rightarrow> JNull | Some v \<Rightarrow> v)"

definition int_within :: "int \<Rightarrow> int \<Rightarrow> jsval \<Rightarrow> jsval res" where
  "int_within lo hi v = (case v of
     JNum (NumFin q) \<Rightarrow>
       if of_int \<lfloor>q\<rfloor> \<noteq> q then Inl (Failure ''invalid input syntax for type integer'')
       else if lo \<le> \<lfloor>q\<rfloor> \<and> \<lfloor>q\<rfloor> \<le> hi then Inr v else Inl (Failure ''integer out of range'')
   | _ \<Rightarrow> Inl (Failure ''invalid input syntax for type integer''))"

abbreviation smallint :: "jsval \<Rightarrow> jsval res" where
  "smallint \<equiv> int_within (- 32768) 32767"

abbreviation int4 :: "jsval \<Rightarrow> jsval res" where
  "int4 \<equiv> int_within (- 2147483648) 2147483647"

text \<open>
  What a column stores of a value that is not null.  A value of another type than the column's is refused; the
  request bodies admit none.
\<close>

definition stored_cell :: "column_type \<Rightarrow> jsval \<Rightarrow> jsval res" where
  "stored_cell ty v = (case ty of
     TText \<Rightarrow> (case v of JStr s \<Rightarrow> Inr v | _ \<Rightarrow> Inl (Failure ''invalid input syntax''))
   | TChar1 \<Rightarrow> (case v of
       JStr s \<Rightarrow> (let t = rev (dropWhile (\<lambda>c. c = CHR '' '') (rev s))
                  in if 1 < length t then Inl (Failure ''value too long for type character(1)'')
                     else Inr (JStr (if t = [] then '' '' else t)))
     | _ \<Rightarrow> Inl (Failure ''invalid input syntax''))
   | TBool \<Rightarrow> (case v of JBool b \<Rightarrow> Inr v | _ \<Rightarrow> Inl (Failure ''invalid input syntax for type boolean''))
   | TInt16 \<Rightarrow> smallint v
   | TInt32 \<Rightarrow> int4 v
   | TNumeric \<Rightarrow> (case v of JNum (NumFin q) \<Rightarrow> Inr v | _ \<Rightarrow> Inl (Failure ''invalid input syntax for type numeric''))
   | TNumeric12_2 \<Rightarrow> (case v of
       JNum (NumFin q) \<Rightarrow> if 10 ^ 10 \<le> \<bar>round2 q\<bar> then Inl (Failure ''numeric field overflow'')
         else Inr (JRat (round2 q))
     | _ \<Rightarrow> Inl (Failure ''invalid input syntax for type numeric'')))"

text \<open>The driver sends \<open>undefined\<close> as null.\<close>

definition cell :: "column list \<Rightarrow> string \<times> jsval \<Rightarrow> (string \<times> jsval) res" where
  "cell cols = (\<lambda>(c, v).
     (case map_of cols c of
        None \<Rightarrow> Inl (Failure ''column does not exist'')
      | Some (ty, notnull) \<Rightarrow>
          if js_nullish v then (if notnull then Inl (Failure ''null value violates not-null constraint'') else Inr (c, JNull))
          else await (stored_cell ty v) (\<lambda>w. Inr (c, w))))"

definition cells :: "column list \<Rightarrow> (string \<times> jsval) list \<Rightarrow> row res" where
  "cells cols = map_res (cell cols)"

section \<open>Tables\<close>

definition keyword_columns :: "column list" where
  "keyword_columns =
     [(''Keyword'', TText, True), (''Keyword_Description'', TText, False), (''Keyword_Scope'', TChar1, False),
      (''Created_By'', TText, False), (''Modified_By'', TText, False), (''Approved_By'', TText, False),
      (''Is_Financial'', TBool, False), (''Chargeable'', TChar1, False), (''Kc_Id_Lookup'', TChar1, False),
      (''Commissionable'', TChar1, False), (''Kcm_Id_Lookup'', TChar1, False),
      (''MINIMUM_TRAN_AMOUNT'', TNumeric12_2, True), (''INVOLVED_PARTY'', TText, False), (''ApplyTds'', TBool, False),
      (''Is_Reward_Applicable'', TBool, True), (''Is_System_Keyword'', TBool, True), (''Service_Status'', TBool, True),
      (''vat_source'', TChar1, True), (''VatId'', TInt16, True), (''Keyword_Description_Local'', TText, False),
      (''Is_category_service'', TBool, True), (''priority'', TInt32, False), (''RKEYWORD'', TText, False),
      (''Is_Active'', TBool, True)]"

definition wallet_type_columns :: "column list" where
  "wallet_type_columns =
     [(''Wallet_ID'', TInt32, True), (''Wallet_Name'', TText, False), (''Wallet_Details'', TText, False),
      (''Created_By'', TText, False), (''Modified_By'', TText, False), (''Approved_By'', TText, False),
      (''Is_Kyc_Needed'', TBool, False), (''Default_Comission_Id'', TInt32, False), (''Default_Charge_Id'', TInt32, False),
      (''Wallet_Type'', TInt16, False), (''Is_Charge'', TBool, False), (''Fee'', TNumeric, False),
      (''Hierarchy'', TInt32, False), (''Status'', TBool, False), (''Wallet_Name_Local'', TText, False)]"

text \<open>
  Including the column and the null constraints that the migration adds.  \<open>Row_Id\<close>, which the sequence of the
  table fills, is not among the columns the service writes.
\<close>

definition aml_columns :: "column list" where
  "aml_columns =
     [(''Wallet_Type'', TInt16, True), (''Keyword'', TText, True),
      (''Max_Txn_Amount'', TNumeric, True), (''Daily_Max_Amount'', TNumeric, True),
      (''Daily_Transaction_Count'', TNumeric, True), (''Monthly_Max_Amount'', TNumeric, True),
      (''Monthly_Transaction_Count'', TNumeric, True), (''Created_By'', TText, False), (''Modified_By'', TText, False),
      (''Approved_By'', TText, False), (''Is_Active'', TBool, True)]"

datatype resource = RKeyword | RWalletType | RAml
datatype change_action = ACreate | AUpdate | ADelete
datatype request_status = QPending | QApproved | QRejected | QCancelled

record change_row =
  rq_id :: int
  rq_resource :: resource
  rq_key :: string
  rq_action :: change_action
  rq_status :: request_status
  rq_base :: "json_object option"
  rq_proposed :: json_object
  rq_makerId :: int
  rq_maker :: string
  rq_makerComment :: "string option"
  rq_checkerId :: "int option"
  rq_checker :: "string option"
  rq_checkerComment :: "string option"

text \<open>The database, and the version keys in the cache, which may be down.\<close>

record ref_state =
  rf_keywords :: "row list"
  rf_wallets :: "row list"
  rf_aml :: "row list"
  rf_nextAml :: int
  rf_requests :: "change_row list"
  rf_nextRequest :: int
  rf_cacheUp :: bool
  rf_versions :: "string \<Rightarrow> string option"

type_synonym 'a ref = "(ref_state, 'a) act"

section \<open>Constraints\<close>

definition aml_key_of :: "row \<Rightarrow> jsval \<times> jsval" where
  "aml_key_of r = (col r ''Wallet_Type'', col r ''Keyword'')"

definition num_col :: "row \<Rightarrow> string \<Rightarrow> rat" where
  "num_col r c = (case col r c of JNum (NumFin q) \<Rightarrow> q | _ \<Rightarrow> 0)"

text \<open>\<open>CK_AML_POSITIVE_LIMITS\<close>, \<open>CK_AML_AMOUNT_ORDER\<close> and \<open>CK_AML_COUNT_ORDER\<close>\<close>

definition aml_limits_ok :: "row \<Rightarrow> bool" where
  "aml_limits_ok r \<longleftrightarrow>
     0 < num_col r ''Max_Txn_Amount'' \<and> 0 < num_col r ''Daily_Max_Amount'' \<and> 0 < num_col r ''Monthly_Max_Amount'' \<and>
     0 < num_col r ''Daily_Transaction_Count'' \<and> 0 < num_col r ''Monthly_Transaction_Count'' \<and>
     num_col r ''Max_Txn_Amount'' \<le> num_col r ''Daily_Max_Amount'' \<and>
     num_col r ''Daily_Max_Amount'' \<le> num_col r ''Monthly_Max_Amount'' \<and>
     num_col r ''Daily_Transaction_Count'' \<le> num_col r ''Monthly_Transaction_Count''"

definition pending_keys :: "ref_state \<Rightarrow> (resource \<times> string) list" where
  "pending_keys s = map (\<lambda>r. (rq_resource r, rq_key r)) (filter (\<lambda>r. rq_status r = QPending) (rf_requests s))"

text \<open>\<open>CK_REFERENCE_CHANGE_DIFFERENT_CHECKER\<close>\<close>

definition different_checker :: "change_row \<Rightarrow> bool" where
  "different_checker r \<longleftrightarrow> rq_checkerId r \<noteq> Some (rq_makerId r)"

definition ref_constraints :: "ref_state \<Rightarrow> bool" where
  "ref_constraints s \<longleftrightarrow>
     distinct (map (\<lambda>r. col r ''Keyword'') (rf_keywords s)) \<and>
     distinct (map (\<lambda>r. col r ''Wallet_ID'') (rf_wallets s)) \<and>
     distinct (map aml_key_of (rf_aml s)) \<and>
     list_all aml_limits_ok (rf_aml s) \<and>
     list_all (\<lambda>r. col r ''Wallet_Type'' \<in> (\<lambda>w. col w ''Wallet_ID'') ` set (rf_wallets s)) (rf_aml s) \<and>
     list_all (\<lambda>r. col r ''Keyword'' \<in> (\<lambda>k. col k ''Keyword'') ` set (rf_keywords s)) (rf_aml s) \<and>
     list_all different_checker (rf_requests s) \<and>
     list_all (\<lambda>r. length (rq_key r) \<le> 100 \<and> length (rq_maker r) \<le> 100) (rf_requests s) \<and>
     distinct (pending_keys s)"

text \<open>\<open>UQ_REFERENCE_CHANGE_PENDING\<close> is the one whose error code the service looks at.\<close>

definition unique_violation :: exc where
  "unique_violation = Failure ''duplicate key value violates unique constraint''"

definition ref_save :: "(ref_state \<Rightarrow> ref_state) \<Rightarrow> unit ref" where
  "ref_save f =
     act_then (act_refuse (\<lambda>s. \<not> distinct (pending_keys (f s))) unique_violation) (\<lambda>_.
     act_then (act_refuse (\<lambda>s. \<not> ref_constraints (f s)) (Failure ''violates a constraint'')) (\<lambda>_.
     act_write f))"

end
