(* ===== verification/ReferenceChanges.thy ===== *)
theory ReferenceChanges
  imports ReferenceData Doubles
begin

text \<open>
  The handlers of \<open>reference-data.service.ts\<close>: reading a record as a snapshot, queueing a change of one, and
  approving, rejecting or cancelling a queued change.
\<close>

section \<open>Snapshots of live rows\<close>

definition or_false :: "jsval \<Rightarrow> jsval" where
  "or_false v = (if v = JNull then JBool False else v)"

definition trimmed :: "jsval \<Rightarrow> jsval" where
  "trimmed v = (case v of JStr s \<Rightarrow> JStr (pg_trim s) | _ \<Rightarrow> v)"

text \<open>\<open>v::int\<close> of a numeric: the nearest integer.\<close>

definition to_int :: "jsval \<Rightarrow> jsval res" where
  "to_int v = (case v of JNum (NumFin q) \<Rightarrow> int4 (JInt (round_half q)) | _ \<Rightarrow> Inr v)"

definition keyword_json :: "row \<Rightarrow> json_object" where
  "keyword_json r =
     [(''keyword'', col r ''Keyword''), (''keywordDescription'', col r ''Keyword_Description''),
      (''keywordScope'', trimmed (col r ''Keyword_Scope'')), (''isFinancial'', or_false (col r ''Is_Financial'')),
      (''chargeable'', trimmed (col r ''Chargeable'')), (''kcIdLookup'', trimmed (col r ''Kc_Id_Lookup'')),
      (''commissionable'', trimmed (col r ''Commissionable'')), (''kcmIdLookup'', trimmed (col r ''Kcm_Id_Lookup'')),
      (''minimumTranAmount'', col r ''MINIMUM_TRAN_AMOUNT''), (''involvedParty'', col r ''INVOLVED_PARTY''),
      (''applyTds'', or_false (col r ''ApplyTds'')), (''isRewardApplicable'', or_false (col r ''Is_Reward_Applicable'')),
      (''isSystemKeyword'', or_false (col r ''Is_System_Keyword'')), (''serviceStatus'', or_false (col r ''Service_Status'')),
      (''vatSource'', trimmed (col r ''vat_source'')), (''vatId'', col r ''VatId''),
      (''keywordDescriptionLocal'', col r ''Keyword_Description_Local''),
      (''isCategoryService'', or_false (col r ''Is_category_service'')), (''priority'', col r ''priority''),
      (''reverseKeyword'', col r ''RKEYWORD''), (''isActive'', or_false (col r ''Is_Active''))]"

definition wallet_type_json :: "row \<Rightarrow> json_object" where
  "wallet_type_json r =
     [(''walletId'', col r ''Wallet_ID''), (''walletName'', col r ''Wallet_Name''),
      (''walletDetails'', col r ''Wallet_Details''), (''isKycNeeded'', or_false (col r ''Is_Kyc_Needed'')),
      (''defaultCommissionId'', col r ''Default_Comission_Id''), (''defaultChargeId'', col r ''Default_Charge_Id''),
      (''walletType'', col r ''Wallet_Type''), (''isCharge'', or_false (col r ''Is_Charge'')), (''fee'', col r ''Fee''),
      (''hierarchy'', col r ''Hierarchy''), (''status'', or_false (col r ''Status'')),
      (''walletNameLocal'', col r ''Wallet_Name_Local'')]"

definition aml_json :: "row \<Rightarrow> json_object res" where
  "aml_json r =
     await (to_int (col r ''Daily_Transaction_Count'')) (\<lambda>daily.
     await (to_int (col r ''Monthly_Transaction_Count'')) (\<lambda>monthly.
     Inr [(''rowId'', col r ''Row_Id''), (''walletCode'', col r ''Wallet_Type''), (''keyword'', col r ''Keyword''),
          (''maxTransactionAmount'', col r ''Max_Txn_Amount''), (''dailyMaxAmount'', col r ''Daily_Max_Amount''),
          (''dailyTransactionCount'', daily), (''monthlyMaxAmount'', col r ''Monthly_Max_Amount''),
          (''monthlyTransactionCount'', monthly), (''isActive'', col r ''Is_Active'')]))"

section \<open>Keys\<close>

definition keywordKey :: "string \<Rightarrow> string" where
  "keywordKey value = upper (trim value)"

definition amlKey :: "int \<Rightarrow> string \<Rightarrow> string" where
  "amlKey walletCode keyword = int_str walletCode @ '':'' @ keywordKey keyword"

text \<open>
  The first colon separates the wallet code.  Without one \<open>indexOf\<close> gives \<open>-1\<close>, and the key is refused as it
  is when it starts with the colon.
\<close>

definition parseAmlKey :: "string \<Rightarrow> (int \<times> string) res" where
  "parseAmlKey key =
     (let code = takeWhile (\<lambda>c. c \<noteq> CHR '':'') key;
          rest = dropWhile (\<lambda>c. c \<noteq> CHR '':'') key;
          n = string_number code;
          keyword = keywordKey (tl rest)
      in case n of
           NumFin q \<Rightarrow>
             if rest = [] \<or> code = [] \<or> of_int \<lfloor>q\<rfloor> \<noteq> q \<or> \<lfloor>q\<rfloor> < 1 \<or> keyword = []
             then Inl (BadRequest ''Invalid AML configuration key'') else Inr (\<lfloor>q\<rfloor>, keyword)
         | _ \<Rightarrow> Inl (BadRequest ''Invalid AML configuration key''))"

definition keywordSnapshot :: "string \<Rightarrow> json_object option ref" where
  "keywordSnapshot key = act_read (\<lambda>s.
     map_option keyword_json (find (\<lambda>r. col r ''Keyword'' = JStr key) (rf_keywords s)))"

text \<open>\<open>$1::integer\<close> reads the key, a printed number.\<close>

definition walletTypeSnapshot :: "string \<Rightarrow> json_object option ref" where
  "walletTypeSnapshot key =
     act_then (act_of (int4 (JNum (string_number key)))) (\<lambda>walletId.
     act_read (\<lambda>s. map_option wallet_type_json (find (\<lambda>r. col r ''Wallet_ID'' = walletId) (rf_wallets s))))"

definition amlSnapshot :: "string \<Rightarrow> json_object option ref" where
  "amlSnapshot key =
     act_then (act_of (parseAmlKey key)) (\<lambda>(walletCode, keyword).
     act_then (act_of (int4 (JInt walletCode))) (\<lambda>code.
     act_then (act_read (\<lambda>s. find (\<lambda>r. aml_key_of r = (code, JStr keyword)) (rf_aml s))) (\<lambda>found.
     case found of None \<Rightarrow> act_ok None | Some r \<Rightarrow> act_then (act_of (aml_json r)) (\<lambda>obj. act_ok (Some obj)))))"

definition snapshot :: "resource \<Rightarrow> string \<Rightarrow> json_object option ref" where
  "snapshot resource key = (case resource of
     RKeyword \<Rightarrow> keywordSnapshot key | RWalletType \<Rightarrow> walletTypeSnapshot key | RAml \<Rightarrow> amlSnapshot key)"

section \<open>Writing an approved snapshot\<close>

definition auditName :: "string \<Rightarrow> string" where
  "auditName value = take 20 value"

definition insert_row :: "column list \<Rightarrow> (row \<Rightarrow> ref_state \<Rightarrow> ref_state) \<Rightarrow> (string \<times> jsval) list \<Rightarrow> unit ref" where
  "insert_row cols add values = act_then (act_of (cells cols values)) (\<lambda>r. ref_save (add r))"

definition update_rows :: "column list \<Rightarrow> ((row list \<Rightarrow> row list) \<Rightarrow> ref_state \<Rightarrow> ref_state) \<Rightarrow>
    (row \<Rightarrow> bool) \<Rightarrow> (string \<times> jsval) list \<Rightarrow> unit ref" where
  "update_rows cols upd P values =
     act_then (act_of (cells cols values)) (\<lambda>u. ref_save (upd (map (\<lambda>r. if P r then object_spread r u else r))))"

definition add_keyword :: "row \<Rightarrow> ref_state \<Rightarrow> ref_state" where
  "add_keyword r s = s\<lparr>rf_keywords := rf_keywords s @ [r]\<rparr>"

definition add_wallet_type :: "row \<Rightarrow> ref_state \<Rightarrow> ref_state" where
  "add_wallet_type r s = s\<lparr>rf_wallets := rf_wallets s @ [r]\<rparr>"

text \<open>The row identifier comes from the sequence of the table.\<close>

definition add_aml :: "row \<Rightarrow> ref_state \<Rightarrow> ref_state" where
  "add_aml r s = s\<lparr>rf_aml := rf_aml s @ [(''Row_Id'', JInt (rf_nextAml s)) # r], rf_nextAml := rf_nextAml s + 1\<rparr>"

definition keyword_args :: "json_object \<Rightarrow> string \<Rightarrow> string \<Rightarrow> jsval list" where
  "keyword_args value maker checker =
     map (field value)
       [''keyword'', ''keywordDescription'', ''keywordScope'', ''isFinancial'', ''chargeable'', ''kcIdLookup'',
        ''commissionable'', ''kcmIdLookup'', ''minimumTranAmount'', ''involvedParty'', ''applyTds'',
        ''isRewardApplicable'', ''isSystemKeyword'', ''serviceStatus'', ''vatSource'', ''vatId'',
        ''keywordDescriptionLocal'', ''isCategoryService'', ''priority'', ''reverseKeyword'', ''isActive'']
     @ [JStr (auditName maker), JStr (auditName checker)]"

definition applyKeyword :: "json_object \<Rightarrow> change_action \<Rightarrow> string \<Rightarrow> string \<Rightarrow> unit ref" where
  "applyKeyword value action maker checker =
     (let args = keyword_args value maker checker
      in if action = ACreate
         then insert_row keyword_columns add_keyword (zip
           [''Keyword'', ''Keyword_Description'', ''Keyword_Scope'', ''Is_Financial'', ''Chargeable'', ''Kc_Id_Lookup'',
            ''Commissionable'', ''Kcm_Id_Lookup'', ''MINIMUM_TRAN_AMOUNT'', ''INVOLVED_PARTY'', ''ApplyTds'',
            ''Is_Reward_Applicable'', ''Is_System_Keyword'', ''Service_Status'', ''vat_source'', ''VatId'',
            ''Keyword_Description_Local'', ''Is_category_service'', ''priority'', ''RKEYWORD'', ''Is_Active'',
            ''Created_By'', ''Approved_By''] args)
         else update_rows keyword_columns rf_keywords_update (\<lambda>r. col r ''Keyword'' = args ! 0) (zip
           [''Keyword_Description'', ''Keyword_Scope'', ''Is_Financial'', ''Chargeable'', ''Kc_Id_Lookup'',
            ''Commissionable'', ''Kcm_Id_Lookup'', ''MINIMUM_TRAN_AMOUNT'', ''INVOLVED_PARTY'', ''ApplyTds'',
            ''Is_Reward_Applicable'', ''Is_System_Keyword'', ''Service_Status'', ''vat_source'', ''VatId'',
            ''Keyword_Description_Local'', ''Is_category_service'', ''priority'', ''RKEYWORD'', ''Is_Active'',
            ''Modified_By'', ''Approved_By''] (drop 1 args)))"

definition wallet_type_args :: "json_object \<Rightarrow> string \<Rightarrow> string \<Rightarrow> jsval list" where
  "wallet_type_args value maker checker =
     map (field value)
       [''walletId'', ''walletName'', ''walletDetails'', ''isKycNeeded'', ''defaultCommissionId'', ''defaultChargeId'',
        ''walletType'', ''isCharge'', ''fee'', ''hierarchy'', ''status'', ''walletNameLocal'']
     @ [JStr (auditName maker), JStr (auditName checker)]"

definition applyWalletType :: "json_object \<Rightarrow> change_action \<Rightarrow> string \<Rightarrow> string \<Rightarrow> unit ref" where
  "applyWalletType value action maker checker =
     (let args = wallet_type_args value maker checker
      in if action = ACreate
         then insert_row wallet_type_columns add_wallet_type (zip
           [''Wallet_ID'', ''Wallet_Name'', ''Wallet_Details'', ''Is_Kyc_Needed'', ''Default_Comission_Id'',
            ''Default_Charge_Id'', ''Wallet_Type'', ''Is_Charge'', ''Fee'', ''Hierarchy'', ''Status'', ''Wallet_Name_Local'',
            ''Created_By'', ''Approved_By''] args)
         else update_rows wallet_type_columns rf_wallets_update (\<lambda>r. col r ''Wallet_ID'' = args ! 0) (zip
           [''Wallet_Name'', ''Wallet_Details'', ''Is_Kyc_Needed'', ''Default_Comission_Id'', ''Default_Charge_Id'',
            ''Wallet_Type'', ''Is_Charge'', ''Fee'', ''Hierarchy'', ''Status'', ''Wallet_Name_Local'', ''Modified_By'',
            ''Approved_By''] (drop 1 args)))"

definition aml_args :: "json_object \<Rightarrow> string \<Rightarrow> string \<Rightarrow> jsval list" where
  "aml_args value maker checker =
     map (field value)
       [''walletCode'', ''keyword'', ''maxTransactionAmount'', ''monthlyMaxAmount'', ''monthlyTransactionCount'',
        ''dailyMaxAmount'', ''dailyTransactionCount'', ''isActive'']
     @ [JStr (auditName maker), JStr (auditName checker)]"

definition applyAmlConfiguration :: "json_object \<Rightarrow> change_action \<Rightarrow> string \<Rightarrow> string \<Rightarrow> unit ref" where
  "applyAmlConfiguration value action maker checker =
     (let args = aml_args value maker checker
      in if action = ACreate
         then insert_row aml_columns add_aml (zip
           [''Wallet_Type'', ''Keyword'', ''Max_Txn_Amount'', ''Monthly_Max_Amount'', ''Monthly_Transaction_Count'',
            ''Daily_Max_Amount'', ''Daily_Transaction_Count'', ''Is_Active'', ''Created_By'', ''Approved_By''] args)
         else update_rows aml_columns rf_aml_update (\<lambda>r. aml_key_of r = (args ! 0, args ! 1)) (zip
           [''Max_Txn_Amount'', ''Monthly_Max_Amount'', ''Monthly_Transaction_Count'', ''Daily_Max_Amount'',
            ''Daily_Transaction_Count'', ''Is_Active'', ''Modified_By'', ''Approved_By''] (drop 2 args)))"

definition apply_change :: "resource \<Rightarrow> json_object \<Rightarrow> change_action \<Rightarrow> string \<Rightarrow> string \<Rightarrow> unit ref" where
  "apply_change resource value action maker checker = (case resource of
     RKeyword \<Rightarrow> applyKeyword value action maker checker
   | RWalletType \<Rightarrow> applyWalletType value action maker checker
   | RAml \<Rightarrow> applyAmlConfiguration value action maker checker)"

section \<open>Proposals\<close>

definition keywordPayload :: "json_object \<Rightarrow> json_object" where
  "keywordPayload inp = pickDefined inp
     [''keywordDescription'', ''keywordScope'', ''isFinancial'', ''chargeable'', ''kcIdLookup'', ''commissionable'',
      ''kcmIdLookup'', ''minimumTranAmount'', ''involvedParty'', ''applyTds'', ''isRewardApplicable'', ''isSystemKeyword'',
      ''serviceStatus'', ''vatSource'', ''vatId'', ''keywordDescriptionLocal'', ''isCategoryService'', ''priority'',
      ''reverseKeyword'', ''isActive'']"

definition walletTypePayload :: "json_object \<Rightarrow> json_object" where
  "walletTypePayload inp = pickDefined inp
     [''walletName'', ''walletDetails'', ''isKycNeeded'', ''defaultCommissionId'', ''defaultChargeId'', ''walletType'',
      ''isCharge'', ''fee'', ''hierarchy'', ''status'', ''walletNameLocal'']"

definition amlPayload :: "json_object \<Rightarrow> json_object" where
  "amlPayload inp = pickDefined inp
     [''maxTransactionAmount'', ''dailyMaxAmount'', ''dailyTransactionCount'', ''monthlyMaxAmount'',
      ''monthlyTransactionCount'', ''isActive'']"

definition keywordDefaults :: "string \<Rightarrow> json_object" where
  "keywordDefaults keyword =
     [(''keyword'', JStr keyword), (''keywordDescription'', JNull), (''keywordScope'', JNull), (''isFinancial'', JBool True),
      (''chargeable'', JStr ''N''), (''kcIdLookup'', JNull), (''commissionable'', JStr ''N''), (''kcmIdLookup'', JNull),
      (''minimumTranAmount'', JInt 1), (''involvedParty'', JNull), (''applyTds'', JBool False),
      (''isRewardApplicable'', JBool False), (''isSystemKeyword'', JBool False), (''serviceStatus'', JBool True),
      (''vatSource'', JStr ''D''), (''vatId'', JInt 1), (''keywordDescriptionLocal'', JNull),
      (''isCategoryService'', JBool False), (''priority'', JNull), (''reverseKeyword'', JNull), (''isActive'', JBool False)]"

definition walletTypeDefaults :: "int \<Rightarrow> json_object" where
  "walletTypeDefaults walletId =
     [(''walletId'', JInt walletId), (''walletName'', JNull), (''walletDetails'', JNull), (''isKycNeeded'', JBool False),
      (''defaultCommissionId'', JInt 1), (''defaultChargeId'', JInt 1), (''walletType'', JInt 100), (''isCharge'', JBool True),
      (''fee'', JNull), (''hierarchy'', JNull), (''status'', JBool False), (''walletNameLocal'', JNull)]"

definition assertAmlLimits :: "json_object \<Rightarrow> unit res" where
  "assertAmlLimits value =
     (let maxTransaction = js_number (field value ''maxTransactionAmount'');
          dailyAmount = js_number (field value ''dailyMaxAmount'');
          monthlyAmount = js_number (field value ''monthlyMaxAmount'');
          dailyCount = js_number (field value ''dailyTransactionCount'');
          monthlyCount = js_number (field value ''monthlyTransactionCount'')
      in if \<not> list_all num_finite [maxTransaction, dailyAmount, monthlyAmount, dailyCount, monthlyCount]
         then Inl (BadRequest ''All AML limits are required and must be valid numbers'')
         else if num_lt dailyAmount maxTransaction
         then Inl (BadRequest ''Maximum transaction amount cannot exceed the daily maximum amount'')
         else if num_lt monthlyAmount dailyAmount
         then Inl (BadRequest ''Daily maximum amount cannot exceed the monthly maximum amount'')
         else if num_lt monthlyCount dailyCount
         then Inl (BadRequest ''Daily transaction count cannot exceed the monthly transaction count'')
         else Inr ())"

definition validateAmlReferences :: "int \<Rightarrow> string \<Rightarrow> unit ref" where
  "validateAmlReferences walletCode keyword =
     act_then (act_of (int4 (JInt walletCode))) (\<lambda>code.
     act_then (act_refuse (\<lambda>s. \<not> list_ex (\<lambda>r. col r ''Wallet_ID'' = code) (rf_wallets s)) (NotFound ''Wallet code not found'')) (\<lambda>_.
     act_refuse (\<lambda>s. \<not> list_ex (\<lambda>r. col r ''Keyword'' = JStr keyword) (rf_keywords s)) (NotFound ''Keyword not found'')))"

section \<open>Queueing a change\<close>

record ref_actor =
  ra_sub :: int
  ra_username :: string
  ra_roles :: "string list"
  ra_permissions :: "string list"

text \<open>
  \<open>publicRequest(rows[0])\<close>: the request, or an answer without its fields when \<open>rows[0]\<close> is a list of rows
  (\<open>Hollow\<close>).  An \<open>UPDATE ... RETURNING\<close> through the query runner gives the rows, or a pair of the rows and
  their number, by the version of the library: \<open>pairs\<close> tells which.
\<close>

datatype public_request = Public change_row | Hollow

definition first_updated :: "bool \<Rightarrow> change_row list \<Rightarrow> public_request option" where
  "first_updated pairs rows =
     (if pairs then Some Hollow else case rows of [] \<Rightarrow> None | r # _ \<Rightarrow> Some (Public r))"

definition pending_request :: "resource \<Rightarrow> string \<Rightarrow> ref_state \<Rightarrow> change_row option" where
  "pending_request resource key s =
     find (\<lambda>r. rq_resource r = resource \<and> rq_key r = key \<and> rq_status r = QPending) (rf_requests s)"

definition new_request :: "resource \<Rightarrow> string \<Rightarrow> change_action \<Rightarrow> json_object option \<Rightarrow> json_object \<Rightarrow> string option \<Rightarrow>
    ref_actor \<Rightarrow> ref_state \<Rightarrow> change_row" where
  "new_request resource key action base proposed comment actor s =
     \<lparr>rq_id = rf_nextRequest s, rq_resource = resource, rq_key = key, rq_action = action, rq_status = QPending,
      rq_base = base, rq_proposed = proposed, rq_makerId = ra_sub actor, rq_maker = ra_username actor,
      rq_makerComment = comment, rq_checkerId = None, rq_checker = None, rq_checkerComment = None\<rparr>"

definition add_request :: "(ref_state \<Rightarrow> change_row) \<Rightarrow> ref_state \<Rightarrow> ref_state" where
  "add_request new s = s\<lparr>rf_requests := rf_requests s @ [new s], rf_nextRequest := rf_nextRequest s + 1\<rparr>"

definition queue :: "resource \<Rightarrow> string \<Rightarrow> change_action \<Rightarrow> json_object option \<Rightarrow> json_object \<Rightarrow> string option \<Rightarrow>
    ref_actor \<Rightarrow> public_request ref" where
  "queue resource key action base proposed comment actor =
     act_catch (transaction (
       act_then (snapshot resource key) (\<lambda>current.
       act_then (act_refuse (\<lambda>_. action = ACreate \<and> current \<noteq> None) (Conflict ''Record already exists'')) (\<lambda>_.
       act_then (act_refuse (\<lambda>_. action \<noteq> ACreate \<and> current = None) (NotFound ''Record not found'')) (\<lambda>_.
       act_then (act_refuse (\<lambda>_. action \<noteq> ACreate \<and> same_json (the current) proposed)
         (Conflict ''No changes detected; an identical rule already exists'')) (\<lambda>_.
       act_then (act_read (pending_request resource key)) (\<lambda>pending.
       case pending of
         Some r \<Rightarrow> act_throw (Conflict (''Pending change request '' @ int_str (rq_id r) @ '' already exists for this record''))
       | None \<Rightarrow>
         act_then (act_read (new_request resource key action base proposed comment actor)) (\<lambda>row.
         act_then (ref_save (add_request (\<lambda>_. row))) (\<lambda>_. act_ok (Public row))))))))))
     (\<lambda>e. act_throw (if e = unique_violation
       then Conflict ''A pending change request already exists for this record'' else e))"

end
