(* ===== verification/ReferenceRequests.thy ===== *)
theory ReferenceRequests
  imports ReferenceChanges
begin

text \<open>
  The requests of \<open>reference-data.controller.ts\<close> that change something, each with the check of its body by the
  decorators of \<open>dto/reference-data.dto.ts\<close>, the permission its handler requires
  (\<open>src/modules/admin-auth/permissions.guard.ts\<close>) and its handler in \<open>reference-data.service.ts\<close>.
\<close>

section \<open>Request bodies\<close>

text \<open>A rule: the field, the conversion of its value, whether null or nothing will do, and the check otherwise.\<close>

type_synonym body_rule = "string \<times> (jsval \<Rightarrow> jsval) \<times> bool \<times> (jsval \<Rightarrow> bool)"

definition plain :: "jsval \<Rightarrow> jsval" where
  "plain v = v"

definition trim_text :: "jsval \<Rightarrow> jsval" where
  "trim_text v = (case v of JStr s \<Rightarrow> JStr (trim s) | _ \<Rightarrow> v)"

definition upper_text :: "jsval \<Rightarrow> jsval" where
  "upper_text v = (case v of JStr s \<Rightarrow> JStr (upper (trim s)) | _ \<Rightarrow> v)"

definition booleanish :: "jsval \<Rightarrow> jsval" where
  "booleanish v =
     (if v = JInt 1 \<or> v = JStr ''1'' \<or> v = JStr ''true'' then JBool True
      else if v = JInt 0 \<or> v = JStr ''0'' \<or> v = JStr ''false'' then JBool False else v)"

text \<open>\<open>@Type(() => Number)\<close>\<close>

definition to_number :: "jsval \<Rightarrow> jsval" where
  "to_number v = (if js_nullish v then v else JNum (js_number v))"

definition is_text :: "nat \<Rightarrow> nat \<Rightarrow> jsval \<Rightarrow> bool" where
  "is_text lo hi v = (case v of JStr s \<Rightarrow> lo \<le> length s \<and> length s \<le> hi | _ \<Rightarrow> False)"

definition is_string :: "jsval \<Rightarrow> bool" where
  "is_string v = (case v of JStr s \<Rightarrow> True | _ \<Rightarrow> False)"

definition is_in :: "string list \<Rightarrow> jsval \<Rightarrow> bool" where
  "is_in ss v = (case v of JStr s \<Rightarrow> s \<in> set ss | _ \<Rightarrow> False)"

definition is_bool :: "jsval \<Rightarrow> bool" where
  "is_bool v = (case v of JBool b \<Rightarrow> True | _ \<Rightarrow> False)"

definition is_int_min :: "int \<Rightarrow> jsval \<Rightarrow> bool" where
  "is_int_min m v = (case v of JNum n \<Rightarrow> num_is_integer n \<and> num_le (NumFin (of_int m)) n | _ \<Rightarrow> False)"

definition is_money_min :: "rat \<Rightarrow> jsval \<Rightarrow> bool" where
  "is_money_min m v = (case v of JNum (NumFin q) \<Rightarrow> is_cents q \<and> m \<le> q | _ \<Rightarrow> False)"

definition CreateKeywordDto :: "body_rule list" where
  "CreateKeywordDto =
     [(''keyword'', upper_text, False, is_text 1 5),
      (''keywordDescription'', trim_text, True, is_text 0 100),
      (''keywordScope'', upper_text, True, is_in [''C'', ''M'', ''A'', ''S'']),
      (''isFinancial'', plain, True, is_bool),
      (''chargeable'', upper_text, True, is_in [''Y'', ''N'']),
      (''kcIdLookup'', upper_text, True, is_in [''S'', ''D'']),
      (''commissionable'', upper_text, True, is_in [''Y'', ''N'']),
      (''kcmIdLookup'', upper_text, True, is_in [''S'', ''D'']),
      (''minimumTranAmount'', to_number, True, is_money_min (1 / 100)),
      (''involvedParty'', trim_text, True, is_text 0 10),
      (''applyTds'', plain, True, is_bool),
      (''isRewardApplicable'', plain, True, is_bool),
      (''isSystemKeyword'', plain, True, is_bool),
      (''serviceStatus'', plain, True, is_bool),
      (''vatSource'', upper_text, True, is_in [''S'', ''D'']),
      (''vatId'', to_number, True, is_int_min 1),
      (''keywordDescriptionLocal'', trim_text, True, is_string),
      (''isCategoryService'', plain, True, is_bool),
      (''priority'', to_number, True, is_int_min 0),
      (''reverseKeyword'', upper_text, True, is_text 0 6),
      (''isActive'', plain, True, is_bool),
      (''makerComment'', trim_text, True, is_string)]"

definition CreateWalletTypeDto :: "body_rule list" where
  "CreateWalletTypeDto =
     [(''walletId'', to_number, False, is_int_min 1),
      (''walletName'', trim_text, False, is_text 1 50),
      (''walletDetails'', trim_text, True, is_text 0 50),
      (''isKycNeeded'', booleanish, True, is_bool),
      (''defaultCommissionId'', to_number, True, is_int_min 1),
      (''defaultChargeId'', to_number, True, is_int_min 1),
      (''walletType'', to_number, True, is_int_min 1),
      (''isCharge'', plain, True, is_bool),
      (''fee'', to_number, True, is_money_min 0),
      (''hierarchy'', to_number, True, is_int_min 0),
      (''status'', plain, True, is_bool),
      (''walletNameLocal'', trim_text, True, is_string),
      (''makerComment'', trim_text, True, is_string)]"

definition CreateAmlConfigurationDto :: "body_rule list" where
  "CreateAmlConfigurationDto =
     [(''walletCode'', to_number, False, is_int_min 1),
      (''keyword'', upper_text, False, is_text 1 5),
      (''maxTransactionAmount'', to_number, False, is_money_min (1 / 100)),
      (''dailyMaxAmount'', to_number, False, is_money_min (1 / 100)),
      (''dailyTransactionCount'', to_number, False, is_int_min 1),
      (''monthlyMaxAmount'', to_number, False, is_money_min (1 / 100)),
      (''monthlyTransactionCount'', to_number, False, is_int_min 1),
      (''isActive'', plain, True, is_bool),
      (''makerComment'', trim_text, True, is_text 0 2000)]"

text \<open>\<open>PartialType(OmitType(dto, keys))\<close>: every field left may be missing or null.\<close>

definition partial_without :: "string list \<Rightarrow> body_rule list \<Rightarrow> body_rule list" where
  "partial_without ks rules = map (\<lambda>(k, conv, _, chk). (k, conv, True, chk)) (filter (\<lambda>(k, _). k \<notin> set ks) rules)"

definition UpdateKeywordDto :: "body_rule list" where
  "UpdateKeywordDto = partial_without [''keyword''] CreateKeywordDto"

definition UpdateWalletTypeDto :: "body_rule list" where
  "UpdateWalletTypeDto = partial_without [''walletId''] CreateWalletTypeDto"

definition UpdateAmlConfigurationDto :: "body_rule list" where
  "UpdateAmlConfigurationDto = partial_without [''walletCode'', ''keyword''] CreateAmlConfigurationDto"

definition converted :: "body_rule list \<Rightarrow> json_object \<Rightarrow> json_object" where
  "converted rules body = map (\<lambda>(k, v). (k, case map_of rules k of None \<Rightarrow> v | Some (conv, _) \<Rightarrow> conv v)) body"

definition accepts :: "body_rule list \<Rightarrow> json_object \<Rightarrow> bool" where
  "accepts rules obj = list_all (\<lambda>(k, _, optional, chk).
     optional \<and> js_nullish (field obj k) \<or> chk (field obj k)) rules"

definition with_body :: "body_rule list \<Rightarrow> json_object \<Rightarrow> (json_object \<Rightarrow> 'a ref) \<Rightarrow> 'a ref" where
  "with_body rules body k =
     (if accepts rules (converted rules body) then k (converted rules body) else act_throw (Failure ''Unprocessable Entity''))"

text \<open>\<open>AdminPermissionsGuard\<close>\<close>

definition guarded :: "string list \<Rightarrow> ref_actor \<Rightarrow> 'a ref \<Rightarrow> 'a ref" where
  "guarded required user m =
     (if ''super_admin'' \<in> set (ra_roles user) \<or> list_all (\<lambda>p. p \<in> set (ra_permissions user)) required then m
      else act_throw (Forbidden ''You do not have permission to perform this action''))"

definition text_field :: "json_object \<Rightarrow> string \<Rightarrow> string option" where
  "text_field obj k = (case field obj k of JStr s \<Rightarrow> Some s | _ \<Rightarrow> None)"

definition string_field :: "json_object \<Rightarrow> string \<Rightarrow> string" where
  "string_field obj k = (case field obj k of JStr s \<Rightarrow> s | _ \<Rightarrow> [])"

definition int_field :: "json_object \<Rightarrow> string \<Rightarrow> int" where
  "int_field obj k = (case field obj k of JNum (NumFin q) \<Rightarrow> \<lfloor>q\<rfloor> | _ \<Rightarrow> 0)"

section \<open>Submitting changes\<close>

definition live_record :: "resource \<Rightarrow> string \<Rightarrow> string \<Rightarrow> json_object ref" where
  "live_record resource key missing =
     act_then (snapshot resource key) (\<lambda>current.
     case current of None \<Rightarrow> act_throw (NotFound missing) | Some obj \<Rightarrow> act_ok obj)"

definition createKeyword :: "json_object \<Rightarrow> ref_actor \<Rightarrow> public_request ref" where
  "createKeyword dto actor =
     (let key = keywordKey (string_field dto ''keyword'');
          proposed = object_spread (object_spread (keywordDefaults key) (keywordPayload dto)) [(''keyword'', JStr key)]
      in queue RKeyword key ACreate None proposed (text_field dto ''makerComment'') actor)"

definition updateKeyword :: "string \<Rightarrow> json_object \<Rightarrow> ref_actor \<Rightarrow> public_request ref" where
  "updateKeyword keyword dto actor =
     (let key = keywordKey keyword
      in act_then (live_record RKeyword key ''Keyword not found'') (\<lambda>current.
         let proposed = object_spread (object_spread current (keywordPayload dto)) [(''keyword'', JStr key)]
         in queue RKeyword key AUpdate (Some current) proposed (text_field dto ''makerComment'') actor))"

definition deleteKeyword :: "string \<Rightarrow> string option \<Rightarrow> ref_actor \<Rightarrow> public_request ref" where
  "deleteKeyword keyword comment actor =
     (let key = keywordKey keyword
      in act_then (live_record RKeyword key ''Keyword not found'') (\<lambda>current.
         queue RKeyword key ADelete (Some current)
           (object_spread current [(''isActive'', JBool False), (''serviceStatus'', JBool False)]) comment actor))"

definition createWalletType :: "json_object \<Rightarrow> ref_actor \<Rightarrow> public_request ref" where
  "createWalletType dto actor =
     (let walletId = int_field dto ''walletId'';
          proposed = object_spread (object_spread (walletTypeDefaults walletId) (walletTypePayload dto)) [(''walletId'', JInt walletId)]
      in queue RWalletType (int_str walletId) ACreate None proposed (text_field dto ''makerComment'') actor)"

definition updateWalletType :: "int \<Rightarrow> json_object \<Rightarrow> ref_actor \<Rightarrow> public_request ref" where
  "updateWalletType walletId dto actor =
     act_then (live_record RWalletType (int_str walletId) ''Wallet type not found'') (\<lambda>current.
     let proposed = object_spread (object_spread current (walletTypePayload dto)) [(''walletId'', JInt walletId)]
     in queue RWalletType (int_str walletId) AUpdate (Some current) proposed (text_field dto ''makerComment'') actor)"

definition deleteWalletType :: "int \<Rightarrow> string option \<Rightarrow> ref_actor \<Rightarrow> public_request ref" where
  "deleteWalletType walletId comment actor =
     act_then (live_record RWalletType (int_str walletId) ''Wallet type not found'') (\<lambda>current.
     queue RWalletType (int_str walletId) ADelete (Some current) (object_spread current [(''status'', JBool False)]) comment actor)"

definition createAmlConfiguration :: "json_object \<Rightarrow> ref_actor \<Rightarrow> public_request ref" where
  "createAmlConfiguration dto actor =
     (let walletCode = int_field dto ''walletCode'';
          keyword = keywordKey (string_field dto ''keyword'');
          proposed = object_spread (amlPayload dto) [(''walletCode'', JInt walletCode), (''keyword'', JStr keyword),
            (''isActive'', js_coalesce (field dto ''isActive'') (JBool True))]
      in act_then (validateAmlReferences walletCode keyword) (\<lambda>_.
         act_then (act_of (assertAmlLimits proposed)) (\<lambda>_.
         queue RAml (amlKey walletCode keyword) ACreate None proposed (text_field dto ''makerComment'') actor)))"

definition updateAmlConfiguration :: "int \<Rightarrow> string \<Rightarrow> json_object \<Rightarrow> ref_actor \<Rightarrow> public_request ref" where
  "updateAmlConfiguration walletCode keyword dto actor =
     (let key = amlKey walletCode keyword
      in act_then (live_record RAml key ''AML configuration not found'') (\<lambda>current.
         let proposed = object_spread (object_spread current (amlPayload dto))
               [(''walletCode'', JInt walletCode), (''keyword'', JStr (keywordKey keyword))]
         in act_then (act_of (assertAmlLimits proposed)) (\<lambda>_.
            queue RAml key AUpdate (Some current) proposed (text_field dto ''makerComment'') actor)))"

definition deleteAmlConfiguration :: "int \<Rightarrow> string \<Rightarrow> string option \<Rightarrow> ref_actor \<Rightarrow> public_request ref" where
  "deleteAmlConfiguration walletCode keyword comment actor =
     (let key = amlKey walletCode keyword
      in act_then (live_record RAml key ''AML configuration not found'') (\<lambda>current.
         queue RAml key ADelete (Some current) (object_spread current [(''isActive'', JBool False)]) comment actor))"

end
