(* ===== verification/ReferenceDecisions.thy ===== *)
theory ReferenceDecisions
  imports ReferenceRequests
begin

text \<open>
  Deciding a queued change (\<open>approve\<close>, \<open>reject\<close> and \<open>cancel\<close> of \<open>reference-data.service.ts\<close>), and the
  requests of the controller as one operation type.
\<close>

section \<open>Checks\<close>

definition request_status_name :: "request_status \<Rightarrow> string" where
  "request_status_name st = (case st of QPending \<Rightarrow> ''PENDING'' | QApproved \<Rightarrow> ''APPROVED''
     | QRejected \<Rightarrow> ''REJECTED'' | QCancelled \<Rightarrow> ''CANCELLED'')"

definition assertPending :: "change_row \<Rightarrow> unit res" where
  "assertPending r = ensure (rq_status r = QPending)
     (Conflict (''Change request is already '' @ request_status_name (rq_status r)))"

definition assertDifferentUser :: "change_row \<Rightarrow> ref_actor \<Rightarrow> unit res" where
  "assertDifferentUser r actor = ensure (rq_makerId r \<noteq> ra_sub actor \<or> ''super_admin'' \<in> set (ra_roles actor))
     (Forbidden ''Maker cannot approve or reject their own change request'')"

definition request_of :: "int \<Rightarrow> ref_state \<Rightarrow> change_row option" where
  "request_of i s = find (\<lambda>r. rq_id r = i) (rf_requests s)"

definition change_requests :: "(change_row \<Rightarrow> bool) \<Rightarrow> (change_row \<Rightarrow> change_row) \<Rightarrow> ref_state \<Rightarrow> ref_state" where
  "change_requests P f s = s\<lparr>rf_requests := map (\<lambda>r. if P r then f r else r) (rf_requests s)\<rparr>"

text \<open>\<open>UPDATE ... WHERE P RETURNING *\<close>: the rows as they become.\<close>

definition update_returning :: "(change_row \<Rightarrow> bool) \<Rightarrow> (change_row \<Rightarrow> change_row) \<Rightarrow> change_row list ref" where
  "update_returning P f =
     act_then (act_read (\<lambda>s. map f (filter P (rf_requests s)))) (\<lambda>rows.
     act_then (ref_save (change_requests P f)) (\<lambda>_. act_ok rows))"

definition decided_request :: "request_status \<Rightarrow> ref_actor \<Rightarrow> string option \<Rightarrow> change_row \<Rightarrow> change_row" where
  "decided_request st actor comment r = r\<lparr>rq_status := st, rq_checkerId := Some (ra_sub actor),
     rq_checker := Some (ra_username actor), rq_checkerComment := comment\<rparr>"

section \<open>The handlers\<close>

text \<open>Errors of the cache are swallowed.\<close>

definition invalidateReferenceCaches :: "nat \<Rightarrow> unit ref" where
  "invalidateReferenceCaches now = act_write (\<lambda>s. if rf_cacheUp s
     then s\<lparr>rf_versions := (rf_versions s)(''charge:config:version'' := Some (nat_str now),
       ''commission:config:version'' := Some (nat_str now), ''aml:config:version'' := Some (nat_str now))\<rparr> else s)"

text \<open>What \<open>approve\<close> does inside its transaction.\<close>

definition approval :: "int \<Rightarrow> string option \<Rightarrow> ref_actor \<Rightarrow> change_row list ref" where
  "approval i comment actor =
     act_then (act_found (request_of i) (NotFound ''Change request not found'')) (\<lambda>r.
     act_then (act_of (assertPending r)) (\<lambda>_.
     act_then (act_of (assertDifferentUser r actor)) (\<lambda>_.
     act_then (snapshot (rq_resource r) (rq_key r)) (\<lambda>current.
     act_then (act_refuse (\<lambda>_. rq_action r = ACreate \<and> current \<noteq> None)
       (Conflict ''The live record was created after this request was submitted'')) (\<lambda>_.
     act_then (act_refuse (\<lambda>_. rq_action r \<noteq> ACreate \<and> current = None)
       (Conflict ''The live record no longer exists'')) (\<lambda>_.
     act_then (act_refuse (\<lambda>_. rq_action r \<noteq> ACreate \<and>
         (case rq_base r of None \<Rightarrow> True | Some base \<Rightarrow> \<not> same_json (the current) base))
       (Conflict ''The live record changed after this request was submitted; reject it and create a new request'')) (\<lambda>_.
     act_then (apply_change (rq_resource r) (rq_proposed r) (rq_action r) (rq_maker r) (ra_username actor)) (\<lambda>_.
     update_returning (\<lambda>q. rq_id q = i) (decided_request QApproved actor comment)))))))))"

definition approve_change :: "bool \<Rightarrow> nat \<Rightarrow> int \<Rightarrow> string option \<Rightarrow> ref_actor \<Rightarrow> public_request ref" where
  "approve_change pairs now i comment actor =
     act_then (transaction (approval i comment actor)) (\<lambda>rows.
     act_then (invalidateReferenceCaches now) (\<lambda>_.
     act_ok (if pairs then Hollow else case rows of [] \<Rightarrow> Hollow | r # _ \<Rightarrow> Public r)))"

definition reject_change :: "bool \<Rightarrow> int \<Rightarrow> string \<Rightarrow> ref_actor \<Rightarrow> public_request ref" where
  "reject_change pairs i reason actor =
     (let superAdmin = ''super_admin'' \<in> set (ra_roles actor)
      in act_then (update_returning (\<lambda>q. rq_id q = i \<and> rq_status q = QPending \<and> (superAdmin \<or> rq_makerId q \<noteq> ra_sub actor))
           (decided_request QRejected actor (Some reason))) (\<lambda>rows.
         case first_updated pairs rows of
           Some answer \<Rightarrow> act_ok answer
         | None \<Rightarrow>
             act_then (act_found (request_of i) (NotFound ''Change request not found'')) (\<lambda>r.
             act_then (act_of (assertPending r)) (\<lambda>_.
             act_then (act_of (assertDifferentUser r actor)) (\<lambda>_.
             act_throw (Conflict ''Change request could not be rejected''))))))"

definition cancel_change :: "bool \<Rightarrow> int \<Rightarrow> ref_actor \<Rightarrow> public_request ref" where
  "cancel_change pairs i actor =
     act_then (update_returning (\<lambda>q. rq_id q = i \<and> rq_status q = QPending \<and> rq_makerId q = ra_sub actor)
       (\<lambda>q. q\<lparr>rq_status := QCancelled, rq_checkerComment := Some ''Cancelled by maker''\<rparr>)) (\<lambda>rows.
     case first_updated pairs rows of
       None \<Rightarrow> act_throw (Forbidden ''Only the maker can cancel their pending request'')
     | Some answer \<Rightarrow> act_ok answer)"

section \<open>Requests\<close>

datatype ref_op =
    OpCreateKeyword json_object
  | OpUpdateKeyword string json_object
  | OpDeleteKeyword string "string option"
  | OpCreateWalletType json_object
  | OpUpdateWalletType int json_object
  | OpDeleteWalletType int "string option"
  | OpCreateAml json_object
  | OpUpdateAml int string json_object
  | OpDeleteAml int string "string option"
  | OpApprove int "string option"
  | OpReject int string
  | OpCancel int

definition run_ref_op :: "bool \<Rightarrow> nat \<Rightarrow> ref_actor \<Rightarrow> ref_op \<Rightarrow> public_request ref" where
  "run_ref_op pairs now actor oper = (case oper of
     OpCreateKeyword body \<Rightarrow> guarded [''reference_data.make''] actor (with_body CreateKeywordDto body (\<lambda>dto. createKeyword dto actor))
   | OpUpdateKeyword keyword body \<Rightarrow> guarded [''reference_data.make''] actor
       (with_body UpdateKeywordDto body (\<lambda>dto. updateKeyword keyword dto actor))
   | OpDeleteKeyword keyword comment \<Rightarrow> guarded [''reference_data.make''] actor (deleteKeyword keyword comment actor)
   | OpCreateWalletType body \<Rightarrow> guarded [''reference_data.make''] actor
       (with_body CreateWalletTypeDto body (\<lambda>dto. createWalletType dto actor))
   | OpUpdateWalletType walletId body \<Rightarrow> guarded [''reference_data.make''] actor
       (with_body UpdateWalletTypeDto body (\<lambda>dto. updateWalletType walletId dto actor))
   | OpDeleteWalletType walletId comment \<Rightarrow> guarded [''reference_data.make''] actor (deleteWalletType walletId comment actor)
   | OpCreateAml body \<Rightarrow> guarded [''reference_data.make''] actor
       (with_body CreateAmlConfigurationDto body (\<lambda>dto. createAmlConfiguration dto actor))
   | OpUpdateAml walletCode keyword body \<Rightarrow> guarded [''reference_data.make''] actor
       (with_body UpdateAmlConfigurationDto body (\<lambda>dto. updateAmlConfiguration walletCode keyword dto actor))
   | OpDeleteAml walletCode keyword comment \<Rightarrow> guarded [''reference_data.make''] actor
       (deleteAmlConfiguration walletCode keyword comment actor)
   | OpApprove i comment \<Rightarrow> guarded [''reference_data.check''] actor (approve_change pairs now i comment actor)
   | OpReject i reason \<Rightarrow> guarded [''reference_data.check''] actor (reject_change pairs i reason actor)
   | OpCancel i \<Rightarrow> guarded [''reference_data.make''] actor (cancel_change pairs i actor))"

text \<open>One request of some administrator, or the cache going down or coming back.\<close>

inductive ref_step :: "bool \<Rightarrow> ref_state \<Rightarrow> ref_state \<Rightarrow> bool" for pairs where
  request: "run_ref_op pairs now actor oper s = (r, t) \<Longrightarrow> ref_step pairs s t"
| cache: "ref_step pairs s (s\<lparr>rf_cacheUp := up\<rparr>)"

end
