(* ===== verification/ReferenceFacts.thy ===== *)
theory ReferenceFacts
  imports ReferenceDecisions ConfigCache Postconditions
begin

text \<open>
  What the handlers of the reference data rest on: objects and rows, printed keys that are read back, and the
  agreement of the statements that write a table with the one that reads it.
\<close>

section \<open>Objects and rows\<close>

lemma map_of_spread: "map_of (object_spread a b) k = (case map_of b k of Some w \<Rightarrow> Some w | None \<Rightarrow> map_of a k)"
proof -
  have 1: "map_of (map (\<lambda>(k, v). (k, case map_of b k of None \<Rightarrow> v | Some w \<Rightarrow> w)) a) k =
      map_option (\<lambda>v. case map_of b k of None \<Rightarrow> v | Some w \<Rightarrow> w) (map_of a k)" for a
    by (induction a) (auto split: option.splits)
  have 2: "map_of (filter (\<lambda>(k, v). k \<notin> X) b) k = (if k \<in> X then None else map_of b k)" for X
    by (induction b) auto
  have 3: "k \<in> fst ` set a \<longleftrightarrow> map_of a k \<noteq> None" by (simp add: map_of_eq_None_iff)
  show ?thesis unfolding object_spread_def map_of_append map_add_def 1 2 3 by (auto split: option.splits)
qed

lemma field_spread: "field (object_spread a b) k = (case map_of b k of Some w \<Rightarrow> w | None \<Rightarrow> field a k)"
  by (simp add: field_def prop_of_def map_of_spread split: option.splits)

lemma col_spread: "col (object_spread a b) c = (case map_of b c of Some w \<Rightarrow> w | None \<Rightarrow> col a c)"
  by (simp add: col_def map_of_spread split: option.splits)

lemma map_of_pickDefined:
  "map_of (pickDefined obj ks) k = (if k \<in> set ks \<and> field obj k \<noteq> JUndef then Some (field obj k) else None)"
  unfolding pickDefined_def by (induction ks) auto

lemma cell_ok:
  "cell cols (c, v) = Inr p \<longleftrightarrow> (\<exists>ty n. map_of cols c = Some (ty, n) \<and>
     (if js_nullish v then \<not> n \<and> p = (c, JNull) else \<exists>w. stored_cell ty v = Inr w \<and> p = (c, w)))"
  by (cases p) (auto simp: cell_def res_simps split: option.splits)

lemma map_res_Cons: "map_res f (x # xs) = await (f x) (\<lambda>y. await (map_res f xs) (\<lambda>ys. Inr (y # ys)))"
proof -
  have "map_resi (\<lambda>_. f) i ys = map_resi (\<lambda>_. f) j ys" for i j ys
  proof (induction ys arbitrary: i j)
    case (Cons y ys)
    show ?case using Cons[of "Suc i" "Suc j"] by simp
  qed simp
  from this[of "Suc 0" xs 0] show ?thesis by (simp add: map_res_def)
qed

lemma cells_Cons: "cells cols ((c, v) # vals) = Inr u \<longleftrightarrow>
    (\<exists>w u'. cell cols (c, v) = Inr (c, w) \<and> cells cols vals = Inr u' \<and> u = (c, w) # u')"
  by (cases u) (auto simp: cells_def map_res_Cons cell_ok res_simps split: if_splits)

lemma cells_written:
  assumes "cells cols vals = Inr u"
  shows "map_of u c = None \<longleftrightarrow> map_of vals c = None"
    and "map_of vals c = Some v \<Longrightarrow> \<exists>w. map_of u c = Some w \<and> cell cols (c, v) = Inr (c, w)"
proof -
  have "(map_of u c = None \<longleftrightarrow> map_of vals c = None) \<and>
      (\<forall>v. map_of vals c = Some v \<longrightarrow> (\<exists>w. map_of u c = Some w \<and> cell cols (c, v) = Inr (c, w)))"
    using assms
  proof (induction vals arbitrary: u)
    case Nil
    then show ?case by (simp add: cells_def map_res_def)
  next
    case (Cons p vals)
    then show ?case by (cases p) (fastforce simp: cells_Cons)
  qed
  then show "map_of u c = None \<longleftrightarrow> map_of vals c = None"
    and "map_of vals c = Some v \<Longrightarrow> \<exists>w. map_of u c = Some w \<and> cell cols (c, v) = Inr (c, w)" by blast+
qed

section \<open>What a column holds\<close>

definition ref_holds :: "column_type \<Rightarrow> jsval \<Rightarrow> bool" where
  "ref_holds ty w \<longleftrightarrow> w = JNull \<or> (\<not> js_nullish w \<and> stored_cell ty w = Inr w)"

lemma pg_trim_char: "pg_trim [c] = (if c = CHR '' '' then [] else [c])"
  by (simp add: pg_trim_def)

lemma int_within_ok: "int_within lo hi v = Inr w \<longleftrightarrow>
    w = v \<and> (\<exists>i. v = JInt i \<and> lo \<le> i \<and> i \<le> hi)"
  by (auto simp: int_within_def split: jsval.splits jsnum.splits if_splits)

lemma stored_char:
  assumes "stored_cell TChar1 v = Inr w"
  shows "\<exists>c. w = JStr [c]"
proof -
  obtain x where x: "v = JStr x" using assms by (cases v) (simp_all add: stored_cell_def)
  define y where "y = rev (dropWhile (\<lambda>c. c = CHR '' '') (rev x))"
  from assms have "length y \<le> 1" and w: "w = JStr (if y = [] then '' '' else y)"
    by (simp_all add: stored_cell_def x Let_def flip: y_def split: if_splits)
  then show ?thesis by (cases y) auto
qed

lemma stored_one_char: "stored_cell TChar1 (JStr [c]) = Inr (JStr [c])"
  by (simp add: stored_cell_def)

lemma stored_again: "stored_cell ty v = Inr w \<Longrightarrow> stored_cell ty w = Inr w"
proof (cases ty)
  case TChar1
  moreover assume "stored_cell ty v = Inr w"
  ultimately show ?thesis using stored_char[of v w] stored_one_char by auto
next
  case TNumeric12_2
  moreover assume "stored_cell ty v = Inr w"
  ultimately show ?thesis by (auto simp: stored_cell_def split: jsval.splits jsnum.splits if_splits)
qed (auto simp: stored_cell_def int_within_ok split: jsval.splits jsnum.splits)

lemma stored_holds: "stored_cell ty v = Inr w \<Longrightarrow> ref_holds ty w"
proof -
  assume s: "stored_cell ty v = Inr w"
  have "\<not> js_nullish w"
    using stored_again[OF s] by (cases ty; cases w) (auto simp: stored_cell_def int_within_def)
  with stored_again[OF s] show ?thesis by (simp add: ref_holds_def)
qed

text \<open>A value that a column and its reader give back when the column takes it.\<close>

definition reads_back :: "column_type \<Rightarrow> (jsval \<Rightarrow> jsval) \<Rightarrow> jsval \<Rightarrow> bool" where
  "reads_back ty rd v \<longleftrightarrow> js_nullish v \<or> (\<forall>w. stored_cell ty v = Inr w \<longrightarrow> rd w = v)"

text \<open>How a value that was written reads: a null boolean becomes false.\<close>

definition as_read :: "(jsval \<Rightarrow> jsval) \<Rightarrow> jsval \<Rightarrow> jsval" where
  "as_read rd v = (if js_nullish v then rd JNull else v)"

lemma cell_reads:
  "cell cols (c, v) = Inr (c, w) \<Longrightarrow> map_of cols c = Some (ty, n) \<Longrightarrow> reads_back ty rd v \<Longrightarrow> rd w = as_read rd v"
  by (auto simp: cell_ok reads_back_def as_read_def split: if_splits)

lemma cell_holds: "cell cols (c, v) = Inr (c, w) \<Longrightarrow> map_of cols c = Some (ty, n) \<Longrightarrow> ref_holds ty w"
  by (auto simp: cell_ok ref_holds_def stored_holds[unfolded ref_holds_def] split: if_splits)

section \<open>Layouts\<close>

text \<open>
  How the fields of a snapshot lie in the columns of a table: the field, its column, the type of the column and
  how the snapshot reads it.
\<close>

type_synonym layout = "(string \<times> string \<times> column_type \<times> (jsval \<Rightarrow> jsval)) list"

definition read_json :: "layout \<Rightarrow> row \<Rightarrow> json_object" where
  "read_json L r = map (\<lambda>(f, c, _, rd). (f, rd (col r c))) L"

definition written :: "layout \<Rightarrow> json_object \<Rightarrow> (string \<times> jsval) list" where
  "written L value = map (\<lambda>(f, c, _). (c, field value f)) L"

definition layout_fits :: "column list \<Rightarrow> layout \<Rightarrow> bool" where
  "layout_fits cols L \<longleftrightarrow> distinct (map fst L) \<and> distinct (map (\<lambda>(f, c, _). c) L) \<and>
     list_all (\<lambda>(f, c, ty, _). case map_of cols c of None \<Rightarrow> False | Some (ty', _) \<Rightarrow> ty' = ty) L"

lemma field_read_json:
  "distinct (map fst L) \<Longrightarrow> (f, c, ty, rd) \<in> set L \<Longrightarrow> field (read_json L r) f = rd (col r c)"
proof (induction L)
  case (Cons a L)
  then show ?case by (cases a) (force simp: read_json_def field_def image_iff)
qed simp

lemma field_read_json_None: "f \<notin> fst ` set L \<Longrightarrow> field (read_json L r) f = JUndef"
  by (induction L) (auto simp: read_json_def field_def)

lemma map_of_written:
  "distinct (map (\<lambda>(f, c, _). c) L) \<Longrightarrow> (f, c, ty, rd) \<in> set L \<Longrightarrow> map_of (written L value) c = Some (field value f)"
proof (induction L)
  case (Cons a L)
  then show ?case by (cases a) (force simp: written_def image_iff)
qed simp

lemma map_of_written_None: "c \<notin> (\<lambda>(f, c, _). c) ` set L \<Longrightarrow> map_of (written L value) c = None"
  by (induction L) (auto simp: written_def)

text \<open>What was written through a layout is what is read through it.\<close>

lemma written_read:
  assumes fits: "layout_fits cols L" and L: "(f, c, ty, rd) \<in> set L"
    and u: "cells cols (written L value @ audit) = Inr u" and v: "reads_back ty rd (field value f)"
  shows "\<exists>w. map_of u c = Some w \<and> rd w = as_read rd (field value f)"
proof -
  from fits L obtain n where n: "map_of cols c = Some (ty, n)"
    by (fastforce simp: layout_fits_def list_all_iff split: option.splits)
  have "map_of (written L value @ audit) c = Some (field value f)"
    using map_of_written[of L f c ty rd "value"] fits L by (simp add: layout_fits_def map_add_def)
  from cells_written(2)[OF u this] n v show ?thesis by (auto dest: cell_reads)
qed

section \<open>Rows that fit their columns\<close>

definition ref_row_ok :: "column list \<Rightarrow> row \<Rightarrow> bool" where
  "ref_row_ok cols r \<longleftrightarrow> (\<forall>c ty n. map_of cols c = Some (ty, n) \<longrightarrow> ref_holds ty (col r c))"

lemma holds_null [simp]: "ref_holds ty JNull"
  by (simp add: ref_holds_def)

lemma cells_hold:
  assumes "cells cols vals = Inr u" and "map_of u c = Some w" and "map_of cols c = Some (ty, n)"
  shows "ref_holds ty w"
proof (cases "map_of vals c")
  case None
  with cells_written(1)[OF assms(1), of c] assms(2) show ?thesis by simp
next
  case (Some v)
  from cells_written(2)[OF assms(1) this] assms(2,3) show ?thesis by (auto dest: cell_holds)
qed

lemma row_ok_cells: "cells cols vals = Inr u \<Longrightarrow> ref_row_ok cols r \<Longrightarrow> ref_row_ok cols (object_spread r u)"
  by (auto simp: ref_row_ok_def col_spread split: option.splits dest: cells_hold)

lemma row_ok_new: "cells cols vals = Inr u \<Longrightarrow> ref_row_ok cols u"
  by (auto simp: ref_row_ok_def col_def split: option.splits dest: cells_hold)

text \<open>What a row holds reads back as it was read.\<close>

definition good_reader :: "column_type \<Rightarrow> (jsval \<Rightarrow> jsval) \<Rightarrow> bool" where
  "good_reader ty rd \<longleftrightarrow> rd = plain \<or> (rd = or_false \<and> ty = TBool) \<or> (rd = trimmed \<and> ty = TChar1)"

lemma reads_back_plain: "ty \<notin> {TChar1, TNumeric12_2} \<Longrightarrow> reads_back ty plain v"
  by (cases ty) (auto simp: reads_back_def stored_cell_def plain_def int_within_ok split: jsval.splits jsnum.splits)

lemma reads_back_bool: "reads_back TBool or_false v"
  by (auto simp: reads_back_def stored_cell_def or_false_def split: jsval.splits)

lemma reads_back_cents: "v = JRat q \<Longrightarrow> is_cents q \<Longrightarrow> reads_back TNumeric12_2 plain v"
  by (auto simp: reads_back_def stored_cell_def plain_def split: if_splits)

lemma reads_back_char: "v = JStr s \<Longrightarrow> length s \<le> 1 \<Longrightarrow> s \<noteq> '' '' \<Longrightarrow> reads_back TChar1 trimmed v"
  by (cases s) (auto simp: reads_back_def stored_cell_def trimmed_def pg_trim_def)

lemma reads_back_null: "js_nullish v \<Longrightarrow> reads_back ty rd v"
  by (simp add: reads_back_def)

lemma reads_back_held:
  assumes "ref_holds ty w" and g: "good_reader ty rd"
  shows "reads_back ty rd (rd w)"
proof (cases "w = JNull")
  case True
  with g show ?thesis
    by (auto simp: good_reader_def plain_def trimmed_def or_false_def intro: reads_back_null reads_back_bool)
next
  case False
  with assms(1) have s: "stored_cell ty w = Inr w" by (simp add: ref_holds_def)
  consider "rd = plain" | "rd = or_false" "ty = TBool" | "rd = trimmed" "ty = TChar1"
    using g by (auto simp: good_reader_def)
  then show ?thesis
  proof cases
    case 1
    with s show ?thesis by (simp add: reads_back_def plain_def)
  next
    case 2
    then show ?thesis by (simp add: reads_back_bool)
  next
    case 3
    with stored_char[of w w] s obtain c where "w = JStr [c]" by auto
    with 3 show ?thesis by (auto simp: trimmed_def pg_trim_char intro: reads_back_char)
  qed
qed

section \<open>The three tables\<close>

definition keyword_layout :: layout where
  "keyword_layout =
     [(''keyword'', ''Keyword'', TText, plain), (''keywordDescription'', ''Keyword_Description'', TText, plain),
      (''keywordScope'', ''Keyword_Scope'', TChar1, trimmed), (''isFinancial'', ''Is_Financial'', TBool, or_false),
      (''chargeable'', ''Chargeable'', TChar1, trimmed), (''kcIdLookup'', ''Kc_Id_Lookup'', TChar1, trimmed),
      (''commissionable'', ''Commissionable'', TChar1, trimmed), (''kcmIdLookup'', ''Kcm_Id_Lookup'', TChar1, trimmed),
      (''minimumTranAmount'', ''MINIMUM_TRAN_AMOUNT'', TNumeric12_2, plain), (''involvedParty'', ''INVOLVED_PARTY'', TText, plain),
      (''applyTds'', ''ApplyTds'', TBool, or_false), (''isRewardApplicable'', ''Is_Reward_Applicable'', TBool, or_false),
      (''isSystemKeyword'', ''Is_System_Keyword'', TBool, or_false), (''serviceStatus'', ''Service_Status'', TBool, or_false),
      (''vatSource'', ''vat_source'', TChar1, trimmed), (''vatId'', ''VatId'', TInt16, plain),
      (''keywordDescriptionLocal'', ''Keyword_Description_Local'', TText, plain),
      (''isCategoryService'', ''Is_category_service'', TBool, or_false), (''priority'', ''priority'', TInt32, plain),
      (''reverseKeyword'', ''RKEYWORD'', TText, plain), (''isActive'', ''Is_Active'', TBool, or_false)]"

definition wallet_type_layout :: layout where
  "wallet_type_layout =
     [(''walletId'', ''Wallet_ID'', TInt32, plain), (''walletName'', ''Wallet_Name'', TText, plain),
      (''walletDetails'', ''Wallet_Details'', TText, plain), (''isKycNeeded'', ''Is_Kyc_Needed'', TBool, or_false),
      (''defaultCommissionId'', ''Default_Comission_Id'', TInt32, plain),
      (''defaultChargeId'', ''Default_Charge_Id'', TInt32, plain), (''walletType'', ''Wallet_Type'', TInt16, plain),
      (''isCharge'', ''Is_Charge'', TBool, or_false), (''fee'', ''Fee'', TNumeric, plain),
      (''hierarchy'', ''Hierarchy'', TInt32, plain), (''status'', ''Status'', TBool, or_false),
      (''walletNameLocal'', ''Wallet_Name_Local'', TText, plain)]"

definition aml_layout :: layout where
  "aml_layout =
     [(''walletCode'', ''Wallet_Type'', TInt16, plain), (''keyword'', ''Keyword'', TText, plain),
      (''maxTransactionAmount'', ''Max_Txn_Amount'', TNumeric, plain), (''monthlyMaxAmount'', ''Monthly_Max_Amount'', TNumeric, plain),
      (''monthlyTransactionCount'', ''Monthly_Transaction_Count'', TNumeric, plain),
      (''dailyMaxAmount'', ''Daily_Max_Amount'', TNumeric, plain),
      (''dailyTransactionCount'', ''Daily_Transaction_Count'', TNumeric, plain), (''isActive'', ''Is_Active'', TBool, plain)]"

lemmas layout_defs = keyword_layout_def wallet_type_layout_def aml_layout_def

lemma layouts_fit:
  "layout_fits keyword_columns keyword_layout"
  "layout_fits wallet_type_columns wallet_type_layout"
  "layout_fits aml_columns aml_layout"
  by (simp_all add: layout_fits_def layout_defs keyword_columns_def wallet_type_columns_def aml_columns_def)

lemma layout_readers:
  "(f, c, ty, rd) \<in> set keyword_layout \<Longrightarrow> good_reader ty rd"
  "(f, c, ty, rd) \<in> set wallet_type_layout \<Longrightarrow> good_reader ty rd"
  "(f, c, ty, rd) \<in> set aml_layout \<Longrightarrow> good_reader ty rd"
  by (auto simp: layout_defs good_reader_def)

text \<open>The statements agree with the layouts.\<close>

lemma json_layouts:
  "keyword_json r = read_json keyword_layout r"
  "wallet_type_json r = read_json wallet_type_layout r"
  by (simp_all add: keyword_json_def wallet_type_json_def read_json_def layout_defs plain_def)

definition audit :: "string \<Rightarrow> string \<Rightarrow> string \<Rightarrow> (string \<times> jsval) list" where
  "audit by_col maker checker = [(by_col, JStr (auditName maker)), (''Approved_By'', JStr (auditName checker))]"

lemma applyKeyword_layout:
  "applyKeyword value action maker checker =
     (if action = ACreate
      then insert_row keyword_columns add_keyword (written keyword_layout value @ audit ''Created_By'' maker checker)
      else update_rows keyword_columns rf_keywords_update (\<lambda>r. col r ''Keyword'' = field value ''keyword'')
        (written (drop 1 keyword_layout) value @ audit ''Modified_By'' maker checker))"
  by (simp add: applyKeyword_def keyword_args_def written_def layout_defs audit_def)

lemma applyWalletType_layout:
  "applyWalletType value action maker checker =
     (if action = ACreate
      then insert_row wallet_type_columns add_wallet_type (written wallet_type_layout value @ audit ''Created_By'' maker checker)
      else update_rows wallet_type_columns rf_wallets_update (\<lambda>r. col r ''Wallet_ID'' = field value ''walletId'')
        (written (drop 1 wallet_type_layout) value @ audit ''Modified_By'' maker checker))"
  by (simp add: applyWalletType_def wallet_type_args_def written_def layout_defs audit_def)

lemma applyAml_layout:
  "applyAmlConfiguration value action maker checker =
     (if action = ACreate
      then insert_row aml_columns add_aml (written aml_layout value @ audit ''Created_By'' maker checker)
      else update_rows aml_columns rf_aml_update (\<lambda>r. aml_key_of r = (field value ''walletCode'', field value ''keyword''))
        (written (drop 2 aml_layout) value @ audit ''Modified_By'' maker checker))"
  by (simp add: applyAmlConfiguration_def aml_args_def written_def layout_defs audit_def)

section \<open>Printed keys\<close>

lemma is_digit_space: "is_digit c \<Longrightarrow> \<not> is_space c"
  by (auto simp: is_digit_def is_space_def Let_def)

lemma trim_solid: "(\<And>c. c \<in> set s \<Longrightarrow> \<not> is_space c) \<Longrightarrow> trim s = s"
proof -
  have d: "(\<And>c. c \<in> set u \<Longrightarrow> \<not> is_space c) \<Longrightarrow> dropWhile is_space u = u" for u by (cases u) auto
  assume "\<And>c. c \<in> set s \<Longrightarrow> \<not> is_space c"
  with d[of s] d[of "rev s"] show ?thesis by (simp add: trim_def)
qed

lemma digits_nat_snoc: "digits_nat (s @ [c]) = 10 * digits_nat s + digit_val c"
  by (simp add: digits_nat_def)

lemma digits_nat_str: "digits_nat (nat_str n) = n"
proof (induction n rule: nat_str.induct)
  case (1 n)
  have d: "k < 10 \<Longrightarrow> digit_val (digit_char k) = k" for k by (simp add: digit_val_def digit_char_def)
  show ?case
  proof (cases "n < 10")
    case True
    then show ?thesis using d[of n] by (simp add: nat_str.simps[of n] digits_nat_def)
  next
    case False
    with 1 have "digits_nat (nat_str n) = 10 * (n div 10) + digit_val (digit_char (n mod 10))"
      by (simp add: nat_str.simps[of n] digits_nat_snoc del: nat_str.simps)
    with d[of "n mod 10"] show ?thesis by simp
  qed
qed

lemma nat_str_nonempty: "nat_str n \<noteq> []"
  by (cases "n < 10") (simp_all add: nat_str.simps[of n])

lemma radix_digits: "\<forall>c \<in> set s. is_digit c \<Longrightarrow> radix_literal s = None"
  by (auto simp: radix_literal_def is_digit_def split: list.splits)

lemma unsigned_digits:
  assumes "\<And>c. c \<in> set s \<Longrightarrow> is_digit c" and "s \<noteq> []"
  shows "unsigned_literal s = Some (of_nat (digits_nat s))"
proof -
  have p: "takeWhile is_digit s = s" "dropWhile is_digit s = []" using assms(1) by (simp_all add: takeWhile_eq_all_conv)
  show ?thesis unfolding unsigned_literal_def p Let_def using assms(2) by (simp add: exponent_part_def)
qed

text \<open>A literal that starts with a sign or a digit and goes on with digits.\<close>

lemma string_number_literal:
  assumes "\<And>x. x \<in> set cs \<Longrightarrow> is_digit x" and "is_digit c \<or> c = CHR ''-'' \<and> cs \<noteq> []"
    and "decimal_literal (c # cs) = Some q"
  shows "string_number (c # cs) = NumFin q"
proof -
  have "x \<in> set (c # cs) \<Longrightarrow> is_digit x \<or> x = CHR ''-''" for x using assms(1,2) by auto
  moreover have "\<not> is_space (CHR ''-'')" by (simp add: is_space_def)
  ultimately have t: "trim (c # cs) = c # cs" by (intro trim_solid) (metis is_digit_space)
  have no: "\<not> is_digit (CHR ''I'')" "\<not> is_digit (CHR ''+'')" "\<not> is_digit (CHR ''x'')" "\<not> is_digit (CHR ''X'')"
    "\<not> is_digit (CHR ''o'')" "\<not> is_digit (CHR ''O'')" "\<not> is_digit (CHR ''b'')" "\<not> is_digit (CHR ''B'')"
    by (simp_all add: is_digit_def)
  have "radix_literal (c # cs) = None"
  proof (cases cs)
    case (Cons x xs)
    then have "is_digit x" using assms(1) by simp
    with no have "x \<notin> {CHR ''x'', CHR ''X'', CHR ''o'', CHR ''O'', CHR ''b'', CHR ''B''}" by blast
    with Cons show ?thesis by (cases xs) (simp_all add: radix_literal_def)
  qed (simp add: radix_literal_def)
  moreover have "c \<noteq> CHR ''I'' \<and> c \<noteq> CHR ''+'' \<and> cs \<noteq> ''Infinity''"
    using assms(1)[of "CHR ''I''"] assms(2) no by auto
  then have "c # cs \<noteq> ''Infinity'' \<and> c # cs \<noteq> ''+Infinity'' \<and> c # cs \<noteq> ''-Infinity''" by simp
  ultimately show ?thesis using assms(3) unfolding string_number_def t Let_def by simp
qed

lemma string_number_int_str: "string_number (int_str i) = NumFin (of_int i)"
proof (cases "i < 0")
  case True
  define s where "s = nat_str (nat (- i))"
  have d: "x \<in> set s \<Longrightarrow> is_digit x" for x unfolding s_def by (rule nat_str_digits)
  have ne: "s \<noteq> []" by (simp add: s_def nat_str_nonempty)
  have "decimal_literal (CHR ''-'' # s) = Some (of_int i)"
    using True by (simp add: decimal_literal_def unsigned_digits[OF d ne]) (simp add: s_def digits_nat_str)
  with string_number_literal[of s "CHR ''-''"] d ne show ?thesis using True by (simp add: int_str_def s_def)
next
  case False
  define s where "s = nat_str (nat i)"
  have d: "x \<in> set s \<Longrightarrow> is_digit x" for x unfolding s_def by (rule nat_str_digits)
  have ne: "s \<noteq> []" by (simp add: s_def nat_str_nonempty)
  then obtain c cs where s: "s = c # cs" by (cases s) auto
  have c: "is_digit c" using d s by simp
  then have "decimal_literal s = unsigned_literal s" by (auto simp: decimal_literal_def s is_digit_def)
  then have "decimal_literal s = Some (of_int i)"
    using False by (simp add: unsigned_digits[OF d ne]) (simp add: s_def digits_nat_str)
  with string_number_literal[of cs c] d c s show ?thesis using False by (simp add: int_str_def flip: s_def)
qed

lemma parse_printed_key:
  "parseAmlKey (int_str i @ '':'' @ k) =
     (if i < 1 \<or> keywordKey k = [] then Inl (BadRequest ''Invalid AML configuration key'') else Inr (i, keywordKey k))"
proof -
  have c: "c \<noteq> CHR '':''" if "c \<in> set (int_str i)" for c using colon_free_int[of i] that by metis
  have "takeWhile (\<lambda>c. c \<noteq> CHR '':'') (int_str i @ CHR '':'' # k) = int_str i"
    "dropWhile (\<lambda>c. c \<noteq> CHR '':'') (int_str i @ CHR '':'' # k) = CHR '':'' # k"
    using c by (simp_all add: takeWhile_append dropWhile_append)
  moreover have "int_str i \<noteq> []" using nat_str_nonempty by (simp add: int_str_def)
  ultimately show ?thesis using string_number_int_str[of i] by (simp add: parseAmlKey_def Let_def)
qed

lemma keywordKey_idem [simp]: "keywordKey (keywordKey s) = keywordKey s"
  by (simp add: keywordKey_def trim_upper upper_idem trim_idem)

end
