(* ===== verification/ReferenceSafety.thy ===== *)
theory ReferenceSafety
  imports ReferenceFacts
begin

text \<open>
  The invariant of the reference data: the constraints of the schema hold, every row fits its columns, and every
  queued proposal names the record of its key and consists of values that read back as they were written.
\<close>

section \<open>The invariant\<close>

definition columns_of :: "resource \<Rightarrow> column list" where
  "columns_of resource = (case resource of RKeyword \<Rightarrow> keyword_columns | RWalletType \<Rightarrow> wallet_type_columns
     | RAml \<Rightarrow> aml_columns)"

definition layout_of :: "resource \<Rightarrow> layout" where
  "layout_of resource = (case resource of RKeyword \<Rightarrow> keyword_layout | RWalletType \<Rightarrow> wallet_type_layout
     | RAml \<Rightarrow> aml_layout)"

definition live_rows :: "resource \<Rightarrow> ref_state \<Rightarrow> row list" where
  "live_rows resource s = (case resource of RKeyword \<Rightarrow> rf_keywords s | RWalletType \<Rightarrow> rf_wallets s | RAml \<Rightarrow> rf_aml s)"

text \<open>The record that a key names, by the fields of a proposal.\<close>

definition names :: "resource \<Rightarrow> string \<Rightarrow> json_object \<Rightarrow> bool" where
  "names resource key obj = (case resource of
     RKeyword \<Rightarrow> field obj ''keyword'' = JStr key
   | RWalletType \<Rightarrow> (\<exists>i. field obj ''walletId'' = JInt i \<and> key = int_str i)
   | RAml \<Rightarrow> (\<exists>i k. field obj ''walletCode'' = JInt i \<and> field obj ''keyword'' = JStr k \<and> key = int_str i @ '':'' @ k \<and>
       1 \<le> i \<and> k \<noteq> [] \<and> keywordKey k = k))"

definition is_count :: "jsval \<Rightarrow> bool" where
  "is_count v \<longleftrightarrow> js_nullish v \<or> (\<exists>i. v = JInt i)"

definition proposal_ok :: "resource \<Rightarrow> json_object \<Rightarrow> bool" where
  "proposal_ok resource obj \<longleftrightarrow>
     (\<forall>(f, c, ty, rd) \<in> set (layout_of resource). reads_back ty rd (field obj f)) \<and>
     (resource = RAml \<longrightarrow> is_count (field obj ''dailyTransactionCount'') \<and> is_count (field obj ''monthlyTransactionCount''))"

definition request_ok :: "change_row \<Rightarrow> bool" where
  "request_ok r \<longleftrightarrow> proposal_ok (rq_resource r) (rq_proposed r) \<and> names (rq_resource r) (rq_key r) (rq_proposed r)"

definition rows_ok :: "ref_state \<Rightarrow> bool" where
  "rows_ok s \<longleftrightarrow> (\<forall>res. \<forall>r \<in> set (live_rows res s). ref_row_ok (columns_of res) r)"

definition requests_ok :: "ref_state \<Rightarrow> bool" where
  "requests_ok s \<longleftrightarrow> (\<forall>r \<in> set (rf_requests s). request_ok r \<and> rq_id r < rf_nextRequest s) \<and>
     distinct (map rq_id (rf_requests s))"

definition ref_inv :: "ref_state \<Rightarrow> bool" where
  "ref_inv s \<longleftrightarrow> ref_constraints s \<and> rows_ok s \<and> requests_ok s"

lemmas ref_inv_defs = ref_inv_def rows_ok_def requests_ok_def

section \<open>Reading a live record\<close>

lemma readonly_snapshot: "readonly (snapshot resource key)"
  unfolding snapshot_def keywordSnapshot_def walletTypeSnapshot_def amlSnapshot_def
  by (cases resource) (auto intro!: atomic_intros split: option.splits prod.splits)

lemma readonly_live: "readonly (live_record resource key missing)"
  unfolding live_record_def by (intro readonly_then readonly_snapshot) (auto intro: atomic_intros split: option.splits)

text \<open>The row that a key names.\<close>

definition named :: "resource \<Rightarrow> string \<Rightarrow> row \<Rightarrow> bool" where
  "named resource key r = (case resource of
     RKeyword \<Rightarrow> col r ''Keyword'' = JStr key
   | RWalletType \<Rightarrow> (case int4 (JNum (string_number key)) of Inl e \<Rightarrow> False | Inr w \<Rightarrow> col r ''Wallet_ID'' = w)
   | RAml \<Rightarrow> (case parseAmlKey key of Inl e \<Rightarrow> False | Inr (i, k) \<Rightarrow> aml_key_of r = (JInt i, JStr k)))"

definition row_json :: "resource \<Rightarrow> row \<Rightarrow> json_object res" where
  "row_json resource r = (case resource of
     RKeyword \<Rightarrow> Inr (keyword_json r) | RWalletType \<Rightarrow> Inr (wallet_type_json r) | RAml \<Rightarrow> aml_json r)"

lemma named_resources:
  "named RKeyword key = (\<lambda>r. col r ''Keyword'' = JStr key)"
  "named RWalletType key = (\<lambda>r. case int4 (JNum (string_number key)) of Inl e \<Rightarrow> False | Inr w \<Rightarrow> col r ''Wallet_ID'' = w)"
  "named RAml key = (\<lambda>r. case parseAmlKey key of Inl e \<Rightarrow> False | Inr (i, k) \<Rightarrow> aml_key_of r = (JInt i, JStr k))"
  by (simp_all add: named_def fun_eq_iff)

lemmas snapshot_cases = snapshot_def keywordSnapshot_def walletTypeSnapshot_def amlSnapshot_def named_resources
  live_rows_def row_json_def act_then_run

lemma int4_same: "int4 v = Inr w \<Longrightarrow> w = v"
  by (simp add: int_within_ok)

lemma snapshot_found:
  assumes "fst (snapshot resource key s) = Inr (Some obj)"
  shows "\<exists>r. find (named resource key) (live_rows resource s) = Some r \<and> row_json resource r = Inr obj"
proof (cases resource)
  case RWalletType
  with assms show ?thesis by (cases "int4 (JNum (string_number key))") (auto simp: snapshot_cases)
next
  case RAml
  with assms show ?thesis
    by (cases "parseAmlKey key") (auto simp: snapshot_cases dest!: int4_same split: sum.splits option.splits prod.splits)
qed (use assms in \<open>auto simp: snapshot_cases\<close>)

lemma snapshot_missing:
  assumes "fst (snapshot resource key s) = Inr None"
  shows "find (named resource key) (live_rows resource s) = None"
proof (cases resource)
  case RWalletType
  with assms show ?thesis by (cases "int4 (JNum (string_number key))") (auto simp: snapshot_cases)
next
  case RAml
  with assms show ?thesis
    by (cases "parseAmlKey key") (auto simp: snapshot_cases dest!: int4_same split: sum.splits option.splits prod.splits)
qed (use assms in \<open>auto simp: snapshot_cases\<close>)

section \<open>Proposals\<close>

lemma row_of_live: "find (named res key) (live_rows res s) = Some r \<Longrightarrow> rows_ok s \<Longrightarrow> ref_row_ok (columns_of res) r"
  unfolding rows_ok_def by (auto simp: find_Some_iff)

lemma row_ok_col: "ref_row_ok cols r \<Longrightarrow> map_of cols c = Some (ty, n) \<Longrightarrow> ref_holds ty (col r c)"
  by (auto simp: ref_row_ok_def)

lemma layouts_fit_all: "layout_fits (columns_of res) (layout_of res)"
  by (cases res) (simp_all add: columns_of_def layout_of_def layouts_fit)

lemma layout_column:
  assumes "(f, c, ty, rd) \<in> set (layout_of res)"
  shows "\<exists>n. map_of (columns_of res) c = Some (ty, n)" and "good_reader ty rd"
  using assms layouts_fit_all[of res] layout_readers
  by (auto simp: layout_fits_def list_all_iff layout_of_def split: option.splits resource.splits)
     (fastforce split: option.splits resource.splits)+

lemma held_reads_back:
  "ref_row_ok (columns_of res) r \<Longrightarrow> (f, c, ty, rd) \<in> set (layout_of res) \<Longrightarrow> reads_back ty rd (rd (col r c))"
  using layout_column[of f c ty rd res] by (auto simp: ref_row_ok_def intro!: reads_back_held)

lemma aml_reads_back: "(f, c, ty, rd) \<in> set aml_layout \<Longrightarrow> reads_back ty rd v"
  by (auto simp: layout_defs intro!: reads_back_plain)

lemma wallet_type_reads_back: "(f, c, ty, rd) \<in> set wallet_type_layout \<Longrightarrow> reads_back ty rd v"
  by (auto simp: layout_defs intro!: reads_back_plain reads_back_bool)

lemma reads_back_simple: "good_reader ty rd \<Longrightarrow> ty \<notin> {TChar1, TNumeric12_2} \<Longrightarrow> reads_back ty rd v"
  by (auto simp: good_reader_def reads_back_plain reads_back_bool)

lemma to_int_count: "ref_holds TNumeric v \<Longrightarrow> to_int v = Inr w \<Longrightarrow> is_count w"
  by (auto simp: ref_holds_def to_int_def stored_cell_def is_count_def int_within_ok split: jsval.splits jsnum.splits)

lemma aml_json_fields:
  assumes "aml_json r = Inr obj"
  shows "\<exists>d m. to_int (col r ''Daily_Transaction_Count'') = Inr d \<and> to_int (col r ''Monthly_Transaction_Count'') = Inr m \<and>
    (\<forall>k. field obj k =
       (if k = ''rowId'' then col r ''Row_Id'' else if k = ''walletCode'' then col r ''Wallet_Type''
        else if k = ''keyword'' then col r ''Keyword'' else if k = ''maxTransactionAmount'' then col r ''Max_Txn_Amount''
        else if k = ''dailyMaxAmount'' then col r ''Daily_Max_Amount'' else if k = ''dailyTransactionCount'' then d
        else if k = ''monthlyMaxAmount'' then col r ''Monthly_Max_Amount'' else if k = ''monthlyTransactionCount'' then m
        else if k = ''isActive'' then col r ''Is_Active'' else JUndef))"
proof -
  from assms obtain d m where "to_int (col r ''Daily_Transaction_Count'') = Inr d" "to_int (col r ''Monthly_Transaction_Count'') = Inr m"
    "obj = [(''rowId'', col r ''Row_Id''), (''walletCode'', col r ''Wallet_Type''), (''keyword'', col r ''Keyword''),
          (''maxTransactionAmount'', col r ''Max_Txn_Amount''), (''dailyMaxAmount'', col r ''Daily_Max_Amount''),
          (''dailyTransactionCount'', d), (''monthlyMaxAmount'', col r ''Monthly_Max_Amount''),
          (''monthlyTransactionCount'', m), (''isActive'', col r ''Is_Active'')]"
    unfolding aml_json_def await_Inr_iff by blast
  then show ?thesis by (simp add: field_def)
qed

lemma live_proposal:
  assumes ok: "ref_row_ok (columns_of res) r" and j: "row_json res r = Inr obj"
  shows "proposal_ok res obj"
proof (cases "res = RAml")
  case True
  from aml_json_fields[of r obj] j True obtain d m where dm:
    "to_int (col r ''Daily_Transaction_Count'') = Inr d" "to_int (col r ''Monthly_Transaction_Count'') = Inr m"
    "field obj ''dailyTransactionCount'' = d" "field obj ''monthlyTransactionCount'' = m"
    by (auto simp: row_json_def)
  have "ref_holds TNumeric (col r ''Daily_Transaction_Count'')" "ref_holds TNumeric (col r ''Monthly_Transaction_Count'')"
    using ok True by (auto intro!: row_ok_col[where n = True] simp: columns_of_def aml_columns_def)
  with dm have "is_count d" "is_count m" by (blast intro: to_int_count)+
  with True dm aml_reads_back show ?thesis by (auto simp: proposal_ok_def layout_of_def)
next
  case False
  with j have obj: "obj = read_json (layout_of res) r"
    by (cases res) (auto simp: row_json_def layout_of_def json_layouts)
  have d: "distinct (map fst (layout_of res))" using layouts_fit_all by (simp add: layout_fits_def)
  show ?thesis unfolding proposal_ok_def
    using False held_reads_back[OF ok] by (auto simp: obj field_read_json[OF d])
qed

text \<open>Fields that may be put over a proposal.\<close>

definition override_ok :: "resource \<Rightarrow> json_object \<Rightarrow> bool" where
  "override_ok res b \<longleftrightarrow>
     (\<forall>(f, c, ty, rd) \<in> set (layout_of res). \<forall>w. map_of b f = Some w \<longrightarrow> reads_back ty rd w) \<and>
     (res = RAml \<longrightarrow> (\<forall>f \<in> {''dailyTransactionCount'', ''monthlyTransactionCount''}. \<forall>w. map_of b f = Some w \<longrightarrow> is_count w))"

lemma proposal_spread: "proposal_ok res a \<Longrightarrow> override_ok res b \<Longrightarrow> proposal_ok res (object_spread a b)"
  unfolding proposal_ok_def override_ok_def field_spread by (fastforce split: option.splits)

lemma rule_accepted:
  "accepts rules obj \<Longrightarrow> (k, conv, opt, chk) \<in> set rules \<Longrightarrow> js_nullish (field obj k) \<or> chk (field obj k)"
  by (fastforce simp: accepts_def list_all_iff)

lemma is_in_reads_back: "js_nullish v \<or> is_in ss v \<Longrightarrow> list_all (\<lambda>s. length s \<le> 1 \<and> s \<noteq> '' '') ss \<Longrightarrow> reads_back TChar1 trimmed v"
  by (cases v) (auto simp: is_in_def list_all_iff intro: reads_back_char reads_back_null)

lemma is_money_reads_back: "js_nullish v \<or> is_money_min m v \<Longrightarrow> reads_back TNumeric12_2 plain v"
  by (auto simp: is_money_min_def intro: reads_back_cents reads_back_null split: jsval.splits jsnum.splits)

lemma partial_accepted:
  "accepts (partial_without ks rules) obj \<Longrightarrow> (k, conv, opt, chk) \<in> set rules \<Longrightarrow> k \<notin> set ks \<Longrightarrow>
     js_nullish (field obj k) \<or> chk (field obj k)"
  by (fastforce simp: accepts_def partial_without_def list_all_iff)

lemma keyword_rule:
  assumes "accepts CreateKeywordDto dto \<or> accepts UpdateKeywordDto dto"
    and "(k, conv, opt, chk) \<in> set CreateKeywordDto" and "k \<noteq> ''keyword''"
  shows "js_nullish (field dto k) \<or> chk (field dto k)"
  using assms rule_accepted[of CreateKeywordDto dto] partial_accepted[of "[''keyword'']" CreateKeywordDto dto]
  unfolding UpdateKeywordDto_def by force

definition keyword_char_fields :: "string set" where
  "keyword_char_fields = {''keywordScope'', ''chargeable'', ''kcIdLookup'', ''commissionable'', ''kcmIdLookup'', ''vatSource''}"

text \<open>Only the columns of one character and the amount with two decimals change what they store.\<close>

lemma keyword_reads_backI:
  assumes c: "\<And>k. k \<in> keyword_char_fields \<Longrightarrow> reads_back TChar1 trimmed (field obj k)"
    and m: "reads_back TNumeric12_2 plain (field obj ''minimumTranAmount'')"
    and L: "(f, c', ty, rd) \<in> set keyword_layout"
  shows "reads_back ty rd (field obj f)"
proof -
  consider "ty = TChar1" | "ty = TNumeric12_2" | "ty \<notin> {TChar1, TNumeric12_2}" by blast
  then show ?thesis
  proof cases
    case 1
    with L have "f \<in> keyword_char_fields" "rd = trimmed" by (auto simp: layout_defs keyword_char_fields_def)
    with c 1 show ?thesis by simp
  next
    case 2
    with L m show ?thesis by (auto simp: layout_defs)
  next
    case 3
    with L layout_readers(1) show ?thesis by (blast intro: reads_back_simple)
  qed
qed

lemma keyword_chars:
  assumes "k \<in> keyword_char_fields"
  shows "\<exists>ss. (k, upper_text, True, is_in ss) \<in> set CreateKeywordDto \<and> list_all (\<lambda>s. length s \<le> 1 \<and> s \<noteq> '' '') ss"
proof -
  define short where "short = (\<lambda>ss. list_all (\<lambda>s. length s \<le> 1 \<and> s \<noteq> '' '') ss)"
  have m: "(''keywordScope'', upper_text, True, is_in [''C'', ''M'', ''A'', ''S'']) \<in> set CreateKeywordDto"
    "(''chargeable'', upper_text, True, is_in [''Y'', ''N'']) \<in> set CreateKeywordDto"
    "(''kcIdLookup'', upper_text, True, is_in [''S'', ''D'']) \<in> set CreateKeywordDto"
    "(''commissionable'', upper_text, True, is_in [''Y'', ''N'']) \<in> set CreateKeywordDto"
    "(''kcmIdLookup'', upper_text, True, is_in [''S'', ''D'']) \<in> set CreateKeywordDto"
    "(''vatSource'', upper_text, True, is_in [''S'', ''D'']) \<in> set CreateKeywordDto"
    by (simp_all add: CreateKeywordDto_def)
  have "short [''C'', ''M'', ''A'', ''S'']" "short [''Y'', ''N'']" "short [''S'', ''D'']"
    by (simp_all add: short_def)
  with m assms show ?thesis unfolding short_def[symmetric] keyword_char_fields_def by blast
qed

lemma keyword_field_reads_back:
  assumes dto: "accepts CreateKeywordDto dto \<or> accepts UpdateKeywordDto dto" and L: "(f, c, ty, rd) \<in> set keyword_layout"
  shows "reads_back ty rd (field dto f)"
proof (rule keyword_reads_backI[OF _ _ L])
  fix k
  assume k: "k \<in> keyword_char_fields"
  from keyword_chars[OF k] obtain ss where ss: "(k, upper_text, True, is_in ss) \<in> set CreateKeywordDto"
    "list_all (\<lambda>s. length s \<le> 1 \<and> s \<noteq> '' '') ss" by blast
  from k have "k \<noteq> ''keyword''" by (auto simp: keyword_char_fields_def)
  from is_in_reads_back[OF keyword_rule[OF dto ss(1) this] ss(2)] show "reads_back TChar1 trimmed (field dto k)" .
next
  have "(''minimumTranAmount'', to_number, True, is_money_min (1 / 100)) \<in> set CreateKeywordDto" by (simp add: CreateKeywordDto_def)
  from is_money_reads_back[OF keyword_rule[OF dto this]]
  show "reads_back TNumeric12_2 plain (field dto ''minimumTranAmount'')" by simp
qed

lemma keyword_override:
  "accepts CreateKeywordDto dto \<or> accepts UpdateKeywordDto dto \<Longrightarrow> override_ok RKeyword (keywordPayload dto)"
  unfolding override_ok_def keywordPayload_def map_of_pickDefined
  by (auto simp: layout_of_def keyword_field_reads_back split: if_splits)

lemma int_count: "js_nullish v \<or> is_int_min m v \<Longrightarrow> is_count v"
  by (auto simp: is_int_min_def is_count_def dest: num_is_integerD split: jsval.splits)

lemma aml_rules:
  assumes "accepts CreateAmlConfigurationDto dto \<or> accepts UpdateAmlConfigurationDto dto"
    and "k \<in> {''dailyTransactionCount'', ''monthlyTransactionCount''}"
  shows "is_count (field dto k)"
  using assms by (intro int_count[where m = 1])
    (auto simp: accepts_def CreateAmlConfigurationDto_def UpdateAmlConfigurationDto_def partial_without_def)

end
