(* ===== verification/ReferenceGovernance.thy ===== *)
theory ReferenceGovernance
  imports ReferenceSafety
begin

text \<open>
  Every request keeps the invariant of the reference data, and what an approval does to the live tables.
\<close>

section \<open>Names of records\<close>

lemma aml_override:
  assumes "accepts CreateAmlConfigurationDto dto \<or> accepts UpdateAmlConfigurationDto dto"
  shows "override_ok RAml (amlPayload dto)"
  using aml_rules[OF assms] aml_reads_back
  unfolding override_ok_def amlPayload_def map_of_pickDefined by (auto simp: layout_of_def split: if_splits)

lemma wallet_type_override: "override_ok RWalletType b"
  by (auto simp: override_ok_def layout_of_def wallet_type_reads_back)

lemma names_simps:
  "names RKeyword key obj \<longleftrightarrow> field obj ''keyword'' = JStr key"
  "names RWalletType key obj \<longleftrightarrow> (\<exists>i. field obj ''walletId'' = JInt i \<and> key = int_str i)"
  "names RAml key obj \<longleftrightarrow> (\<exists>i k. field obj ''walletCode'' = JInt i \<and> field obj ''keyword'' = JStr k \<and>
     key = int_str i @ '':'' @ k \<and> 1 \<le> i \<and> k \<noteq> [] \<and> keywordKey k = k)"
  by (simp_all add: names_def)

lemma find_named: "find (named res key) xs = Some r \<Longrightarrow> named res key r"
  by (auto simp: find_Some_iff)

lemma wallet_type_named: "named RWalletType (int_str i) r \<Longrightarrow> col r ''Wallet_ID'' = JInt i"
  by (auto simp: named_resources string_number_int_str int_within_def split: if_splits)

lemma aml_named:
  assumes "named RAml (amlKey w kw) r"
  shows "col r ''Wallet_Type'' = JInt w" and "col r ''Keyword'' = JStr (keywordKey kw)" and "1 \<le> w" and "keywordKey kw \<noteq> []"
  using assms by (auto simp: named_resources amlKey_def parse_printed_key aml_key_of_def simp del: append.simps split: if_splits)

text \<open>The live record of a key that the service printed.\<close>

lemma live_found:
  assumes "rows_ok s" and "fst (live_record res key missing s) = Inr obj"
  shows "proposal_ok res obj \<and> (\<exists>r. named res key r \<and> row_json res r = Inr obj)"
proof -
  have "fst (snapshot res key s) = Inr (Some obj)"
    using assms(2) readonly_snapshot[of res key]
    by (auto simp: live_record_def act_then_run readonly_def split: sum.splits option.splits)
  from snapshot_found[OF this] obtain r where r: "find (named res key) (live_rows res s) = Some r" "row_json res r = Inr obj"
    by blast
  with live_proposal[OF row_of_live[OF r(1) assms(1)] r(2)] show ?thesis by (auto dest: find_named)
qed

lemma keyword_live_names: "named RKeyword key r \<Longrightarrow> row_json RKeyword r = Inr obj \<Longrightarrow> names RKeyword key obj"
  by (auto simp: names_simps named_resources row_json_def keyword_json_def field_def)

lemma wallet_type_live_names:
  "named RWalletType (int_str i) r \<Longrightarrow> row_json RWalletType r = Inr obj \<Longrightarrow> names RWalletType (int_str i) obj"
  by (auto simp: names_simps row_json_def wallet_type_json_def field_def dest!: wallet_type_named)

section \<open>Saving keeps the invariant\<close>

lemma post_ref_save: "Q s \<Longrightarrow> (ref_constraints (f s) \<Longrightarrow> Q (f s)) \<Longrightarrow> post Q (ref_save f) s"
  unfolding ref_save_def by (intro post_intros) auto

lemma post_ref_save_then:
  "Q s \<Longrightarrow> (ref_constraints (f s) \<Longrightarrow> Q (f s)) \<Longrightarrow> (\<And>t. Q t \<Longrightarrow> post Q (k ()) t) \<Longrightarrow> post Q (act_then (ref_save f) k) s"
  by (rule post_step[where P = Q]) (auto intro: post_ref_save)

lemma post_catch: "post Q m s \<Longrightarrow> (\<And>e t. Q t \<Longrightarrow> post Q (h e) t) \<Longrightarrow> post Q (act_catch m h) s"
  unfolding post_def act_catch_run by (auto split: sum.splits)

lemma post_in_transaction: "post Q m s \<Longrightarrow> Q s \<Longrightarrow> post Q (transaction m) s"
  by (cases "m s"; cases "fst (m s)") (auto simp: post_def transaction_def)

lemma ref_inv_add_request:
  assumes inv: "ref_inv s" and p: "proposal_ok res proposed" "names res key proposed"
    and c: "ref_constraints (add_request (\<lambda>_. new_request res key action base proposed comment actor s) s)"
  shows "ref_inv (add_request (\<lambda>_. new_request res key action base proposed comment actor s) s)"
  using inv p c unfolding ref_inv_defs
  by (force simp: add_request_def new_request_def request_ok_def live_rows_def split: resource.splits)

lemma queue_inv:
  assumes inv: "ref_inv s" and ok: "proposal_ok res proposed"
    and named: "\<And>current. fst (snapshot res key s) = Inr current \<Longrightarrow> names res key proposed"
  shows "post ref_inv (queue res key action base proposed comment actor) s"
  unfolding queue_def
  apply (rule post_catch)
   apply (rule post_in_transaction[OF post_after_reading[where Q = ref_inv and s = s, OF readonly_snapshot inv] inv])
   apply (drule named)
   apply (intro post_intros inv)
   apply (auto simp: inv split: option.split intro!: post_intros post_ref_save_then ref_inv_add_request[OF inv ok])
  done

section \<open>Submitting keeps the invariant\<close>

lemma post_live:
  assumes inv: "ref_inv s"
    and k: "\<And>obj r. proposal_ok res obj \<Longrightarrow> named res key r \<Longrightarrow> row_json res r = Inr obj \<Longrightarrow> post ref_inv (k obj) s"
  shows "post ref_inv (act_then (live_record res key missing) k) s"
proof (rule post_after_reading[where Q = ref_inv and s = s, OF readonly_live inv])
  fix obj
  assume "fst (live_record res key missing s) = Inr obj"
  with live_found[of s res key missing obj] inv k show "post ref_inv (k obj) s" by (auto simp: ref_inv_def)
qed

lemma field_over: "map_of b f = None \<Longrightarrow> field (object_spread a b) f = field a f" "map_of b f = Some w \<Longrightarrow> field (object_spread a b) f = w"
  by (simp_all add: field_spread)

lemma keyword_proposalI:
  assumes "\<And>f. f \<in> keyword_char_fields \<Longrightarrow> reads_back TChar1 trimmed (field obj f)"
    and "reads_back TNumeric12_2 plain (field obj ''minimumTranAmount'')"
  shows "proposal_ok RKeyword obj"
  using keyword_reads_backI[OF assms] by (auto simp: proposal_ok_def layout_of_def)

lemma keywordDefaults_ok: "proposal_ok RKeyword (keywordDefaults key)"
proof (rule keyword_proposalI)
  fix f
  assume f: "f \<in> keyword_char_fields"
  have "reads_back TChar1 trimmed JNull" "reads_back TChar1 trimmed (JStr ''N'')" "reads_back TChar1 trimmed (JStr ''D'')"
    by (simp_all add: reads_back_null reads_back_char)
  with f show "reads_back TChar1 trimmed (field (keywordDefaults key) f)"
    unfolding keyword_char_fields_def by (elim insertE) (simp_all add: keywordDefaults_def field_def)
next
  have "is_cents 1" using is_cents_of_int[of 100] by simp
  then show "reads_back TNumeric12_2 plain (field (keywordDefaults key) ''minimumTranAmount'')"
    by (simp add: keywordDefaults_def field_def reads_back_cents)
qed

lemma override_key: "override_ok RKeyword [(''keyword'', JStr key)]"
  by (auto simp: override_ok_def layout_of_def layout_defs reads_back_plain)

lemma keyword_submissions:
  assumes "ref_inv s"
  shows "accepts CreateKeywordDto dto \<Longrightarrow> post ref_inv (createKeyword dto actor) s"
    and "accepts UpdateKeywordDto dto \<Longrightarrow> post ref_inv (updateKeyword keyword dto actor) s"
    and "post ref_inv (deleteKeyword keyword comment actor) s"
proof -
  show "post ref_inv (createKeyword dto actor) s" if "accepts CreateKeywordDto dto"
    unfolding createKeyword_def Let_def using that
    by (intro queue_inv assms proposal_spread keywordDefaults_ok keyword_override override_key)
       (auto simp: names_simps field_over)
  show "post ref_inv (updateKeyword keyword dto actor) s" if "accepts UpdateKeywordDto dto"
    unfolding updateKeyword_def Let_def using that
    by (intro post_live queue_inv assms proposal_spread keyword_override override_key)
       (auto simp: names_simps field_over)
  have "override_ok RKeyword [(''isActive'', JBool False), (''serviceStatus'', JBool False)]"
    by (auto simp: override_ok_def layout_of_def layout_defs reads_back_bool)
  then show "post ref_inv (deleteKeyword keyword comment actor) s"
    unfolding deleteKeyword_def Let_def
    by (intro post_live queue_inv assms proposal_spread)
       (auto simp: names_simps field_over dest!: keyword_live_names)
qed

lemma wallet_type_submissions:
  assumes "ref_inv s"
  shows "post ref_inv (createWalletType dto actor) s"
    and "post ref_inv (updateWalletType walletId dto actor) s"
    and "post ref_inv (deleteWalletType walletId comment actor) s"
proof -
  have d: "proposal_ok RWalletType obj" for obj
    by (auto simp: proposal_ok_def layout_of_def wallet_type_reads_back)
  show "post ref_inv (createWalletType dto actor) s" "post ref_inv (updateWalletType walletId dto actor) s"
    unfolding createWalletType_def updateWalletType_def Let_def
    by (intro post_live queue_inv assms d; auto simp: names_simps field_over)+
  show "post ref_inv (deleteWalletType walletId comment actor) s"
    unfolding deleteWalletType_def
    by (intro post_live queue_inv assms d) (auto simp: names_simps field_over dest!: wallet_type_live_names)
qed

lemma aml_snapshot_named:
  assumes "fst (snapshot RAml (amlKey w kw) s) = Inr cur"
  shows "1 \<le> w \<and> keywordKey kw \<noteq> []"
proof (rule ccontr)
  assume "\<not> ?thesis"
  then have "parseAmlKey (amlKey w kw) = Inl (BadRequest ''Invalid AML configuration key'')"
    by (auto simp: amlKey_def parse_printed_key simp del: append.simps)
  with assms show False by (simp add: snapshot_def amlSnapshot_def act_then_run)
qed

lemma aml_live_fields:
  assumes "named RAml (amlKey w kw) r" and "row_json RAml r = Inr obj"
  shows "field obj ''walletCode'' = JInt w" and "field obj ''keyword'' = JStr (keywordKey kw)"
  using aml_named(1,2)[OF assms(1)] aml_json_fields[of r obj] assms(2) by (auto simp: row_json_def)

lemma aml_names:
  assumes "1 \<le> w \<and> keywordKey kw \<noteq> []" and "field obj ''walletCode'' = JInt w" and "field obj ''keyword'' = JStr (keywordKey kw)"
  shows "names RAml (amlKey w kw) obj"
  using assms by (simp add: names_simps amlKey_def)

lemma aml_flag_override: "override_ok RAml [(''isActive'', v)]"
  "override_ok RAml [(''walletCode'', v), (''keyword'', w)]" "override_ok RAml [(''walletCode'', v), (''keyword'', w), (''isActive'', u)]"
  by (auto simp: override_ok_def layout_of_def aml_reads_back)

lemma aml_payload_ok:
  assumes "accepts CreateAmlConfigurationDto dto"
  shows "proposal_ok RAml (amlPayload dto)"
proof -
  have "is_count (field (amlPayload dto) k)" if "k \<in> {''dailyTransactionCount'', ''monthlyTransactionCount''}" for k
    using aml_rules[of dto k] assms that
    by (auto simp: field_def prop_of_def amlPayload_def map_of_pickDefined is_count_def)
  then show ?thesis by (auto simp: proposal_ok_def layout_of_def aml_reads_back)
qed

lemma aml_submissions:
  assumes inv: "ref_inv s"
  shows "accepts CreateAmlConfigurationDto dto \<Longrightarrow> post ref_inv (createAmlConfiguration dto actor) s"
    and "accepts UpdateAmlConfigurationDto dto \<Longrightarrow> post ref_inv (updateAmlConfiguration w kw dto actor) s"
    and "post ref_inv (deleteAmlConfiguration w kw comment actor) s"
proof -
  show "post ref_inv (createAmlConfiguration dto actor) s" if dto: "accepts CreateAmlConfigurationDto dto"
    unfolding createAmlConfiguration_def validateAmlReferences_def Let_def
    by (intro post_intros inv queue_inv proposal_spread aml_payload_ok dto aml_flag_override aml_names aml_snapshot_named)
       (auto simp: field_over)
  show "post ref_inv (updateAmlConfiguration w kw dto actor) s" if dto: "accepts UpdateAmlConfigurationDto dto"
    unfolding updateAmlConfiguration_def Let_def
    by (intro post_live post_intros inv queue_inv proposal_spread aml_override disjI2[OF dto] aml_flag_override aml_names
        aml_snapshot_named) (auto simp: field_over)
  show "post ref_inv (deleteAmlConfiguration w kw comment actor) s"
    unfolding deleteAmlConfiguration_def Let_def
    by (intro post_live queue_inv inv proposal_spread aml_flag_override aml_names aml_snapshot_named)
       (auto simp: field_over aml_live_fields)
qed

section \<open>Deciding keeps the invariant\<close>

lemma requests_ok_change:
  assumes "\<And>r. rq_id (f r) = rq_id r \<and> request_ok (f r) = request_ok r"
  shows "requests_ok (change_requests P f s) \<longleftrightarrow> requests_ok s"
proof -
  define h where "h = (\<lambda>r. if P r then f r else r)"
  have h: "rq_id (h r) = rq_id r" "request_ok (h r) = request_ok r" for r using assms by (simp_all add: h_def)
  have "rf_requests (change_requests P f s) = map h (rf_requests s)" by (simp add: change_requests_def h_def)
  then show ?thesis by (simp add: requests_ok_def h comp_def) (simp add: change_requests_def)
qed

lemma rows_ok_requests: "rows_ok (change_requests P f s) \<longleftrightarrow> rows_ok s"
  by (simp add: rows_ok_def change_requests_def live_rows_def split: resource.splits)

lemma update_returning_inv:
  assumes "ref_inv s" and "\<And>r. rq_id (f r) = rq_id r \<and> request_ok (f r) = request_ok r"
    and "\<And>rows t. ref_inv t \<Longrightarrow> post ref_inv (k rows) t"
  shows "post ref_inv (act_then (update_returning P f) k) s"
  unfolding update_returning_def act_then_assoc
  by (intro post_intros post_ref_save_then assms(1))
     (use assms in \<open>auto simp: ref_inv_def requests_ok_change rows_ok_requests intro!: post_intros\<close>)

lemma decided_same [simp]: "rq_id (decided_request st actor c r) = rq_id r" "request_ok (decided_request st actor c r) = request_ok r"
  by (simp_all add: decided_request_def request_ok_def)

lemma cells_rows_ok:
  assumes "rows_ok s" and "cells (columns_of res) vals = Inr u"
  shows "\<forall>r \<in> set (map (\<lambda>r. if P r then object_spread r u else r) (live_rows res s)). ref_row_ok (columns_of res) r"
    and "\<forall>r \<in> set (live_rows res s @ [u]). ref_row_ok (columns_of res) r"
  using assms row_ok_cells row_ok_new unfolding rows_ok_def by fastforce+

text \<open>The tables of the other resources and the requests are not touched.\<close>

lemma rows_ok_upd:
  "rows_ok s \<Longrightarrow> \<forall>r \<in> set (g (rf_keywords s)). ref_row_ok (columns_of RKeyword) r \<Longrightarrow> rows_ok (rf_keywords_update g s)"
  "rows_ok s \<Longrightarrow> \<forall>r \<in> set (g (rf_wallets s)). ref_row_ok (columns_of RWalletType) r \<Longrightarrow> rows_ok (rf_wallets_update g s)"
  "rows_ok s \<Longrightarrow> \<forall>r \<in> set (g (rf_aml s)). ref_row_ok (columns_of RAml) r \<Longrightarrow> rows_ok (rf_aml_update g s)"
  unfolding rows_ok_def by (auto simp: live_rows_def split: resource.splits)

lemma rows_ok_ids [simp]: "rows_ok (s\<lparr>rf_nextAml := n\<rparr>) \<longleftrightarrow> rows_ok s"
  unfolding rows_ok_def by (simp add: live_rows_def split: resource.splits)

lemma requests_ok_live [simp]:
  "requests_ok (rf_keywords_update g s) \<longleftrightarrow> requests_ok s" "requests_ok (rf_wallets_update g s) \<longleftrightarrow> requests_ok s"
  "requests_ok (rf_aml_update g s) \<longleftrightarrow> requests_ok s" "requests_ok (s\<lparr>rf_nextAml := n\<rparr>) \<longleftrightarrow> requests_ok s"
  by (simp_all add: requests_ok_def)

lemma row_ok_numbered: "ref_row_ok aml_columns ((''Row_Id'', v) # u) \<longleftrightarrow> ref_row_ok aml_columns u"
proof -
  have "map_of aml_columns ''Row_Id'' = None" by (simp add: aml_columns_def)
  then have "col ((''Row_Id'', v) # u) c = col u c" if "map_of aml_columns c = Some p" for c p
    using that by (cases "c = ''Row_Id''") (simp_all add: col_def)
  then show ?thesis by (simp add: ref_row_ok_def)
qed

lemma apply_inv:
  assumes inv: "ref_inv s" and k: "\<And>t. ref_inv t \<Longrightarrow> post ref_inv (k ()) t"
  shows "post ref_inv (act_then (apply_change res v action maker checker) k) s"
proof -
  have saved: "post ref_inv (act_then (ref_save f) k) s" if "rows_ok (f s)" "requests_ok (f s)" for f
    using that inv by (intro post_ref_save_then k) (auto simp: ref_inv_def)
  have w: "post ref_inv (act_then (act_of (cells cols vals)) (\<lambda>u. act_then (ref_save (g u)) k)) s"
    if "\<And>u. cells cols vals = Inr u \<Longrightarrow> rows_ok (g u s) \<and> requests_ok (g u s)" for cols vals g
    using that by (intro post_then_of saved inv) auto
  have r: "rows_ok s" "requests_ok s" using inv by (simp_all add: ref_inv_def)
  have upd: "\<forall>r \<in> set (map (\<lambda>r. if P r then object_spread r u else r) (live_rows res s)). ref_row_ok (columns_of res) r"
    and new: "\<forall>r \<in> set (live_rows res s @ [u]). ref_row_ok (columns_of res) r"
    if "cells (columns_of res) vals = Inr u" for res vals u P
    using cells_rows_ok[OF r(1) that] by blast+
  show ?thesis
  proof (cases res)
    case RKeyword
    then show ?thesis
      using new[of RKeyword] upd[of RKeyword] r
      by (simp add: apply_change_def applyKeyword_layout insert_row_def update_rows_def act_then_assoc add_keyword_def
          columns_of_def live_rows_def w rows_ok_upd)
  next
    case RWalletType
    then show ?thesis
      using new[of RWalletType] upd[of RWalletType] r
      by (simp add: apply_change_def applyWalletType_layout insert_row_def update_rows_def act_then_assoc add_wallet_type_def
          columns_of_def live_rows_def w rows_ok_upd)
  next
    case RAml
    then show ?thesis
      using new[of RAml] upd[of RAml] r
      by (simp add: apply_change_def applyAml_layout insert_row_def update_rows_def act_then_assoc add_aml_def
          columns_of_def live_rows_def w rows_ok_upd row_ok_numbered)
  qed
qed

lemma cache_inv: "ref_inv s \<Longrightarrow> ref_inv (s\<lparr>rf_cacheUp := up\<rparr>)" "ref_inv s \<Longrightarrow> ref_inv (s\<lparr>rf_versions := vs\<rparr>)"
  by (simp_all add: ref_inv_defs ref_constraints_def pending_keys_def live_rows_def split: resource.splits)

lemma decision_inv:
  assumes inv: "ref_inv s"
  shows "post ref_inv (approve_change pairs now i comment actor) s"
    and "post ref_inv (reject_change pairs i reason actor) s"
    and "post ref_inv (cancel_change pairs i actor) s"
proof -
  have read: "post ref_inv (act_then (snapshot res key) k) s" if "\<And>x. post ref_inv (k x) s" for res key k
    using post_after_reading[where Q = ref_inv and s = s, OF readonly_snapshot inv] that by blast
  have mark: "post ref_inv (update_returning P (decided_request st actor c)) t" if "ref_inv t" for P st c t
    using update_returning_inv[OF that, of "decided_request st actor c" act_ok P] by (simp add: post_def act_then_run split: sum.splits)
  have ends: "ref_inv t \<Longrightarrow> post ref_inv (act_then (invalidateReferenceCaches now) (\<lambda>_. act_ok x)) t" for t x
    unfolding invalidateReferenceCaches_def by (auto simp: post_def act_then_run intro: cache_inv)
  show "post ref_inv (approve_change pairs now i comment actor) s"
    unfolding approve_change_def approval_def
    apply (rule post_step[where P = ref_inv])
      apply (rule post_in_transaction)
       prefer 2 apply (rule inv)
      apply (intro post_intros read apply_inv mark inv; assumption?)
     apply assumption
    apply (erule ends)
    done
  show "post ref_inv (reject_change pairs i reason actor) s"
    unfolding reject_change_def Let_def
    by (intro update_returning_inv inv) (auto split: option.splits intro!: post_intros)
  have "request_ok (q\<lparr>rq_status := QCancelled, rq_checkerComment := c\<rparr>) = request_ok q" for q c
    by (simp add: request_ok_def)
  then show "post ref_inv (cancel_change pairs i actor) s"
    unfolding cancel_change_def by (intro update_returning_inv inv) (auto split: option.splits intro!: post_intros)
qed

section \<open>Every reachable state\<close>

lemma post_with_body:
  "Q s \<Longrightarrow> (\<And>dto. accepts rules dto \<Longrightarrow> post Q (k dto) s) \<Longrightarrow> post Q (with_body rules body k) s"
  unfolding with_body_def by (auto intro: post_intros)

lemma post_guarded: "Q s \<Longrightarrow> post Q m s \<Longrightarrow> post Q (guarded ps actor m) s"
  unfolding guarded_def by (auto intro: post_intros)

lemma run_ref_op_inv: "ref_inv s \<Longrightarrow> post ref_inv (run_ref_op pairs now actor oper) s"
  unfolding run_ref_op_def
  by (cases oper) (simp_all add: post_guarded post_with_body keyword_submissions wallet_type_submissions aml_submissions
      decision_inv)

text \<open>Any live tables that satisfy the schema, and no request yet.\<close>

definition ref_start :: "ref_state \<Rightarrow> bool" where
  "ref_start s \<longleftrightarrow> ref_constraints s \<and> rows_ok s \<and> rf_requests s = []"

lemma ref_step_inv: "ref_inv s \<Longrightarrow> ref_step pairs s t \<Longrightarrow> ref_inv t"
proof (erule ref_step.cases)
  fix now actor oper s' r t'
  assume "ref_inv s" "s = s'" "t = t'" "run_ref_op pairs now actor oper s' = (r, t')"
  then show "ref_inv t" using run_ref_op_inv[of s pairs now actor oper] by (simp add: post_def)
qed (simp add: cache_inv)

interpretation ref_machine: machine "ref_step pairs" s0 "\<lambda>s. ref_start s0 \<longrightarrow> ref_inv s" for pairs s0
  by unfold_locales (auto simp: ref_start_def ref_inv_def[of s0] requests_ok_def[of s0] intro: ref_step_inv)

lemma ref_reach_inv: "reach (ref_step pairs) s0 s \<Longrightarrow> ref_start s0 \<Longrightarrow> ref_inv s"
  using ref_machine.reach_inv by blast

end
