(* ===== verification/ReferenceApproval.thy ===== *)
theory ReferenceApproval
  imports ReferenceGovernance
begin

text \<open>
  What changes the live tables: only an approval, and it makes the record of the request's key read as the proposal
  and leaves every other row as it was.
\<close>

section \<open>One record changes\<close>

definition others :: "resource \<Rightarrow> string \<Rightarrow> ref_state \<Rightarrow> row list" where
  "others res key s = filter (\<lambda>r. \<not> named res key r) (live_rows res s)"

definition reads_as :: "resource \<Rightarrow> row \<Rightarrow> json_object \<Rightarrow> bool" where
  "reads_as res r proposed \<longleftrightarrow> (\<forall>(f, c, ty, rd) \<in> set (layout_of res). rd (col r c) = as_read rd (field proposed f))"

text \<open>\<open>t\<close> is \<open>s\<close> with the one record of the key reading as proposed.\<close>

definition record_becomes :: "resource \<Rightarrow> string \<Rightarrow> json_object \<Rightarrow> ref_state \<Rightarrow> ref_state \<Rightarrow> bool" where
  "record_becomes res key proposed s t \<longleftrightarrow>
     (\<exists>r. find (named res key) (live_rows res t) = Some r \<and> reads_as res r proposed) \<and>
     others res key t = others res key s \<and>
     (\<forall>res'. res' \<noteq> res \<longrightarrow> live_rows res' t = live_rows res' s)"

lemma filter_map_kept:
  "(\<And>r. P r \<Longrightarrow> N r \<and> N (g r)) \<Longrightarrow> filter (\<lambda>r. \<not> N r) (map (\<lambda>r. if P r then g r else r) rs) = filter (\<lambda>r. \<not> N r) rs"
  by (induction rs) auto

lemma find_map_kept:
  "find N rs = Some r \<Longrightarrow> (\<And>r. P r \<longleftrightarrow> N r) \<Longrightarrow> (\<And>r. N r \<Longrightarrow> N (g r)) \<Longrightarrow>
     find N (map (\<lambda>r. if P r then g r else r) rs) = Some (g r)"
  by (induction rs) (auto split: if_splits)

lemma find_append_new: "find N rs = None \<Longrightarrow> N r \<Longrightarrow> find N (rs @ [r]) = Some r"
  by (induction rs) (auto split: if_splits)

lemma layout_fits_drop: "layout_fits cols L \<Longrightarrow> layout_fits cols (drop n L)"
  unfolding layout_fits_def
  by (auto simp: drop_map[symmetric] list_all_iff dest: in_set_dropD intro!: distinct_drop)

section \<open>Keys\<close>

text \<open>The columns that a key names, and the values a proposal of that name gives them.\<close>

definition key_columns :: "resource \<Rightarrow> (string \<times> string) list" where
  "key_columns res = (case res of RKeyword \<Rightarrow> [(''keyword'', ''Keyword'')] | RWalletType \<Rightarrow> [(''walletId'', ''Wallet_ID'')]
     | RAml \<Rightarrow> [(''walletCode'', ''Wallet_Type''), (''keyword'', ''Keyword'')])"

definition keyed :: "resource \<Rightarrow> json_object \<Rightarrow> row \<Rightarrow> bool" where
  "keyed res v r \<longleftrightarrow> (\<forall>(f, c) \<in> set (key_columns res). col r c = field v f)"

lemma named_keyed:
  assumes "names res key v"
  shows "named res key r \<Longrightarrow> keyed res v r"
    and "res = RWalletType \<longrightarrow> (\<exists>i. field v ''walletId'' = JInt i \<and> - 2147483648 \<le> i \<and> i \<le> 2147483647) \<Longrightarrow>
      keyed res v r \<Longrightarrow> named res key r"
proof -
  show "keyed res v r" if n: "named res key r"
  proof (cases res)
    case RKeyword
    with assms n show ?thesis by (simp add: names_simps named_resources keyed_def key_columns_def)
  next
    case RWalletType
    with assms n show ?thesis by (auto simp: names_simps keyed_def key_columns_def dest: wallet_type_named)
  next
    case RAml
    with assms n show ?thesis
      by (auto simp: names_simps named_resources keyed_def key_columns_def parse_printed_key aml_key_of_def simp del: append.simps)
  qed
  show "named res key r" if w: "res = RWalletType \<longrightarrow> (\<exists>i. field v ''walletId'' = JInt i \<and> - 2147483648 \<le> i \<and> i \<le> 2147483647)"
    and k: "keyed res v r"
  proof (cases res)
    case RKeyword
    with assms k show ?thesis by (simp add: names_simps named_resources keyed_def key_columns_def)
  next
    case RWalletType
    with assms k w show ?thesis
      by (auto simp: names_simps named_resources keyed_def key_columns_def string_number_int_str int_within_def)
  next
    case RAml
    with assms k show ?thesis
      by (auto simp: names_simps named_resources keyed_def key_columns_def parse_printed_key aml_key_of_def simp del: append.simps)
  qed
qed

section \<open>The statements in general form\<close>

definition add_row :: "resource \<Rightarrow> row \<Rightarrow> ref_state \<Rightarrow> ref_state" where
  "add_row res = (case res of RKeyword \<Rightarrow> add_keyword | RWalletType \<Rightarrow> add_wallet_type | RAml \<Rightarrow> add_aml)"

definition upd_rows :: "resource \<Rightarrow> (row list \<Rightarrow> row list) \<Rightarrow> ref_state \<Rightarrow> ref_state" where
  "upd_rows res = (case res of RKeyword \<Rightarrow> rf_keywords_update | RWalletType \<Rightarrow> rf_wallets_update | RAml \<Rightarrow> rf_aml_update)"

definition body_layout :: "resource \<Rightarrow> layout" where
  "body_layout res = drop (length (key_columns res)) (layout_of res)"

lemma apply_shape:
  "apply_change res v action maker checker =
     (if action = ACreate
      then insert_row (columns_of res) (add_row res) (written (layout_of res) v @ audit ''Created_By'' maker checker)
      else update_rows (columns_of res) (upd_rows res) (keyed res v)
        (written (body_layout res) v @ audit ''Modified_By'' maker checker))"
  by (cases res) (simp_all add: apply_change_def applyKeyword_layout applyWalletType_layout applyAml_layout columns_of_def
      layout_of_def add_row_def upd_rows_def body_layout_def key_columns_def keyed_def[abs_def] aml_key_of_def
      numeral_2_eq_2)

lemma body_fits: "layout_fits (columns_of res) (body_layout res)"
  unfolding body_layout_def by (rule layout_fits_drop[OF layouts_fit_all])

lemma live_upd_rows:
  "live_rows res (upd_rows res g s) = g (live_rows res s)"
  "res' \<noteq> res \<Longrightarrow> live_rows res' (upd_rows res g s) = live_rows res' s"
  "rf_requests (upd_rows res g s) = rf_requests s"
  by (cases res; cases res'; simp add: live_rows_def upd_rows_def)+

lemma live_add_row:
  "\<exists>r. live_rows res (add_row res u s) = live_rows res s @ [r] \<and> (\<forall>c. map_of (columns_of res) c \<noteq> None \<longrightarrow> col r c = col u c)"
  "res' \<noteq> res \<Longrightarrow> live_rows res' (add_row res u s) = live_rows res' s"
  "rf_requests (add_row res u s) = rf_requests s"
proof -
  have "map_of aml_columns ''Row_Id'' = None" by (simp add: aml_columns_def)
  then have "map_of aml_columns c \<noteq> None \<Longrightarrow> col ((''Row_Id'', v) # u) c = col u c" for c v
    by (cases "c = ''Row_Id''") (simp_all add: col_def)
  then show "\<exists>r. live_rows res (add_row res u s) = live_rows res s @ [r] \<and>
      (\<forall>c. map_of (columns_of res) c \<noteq> None \<longrightarrow> col r c = col u c)"
    by (cases res) (auto simp: live_rows_def add_row_def add_keyword_def add_wallet_type_def add_aml_def columns_of_def)
qed (cases res; cases res'; simp add: live_rows_def add_row_def add_keyword_def add_wallet_type_def add_aml_def)+

lemma key_not_written:
  assumes "(f, c) \<in> set (key_columns res)"
  shows "map_of (written (body_layout res) v @ audit ''Modified_By'' m ch) c = None"
proof -
  have "c \<notin> (\<lambda>(f, c, _). c) ` set (body_layout res) \<union> {''Modified_By'', ''Approved_By''}"
    using assms by (cases res) (simp_all add: key_columns_def body_layout_def layout_of_def layout_defs numeral_2_eq_2, auto)
  then show ?thesis using map_of_written_None[of c "body_layout res" v] by (simp add: map_add_def audit_def)
qed

lemma key_layout:
  "take (length (key_columns res)) (layout_of res) = (case res of RKeyword \<Rightarrow> [(''keyword'', ''Keyword'', TText, plain)]
     | RWalletType \<Rightarrow> [(''walletId'', ''Wallet_ID'', TInt32, plain)]
     | RAml \<Rightarrow> [(''walletCode'', ''Wallet_Type'', TInt16, plain), (''keyword'', ''Keyword'', TText, plain)])"
  by (cases res) (simp_all add: key_columns_def layout_of_def layout_defs)

lemma layout_parts:
  shows "(f, c, ty, rd) \<in> set (layout_of res) \<Longrightarrow>
      (f, c) \<in> set (key_columns res) \<and> rd = plain \<or> (f, c, ty, rd) \<in> set (body_layout res)"
    and "(f, c) \<in> set (key_columns res) \<Longrightarrow> \<exists>ty. (f, c, ty, plain) \<in> set (layout_of res) \<and> ty \<noteq> TChar1 \<and> ty \<noteq> TNumeric12_2"
proof -
  let ?k = "take (length (key_columns res)) (layout_of res)"
  have parts: "set (layout_of res) = set ?k \<union> set (body_layout res)"
    unfolding body_layout_def by (metis append_take_drop_id set_append)
  show "(f, c, ty, rd) \<in> set (layout_of res) \<Longrightarrow>
      (f, c) \<in> set (key_columns res) \<and> rd = plain \<or> (f, c, ty, rd) \<in> set (body_layout res)"
    unfolding parts key_layout by (cases res) (auto simp: key_columns_def)
  show "(f, c) \<in> set (key_columns res) \<Longrightarrow> \<exists>ty. (f, c, ty, plain) \<in> set (layout_of res) \<and> ty \<noteq> TChar1 \<and> ty \<noteq> TNumeric12_2"
    unfolding parts key_layout by (cases res) (auto simp: key_columns_def)
qed

lemma key_values:
  assumes "names res key v" and "(f, c) \<in> set (key_columns res)"
  shows "\<not> js_nullish (field v f)"
  using assms by (cases res) (auto simp: names_simps key_columns_def)

lemma ref_save_done: "ref_save f s = (Inr u, t) \<longleftrightarrow> ref_constraints (f s) \<and> distinct (pending_keys (f s)) \<and> t = f s"
  by (auto simp: ref_save_def act_simps)

section \<open>What an application does\<close>

lemma update_effect:
  assumes v: "names res key v" "proposal_ok res v" and u: "cells (columns_of res) (written (body_layout res) v @ audit ''Modified_By'' m ch) = Inr u"
    and r: "find (named res key) (live_rows res s) = Some r"
  shows "record_becomes res key v s (upd_rows res (map (\<lambda>r. if keyed res v r then object_spread r u else r)) s)"
proof -
  have n: "keyed res v q \<longleftrightarrow> named res key q" for q
  proof
    have "res = RWalletType \<longrightarrow> (\<exists>i. field v ''walletId'' = JInt i \<and> - 2147483648 \<le> i \<and> i \<le> 2147483647)"
      using find_named[OF r] v(1)
      by (auto simp: names_simps named_resources string_number_int_str int_within_def split: if_splits)
    then show "keyed res v q \<Longrightarrow> named res key q" using named_keyed(2)[OF v(1)] by blast
  qed (rule named_keyed(1)[OF v(1)])
  have key: "map_of u c = None" if "(f, c) \<in> set (key_columns res)" for f c
    using key_not_written[OF that] cells_written(1)[OF u] by simp
  have k: "keyed res v (object_spread q u) \<longleftrightarrow> keyed res v q" for q
    using key by (fastforce simp: keyed_def col_spread split: option.splits)
  have "reads_as res (object_spread r u) v"
    unfolding reads_as_def
  proof clarify
    fix f c ty rd
    assume L: "(f, c, ty, rd) \<in> set (layout_of res)"
    with layout_parts(1) consider "(f, c) \<in> set (key_columns res)" "rd = plain" | "(f, c, ty, rd) \<in> set (body_layout res)" by blast
    then show "rd (col (object_spread r u) c) = as_read rd (field v f)"
    proof cases
      case 1
      moreover have "col (object_spread r u) c = field v f"
        using 1 k[of r] n[of r] find_named[OF r] by (auto simp: keyed_def)
      ultimately show ?thesis using key_values[OF v(1) 1(1)] by (simp add: as_read_def plain_def)
    next
      case 2
      have "reads_back ty rd (field v f)" using v(2) L by (auto simp: proposal_ok_def)
      with written_read[OF body_fits 2 u]
      show ?thesis by (auto simp: col_spread)
    qed
  qed
  then show ?thesis
    unfolding record_becomes_def others_def live_upd_rows(1)
    using find_map_kept[OF r, of "keyed res v" "\<lambda>r. object_spread r u"] n k live_upd_rows(2)
    by (auto simp: filter_map_kept[of "named res key" "named res key" "\<lambda>r. object_spread r u"])
qed

lemma insert_effect:
  assumes v: "names res key v" "proposal_ok res v" and u: "cells (columns_of res) (written (layout_of res) v @ audit ''Created_By'' m ch) = Inr u"
    and none: "find (named res key) (live_rows res s) = None"
  shows "record_becomes res key v s (add_row res u s)"
proof -
  from live_add_row(1) obtain r where r: "live_rows res (add_row res u s) = live_rows res s @ [r]"
    "\<And>c. map_of (columns_of res) c \<noteq> None \<Longrightarrow> col r c = col u c" by blast
  have reads: "rd (col r c) = as_read rd (field v f)" if L: "(f, c, ty, rd) \<in> set (layout_of res)" for f c ty rd
  proof -
    have "reads_back ty rd (field v f)" using v(2) L by (auto simp: proposal_ok_def)
    with written_read[OF layouts_fit_all L u] obtain w where "map_of u c = Some w" "rd w = as_read rd (field v f)" by blast
    with r(2)[of c] layout_column(1)[OF L] show ?thesis by (auto simp: col_def)
  qed
  have keyed: "keyed res v r"
    unfolding keyed_def using layout_parts(2) reads key_values[OF v(1)] by (fastforce simp: as_read_def plain_def)
  have "res = RWalletType \<longrightarrow> (\<exists>i. field v ''walletId'' = JInt i \<and> - 2147483648 \<le> i \<and> i \<le> 2147483647)"
  proof
    assume res: "res = RWalletType"
    then obtain i where i: "field v ''walletId'' = JInt i" using v(1) by (auto simp: names_simps)
    have "map_of (written (layout_of res) v @ audit ''Created_By'' m ch) ''Wallet_ID'' = Some (JInt i)"
      using i res by (simp add: layout_of_def layout_defs written_def)
    from cells_written(2)[OF u this] res show "\<exists>i. field v ''walletId'' = JInt i \<and> - 2147483648 \<le> i \<and> i \<le> 2147483647"
      using i by (auto simp: cell_ok columns_of_def wallet_type_columns_def stored_cell_def int_within_ok)
  qed
  with named_keyed(2)[OF v(1)] keyed have "named res key r" by blast
  with reads r(1) none live_add_row(2)[of _ res u s] show ?thesis
    by (auto simp: record_becomes_def others_def reads_as_def find_append_new)
qed

lemma apply_effect:
  assumes v: "names res key v" "proposal_ok res v"
    and run: "apply_change res v action m ch s = (Inr (), t)"
    and live: "find (named res key) (live_rows res s) = None \<longleftrightarrow> action = ACreate"
  shows "record_becomes res key v s t \<and> rf_requests t = rf_requests s"
proof (cases "action = ACreate")
  case True
  with run obtain u where "cells (columns_of res) (written (layout_of res) v @ audit ''Created_By'' m ch) = Inr u"
    "t = add_row res u s"
    by (auto simp: apply_shape insert_row_def act_simps ref_save_done)
  with insert_effect[OF v] live True show ?thesis by (simp add: live_add_row(3))
next
  case False
  with run obtain u where "cells (columns_of res) (written (body_layout res) v @ audit ''Modified_By'' m ch) = Inr u"
    "t = upd_rows res (map (\<lambda>r. if keyed res v r then object_spread r u else r)) s"
    by (auto simp: apply_shape update_rows_def act_simps ref_save_done)
  with update_effect[OF v] live False show ?thesis by (auto simp: live_upd_rows(3))
qed

section \<open>Only an approval changes the live tables\<close>

definition live :: "ref_state \<Rightarrow> row list \<times> row list \<times> row list" where
  "live s = (rf_keywords s, rf_wallets s, rf_aml s)"

lemma post_live_queue: "live s = l \<Longrightarrow> post (\<lambda>t. live t = l) (queue res key action base proposed comment actor) s"
  unfolding queue_def
  apply (rule post_catch)
   apply (rule post_in_transaction)
    apply (rule post_after_reading[OF readonly_snapshot])
     apply assumption
    apply (intro post_intros; assumption?)
    apply (auto split: option.split intro!: post_intros post_ref_save_then simp: live_def add_request_def)
  done

lemma post_live_submit:
  "live s = l \<Longrightarrow> (\<And>obj. post (\<lambda>t. live t = l) (k obj) s) \<Longrightarrow> post (\<lambda>t. live t = l) (act_then (live_record res key missing) k) s"
  by (rule post_after_reading[OF readonly_live])

lemma live_submissions:
  assumes "live s = l"
  shows "post (\<lambda>t. live t = l) (createKeyword dto actor) s"
    and "post (\<lambda>t. live t = l) (updateKeyword keyword dto actor) s"
    and "post (\<lambda>t. live t = l) (deleteKeyword keyword comment actor) s"
    and "post (\<lambda>t. live t = l) (createWalletType dto actor) s"
    and "post (\<lambda>t. live t = l) (updateWalletType w dto actor) s"
    and "post (\<lambda>t. live t = l) (deleteWalletType w comment actor) s"
    and "post (\<lambda>t. live t = l) (createAmlConfiguration dto actor) s"
    and "post (\<lambda>t. live t = l) (updateAmlConfiguration w keyword dto actor) s"
    and "post (\<lambda>t. live t = l) (deleteAmlConfiguration w keyword comment actor) s"
  unfolding createKeyword_def updateKeyword_def deleteKeyword_def createWalletType_def updateWalletType_def
    deleteWalletType_def createAmlConfiguration_def updateAmlConfiguration_def deleteAmlConfiguration_def
    validateAmlReferences_def Let_def
  by (intro post_live_submit post_live_queue post_intros assms; simp add: assms)+

lemma live_update_returning:
  "live s = l \<Longrightarrow> (\<And>rows t. live t = l \<Longrightarrow> post (\<lambda>t. live t = l) (k rows) t) \<Longrightarrow>
     post (\<lambda>t. live t = l) (act_then (update_returning P f) k) s"
  unfolding update_returning_def act_then_assoc
  by (intro post_intros post_ref_save_then) (auto simp: live_def change_requests_def intro!: post_intros)

lemma live_refusals:
  assumes "live s = l"
  shows "post (\<lambda>t. live t = l) (reject_change pairs i reason actor) s"
    and "post (\<lambda>t. live t = l) (cancel_change pairs i actor) s"
  unfolding reject_change_def cancel_change_def Let_def
  by (intro live_update_returning assms; auto split: option.splits intro!: post_intros)+

lemma live_changed_by_approval:
  assumes run: "run_ref_op pairs now actor oper s = (r, t)" and changed: "live t \<noteq> live s"
  shows "\<exists>i comment. oper = OpApprove i comment \<and> approve_change pairs now i comment actor s = (r, t)"
proof (rule ccontr)
  assume n: "\<not> ?thesis"
  have "post (\<lambda>u. live u = live s) (run_ref_op pairs now actor oper) s"
  proof (cases "\<exists>i comment. oper = OpApprove i comment")
    case True
    with run n show ?thesis by (auto simp: run_ref_op_def guarded_def post_def split: if_splits)
  next
    case False
    then show ?thesis
      by (cases oper) (simp_all add: run_ref_op_def post_guarded post_with_body live_submissions live_refusals)
  qed
  with run changed show False by (simp add: post_def)
qed

end
