(* ===== verification/ReferenceProperties.thy ===== *)
theory ReferenceProperties
  imports ReferenceApproval
begin

text \<open>The properties of the maker-checker of the reference data.\<close>

section \<open>A successful approval\<close>

definition base_matches :: "change_row \<Rightarrow> ref_state \<Rightarrow> bool" where
  "base_matches q s \<longleftrightarrow> (case find (named (rq_resource q) (rq_key q)) (live_rows (rq_resource q) s) of
     None \<Rightarrow> rq_action q = ACreate
   | Some r \<Rightarrow> rq_action q \<noteq> ACreate \<and>
       (\<exists>current base. row_json (rq_resource q) r = Inr current \<and> rq_base q = Some base \<and> same_json current base))"

lemma snapshot_result:
  assumes "snapshot res key s = (Inr x, t)"
  shows "t = s" and "case x of None \<Rightarrow> find (named res key) (live_rows res s) = None
    | Some obj \<Rightarrow> \<exists>r. find (named res key) (live_rows res s) = Some r \<and> row_json res r = Inr obj"
  using assms readonly_snapshot[of res key] snapshot_found[of res key s] snapshot_missing[of res key s]
  by (auto simp: readonly_def split: option.splits dest: spec[of _ s])

text \<open>A run of the transaction that returned.\<close>

lemma approval_steps:
  assumes "approval i comment actor s = (Inr rows, t)"
  shows "\<exists>q current u. request_of i s = Some q \<and> rq_status q = QPending \<and> assertDifferentUser q actor = Inr () \<and>
    snapshot (rq_resource q) (rq_key q) s = (Inr current, s) \<and>
    (if rq_action q = ACreate then current = None
     else \<exists>obj base. current = Some obj \<and> rq_base q = Some base \<and> same_json obj base) \<and>
    apply_change (rq_resource q) (rq_proposed q) (rq_action q) (rq_maker q) (ra_username actor) s = (Inr (), u) \<and>
    update_returning (\<lambda>q. rq_id q = i) (decided_request QApproved actor comment) u = (Inr rows, t)"
  using assms unfolding approval_def
  apply -
  apply (erule act_foundE, simp)
  apply (erule act_ofE, simp)
  apply (erule act_ofE, simp)
  apply (subst (asm) act_then_ok, elim exE conjE)
  apply (erule act_refuseE, simp)
  apply (erule act_refuseE, simp)
  apply (erule act_refuseE, simp)
  apply (subst (asm) act_then_ok, elim exE conjE)
  subgoal for q _ _ current s' _ u
    using snapshot_result(1)[of "rq_resource q" "rq_key q" s current s']
    by (intro exI[of _ q] exI[of _ current] exI[of _ u]) (auto simp: assertPending_def split: option.splits)
  done

lemma approval_done:
  assumes "approval i comment actor s = (Inr rows, t)"
  shows "\<exists>q u. request_of i s = Some q \<and> rq_status q = QPending \<and> base_matches q s \<and>
    apply_change (rq_resource q) (rq_proposed q) (rq_action q) (rq_maker q) (ra_username actor) s = (Inr (), u) \<and>
    t = change_requests (\<lambda>q. rq_id q = i) (decided_request QApproved actor comment) u \<and> ref_constraints t"
proof -
  from approval_steps[OF assms] obtain q current u where q: "request_of i s = Some q" "rq_status q = QPending"
    and cur: "snapshot (rq_resource q) (rq_key q) s = (Inr current, s)"
    and base: "if rq_action q = ACreate then current = None
      else \<exists>obj base. current = Some obj \<and> rq_base q = Some base \<and> same_json obj base"
    and app: "apply_change (rq_resource q) (rq_proposed q) (rq_action q) (rq_maker q) (ra_username actor) s = (Inr (), u)"
    and upd: "update_returning (\<lambda>q. rq_id q = i) (decided_request QApproved actor comment) u = (Inr rows, t)" by blast
  have "base_matches q s"
    using snapshot_result(2)[OF cur] base by (auto simp: base_matches_def split: option.splits if_splits)
  moreover have "t = change_requests (\<lambda>q. rq_id q = i) (decided_request QApproved actor comment) u \<and> ref_constraints t"
    using upd by (auto simp: update_returning_def act_simps ref_save_done)
  ultimately show ?thesis using q app by blast
qed

lemma approve_cases:
  assumes run: "approve_change pairs now i comment actor s = (r, t)"
  obtains e where "fst (approval i comment actor s) = Inl e" "r = Inl e" "t = s"
  | rows u a where "approval i comment actor s = (Inr rows, u)" "r = Inr a" "live t = live u" "rf_requests t = rf_requests u"
proof (cases "approval i comment actor s")
  case (Pair res u)
  show ?thesis
  proof (cases res)
    case (Inl e)
    with run Pair have "r = Inl e" "t = s" by (simp_all add: approve_change_def transaction_def act_then_run)
    with Inl Pair show ?thesis by (intro that(1)[of e]) simp_all
  next
    case (Inr rows)
    with run Pair have "r = Inr (if pairs then Hollow else case rows of [] \<Rightarrow> Hollow | r # _ \<Rightarrow> Public r)"
      "t = snd (invalidateReferenceCaches now u)"
      by (auto simp: approve_change_def transaction_def act_then_run invalidateReferenceCaches_def)
    with Inr Pair show ?thesis by (intro that(2)[of rows u]) (auto simp: invalidateReferenceCaches_def live_def)
  qed
qed

section \<open>Changes of the live tables\<close>

lemma request_of_Some: "request_of i s = Some q \<Longrightarrow> q \<in> set (rf_requests s) \<and> rq_id q = i"
  by (auto simp: request_of_def find_Some_iff in_set_conv_nth)

lemma live_matches:
  assumes "base_matches q s"
  shows "find (named (rq_resource q) (rq_key q)) (live_rows (rq_resource q) s) = None \<longleftrightarrow> rq_action q = ACreate"
  using assms by (auto simp: base_matches_def split: option.splits)

lemma record_becomes_cong:
  assumes "record_becomes res key v s u" and "live t = live u"
  shows "record_becomes res key v s t"
proof -
  have "live_rows res' t = live_rows res' u" for res'
    using assms(2) by (cases res') (simp_all add: live_def live_rows_def)
  with assms(1) show ?thesis by (simp add: record_becomes_def others_def)
qed

lemma approval_effect:
  assumes inv: "ref_inv s" and run: "approval i comment actor s = (Inr rows, t)"
  shows "\<exists>q. q \<in> set (rf_requests s) \<and> rq_id q = i \<and> rq_status q = QPending \<and> rq_makerId q \<noteq> ra_sub actor \<and>
    base_matches q s \<and> record_becomes (rq_resource q) (rq_key q) (rq_proposed q) s t \<and>
    rf_requests t = map (\<lambda>q. if rq_id q = i then decided_request QApproved actor comment q else q) (rf_requests s)"
proof -
  from approval_done[OF run] obtain q u where q: "request_of i s = Some q" "rq_status q = QPending" "base_matches q s"
    and app: "apply_change (rq_resource q) (rq_proposed q) (rq_action q) (rq_maker q) (ra_username actor) s = (Inr (), u)"
    and t: "t = change_requests (\<lambda>q. rq_id q = i) (decided_request QApproved actor comment) u" and con: "ref_constraints t"
    by blast
  note mem = request_of_Some[OF q(1)]
  with inv have ok: "names (rq_resource q) (rq_key q) (rq_proposed q)" "proposal_ok (rq_resource q) (rq_proposed q)"
    by (auto simp: ref_inv_defs request_ok_def)
  from apply_effect[OF ok app live_matches[OF q(3)]]
  have eff: "record_becomes (rq_resource q) (rq_key q) (rq_proposed q) s u" "rf_requests u = rf_requests s" by blast+
  have reqs: "rf_requests t = map (\<lambda>q. if rq_id q = i then decided_request QApproved actor comment q else q) (rf_requests s)"
    by (simp add: t change_requests_def eff(2))
  have "different_checker (decided_request QApproved actor comment q)"
    using con mem reqs by (auto simp: ref_constraints_def list_all_iff)
  then have "rq_makerId q \<noteq> ra_sub actor" by (auto simp: different_checker_def decided_request_def)
  moreover have "record_becomes (rq_resource q) (rq_key q) (rq_proposed q) s t"
    using eff(1) by (rule record_becomes_cong) (simp add: t change_requests_def live_def)
  ultimately show ?thesis using mem q reqs by blast
qed

text \<open>
  C10 The live keywords, wallet types and AML limits change only when a checker other than the maker (whatever
  roles they have) approves a pending request whose record still is what the maker saw, or still does not exist.
  Afterwards the record of the request's key reads, field by field, as the proposal says, every other row is as it
  was, and the request is on file as approved by that checker.
\<close>
theorem reference_change_governed:
  assumes "reach (ref_step pairs) s0 s" and "ref_start s0"
    and run: "run_ref_op pairs now actor oper s = (r, t)" and changed: "live t \<noteq> live s"
  shows "\<exists>q comment. oper = OpApprove (rq_id q) comment \<and> q \<in> set (rf_requests s) \<and> rq_status q = QPending \<and>
    rq_makerId q \<noteq> ra_sub actor \<and> base_matches q s \<and>
    record_becomes (rq_resource q) (rq_key q) (rq_proposed q) s t \<and>
    request_of (rq_id q) t = Some (decided_request QApproved actor comment q)"
proof -
  have inv: "ref_inv s" using assms(1,2) by (rule ref_reach_inv)
  from live_changed_by_approval[OF run changed] obtain i comment where
    oper: "oper = OpApprove i comment" and ap: "approve_change pairs now i comment actor s = (r, t)" by blast
  have "t \<noteq> s" using changed by blast
  with ap obtain rows u where u: "approval i comment actor s = (Inr rows, u)"
    "live t = live u" "rf_requests t = rf_requests u" by (auto elim: approve_cases)
  from approval_effect[OF inv u(1)] obtain q where q: "q \<in> set (rf_requests s)" "rq_id q = i" "rq_status q = QPending"
    "rq_makerId q \<noteq> ra_sub actor" "base_matches q s" "record_becomes (rq_resource q) (rq_key q) (rq_proposed q) s u"
    "rf_requests u = map (\<lambda>q. if rq_id q = i then decided_request QApproved actor comment q else q) (rf_requests s)" by blast
  have "request_of i t = Some (decided_request QApproved actor comment q)"
  proof -
    have d: "distinct (map rq_id (rf_requests s))" using inv by (simp add: ref_inv_defs)
    have "find (\<lambda>r. rq_id r = i) (map (\<lambda>q. if rq_id q = i then decided_request QApproved actor comment q else q) rs) =
        Some (decided_request QApproved actor comment q)" if "q \<in> set rs" "distinct (map rq_id rs)" for rs
      using that q(2) by (induction rs) (auto simp: image_iff)
    from this[OF q(1) d] show ?thesis using u(3) q(7) by (simp add: request_of_def)
  qed
  with q oper record_becomes_cong[OF q(6) u(2)] show ?thesis by blast
qed

text \<open>A maker queues AML limits, a checker approves them.\<close>

definition ref_sample :: ref_state where
  "ref_sample = \<lparr>rf_keywords = [[(''Keyword'', JStr ''PMNT''), (''MINIMUM_TRAN_AMOUNT'', JInt 1), (''Is_Active'', JBool True)]],
     rf_wallets = [[(''Wallet_ID'', JInt 203), (''Wallet_Name'', JStr ''Agent''), (''Status'', JBool True)]],
     rf_aml = [], rf_nextAml = 1, rf_requests = [], rf_nextRequest = 1, rf_cacheUp = True, rf_versions = \<lambda>_. None\<rparr>"

definition ref_maker :: ref_actor where
  "ref_maker = \<lparr>ra_sub = 10, ra_username = ''maker'', ra_roles = [], ra_permissions = [''reference_data.make'']\<rparr>"

definition ref_checker :: ref_actor where
  "ref_checker = \<lparr>ra_sub = 11, ra_username = ''checker'', ra_roles = [], ra_permissions = [''reference_data.check'']\<rparr>"

definition ref_body :: json_object where
  "ref_body = [(''walletCode'', JInt 203), (''keyword'', JStr ''pmnt''), (''maxTransactionAmount'', JInt 100),
     (''dailyMaxAmount'', JInt 500), (''dailyTransactionCount'', JInt 3000000000), (''monthlyMaxAmount'', JInt 900),
     (''monthlyTransactionCount'', JInt 3000000000)]"

definition ref_dto :: json_object where
  "ref_dto = [(''walletCode'', JInt 203), (''keyword'', JStr ''PMNT''), (''maxTransactionAmount'', JInt 100),
     (''dailyMaxAmount'', JInt 500), (''dailyTransactionCount'', JInt 3000000000), (''monthlyMaxAmount'', JInt 900),
     (''monthlyTransactionCount'', JInt 3000000000)]"

definition ref_proposed :: json_object where
  "ref_proposed = [(''maxTransactionAmount'', JInt 100), (''dailyMaxAmount'', JInt 500), (''dailyTransactionCount'', JInt 3000000000),
     (''monthlyMaxAmount'', JInt 900), (''monthlyTransactionCount'', JInt 3000000000), (''walletCode'', JInt 203),
     (''keyword'', JStr ''PMNT''), (''isActive'', JBool True)]"

definition ref_request :: change_row where
  "ref_request = \<lparr>rq_id = 1, rq_resource = RAml, rq_key = int_str 203 @ '':'' @ ''PMNT'', rq_action = ACreate,
     rq_status = QPending, rq_base = None, rq_proposed = ref_proposed, rq_makerId = 10, rq_maker = ''maker'',
     rq_makerComment = None, rq_checkerId = None, rq_checker = None, rq_checkerComment = None\<rparr>"

definition ref_queued :: ref_state where
  "ref_queued = ref_sample\<lparr>rf_requests := [ref_request], rf_nextRequest := 2\<rparr>"

lemma ref_sample_cents: "is_cents 1" "is_cents 100" "is_cents 500" "is_cents 900"
  using is_cents_of_int[of 100] is_cents_of_int[of 10000] is_cents_of_int[of 50000] is_cents_of_int[of 90000] by simp_all

lemma sample_upper: "upper (trim ''pmnt'') = ''PMNT''" "keywordKey ''PMNT'' = ''PMNT''"
  by code_simp+

lemma sample_converted: "converted CreateAmlConfigurationDto ref_body = ref_dto"
  by (simp add: converted_def CreateAmlConfigurationDto_def ref_body_def ref_dto_def to_number_def upper_text_def
      sample_upper)

lemma sample_accepted: "accepts CreateAmlConfigurationDto ref_dto"
  by (simp add: accepts_def CreateAmlConfigurationDto_def ref_dto_def field_def is_int_min_def is_text_def is_money_min_def
      ref_sample_cents num_is_integer_def)

lemma row_ok_listed: "list_all (\<lambda>(c, ty, n). ref_holds ty (col r c)) cols \<Longrightarrow> ref_row_ok cols r"
  by (force simp: ref_row_ok_def list_all_iff dest: map_of_SomeD)

lemma sample_rows: "\<forall>r \<in> set (rf_keywords ref_sample). ref_row_ok keyword_columns r"
  "\<forall>r \<in> set (rf_wallets ref_sample). ref_row_ok wallet_type_columns r"
  by (auto simp: ref_sample_def keyword_columns_def wallet_type_columns_def col_def ref_holds_def stored_cell_def int_within_def
      ref_sample_cents intro!: row_ok_listed)

lemma sample_start: "ref_start ref_sample"
  using sample_rows
  by (auto simp: ref_start_def rows_ok_def live_rows_def columns_of_def split: resource.splits)
     (simp_all add: ref_constraints_def ref_sample_def pending_keys_def)

lemma save_runs: "ref_constraints (f s) \<Longrightarrow> ref_save f s = (Inr (), f s)"
  by (simp add: ref_save_done ref_constraints_def)

lemma ref_sample_queue:
  "queue RAml (int_str 203 @ '':'' @ ''PMNT'') ACreate None ref_proposed None ref_maker ref_sample = (Inr (Public ref_request), ref_queued)"
proof -
  have "snapshot RAml (int_str 203 @ '':'' @ ''PMNT'') ref_sample = (Inr None, ref_sample)"
    by (simp add: snapshot_def amlSnapshot_def act_then_run parse_printed_key sample_upper int_within_def ref_sample_def
        del: append.simps)
  moreover have "new_request RAml (int_str 203 @ '':'' @ ''PMNT'') ACreate None ref_proposed None ref_maker ref_sample = ref_request"
    by (simp add: new_request_def ref_request_def ref_sample_def ref_maker_def)
  moreover have "ref_save (add_request (\<lambda>_. ref_request)) ref_sample = (Inr (), ref_queued)"
  proof -
    have l: "length (int_str 203) = 3" by code_simp
    show ?thesis unfolding ref_save_done using sample_start l
      by (simp add: ref_start_def ref_constraints_def add_request_def ref_sample_def ref_queued_def pending_keys_def
          different_checker_def ref_request_def)
  qed
  moreover have "pending_request RAml k ref_sample = None" for k by (simp add: pending_request_def ref_sample_def)
  ultimately show ?thesis
    by (simp add: queue_def act_catch_run transaction_def act_then_run act_refuse_def del: append.simps)
qed

lemma sample_submitted: "run_ref_op pairs 1 ref_maker (OpCreateAml ref_body) ref_sample = (Inr (Public ref_request), ref_queued)"
proof -
  have "object_spread (amlPayload ref_dto) [(''walletCode'', JInt 203), (''keyword'', JStr ''PMNT''), (''isActive'', JBool True)] = ref_proposed"
    by (simp add: object_spread_def amlPayload_def pickDefined_def field_def ref_dto_def ref_proposed_def)
  moreover have "assertAmlLimits ref_proposed = Inr ()"
    by (simp add: assertAmlLimits_def ref_proposed_def field_def num_finite_def)
  moreover have "validateAmlReferences 203 ''PMNT'' ref_sample = (Inr (), ref_sample)"
    by (simp add: validateAmlReferences_def act_then_run act_refuse_def ref_sample_def int_within_def col_def)
  moreover have "int_field ref_dto ''walletCode'' = 203" "string_field ref_dto ''keyword'' = ''PMNT''"
    "field ref_dto ''isActive'' = JUndef" "text_field ref_dto ''makerComment'' = None"
    by (simp_all add: int_field_def string_field_def text_field_def field_def ref_dto_def)
  ultimately have "createAmlConfiguration ref_dto ref_maker ref_sample = (Inr (Public ref_request), ref_queued)"
    using ref_sample_queue
    by (simp add: createAmlConfiguration_def sample_upper act_then_run amlKey_def js_coalesce_def Let_def del: append.simps)
  then show ?thesis
    by (simp add: run_ref_op_def guarded_def with_body_def sample_converted sample_accepted) (simp add: ref_maker_def)
qed

definition ref_row :: row where
  "ref_row = [(''Row_Id'', JInt 1), (''Wallet_Type'', JInt 203), (''Keyword'', JStr ''PMNT''), (''Max_Txn_Amount'', JInt 100),
     (''Monthly_Max_Amount'', JInt 900), (''Monthly_Transaction_Count'', JInt 3000000000), (''Daily_Max_Amount'', JInt 500),
     (''Daily_Transaction_Count'', JInt 3000000000), (''Is_Active'', JBool True), (''Created_By'', JStr ''maker''),
     (''Approved_By'', JStr ''checker'')]"

definition ref_applied :: ref_state where
  "ref_applied = ref_queued\<lparr>rf_aml := [ref_row], rf_nextAml := 2\<rparr>"

definition ref_decided :: ref_state where
  "ref_decided = ref_applied\<lparr>rf_requests := [decided_request QApproved ref_checker None ref_request]\<rparr>"

lemma sample_applied: "apply_change RAml ref_proposed ACreate ''maker'' ''checker'' ref_queued = (Inr (), ref_applied)"
proof -
  have "cells aml_columns (written aml_layout ref_proposed @ audit ''Created_By'' ''maker'' ''checker'') = Inr (tl ref_row)"
    by (simp add: written_def layout_defs audit_def auditName_def ref_proposed_def field_def cells_def map_res_def cell_def
        aml_columns_def stored_cell_def int_within_def ref_row_def)
  moreover have "ref_save (add_aml (tl ref_row)) ref_queued = (Inr (), ref_applied)"
  proof -
    have l: "length (int_str 203) = 3" by code_simp
    have "ref_constraints ref_applied"
      using sample_start l
      by (simp add: ref_start_def ref_constraints_def ref_sample_def ref_queued_def ref_applied_def pending_keys_def
          different_checker_def ref_request_def ref_row_def aml_limits_ok_def num_col_def col_def)
    moreover have "add_aml (tl ref_row) ref_queued = ref_applied"
      by (simp add: add_aml_def ref_applied_def ref_queued_def ref_sample_def ref_row_def)
    ultimately show ?thesis by (simp add: save_runs)
  qed
  ultimately show ?thesis by (simp add: apply_shape insert_row_def columns_of_def layout_of_def add_row_def act_then_run)
qed

lemma sample_approval: "approval 1 None ref_checker ref_queued = (Inr [decided_request QApproved ref_checker None ref_request], ref_decided)"
proof -
  have "snapshot RAml (rq_key ref_request) ref_queued = (Inr None, ref_queued)"
    by (simp add: snapshot_def amlSnapshot_def act_then_run parse_printed_key sample_upper int_within_def ref_sample_def
        ref_queued_def ref_request_def del: append.simps)
  moreover have "update_returning (\<lambda>q. rq_id q = 1) (decided_request QApproved ref_checker None) ref_applied =
      (Inr [decided_request QApproved ref_checker None ref_request], ref_decided)"
  proof -
    have l: "length (int_str 203) = 3" by code_simp
    have "ref_constraints ref_decided"
      using sample_start l
      by (simp add: ref_start_def ref_constraints_def ref_sample_def ref_queued_def ref_applied_def ref_decided_def
          pending_keys_def different_checker_def ref_request_def ref_row_def aml_limits_ok_def num_col_def col_def decided_request_def
          ref_checker_def aml_key_of_def)
    moreover have "change_requests (\<lambda>q. rq_id q = 1) (decided_request QApproved ref_checker None) ref_applied = ref_decided"
      by (simp add: change_requests_def ref_decided_def ref_applied_def ref_queued_def ref_request_def)
    moreover have "filter (\<lambda>q. rq_id q = 1) (rf_requests ref_applied) = [ref_request]"
      by (simp add: ref_applied_def ref_queued_def ref_request_def)
    ultimately show ?thesis by (simp add: update_returning_def act_then_run save_runs)
  qed
  moreover have "request_of 1 ref_queued = Some ref_request" by (simp add: request_of_def ref_queued_def ref_request_def)
  moreover have "rq_resource ref_request = RAml" "rq_action ref_request = ACreate" "rq_status ref_request = QPending"
    "rq_makerId ref_request = 10" "ra_sub ref_checker = 11" "rq_maker ref_request = ''maker''"
    "ra_username ref_checker = ''checker''" "rq_proposed ref_request = ref_proposed"
    by (simp_all add: ref_request_def ref_checker_def)
  ultimately show ?thesis
    using sample_applied
    by (simp add: approval_def act_then_run act_found_def act_refuse_def assertPending_def assertDifferentUser_def)
qed

lemma ref_sample_approved:
  "run_ref_op pairs 2 ref_checker (OpApprove 1 None) ref_queued =
     (Inr (if pairs then Hollow else Public (decided_request QApproved ref_checker None ref_request)),
      snd (invalidateReferenceCaches 2 ref_decided))"
proof -
  have "guarded [''reference_data.check''] ref_checker m = m" for m :: "public_request ref"
    by (simp add: guarded_def ref_checker_def)
  then show ?thesis
    by (simp add: run_ref_op_def approve_change_def transaction_def act_then_run sample_approval invalidateReferenceCaches_def)
qed

lemma ref_sample_reached: "reach (ref_step pairs) ref_sample ref_queued"
  by (rule reach_step[OF reach_init]) (rule ref_step.request[OF sample_submitted])

theorem reference_change_governed_witness:
  "\<exists>q t. q \<in> set (rf_requests ref_queued) \<and> rq_makerId q = 10 \<and>
     record_becomes RAml (int_str 203 @ '':'' @ ''PMNT'') ref_proposed ref_queued t \<and> rf_aml t = [ref_row]"
proof -
  have l: "rf_aml (snd (invalidateReferenceCaches 2 ref_decided)) = [ref_row]" "rf_aml ref_queued = []"
    by (simp_all add: invalidateReferenceCaches_def ref_decided_def ref_applied_def ref_queued_def ref_sample_def)
  then have "live (snd (invalidateReferenceCaches 2 ref_decided)) \<noteq> live ref_queued" by (simp add: live_def)
  from reference_change_governed[OF ref_sample_reached sample_start ref_sample_approved this] l
  show ?thesis by (auto simp: ref_queued_def ref_request_def)
qed

end
