(* ===== verification/ReferenceHistory.thy ===== *)
theory ReferenceHistory
  imports ReferenceProperties
begin

text \<open>What becomes of the requests over any sequence of steps, and two things the checks of the service do not settle.\<close>

section \<open>Requests are kept as a record\<close>

text \<open>What a step may do to a request: nothing once it is decided, and its decision otherwise.\<close>

definition request_later :: "change_row \<Rightarrow> change_row \<Rightarrow> bool" where
  "request_later q q' \<longleftrightarrow> q' = q \<or>
     rq_status q = QPending \<and> rq_status q' \<noteq> QPending \<and>
     q' = q\<lparr>rq_status := rq_status q', rq_checkerId := rq_checkerId q', rq_checker := rq_checker q',
       rq_checkerComment := rq_checkerComment q'\<rparr>"

definition requests_later :: "ref_state \<Rightarrow> ref_state \<Rightarrow> bool" where
  "requests_later s t \<longleftrightarrow> (\<forall>q \<in> set (rf_requests s). \<exists>q' \<in> set (rf_requests t). request_later q q')"

interpretation requests_later: chaining requests_later
proof
  show "requests_later s s" for s by (auto simp: requests_later_def request_later_def)
  show "requests_later s u" if "requests_later s t" "requests_later t u" for s t u
    unfolding requests_later_def
  proof
    fix q
    assume "q \<in> set (rf_requests s)"
    with that obtain q' q'' where "request_later q q'" "request_later q' q''" "q'' \<in> set (rf_requests u)"
      unfolding requests_later_def by blast
    then show "\<exists>q'' \<in> set (rf_requests u). request_later q q''" by (auto simp: request_later_def)
  qed
qed

lemma keeps_save: "(\<And>s. requests_later s (f s)) \<Longrightarrow> keeps requests_later (ref_save f)"
  unfolding ref_save_def
  by (intro requests_later.keeps_then requests_later.keeps_refuse) (simp add: keeps_def)

lemma keeps_queue: "keeps requests_later (queue res key action base proposed comment actor)"
  unfolding queue_def
  by (intro requests_later.keeps_catch requests_later.keeps_transaction requests_later.keeps_then requests_later.keeps_readonly[OF readonly_snapshot] requests_later.keeps_rules;
      (simp split: option.split)?;
      auto intro!: requests_later.keeps_rules keeps_save simp: requests_later_def request_later_def add_request_def)

lemma keeps_submit: "(\<And>obj. keeps requests_later (k obj)) \<Longrightarrow> keeps requests_later (act_then (live_record res key missing) k)"
  by (rule requests_later.keeps_then[OF requests_later.keeps_readonly[OF readonly_live]])

lemma keeps_update_returning:
  assumes "\<And>q. P q \<Longrightarrow> request_later q (f q)" and "\<And>rows. keeps requests_later (k rows)"
  shows "keeps requests_later (act_then (update_returning P f) k)"
proof -
  have "requests_later s (change_requests P f s)" for s
    using assms(1) by (auto simp: requests_later_def change_requests_def request_later_def)
  then show ?thesis
    unfolding update_returning_def act_then_assoc
    by (intro requests_later.keeps_then requests_later.keeps_rules keeps_save assms(2)) auto
qed

lemma keeps_other_requests:
  assumes "\<nexists>i c. oper = OpApprove i c"
  shows "keeps requests_later (run_ref_op pairs now actor oper)"
proof -
  have body: "keeps requests_later (with_body rules b k)" if "\<And>dto. keeps requests_later (k dto)" for rules b k
    unfolding with_body_def using that by (auto intro: requests_later.keeps_rules)
  have guard: "keeps requests_later (guarded ps actor m)" if "keeps requests_later m" for ps and m :: "public_request ref"
    unfolding guarded_def using that by (auto intro: requests_later.keeps_rules)
  have refs: "readonly (validateAmlReferences w k)" for w k
    unfolding validateAmlReferences_def by (intro readonly_then readonly_rules)
  note rules = body guard keeps_submit keeps_queue requests_later.keeps_then[OF requests_later.keeps_readonly[OF refs]]
    requests_later.keeps_then[OF requests_later.keeps_basic(3)]
  have marked: "request_later q (decided_request st actor c q)" if "rq_status q = QPending" "st \<noteq> QPending" for q st c
    using that by (simp add: request_later_def decided_request_def)
  have "keeps requests_later (reject_change pairs i reason actor)" for i reason
    unfolding reject_change_def Let_def
    by (rule keeps_update_returning) (auto simp: marked split: option.splits intro!: requests_later.keeps_rules)
  moreover have "keeps requests_later (cancel_change pairs i actor)" for i
    unfolding cancel_change_def
    by (rule keeps_update_returning) (auto simp: request_later_def split: option.splits intro!: requests_later.keeps_rules)
  ultimately show ?thesis
    using assms unfolding run_ref_op_def
    by (cases oper)
       (auto simp: createKeyword_def updateKeyword_def deleteKeyword_def createWalletType_def updateWalletType_def
          deleteWalletType_def createAmlConfiguration_def updateAmlConfiguration_def deleteAmlConfiguration_def Let_def
          intro!: rules)
qed

lemma requests_later_step:
  assumes inv: "ref_inv s" and step: "ref_step pairs s t"
  shows "requests_later s t"
  using step
proof cases
  case (request now actor oper r)
  show ?thesis
  proof (cases "t = s \<or> (\<nexists>i c. oper = OpApprove i c)")
    case True
    then show ?thesis using keepsD[OF keeps_other_requests request] by blast
  next
    case False
    then obtain i c where "oper = OpApprove i c" by blast
    with request False have ap: "approve_change pairs now i c actor s = (r, t)"
      by (auto simp: run_ref_op_def guarded_def split: if_splits)
    with False obtain rows u where u: "approval i c actor s = (Inr rows, u)" "rf_requests t = rf_requests u"
      by (auto elim: approve_cases)
    from approval_effect[OF inv u(1)] obtain q where q: "q \<in> set (rf_requests s)" "rq_id q = i" "rq_status q = QPending"
      "rf_requests u = map (\<lambda>q. if rq_id q = i then decided_request QApproved actor c q else q) (rf_requests s)" by blast
    have "q' = q" if "q' \<in> set (rf_requests s)" "rq_id q' = i" for q'
      using inv that q(1,2) by (auto simp: ref_inv_defs distinct_map inj_on_def)
    with q(3) have "request_later q' (if rq_id q' = i then decided_request QApproved actor c q' else q')"
      if "q' \<in> set (rf_requests s)" for q'
      using that by (auto simp: request_later_def decided_request_def)
    then show ?thesis unfolding requests_later_def u(2) q(4) set_map by blast
  qed
next
  case (cache up)
  then show ?thesis by (simp add: requests_later_def request_later_def) blast
qed

text \<open>
  C24 The requests are a record: over any sequence of steps none disappears, a pending one keeps its resource, key,
  proposal and maker and can only be decided, and a decided one never changes again.  At most one request is
  pending for a record, and no request was decided by its maker.
\<close>
theorem requests_on_record:
  assumes "ref_start s0" and "reach (ref_step pairs) s0 s" and "reach (ref_step pairs) s t"
  shows "requests_later s t \<and> distinct (pending_keys t) \<and> (\<forall>q \<in> set (rf_requests t). rq_checkerId q \<noteq> Some (rq_makerId q))"
proof
  show "requests_later s t" using assms(3)
  proof (induction rule: reach.induct)
    case (reach_step u v)
    have "ref_inv u" using ref_reach_inv[OF reach_trans[OF reach_step(1) assms(2)] assms(1)] .
    with reach_step show ?case by (blast intro: requests_later.trans requests_later_step)
  qed simp
  have "ref_inv t" using ref_reach_inv[OF reach_trans[OF assms(3,2)] assms(1)] .
  then show "distinct (pending_keys t) \<and> (\<forall>q \<in> set (rf_requests t). rq_checkerId q \<noteq> Some (rq_makerId q))"
    by (auto simp: ref_inv_def ref_constraints_def different_checker_def list_all_iff)
qed

theorem requests_on_record_witness:
  "requests_later ref_queued (snd (invalidateReferenceCaches 2 ref_decided)) \<and> rf_requests ref_queued = [ref_request]"
proof -
  have "reach (ref_step True) ref_queued (snd (invalidateReferenceCaches 2 ref_decided))"
    by (rule reach_step[OF reach_init]) (rule ref_step.request[OF ref_sample_approved])
  from requests_on_record[OF sample_start ref_sample_reached this] show ?thesis by (simp add: ref_queued_def)
qed

lemma request_of_unique: "ref_inv s \<Longrightarrow> q \<in> set (rf_requests s) \<Longrightarrow> request_of (rq_id q) s = Some q"
  using find_distinct[of rq_id "rf_requests s" q] by (simp add: ref_inv_defs request_of_def)

lemma pending_keys_decided:
  "pending_keys (change_requests P (decided_request st a c) u) = pending_keys (change_requests P (decided_request st b c) u)"
proof -
  have "map (\<lambda>r. (rq_resource r, rq_key r)) (filter (\<lambda>r. rq_status r = QPending) (map (\<lambda>r. if P r then decided_request st a c r else r) rs)) =
      map (\<lambda>r. (rq_resource r, rq_key r)) (filter (\<lambda>r. rq_status r = QPending) (map (\<lambda>r. if P r then decided_request st b c r else r) rs))" for rs
    by (induction rs) (auto simp: decided_request_def)
  then show ?thesis by (simp add: pending_keys_def change_requests_def)
qed

lemma own_decision_refused:
  assumes q: "q \<in> set (rf_requests u)" "rq_makerId q = ra_sub actor"
    and other: "update_returning (\<lambda>p. rq_id p = rq_id q) (decided_request st actor' comment) u = (Inr rows, t)"
  shows "fst (update_returning (\<lambda>p. rq_id p = rq_id q) (decided_request st actor comment) u) = Inl (Failure ''violates a constraint'')"
proof -
  have "decided_request st actor comment q \<in> set (rf_requests (change_requests (\<lambda>p. rq_id p = rq_id q) (decided_request st actor comment) u))"
    using q(1) by (auto simp: change_requests_def)
  moreover have "\<not> different_checker (decided_request st actor comment q)" using q(2) by (simp add: different_checker_def decided_request_def)
  ultimately have "\<not> ref_constraints (change_requests (\<lambda>p. rq_id p = rq_id q) (decided_request st actor comment) u)"
    by (auto simp: ref_constraints_def list_all_iff)
  moreover have "distinct (pending_keys (change_requests (\<lambda>p. rq_id p = rq_id q) (decided_request st actor comment) u))"
    using other pending_keys_decided[of "\<lambda>p. rq_id p = rq_id q" st actor comment u actor']
    by (auto simp: update_returning_def act_simps ref_save_done)
  ultimately show ?thesis by (simp add: update_returning_def act_then_run ref_save_def act_refuse_def)
qed

lemma approval_as_self:
  assumes inv: "ref_inv s" and q: "q \<in> set (rf_requests s)" "rq_makerId q = ra_sub actor"
    and super: "''super_admin'' \<in> set (ra_roles actor)"
    and other: "approval (rq_id q) comment (actor\<lparr>ra_sub := j\<rparr>) s = (Inr rows, t)"
  shows "fst (approval (rq_id q) comment actor s) = Inl (Failure ''violates a constraint'')"
proof -
  have r: "request_of (rq_id q) s = Some q" using inv q(1) by (rule request_of_unique)
  with approval_steps[OF other] obtain current u where st: "rq_status q = QPending"
    and cur: "snapshot (rq_resource q) (rq_key q) s = (Inr current, s)"
    and base: "if rq_action q = ACreate then current = None
      else \<exists>obj base. current = Some obj \<and> rq_base q = Some base \<and> same_json obj base"
    and app: "apply_change (rq_resource q) (rq_proposed q) (rq_action q) (rq_maker q) (ra_username actor) s = (Inr (), u)"
    and upd: "update_returning (\<lambda>p. rq_id p = rq_id q) (decided_request QApproved (actor\<lparr>ra_sub := j\<rparr>) comment) u = (Inr rows, t)"
    by auto
  from inv q(1) have ok: "names (rq_resource q) (rq_key q) (rq_proposed q)" "proposal_ok (rq_resource q) (rq_proposed q)"
    by (auto simp: ref_inv_defs request_ok_def)
  have "find (named (rq_resource q) (rq_key q)) (live_rows (rq_resource q) s) = None \<longleftrightarrow> rq_action q = ACreate"
    using snapshot_result(2)[OF cur] base by (auto split: option.splits if_splits)
  from apply_effect[OF ok app this] have "rf_requests u = rf_requests s" by blast
  with q own_decision_refused[OF _ q(2) upd] have
    "fst (update_returning (\<lambda>p. rq_id p = rq_id q) (decided_request QApproved actor comment) u) = Inl (Failure ''violates a constraint'')"
    by simp
  moreover have "assertDifferentUser q actor = Inr ()" using super by (simp add: assertDifferentUser_def)
  ultimately show ?thesis using r st cur base app
    by (cases "rq_action q = ACreate")
       (auto simp: approval_def act_then_run act_found_def act_refuse_def assertPending_def)
qed

text \<open>
  C28 Nobody can approve their own request: it throws and nothing changes.  A super administrator passes the check of
  the service, which exempts them; it is the constraint of the table that stops them.  Where the same approval by
  another super administrator would succeed, they get the database's error.
\<close>
theorem self_approval_fails:
  assumes "reach (ref_step pairs) s0 s" and "ref_start s0" and q: "q \<in> set (rf_requests s)" "rq_makerId q = ra_sub actor"
    and run: "approve_change pairs now (rq_id q) comment actor s = (r, t)"
  shows "t = s \<and> (\<exists>e. r = Inl e \<and>
    (\<forall>j rows u. ''super_admin'' \<in> set (ra_roles actor) \<and> approval (rq_id q) comment (actor\<lparr>ra_sub := j\<rparr>) s = (Inr rows, u) \<longrightarrow>
       e = Failure ''violates a constraint''))"
proof -
  have inv: "ref_inv s" using assms(1,2) by (rule ref_reach_inv)
  from run show ?thesis
  proof (cases rule: approve_cases)
    case (1 e)
    with approval_as_self[OF inv q] show ?thesis by fastforce
  next
    case (2 rows u a)
    from approval_effect[OF inv 2(1)] obtain p where "p \<in> set (rf_requests s)" "rq_id p = rq_id q" "rq_makerId p \<noteq> ra_sub actor"
      by blast
    with inv q show ?thesis by (auto simp: ref_inv_defs distinct_map inj_on_def)
  qed
qed

definition ref_super :: ref_actor where
  "ref_super = \<lparr>ra_sub = 10, ra_username = ''checker'', ra_roles = [''super_admin''], ra_permissions = []\<rparr>"

text \<open>The sample's maker, as a super administrator, against the same approval by another one.\<close>

lemma sample_super: "approval 1 None (ref_super\<lparr>ra_sub := 11\<rparr>) ref_queued = approval 1 None ref_checker ref_queued"
  by (simp add: approval_def ref_super_def ref_checker_def assertDifferentUser_def ref_queued_def ref_request_def
      act_then_run act_found_def request_of_def decided_request_def[abs_def])

theorem self_approval_fails_witness:
  "\<exists>r. approve_change True 2 1 None ref_super ref_queued = (r, ref_queued) \<and> r = Inl (Failure ''violates a constraint'')"
proof -
  obtain r t where run: "approve_change True 2 (rq_id ref_request) None ref_super ref_queued = (r, t)" by fastforce
  have q: "ref_request \<in> set (rf_requests ref_queued)" "rq_makerId ref_request = ra_sub ref_super"
    by (simp_all add: ref_queued_def ref_request_def ref_super_def)
  have "rq_id ref_request = 1" by (simp add: ref_request_def)
  moreover have "''super_admin'' \<in> set (ra_roles ref_super)" by (simp add: ref_super_def)
  ultimately show ?thesis
    using self_approval_fails[OF ref_sample_reached sample_start q run] sample_super sample_approval run by force
qed

section \<open>A count that does not fit\<close>

lemma oversized_unreadable:
  assumes "col r ''Daily_Transaction_Count'' = JInt n" and "2147483647 < n"
  shows "aml_json r = Inl (Failure ''integer out of range'')"
  using assms by (simp add: aml_json_def to_int_def int_within_def)

lemma aml_named_unique:
  assumes "ref_inv s" and "r \<in> set (rf_aml s)" and "named RAml key r"
  shows "find (named RAml key) (rf_aml s) = Some r"
proof -
  have d: "distinct (map aml_key_of (rf_aml s))" using assms(1) by (simp add: ref_inv_def ref_constraints_def)
  have n: "named RAml key = (\<lambda>r'. aml_key_of r' = aml_key_of r)"
    using assms(3) by (auto simp: named_resources fun_eq_iff split: sum.splits)
  show ?thesis unfolding n by (rule find_distinct[OF d assms(2)])
qed

lemma oversized_stays:
  assumes inv: "ref_inv s" and r: "r \<in> set (rf_aml s)" and big: "\<exists>e. aml_json r = Inl e" and step: "ref_step pairs s t"
  shows "r \<in> set (rf_aml t)"
  using step
proof cases
  case (request now actor oper x)
  show ?thesis
  proof (cases "live t = live s")
    case True
    with r show ?thesis by (simp add: live_def)
  next
    case False
    from live_changed_by_approval[OF request False] obtain i c where ap: "approve_change pairs now i c actor s = (x, t)" by blast
    with False obtain rows u where u: "approval i c actor s = (Inr rows, u)" "live t = live u" by (auto elim: approve_cases)
    from approval_effect[OF inv u(1)] obtain q where q: "base_matches q s"
      "record_becomes (rq_resource q) (rq_key q) (rq_proposed q) s u" by blast
    show ?thesis
    proof (cases "rq_resource q = RAml")
      case True
      have "\<not> named RAml (rq_key q) r"
        using aml_named_unique[OF inv r] q(1) True big by (auto simp: base_matches_def live_rows_def row_json_def)
      with r have "r \<in> set (others RAml (rq_key q) s)" by (simp add: others_def live_rows_def)
      with q(2) True have "r \<in> set (others RAml (rq_key q) u)" by (simp add: record_becomes_def)
      with u(2) show ?thesis by (simp add: others_def live_rows_def live_def)
    next
      case False
      then have "live_rows RAml u = live_rows RAml s" using q(2) unfolding record_becomes_def by metis
      with r u(2) show ?thesis by (simp add: live_rows_def live_def)
    qed
  qed
next
  case (cache up)
  with r show ?thesis by simp
qed

text \<open>
  C40 A transaction count above the range of a 32-bit integer passes every check and is stored_cell, but the snapshot
  casts it to an integer: from then on the AML record cannot be read, and no sequence of requests ever changes it.
\<close>
theorem oversized_count_frozen:
  assumes "ref_start s0" and "reach (ref_step pairs) s0 s" and "reach (ref_step pairs) s t"
    and r: "r \<in> set (rf_aml s)" "col r ''Daily_Transaction_Count'' = JInt n" "2147483647 < n"
  shows "r \<in> set (rf_aml t) \<and> (\<forall>key. named RAml key r \<longrightarrow> (\<exists>e. fst (snapshot RAml key t) = Inl e))"
proof
  have big: "aml_json r = Inl (Failure ''integer out of range'')" using r(2,3) by (rule oversized_unreadable)
  show mem: "r \<in> set (rf_aml t)" using assms(3)
  proof (induction rule: reach.induct)
    case (reach_step u v)
    have "ref_inv u" using ref_reach_inv[OF reach_trans[OF reach_step(1) assms(2)] assms(1)] .
    with reach_step big show ?case by (blast intro: oversized_stays)
  qed (rule r(1))
  have inv: "ref_inv t" using ref_reach_inv[OF reach_trans[OF assms(3,2)] assms(1)] .
  show "\<forall>key. named RAml key r \<longrightarrow> (\<exists>e. fst (snapshot RAml key t) = Inl e)"
  proof clarify
    fix key
    assume "named RAml key r"
    then have f: "find (named RAml key) (live_rows RAml t) = Some r" using aml_named_unique[OF inv mem] by (simp add: live_rows_def)
    show "\<exists>e. fst (snapshot RAml key t) = Inl e"
    proof (cases "fst (snapshot RAml key t)")
      case (Inr x)
      then show ?thesis
        using snapshot_found[of RAml key t] snapshot_missing[of RAml key t] f big by (cases x) (auto simp: row_json_def)
    qed simp
  qed
qed

theorem oversized_count_frozen_witness:
  "\<exists>e. fst (snapshot RAml (int_str 203 @ '':'' @ ''PMNT'') (snd (invalidateReferenceCaches 2 ref_decided))) = Inl e"
proof -
  let ?t = "snd (invalidateReferenceCaches 2 ref_decided)"
  have "reach (ref_step True) ref_sample ?t"
    by (rule reach_step[OF ref_sample_reached]) (rule ref_step.request[OF ref_sample_approved])
  moreover have "ref_row \<in> set (rf_aml ?t)" by (simp add: invalidateReferenceCaches_def ref_decided_def ref_applied_def)
  moreover have "col ref_row ''Daily_Transaction_Count'' = JInt 3000000000" by (simp add: ref_row_def col_def)
  moreover have "named RAml (int_str 203 @ '':'' @ ''PMNT'') ref_row"
    by (simp add: named_resources parse_printed_key sample_upper aml_key_of_def ref_row_def col_def del: append.simps)
  ultimately show ?thesis using oversized_count_frozen[OF sample_start _ reach_init] by fastforce
qed

end
