(* ===== verification/WalletRouting.thy ===== *)
theory WalletRouting
  imports JsValues
begin

text \<open>
  Bank routing details of a wallet (\<open>normalizeRouting\<close> and \<open>validIbanChecksum\<close> of
  \<open>src/modules/wallets/wallet.service.ts\<close>): the form of an IBAN and of a SWIFT/BIC, and the checksum of the IBAN,
  which the code computes digit by digit.
\<close>

section \<open>The code\<close>

text \<open>\<open>String(s || '').replace(/\s+/g, '').toUpperCase()\<close>\<close>

definition compact :: "string option \<Rightarrow> string" where
  "compact s = (case s of None \<Rightarrow> [] | Some t \<Rightarrow> upper (filter (\<lambda>c. \<not> is_space c) t))"

definition is_alnum :: "char \<Rightarrow> bool" where
  "is_alnum c \<longleftrightarrow> is_upper c \<or> is_digit c"

definition iban_format :: "string \<Rightarrow> bool" where
  "iban_format s \<longleftrightarrow> 15 \<le> length s \<and> length s \<le> 34 \<and> list_all is_upper (take 2 s) \<and>
     list_all is_digit (take 2 (drop 2 s)) \<and> list_all is_alnum (drop 4 s)"

definition swift_format :: "string \<Rightarrow> bool" where
  "swift_format s \<longleftrightarrow> (length s = 8 \<or> length s = 11) \<and> list_all is_upper (take 6 s) \<and> list_all is_alnum (drop 6 s)"

text \<open>A letter counts as two digits, \<open>A\<close> as 10 and \<open>Z\<close> as 35.  The checksum is taken of well-formed strings only.\<close>

definition checksum_digits :: "char \<Rightarrow> string" where
  "checksum_digits c = (if is_digit c then [c] else nat_str ((of_char c :: nat) - 55))"

definition checksum_step :: "nat \<Rightarrow> char \<Rightarrow> nat" where
  "checksum_step remainder d = (remainder * 10 + digit_val d) mod 97"

definition validIbanChecksum :: "string \<Rightarrow> bool" where
  "validIbanChecksum iban =
     (foldl (\<lambda>remainder c. foldl checksum_step remainder (checksum_digits c)) 0 (drop 4 iban @ take 4 iban) = 1)"

definition normalizeRouting :: "string option \<Rightarrow> string option \<Rightarrow> (string option \<times> string option) res" where
  "normalizeRouting iban swiftBic =
     (let i = compact iban; b = compact swiftBic
      in if i \<noteq> [] \<and> (\<not> iban_format i \<or> \<not> validIbanChecksum i) then Inl (BadRequest ''IBAN is invalid'')
         else if b \<noteq> [] \<and> \<not> swift_format b
         then Inl (BadRequest ''SWIFT/BIC must contain 8 or 11 valid characters'')
         else Inr (if i = [] then None else Some i, if b = [] then None else Some b))"

section \<open>The checksum as one number\<close>

definition rotated :: "string \<Rightarrow> string" where
  "rotated iban = drop 4 iban @ take 4 iban"

text \<open>The number that the standard takes modulo 97.\<close>

definition checksum_number :: "string \<Rightarrow> nat" where
  "checksum_number s = digits_nat (concat (map checksum_digits s))"

lemma checksum_steps: "foldl checksum_step r ds mod 97 = foldl (\<lambda>a c. 10 * a + digit_val c) r ds mod 97"
proof (induction ds arbitrary: r rule: rev_induct)
  case (snoc d ds)
  have "(foldl checksum_step r ds * 10 + digit_val d) mod 97 =
      (10 * (foldl checksum_step r ds mod 97) + digit_val d) mod 97" by (metis mod_add_left_eq mod_mult_right_eq mult.commute)
  also have "\<dots> = (10 * foldl (\<lambda>a c. 10 * a + digit_val c) r ds + digit_val d) mod 97"
    unfolding snoc.IH by (metis mod_add_left_eq mod_mult_right_eq)
  finally show ?case by (simp add: checksum_step_def[abs_def])
qed simp

lemma checksum_bound: "r < 97 \<Longrightarrow> foldl checksum_step r ds < 97"
  by (induction ds rule: rev_induct) (simp_all add: checksum_step_def)

lemma nested_foldl: "foldl (\<lambda>r c. foldl f r (g c)) r cs = foldl f r (concat (map g cs))"
  by (induction cs arbitrary: r) auto

lemma checksum_number_iff: "validIbanChecksum iban \<longleftrightarrow> checksum_number (rotated iban) mod 97 = 1"
  using checksum_steps[of 0 "concat (map checksum_digits (rotated iban))"]
    checksum_bound[of 0 "concat (map checksum_digits (rotated iban))"]
  by (simp add: validIbanChecksum_def nested_foldl checksum_number_def digits_nat_def rotated_def)

section \<open>Changing one character\<close>

lemma digits_nat_append: "digits_nat (s @ t) = digits_nat s * 10 ^ length t + digits_nat t"
proof (induction t rule: rev_induct)
  case (snoc c t)
  then show ?case by (simp add: digits_nat_def append_assoc[symmetric] algebra_simps del: append_assoc)
qed (simp add: digits_nat_def)

definition char_number :: "char \<Rightarrow> nat" where
  "char_number c = digits_nat (checksum_digits c)"

text \<open>The digits that follow the character at a position.\<close>

definition following :: "string \<Rightarrow> nat \<Rightarrow> nat" where
  "following s i = length (concat (map checksum_digits (drop (Suc i) s)))"

lemma checksum_number_append:
  "checksum_number (s @ c # t) =
     (checksum_number s * 10 ^ length (checksum_digits c) + char_number c) * 10 ^ following (s @ c # t) (length s)
     + checksum_number t"
  by (simp add: checksum_number_def digits_nat_append char_number_def following_def algebra_simps power_add)

lemma checksum_number_update:
  assumes "i < length s" and "length (checksum_digits c) = length (checksum_digits (s ! i))"
  shows "int (checksum_number (s[i := c])) =
    int (checksum_number s) + (int (char_number c) - int (char_number (s ! i))) * 10 ^ following s i"
proof -
  define a b where "a = take i s" and "b = drop (Suc i) s"
  have s: "s = a @ s ! i # b" "s[i := c] = a @ c # b" and l: "length a = i"
    using assms(1) by (simp_all add: a_def b_def id_take_nth_drop upd_conv_take_nth_drop)
  have f: "following (a @ c # b) (length a) = following s i" "following (a @ s ! i # b) (length a) = following s i"
    using l by (simp_all add: following_def b_def)
  show ?thesis
    unfolding s(2) checksum_number_append f by (subst (2) s(1)) (simp add: checksum_number_append f assms(2) algebra_simps)
qed

lemma is_alnum_cases:
  assumes "is_alnum c"
  obtains n where "n < 10" "c = char_of (48 + n :: nat)" | n where "n < 26" "c = char_of (65 + n :: nat)"
proof -
  let ?m = "of_char c :: nat"
  have c: "char_of ?m = c" by simp
  from assms consider "48 \<le> ?m" "?m \<le> 57" | "65 \<le> ?m" "?m \<le> 90"
    by (auto simp: is_alnum_def is_upper_def is_digit_def Let_def)
  then show ?thesis
  proof cases
    case 1
    with c show ?thesis by (intro that(1)[of "?m - 48"]) simp_all
  next
    case 2
    with c show ?thesis by (intro that(2)[of "?m - 65"]) simp_all
  qed
qed

lemma digit_number:
  assumes "n < 10"
  shows "is_digit (char_of (48 + n))" "checksum_digits (char_of (48 + n)) = [char_of (48 + n)]" "char_number (char_of (48 + n)) = n"
  using assms by (simp_all add: is_digit_def Let_def checksum_digits_def char_number_def digits_nat_def digit_val_def)

lemma letter_number:
  assumes "n < 26"
  shows "\<not> is_digit (char_of (65 + n))" "length (checksum_digits (char_of (65 + n))) = 2" "char_number (char_of (65 + n)) = 10 + n"
proof -
  show d: "\<not> is_digit (char_of (65 + n))" using assms by (simp add: is_digit_def Let_def)
  have two: "nat_str (10 + n) = [digit_char ((10 + n) div 10), digit_char ((10 + n) mod 10)]"
  proof -
    have "n div 10 < 9" using assms by linarith
    then show ?thesis using assms by (simp add: nat_str.simps[of "10 + n"] nat_str.simps[of "Suc (n div 10)"])
  qed
  have v: "digit_val (digit_char k) = k" if "k < 10" for k
    using that by (simp add: digit_val_def digit_char_def)
  have c: "checksum_digits (char_of (65 + n)) = [digit_char ((10 + n) div 10), digit_char ((10 + n) mod 10)]"
    using assms d by (simp add: checksum_digits_def two)
  show "length (checksum_digits (char_of (65 + n))) = 2" by (simp add: c)
  have "(10 + n) div 10 < 10" using assms by simp
  then have "char_number (char_of (65 + n)) = 10 * ((10 + n) div 10) + (10 + n) mod 10"
    by (simp add: char_number_def c digits_nat_def v)
  then show "char_number (char_of (65 + n)) = 10 + n" by simp
qed

text \<open>Two characters of one kind, both digits or both letters.\<close>

definition same_kind :: "char \<Rightarrow> char \<Rightarrow> bool" where
  "same_kind a b \<longleftrightarrow> is_alnum a \<and> is_alnum b \<and> is_digit a = is_digit b"

lemma same_kind_numbers:
  assumes "same_kind a b"
  shows "length (checksum_digits a) = length (checksum_digits b)"
    and "\<bar>int (char_number a) - int (char_number b)\<bar> \<le> 25"
    and "char_number a = char_number b \<Longrightarrow> a = b"
  using assms
  by (auto simp: same_kind_def digit_number letter_number elim!: is_alnum_cases)

section \<open>What the checksum detects\<close>

lemma coprime_small: "0 < d \<Longrightarrow> d \<le> 25 \<Longrightarrow> coprime (97 :: int) d"
proof -
  assume "0 < d" "d \<le> 25"
  then have "d \<in> set [1..25]" by simp
  moreover have "\<forall>d \<in> set [1..25]. coprime (97 :: int) d" by code_simp
  ultimately show ?thesis by blast
qed

lemma coprime_ten: "coprime (97 :: int) (10 ^ k)"
  using coprime_small[of 10] by (simp add: coprime_power_right_iff)

lemma small_multiple: "\<bar>d\<bar> \<le> 25 \<Longrightarrow> (97 :: int) dvd d * x \<Longrightarrow> d = 0 \<or> 97 dvd x"
proof -
  assume d: "\<bar>d\<bar> \<le> 25" and x: "97 dvd d * x"
  show ?thesis
  proof (cases "d = 0")
    case False
    with d have "coprime 97 \<bar>d\<bar>" by (intro coprime_small) auto
    with x show ?thesis by (simp add: coprime_dvd_mult_right_iff)
  qed simp
qed

text \<open>The order of 10 modulo 97 is 96, more than an IBAN has digits.\<close>

lemma ten_order: "0 < k \<Longrightarrow> k < 96 \<Longrightarrow> \<not> (97 :: int) dvd 10 ^ k - 1"
proof -
  assume "0 < k" "k < 96"
  then have "k \<in> set [1..<96]" by simp
  moreover have "\<forall>k \<in> set [1..<96]. (10 :: int) ^ k mod 97 \<noteq> 1" by code_simp
  ultimately show ?thesis by (auto simp: mod_eq_dvd_iff[symmetric])
qed

lemma same_remainder:
  assumes "checksum_number s mod 97 = 1" and "checksum_number t mod 97 = 1"
  shows "(97 :: int) dvd int (checksum_number t) - int (checksum_number s)"
proof -
  have "int (checksum_number t) mod 97 = int (checksum_number s) mod 97"
    using assms by (metis of_nat_mod of_nat_numeral)
  then show ?thesis by (simp add: mod_eq_dvd_iff)
qed

lemma substitution_changes:
  assumes i: "i < length s" and k: "same_kind c (s ! i)" "c \<noteq> s ! i" and s: "checksum_number s mod 97 = 1"
  shows "checksum_number (s[i := c]) mod 97 \<noteq> 1"
proof
  assume t: "checksum_number (s[i := c]) mod 97 = 1"
  let ?d = "int (char_number c) - int (char_number (s ! i))"
  have "(97 :: int) dvd ?d * 10 ^ following s i"
    using same_remainder[OF s t] checksum_number_update[OF i same_kind_numbers(1)[OF k(1)]] by simp
  with small_multiple[OF same_kind_numbers(2)[OF k(1)]] have "?d = 0 \<or> (97 :: int) dvd 10 ^ following s i" by blast
  then show False
  proof
    assume "?d = 0"
    with same_kind_numbers(3)[OF k(1)] k(2) show False by simp
  next
    assume "(97 :: int) dvd 10 ^ following s i"
    with coprime_ten[of "following s i"] have "is_unit (97 :: int)" by (metis coprime_absorb_left)
    then show False by simp
  qed
qed

lemma checksum_digits_length: "is_alnum c \<Longrightarrow> 1 \<le> length (checksum_digits c) \<and> length (checksum_digits c) \<le> 2"
  by (auto simp: digit_number letter_number elim!: is_alnum_cases)

lemma following_bound: "list_all is_alnum s \<Longrightarrow> length (concat (map checksum_digits s)) \<le> 2 * length s"
  by (induction s) (use checksum_digits_length in fastforce)+

lemma following_later:
  assumes "i < j" and "j < length s" and "list_all is_alnum s"
  shows "following s j < following s i" and "following s i \<le> 2 * (length s - Suc i)"
proof -
  have all: "list_all is_alnum (drop n s)" for n using assms(3) by (auto simp: list_all_iff dest: in_set_dropD)
  obtain c m where m: "drop (Suc i) s = m @ c # drop (Suc j) s" "is_alnum c"
  proof
    have "drop (Suc i) s = take (j - Suc i) (drop (Suc i) s) @ drop (j - Suc i) (drop (Suc i) s)"
      by (simp only: append_take_drop_id)
    also have "drop (j - Suc i) (drop (Suc i) s) = drop j s" using assms(1) by simp
    also have "drop j s = s ! j # drop (Suc j) s" using assms(2) by (simp add: Cons_nth_drop_Suc)
    finally show "drop (Suc i) s = take (j - Suc i) (drop (Suc i) s) @ s ! j # drop (Suc j) s" .
    show "is_alnum (s ! j)" using assms(2,3) by (simp add: list_all_length)
  qed
  moreover have "checksum_digits c \<noteq> []" using checksum_digits_length[OF m(2)] by auto
  ultimately show "following s j < following s i" by (simp add: following_def)
  show "following s i \<le> 2 * (length s - Suc i)" using following_bound[OF all[of "Suc i"]] by (simp add: following_def)
qed

lemma swap_changes:
  assumes ij: "i < j" "j < length s" and s: "checksum_number s mod 97 = 1" and alnum: "list_all is_alnum s"
    and len: "length s \<le> 34" and k: "same_kind (s ! j) (s ! i)" "s ! j \<noteq> s ! i"
  shows "checksum_number (s[i := s ! j, j := s ! i]) mod 97 \<noteq> 1"
proof
  let ?u = "s[i := s ! j]"
  assume t: "checksum_number (s[i := s ! j, j := s ! i]) mod 97 = 1"
  define d where "d = int (char_number (s ! j)) - int (char_number (s ! i))"
  define p q where "p = following s j" and "q = following s i"
  have k': "same_kind (s ! i) (?u ! j)" using k(1) ij by (simp add: same_kind_def)
  have f: "following ?u j = p" using ij by (simp add: following_def p_def)
  have "int (checksum_number ?u) = int (checksum_number s) + d * 10 ^ q"
    using checksum_number_update[of i s "s ! j"] same_kind_numbers(1)[OF k(1)] ij by (simp add: d_def q_def)
  moreover have "int (checksum_number (?u[j := s ! i])) = int (checksum_number ?u) - d * 10 ^ p"
    using checksum_number_update[of j ?u "s ! i"] same_kind_numbers(1)[OF k'] ij f by (simp add: d_def algebra_simps)
  moreover have "p < q" and q: "q \<le> 68"
    using following_later[OF ij alnum] len by (simp_all add: p_def q_def)
  then have "(10 :: int) ^ q = 10 ^ p * 10 ^ (q - p)" by (simp add: power_add[symmetric])
  ultimately have "int (checksum_number (?u[j := s ! i])) - int (checksum_number s) = d * (10 ^ p * (10 ^ (q - p) - 1))"
    by (simp add: algebra_simps)
  with same_remainder[OF s t] have "97 dvd d * (10 ^ p * (10 ^ (q - p) - 1))" by simp
  with small_multiple[of d] same_kind_numbers(2)[OF k(1)] have "d = 0 \<or> (97 :: int) dvd 10 ^ p * (10 ^ (q - p) - 1)"
    by (simp add: d_def)
  moreover have "d \<noteq> 0" using same_kind_numbers(3)[OF k(1)] k(2) by (auto simp: d_def)
  ultimately have "(97 :: int) dvd 10 ^ (q - p) - 1" by (simp add: coprime_dvd_mult_right_iff[OF coprime_ten])
  moreover have "0 < q - p" "q - p < 96" using \<open>p < q\<close> q by linarith+
  ultimately show False using ten_order by blast
qed

section \<open>Mistyped account numbers\<close>

definition rotated_index :: "string \<Rightarrow> nat \<Rightarrow> nat" where
  "rotated_index s i = (if i < 4 then length s - 4 + i else i - 4)"

lemma rotated_update:
  assumes "4 \<le> length s" and "i < length s"
  shows "rotated (s[i := c]) = (rotated s)[rotated_index s i := c]"
  using assms by (auto simp: rotated_def rotated_index_def drop_update_swap take_update_swap list_update_append list_update_beyond)

lemma rotated_nth:
  assumes "4 \<le> length s" and "i < length s"
  shows "rotated s ! rotated_index s i = s ! i" "rotated_index s i < length (rotated s)"
  using assms by (auto simp: rotated_def rotated_index_def nth_append)

lemma rotated_index_inj: "i < length s \<Longrightarrow> j < length s \<Longrightarrow> i \<noteq> j \<Longrightarrow> rotated_index s i \<noteq> rotated_index s j"
  by (auto simp: rotated_index_def split: if_splits)

lemma upper_not_digit: "is_upper c \<Longrightarrow> \<not> is_digit c"
  by (auto simp: is_upper_def is_digit_def Let_def)

lemma iban_format_alnum: "iban_format s \<Longrightarrow> list_all is_alnum s"
proof -
  assume f: "iban_format s"
  have "take 2 s @ take 2 (drop 2 s) @ drop 4 s = s" by (metis append_take_drop_id append_assoc drop_drop numeral_Bit0)
  moreover have "list_all is_alnum (take 2 s @ take 2 (drop 2 s) @ drop 4 s)"
    using f by (auto simp: iban_format_def is_alnum_def list_all_iff)
  ultimately show ?thesis by simp
qed

lemma alnum_plain: "is_alnum c \<Longrightarrow> \<not> is_space c \<and> up_char c = c"
  by (auto simp: is_alnum_def is_upper_def is_digit_def is_space_def up_char_def is_lower_def Let_def)

lemma compact_alnum: "list_all is_alnum s \<Longrightarrow> compact (Some s) = s"
  by (induction s) (auto simp: compact_def upper_def alnum_plain)

lemma normalized_iban:
  assumes "normalizeRouting a b = Inr (Some s, w)"
  shows "iban_format s" "checksum_number (rotated s) mod 97 = 1" "4 \<le> length s" "length s \<le> 34" "list_all is_alnum s"
    "length (rotated s) = length s" "list_all is_alnum (rotated s)"
proof -
  show f: "iban_format s" "checksum_number (rotated s) mod 97 = 1"
    using assms by (auto simp: normalizeRouting_def Let_def checksum_number_iff split: if_splits)
  then show l: "4 \<le> length s" "length s \<le> 34" "list_all is_alnum s" by (auto simp: iban_format_def iban_format_alnum)
  then show "length (rotated s) = length s" by (simp add: rotated_def)
  from l(3) show "list_all is_alnum (rotated s)"
    by (auto simp: rotated_def list_all_iff dest: in_set_dropD in_set_takeD)
qed

lemma refused_iban:
  assumes "list_all is_alnum s" and "s \<noteq> []" and "checksum_number (rotated s) mod 97 \<noteq> 1"
  shows "normalizeRouting (Some s) b = Inl (BadRequest ''IBAN is invalid'')"
  using assms by (simp add: normalizeRouting_def Let_def compact_alnum checksum_number_iff)

lemma mistyped_iban:
  assumes n: "normalizeRouting a b = Inr (Some s, w)" and i: "i < length s" and c: "same_kind c (s ! i)" "c \<noteq> s ! i"
  shows "normalizeRouting (Some (s[i := c])) b' = Inl (BadRequest ''IBAN is invalid'')"
proof (rule refused_iban)
  note s = normalized_iban[OF n]
  show "list_all is_alnum (s[i := c])"
    using s(5) i c(1) by (auto simp: list_all_length nth_list_update same_kind_def)
  show "s[i := c] \<noteq> []" using i by auto
  show "checksum_number (rotated (s[i := c])) mod 97 \<noteq> 1"
    unfolding rotated_update[OF s(3) i] by (rule substitution_changes) (use rotated_nth[OF s(3) i] c s(2) in simp_all)
qed

lemma rotated_swap:
  assumes "4 \<le> length s" and "i < length s" and "j < length s"
  shows "rotated (s[i := a, j := b]) = (rotated s)[rotated_index s i := a, rotated_index s j := b]"
  using rotated_update[of s i a] rotated_update[of "s[i := a]" j b] assms by (simp add: rotated_index_def)

lemma swapped_iban:
  assumes n: "normalizeRouting a b = Inr (Some s, w)" and ij: "i < length s" "j < length s"
    and k: "same_kind (s ! j) (s ! i)" "s ! j \<noteq> s ! i"
  shows "normalizeRouting (Some (s[i := s ! j, j := s ! i])) b' = Inl (BadRequest ''IBAN is invalid'')"
proof (rule refused_iban)
  note s = normalized_iban[OF n]
  show "list_all is_alnum (s[i := s ! j, j := s ! i])"
    using s(5) ij by (auto simp: list_all_length nth_list_update)
  show "s[i := s ! j, j := s ! i] \<noteq> []" using ij by auto
  let ?i = "rotated_index s i" and ?j = "rotated_index s j"
  have at: "rotated s ! ?i = s ! i" "rotated s ! ?j = s ! j" "?i < length (rotated s)" "?j < length (rotated s)"
    using rotated_nth[OF s(3)] ij by blast+
  have len: "length (rotated s) \<le> 34" using s(4,6) by simp
  have k': "same_kind (s ! i) (s ! j)" "s ! i \<noteq> s ! j" using k by (auto simp: same_kind_def)
  have "?i \<noteq> ?j" using rotated_index_inj[OF ij] k(2) by auto
  then consider "?i < ?j" | "?j < ?i" by linarith
  then show "checksum_number (rotated (s[i := s ! j, j := s ! i])) mod 97 \<noteq> 1"
  proof cases
    case 1
    from swap_changes[OF 1 at(4) s(2,7) len] k show ?thesis by (simp add: rotated_swap[OF s(3) ij] at)
  next
    case 2
    from swap_changes[OF 2 at(3) s(2,7) len] k' show ?thesis
      using 2 by (simp add: rotated_swap[OF s(3) ij] at list_update_swap)
  qed
qed

text \<open>What was normalized once stays as it is.\<close>

lemma swift_format_alnum: "swift_format s \<Longrightarrow> list_all is_alnum s"
  by (subst append_take_drop_id[of 6 s, symmetric]) (auto simp: swift_format_def is_alnum_def list_all_iff simp del: append_take_drop_id)

lemma normalize_idempotent:
  "normalizeRouting a b = Inr (i, w) \<Longrightarrow> normalizeRouting i w = Inr (i, w)"
  by (auto simp: normalizeRouting_def Let_def compact_alnum iban_format_alnum swift_format_alnum split: if_splits)
    (simp_all add: compact_def)

end
