(* ===== verification/Wallets.thy ===== *)
theory Wallets
  imports WalletRouting Actions
begin

text \<open>
  Customer wallets (\<open>src/modules/wallets/wallet.service.ts\<close>): the tables it works on with their constraints
  (\<open>database/local/001_legacy_baseline.sql\<close>, \<open>database/migrations/013_wallet_operations.sql\<close>,
  \<open>030_customer_wallet_routing.sql\<close>, \<open>034_kyc_account_opening_enforcement.sql\<close>), its queries, and the rows it writes.

  Columns that only record who changed a row last are left out.  Times are numbers.  Identifiers of cases and
  account openings come from a counter, as the numbers of wallets do.
\<close>

section \<open>Tables\<close>

datatype wallet_owner_type = OwnerCustomer | OwnerAgent | OwnerMerchant | OwnerSystem

datatype wallet_purpose =
    CustomerMain | CustomerAdditional | AgentFloat | AgentCommission | MerchantSettlement | MerchantCommission
  | Safeguarding | SystemClearing | TemporaryReserve | SystemPurpose

record cust_wallet =
  cw_msisdn :: int
  cw_code :: int
  cw_amount :: rat
  cw_status :: int
  cw_parent :: "int option"
  cw_default :: bool
  cw_currency :: string
  cw_owner :: int
  cw_ownerType :: wallet_owner_type
  cw_purpose :: wallet_purpose
  cw_iban :: "string option"
  cw_swift :: "string option"
  cw_created :: nat

record customer_profile =
  cp_msisdn :: int
  cp_firstName :: string
  cp_lastName :: "string option"
  cp_email :: "string option"
  cp_address :: "string option"
  cp_kycStatus :: int
  cp_status :: int

record customer_wallet_type =
  ct_id :: int
  ct_name :: "string option"
  ct_class :: "int option"
  ct_kycNeeded :: "bool option"
  ct_status :: "bool option"

record operating_currency =
  oc_currency :: string
  oc_active :: bool
  oc_from :: int
  oc_to :: "int option"

datatype kyc_status =
  KycDraft | KycSubmitted | KycProcessing | KycManualReview | KycApproved | KycRejected | KycResubmission | KycFailed

record kyc_case =
  kc_id :: nat
  kc_customer :: int
  kc_document :: string
  kc_country :: string
  kc_status :: kyc_status
  kc_createdBy :: string
  kc_created :: nat
  kc_updated :: nat
  kc_reviewed :: "nat option"

datatype opening_status = PendingKyc | ReadyToOpen | OpeningRejected | Opened | OpeningCancelled

record account_opening =
  ao_id :: nat
  ao_customer :: int
  ao_code :: int
  ao_currency :: string
  ao_iban :: "string option"
  ao_swift :: "string option"
  ao_kycRequired :: bool
  ao_case :: "nat option"
  ao_status :: opening_status
  ao_wallet :: "int option"
  ao_requestedBy :: string
  ao_completedBy :: "string option"

datatype wallet_operation = WalletCreate | WalletSetDefault | WalletStatusChange | WalletRoutingUpdate
datatype wallet_actor = ByCustomer | ByAdmin

text \<open>The previous and the new state of an audit entry are the wallets whose columns it shows.\<close>

record wallet_audit =
  wa_wallet :: int
  wa_owner :: int
  wa_operation :: wallet_operation
  wa_previous :: "cust_wallet option"
  wa_new :: cust_wallet
  wa_reason :: "string option"
  wa_actorType :: wallet_actor
  wa_actor :: string

datatype customer_operation = CustomerCreate | AccountOpeningRequest | AccountOpeningComplete

record customer_audit =
  ca_customer :: int
  ca_operation :: customer_operation
  ca_reason :: string
  ca_actor :: string

record wallet_db =
  wd_profiles :: "customer_profile list"
  wd_wallets :: "cust_wallet list"
  wd_types :: "customer_wallet_type list"
  wd_currencies :: "operating_currency list"
  wd_cases :: "kyc_case list"
  wd_caseAudit :: "(nat \<times> string) list"
  wd_openings :: "account_opening list"
  wd_audit :: "wallet_audit list"
  wd_customerAudit :: "customer_audit list"
  wd_nextAccount :: int
  wd_nextId :: nat
  wd_now :: nat
  wd_today :: int

type_synonym 'a wallet_act = "(wallet_db, 'a) act"

section \<open>Constraints\<close>

abbreviation closed_status :: int where
  "closed_status \<equiv> 6"

definition open_customer :: "cust_wallet \<Rightarrow> bool" where
  "open_customer w \<longleftrightarrow> cw_ownerType w = OwnerCustomer \<and> cw_status w \<noteq> closed_status"

text \<open>\<open>IDX_WALLET_OWNER_DEFAULT\<close> and \<open>UQ_CUSTOMER_MAIN_WALLET\<close>, unique on the owner.\<close>

definition default_owners :: "wallet_db \<Rightarrow> int list" where
  "default_owners s = map cw_owner (filter (\<lambda>w. open_customer w \<and> cw_default w) (wd_wallets s))"

definition main_owners :: "wallet_db \<Rightarrow> int list" where
  "main_owners s = map cw_owner (filter (\<lambda>w. open_customer w \<and> cw_purpose w = CustomerMain) (wd_wallets s))"

definition ibans :: "wallet_db \<Rightarrow> string list" where
  "ibans s = map (the \<circ> cw_iban) (filter (\<lambda>w. cw_iban w \<noteq> None) (wd_wallets s))"

definition routing_formats :: "cust_wallet \<Rightarrow> bool" where
  "routing_formats w \<longleftrightarrow> (\<forall>i \<in> set_option (cw_iban w). iban_format i) \<and> (\<forall>b \<in> set_option (cw_swift w). swift_format b)"

text \<open>A violation of \<open>UQ_WALLET_IBAN\<close> is the one that the service translates.\<close>

definition iban_taken :: exc where
  "iban_taken = Failure ''duplicate key value violates unique constraint UQ_WALLET_IBAN''"

definition wallet_save :: "(wallet_db \<Rightarrow> wallet_db) \<Rightarrow> unit wallet_act" where
  "wallet_save f =
     act_then (act_refuse (\<lambda>s. \<not> list_all routing_formats (wd_wallets (f s))) (Failure ''violates check constraint'')) (\<lambda>_.
     act_then (act_refuse (\<lambda>s. \<not> distinct (map cw_msisdn (wd_wallets (f s)))) (Failure ''duplicate key value'')) (\<lambda>_.
     act_then (act_refuse (\<lambda>s. \<not> distinct (ibans (f s))) iban_taken) (\<lambda>_.
     act_then (act_refuse (\<lambda>s. \<not> distinct (default_owners (f s)) \<or> \<not> distinct (main_owners (f s)))
       (Failure ''duplicate key value'')) (\<lambda>_.
     act_write f))))"

text \<open>The columns of at most a hundred characters.\<close>

definition save_named :: "string \<Rightarrow> (wallet_db \<Rightarrow> wallet_db) \<Rightarrow> unit wallet_act" where
  "save_named name f = act_then (act_refuse (\<lambda>_. 100 < length name) (Failure ''value too long'')) (\<lambda>_. act_write f)"

section \<open>Queries\<close>

definition profile_of :: "int \<Rightarrow> wallet_db \<Rightarrow> customer_profile option" where
  "profile_of owner s = find (\<lambda>p. cp_msisdn p = owner) (wd_profiles s)"

definition wallet_by_id :: "int \<Rightarrow> wallet_db \<Rightarrow> cust_wallet option" where
  "wallet_by_id i s = find (\<lambda>w. cw_msisdn w = i) (wd_wallets s)"

definition owned_wallet :: "int \<Rightarrow> int \<Rightarrow> wallet_db \<Rightarrow> cust_wallet option" where
  "owned_wallet owner i s =
     find (\<lambda>w. cw_ownerType w = OwnerCustomer \<and> cw_owner w = owner \<and> cw_msisdn w = i) (wd_wallets s)"

definition open_wallets :: "int \<Rightarrow> wallet_db \<Rightarrow> cust_wallet list" where
  "open_wallets owner s = filter (\<lambda>w. open_customer w \<and> cw_owner w = owner) (wd_wallets s)"

definition operating :: "string \<Rightarrow> wallet_db \<Rightarrow> bool" where
  "operating currency s \<longleftrightarrow> list_ex (\<lambda>c. oc_currency c = currency \<and> oc_active c \<and> oc_from c \<le> wd_today s \<and>
     (case oc_to c of None \<Rightarrow> True | Some d \<Rightarrow> wd_today s \<le> d)) (wd_currencies s)"

definition customer_type :: "int \<Rightarrow> wallet_db \<Rightarrow> customer_wallet_type option" where
  "customer_type code s = find (\<lambda>t. ct_id t = code \<and> ct_class t = Some 100 \<and> ct_status t = Some True) (wd_types s)"

definition requiresKyc :: "bool option \<Rightarrow> bool" where
  "requiresKyc v \<longleftrightarrow> v = Some True"

definition reviewed_later :: "kyc_case \<Rightarrow> kyc_case \<Rightarrow> bool" where
  "reviewed_later a b \<longleftrightarrow> (case (kc_reviewed a, kc_reviewed b) of
     (Some m, Some n) \<Rightarrow> n < m \<or> m = n \<and> kc_updated b < kc_updated a
   | (Some m, None) \<Rightarrow> True
   | (None, Some n) \<Rightarrow> False
   | (None, None) \<Rightarrow> kc_updated b < kc_updated a)"

text \<open>\<open>ORDER BY ... LIMIT 1\<close>: the first of the rows that no other precedes.\<close>

definition first_by :: "('a \<Rightarrow> 'a \<Rightarrow> bool) \<Rightarrow> 'a list \<Rightarrow> 'a option" where
  "first_by prec xs = (case xs of [] \<Rightarrow> None | x # ys \<Rightarrow> Some (foldl (\<lambda>a b. if prec b a then b else a) x ys))"

definition approvedKycCase :: "int \<Rightarrow> wallet_db \<Rightarrow> kyc_case option" where
  "approvedKycCase owner s =
     first_by reviewed_later (filter (\<lambda>c. kc_customer c = owner \<and> kc_status c = KycApproved) (wd_cases s))"

definition running_case :: "int \<Rightarrow> wallet_db \<Rightarrow> kyc_case option" where
  "running_case owner s = first_by (\<lambda>a b. kc_created b < kc_created a)
     (filter (\<lambda>c. kc_customer c = owner \<and> kc_status c \<notin> {KycRejected, KycFailed}) (wd_cases s))"

definition opening_of :: "int \<Rightarrow> wallet_db \<Rightarrow> account_opening option" where
  "opening_of owner s = find (\<lambda>a. ao_customer a = owner) (wd_openings s)"

section \<open>Rows the service writes\<close>

definition audit_wallet :: "cust_wallet \<Rightarrow> int \<Rightarrow> wallet_operation \<Rightarrow> cust_wallet option \<Rightarrow> string option \<Rightarrow> wallet_actor \<Rightarrow> string \<Rightarrow>
    unit wallet_act" where
  "audit_wallet w owner oper previous reason actorType actor = act_write (\<lambda>s. s\<lparr>wd_audit := wd_audit s @
     [\<lparr>wa_wallet = cw_msisdn w, wa_owner = owner, wa_operation = oper, wa_previous = previous, wa_new = w,
       wa_reason = reason, wa_actorType = actorType, wa_actor = actor\<rparr>]\<rparr>)"

definition customerAudit :: "int \<Rightarrow> customer_operation \<Rightarrow> string \<Rightarrow> string \<Rightarrow> unit wallet_act" where
  "customerAudit owner oper reason actor = save_named actor (\<lambda>s. s\<lparr>wd_customerAudit := wd_customerAudit s @
     [\<lparr>ca_customer = owner, ca_operation = oper, ca_reason = reason, ca_actor = actor\<rparr>]\<rparr>)"

text \<open>The trigger \<open>sw_fn_enforce_wallet_kyc\<close> on every new wallet.\<close>

definition kyc_trigger :: "cust_wallet \<Rightarrow> wallet_db \<Rightarrow> bool" where
  "kyc_trigger w s \<longleftrightarrow> cw_ownerType w \<noteq> OwnerCustomer \<or>
     (case find (\<lambda>t. ct_id t = cw_code w) (wd_types s) of None \<Rightarrow> True
      | Some t \<Rightarrow> ct_kycNeeded t \<noteq> Some True) \<or>
     list_ex (\<lambda>c. kc_customer c = cw_owner w \<and> kc_status c = KycApproved) (wd_cases s)"

definition insert_wallet :: "cust_wallet \<Rightarrow> unit wallet_act" where
  "insert_wallet w =
     act_then (act_refuse (\<lambda>s. \<not> kyc_trigger w s) (Failure ''KYC approval is required for customer and wallet type'')) (\<lambda>_.
     wallet_save (\<lambda>s. s\<lparr>wd_wallets := wd_wallets s @ [w]\<rparr>))"

definition update_wallets :: "(cust_wallet \<Rightarrow> bool) \<Rightarrow> (cust_wallet \<Rightarrow> cust_wallet) \<Rightarrow> unit wallet_act" where
  "update_wallets P f = wallet_save (\<lambda>s. s\<lparr>wd_wallets := map (\<lambda>w. if P w then f w else w) (wd_wallets s)\<rparr>)"

definition default_wallet_row :: "int \<Rightarrow> int \<Rightarrow> string \<Rightarrow> string option \<Rightarrow> string option \<Rightarrow> wallet_db \<Rightarrow> cust_wallet" where
  "default_wallet_row owner walletCode currency iban swift s =
     \<lparr>cw_msisdn = owner, cw_code = walletCode, cw_amount = 0, cw_status = 0, cw_parent = None, cw_default = True,
      cw_currency = currency, cw_owner = owner, cw_ownerType = OwnerCustomer, cw_purpose = CustomerMain,
      cw_iban = iban, cw_swift = swift, cw_created = wd_now s\<rparr>"

definition insertDefaultWallet :: "int \<Rightarrow> int \<Rightarrow> string \<Rightarrow> string option \<Rightarrow> string option \<Rightarrow> cust_wallet wallet_act" where
  "insertDefaultWallet owner walletCode currency iban swift =
     act_then (act_read (default_wallet_row owner walletCode currency iban swift)) (\<lambda>w.
     act_then (insert_wallet w) (\<lambda>_. act_ok w))"

definition set_opening :: "int \<Rightarrow> (account_opening \<Rightarrow> account_opening) \<Rightarrow> unit wallet_act" where
  "set_opening owner f = act_write (\<lambda>s. s\<lparr>wd_openings := map (\<lambda>a. if ao_customer a = owner then f a else a) (wd_openings s)\<rparr>)"

definition new_opening :: "int \<Rightarrow> string \<Rightarrow> account_opening wallet_act" where
  "new_opening owner actor =
     act_read (\<lambda>s. \<lparr>ao_id = wd_nextId s, ao_customer = owner, ao_code = 0, ao_currency = [], ao_iban = None, ao_swift = None,
       ao_kycRequired = False, ao_case = None, ao_status = PendingKyc, ao_wallet = None, ao_requestedBy = actor,
       ao_completedBy = None\<rparr>)"

text \<open>
  \<open>INSERT ... ON CONFLICT(customer_msisdn) DO UPDATE SET ... WHERE ... RETURNING\<close>: nothing is written and no row
  comes back where the condition does not hold of the row there is.
\<close>

definition upsert_opening :: "int \<Rightarrow> string \<Rightarrow> (account_opening \<Rightarrow> bool) \<Rightarrow> (account_opening \<Rightarrow> account_opening) \<Rightarrow>
    account_opening option wallet_act" where
  "upsert_opening owner actor cond f =
     act_then (save_named actor (\<lambda>s. s)) (\<lambda>_.
     act_then (act_read (opening_of owner)) (\<lambda>old.
     case old of
       Some a \<Rightarrow> if cond a then act_then (set_opening owner f) (\<lambda>_. act_ok (Some (f a))) else act_ok None
     | None \<Rightarrow>
         act_then (new_opening owner actor) (\<lambda>a.
         act_then (act_write (\<lambda>s. s\<lparr>wd_openings := wd_openings s @ [f a], wd_nextId := wd_nextId s + 1\<rparr>)) (\<lambda>_.
         act_ok (Some (f a))))))"

end
