(* ===== verification/WalletService.thy ===== *)
theory WalletService
  imports Wallets
begin

text \<open>
  The handlers of \<open>src/modules/wallets/wallet.service.ts\<close>: opening a customer's account, further wallets, the default
  wallet, status changes and bank routing, with the checks of the request bodies (\<open>dto/wallet.dto.ts\<close>) and the
  requests of \<open>wallet.controller.ts\<close> as one operation type.

  An answer carries the rows it shows.  The number that a rolled-back transaction drew from the sequence of wallet
  numbers is drawn again here, where the database leaves a gap.
\<close>

section \<open>Request bodies\<close>

record create_additional_dto =
  ad_walletCode :: int
  ad_currency :: string
  ad_iban :: "string option"
  ad_swiftBic :: "string option"

record create_customer_dto =
  cu_msisdn :: string
  cu_firstName :: string
  cu_lastName :: "string option"
  cu_email :: "string option"
  cu_address :: "string option"
  cu_defaultCurrency :: string
  cu_walletCode :: "int option"
  cu_iban :: "string option"
  cu_swiftBic :: "string option"
  cu_documentType :: "string option"
  cu_issuingCountry :: "string option"

record update_routing_dto =
  ur_iban :: "string option"
  ur_swiftBic :: "string option"

datatype wallet_state = StateActive | StateSuspended | StateFrozen | StateClosed

record change_status_dto =
  cs_status :: wallet_state
  cs_reason :: string

definition at_most :: "nat \<Rightarrow> string option \<Rightarrow> bool" where
  "at_most n s \<longleftrightarrow> (case s of None \<Rightarrow> True | Some t \<Rightarrow> length t \<le> n)"

definition code3 :: "string \<Rightarrow> bool" where
  "code3 s \<longleftrightarrow> length s = 3 \<and> list_all is_upper s"

definition additional_ok :: "create_additional_dto \<Rightarrow> bool" where
  "additional_ok d \<longleftrightarrow> 1 \<le> ad_walletCode d \<and> code3 (ad_currency d) \<and> at_most 42 (ad_iban d) \<and> at_most 16 (ad_swiftBic d)"

definition customer_ok :: "create_customer_dto \<Rightarrow> bool" where
  "customer_ok d \<longleftrightarrow>
     7 \<le> length (cu_msisdn d) \<and> length (cu_msisdn d) \<le> 15 \<and> list_all is_digit (cu_msisdn d) \<and>
     cu_firstName d \<noteq> [] \<and> length (cu_firstName d) \<le> 100 \<and> at_most 100 (cu_lastName d) \<and>
     at_most 254 (cu_email d) \<and> at_most 500 (cu_address d) \<and> code3 (cu_defaultCurrency d) \<and>
     (case cu_walletCode d of None \<Rightarrow> True | Some n \<Rightarrow> 1 \<le> n) \<and> at_most 42 (cu_iban d) \<and> at_most 16 (cu_swiftBic d) \<and>
     (case cu_documentType d of None \<Rightarrow> True | Some t \<Rightarrow> t \<in> {''UGANDA_NATIONAL_ID'', ''PASSPORT''}) \<and>
     (case cu_issuingCountry d of None \<Rightarrow> True | Some c \<Rightarrow> code3 c)"

definition routing_ok :: "update_routing_dto \<Rightarrow> bool" where
  "routing_ok d \<longleftrightarrow> at_most 42 (ur_iban d) \<and> at_most 16 (ur_swiftBic d)"

definition status_ok :: "change_status_dto \<Rightarrow> bool" where
  "status_ok d \<longleftrightarrow> cs_reason d \<noteq> [] \<and> length (cs_reason d) \<le> 500"

text \<open>The conversions that precede the checks.\<close>

definition additional_body :: "create_additional_dto \<Rightarrow> create_additional_dto" where
  "additional_body d = d\<lparr>ad_currency := upper (trim (ad_currency d))\<rparr>"

definition customer_body :: "create_customer_dto \<Rightarrow> create_customer_dto" where
  "customer_body d = d\<lparr>cu_defaultCurrency := upper (trim (cu_defaultCurrency d)),
     cu_issuingCountry := map_option (\<lambda>c. upper (trim c)) (cu_issuingCountry d)\<rparr>"

section \<open>Small checks\<close>

definition assertOwner :: "string \<Rightarrow> unit res" where
  "assertOwner owner = ensure (owner \<noteq> [] \<and> list_all is_digit owner) (Forbidden ''Customer identity is invalid'')"

definition email_format :: "string \<Rightarrow> bool" where
  "email_format s \<longleftrightarrow> list_all (\<lambda>c. \<not> is_space c) s \<and>
     (let name = takeWhile (\<lambda>c. c \<noteq> CHR ''@'') s; domain = tl (dropWhile (\<lambda>c. c \<noteq> CHR ''@'') s)
      in name \<noteq> [] \<and> CHR ''@'' \<in> set s \<and> CHR ''@'' \<notin> set domain \<and> CHR ''.'' \<in> set (butlast (tl domain)))"

definition translated :: "'a wallet_act \<Rightarrow> 'a wallet_act" where
  "translated m = act_catch m (\<lambda>e. act_throw
     (if e = iban_taken then Conflict ''This IBAN is already assigned to another wallet'' else e))"

text \<open>\<open>String(s || '').trim()\<close>, and \<open>s || null\<close>.\<close>

definition text_or_null :: "string option \<Rightarrow> string option" where
  "text_or_null s = (case s of None \<Rightarrow> None | Some t \<Rightarrow> if trim t = [] then None else Some (trim t))"

section \<open>Opening an account\<close>

datatype opening_answer =
    AccountPending customer_profile account_opening kyc_case
  | AccountOpened customer_profile cust_wallet account_opening
  | AccountWasOpen customer_profile account_opening

definition active_profile :: "int \<Rightarrow> customer_profile option wallet_act" where
  "active_profile owner =
     act_then (act_read (profile_of owner)) (\<lambda>existing.
     case existing of
       None \<Rightarrow> act_ok None
     | Some p \<Rightarrow>
         act_then (act_refuse (\<lambda>s. open_wallets owner s \<noteq> []) (Conflict ''Customer profile already has an open wallet'')) (\<lambda>_.
         act_then (act_refuse (\<lambda>_. cp_status p \<noteq> 0) (Forbidden ''Customer profile is not active'')) (\<lambda>_.
         act_ok (Some p))))"

definition new_profile :: "int \<Rightarrow> create_customer_dto \<Rightarrow> customer_profile" where
  "new_profile owner dto =
     \<lparr>cp_msisdn = owner, cp_firstName = trim (cu_firstName dto), cp_lastName = text_or_null (cu_lastName dto),
      cp_email = text_or_null (map_option lower (cu_email dto)), cp_address = text_or_null (cu_address dto),
      cp_kycStatus = 0, cp_status = 0\<rparr>"

definition ensure_profile :: "customer_profile option \<Rightarrow> int \<Rightarrow> create_customer_dto \<Rightarrow> string \<Rightarrow> customer_profile wallet_act" where
  "ensure_profile existing owner dto actor = (case existing of
     Some p \<Rightarrow> act_ok p
   | None \<Rightarrow>
       act_then (act_write (\<lambda>s. s\<lparr>wd_profiles := wd_profiles s @ [new_profile owner dto]\<rparr>)) (\<lambda>_.
       act_then (customerAudit owner CustomerCreate ''Customer profile created for account opening'' actor) (\<lambda>_.
       act_ok (new_profile owner dto))))"

definition operating_currency_check :: "string \<Rightarrow> unit wallet_act" where
  "operating_currency_check currency = act_refuse (\<lambda>s. \<not> operating currency s)
     (BadRequest (currency @ '' is not an active operating currency''))"

definition free_number_check :: "int \<Rightarrow> unit wallet_act" where
  "free_number_check owner = act_refuse (\<lambda>s. wallet_by_id owner s \<noteq> None)
     (Conflict ''Customer wallet identifier is already in use'')"

definition kyc_case_for :: "int \<Rightarrow> create_customer_dto \<Rightarrow> string \<Rightarrow> kyc_case wallet_act" where
  "kyc_case_for owner dto actor =
     act_then (act_read (running_case owner)) (\<lambda>old.
     case old of
       Some c \<Rightarrow> act_ok c
     | None \<Rightarrow>
         act_then (act_read (\<lambda>s. \<lparr>kc_id = wd_nextId s, kc_customer = owner,
           kc_document = (case cu_documentType dto of None \<Rightarrow> ''UGANDA_NATIONAL_ID'' | Some t \<Rightarrow> t),
           kc_country = (case cu_issuingCountry dto of None \<Rightarrow> ''UGA'' | Some c \<Rightarrow> c), kc_status = KycDraft,
           kc_createdBy = actor, kc_created = wd_now s, kc_updated = wd_now s, kc_reviewed = None\<rparr>)) (\<lambda>c.
         act_then (save_named actor (\<lambda>s. s\<lparr>wd_cases := wd_cases s @ [c], wd_nextId := wd_nextId s + 1\<rparr>)) (\<lambda>_.
         act_then (act_write (\<lambda>s. s\<lparr>wd_caseAudit := wd_caseAudit s @ [(kc_id c, actor)]\<rparr>)) (\<lambda>_. act_ok c))))"

definition request_opening :: "customer_profile \<Rightarrow> int \<Rightarrow> customer_wallet_type \<Rightarrow> create_customer_dto \<Rightarrow>
    string \<Rightarrow> string option \<times> string option \<Rightarrow> string \<Rightarrow> opening_answer wallet_act" where
  "request_opening profile owner ty dto currency = (\<lambda>(iban, swift) actor.
     act_then (kyc_case_for owner dto actor) (\<lambda>c.
     act_then (upsert_opening owner actor (\<lambda>a. ao_status a \<noteq> Opened)
       (\<lambda>a. a\<lparr>ao_code := ct_id ty, ao_currency := currency, ao_iban := iban, ao_swift := swift, ao_kycRequired := True,
          ao_case := Some (kc_id c), ao_status := PendingKyc, ao_requestedBy := actor\<rparr>)) (\<lambda>opening.
     case opening of
       None \<Rightarrow> act_throw (Conflict ''Customer account opening is already complete'')
     | Some a \<Rightarrow>
         act_then (customerAudit owner AccountOpeningRequest (''KYC approval required before opening '' @
           (case ct_name ty of None \<Rightarrow> int_str (ct_id ty) | Some n \<Rightarrow> if n = [] then int_str (ct_id ty) else n)) actor) (\<lambda>_.
         act_ok (AccountPending profile a c)))))"

definition kyc_verified :: "int \<Rightarrow> kyc_case option \<Rightarrow> customer_profile \<Rightarrow> customer_profile wallet_act" where
  "kyc_verified owner approved profile = (case approved of
     None \<Rightarrow> act_ok profile
   | Some _ \<Rightarrow>
       act_then (act_write (\<lambda>s. s\<lparr>wd_profiles :=
         map (\<lambda>p. if cp_msisdn p = owner then p\<lparr>cp_kycStatus := 1\<rparr> else p) (wd_profiles s)\<rparr>)) (\<lambda>_.
       act_ok (profile\<lparr>cp_kycStatus := 1\<rparr>)))"

definition open_account :: "customer_profile \<Rightarrow> int \<Rightarrow> int \<Rightarrow> string \<Rightarrow> string option \<times> string option \<Rightarrow> bool \<Rightarrow>
    kyc_case option \<Rightarrow> string \<Rightarrow> opening_answer wallet_act" where
  "open_account profile owner walletCode currency = (\<lambda>(iban, swift) kycRequired approved actor.
     act_then (insertDefaultWallet owner walletCode currency iban swift) (\<lambda>wallet.
     act_then (upsert_opening owner actor (\<lambda>_. True)
       (\<lambda>a. a\<lparr>ao_code := walletCode, ao_currency := currency, ao_iban := iban, ao_swift := swift,
          ao_kycRequired := kycRequired, ao_case := map_option kc_id approved, ao_status := Opened,
          ao_wallet := Some (cw_msisdn wallet), ao_completedBy := Some actor\<rparr>)) (\<lambda>opening.
     act_then (kyc_verified owner approved profile) (\<lambda>profile'.
     act_then (audit_wallet wallet owner WalletCreate None (Some ''Default-currency wallet created with customer'') ByAdmin actor) (\<lambda>_.
     act_then (customerAudit owner AccountOpeningComplete ''Default customer wallet opened'' actor) (\<lambda>_.
     act_ok (AccountOpened profile' wallet (the opening))))))))"

definition createCustomer :: "create_customer_dto \<Rightarrow> string \<Rightarrow> opening_answer wallet_act" where
  "createCustomer dto actor =
     (let currency = upper (trim (cu_defaultCurrency dto));
          walletCode = (case cu_walletCode dto of None \<Rightarrow> 103 | Some n \<Rightarrow> n);
          email = text_or_null (map_option lower (cu_email dto))
      in act_then (act_of (assertOwner (cu_msisdn dto))) (\<lambda>_.
         act_then (act_refuse (\<lambda>_. \<exists>e \<in> set_option email. \<not> email_format e) (BadRequest ''Email address is invalid'')) (\<lambda>_.
         act_then (act_of (normalizeRouting (cu_iban dto) (cu_swiftBic dto))) (\<lambda>routing.
         translated (transaction (
           act_then (act_of (bigint (cu_msisdn dto))) (\<lambda>owner.
           act_then (active_profile owner) (\<lambda>existing.
           act_then (operating_currency_check currency) (\<lambda>_.
           act_then (act_found (customer_type walletCode) (BadRequest ''Selected customer wallet type is not active'')) (\<lambda>ty.
           act_then (free_number_check owner) (\<lambda>_.
           act_then (ensure_profile existing owner dto actor) (\<lambda>profile.
           act_then (act_read (\<lambda>s. if requiresKyc (ct_kycNeeded ty) then approvedKycCase owner s else None)) (\<lambda>approved.
           if requiresKyc (ct_kycNeeded ty) \<and> approved = None
           then request_opening profile owner ty dto currency routing actor
           else open_account profile owner walletCode currency routing (requiresKyc (ct_kycNeeded ty)) approved actor)))))))))))))"

definition finish_opening :: "customer_profile \<Rightarrow> int \<Rightarrow> account_opening \<Rightarrow> kyc_case option \<Rightarrow> string \<Rightarrow>
    opening_answer wallet_act" where
  "finish_opening profile owner opn approved actor =
     act_then (insertDefaultWallet owner (ao_code opn) (ao_currency opn) (ao_iban opn) (ao_swift opn)) (\<lambda>wallet.
     act_then (save_named actor (\<lambda>s. s\<lparr>wd_openings := map (\<lambda>a. if ao_id a = ao_id opn
       then a\<lparr>ao_status := Opened, ao_case := map_option kc_id approved, ao_wallet := Some (cw_msisdn wallet),
         ao_completedBy := Some actor\<rparr> else a) (wd_openings s)\<rparr>)) (\<lambda>_.
     act_then (kyc_verified owner approved profile) (\<lambda>profile'.
     act_then (audit_wallet wallet owner WalletCreate None (Some ''Default-currency wallet created after KYC approval'') ByAdmin actor) (\<lambda>_.
     act_then (customerAudit owner AccountOpeningComplete ''Default customer wallet opened after eligibility checks'' actor) (\<lambda>_.
     act_ok (AccountOpened profile' wallet (opn\<lparr>ao_status := Opened, ao_wallet := Some (cw_msisdn wallet)\<rparr>)))))))"

definition completeCustomerAccountOpening :: "string \<Rightarrow> string \<Rightarrow> opening_answer wallet_act" where
  "completeCustomerAccountOpening ownerText actor =
     act_then (act_of (assertOwner ownerText)) (\<lambda>_.
     translated (transaction (
       act_then (act_of (bigint ownerText)) (\<lambda>owner.
       act_then (act_found (profile_of owner) (NotFound ''Customer profile was not found'')) (\<lambda>profile.
       act_then (act_refuse (\<lambda>_. cp_status profile \<noteq> 0) (Forbidden ''Customer profile is not active'')) (\<lambda>_.
       act_then (act_found (opening_of owner) (NotFound ''Pending customer account opening was not found'')) (\<lambda>opn.
       if ao_status opn = Opened then act_ok (AccountWasOpen profile opn)
       else
       act_then (act_found (customer_type (ao_code opn)) (BadRequest ''Selected customer wallet type is not active'')) (\<lambda>ty.
       let kycRequired = requiresKyc (ct_kycNeeded ty) \<or> ao_kycRequired opn in
       act_then (act_read (\<lambda>s. if kycRequired then approvedKycCase owner s else None)) (\<lambda>approved.
       act_then (act_refuse (\<lambda>_. kycRequired \<and> approved = None)
         (Conflict ''Approved KYC is required before this customer wallet can be opened'')) (\<lambda>_.
       act_then (operating_currency_check (ao_currency opn)) (\<lambda>_.
       act_then (free_number_check owner) (\<lambda>_.
       finish_opening profile owner opn approved actor))))))))))))"

section \<open>Further wallets\<close>

definition oldest_in :: "int \<Rightarrow> string \<Rightarrow> wallet_db \<Rightarrow> cust_wallet option" where
  "oldest_in owner currency s = first_by (\<lambda>a b. cw_created a < cw_created b)
     (filter (\<lambda>w. upper (cw_currency w) = currency \<and> list_ex (\<lambda>t. ct_id t = cw_code w \<and> ct_class t = Some 100) (wd_types s))
        (open_wallets owner s))"

definition main_wallet :: "int \<Rightarrow> wallet_db \<Rightarrow> cust_wallet option" where
  "main_wallet owner s = find (\<lambda>w. cw_purpose w = CustomerMain) (open_wallets owner s)"

definition additional_wallet_row :: "int \<Rightarrow> int \<Rightarrow> string \<Rightarrow> string option \<times> string option \<Rightarrow> int \<Rightarrow> wallet_db \<Rightarrow> cust_wallet" where
  "additional_wallet_row owner walletCode currency = (\<lambda>(iban, swift) parent s.
     \<lparr>cw_msisdn = wd_nextAccount s, cw_code = walletCode, cw_amount = 0, cw_status = 0, cw_parent = Some parent,
      cw_default = False, cw_currency = currency, cw_owner = owner, cw_ownerType = OwnerCustomer,
      cw_purpose = CustomerAdditional, cw_iban = iban, cw_swift = swift, cw_created = wd_now s\<rparr>)"

definition add_wallet :: "int \<Rightarrow> int \<Rightarrow> string \<Rightarrow> string option \<times> string option \<Rightarrow> int \<Rightarrow> wallet_actor \<Rightarrow> string \<Rightarrow>
    cust_wallet wallet_act" where
  "add_wallet owner walletCode currency routing parent actorType actorId =
     act_then (act_read (additional_wallet_row owner walletCode currency routing parent)) (\<lambda>wallet.
     act_then (act_write (\<lambda>s. s\<lparr>wd_nextAccount := wd_nextAccount s + 1\<rparr>)) (\<lambda>_.
     act_then (insert_wallet wallet) (\<lambda>_.
     act_then (audit_wallet wallet owner WalletCreate None (Some (''Additional '' @ currency @ '' customer wallet created'')) actorType actorId) (\<lambda>_.
     act_ok wallet))))"

text \<open>The checks, and the wallet that becomes the parent.\<close>

definition additional_checks :: "int \<Rightarrow> int \<Rightarrow> string \<Rightarrow> cust_wallet wallet_act" where
  "additional_checks owner walletCode currency =
     act_then (act_found (profile_of owner) (Forbidden ''Customer profile was not found'')) (\<lambda>profile.
     act_then (act_refuse (\<lambda>_. cp_status profile \<noteq> 0) (Forbidden ''Customer profile is not active'')) (\<lambda>_.
     act_then (operating_currency_check currency) (\<lambda>_.
     act_then (act_found (customer_type walletCode) (BadRequest ''An eligible customer wallet type is required'')) (\<lambda>ty.
     act_then (act_refuse (\<lambda>s. requiresKyc (ct_kycNeeded ty) \<and> approvedKycCase owner s = None)
       (Forbidden (''Approved KYC is required before wallet type '' @ (case ct_name ty of
          None \<Rightarrow> int_str walletCode | Some n \<Rightarrow> if n = [] then int_str walletCode else n) @ '' can be opened''))) (\<lambda>_.
     act_then (act_refuse (\<lambda>s. list_ex (\<lambda>w. cw_code w = walletCode \<and> upper (cw_currency w) = currency) (open_wallets owner s))
       (Conflict ''This customer already has that wallet type and currency'')) (\<lambda>_.
     act_then (act_found (main_wallet owner) (Conflict ''The customer default wallet is missing'')) (\<lambda>globalMain.
     act_then (act_read (oldest_in owner currency)) (\<lambda>currencyMain.
     act_then (act_refuse (\<lambda>_. walletCode \<noteq> 103 \<and> currencyMain = None)
       (Conflict (''Create the customer'' @ [CHR 0x27] @ ''s '' @ currency @ '' currency wallet before adding another wallet type''))) (\<lambda>_.
     act_ok (case currencyMain of Some w \<Rightarrow> w | None \<Rightarrow> globalMain))))))))))"

definition createAdditionalForActor :: "string \<Rightarrow> create_additional_dto \<Rightarrow> wallet_actor \<Rightarrow> string \<Rightarrow> cust_wallet wallet_act" where
  "createAdditionalForActor ownerText dto actorType actorId =
     (let currency = upper (trim (ad_currency dto))
      in act_then (act_of (normalizeRouting (ad_iban dto) (ad_swiftBic dto))) (\<lambda>routing.
         translated (transaction (
           act_then (act_of (bigint ownerText)) (\<lambda>owner.
           act_then (additional_checks owner (ad_walletCode dto) currency) (\<lambda>parent.
           add_wallet owner (ad_walletCode dto) currency routing (cw_msisdn parent) actorType actorId))))))"

definition createAdditional :: "string \<Rightarrow> create_additional_dto \<Rightarrow> cust_wallet wallet_act" where
  "createAdditional owner dto =
     act_then (act_of (assertOwner owner)) (\<lambda>_. createAdditionalForActor owner dto ByCustomer owner)"

definition createAdditionalForAdmin :: "string \<Rightarrow> create_additional_dto \<Rightarrow> string \<Rightarrow> cust_wallet wallet_act" where
  "createAdditionalForAdmin owner dto actor =
     act_then (act_of (assertOwner owner)) (\<lambda>_. createAdditionalForActor owner dto ByAdmin actor)"

section \<open>The default wallet\<close>

definition no_longer_default :: "cust_wallet \<Rightarrow> cust_wallet" where
  "no_longer_default w = w\<lparr>cw_default := False,
     cw_purpose := (if cw_purpose w = CustomerMain then CustomerAdditional else cw_purpose w)\<rparr>"

definition setDefaultForActor :: "int \<Rightarrow> int \<Rightarrow> wallet_actor \<Rightarrow> string \<Rightarrow> cust_wallet wallet_act" where
  "setDefaultForActor owner walletId actorType actorId =
     transaction (
       act_then (act_found (owned_wallet owner walletId) (NotFound ''Wallet was not found'')) (\<lambda>wallet.
       act_then (act_refuse (\<lambda>_. cw_status wallet \<noteq> 0) (Conflict ''Only an active wallet can be default'')) (\<lambda>_.
       act_then (update_wallets (\<lambda>w. cw_ownerType w = OwnerCustomer \<and> cw_owner w = owner \<and>
           (cw_default w \<or> cw_purpose w = CustomerMain)) no_longer_default) (\<lambda>_.
       act_then (update_wallets (\<lambda>w. cw_ownerType w = OwnerCustomer \<and> cw_owner w = owner \<and> cw_msisdn w = walletId)
         (\<lambda>w. w\<lparr>cw_default := True, cw_purpose := CustomerMain\<rparr>)) (\<lambda>_.
       let upd = wallet\<lparr>cw_default := True, cw_purpose := CustomerMain\<rparr> in
       act_then (audit_wallet upd owner WalletSetDefault (Some wallet)
         (Some (''Default customer currency changed to '' @ cw_currency wallet)) actorType actorId) (\<lambda>_.
       act_ok upd))))))"

definition setDefault :: "string \<Rightarrow> string \<Rightarrow> cust_wallet wallet_act" where
  "setDefault ownerText walletText =
     act_then (act_of (assertOwner ownerText)) (\<lambda>_.
     act_then (act_of (bigint ownerText)) (\<lambda>owner.
     act_then (act_of (bigint walletText)) (\<lambda>walletId.
     setDefaultForActor owner walletId ByCustomer ownerText)))"

text \<open>The owner of a customer wallet.\<close>

definition customer_wallet :: "int \<Rightarrow> wallet_db \<Rightarrow> cust_wallet option" where
  "customer_wallet walletId s = find (\<lambda>w. cw_ownerType w = OwnerCustomer \<and> cw_msisdn w = walletId) (wd_wallets s)"

definition setDefaultForAdmin :: "string \<Rightarrow> string \<Rightarrow> cust_wallet wallet_act" where
  "setDefaultForAdmin walletText actor =
     act_then (act_of (bigint walletText)) (\<lambda>walletId.
     act_then (act_found (customer_wallet walletId) (NotFound ''Customer wallet was not found'')) (\<lambda>wallet.
     setDefaultForActor (cw_owner wallet) walletId ByAdmin actor))"

section \<open>Status\<close>

definition status_code :: "wallet_state \<Rightarrow> int" where
  "status_code st = (case st of StateActive \<Rightarrow> 0 | StateSuspended \<Rightarrow> 1 | StateFrozen \<Rightarrow> 2 | StateClosed \<Rightarrow> 6)"

definition changeStatus :: "string \<Rightarrow> change_status_dto \<Rightarrow> string \<Rightarrow> cust_wallet wallet_act" where
  "changeStatus walletText dto actor =
     transaction (
       act_then (act_of (bigint walletText)) (\<lambda>walletId.
       act_then (act_found (wallet_by_id walletId) (NotFound ''Wallet was not found'')) (\<lambda>wallet.
       let nextStatus = status_code (cs_status dto) in
       act_then (act_refuse (\<lambda>_. cw_purpose wallet = CustomerMain \<and> cs_status dto = StateClosed)
         (Conflict ''A customer main wallet cannot be closed'')) (\<lambda>_.
       act_then (act_refuse (\<lambda>_. cw_default wallet \<and> nextStatus \<noteq> 0)
         (Conflict ''Select another default wallet before restricting this wallet'')) (\<lambda>_.
       if cw_status wallet = nextStatus then act_ok wallet
       else
       act_then (update_wallets (\<lambda>w. cw_msisdn w = walletId) (\<lambda>w. w\<lparr>cw_status := nextStatus\<rparr>)) (\<lambda>_.
       let upd = wallet\<lparr>cw_status := nextStatus\<rparr> in
       act_then (audit_wallet upd (cw_owner wallet) WalletStatusChange (Some wallet) (Some (cs_reason dto)) ByAdmin actor) (\<lambda>_.
       act_ok upd)))))))"

section \<open>Routing\<close>

definition updateRouting :: "int \<Rightarrow> int \<Rightarrow> update_routing_dto \<Rightarrow> wallet_actor \<Rightarrow> string \<Rightarrow> cust_wallet wallet_act" where
  "updateRouting owner walletId dto actorType actorId =
     act_then (act_of (normalizeRouting (ur_iban dto) (ur_swiftBic dto))) (\<lambda>(iban, swift).
     translated (transaction (
       act_then (act_found (owned_wallet owner walletId) (NotFound ''Customer wallet was not found'')) (\<lambda>wallet.
       act_then (act_refuse (\<lambda>_. cw_status wallet = closed_status)
         (Conflict ''Routing cannot be changed on a closed wallet'')) (\<lambda>_.
       act_then (update_wallets (\<lambda>w. cw_ownerType w = OwnerCustomer \<and> cw_owner w = owner \<and> cw_msisdn w = walletId)
         (\<lambda>w. w\<lparr>cw_iban := iban, cw_swift := swift\<rparr>)) (\<lambda>_.
       act_then (act_found (owned_wallet owner walletId)
         (Failure ''Wallet routing update did not return the updated wallet'')) (\<lambda>upd.
       act_then (audit_wallet upd owner WalletRoutingUpdate (Some wallet)
         (Some ''Customer wallet bank-routing details updated'') actorType actorId) (\<lambda>_.
       act_ok upd))))))))"

definition updateRoutingForCustomer :: "string \<Rightarrow> string \<Rightarrow> update_routing_dto \<Rightarrow> cust_wallet wallet_act" where
  "updateRoutingForCustomer ownerText walletText dto =
     act_then (act_of (assertOwner ownerText)) (\<lambda>_.
     act_then (act_of (bigint ownerText)) (\<lambda>owner.
     act_then (act_of (bigint walletText)) (\<lambda>walletId.
     updateRouting owner walletId dto ByCustomer ownerText)))"

definition updateRoutingForAdmin :: "string \<Rightarrow> update_routing_dto \<Rightarrow> string \<Rightarrow> cust_wallet wallet_act" where
  "updateRoutingForAdmin walletText dto actor =
     act_then (act_of (bigint walletText)) (\<lambda>walletId.
     act_then (act_found (customer_wallet walletId) (NotFound ''Customer wallet was not found'')) (\<lambda>wallet.
     updateRouting (cw_owner wallet) walletId dto ByAdmin actor))"

section \<open>Reading\<close>

definition listMine :: "string \<Rightarrow> cust_wallet list wallet_act" where
  "listMine ownerText =
     act_then (act_of (assertOwner ownerText)) (\<lambda>_.
     act_then (act_of (bigint ownerText)) (\<lambda>owner.
     act_read (\<lambda>s. filter (\<lambda>w. cw_ownerType w = OwnerCustomer \<and> cw_owner w = owner) (wd_wallets s))))"

definition getMine :: "string \<Rightarrow> string \<Rightarrow> cust_wallet wallet_act" where
  "getMine ownerText walletText =
     act_then (act_of (assertOwner ownerText)) (\<lambda>_.
     act_then (act_of (bigint ownerText)) (\<lambda>owner.
     act_then (act_of (bigint walletText)) (\<lambda>walletId.
     act_found (owned_wallet owner walletId) (NotFound ''Wallet was not found''))))"

section \<open>Requests\<close>

datatype wallet_op =
    OpListMine | OpGetMine string
  | OpCreateOwn create_additional_dto | OpDefaultOwn string | OpRoutingOwn string update_routing_dto
  | OpCreateCustomer create_customer_dto | OpCompleteOpening string | OpCreateFor string create_additional_dto
  | OpDefaultFor string | OpRoutingFor string update_routing_dto | OpStatus string change_status_dto

definition checked_body :: "bool \<Rightarrow> 'a wallet_act \<Rightarrow> unit wallet_act" where
  "checked_body ok m = (if ok then act_then m (\<lambda>_. act_ok ()) else act_throw (Failure ''Unprocessable Entity''))"

text \<open>
  The user is the customer of the token for the first requests, the administrator for the others; the guard of the
  administrators' controller only lets fewer requests through.
\<close>

definition run_wallet_op :: "string \<Rightarrow> wallet_op \<Rightarrow> unit wallet_act" where
  "run_wallet_op user oper = (case oper of
     OpListMine \<Rightarrow> checked_body True (listMine user)
   | OpGetMine i \<Rightarrow> checked_body True (getMine user i)
   | OpCreateOwn d \<Rightarrow> checked_body (additional_ok (additional_body d)) (createAdditional user (additional_body d))
   | OpDefaultOwn i \<Rightarrow> checked_body True (setDefault user i)
   | OpRoutingOwn i d \<Rightarrow> checked_body (routing_ok d) (updateRoutingForCustomer user i d)
   | OpCreateCustomer d \<Rightarrow> checked_body (customer_ok (customer_body d)) (createCustomer (customer_body d) user)
   | OpCompleteOpening owner \<Rightarrow> checked_body True (completeCustomerAccountOpening owner user)
   | OpCreateFor owner d \<Rightarrow> checked_body (additional_ok (additional_body d)) (createAdditionalForAdmin owner (additional_body d) user)
   | OpDefaultFor i \<Rightarrow> checked_body True (setDefaultForAdmin i user)
   | OpRoutingFor i d \<Rightarrow> checked_body (routing_ok d) (updateRoutingForAdmin i d user)
   | OpStatus i d \<Rightarrow> checked_body (status_ok d) (changeStatus i d user))"

text \<open>
  A request, or a change elsewhere: a posting changes amounts, the KYC service decides cases and tells account
  openings, and other services change profiles and wallet types and let time pass.  They leave the other columns
  of the wallets and of the openings alone.
\<close>

definition same_but_amount :: "cust_wallet \<Rightarrow> cust_wallet \<Rightarrow> bool" where
  "same_but_amount a b \<longleftrightarrow> b = a\<lparr>cw_amount := cw_amount b\<rparr>"

definition same_but_decision :: "account_opening \<Rightarrow> account_opening \<Rightarrow> bool" where
  "same_but_decision a b \<longleftrightarrow> b = a\<lparr>ao_status := ao_status b, ao_case := ao_case b\<rparr>"

inductive wallet_step :: "wallet_db \<Rightarrow> wallet_db \<Rightarrow> bool" where
  request: "run_wallet_op user oper s = (r, t) \<Longrightarrow> wallet_step s t"
| elsewhere: "list_all2 same_but_amount (wd_wallets s) (wd_wallets t) \<Longrightarrow>
    list_all2 same_but_decision (wd_openings s) (wd_openings t) \<Longrightarrow> wallet_step s t"

end
