(* ===== verification/WalletEffects.thy ===== *)
theory WalletEffects
  imports WalletService Postconditions
begin

text \<open>
  What one request of the wallet service does to the wallets: nothing, or it opens one wallet, moves the default,
  changes a status or changes routing details, each with one entry in the audit.
\<close>

section \<open>Saving\<close>

definition wallets_saved :: "wallet_db \<Rightarrow> bool" where
  "wallets_saved s \<longleftrightarrow> list_all routing_formats (wd_wallets s) \<and> distinct (map cw_msisdn (wd_wallets s)) \<and>
     distinct (ibans s) \<and> distinct (default_owners s) \<and> distinct (main_owners s)"

lemma wallet_save_ok [act_simps]: "wallet_save f s = (Inr u, t) \<longleftrightarrow> wallets_saved (f s) \<and> t = f s"
  by (auto simp: wallet_save_def act_simps wallets_saved_def)

lemma save_named_ok [act_simps]: "save_named n f s = (Inr u, t) \<longleftrightarrow> length n \<le> 100 \<and> t = f s"
  by (auto simp: save_named_def act_simps)

lemma wallets_saved_cong: "wd_wallets t = wd_wallets s \<Longrightarrow> wallets_saved t = wallets_saved s"
  by (simp add: wallets_saved_def ibans_def default_owners_def main_owners_def)

lemma wallets_saved_upd [simp]:
  "wallets_saved (s\<lparr>wd_audit := a\<rparr>) = wallets_saved s" "wallets_saved (s\<lparr>wd_nextAccount := n\<rparr>) = wallets_saved s"
  "wallets_saved (s\<lparr>wd_wallets := ws, wd_nextAccount := n\<rparr>) = wallets_saved (s\<lparr>wd_wallets := ws\<rparr>)"
  by (simp_all add: wallets_saved_def ibans_def default_owners_def main_owners_def)

section \<open>Steps that leave the wallets alone\<close>

text \<open>The tables a handler reads to decide, and the wallets with their audit.\<close>

definition still :: "wallet_db \<Rightarrow> wallet_db \<Rightarrow> bool" where
  "still s t \<longleftrightarrow> wd_wallets t = wd_wallets s \<and> wd_audit t = wd_audit s \<and> wd_types t = wd_types s \<and>
     wd_currencies t = wd_currencies s \<and> wd_today t = wd_today s \<and> wd_cases t = wd_cases s \<and> wd_openings t = wd_openings s"

lemma still_refl [simp]: "still s s"
  by (simp add: still_def)

lemma active_profile_ok:
  "active_profile owner s = (Inr e, u) \<Longrightarrow> u = s \<and> e = profile_of owner s \<and> (\<forall>p. e = Some p \<longrightarrow> cp_status p = 0)"
  by (auto simp: active_profile_def act_simps split: option.splits)

lemma ensure_profile_ok:
  assumes "ensure_profile e owner dto actor s = (Inr p, u)"
  shows "still s u" and "wd_profiles u = (case e of Some q \<Rightarrow> wd_profiles s | None \<Rightarrow> wd_profiles s @ [p])"
    and "(case e of Some q \<Rightarrow> p = q | None \<Rightarrow> p = new_profile owner dto)"
  using assms by (auto simp: ensure_profile_def customerAudit_def act_simps still_def split: option.splits)

text \<open>Account openings after an upsert.\<close>

lemma upsert_ok:
  assumes "upsert_opening owner actor cond f s = (Inr r, u)"
  shows "wd_wallets u = wd_wallets s" "wd_audit u = wd_audit s" "wd_profiles u = wd_profiles s"
    and "a \<in> set (wd_openings u) \<Longrightarrow> a \<in> set (wd_openings s) \<or> (\<exists>b. a = f b)"
  using assms
  by (auto simp: upsert_opening_def new_opening_def set_opening_def act_simps split: option.splits if_splits)

lemma kyc_case_for_ok:
  assumes "kyc_case_for owner dto actor s = (Inr c, u)"
  shows "wd_wallets u = wd_wallets s \<and> wd_audit u = wd_audit s \<and> wd_openings u = wd_openings s"
  using assms by (auto simp: kyc_case_for_def act_simps split: option.splits)

lemma kyc_verified_ok:
  assumes "kyc_verified owner approved p s = (Inr q, u)"
  shows "wd_wallets u = wd_wallets s" "wd_audit u = wd_audit s" "wd_openings u = wd_openings s"
    and "map cp_msisdn (wd_profiles u) = map cp_msisdn (wd_profiles s)"
    and "map cp_status (wd_profiles u) = map cp_status (wd_profiles s)"
  using assms by (auto simp: kyc_verified_def act_simps split: option.splits)

lemma customerAudit_ok [act_simps]:
  "customerAudit owner oper reason actor s = (Inr r, u) \<longleftrightarrow> length actor \<le> 100 \<and> u = s\<lparr>wd_customerAudit := wd_customerAudit s @
     [\<lparr>ca_customer = owner, ca_operation = oper, ca_reason = reason, ca_actor = actor\<rparr>]\<rparr>"
  by (auto simp: customerAudit_def act_simps)

lemma insert_wallet_ok [act_simps]:
  "insert_wallet w s = (Inr r, u) \<longleftrightarrow> kyc_trigger w s \<and> wallets_saved u \<and> u = s\<lparr>wd_wallets := wd_wallets s @ [w]\<rparr>"
  by (auto simp: insert_wallet_def act_simps)

lemma insertDefaultWallet_ok [act_simps]:
  "insertDefaultWallet owner code cur i b s = (Inr w, u) \<longleftrightarrow> w = default_wallet_row owner code cur i b s \<and>
     kyc_trigger w s \<and> wallets_saved u \<and> u = s\<lparr>wd_wallets := wd_wallets s @ [w]\<rparr>"
  by (auto simp: insertDefaultWallet_def act_simps)

lemma update_wallets_ok [act_simps]:
  "update_wallets P f s = (Inr r, u) \<longleftrightarrow> wallets_saved u \<and>
     u = s\<lparr>wd_wallets := map (\<lambda>w. if P w then f w else w) (wd_wallets s)\<rparr>"
  by (auto simp: update_wallets_def act_simps)

section \<open>Valid routing\<close>

definition routing_valid :: "string option \<Rightarrow> string option \<Rightarrow> bool" where
  "routing_valid i b \<longleftrightarrow> (\<forall>x \<in> set_option i. iban_format x \<and> validIbanChecksum x) \<and> (\<forall>x \<in> set_option b. swift_format x)"

lemma normalized_valid: "normalizeRouting a b = Inr (i, w) \<Longrightarrow> routing_valid i w"
  by (auto simp: normalizeRouting_def Let_def routing_valid_def split: if_splits)

definition opening_valid :: "account_opening \<Rightarrow> bool" where
  "opening_valid a \<longleftrightarrow> routing_valid (ao_iban a) (ao_swift a)"

section \<open>The effect of a request\<close>

text \<open>What holds when a wallet is opened.\<close>

definition well_opened :: "cust_wallet \<Rightarrow> wallet_db \<Rightarrow> wallet_db \<Rightarrow> bool" where
  "well_opened w s t \<longleftrightarrow>
     cw_ownerType w = OwnerCustomer \<and> cw_status w = 0 \<and> cw_amount w = 0 \<and> routing_valid (cw_iban w) (cw_swift w) \<and>
     (\<exists>p \<in> set (wd_profiles t). cp_msisdn p = cw_owner w \<and> cp_status p = 0) \<and>
     operating (cw_currency w) s \<and>
     (\<exists>ty. customer_type (cw_code w) s = Some ty \<and>
        (requiresKyc (ct_kycNeeded ty) \<longrightarrow>
          (\<exists>c \<in> set (wd_cases s). kc_customer c = cw_owner w \<and> kc_status c = KycApproved))) \<and>
     (if cw_default w then cw_purpose w = CustomerMain \<and> cw_msisdn w = cw_owner w
      else cw_purpose w = CustomerAdditional \<and> cw_msisdn w = wd_nextAccount s \<and> main_wallet (cw_owner w) s \<noteq> None)"

definition moved_default :: "int \<Rightarrow> int \<Rightarrow> cust_wallet \<Rightarrow> cust_wallet" where
  "moved_default owner i w =
     (if cw_ownerType w = OwnerCustomer \<and> cw_owner w = owner
      then (if cw_msisdn w = i then w\<lparr>cw_default := True, cw_purpose := CustomerMain\<rparr>
            else if cw_default w \<or> cw_purpose w = CustomerMain then no_longer_default w else w)
      else w)"

definition wallet_audited :: "string \<Rightarrow> wallet_operation \<Rightarrow> cust_wallet option \<Rightarrow> cust_wallet \<Rightarrow> wallet_db \<Rightarrow> wallet_db \<Rightarrow> bool" where
  "wallet_audited user oper previous w s t \<longleftrightarrow> (\<exists>a. wd_audit t = wd_audit s @ [a] \<and> wa_wallet a = cw_msisdn w \<and>
     wa_operation a = oper \<and> wa_previous a = previous \<and> wa_new a = w \<and> wa_actor a = user \<and> wa_owner a = cw_owner w)"

inductive wallet_effect :: "string \<Rightarrow> wallet_db \<Rightarrow> wallet_db \<Rightarrow> bool" for user s t where
  unchanged: "wd_wallets t = wd_wallets s \<Longrightarrow> wd_audit t = wd_audit s \<Longrightarrow> wallet_effect user s t"
| opened: "wd_wallets t = wd_wallets s @ [w] \<Longrightarrow> well_opened w s t \<Longrightarrow> wallets_saved t \<Longrightarrow>
    wallet_audited user WalletCreate None w s t \<Longrightarrow> wallet_effect user s t"
| moved: "w \<in> set (wd_wallets s) \<Longrightarrow> cw_ownerType w = OwnerCustomer \<Longrightarrow> cw_status w = 0 \<Longrightarrow>
    wd_wallets t = map (moved_default (cw_owner w) (cw_msisdn w)) (wd_wallets s) \<Longrightarrow> wallets_saved t \<Longrightarrow>
    wallet_audited user WalletSetDefault (Some w) (w\<lparr>cw_default := True, cw_purpose := CustomerMain\<rparr>) s t \<Longrightarrow> wallet_effect user s t"
| status: "w \<in> set (wd_wallets s) \<Longrightarrow> cw_status w \<noteq> st \<Longrightarrow> cw_default w \<longrightarrow> st = 0 \<Longrightarrow>
    cw_purpose w = CustomerMain \<longrightarrow> st \<noteq> closed_status \<Longrightarrow>
    wd_wallets t = map (\<lambda>v. if cw_msisdn v = cw_msisdn w then v\<lparr>cw_status := st\<rparr> else v) (wd_wallets s) \<Longrightarrow> wallets_saved t \<Longrightarrow>
    wallet_audited user WalletStatusChange (Some w) (w\<lparr>cw_status := st\<rparr>) s t \<Longrightarrow> wallet_effect user s t"
| routing: "w \<in> set (wd_wallets s) \<Longrightarrow> cw_ownerType w = OwnerCustomer \<Longrightarrow> cw_status w \<noteq> closed_status \<Longrightarrow> routing_valid i b \<Longrightarrow>
    wd_wallets t = map (\<lambda>v. if cw_ownerType v = OwnerCustomer \<and> cw_owner v = cw_owner w \<and> cw_msisdn v = cw_msisdn w
      then v\<lparr>cw_iban := i, cw_swift := b\<rparr> else v) (wd_wallets s) \<Longrightarrow> wallets_saved t \<Longrightarrow>
    wallet_audited user WalletRoutingUpdate (Some w) (w\<lparr>cw_iban := i, cw_swift := b\<rparr>) s t \<Longrightarrow> wallet_effect user s t"

section \<open>Account openings\<close>

lemma first_by_in: "first_by prec xs = Some x \<Longrightarrow> x \<in> set xs"
proof -
  have "foldl (\<lambda>a b. if prec b a then b else a) y ys \<in> insert y (set ys)" for y ys
  proof (induction ys arbitrary: y)
    case (Cons z ys)
    from Cons.IH[of z] Cons.IH[of y] show ?case by auto
  qed simp
  then show "first_by prec xs = Some x \<Longrightarrow> x \<in> set xs" by (auto simp: first_by_def split: list.splits)
qed

lemma approved_in: "approvedKycCase owner s = Some c \<Longrightarrow> c \<in> set (wd_cases s) \<and> kc_customer c = owner \<and> kc_status c = KycApproved"
  by (auto simp: approvedKycCase_def dest!: first_by_in)

lemma profiles_kept:
  assumes "map cp_msisdn ps = map cp_msisdn qs" and "map cp_status ps = map cp_status qs"
    and "q \<in> set qs" "cp_msisdn q = owner" "cp_status q = 0"
  shows "\<exists>p \<in> set ps. cp_msisdn p = owner \<and> cp_status p = 0"
proof -
  from assms(3) obtain i where i: "i < length qs" "q = qs ! i" by (auto simp: in_set_conv_nth)
  have "length ps = length qs" using assms(1) by (rule map_eq_imp_length_eq)
  moreover from this i have "cp_msisdn (ps ! i) = owner" "cp_status (ps ! i) = 0"
    using assms(1,2,4,5) by (metis nth_map)+
  ultimately show ?thesis using i by (metis nth_mem)
qed

lemma open_account_ok:
  assumes run: "open_account profile owner code cur (i, b) req approved actor s = (Inr a, t)"
    and p: "p \<in> set (wd_profiles s)" "cp_msisdn p = owner" "cp_status p = 0"
  shows "\<exists>w. w = default_wallet_row owner code cur i b s \<and> wd_wallets t = wd_wallets s @ [w] \<and> wallets_saved t \<and>
      wallet_audited actor WalletCreate None w s t \<and> (\<exists>p \<in> set (wd_profiles t). cp_msisdn p = owner \<and> cp_status p = 0) \<and>
      (\<forall>a \<in> set (wd_openings t). a \<in> set (wd_openings s) \<or> ao_iban a = i \<and> ao_swift a = b)"
proof -
  define w where "w = default_wallet_row owner code cur i b s"
  from run obtain s1 s2 s3 opn q where
    s1: "wallets_saved s1" "s1 = s\<lparr>wd_wallets := wd_wallets s @ [w]\<rparr>" and
    s2: "upsert_opening owner actor (\<lambda>_. True) (\<lambda>a. a\<lparr>ao_code := code, ao_currency := cur, ao_iban := i, ao_swift := b,
          ao_kycRequired := req, ao_case := map_option kc_id approved, ao_status := Opened,
          ao_wallet := Some (cw_msisdn w), ao_completedBy := Some actor\<rparr>) s1 = (Inr opn, s2)" and
    s3: "kyc_verified owner approved profile s2 = (Inr q, s3)" and
    t: "wd_wallets t = wd_wallets s3" "wd_openings t = wd_openings s3" "wd_profiles t = wd_profiles s3"
      "wallet_audited actor WalletCreate None w s3 t"
    by (auto simp: open_account_def act_simps audit_wallet_def wallet_audited_def w_def default_wallet_row_def)
  note u = upsert_ok[OF s2] and k = kyc_verified_ok[OF s3]
  have "wd_wallets t = wd_wallets s1" using t(1) u(1) k(1) by simp
  then have "wallets_saved t" using s1(1) wallets_saved_cong by blast
  moreover have "wallet_audited actor WalletCreate None w s t" using t(4) u(2) k(2) s1(2) by (simp add: wallet_audited_def)
  moreover have "\<exists>p \<in> set (wd_profiles t). cp_msisdn p = owner \<and> cp_status p = 0"
    using profiles_kept[OF k(4,5), of p] p u(3) s1(2) t(3) by simp
  moreover have "a \<in> set (wd_openings s) \<or> ao_iban a = i \<and> ao_swift a = b" if "a \<in> set (wd_openings t)" for a
    using u(4)[of a] that t(2) k(3) s1(2) by auto
  ultimately show ?thesis using \<open>wd_wallets t = wd_wallets s1\<close> s1(2) by (auto simp: w_def)
qed

lemma request_opening_ok:
  assumes "request_opening profile owner ty dto cur (i, b) actor s = (Inr a, t)"
  shows "wd_wallets t = wd_wallets s" "wd_audit t = wd_audit s"
    "\<forall>a \<in> set (wd_openings t). a \<in> set (wd_openings s) \<or> ao_iban a = i \<and> ao_swift a = b"
proof -
  from assms obtain c s1 opn s2 where s1: "kyc_case_for owner dto actor s = (Inr c, s1)" and
    s2: "upsert_opening owner actor (\<lambda>a. ao_status a \<noteq> Opened)
       (\<lambda>a. a\<lparr>ao_code := ct_id ty, ao_currency := cur, ao_iban := i, ao_swift := b, ao_kycRequired := True,
          ao_case := Some (kc_id c), ao_status := PendingKyc, ao_requestedBy := actor\<rparr>) s1 = (Inr opn, s2)" and
    t: "wd_wallets t = wd_wallets s2" "wd_audit t = wd_audit s2" "wd_openings t = wd_openings s2"
    by (auto simp: request_opening_def act_simps split: option.splits)
  note u = upsert_ok[OF s2] and k = kyc_case_for_ok[OF s1]
  show "wd_wallets t = wd_wallets s" "wd_audit t = wd_audit s" using t u(1,2) k by simp_all
  show "\<forall>a \<in> set (wd_openings t). a \<in> set (wd_openings s) \<or> ao_iban a = i \<and> ao_swift a = b"
    using u(4) t(3) k by fastforce
qed

lemma translated_ok [act_simps]: "translated m s = (Inr x, t) \<longleftrightarrow> m s = (Inr x, t)"
  by (auto simp: translated_def act_catch_iff act_simps)

lemma customer_type_kyc: "customer_type code s = Some ty \<Longrightarrow> ct_id ty = code"
  by (auto simp: customer_type_def find_Some_iff)

lemma createCustomer_effect:
  assumes "createCustomer dto actor s = (Inr a, t)"
  shows "wallet_effect actor s t \<and> (\<forall>a \<in> set (wd_openings t). a \<in> set (wd_openings s) \<or> opening_valid a)"
proof -
  define currency where "currency = upper (trim (cu_defaultCurrency dto))"
  define code where "code = (case cu_walletCode dto of None \<Rightarrow> 103 | Some n \<Rightarrow> n)"
  from assms obtain i b owner existing ty profile s0 s1 where
    routing: "normalizeRouting (cu_iban dto) (cu_swiftBic dto) = Inr (i, b)" and
    existing: "active_profile owner s = (Inr existing, s0)" and
    checks0: "operating currency s0" "customer_type code s0 = Some ty" "wallet_by_id owner s0 = None" and
    p0: "ensure_profile existing owner dto actor s0 = (Inr profile, s1)" and
    rest: "(if requiresKyc (ct_kycNeeded ty) \<and> (if requiresKyc (ct_kycNeeded ty) then approvedKycCase owner s1 else None) = None
        then request_opening profile owner ty dto currency (i, b) actor
        else open_account profile owner code currency (i, b) (requiresKyc (ct_kycNeeded ty))
          (if requiresKyc (ct_kycNeeded ty) then approvedKycCase owner s1 else None) actor) s1 = (Inr a, t)"
    by (auto simp: createCustomer_def Let_def act_simps operating_currency_check_def free_number_check_def
        currency_def[symmetric] code_def[symmetric])
  note e = active_profile_ok[OF existing]
  then have "s0 = s" by simp
  note checks = checks0[unfolded this] and p = ensure_profile_ok[OF p0[unfolded this]]
  have valid: "routing_valid i b" using routing by (rule normalized_valid)
  have st: "wd_wallets s1 = wd_wallets s" "wd_audit s1 = wd_audit s" "wd_openings s1 = wd_openings s" "wd_cases s1 = wd_cases s"
    using p(1) by (simp_all add: still_def)
  have profile: "\<exists>q \<in> set (wd_profiles s1). cp_msisdn q = owner \<and> cp_status q = 0"
  proof (cases existing)
    case None
    with p(2,3) show ?thesis by (auto simp: new_profile_def)
  next
    case (Some q)
    with e have "profile_of owner s = Some q" "cp_status q = 0" by auto
    then have "q \<in> set (wd_profiles s)" "cp_msisdn q = owner" "cp_status q = 0"
      by (auto simp: profile_of_def find_Some_iff)
    with p(2) Some show ?thesis by auto
  qed
  show ?thesis
  proof (cases "requiresKyc (ct_kycNeeded ty) \<and> approvedKycCase owner s1 = None")
    case True
    with rest have "request_opening profile owner ty dto currency (i, b) actor s1 = (Inr a, t)" by simp
    from request_opening_ok[OF this] show ?thesis using st valid by (auto intro: wallet_effect.unchanged simp: opening_valid_def)
  next
    case False
    then have run: "open_account profile owner code currency (i, b) (requiresKyc (ct_kycNeeded ty))
          (if requiresKyc (ct_kycNeeded ty) then approvedKycCase owner s1 else None) actor s1 = (Inr a, t)"
      using rest by (auto split: if_splits)
    from profile obtain q where "q \<in> set (wd_profiles s1)" "cp_msisdn q = owner" "cp_status q = 0" by blast
    from open_account_ok[OF run this] obtain w where w: "w = default_wallet_row owner code currency i b s1"
      "wd_wallets t = wd_wallets s @ [w]" "wallets_saved t" "wallet_audited actor WalletCreate None w s1 t"
      "\<exists>p \<in> set (wd_profiles t). cp_msisdn p = owner \<and> cp_status p = 0"
      "\<forall>a \<in> set (wd_openings t). a \<in> set (wd_openings s) \<or> ao_iban a = i \<and> ao_swift a = b"
      using st by auto
    have "well_opened w s t"
      using w(5) valid checks(1,2) False approved_in[of owner s1] st(4)
      by (auto simp: well_opened_def w(1) default_wallet_row_def)
    moreover have "wallet_audited actor WalletCreate None w s t" using w(4) st(2) by (simp add: wallet_audited_def)
    ultimately show ?thesis using w valid by (auto intro: wallet_effect.opened simp: opening_valid_def)
  qed
qed

lemma finish_opening_ok:
  assumes run: "finish_opening profile owner opn approved actor s = (Inr a, t)"
    and p: "profile \<in> set (wd_profiles s)" "cp_msisdn profile = owner" "cp_status profile = 0"
    and w: "w = default_wallet_row owner (ao_code opn) (ao_currency opn) (ao_iban opn) (ao_swift opn) s"
  shows "wd_wallets t = wd_wallets s @ [w] \<and> wallets_saved t \<and> wallet_audited actor WalletCreate None w s t \<and>
      (\<exists>p \<in> set (wd_profiles t). cp_msisdn p = owner \<and> cp_status p = 0) \<and>
      ((\<forall>a \<in> set (wd_openings s). opening_valid a) \<longrightarrow> (\<forall>a \<in> set (wd_openings t). opening_valid a))"
proof -
  let ?f = "\<lambda>a. if ao_id a = ao_id opn then a\<lparr>ao_status := Opened, ao_case := map_option kc_id approved,
      ao_wallet := Some (cw_msisdn w), ao_completedBy := Some actor\<rparr> else a"
  have ow: "cw_owner w = owner" by (simp add: w default_wallet_row_def)
  from run obtain s1 q s3 where s1: "wallets_saved (s\<lparr>wd_wallets := wd_wallets s @ [w]\<rparr>)"
      "s1 = s\<lparr>wd_wallets := wd_wallets s @ [w], wd_openings := map ?f (wd_openings s)\<rparr>" and
    s3: "kyc_verified owner approved profile s1 = (Inr q, s3)" and
    t: "wd_wallets t = wd_wallets s3" "wd_openings t = wd_openings s3" "wd_profiles t = wd_profiles s3"
      "wallet_audited actor WalletCreate None w s3 t"
    by (auto simp: finish_opening_def act_simps audit_wallet_def wallet_audited_def w[symmetric] ow)
  note k = kyc_verified_ok[OF s3]
  have "wd_wallets t = wd_wallets s @ [w]" using t(1) k(1) s1(2) by simp
  moreover from this have "wallets_saved t" using s1(1) wallets_saved_cong[of t "s\<lparr>wd_wallets := wd_wallets s @ [w]\<rparr>"] by simp
  moreover have "wallet_audited actor WalletCreate None w s t" using t(4) k(2) s1(2) by (simp add: wallet_audited_def)
  moreover have "\<exists>p \<in> set (wd_profiles t). cp_msisdn p = owner \<and> cp_status p = 0"
    using profiles_kept[OF k(4,5), of profile] p s1(2) t(3) by simp
  moreover have "\<forall>a \<in> set (wd_openings t). opening_valid a" if "\<forall>a \<in> set (wd_openings s). opening_valid a"
    using that t(2) k(3) s1(2) by (auto simp: opening_valid_def)
  ultimately show ?thesis by blast
qed

lemma completeOpening_effect:
  assumes run: "completeCustomerAccountOpening ownerText actor s = (Inr a, t)" and valid: "\<forall>a \<in> set (wd_openings s). opening_valid a"
  shows "wallet_effect actor s t \<and> (\<forall>a \<in> set (wd_openings t). opening_valid a)"
proof -
  from run obtain owner profile opn where o: "profile_of owner s = Some profile" "cp_status profile = 0"
      "opening_of owner s = Some opn" and
    cs: "t = s \<or> (\<exists>ty. customer_type (ao_code opn) s = Some ty \<and> operating (ao_currency opn) s \<and>
       (requiresKyc (ct_kycNeeded ty) \<longrightarrow> approvedKycCase owner s \<noteq> None) \<and>
       (\<exists>approved. finish_opening profile owner opn approved actor s = (Inr a, t)))"
    by (auto simp: completeCustomerAccountOpening_def Let_def act_simps operating_currency_check_def free_number_check_def
        split: if_splits; blast)
  have opn: "opening_valid opn" using o(3) valid by (auto simp: opening_of_def find_Some_iff)
  have profile: "profile \<in> set (wd_profiles s)" "cp_msisdn profile = owner"
    using o(1) by (auto simp: profile_of_def find_Some_iff)
  from cs show ?thesis
  proof (elim disjE exE conjE)
    assume "t = s"
    then show ?thesis using valid by (auto intro: wallet_effect.unchanged)
  next
    fix ty approved
    let ?w = "default_wallet_row owner (ao_code opn) (ao_currency opn) (ao_iban opn) (ao_swift opn) s"
    assume ty: "customer_type (ao_code opn) s = Some ty" "operating (ao_currency opn) s"
        "requiresKyc (ct_kycNeeded ty) \<longrightarrow> approvedKycCase owner s \<noteq> None"
      and f: "finish_opening profile owner opn approved actor s = (Inr a, t)"
    note e = finish_opening_ok[OF f profile o(2) refl]
    then have "well_opened ?w s t"
      using ty opn approved_in[of owner s] by (auto simp: well_opened_def default_wallet_row_def opening_valid_def)
    with e valid show ?thesis by (auto intro: wallet_effect.opened)
  qed
qed

section \<open>Further wallets, the default, statuses and routing\<close>

lemma additional_checks_ok:
  assumes "additional_checks owner code currency s = (Inr w, t)"
  shows "t = s \<and> (\<exists>p \<in> set (wd_profiles s). cp_msisdn p = owner \<and> cp_status p = 0) \<and> operating currency s \<and>
    (\<exists>ty. customer_type code s = Some ty \<and> (requiresKyc (ct_kycNeeded ty) \<longrightarrow> approvedKycCase owner s \<noteq> None)) \<and>
    main_wallet owner s \<noteq> None"
  using assms
  by (auto simp: additional_checks_def operating_currency_check_def act_simps profile_of_def find_Some_iff)

lemma add_wallet_ok:
  assumes "add_wallet owner code currency (i, b) parent ty actor s = (Inr w, t)"
  shows "w = additional_wallet_row owner code currency (i, b) parent s" "wd_wallets t = wd_wallets s @ [w]" "wallets_saved t"
    "wallet_audited actor WalletCreate None w s t" "wd_openings t = wd_openings s" "wd_profiles t = wd_profiles s"
proof -
  from assms obtain s1 where w: "w = additional_wallet_row owner code currency (i, b) parent s" and
    s1: "insert_wallet w (s\<lparr>wd_nextAccount := wd_nextAccount s + 1\<rparr>) = (Inr (), s1)" and
    t: "audit_wallet w owner WalletCreate None (Some (''Additional '' @ currency @ '' customer wallet created'')) ty actor s1 = (Inr (), t)"
    by (auto simp: add_wallet_def act_simps simp del: act_basics(5) insert_wallet_ok)
  have ow: "cw_owner w = owner" by (simp add: w additional_wallet_row_def)
  show "w = additional_wallet_row owner code currency (i, b) parent s" by (rule w)
  from s1 have s1: "wallets_saved s1"
    "s1 = s\<lparr>wd_nextAccount := wd_nextAccount s + 1, wd_wallets := wd_wallets s @ [w]\<rparr>"
    by (auto simp only: insert_wallet_ok) simp
  from t have t: "wd_wallets t = wd_wallets s1" "wd_openings t = wd_openings s1" "wd_profiles t = wd_profiles s1"
    "wallet_audited actor WalletCreate None w s1 t" by (auto simp: audit_wallet_def act_simps wallet_audited_def ow)
  show "wd_wallets t = wd_wallets s @ [w]" "wd_openings t = wd_openings s" "wd_profiles t = wd_profiles s" using t s1(2) by simp_all
  show "wallets_saved t" using s1(1) t(1) wallets_saved_cong by blast
  show "wallet_audited actor WalletCreate None w s t" using t(4) s1(2) by (simp add: wallet_audited_def)
qed

lemma createAdditional_effect:
  assumes "createAdditionalForActor ownerText dto ty actor s = (Inr w, t)"
  shows "wallet_effect actor s t \<and> wd_openings t = wd_openings s"
proof -
  define currency where "currency = upper (trim (ad_currency dto))"
  from assms obtain i b owner parent s1 where routing: "normalizeRouting (ad_iban dto) (ad_swiftBic dto) = Inr (i, b)" and
    c: "additional_checks owner (ad_walletCode dto) currency s = (Inr parent, s1)" and
    w: "add_wallet owner (ad_walletCode dto) currency (i, b) (cw_msisdn parent) ty actor s1 = (Inr w, t)"
    by (auto simp: createAdditionalForActor_def Let_def act_simps currency_def)
  note c = additional_checks_ok[OF c]
  then have "s1 = s" by simp
  note a = add_wallet_ok[OF w[unfolded this]]
  have "well_opened w s t"
    using c a(6) normalized_valid[OF routing] approved_in[of owner s]
    by (auto simp: well_opened_def a(1) additional_wallet_row_def)
  with a show ?thesis by (auto intro: wallet_effect.opened)
qed

lemma owned_wallet_Some: "owned_wallet owner i s = Some w \<Longrightarrow>
    w \<in> set (wd_wallets s) \<and> cw_ownerType w = OwnerCustomer \<and> cw_owner w = owner \<and> cw_msisdn w = i"
  by (auto simp: owned_wallet_def find_Some_iff)

lemma setDefault_effect:
  assumes "setDefaultForActor owner i ty actor s = (Inr w, t)"
  shows "wallet_effect actor s t \<and> wd_openings t = wd_openings s"
proof -
  from assms obtain v where v: "owned_wallet owner i s = Some v" "cw_status v = 0" and
    w: "w = v\<lparr>cw_default := True, cw_purpose := CustomerMain\<rparr>" and
    t: "wd_wallets t = map (\<lambda>w. if cw_ownerType w = OwnerCustomer \<and> cw_owner w = owner \<and> cw_msisdn w = i
        then w\<lparr>cw_default := True, cw_purpose := CustomerMain\<rparr> else w)
      (map (\<lambda>w. if cw_ownerType w = OwnerCustomer \<and> cw_owner w = owner \<and> (cw_default w \<or> cw_purpose w = CustomerMain)
        then no_longer_default w else w) (wd_wallets s))"
      "wallets_saved t" "wd_openings t = wd_openings s"
      "\<exists>reason. wd_audit t = wd_audit s @ [\<lparr>wa_wallet = cw_msisdn v, wa_owner = owner, wa_operation = WalletSetDefault,
         wa_previous = Some v, wa_new = w, wa_reason = reason, wa_actorType = ty, wa_actor = actor\<rparr>]"
    by (auto simp: setDefaultForActor_def Let_def act_simps audit_wallet_def)
  have "wd_wallets t = map (moved_default owner i) (wd_wallets s)"
    unfolding t(1) by (auto simp: moved_default_def no_longer_default_def)
  moreover have "wallet_audited actor WalletSetDefault (Some v) w s t" using t(4) owned_wallet_Some[OF v(1)] by (auto simp: wallet_audited_def w)
  ultimately show ?thesis using owned_wallet_Some[OF v(1)] v(2) w t(2,3) by (auto intro: wallet_effect.moved)
qed

lemma wallet_by_id_Some: "wallet_by_id i s = Some w \<Longrightarrow> w \<in> set (wd_wallets s) \<and> cw_msisdn w = i"
  by (auto simp: wallet_by_id_def find_Some_iff)

lemma changeStatus_effect:
  assumes "changeStatus walletText dto actor s = (Inr w, t)"
  shows "wallet_effect actor s t \<and> wd_openings t = wd_openings s"
proof -
  define st where "st = status_code (cs_status dto)"
  from assms obtain i v where v: "wallet_by_id i s = Some v" and
    main: "\<not> (cw_purpose v = CustomerMain \<and> cs_status dto = StateClosed)" and dflt: "\<not> (cw_default v \<and> st \<noteq> 0)" and
    rest: "(if cw_status v = st then act_ok v
       else act_then (update_wallets (\<lambda>w. cw_msisdn w = i) (\<lambda>w. w\<lparr>cw_status := st\<rparr>)) (\<lambda>_.
         act_then (audit_wallet (v\<lparr>cw_status := st\<rparr>) (cw_owner v) WalletStatusChange (Some v) (Some (cs_reason dto)) ByAdmin actor) (\<lambda>_.
         act_ok (v\<lparr>cw_status := st\<rparr>)))) s = (Inr w, t)"
    unfolding changeStatus_def Let_def st_def[symmetric] by (auto simp: act_simps)
  show ?thesis
  proof (cases "cw_status v = st")
    case True
    with rest show ?thesis by (auto simp: act_simps intro: wallet_effect.unchanged)
  next
    case False
    with rest have t: "wd_wallets t = map (\<lambda>w. if cw_msisdn w = i then w\<lparr>cw_status := st\<rparr> else w) (wd_wallets s)"
      "wallets_saved t" "wd_openings t = wd_openings s"
      "wallet_audited actor WalletStatusChange (Some v) (v\<lparr>cw_status := st\<rparr>) s t"
      by (auto simp: act_simps audit_wallet_def wallet_audited_def)
    have "cw_purpose v = CustomerMain \<longrightarrow> st \<noteq> closed_status"
      using main by (auto simp: st_def status_code_def split: wallet_state.splits)
    with t wallet_by_id_Some[OF v] False dflt show ?thesis by (auto intro: wallet_effect.status)
  qed
qed

lemma find_mapped: "(\<And>x. P (f x) = P x) \<Longrightarrow> find P (map f xs) = map_option f (find P xs)"
  by (induction xs) auto

lemma updateRouting_effect:
  assumes "updateRouting owner i dto ty actor s = (Inr w, t)"
  shows "wallet_effect actor s t \<and> wd_openings t = wd_openings s"
proof -
  let ?f = "\<lambda>x b w. if cw_ownerType w = OwnerCustomer \<and> cw_owner w = owner \<and> cw_msisdn w = i
      then w\<lparr>cw_iban := x, cw_swift := b\<rparr> else w"
  from assms obtain x b v where n: "normalizeRouting (ur_iban dto) (ur_swiftBic dto) = Inr (x, b)" and
    v: "owned_wallet owner i s = Some v" "cw_status v \<noteq> closed_status" and
    w: "owned_wallet owner i (s\<lparr>wd_wallets := map (?f x b) (wd_wallets s)\<rparr>) = Some w" and
    t: "wd_wallets t = map (?f x b) (wd_wallets s)" "wallets_saved t" "wd_openings t = wd_openings s"
      "wd_audit t = wd_audit s @ [\<lparr>wa_wallet = cw_msisdn w, wa_owner = owner, wa_operation = WalletRoutingUpdate,
        wa_previous = Some v, wa_new = w, wa_reason = Some ''Customer wallet bank-routing details updated'',
        wa_actorType = ty, wa_actor = actor\<rparr>]"
    by (auto simp: updateRouting_def act_simps audit_wallet_def split: prod.splits)
  have "owned_wallet owner i (s\<lparr>wd_wallets := map (?f x b) (wd_wallets s)\<rparr>) = map_option (?f x b) (owned_wallet owner i s)"
    by (simp add: owned_wallet_def) (rule find_mapped, simp)
  with v(1) w owned_wallet_Some[OF v(1)] have "w = v\<lparr>cw_iban := x, cw_swift := b\<rparr>" by simp
  with t owned_wallet_Some[OF v(1)] v(2) normalized_valid[OF n] show ?thesis
    by (auto intro!: wallet_effect.routing[of v s x b t actor] simp: wallet_audited_def)
qed

end
