(* ===== verification/WalletSafety.thy ===== *)
theory WalletSafety
  imports WalletEffects
begin

text \<open>
  The invariant of the wallets, and that every request and every change elsewhere keeps it.
\<close>

section \<open>Every request has an effect\<close>

lemma atomic_transaction: "atomic (transaction m)"
  by (auto simp: atomic_def dest: transaction_throws)

lemma atomic_translated: "atomic m \<Longrightarrow> atomic (translated m)"
  by (auto simp: atomic_def translated_def act_catch_iff)

lemma atomic_checked: "atomic m \<Longrightarrow> atomic (checked_body ok m)"
  using atomic_then_ok[of m "\<lambda>_. ()"] by (auto simp: checked_body_def intro: readonly_atomic readonly_rules)

lemma atomic_pair: "(\<And>a b. atomic (f a b)) \<Longrightarrow> atomic (case_prod f p)"
  by (cases p) simp

lemmas atomic_walk = atomic_then readonly_rules atomic_transaction atomic_translated atomic_pair
  readonly_rules[THEN readonly_atomic]

lemma atomic_handlers:
  "atomic (listMine u)" "atomic (getMine u i)" "atomic (createAdditional u d)" "atomic (setDefault u i)"
  "atomic (updateRoutingForCustomer u i r)" "atomic (createCustomer c u)" "atomic (completeCustomerAccountOpening o' u)"
  "atomic (createAdditionalForAdmin o' d u)" "atomic (setDefaultForAdmin i u)" "atomic (updateRoutingForAdmin i r u)"
  "atomic (changeStatus i st u)"
  unfolding listMine_def getMine_def createAdditional_def createAdditionalForActor_def setDefault_def
      setDefaultForActor_def updateRoutingForCustomer_def updateRouting_def createCustomer_def Let_def
      completeCustomerAccountOpening_def createAdditionalForAdmin_def setDefaultForAdmin_def updateRoutingForAdmin_def
      changeStatus_def
  by (intro atomic_walk)+

lemma run_wallet_op_throws: "run_wallet_op user oper s = (Inl e, t) \<Longrightarrow> t = s"
proof -
  have "atomic (run_wallet_op user oper)"
    by (cases oper) (simp_all add: run_wallet_op_def atomic_checked atomic_handlers)
  then show "run_wallet_op user oper s = (Inl e, t) \<Longrightarrow> t = s" by (rule atomicD)
qed

lemma checked_body_ok: "checked_body ok m s = (Inr r, t) \<longleftrightarrow> ok \<and> (\<exists>x. m s = (Inr x, t))"
  by (auto simp: checked_body_def act_simps)

lemma run_wallet_op_effect:
  assumes run: "run_wallet_op user oper s = (r, t)" and valid: "\<forall>a \<in> set (wd_openings s). opening_valid a"
  shows "wallet_effect user s t \<and> (\<forall>a \<in> set (wd_openings t). opening_valid a)"
proof (cases r)
  case (Inl e)
  with run have "t = s" by (auto dest: run_wallet_op_throws)
  with valid show ?thesis by (auto intro: wallet_effect.unchanged)
next
  case (Inr x)
  with run have ok: "run_wallet_op user oper s = (Inr x, t)" by simp
  note effects = createAdditional_effect setDefault_effect updateRouting_effect changeStatus_effect
  show ?thesis
  proof (cases oper)
    case OpListMine
    with ok valid show ?thesis
      by (auto simp: run_wallet_op_def checked_body_ok listMine_def act_simps intro: wallet_effect.unchanged)
  next
    case (OpGetMine i)
    with ok valid show ?thesis
      by (auto simp: run_wallet_op_def checked_body_ok getMine_def act_simps intro: wallet_effect.unchanged)
  next
    case (OpCreateOwn d)
    with ok valid show ?thesis
      by (fastforce simp: run_wallet_op_def checked_body_ok createAdditional_def act_simps dest!: effects)
  next
    case (OpDefaultOwn i)
    with ok valid show ?thesis
      by (fastforce simp: run_wallet_op_def checked_body_ok setDefault_def act_simps dest: setDefault_effect)
  next
    case (OpRoutingOwn i d)
    with ok valid show ?thesis
      by (fastforce simp: run_wallet_op_def checked_body_ok updateRoutingForCustomer_def act_simps dest!: effects)
  next
    case (OpCreateCustomer d)
    with ok valid createCustomer_effect[of "customer_body d" user s _ t] show ?thesis
      by (auto simp: run_wallet_op_def checked_body_ok)
  next
    case (OpCompleteOpening o')
    with ok valid completeOpening_effect[of o' user s _ t] show ?thesis
      by (auto simp: run_wallet_op_def checked_body_ok)
  next
    case (OpCreateFor o' d)
    with ok valid show ?thesis
      by (fastforce simp: run_wallet_op_def checked_body_ok createAdditionalForAdmin_def act_simps dest!: effects)
  next
    case (OpDefaultFor i)
    with ok valid show ?thesis
      by (fastforce simp: run_wallet_op_def checked_body_ok setDefaultForAdmin_def act_simps dest!: effects)
  next
    case (OpRoutingFor i d)
    with ok valid show ?thesis
      by (fastforce simp: run_wallet_op_def checked_body_ok updateRoutingForAdmin_def act_simps dest!: effects)
  next
    case (OpStatus i d)
    with ok valid show ?thesis by (fastforce simp: run_wallet_op_def checked_body_ok dest!: effects)
  qed
qed

section \<open>The invariant\<close>

definition customer_rule :: "cust_wallet list \<Rightarrow> cust_wallet \<Rightarrow> bool" where
  "customer_rule ws w \<longleftrightarrow> cw_ownerType w = OwnerCustomer \<longrightarrow>
     (cw_default w \<longleftrightarrow> cw_purpose w = CustomerMain) \<and> (cw_default w \<longrightarrow> cw_status w = 0) \<and>
     (\<exists>m \<in> set ws. cw_ownerType m = OwnerCustomer \<and> cw_owner m = cw_owner w \<and> cw_default m)"

definition wallet_inv :: "wallet_db \<Rightarrow> bool" where
  "wallet_inv s \<longleftrightarrow> wallets_saved s \<and> (\<forall>w \<in> set (wd_wallets s). customer_rule (wd_wallets s) w) \<and>
     (\<forall>w \<in> set (wd_wallets s). routing_valid (cw_iban w) (cw_swift w)) \<and> (\<forall>a \<in> set (wd_openings s). opening_valid a)"

lemma wallet_id_unique:
  "wallets_saved s \<Longrightarrow> v \<in> set (wd_wallets s) \<Longrightarrow> w \<in> set (wd_wallets s) \<Longrightarrow> cw_msisdn v = cw_msisdn w \<Longrightarrow> v = w"
  by (auto simp: wallets_saved_def distinct_map inj_on_def)

lemma rule_opened:
  assumes old: "\<forall>w \<in> set ws. customer_rule ws w" and w: "cw_status w = 0"
    and new: "cw_default w \<and> cw_purpose w = CustomerMain \<or>
      \<not> cw_default w \<and> cw_purpose w = CustomerAdditional \<and> (\<exists>m \<in> set ws. cw_ownerType m = OwnerCustomer \<and>
        cw_owner m = cw_owner w \<and> cw_default m)"
  shows "\<forall>v \<in> set (ws @ [w]). customer_rule (ws @ [w]) v"
  using assms by (auto simp: customer_rule_def)

lemma rule_moved:
  assumes old: "\<forall>w \<in> set ws. customer_rule ws w" and w: "w \<in> set ws" "cw_ownerType w = OwnerCustomer" "cw_status w = 0"
    and uniq: "\<forall>v \<in> set ws. cw_msisdn v = cw_msisdn w \<longrightarrow> v = w"
  shows "\<forall>v \<in> set (map (moved_default (cw_owner w) (cw_msisdn w)) ws).
    customer_rule (map (moved_default (cw_owner w) (cw_msisdn w)) ws) v"
proof -
  let ?f = "moved_default (cw_owner w) (cw_msisdn w)"
  have kept: "cw_ownerType (?f v) = cw_ownerType v" "cw_owner (?f v) = cw_owner v" "cw_status (?f v) = cw_status v" for v
    by (simp_all add: moved_default_def no_longer_default_def)
  have chosen: "\<exists>m \<in> set ws. cw_ownerType m = OwnerCustomer \<and> cw_owner m = cw_owner w \<and> cw_default (?f m)"
    using w by (intro bexI[of _ w]) (simp_all add: moved_default_def)
  have "customer_rule (map ?f ws) (?f v)" if v: "v \<in> set ws" "cw_ownerType v = OwnerCustomer" for v
  proof (cases "cw_owner v = cw_owner w")
    case True
    moreover have "cw_default (?f v) = (cw_purpose (?f v) = CustomerMain)"
      using v True old by (auto simp: moved_default_def no_longer_default_def customer_rule_def)
    moreover have "cw_default (?f v) \<longrightarrow> cw_status v = 0"
      using v True uniq w(3) by (auto simp: moved_default_def no_longer_default_def split: if_splits)
    ultimately show ?thesis using chosen True v(2) by (simp add: customer_rule_def kept)
  next
    case False
    then have same: "?f v = v" by (simp add: moved_default_def)
    from old v obtain m where m: "m \<in> set ws" "cw_ownerType m = OwnerCustomer" "cw_owner m = cw_owner v" "cw_default m"
      by (auto simp: customer_rule_def)
    with False have "?f m = m" by (simp add: moved_default_def)
    with m have "m \<in> ?f ` set ws" by force
    with m old v same show ?thesis by (auto simp: customer_rule_def)
  qed
  moreover have "customer_rule (map ?f ws) (?f v)" if "cw_ownerType v \<noteq> OwnerCustomer" for v
    using that kept(1)[of v] by (simp add: customer_rule_def)
  ultimately show ?thesis by auto
qed

text \<open>Changing the columns of one wallet that the rule does not mention, or the status of one that is not the default.\<close>

lemma rule_changed:
  assumes old: "\<forall>w \<in> set ws. customer_rule ws w"
    and kept: "\<And>v. v \<in> set ws \<Longrightarrow> cw_ownerType (f v) = cw_ownerType v \<and> cw_owner (f v) = cw_owner v \<and>
      cw_default (f v) = cw_default v \<and> cw_purpose (f v) = cw_purpose v \<and> (cw_default v \<longrightarrow> cw_status (f v) = cw_status v)"
  shows "\<forall>v \<in> set (map f ws). customer_rule (map f ws) v"
  using old by (fastforce simp: customer_rule_def kept)

lemma wallet_effect_inv:
  assumes eff: "wallet_effect user s t" and inv: "wallet_inv s" and valid: "\<forall>a \<in> set (wd_openings t). opening_valid a"
  shows "wallet_inv t"
proof -
  have saved: "wallets_saved s" and old: "\<forall>w \<in> set (wd_wallets s). customer_rule (wd_wallets s) w"
    and rv: "\<forall>w \<in> set (wd_wallets s). routing_valid (cw_iban w) (cw_swift w)"
    using inv by (simp_all add: wallet_inv_def)
  note unique = wallet_id_unique[OF saved]
  from eff show ?thesis
  proof cases
    case unchanged
    with saved old rv valid wallets_saved_cong[of t s] show ?thesis by (simp add: wallet_inv_def)
  next
    case (opened w)
    have "\<exists>m \<in> set (wd_wallets s). cw_ownerType m = OwnerCustomer \<and> cw_owner m = cw_owner w \<and> cw_default m"
      if "\<not> cw_default w"
    proof -
      from that opened(2) obtain m where "main_wallet (cw_owner w) s = Some m" by (auto simp: well_opened_def)
      then have "m \<in> set (wd_wallets s)" "cw_ownerType m = OwnerCustomer" "cw_owner m = cw_owner w" "cw_purpose m = CustomerMain"
        by (auto simp: main_wallet_def find_Some_iff open_wallets_def open_customer_def dest!: nth_mem)
      with old show ?thesis by (auto simp: customer_rule_def)
    qed
    then have "\<forall>v \<in> set (wd_wallets t). customer_rule (wd_wallets t) v"
      unfolding opened(1) using opened(2) by (intro rule_opened[OF old]) (auto simp: well_opened_def split: if_splits)
    with opened rv valid show ?thesis by (auto simp: wallet_inv_def well_opened_def)
  next
    case (moved w)
    have "\<forall>v \<in> set (wd_wallets t). customer_rule (wd_wallets t) v"
      unfolding moved(4) using moved(1-3) unique by (intro rule_moved[OF old]) auto
    with moved rv valid show ?thesis by (auto simp: wallet_inv_def moved_default_def no_longer_default_def)
  next
    case (status w st)
    have "\<not> cw_default w" if "cw_ownerType w = OwnerCustomer" using that status(1-3) old by (auto simp: customer_rule_def)
    then have "\<forall>v \<in> set (wd_wallets t). customer_rule (wd_wallets t) v"
      unfolding status(5)
    proof (cases "cw_ownerType w = OwnerCustomer")
      case True
      then show "\<forall>v \<in> set (map (\<lambda>v. if cw_msisdn v = cw_msisdn w then v\<lparr>cw_status := st\<rparr> else v) (wd_wallets s)).
          customer_rule (map (\<lambda>v. if cw_msisdn v = cw_msisdn w then v\<lparr>cw_status := st\<rparr> else v) (wd_wallets s)) v"
        using unique[OF _ status(1)] \<open>cw_ownerType w = OwnerCustomer \<Longrightarrow> \<not> cw_default w\<close>
        by (intro rule_changed[OF old]) auto
    next
      case False
      then show "\<forall>v \<in> set (map (\<lambda>v. if cw_msisdn v = cw_msisdn w then v\<lparr>cw_status := st\<rparr> else v) (wd_wallets s)).
          customer_rule (map (\<lambda>v. if cw_msisdn v = cw_msisdn w then v\<lparr>cw_status := st\<rparr> else v) (wd_wallets s)) v"
        using unique[OF _ status(1)] old by (fastforce simp: customer_rule_def)
    qed
    with status rv valid show ?thesis by (auto simp: wallet_inv_def)
  next
    case (routing w i b)
    have "\<forall>v \<in> set (wd_wallets t). customer_rule (wd_wallets t) v"
      unfolding routing(5) by (intro rule_changed[OF old]) auto
    with routing rv valid show ?thesis by (auto simp: wallet_inv_def)
  qed
qed

end
