(* ===== verification/WalletSamples.thy ===== *)
theory WalletSamples
  imports WalletSafety
begin

text \<open>
  Sample customers with their wallets: a first account that is opened, and a customer who closed a wallet and opened
  another of the same type and currency.
\<close>

definition sample_customer_type :: customer_wallet_type where
  "sample_customer_type = \<lparr>ct_id = 103, ct_name = Some ''Customer'', ct_class = Some 100, ct_kycNeeded = Some False, ct_status = Some True\<rparr>"

definition sample_wallet_db :: wallet_db where
  "sample_wallet_db = \<lparr>wd_profiles = [], wd_wallets = [], wd_types = [sample_customer_type],
     wd_currencies = [\<lparr>oc_currency = ''GBP'', oc_active = True, oc_from = 0, oc_to = None\<rparr>], wd_cases = [], wd_caseAudit = [],
     wd_openings = [], wd_audit = [], wd_customerAudit = [], wd_nextAccount = 990000000001, wd_nextId = 1, wd_now = 1, wd_today = 1\<rparr>"

definition sample_customer :: create_customer_dto where
  "sample_customer = \<lparr>cu_msisdn = ''447700900123'', cu_firstName = ''Amina'', cu_lastName = None, cu_email = None, cu_address = None,
     cu_defaultCurrency = ''gbp'', cu_walletCode = None, cu_iban = Some ''gb29 NWBK 6016 1331 9268 19'', cu_swiftBic = None,
     cu_documentType = None, cu_issuingCountry = None\<rparr>"

definition sample_main_wallet :: cust_wallet where
  "sample_main_wallet = \<lparr>cw_msisdn = 447700900123, cw_code = 103, cw_amount = 0, cw_status = 0, cw_parent = None, cw_default = True,
     cw_currency = ''GBP'', cw_owner = 447700900123, cw_ownerType = OwnerCustomer, cw_purpose = CustomerMain,
     cw_iban = Some ''GB29NWBK60161331926819'', cw_swift = None, cw_created = 1\<rparr>"

definition sample_customer_db :: wallet_db where
  "sample_customer_db = sample_wallet_db\<lparr>
     wd_profiles := [\<lparr>cp_msisdn = 447700900123, cp_firstName = ''Amina'', cp_lastName = None, cp_email = None, cp_address = None,
       cp_kycStatus = 0, cp_status = 0\<rparr>],
     wd_wallets := [sample_main_wallet],
     wd_openings := [\<lparr>ao_id = 1, ao_customer = 447700900123, ao_code = 103, ao_currency = ''GBP'',
       ao_iban = Some ''GB29NWBK60161331926819'', ao_swift = None, ao_kycRequired = False, ao_case = None, ao_status = Opened,
       ao_wallet = Some 447700900123, ao_requestedBy = ''admin'', ao_completedBy = Some ''admin''\<rparr>],
     wd_audit := [\<lparr>wa_wallet = 447700900123, wa_owner = 447700900123, wa_operation = WalletCreate, wa_previous = None,
       wa_new = sample_main_wallet, wa_reason = Some ''Default-currency wallet created with customer'', wa_actorType = ByAdmin,
       wa_actor = ''admin''\<rparr>],
     wd_customerAudit := [
       \<lparr>ca_customer = 447700900123, ca_operation = CustomerCreate, ca_reason = ''Customer profile created for account opening'',
        ca_actor = ''admin''\<rparr>,
       \<lparr>ca_customer = 447700900123, ca_operation = AccountOpeningComplete, ca_reason = ''Default customer wallet opened'',
        ca_actor = ''admin''\<rparr>],
     wd_nextId := 2\<rparr>"

text \<open>The conversions of the request.\<close>

lemma sample_conversions [simp]:
  "upper (trim ''gbp'') = ''GBP''" "upper (trim ''GBP'') = ''GBP''" "trim ''Amina'' = ''Amina''" "code3 ''GBP'' = True"
  by code_simp+

lemma sample_bigint [simp]: "bigint ''447700900123'' = Inr 447700900123"
  by (simp add: bigint_def digits_nat_def digit_val_def is_digit_def Let_def)

lemma sample_digits: "assertOwner ''447700900123'' = Inr ()" "\<forall>c \<in> set ''0123479''. is_digit c"
  by code_simp+

lemma sample_iban [simp]: "iban_format ''GB29NWBK60161331926819'' = True" "validIbanChecksum ''GB29NWBK60161331926819'' = True"
  by code_simp+

lemma sample_routing [simp]:
  "normalizeRouting (Some ''gb29 NWBK 6016 1331 9268 19'') None = Inr (Some ''GB29NWBK60161331926819'', None)"
  by code_simp

lemma sample_account_opened:
  "run_wallet_op ''admin'' (OpCreateCustomer sample_customer) sample_wallet_db = (Inr (), sample_customer_db)"
proof -
  define s1 where "s1 = sample_wallet_db\<lparr>wd_profiles := wd_profiles sample_customer_db,
    wd_customerAudit := [hd (wd_customerAudit sample_customer_db)]\<rparr>"
  have p: "ensure_profile None 447700900123 (customer_body sample_customer) ''admin'' sample_wallet_db =
      (Inr (hd (wd_profiles sample_customer_db)), s1)"
    by (simp add: ensure_profile_def act_simps s1_def sample_wallet_db_def sample_customer_db_def new_profile_def customer_body_def
        sample_customer_def text_or_null_def)
  have w: "insertDefaultWallet 447700900123 103 ''GBP'' (Some ''GB29NWBK60161331926819'') None s1 =
      (Inr sample_main_wallet, s1\<lparr>wd_wallets := [sample_main_wallet]\<rparr>)"
    by (simp add: insertDefaultWallet_ok default_wallet_row_def s1_def sample_main_wallet_def sample_wallet_db_def wallets_saved_def
        kyc_trigger_def sample_customer_type_def ibans_def default_owners_def main_owners_def open_customer_def routing_formats_def)
  have o: "\<exists>a. open_account (hd (wd_profiles sample_customer_db)) 447700900123 103 ''GBP'' (Some ''GB29NWBK60161331926819'', None)
      False None ''admin'' s1 = (Inr a, sample_customer_db)"
    by (simp add: open_account_def act_simps w upsert_opening_def opening_of_def new_opening_def kyc_verified_def audit_wallet_def)
      (simp add: act_simps s1_def sample_customer_db_def sample_wallet_db_def sample_main_wallet_def)
  have body: "cu_msisdn (customer_body sample_customer) = ''447700900123''" "cu_defaultCurrency (customer_body sample_customer) = ''GBP''"
    "cu_walletCode (customer_body sample_customer) = None" "cu_email (customer_body sample_customer) = None"
    "cu_iban (customer_body sample_customer) = Some ''gb29 NWBK 6016 1331 9268 19''" "cu_swiftBic (customer_body sample_customer) = None"
    "customer_ok (customer_body sample_customer)"
    by (simp_all add: customer_body_def sample_customer_def customer_ok_def at_most_def sample_digits[simplified])
  have db: "active_profile 447700900123 sample_wallet_db = (Inr None, sample_wallet_db)" "operating ''GBP'' sample_wallet_db"
    "customer_type 103 sample_wallet_db = Some sample_customer_type" "wallet_by_id 447700900123 sample_wallet_db = None"
    "\<not> requiresKyc (ct_kycNeeded sample_customer_type)"
    by (simp_all add: active_profile_def act_simps profile_of_def sample_wallet_db_def operating_def customer_type_def wallet_by_id_def
        sample_customer_type_def requiresKyc_def)
  show ?thesis
    using o
    by (simp add: run_wallet_op_def checked_body_ok createCustomer_def Let_def body act_simps sample_digits db text_or_null_def
        operating_currency_check_def free_number_check_def p)
qed

lemmas sample_wallet_defs = sample_main_wallet_def sample_wallet_db_def sample_customer_db_def wallet_inv_def wallets_saved_def
  ibans_def default_owners_def main_owners_def open_customer_def routing_formats_def customer_rule_def routing_valid_def
  opening_valid_def

lemma sample_wallets_inv: "wallet_inv sample_wallet_db" "wallet_inv sample_customer_db"
  by (simp_all add: sample_wallet_defs)

text \<open>A wallet that was closed, and the one opened in its place.\<close>

definition sample_additional :: "int \<Rightarrow> int \<Rightarrow> cust_wallet" where
  "sample_additional i st = \<lparr>cw_msisdn = i, cw_code = 104, cw_amount = 0, cw_status = st, cw_parent = Some 447700900123,
     cw_default = False, cw_currency = ''GBP'', cw_owner = 447700900123, cw_ownerType = OwnerCustomer,
     cw_purpose = CustomerAdditional, cw_iban = None, cw_swift = None, cw_created = 2\<rparr>"

definition sample_closed_db :: wallet_db where
  "sample_closed_db = sample_customer_db\<lparr>wd_wallets :=
     [sample_main_wallet, sample_additional 990000000001 closed_status, sample_additional 990000000002 0]\<rparr>"

lemma sample_closed_inv: "wallet_inv sample_closed_db"
  by (simp add: sample_wallet_defs sample_closed_db_def sample_additional_def)

end
