(* ===== verification/WalletProperties.thy ===== *)
theory WalletProperties
  imports WalletSamples
begin

text \<open>
  What the wallet service guarantees: one active default wallet per customer, wallets opened for eligible customers
  only, an audit entry for every change, and account numbers in which a slip is noticed.
\<close>

lemma elsewhere_inv:
  assumes ws: "list_all2 same_but_amount (wd_wallets s) (wd_wallets t)"
    and os: "list_all2 same_but_decision (wd_openings s) (wd_openings t)" and inv: "wallet_inv s"
  shows "wallet_inv t"
proof -
  have len: "length (wd_wallets t) = length (wd_wallets s)" using ws by (simp add: list_all2_lengthD)
  define f :: "cust_wallet \<Rightarrow> cust_wallet" where "f = (\<lambda>w. w\<lparr>cw_amount := 0\<rparr>)"
  have each: "f b = f a" if "same_but_amount a b" for a b
    by (subst (1) that[unfolded same_but_amount_def]) (simp add: f_def)
  have f: "map f (wd_wallets t) = map f (wd_wallets s)"
    using len list_all2_nthD[OF ws] by (intro nth_equalityI) (auto intro: each)
  have view: "map g (filter P (wd_wallets t)) = map g (filter P (wd_wallets s))"
    if "\<And>w. g (f w) = g w" "\<And>w. P (f w) = P w" for g :: "cust_wallet \<Rightarrow> 'a" and P
  proof -
    have "map g (filter P ws) = map g (filter P (map f ws))" for ws
      by (simp add: filter_map comp_def that)
    then show ?thesis by (metis f)
  qed
  have all: "(\<forall>w \<in> set (wd_wallets t). Q w) = (\<forall>w \<in> set (wd_wallets s). Q w)" if "\<And>w. Q (f w) = Q w" for Q
  proof -
    have "(\<forall>w \<in> set ws. Q w) = (\<forall>w \<in> set (map f ws). Q w)" for ws by (simp add: that)
    then show ?thesis by (metis f)
  qed
  have "map cw_msisdn (wd_wallets t) = map cw_msisdn (wd_wallets s)"
    using view[of cw_msisdn "\<lambda>_. True"] by (simp add: f_def)
  moreover have "default_owners t = default_owners s" "main_owners t = main_owners s" "ibans t = ibans s"
    unfolding default_owners_def main_owners_def ibans_def
    by (rule view; simp add: f_def open_customer_def)+
  ultimately have saved: "wallets_saved t"
    using inv all[of routing_formats] by (simp add: wallet_inv_def wallets_saved_def list_all_iff f_def routing_formats_def)
  have ex: "(\<exists>w \<in> set (wd_wallets t). Q w) = (\<exists>w \<in> set (wd_wallets s). Q w)" if "\<And>w. Q (f w) = Q w" for Q
    using all[of "\<lambda>w. \<not> Q w"] that by blast
  have "customer_rule (wd_wallets t) w = customer_rule (wd_wallets s) w" for w
    unfolding customer_rule_def by (subst ex) (simp_all add: f_def)
  moreover have "customer_rule (wd_wallets s) (f w) = customer_rule (wd_wallets s) w" for w
    by (simp add: customer_rule_def f_def)
  moreover have "\<forall>w \<in> set (wd_wallets s). customer_rule (wd_wallets s) w" using inv by (simp add: wallet_inv_def)
  ultimately have rule: "\<forall>w \<in> set (wd_wallets t). customer_rule (wd_wallets t) w"
    using all[of "customer_rule (wd_wallets s)"] by simp
  have "\<forall>a \<in> set (wd_openings t). opening_valid a"
  proof
    fix a assume "a \<in> set (wd_openings t)"
    then obtain b where "b \<in> set (wd_openings s)" "same_but_decision b a"
      using os by (metis list_all2_conv_all_nth in_set_conv_nth)
    moreover from this(2) have "ao_iban a = ao_iban b \<and> ao_swift a = ao_swift b"
      by (cases a; cases b) (simp add: same_but_decision_def)
    ultimately show "opening_valid a" using inv by (simp add: wallet_inv_def opening_valid_def)
  qed
  with saved rule inv all[of "\<lambda>w. routing_valid (cw_iban w) (cw_swift w)"] show ?thesis
    by (simp add: wallet_inv_def f_def)
qed

lemma wallet_step_inv: "wallet_inv s \<Longrightarrow> wallet_step s t \<Longrightarrow> wallet_inv t"
proof (erule wallet_step.cases)
  fix user oper s' r t'
  assume "wallet_inv s" "s = s'" "t = t'" "run_wallet_op user oper s' = (r, t')"
  then show "wallet_inv t" using run_wallet_op_effect wallet_effect_inv by (metis wallet_inv_def)
qed (auto intro: elsewhere_inv)

interpretation wallet_machine: machine wallet_step s0 "\<lambda>s. wallet_inv s0 \<longrightarrow> wallet_inv s" for s0
  by unfold_locales (auto intro: wallet_step_inv)

lemma wallet_reach_inv: "reach wallet_step s0 s \<Longrightarrow> wallet_inv s0 \<Longrightarrow> wallet_inv s"
  using wallet_machine.reach_inv by blast

lemma default_unique:
  assumes "wallet_inv s" and "v \<in> set (wd_wallets s)" "w \<in> set (wd_wallets s)"
    and "cw_ownerType v = OwnerCustomer" "cw_ownerType w = OwnerCustomer" "cw_owner v = cw_owner w" "cw_default v" "cw_default w"
  shows "v = w"
proof -
  let ?D = "filter (\<lambda>w. open_customer w \<and> cw_default w) (wd_wallets s)"
  have "v \<in> set ?D" "w \<in> set ?D"
    using assms by (auto simp: open_customer_def wallet_inv_def customer_rule_def)
  moreover have "inj_on cw_owner (set ?D)"
    using assms(1) by (simp add: wallet_inv_def wallets_saved_def default_owners_def distinct_map)
  ultimately show ?thesis using assms(6) by (auto dest: inj_onD)
qed

section \<open>One default wallet\<close>

text \<open>
  C11 A customer who has a wallet has exactly one default wallet, whatever requests were made and whatever other
  services did meanwhile: it is the customer's main wallet and it is active.  No other wallet of the customer is a
  main wallet.
\<close>
theorem customer_default_wallet:
  assumes "wallet_inv s0" and "reach wallet_step s0 s" and "w \<in> set (wd_wallets s)" and "cw_ownerType w = OwnerCustomer"
  shows "(\<exists>!m. m \<in> set (wd_wallets s) \<and> cw_ownerType m = OwnerCustomer \<and> cw_owner m = cw_owner w \<and> cw_default m) \<and>
    (cw_default w \<longrightarrow> cw_status w = 0) \<and> (cw_default w \<longleftrightarrow> cw_purpose w = CustomerMain)"
proof (intro conjI)
  have inv: "wallet_inv s" using assms(2,1) by (rule wallet_reach_inv)
  then have r: "customer_rule (wd_wallets s) w" using assms(3) by (simp add: wallet_inv_def)
  with assms(4) obtain m where "m \<in> set (wd_wallets s)" "cw_ownerType m = OwnerCustomer" "cw_owner m = cw_owner w" "cw_default m"
    by (auto simp: customer_rule_def)
  then show "\<exists>!m. m \<in> set (wd_wallets s) \<and> cw_ownerType m = OwnerCustomer \<and> cw_owner m = cw_owner w \<and> cw_default m"
    using default_unique[OF inv] by metis
  show "cw_default w \<longrightarrow> cw_status w = 0" "cw_default w \<longleftrightarrow> cw_purpose w = CustomerMain"
    using r assms(4) by (simp_all add: customer_rule_def)
qed


lemma sample_customer_reached: "reach wallet_step sample_wallet_db sample_customer_db"
  using wallet_step.request[OF sample_account_opened] by (metis reach_init reach_step)

theorem customer_default_wallet_witness:
  "(\<exists>!m. m \<in> set (wd_wallets sample_customer_db) \<and> cw_ownerType m = OwnerCustomer \<and> cw_owner m = 447700900123 \<and> cw_default m) \<and>
    cw_status sample_main_wallet = 0 \<and> cw_purpose sample_main_wallet = CustomerMain"
  using customer_default_wallet[OF sample_wallets_inv(1) sample_customer_reached, of sample_main_wallet]
  by (simp add: sample_customer_db_def sample_main_wallet_def)

section \<open>Who gets a wallet\<close>

lemma wallet_by_id_None: "wallet_by_id i s = None \<longleftrightarrow> (\<forall>w \<in> set (wd_wallets s). cw_msisdn w \<noteq> i)"
  by (auto simp: wallet_by_id_def find_None_iff)

text \<open>
  C12 A request that leaves a new wallet adds just that one, after the wallets there were.  It is an active customer
  wallet without money, its routing details are valid, its owner has an active profile, its currency is in operation
  and its type is an active type for customers, for which the owner has an approved KYC case where the type asks for
  one.
\<close>
theorem opened_wallet_eligible:
  assumes "wallet_inv s0" and "reach wallet_step s0 s" and "run_wallet_op user oper s = (r, t)"
    and "w \<in> set (wd_wallets t)" and "wallet_by_id (cw_msisdn w) s = None"
  shows "wd_wallets t = wd_wallets s @ [w] \<and> cw_ownerType w = OwnerCustomer \<and> cw_status w = 0 \<and> cw_amount w = 0 \<and>
    routing_valid (cw_iban w) (cw_swift w) \<and> (\<exists>p \<in> set (wd_profiles t). cp_msisdn p = cw_owner w \<and> cp_status p = 0) \<and>
    operating (cw_currency w) s \<and>
    (\<exists>ty. customer_type (cw_code w) s = Some ty \<and> (requiresKyc (ct_kycNeeded ty) \<longrightarrow>
      (\<exists>c \<in> set (wd_cases s). kc_customer c = cw_owner w \<and> kc_status c = KycApproved)))"
proof -
  have "\<forall>a \<in> set (wd_openings s). opening_valid a" using wallet_reach_inv[OF assms(2,1)] by (simp add: wallet_inv_def)
  with run_wallet_op_effect[OF assms(3)] have "wallet_effect user s t" by blast
  then show ?thesis
  proof cases
    case (opened v)
    with assms(4,5) have "w = v" by (auto simp: wallet_by_id_None)
    with opened show ?thesis by (simp add: well_opened_def)
  qed (use assms(4,5) in \<open>auto simp: wallet_by_id_None moved_default_def no_longer_default_def split: if_splits\<close>)
qed

theorem opened_wallet_eligible_witness:
  "operating ''GBP'' sample_wallet_db \<and> (\<exists>p \<in> set (wd_profiles sample_customer_db). cp_msisdn p = 447700900123 \<and> cp_status p = 0)"
  using opened_wallet_eligible[OF sample_wallets_inv(1) reach_init sample_account_opened, of sample_main_wallet]
  by (simp add: sample_customer_db_def sample_wallet_db_def sample_main_wallet_def wallet_by_id_def)

section \<open>The audit\<close>

lemma wallet_by_id_map:
  "wd_wallets t = map f (wd_wallets s) \<Longrightarrow> (\<And>w. cw_msisdn (f w) = cw_msisdn w) \<Longrightarrow>
    wallet_by_id i t = map_option f (wallet_by_id i s)"
  by (simp add: wallet_by_id_def find_mapped)

lemma wallet_by_id_in: "wallets_saved s \<Longrightarrow> w \<in> set (wd_wallets s) \<Longrightarrow> wallet_by_id (cw_msisdn w) s = Some w"
proof -
  assume s: "wallets_saved s" "w \<in> set (wd_wallets s)"
  then obtain v where v: "wallet_by_id (cw_msisdn w) s = Some v"
    using wallet_by_id_None[of "cw_msisdn w" s] by (cases "wallet_by_id (cw_msisdn w) s") auto
  with wallet_id_unique[OF s(1) _ s(2), of v] wallet_by_id_Some[OF v] show ?thesis by simp
qed

text \<open>The columns that no request changes.\<close>

definition same_account :: "cust_wallet \<Rightarrow> cust_wallet \<Rightarrow> bool" where
  "same_account a b \<longleftrightarrow> cw_amount b = cw_amount a \<and> cw_owner b = cw_owner a \<and> cw_ownerType b = cw_ownerType a \<and>
     cw_currency b = cw_currency a \<and> cw_code b = cw_code a \<and> cw_parent b = cw_parent a"

text \<open>What an audit entry tells about the wallets around a request.\<close>

definition entry_tells :: "wallet_audit \<Rightarrow> wallet_db \<Rightarrow> wallet_db \<Rightarrow> bool" where
  "entry_tells a s t \<longleftrightarrow> wa_previous a = wallet_by_id (wa_wallet a) s \<and> Some (wa_new a) = wallet_by_id (wa_wallet a) t \<and>
     (\<forall>i. i \<noteq> wa_wallet a \<longrightarrow> wallet_by_id i t = wallet_by_id i s \<or>
        wa_operation a = WalletSetDefault \<and> (\<exists>m. wallet_by_id i s = Some m \<and> cw_owner m = wa_owner a \<and>
          (cw_default m \<or> cw_purpose m = CustomerMain) \<and> wallet_by_id i t = Some (no_longer_default m)))"

lemma entry_tells_update:
  assumes saved: "wallets_saved s" and w: "w \<in> set (wd_wallets s)" and t: "wd_wallets t = map f (wd_wallets s)"
    and f: "\<And>v. cw_msisdn (f v) = cw_msisdn v" "\<And>v. cw_msisdn v \<noteq> cw_msisdn w \<Longrightarrow> f v = v"
    and a: "wa_wallet a = cw_msisdn w" "wa_previous a = Some w" "wa_new a = f w"
  shows "entry_tells a s t"
proof -
  note m = wallet_by_id_map[OF t f(1)] and i = wallet_by_id_in[OF saved w]
  have "wallet_by_id j t = wallet_by_id j s" if "j \<noteq> cw_msisdn w" for j
    using that f(2) by (cases "wallet_by_id j s") (auto simp: m dest: wallet_by_id_Some)
  then show ?thesis using i a by (simp add: entry_tells_def m)
qed

lemma entry_tells_moved:
  assumes saved: "wallets_saved s" and w: "w \<in> set (wd_wallets s)" "cw_ownerType w = OwnerCustomer"
    and t: "wd_wallets t = map (moved_default (cw_owner w) (cw_msisdn w)) (wd_wallets s)"
    and a: "wa_wallet a = cw_msisdn w" "wa_previous a = Some w" "wa_new a = w\<lparr>cw_default := True, cw_purpose := CustomerMain\<rparr>"
      "wa_operation a = WalletSetDefault" "wa_owner a = cw_owner w"
  shows "entry_tells a s t"
proof -
  have m: "wallet_by_id i t = map_option (moved_default (cw_owner w) (cw_msisdn w)) (wallet_by_id i s)" for i
    by (rule wallet_by_id_map[OF t]) (simp add: moved_default_def no_longer_default_def)
  note i = wallet_by_id_in[OF saved w(1)]
  have "wallet_by_id j t = wallet_by_id j s \<or> (\<exists>m. wallet_by_id j s = Some m \<and> cw_owner m = cw_owner w \<and>
      (cw_default m \<or> cw_purpose m = CustomerMain) \<and> wallet_by_id j t = Some (no_longer_default m))" if "j \<noteq> cw_msisdn w" for j
  proof (cases "wallet_by_id j s")
    case (Some v)
    with that wallet_by_id_Some[OF Some] show ?thesis by (simp add: m moved_default_def)
  qed (simp add: m)
  moreover have "moved_default (cw_owner w) (cw_msisdn w) w = w\<lparr>cw_default := True, cw_purpose := CustomerMain\<rparr>"
    using w(2) by (simp add: moved_default_def)
  ultimately show ?thesis using i a by (simp add: entry_tells_def m)
qed

lemma find_append: "find P (xs @ ys) = (case find P xs of None \<Rightarrow> find P ys | Some x \<Rightarrow> Some x)"
  by (induction xs) auto

lemma entry_tells_opened:
  assumes saved: "wallets_saved t" and t: "wd_wallets t = wd_wallets s @ [w]"
    and a: "wa_wallet a = cw_msisdn w" "wa_previous a = None" "wa_new a = w"
  shows "entry_tells a s t"
proof -
  have new: "\<forall>v \<in> set (wd_wallets s). cw_msisdn v \<noteq> cw_msisdn w"
    using saved by (auto simp: wallets_saved_def t) (metis imageI)
  have "wallet_by_id j t = wallet_by_id j s" if "j \<noteq> cw_msisdn w" for j
    using that by (simp add: wallet_by_id_def t find_append split: option.split)
  moreover have "wallet_by_id (cw_msisdn w) s = None" using new by (simp add: wallet_by_id_None)
  moreover have "wallet_by_id (cw_msisdn w) t = Some w" using wallet_by_id_in[OF saved, of w] by (simp add: t)
  ultimately show ?thesis using a by (simp add: entry_tells_def)
qed

lemma effect_told:
  assumes "wallet_effect user s t" and saved: "wallets_saved s"
  shows "wd_wallets t = wd_wallets s \<and> wd_audit t = wd_audit s \<or>
    (\<exists>a. wd_audit t = wd_audit s @ [a] \<and> wa_actor a = user \<and> entry_tells a s t)"
  using assms(1)
proof cases
  case (opened w)
  then show ?thesis by (auto simp: wallet_audited_def intro!: entry_tells_opened)
next
  case (moved w)
  then show ?thesis using saved by (auto simp: wallet_audited_def intro!: entry_tells_moved)
next
  case (status w st)
  then obtain a where a: "wd_audit t = wd_audit s @ [a]" "wa_actor a = user" "wa_wallet a = cw_msisdn w" "wa_previous a = Some w"
      "wa_new a = w\<lparr>cw_status := st\<rparr>" by (auto simp: wallet_audited_def)
  have "entry_tells a s t" by (rule entry_tells_update[OF saved status(1,5) _ _ a(3,4)]) (auto simp: a)
  with a show ?thesis by blast
next
  case (routing w i b)
  then obtain a where a: "wd_audit t = wd_audit s @ [a]" "wa_actor a = user" "wa_wallet a = cw_msisdn w" "wa_previous a = Some w"
      "wa_new a = w\<lparr>cw_iban := i, cw_swift := b\<rparr>" by (auto simp: wallet_audited_def)
  have "entry_tells a s t" by (rule entry_tells_update[OF saved routing(1,5) _ _ a(3,4)]) (use routing(2) in \<open>auto simp: a\<close>)
  with a show ?thesis by blast
qed simp

lemma effect_same_account:
  assumes "wallet_effect user s t" and "wallet_by_id i s = Some w"
  shows "\<exists>v. wallet_by_id i t = Some v \<and> same_account w v"
  using assms(1)
proof cases
  case unchanged
  with assms(2) show ?thesis by (simp add: wallet_by_id_def same_account_def)
next
  case (opened v)
  with assms(2) show ?thesis by (simp add: wallet_by_id_def find_append same_account_def)
next
  case (moved v)
  have "wallet_by_id i t = map_option (moved_default (cw_owner v) (cw_msisdn v)) (wallet_by_id i s)"
    by (rule wallet_by_id_map[OF moved(4)]) (simp add: moved_default_def no_longer_default_def)
  with assms(2) show ?thesis by (simp add: same_account_def moved_default_def no_longer_default_def)
next
  case (status v st)
  have "wallet_by_id i t = map_option (\<lambda>u. if cw_msisdn u = cw_msisdn v then u\<lparr>cw_status := st\<rparr> else u) (wallet_by_id i s)"
    by (rule wallet_by_id_map[OF status(5)]) simp
  with assms(2) show ?thesis by (simp add: same_account_def)
next
  case (routing v x b)
  have "wallet_by_id i t = map_option (\<lambda>u. if cw_ownerType u = OwnerCustomer \<and> cw_owner u = cw_owner v \<and>
      cw_msisdn u = cw_msisdn v then u\<lparr>cw_iban := x, cw_swift := b\<rparr> else u) (wallet_by_id i s)"
    by (rule wallet_by_id_map[OF routing(5)]) simp
  with assms(2) show ?thesis by (simp add: same_account_def)
qed

text \<open>
  C23 No request moves money or gives a wallet another owner, currency or type.  A request that changes wallets writes
  exactly one audit entry, in the name of the user, that shows the wallet as it was and as it became; the other
  wallets stay as they are, except that when the default is moved the owner's former default wallet stops being it.
\<close>
theorem wallet_change_audited:
  assumes "wallet_inv s0" and "reach wallet_step s0 s" and "run_wallet_op user oper s = (r, t)"
  shows "(wd_wallets t = wd_wallets s \<and> wd_audit t = wd_audit s \<or>
      (\<exists>a. wd_audit t = wd_audit s @ [a] \<and> wa_actor a = user \<and> entry_tells a s t)) \<and>
    (\<forall>i w. wallet_by_id i s = Some w \<longrightarrow> (\<exists>v. wallet_by_id i t = Some v \<and> same_account w v))"
proof -
  have inv: "wallets_saved s" "\<forall>a \<in> set (wd_openings s). opening_valid a"
    using wallet_reach_inv[OF assms(2,1)] by (simp_all add: wallet_inv_def)
  with run_wallet_op_effect[OF assms(3)] have e: "wallet_effect user s t" by blast
  from effect_told[OF e inv(1)] effect_same_account[OF e] show ?thesis by blast
qed

theorem wallet_change_audited_witness:
  "\<exists>a. wd_audit sample_customer_db = [a] \<and> entry_tells a sample_wallet_db sample_customer_db"
  using wallet_change_audited[OF sample_wallets_inv(1) reach_init sample_account_opened]
  by (simp add: sample_customer_db_def sample_wallet_db_def)

section \<open>Account numbers\<close>


lemma valid_iban_normalized:
  "iban_format i \<Longrightarrow> validIbanChecksum i \<Longrightarrow> normalizeRouting (Some i) None = Inr (Some i, None)"
  by (auto simp: normalizeRouting_def Let_def compact_alnum[OF iban_format_alnum]) (simp_all add: compact_def iban_format_def)

text \<open>
  C26 A slip is noticed: take the account number of a wallet, replace one of its digits by another digit or one of its
  letters by another letter, or swap two different digits or two different letters anywhere in it.  The request to
  store the result is answered with an error, whatever else it asks for.
\<close>
theorem mistyped_iban_refused:
  assumes "wallet_inv s0" and "reach wallet_step s0 s" and "w \<in> set (wd_wallets s)" and "cw_iban w = Some iban"
    and "k < length iban" and "typed = iban[k := c] \<and> same_kind c (iban ! k) \<and> c \<noteq> iban ! k \<or>
      j < length iban \<and> same_kind (iban ! j) (iban ! k) \<and> iban ! j \<noteq> iban ! k \<and> typed = iban[k := iban ! j, j := iban ! k]"
  shows "updateRouting owner i \<lparr>ur_iban = Some typed, ur_swiftBic = bic\<rparr> ty actor s = (Inl (BadRequest ''IBAN is invalid''), s)"
proof -
  have "routing_valid (cw_iban w) (cw_swift w)"
    using wallet_reach_inv[OF assms(2,1)] assms(3) by (simp add: wallet_inv_def)
  then have "normalizeRouting (Some iban) None = Inr (Some iban, None)"
    using assms(4) by (intro valid_iban_normalized) (simp_all add: routing_valid_def)
  then have "normalizeRouting (Some typed) bic = Inl (BadRequest ''IBAN is invalid'')"
    using assms(5,6) mistyped_iban swapped_iban by blast
  then show ?thesis by (simp add: updateRouting_def act_then_run)
qed

theorem mistyped_iban_refused_witness:
  "fst (updateRouting 447700900123 447700900123 \<lparr>ur_iban = Some ''GB29NWBK60161331962819'', ur_swiftBic = None\<rparr>
     ByCustomer ''447700900123'' sample_customer_db) = Inl (BadRequest ''IBAN is invalid'')"
proof -
  let ?iban = "''GB29NWBK60161331926819''"
  have "17 < length ?iban" by simp
  moreover have "18 < length ?iban \<and> same_kind (?iban ! 18) (?iban ! 17) \<and> ?iban ! 18 \<noteq> ?iban ! 17 \<and>
      ''GB29NWBK60161331962819'' = ?iban[17 := ?iban ! 18, 18 := ?iban ! 17]" by code_simp
  moreover have "sample_main_wallet \<in> set (wd_wallets sample_customer_db)" "cw_iban sample_main_wallet = Some ?iban"
    by (simp_all add: sample_customer_db_def sample_main_wallet_def)
  ultimately have "updateRouting 447700900123 447700900123 \<lparr>ur_iban = Some ''GB29NWBK60161331962819'', ur_swiftBic = None\<rparr>
     ByCustomer ''447700900123'' sample_customer_db = (Inl (BadRequest ''IBAN is invalid''), sample_customer_db)"
    using mistyped_iban_refused[OF sample_wallets_inv(1) sample_customer_reached] by blast
  then show ?thesis by simp
qed

section \<open>Closed wallets\<close>

text \<open>
  C39 Closing a wallet is not final: an administrator who sets a closed customer wallet active gets it back, beside
  every wallet the customer has opened since, also one of the same type and currency, which opening a further
  wallet excludes.
\<close>
theorem closed_wallet_reopens:
  assumes "wallet_inv s0" and "reach wallet_step s0 s" and "w \<in> set (wd_wallets s)"
    and "cw_ownerType w = OwnerCustomer" and "cw_status w = closed_status"
    and "bigint number = Inr (cw_msisdn w)" and "cs_status dto = StateActive"
  shows "\<exists>t. changeStatus number dto actor s = (Inr (w\<lparr>cw_status := 0\<rparr>), t) \<and>
    w\<lparr>cw_status := 0\<rparr> \<in> set (open_wallets (cw_owner w) t) \<and>
    set (open_wallets (cw_owner w) s) \<subseteq> set (open_wallets (cw_owner w) t)"
proof -
  have inv: "wallet_inv s" using assms(2,1) by (rule wallet_reach_inv)
  then have saved: "wallets_saved s" by (simp add: wallet_inv_def)
  have rule: "\<not> cw_default w" "cw_purpose w \<noteq> CustomerMain"
    using inv assms(3-5) by (auto simp: wallet_inv_def customer_rule_def)
  define f where "f = (\<lambda>v :: cust_wallet. if cw_msisdn v = cw_msisdn w then v\<lparr>cw_status := 0\<rparr> else v)"
  define t where "t = s\<lparr>wd_wallets := map f (wd_wallets s)\<rparr>"
  have at: "f v = (if v = w then w\<lparr>cw_status := 0\<rparr> else v)" if "v \<in> set (wd_wallets s)" for v
    using wallet_id_unique[OF saved that assms(3)] by (auto simp: f_def)
  have kept: "map cw_owner (filter P (map f (wd_wallets s))) = map cw_owner (filter P (wd_wallets s))"
    if "\<not> P w" "\<not> P (w\<lparr>cw_status := 0\<rparr>)" for P
    unfolding filter_map comp_def map_map using that at
    by (intro arg_cong2[where f = map] filter_cong ext) (auto simp: f_def)
  have "default_owners t = default_owners s" "main_owners t = main_owners s"
    using kept rule by (simp_all add: default_owners_def main_owners_def t_def)
  moreover have "ibans t = ibans s" "map cw_msisdn (wd_wallets t) = map cw_msisdn (wd_wallets s)"
    by (auto simp: ibans_def t_def f_def filter_map comp_def)
  moreover have "routing_formats (f v) = routing_formats v" for v by (simp add: f_def routing_formats_def)
  then have "list_all routing_formats (wd_wallets t) = list_all routing_formats (wd_wallets s)"
    by (simp add: t_def list_all_iff)
  ultimately have t: "wallets_saved t" using saved by (simp add: wallets_saved_def)
  have "\<exists>u. changeStatus number dto actor s = (Inr (w\<lparr>cw_status := 0\<rparr>), u) \<and> wd_wallets u = wd_wallets t"
    using assms(5-7) rule wallet_by_id_in[OF saved assms(3)] t
    by (simp add: changeStatus_def Let_def status_code_def act_simps audit_wallet_def t_def f_def)
  then obtain u where u: "changeStatus number dto actor s = (Inr (w\<lparr>cw_status := 0\<rparr>), u)" "wd_wallets u = wd_wallets t" by blast
  moreover have "w\<lparr>cw_status := 0\<rparr> \<in> set (wd_wallets t)" using assms(3) at by (force simp: t_def)
  moreover have "v \<in> set (wd_wallets t)" if "v \<in> set (wd_wallets s)" "cw_status v \<noteq> closed_status" for v
    using that at[OF that(1)] assms(5) by (auto simp: t_def intro!: image_eqI[of _ f v])
  ultimately show ?thesis using assms(4) by (auto simp: open_wallets_def open_customer_def)
qed

theorem closed_wallet_reopens_witness:
  "\<exists>t. changeStatus ''990000000001'' \<lparr>cs_status = StateActive, cs_reason = ''Reopened''\<rparr> ''admin'' sample_closed_db =
      (Inr (sample_additional 990000000001 0), t) \<and>
    {sample_additional 990000000001 0, sample_additional 990000000002 0} \<subseteq> set (open_wallets 447700900123 t)"
proof -
  let ?w = "sample_additional 990000000001 closed_status"
  have w: "?w \<in> set (wd_wallets sample_closed_db)" by (simp add: sample_closed_db_def)
  have cols: "cw_ownerType ?w = OwnerCustomer" "cw_status ?w = closed_status" "cw_owner ?w = 447700900123"
      "cw_msisdn ?w = 990000000001" "?w\<lparr>cw_status := 0\<rparr> = sample_additional 990000000001 0"
    by (simp_all add: sample_additional_def)
  have other: "sample_additional 990000000002 0 \<in> set (open_wallets 447700900123 sample_closed_db)"
    by (simp add: open_wallets_def open_customer_def sample_closed_db_def) (simp add: sample_additional_def)
  have number: "bigint ''990000000001'' = Inr (cw_msisdn ?w)"
    by (simp add: cols bigint_def digits_nat_def digit_val_def is_digit_def Let_def)
  show ?thesis
    using closed_wallet_reopens[OF sample_closed_inv reach_init w cols(1,2) number,
        of "\<lparr>cs_status = StateActive, cs_reason = ''Reopened''\<rparr>" "''admin''"] other
    by (auto simp: cols)
qed

end
