(* ===== verification/Spec2Isabelle.thy ===== *)
theory Spec2Isabelle
  imports PricingProperties ChargeProperties CommissionProperties TransactionSamples ReviewProperties
    ReferenceHistory WalletProperties
begin

text \<open>
  \<^bold>\<open>A verification development of the Finify services.\<close>

  The repository is a wallet platform.  A producer (\<open>src/\<close>) takes payment requests, prices them and hands
  them to Kafka; administrators maintain charges, commissions and pricing flows under a four-eyes rule; a
  separate service (\<open>credit-rule-service/\<close>) scores customers by configurable master rules.  Before a payment is
  handed over, the database reserves its amount against the limits against money laundering (AML).  The development
  models the code that decides about money or about who may do what.

  \<^bold>\<open>The parts and their theories\<close>

  \<^item> Foundations.  \<open>Prelude\<close>: exceptions (\<open>exc\<close>), results (\<open>'a res\<close>, \<open>Inl\<close> is a throw), \<open>await\<close>, strings
    and printing.  \<open>JsValues\<close>: dynamically typed values, truthiness, property reads, number printing and
    reading.  \<open>Decimals\<close>: the interface of \<open>decimal.js\<close> as the record \<open>decimal_lib\<close> (a parameter of all
    pricing), the locale of the laws it documents and an exact interpretation.  \<open>Doubles\<close>: IEEE doubles
    where a comparison or a sum of the credit service depends on rounding.  \<open>Actions\<close>: handlers outside a
    transaction as state passing that keeps the writes before a throw, with \<open>keeps\<close> (invariants step by
    step), \<open>atomic\<close> and case rules for the first step of a run.  \<open>Postconditions\<close>: backward rules.

  \<^item> Pricing flows (\<open>src/modules/pricing-rules/pricing-flow.types.ts\<close>, \<open>pricing-flow.service.ts\<close>).
    \<open>PricingFlow\<close>: \<open>validateDefinition\<close> and its parts.  \<open>PricingWf\<close>: the well-formed definitions and that
    validation returns one.  \<open>PricingSimulation\<close>: \<open>simulate\<close>, \<open>calculateAmount\<close>, the range lookup.
    \<open>PricingLifecycle\<close>: the tables, create, update, clone, submit, approve, reject, activate and deactivate,
    \<open>findActive\<close>, the transactions as steps and the reachable databases.  \<open>PricingProperties\<close>: exclusive
    active flows, four eyes, conservation of money, the round trip through JSON.

  \<^item> Charges (\<open>src/modules/transaction/charge.service.ts\<close>, \<open>src/models/charge.model.ts\<close>).
    \<open>ConfigCache\<close>: the Redis cache shared by charges and commissions and the locale of what a cache must
    promise.  \<open>SystemWallets\<close>: the lookup of system wallets.  \<open>Charge\<close>: resolution and \<open>calculate\<close>.
    \<open>ChargeAdmin\<close>: every administrative handler.  \<open>ChargeFacts\<close>, \<open>ChargeSafety\<close>: what resolution finds and
    what the handlers keep.  \<open>ChargeProperties\<close>: termination of the resolution, conservation, four eyes and a
    coherent cache.

  \<^item> Commissions (\<open>commission.service.ts\<close>, \<open>commission.model.ts\<close>).  \<open>Commission\<close>: calculation and
    administration; \<open>CommissionProperties\<close>: who is paid what, within which bounds, on whose approval.

  \<^item> Credit rules (\<open>credit-rule-service/src/credit-rules/\<close>).  \<open>Conditions\<close> and \<open>ConditionProperties\<close>:
    \<open>condition-engine.service.ts\<close> against a Boolean formula.  \<open>CreditTypes\<close>: the tables.
    \<open>CreditEvaluation\<close>: \<open>evaluate\<close> of \<open>credit-rule-evaluator.service.ts\<close>.  \<open>CreditProperties\<close>,
    \<open>CreditSamples\<close>, \<open>CreditOutcomes\<close>: which decisions it can reach.  \<open>CreditManagement\<close>:
    the handlers of \<open>credit-rule-management.service.ts\<close>.  \<open>CreditPolicies\<close>, \<open>CreditRequests\<close>,
    \<open>CreditPublication\<close>, \<open>CreditGovernance\<close>: the invariant of the master rules, the requests as
    one operation type, that published rules stay as they are, and evaluation in every managed state.
    \<open>ManualReview\<close> and \<open>ReviewProperties\<close>: \<open>credit-manual-review.service.ts\<close>.

  \<^item> AML reservations (\<open>database/migrations/011_aml_transaction_lifecycle.sql\<close> and
    \<open>src/modules/transaction/aml-transaction.service.ts\<close>).  \<open>AmlLedger\<close>: reserve, finalize and release on the
    ledger.  \<open>AmlLimits\<close>: totals per day and month and their invariant.  \<open>AmlProperties\<close>: the limits hold in every
    reachable ledger, and where they are not checked.

  \<^item> Payments (\<open>src/modules/transaction/transaction.service.ts\<close>, \<open>transaction-request.service.ts\<close>,
    \<open>keyword.service.ts\<close>, \<open>password.service.ts\<close>).  \<open>WalletPins\<close>: PIN verification and its SQL function.
    \<open>TransactionRequests\<close>: the request rows, keywords and wallets.  \<open>Transactions\<close>: \<open>transactionprocess\<close>, which
    composes the PIN check, charges, commissions, the AML ledger and the message to Kafka.  \<open>TransactionFacts\<close>,
    \<open>TransactionProperties\<close>, \<open>TransactionSamples\<close>: what a submitted payment was checked against, and what a
    refused one leaves.

  \<^item> Reference data (\<open>src/modules/reference-data/\<close>): keywords, wallet types and AML limits under maker-checker.
    \<open>ReferenceData\<close>: the tables with their columns and constraints.  \<open>ReferenceChanges\<close>: snapshots, their writing
    and the queue.  \<open>ReferenceRequests\<close>: the request bodies, permissions and the making of changes.
    \<open>ReferenceDecisions\<close>: approve, reject and cancel.  \<open>ReferenceFacts\<close>, \<open>ReferenceSafety\<close>,
    \<open>ReferenceGovernance\<close>: what is written reads back, the invariant and its preservation.  \<open>ReferenceApproval\<close>,
    \<open>ReferenceProperties\<close>, \<open>ReferenceHistory\<close>: live records change by approval only, requests stay on record.

  \<^item> Wallets (\<open>src/modules/wallets/\<close>).  \<open>WalletRouting\<close>: account numbers and their checksum.  \<open>Wallets\<close>: the
    tables with their constraints and the KYC trigger, the queries.  \<open>WalletService\<close>: opening accounts, further
    wallets, the default wallet, statuses and routing, and the requests as one operation type.  \<open>WalletEffects\<close>:
    a request does nothing to the wallets or one of four things, a specification that every handler refines.
    \<open>WalletSafety\<close>, \<open>WalletSamples\<close>, \<open>WalletProperties\<close>: the invariant and what follows from it: one active
    default wallet per customer, eligible owners, an audit entry per change, slips in account numbers noticed.

  \<^bold>\<open>How code became definitions\<close>

  A table is a list of records in the order of insertion, a nullable column an option.  A service method
  is a function from the state (and its arguments) to a result and the state it leaves.  A throw is a value
  of \<open>exc\<close> with the message of the source.  A database transaction rolls the state back when it
  throws (\<open>transaction\<close>); constraints of the schema are checked when a row is saved.  Clocks, identifiers
  and random numbers the database or the process supplies are arguments.  Code outside the repository is
  an argument too: the decimal library, HTTP sources, hashing, the acceptance of a message by Kafka, the calendar, date
  and URL parsing, the reading of a money column, the shape of TypeORM's update results (\<open>pairs\<close>);
  what a theorem needs of one is a named hypothesis with a witness that instantiates it.

  Requests run one after the other, as in a serial execution of the transactions; interleavings inside a
  method that awaits several statements are not modelled.

  \<^bold>\<open>Termination and bounds\<close>

  The resolution of default charges and commissions follows a chain through the table; its measure is the
  number of identifiers not yet visited, so it ends on cyclic tables too.  Conditions nest at most eight
  groups after validation; \<open>evaluate\<close> recurses on the size of the condition.  No fuel is used.  Money is
  exact decimal arithmetic in the producer, and IEEE doubles in the credit service where the code adds and
  compares numbers.

  \<^bold>\<open>Not modelled\<close>

  The user interfaces only render and call the services.  The reporting parts of the administration
  backend, the accounting reports and the portal are SQL text.  The posting consumer, merchant
  integrations, onboarding, end of day, administrators' authentication
  and sanctions screening are separate components still to come.  Logging, process start, scripts and
  generated collections have no behaviour to verify.
\<close>

end
